(* ===== verification/JsPrelude.thy ===== *)
theory JsPrelude
  imports Main "HOL-Library.Multiset" "HOL-Library.Monad_Syntax"
begin

text \<open>
  What the planning services use of the language and its standard library: JSON-shaped values,
  number and index rendering, \<open>Map\<close> and \<open>Set\<close>, property reads, \<open>Array.prototype.sort\<close> with
  a comparator, \<open>String.prototype.trim\<close>.  The comparator contract of \<open>sort\<close> is the locale
  \<open>comparator\<close>; its facts are proved once here and reused by every sort of the model.
  A string is the list of its code units (values below 256).
\<close>

named_theorems option_monad "case analysis of option-valued sequences"

section \<open>Values\<close>

text \<open>
  A finite number is its sign, shortest decimal significand and exponent, which is how
  \<open>Number::toString\<close> of the language reads it: \<open>Dec s e\<close> is \<open>s * 10 ^ e\<close>, with \<open>s\<close> not a
  multiple of ten unless it is zero.
\<close>

datatype js_num = Dec int int

datatype json =
    JUndef
  | JNull
  | JBool bool
  | JNum js_num
  | JStr string
  | JArr "json list"
  | JObj "(string \<times> json) list"

type_synonym js_record = "(string \<times> json) list"

function num_strip :: "int \<Rightarrow> int \<Rightarrow> js_num" where
  "num_strip s e = (if s \<noteq> 0 \<and> s mod 10 = 0 then num_strip (s div 10) (e + 1) else Dec s e)"
  by pat_completeness auto
termination
  by (relation "measure (\<lambda>(s, e). nat \<bar>s\<bar>)") auto

declare num_strip.simps [simp del]

definition num_of_int :: "int \<Rightarrow> js_num" where
  "num_of_int i = num_strip i 0"

definition digit_char :: "nat \<Rightarrow> char" where
  "digit_char n = char_of (48 + n)"

fun nat_str :: "nat \<Rightarrow> string" where
  "nat_str n = (if n < 10 then [digit_char n] else nat_str (n div 10) @ [digit_char (n mod 10)])"

declare nat_str.simps [simp del]

definition int_str :: "int \<Rightarrow> string" where
  "int_str i = (if i < 0 then ''-'' @ nat_str (nat (- i)) else nat_str (nat i))"

text \<open>\<open>Number::toString\<close> with radix ten: \<open>k\<close> digits, decimal point at position \<open>n\<close>.\<close>

definition num_str :: "js_num \<Rightarrow> string" where
  "num_str x = (case x of Dec s e \<Rightarrow>
     (if s = 0 then ''0'' else
      let ds = nat_str (nat \<bar>s\<bar>); k = int (length ds); n = k + e;
          body =
            (if k \<le> n \<and> n \<le> 21 then ds @ replicate (nat (n - k)) (CHR ''0'')
             else if 0 < n \<and> n \<le> 21 then take (nat n) ds @ ''.'' @ drop (nat n) ds
             else if -6 < n \<and> n \<le> 0 then ''0.'' @ replicate (nat (- n)) (CHR ''0'') @ ds
             else take 1 ds @ (if k = 1 then [] else ''.'' @ drop 1 ds) @ ''e''
                  @ (if 0 \<le> n - 1 then ''+'' else ''-'') @ nat_str (nat \<bar>n - 1\<bar>))
      in (if s < 0 then ''-'' else []) @ body))"

definition num_less :: "js_num \<Rightarrow> js_num \<Rightarrow> bool" where
  "num_less x y = (case x of Dec s e \<Rightarrow> case y of Dec t f \<Rightarrow>
     (let m = min e f in s * 10 ^ nat (e - m) < t * 10 ^ nat (f - m)))"

text \<open>Property reads: a missing property is \<open>undefined\<close>.\<close>

definition obj_get :: "js_record \<Rightarrow> string \<Rightarrow> json" where
  "obj_get kvs k = (case map_of kvs k of None \<Rightarrow> JUndef | Some v \<Rightarrow> v)"

definition prop_get :: "json \<Rightarrow> string \<Rightarrow> json" where
  "prop_get v k = (case v of JObj kvs \<Rightarrow> obj_get kvs k | _ \<Rightarrow> JUndef)"

fun js_truthy :: "json \<Rightarrow> bool" where
  "js_truthy JUndef = False"
| "js_truthy JNull = False"
| "js_truthy (JBool b) = b"
| "js_truthy (JNum x) = (case x of Dec s e \<Rightarrow> s \<noteq> 0)"
| "js_truthy (JStr s) = (s \<noteq> [])"
| "js_truthy (JArr vs) = True"
| "js_truthy (JObj kvs) = True"

text \<open>White space and line terminators below code unit 256, and \<open>trim\<close>.\<close>

definition js_space :: "char \<Rightarrow> bool" where
  "js_space c = ((of_char c :: nat) \<in> {9, 10, 11, 12, 13, 32, 160})"

definition js_trim :: "string \<Rightarrow> string" where
  "js_trim s = rev (dropWhile js_space (rev (dropWhile js_space s)))"

fun js_join :: "string \<Rightarrow> string list \<Rightarrow> string" where
  "js_join sep [] = []"
| "js_join sep [s] = s"
| "js_join sep (s # t # ss) = s @ sep @ js_join sep (t # ss)"

text \<open>
  \<open>String(value)\<close>.  An object that defines its own \<open>toString\<close> or \<open>valueOf\<close> is not modelled.
\<close>

fun js_String :: "json \<Rightarrow> string" where
  "js_String JUndef = ''undefined''"
| "js_String JNull = ''null''"
| "js_String (JBool b) = (if b then ''true'' else ''false'')"
| "js_String (JNum x) = num_str x"
| "js_String (JStr s) = s"
| "js_String (JArr vs) =
     js_join '','' (map (\<lambda>v. if v = JUndef \<or> v = JNull then [] else js_String v) vs)"
| "js_String (JObj kvs) = ''[object Object]''"

section \<open>Map and Set\<close>

text \<open>\<open>new Map(entries)\<close>: a later entry of a key replaces an earlier one.\<close>

definition js_map_of :: "('k \<times> 'v) list \<Rightarrow> 'k \<rightharpoonup> 'v" where
  "js_map_of kvs = map_of (rev kvs)"

text \<open>A \<open>Set\<close> is the list of its elements in insertion order.\<close>

definition set_add :: "'a \<Rightarrow> 'a list \<Rightarrow> 'a list" where
  "set_add x xs = (if x \<in> set xs then xs else xs @ [x])"

definition set_remove :: "'a \<Rightarrow> 'a list \<Rightarrow> 'a list" where
  "set_remove x xs = filter (\<lambda>y. y \<noteq> x) xs"

definition js_default :: "'a \<Rightarrow> 'a option \<Rightarrow> 'a" where
  "js_default d x = (case x of None \<Rightarrow> d | Some v \<Rightarrow> v)"

lemma set_set_add [simp]: "set (set_add x xs) = insert x (set xs)"
  by (auto simp: set_add_def)

lemma distinct_set_add [simp]: "distinct (set_add x xs) = distinct xs"
  by (auto simp: set_add_def)

lemma set_set_remove [simp]: "set (set_remove x xs) = set xs - {x}"
  by (auto simp: set_remove_def)

lemma set_remove_last: "x \<notin> set xs \<Longrightarrow> set_remove x (xs @ [x]) = xs"
  by (simp add: set_remove_def filter_id_conv) (metis filter_True)

lemma js_default_simps [simp]: "js_default d None = d" "js_default d (Some v) = v"
  by (simp_all add: js_default_def)

lemma js_map_of_None [simp]: "js_map_of kvs k = None \<longleftrightarrow> k \<notin> fst ` set kvs"
  by (simp add: js_map_of_def map_of_eq_None_iff)

lemma js_map_of_Some_in: "js_map_of kvs k = Some v \<Longrightarrow> (k, v) \<in> set kvs"
  by (metis js_map_of_def map_of_SomeD set_rev)

lemma js_map_of_in_dom: "k \<in> fst ` set kvs \<Longrightarrow> \<exists>v. js_map_of kvs k = Some v"
  using js_map_of_None[of kvs k] by (cases "js_map_of kvs k") auto

lemma js_map_of_distinct:
  assumes "distinct (map fst kvs)" and "(k, v) \<in> set kvs"
  shows "js_map_of kvs k = Some v"
  using assms by (simp add: js_map_of_def rev_map map_of_eq_Some_iff flip: rev_map)

lemma js_map_of_keyed:
  assumes "js_map_of (map (\<lambda>x. (f x, x)) xs) k = Some x"
  shows "x \<in> set xs \<and> f x = k"
  using js_map_of_Some_in[OF assms] by auto

lemma js_map_of_keyed_distinct:
  assumes "distinct (map f xs)" and "x \<in> set xs"
  shows "js_map_of (map (\<lambda>x. (f x, x)) xs) (f x) = Some x"
  by (rule js_map_of_distinct) (use assms in \<open>auto simp: comp_def\<close>)

lemma js_map_of_keyed_None [simp]:
  "js_map_of (map (\<lambda>x. (f x, x)) xs) k = None \<longleftrightarrow> k \<notin> f ` set xs"
  by (simp add: image_image)

lemmas bind_splits [option_monad] = Option.bind_splits option.splits prod.splits

section \<open>Sorting with a comparator\<close>

fun js_insort :: "('a \<Rightarrow> 'a \<Rightarrow> int) \<Rightarrow> 'a \<Rightarrow> 'a list \<Rightarrow> 'a list" where
  "js_insort cmp x [] = [x]"
| "js_insort cmp x (y # ys) = (if cmp x y \<le> 0 then x # y # ys else y # js_insort cmp x ys)"

text \<open>\<open>Array.prototype.sort\<close> is stable: an element goes before the equal ones to its right.\<close>

definition js_sort :: "('a \<Rightarrow> 'a \<Rightarrow> int) \<Rightarrow> 'a list \<Rightarrow> 'a list" where
  "js_sort cmp xs = foldr (js_insort cmp) xs []"

lemma js_sort_simps [simp]:
  "js_sort cmp [] = []"
  "js_sort cmp (x # xs) = js_insort cmp x (js_sort cmp xs)"
  by (simp_all add: js_sort_def)

lemma mset_js_insort [simp]: "mset (js_insort cmp x xs) = add_mset x (mset xs)"
  by (induction xs) auto

lemma mset_js_sort [simp]: "mset (js_sort cmp xs) = mset xs"
  by (induction xs) auto

lemma set_js_insort [simp]: "set (js_insort cmp x xs) = insert x (set xs)"
  using mset_eq_setD[of "js_insort cmp x xs" "x # xs"] by simp

lemma set_js_sort [simp]: "set (js_sort cmp xs) = set xs"
  using mset_eq_setD[of "js_sort cmp xs" xs] by simp

lemma length_js_sort [simp]: "length (js_sort cmp xs) = length xs"
  using mset_eq_length[of "js_sort cmp xs" xs] by simp

lemma distinct_js_sort [simp]: "distinct (js_sort cmp xs) = distinct xs"
  using mset_eq_imp_distinct_iff[of "js_sort cmp xs" xs] by simp

lemma js_insort_cong:
  "(\<And>y. y \<in> set ys \<Longrightarrow> cmp x y = cmp' x y) \<Longrightarrow> js_insort cmp x ys = js_insort cmp' x ys"
  by (induction ys) auto

lemma js_sort_cong:
  "(\<And>x y. x \<in> set xs \<Longrightarrow> y \<in> set xs \<Longrightarrow> cmp x y = cmp' x y) \<Longrightarrow> js_sort cmp xs = js_sort cmp' xs"
proof (induction xs)
  case (Cons x xs)
  then have "js_sort cmp xs = js_sort cmp' xs" by simp
  moreover have "js_insort cmp x (js_sort cmp' xs) = js_insort cmp' x (js_sort cmp' xs)"
    by (rule js_insort_cong) (use Cons.prems in auto)
  ultimately show ?case by simp
qed simp

lemma js_sort_sorted_id:
  "sorted_wrt (\<lambda>x y. cmp x y \<le> 0) xs \<Longrightarrow> js_sort cmp xs = xs"
proof (induction xs)
  case (Cons x xs)
  then show ?case by (cases xs) auto
qed simp

text \<open>The contract the language asks of a comparator: a consistent total preorder.\<close>

locale comparator =
  fixes cmp :: "'a \<Rightarrow> 'a \<Rightarrow> int"
  assumes cmp_refl: "cmp x x = 0"
    and cmp_sym: "cmp x y < 0 \<longleftrightarrow> 0 < cmp y x"
    and cmp_trans: "cmp x y \<le> 0 \<Longrightarrow> cmp y z \<le> 0 \<Longrightarrow> cmp x z \<le> 0"
begin

lemma cmp_total: "\<not> cmp x y \<le> 0 \<Longrightarrow> cmp y x \<le> 0"
  using cmp_sym[of y x] by simp

lemma cmp_zero_sym: "cmp x y = 0 \<Longrightarrow> cmp y x = 0"
  using cmp_sym[of x y] cmp_sym[of y x] by linarith

lemma sorted_insort:
  "sorted_wrt (\<lambda>x y. cmp x y \<le> 0) xs \<Longrightarrow> sorted_wrt (\<lambda>x y. cmp x y \<le> 0) (js_insort cmp x xs)"
  by (induction xs) (auto dest: cmp_total intro: cmp_trans)

lemma sorted_sort: "sorted_wrt (\<lambda>x y. cmp x y \<le> 0) (js_sort cmp xs)"
  by (induction xs) (auto intro: sorted_insort)

lemma sorted_unique:
  assumes "sorted_wrt (\<lambda>x y. cmp x y \<le> 0) xs" and "sorted_wrt (\<lambda>x y. cmp x y \<le> 0) ys"
    and "mset xs = mset ys"
    and "\<And>x y. x \<in> set xs \<Longrightarrow> y \<in> set xs \<Longrightarrow> cmp x y = 0 \<Longrightarrow> x = y"
  shows "xs = ys"
  using assms
proof (induction xs arbitrary: ys)
  case (Cons x xs)
  obtain y ys' where ys: "ys = y # ys'"
    using Cons.prems(3) by (cases ys) auto
  have seteq: "set (x # xs) = set ys"
    using Cons.prems(3) by (rule mset_eq_setD)
  have "x = y"
  proof (rule ccontr)
    assume ne: "x \<noteq> y"
    have "x \<in> set ys'" and y: "y \<in> set xs"
      using seteq ys ne by auto
    then have "cmp y x \<le> 0" and "cmp x y \<le> 0"
      using Cons.prems(1,2) ys by auto
    then have "cmp x y = 0"
      using cmp_sym[of x y] by linarith
    with Cons.prems(4)[of x y] y ne show False by simp
  qed
  moreover have "xs = ys'"
    using Cons.prems ys \<open>x = y\<close> by (intro Cons.IH) auto
  ultimately show ?case using ys by simp
qed simp

lemma sort_perm_eq:
  assumes "mset xs = mset ys"
    and "\<And>x y. x \<in> set xs \<Longrightarrow> y \<in> set xs \<Longrightarrow> cmp x y = 0 \<Longrightarrow> x = y"
  shows "js_sort cmp xs = js_sort cmp ys"
  by (rule sorted_unique[OF sorted_sort sorted_sort]) (use assms in auto)

lemma sort_idem: "js_sort cmp (js_sort cmp xs) = js_sort cmp xs"
  by (rule js_sort_sorted_id) (rule sorted_sort)

end

text \<open>The default order of \<open>sort()\<close>: by code units.\<close>

fun code_unit_compare :: "string \<Rightarrow> string \<Rightarrow> int" where
  "code_unit_compare [] [] = 0"
| "code_unit_compare [] (y # ys) = -1"
| "code_unit_compare (x # xs) [] = 1"
| "code_unit_compare (x # xs) (y # ys) =
     (if (of_char x :: nat) < of_char y then -1
      else if (of_char y :: nat) < of_char x then 1
      else code_unit_compare xs ys)"

lemma code_unit_compare_eq_0 [simp]: "code_unit_compare s t = 0 \<longleftrightarrow> s = t"
proof (induction s t rule: code_unit_compare.induct)
  case (4 x xs y ys)
  have "(of_char x :: nat) = of_char y \<longleftrightarrow> x = y" by simp
  then show ?case using 4 by (auto simp del: of_char_eq_iff)
qed auto

lemma code_unit_compare_sym: "code_unit_compare s t < 0 \<longleftrightarrow> 0 < code_unit_compare t s"
  by (induction s t rule: code_unit_compare.induct) auto

lemma code_unit_compare_trans:
  "code_unit_compare s t \<le> 0 \<Longrightarrow> code_unit_compare t u \<le> 0 \<Longrightarrow> code_unit_compare s u \<le> 0"
proof (induction s u arbitrary: t rule: code_unit_compare.induct)
  case (4 x xs z zs)
  then show ?case by (cases t) (auto split: if_splits)
next
  case (3 x xs)
  then show ?case by (cases t) auto
qed auto

interpretation code_units: comparator code_unit_compare
  by unfold_locales (use code_unit_compare_sym code_unit_compare_trans in auto)

text \<open>Comparing by a key keeps the contract, and so does breaking ties by a second comparator.\<close>

definition cmp_on :: "('a \<Rightarrow> 'b) \<Rightarrow> ('b \<Rightarrow> 'b \<Rightarrow> int) \<Rightarrow> 'a \<Rightarrow> 'a \<Rightarrow> int" where
  "cmp_on f cmp x y = cmp (f x) (f y)"

definition cmp_or :: "('a \<Rightarrow> 'a \<Rightarrow> int) \<Rightarrow> ('a \<Rightarrow> 'a \<Rightarrow> int) \<Rightarrow> 'a \<Rightarrow> 'a \<Rightarrow> int" where
  "cmp_or c d x y = (if c x y \<noteq> 0 then c x y else d x y)"

lemma comparator_on: "comparator cmp \<Longrightarrow> comparator (cmp_on f cmp)"
  unfolding comparator_def cmp_on_def by blast

lemma comparator_or:
  assumes "comparator c" and "comparator d"
  shows "comparator (cmp_or c d)"
proof -
  note cr = comparator.cmp_refl[OF assms(1)] and cs = comparator.cmp_sym[OF assms(1)]
    and ct = comparator.cmp_trans[OF assms(1)] and cz = comparator.cmp_zero_sym[OF assms(1)]
  note dr = comparator.cmp_refl[OF assms(2)] and ds = comparator.cmp_sym[OF assms(2)]
    and dt = comparator.cmp_trans[OF assms(2)]
  show ?thesis
  proof
    show "cmp_or c d x x = 0" for x by (simp add: cmp_or_def cr dr)
    show "cmp_or c d x y < 0 \<longleftrightarrow> 0 < cmp_or c d y x" for x y
      using cs[of x y] cs[of y x] cz[of x y] cz[of y x] ds[of x y] by (auto simp: cmp_or_def)
    show "cmp_or c d x z \<le> 0" if "cmp_or c d x y \<le> 0" "cmp_or c d y z \<le> 0" for x y z
    proof -
      have xy: "c x y \<le> 0" and yz: "c y z \<le> 0"
        using that by (auto simp: cmp_or_def split: if_splits)
      have xz: "c x z \<le> 0" using ct[OF xy yz] .
      show ?thesis
      proof (cases "c x z = 0")
        case True
        have "c z x \<le> 0" using cz[OF True] by simp
        then have "c y x \<le> 0" and "c z y \<le> 0"
          using ct[OF yz] ct[OF _ xy] by blast+
        then have "c x y = 0" and "c y z = 0"
          using xy yz cs[of x y] cs[of y z] by linarith+
        then show ?thesis using that True dt by (simp add: cmp_or_def)
      next
        case False
        then show ?thesis using xz by (simp add: cmp_or_def)
      qed
    qed
  qed
qed

lemma comparator_diff: "comparator (\<lambda>x y. (x :: int) - y)"
  by unfold_locales auto

end
