(* ===== verification/Digraph.thy ===== *)
theory Digraph
  imports JsPrelude
begin

text \<open>
  Finite directed graphs given by an adjacency function, as the planning services keep them in a
  \<open>Map\<close> from step ids to neighbour lists.  The locale \<open>finite_digraph\<close> is the interface of
  every depth-first search of the model: a finite vertex set the adjacency does not leave.  The
  relational facts say when a finished vertex set is acyclic and stays so.
\<close>

definition adj_rel :: "('a \<Rightarrow> 'a list) \<Rightarrow> ('a \<times> 'a) set" where
  "adj_rel adj = {(u, v). v \<in> set (adj u)}"

definition closed_acyclic :: "('a \<times> 'a) set \<Rightarrow> 'a set \<Rightarrow> bool" where
  "closed_acyclic R F \<longleftrightarrow> R `` F \<subseteq> F \<and> acyclic (R \<inter> F \<times> F)"

text \<open>A walk along the relation.\<close>

fun walk :: "('a \<times> 'a) set \<Rightarrow> 'a list \<Rightarrow> bool" where
  "walk R [] = True"
| "walk R [x] = True"
| "walk R (x # y # zs) = ((x, y) \<in> R \<and> walk R (y # zs))"

lemma adj_rel_iff [simp]: "(u, v) \<in> adj_rel adj \<longleftrightarrow> v \<in> set (adj u)"
  by (simp add: adj_rel_def)

lemma closed_trancl:
  assumes "(u, v) \<in> R\<^sup>+" and "R `` F \<subseteq> F" and "u \<in> F"
  shows "v \<in> F \<and> (u, v) \<in> (R \<inter> F \<times> F)\<^sup>+"
  using assms
proof (induction rule: trancl_induct)
  case (base y)
  then show ?case by (auto intro: r_into_trancl)
next
  case (step y z)
  then have "y \<in> F" "(u, y) \<in> (R \<inter> F \<times> F)\<^sup>+" by auto
  moreover from this step have "(y, z) \<in> R \<inter> F \<times> F" by auto
  ultimately show ?case by (auto intro: trancl_into_trancl)
qed

lemma closed_acyclic_no_loop: "closed_acyclic R F \<Longrightarrow> u \<in> F \<Longrightarrow> (u, u) \<notin> R\<^sup>+"
  using closed_trancl[of u u R F] by (auto simp: closed_acyclic_def acyclic_def)

lemma closed_acyclic_empty [simp]: "closed_acyclic R {}"
  by (simp add: closed_acyclic_def acyclic_def)

lemma closed_acyclic_insert:
  assumes "closed_acyclic R F" and "R `` {v} \<subseteq> F" and "v \<notin> F"
  shows "closed_acyclic R (insert v F)"
proof -
  let ?S = "R \<inter> insert v F \<times> insert v F"
  have F: "R `` F \<subseteq> F" using assms(1) by (simp add: closed_acyclic_def)
  have "(u, u) \<notin> ?S\<^sup>+" for u
  proof
    assume loop: "(u, u) \<in> ?S\<^sup>+"
    then have uu: "(u, u) \<in> R\<^sup>+" by (rule trancl_mono) blast
    from loop have u: "u \<in> insert v F" by (auto dest: tranclD)
    show False
    proof (cases "u \<in> F")
      case True
      then show False using closed_acyclic_no_loop[OF assms(1)] uu by blast
    next
      case False
      with u have uv: "u = v" by simp
      from uu uv obtain w where "(v, w) \<in> R" and w: "(w, v) \<in> R\<^sup>*"
        by (auto dest: tranclD)
      then have "w \<in> F" using assms(2) by blast
      moreover have "w \<noteq> v" using \<open>w \<in> F\<close> assms(3) by blast
      ultimately have "v \<in> F" using closed_trancl[of w v R F, OF _ F] w by (auto dest: rtranclD)
      with assms(3) show False by simp
    qed
  qed
  then have "acyclic ?S" by (simp add: acyclic_def)
  moreover have "R `` insert v F \<subseteq> insert v F" using F assms(2) by blast
  ultimately show ?thesis by (simp add: closed_acyclic_def)
qed

lemma walk_append:
  "walk R (xs @ [x]) \<Longrightarrow> (x, y) \<in> R \<Longrightarrow> walk R (xs @ [x, y])"
  by (induction R xs rule: walk.induct) auto

lemma walk_snoc: "walk R xs \<Longrightarrow> (xs \<noteq> [] \<Longrightarrow> (last xs, y) \<in> R) \<Longrightarrow> walk R (xs @ [y])"
proof (cases "xs = []")
  case False
  assume "walk R xs" and "xs \<noteq> [] \<Longrightarrow> (last xs, y) \<in> R"
  with False have "walk R (butlast xs @ [last xs, y])"
    by (intro walk_append) auto
  moreover have "butlast xs @ [last xs, y] = xs @ [y]"
    using False by (metis append_butlast_last_id append_Cons append_Nil append_assoc)
  ultimately show ?thesis by simp
qed simp

lemma walk_tl: "walk R (x # xs) \<Longrightarrow> walk R xs"
  by (cases xs) auto

lemma walk_butlast: "walk R (xs @ [x]) \<Longrightarrow> walk R xs"
  by (induction R xs rule: walk.induct) auto

lemma dropWhile_neq_hd: "s \<in> set xs \<Longrightarrow> \<exists>d. dropWhile (\<lambda>x. x \<noteq> s) xs = s # d"
  by (induction xs) auto

lemma walk_dropWhile: "walk R xs \<Longrightarrow> walk R (dropWhile P xs)"
  by (induction xs) (auto dest: walk_tl)

lemma walk_trancl: "walk R (x # xs) \<Longrightarrow> xs \<noteq> [] \<Longrightarrow> (x, last xs) \<in> R\<^sup>+"
proof (induction xs arbitrary: x)
  case (Cons y ys)
  then show ?case by (cases "ys = []") (auto intro: trancl_into_trancl2)
qed simp

text \<open>A walk of at least two vertices from a vertex back to itself.\<close>

definition closed_walk :: "('a \<times> 'a) set \<Rightarrow> 'a list \<Rightarrow> bool" where
  "closed_walk R p \<longleftrightarrow> 2 \<le> length p \<and> hd p = last p \<and> walk R p"

lemma closed_walk_loop: "closed_walk R p \<Longrightarrow> (hd p, hd p) \<in> R\<^sup>+"
  using walk_trancl[of R "hd p" "tl p"] by (cases p) (auto simp: closed_walk_def split: if_splits)

lemma closed_walk_not_acyclic: "closed_walk R p \<Longrightarrow> \<not> acyclic R"
  using closed_walk_loop by (auto simp: acyclic_def)

lemma finite_acyclic_maximal:
  assumes "finite A" and "A \<noteq> {}" and "acyclic R"
  shows "\<exists>x \<in> A. \<forall>y \<in> A. (x, y) \<notin> R"
proof -
  have "wf ((R \<inter> A \<times> A)\<inverse>)"
    by (rule finite_acyclic_wf_converse)
       (use assms in \<open>auto intro: finite_subset[of _ "A \<times> A"] acyclic_subset\<close>)
  then show ?thesis using assms(2) by (auto simp: wf_eq_minimal dest!: spec[of _ A])
qed

text \<open>The interface of the searches.\<close>

locale finite_digraph =
  fixes adj :: "'a \<Rightarrow> 'a list" and V :: "'a set"
  assumes finite_V: "finite V"
    and adj_in: "v \<in> V \<Longrightarrow> set (adj v) \<subseteq> V"
    and adj_out: "v \<notin> V \<Longrightarrow> adj v = []"
begin

lemma card_remaining_less:
  "v \<in> V \<Longrightarrow> v \<notin> A \<Longrightarrow> A \<subseteq> B \<Longrightarrow> v \<in> B \<Longrightarrow> card (V - B) < card (V - A)"
  using finite_V by (intro psubset_card_mono) auto

lemma card_remaining_mono: "A \<subseteq> B \<Longrightarrow> card (V - B) \<le> card (V - A)"
  using finite_V by (intro card_mono) auto

lemma rel_subset: "adj_rel adj \<subseteq> V \<times> V"
  using adj_in adj_out by (force simp: adj_rel_def)

lemma finite_rel: "finite (adj_rel adj)"
  using rel_subset finite_V by (auto intro: finite_subset)

lemma closed_V_acyclic: "closed_acyclic (adj_rel adj) F \<Longrightarrow> V \<subseteq> F \<Longrightarrow> acyclic (adj_rel adj)"
proof -
  assume F: "closed_acyclic (adj_rel adj) F" and "V \<subseteq> F"
  then have "adj_rel adj \<inter> F \<times> F = adj_rel adj" using rel_subset by blast
  with F show ?thesis by (simp add: closed_acyclic_def)
qed

lemma acyclic_wf: "acyclic (adj_rel adj) \<Longrightarrow> wf ((adj_rel adj)\<inverse>)"
  using finite_rel by (rule finite_acyclic_wf_converse)

end

section \<open>Ancestors along a parent function\<close>

text \<open>\<open>(u, v)\<close> when \<open>u\<close> is a parent of \<open>v\<close>.\<close>

definition par_rel :: "('a \<Rightarrow> 'a list) \<Rightarrow> ('a \<times> 'a) set" where
  "par_rel par = {(u, v). u \<in> set (par v)}"

definition ancestors_of :: "('a \<Rightarrow> 'a list) \<Rightarrow> 'a \<Rightarrow> 'a set" where
  "ancestors_of par v = {u. (u, v) \<in> (par_rel par)\<^sup>+}"

lemma ancestors_of_parents:
  "ancestors_of par v = (\<Union>p \<in> set (par v). insert p (ancestors_of par p))"
proof -
  have "(u, v) \<in> (par_rel par)\<^sup>+ \<longleftrightarrow> (\<exists>p \<in> set (par v). u = p \<or> (u, p) \<in> (par_rel par)\<^sup>+)" for u
    by (subst trancl_unfold) (auto simp: par_rel_def relcomp_unfold)
  then show ?thesis by (auto simp: ancestors_of_def)
qed

context finite_digraph
begin

lemma ancestors_in: "ancestors_of adj v \<subseteq> V"
proof
  fix u assume "u \<in> ancestors_of adj v"
  then obtain w where "(u, w) \<in> par_rel adj" by (auto simp: ancestors_of_def dest: tranclD)
  then have "u \<in> set (adj w)" by (simp add: par_rel_def)
  then show "u \<in> V" using adj_in adj_out by (cases "w \<in> V") auto
qed

lemma finite_ancestors: "finite (ancestors_of adj v)"
  using ancestors_in finite_V by (rule finite_subset)

lemma card_parent:
  assumes "acyclic (par_rel adj)" and "p \<in> set (adj v)"
  shows "card (ancestors_of adj p) < card (ancestors_of adj v)"
proof (rule psubset_card_mono[OF finite_ancestors])
  have "p \<notin> ancestors_of adj p" using assms(1) by (auto simp: ancestors_of_def acyclic_def)
  moreover have "insert p (ancestors_of adj p) \<subseteq> ancestors_of adj v"
    using assms(2) by (subst (2) ancestors_of_parents) blast
  ultimately show "ancestors_of adj p \<subset> ancestors_of adj v" by blast
qed

end

end
