(* ===== verification/DfsScan.thy ===== *)
theory DfsScan
  imports Digraph
begin

text \<open>
  The depth-first cycle scan that the planning services write twice
  (\<open>validation/structural/graph-cycle-detector.ts\<close> and \<open>dfs\<close> in \<open>schema/schema-validator.ts\<close>): a
  \<open>visiting\<close> and a \<open>visited\<close> set, a report when a vertex is met again while it is being visited,
  and no early exit.  \<open>rpt\<close> is how a report is recorded: an element of a set, or one more issue.
  The lemmas say that the scan returns, that it reports nothing exactly on acyclic graphs, and that
  every reported vertex lies on a cycle.
\<close>

record 'v ScanState =
  dv_visiting :: "'v list"
  dv_visited :: "'v list"
  dv_found :: "'v list"

fun scan_visit ::
  "nat \<Rightarrow> ('v \<Rightarrow> 'v list \<Rightarrow> 'v list) \<Rightarrow> ('v \<Rightarrow> 'v list) \<Rightarrow> 'v \<Rightarrow> 'v ScanState \<Rightarrow> 'v ScanState option"
  and scan_all ::
  "nat \<Rightarrow> ('v \<Rightarrow> 'v list \<Rightarrow> 'v list) \<Rightarrow> ('v \<Rightarrow> 'v list) \<Rightarrow> 'v list \<Rightarrow> 'v ScanState \<Rightarrow> 'v ScanState option"
where
  "scan_visit 0 rpt adj s st = None"
| "scan_visit (Suc n) rpt adj s st =
     (if s \<in> set (dv_visiting st) then Some (st\<lparr>dv_found := rpt s (dv_found st)\<rparr>)
      else if s \<in> set (dv_visited st) then Some st
      else do {
        st' \<leftarrow> scan_all n rpt adj (adj s) (st\<lparr>dv_visiting := set_add s (dv_visiting st)\<rparr>);
        Some (st'\<lparr>dv_visiting := set_remove s (dv_visiting st'),
                  dv_visited := set_add s (dv_visited st')\<rparr>)
      })"
| "scan_all n rpt adj [] st = Some st"
| "scan_all n rpt adj (s # ss) st = do {
     st' \<leftarrow> scan_visit n rpt adj s st;
     scan_all n rpt adj ss st'
   }"

definition emptyScan :: "'v ScanState" where
  "emptyScan = \<lparr>dv_visiting = [], dv_visited = [], dv_found = []\<rparr>"

text \<open>Every recording keeps what is recorded and adds the vertex.\<close>

definition records :: "('v \<Rightarrow> 'v list \<Rightarrow> 'v list) \<Rightarrow> bool" where
  "records rpt \<longleftrightarrow> (\<forall>s found. set (rpt s found) = insert s (set found))"

lemma records_set_add [simp]: "records set_add"
  by (simp add: records_def)

lemma records_append [simp]: "records (\<lambda>s found. found @ [s])"
  by (simp add: records_def)

section \<open>The scan returns\<close>

context finite_digraph
begin

lemma scan_all_enough_lift:
  assumes "\<And>s st. s \<in> V \<Longrightarrow> card (V - set (dv_visiting st)) < n \<Longrightarrow>
      \<exists>st'. scan_visit n rpt adj s st = Some st' \<and> set (dv_visiting st') = set (dv_visiting st)"
    and "set xs \<subseteq> V" and "card (V - set (dv_visiting st)) < n"
  shows "\<exists>st'. scan_all n rpt adj xs st = Some st' \<and> set (dv_visiting st') = set (dv_visiting st)"
  using assms(2,3)
proof (induction xs arbitrary: st)
  case (Cons x xs)
  then obtain st' where "scan_visit n rpt adj x st = Some st'" "set (dv_visiting st') = set (dv_visiting st)"
    using assms(1)[of x st] by auto
  moreover from this Cons.prems Cons.IH[of st'] obtain st'' where
    "scan_all n rpt adj xs st' = Some st''" "set (dv_visiting st'') = set (dv_visiting st')" by auto
  ultimately show ?case by simp
qed simp

lemma scan_visit_enough:
  "s \<in> V \<Longrightarrow> card (V - set (dv_visiting st)) < n \<Longrightarrow>
     \<exists>st'. scan_visit n rpt adj s st = Some st' \<and> set (dv_visiting st') = set (dv_visiting st)"
proof (induction n arbitrary: s st)
  case (Suc n)
  show ?case
  proof (cases "s \<in> set (dv_visiting st) \<or> s \<in> set (dv_visited st)")
    case False
    let ?st = "st\<lparr>dv_visiting := set_add s (dv_visiting st)\<rparr>"
    have "card (V - set (dv_visiting ?st)) < card (V - set (dv_visiting st))"
      using False Suc.prems(1) finite_V by (intro psubset_card_mono) auto
    then have "card (V - set (dv_visiting ?st)) < n" using Suc.prems(2) by linarith
    then obtain st' where "scan_all n rpt adj (adj s) ?st = Some st'"
      "set (dv_visiting st') = set (dv_visiting ?st)"
      using scan_all_enough_lift[OF Suc.IH adj_in[OF Suc.prems(1)], of ?st] by blast
    then show ?thesis using False by simp
  qed auto
qed simp

lemma scan_all_enough:
  "set xs \<subseteq> V \<Longrightarrow> card (V - set (dv_visiting st)) < n \<Longrightarrow>
     \<exists>st'. scan_all n rpt adj xs st = Some st' \<and> set (dv_visiting st') = set (dv_visiting st)"
  using scan_all_enough_lift[OF scan_visit_enough] by blast

lemma scan_returns:
  assumes "set xs \<subseteq> V" and "card V < n"
  shows "\<exists>st. scan_all n rpt adj xs emptyScan = Some st"
  using scan_all_enough[OF assms(1), of emptyScan n rpt] assms(2) by (auto simp: emptyScan_def)

end

section \<open>What it reports\<close>

text \<open>Every vertex being visited reaches the vertices about to be visited.\<close>

definition scan_pre :: "('v \<Rightarrow> 'v list) \<Rightarrow> 'v ScanState \<Rightarrow> 'v list \<Rightarrow> bool" where
  "scan_pre adj st xs \<longleftrightarrow> (\<forall>a \<in> set (dv_visiting st). \<forall>x \<in> set xs. (a, x) \<in> (adj_rel adj)\<^sup>+)"

definition scan_post :: "('v \<Rightarrow> 'v list) \<Rightarrow> 'v ScanState \<Rightarrow> 'v list \<Rightarrow> 'v ScanState \<Rightarrow> bool" where
  "scan_post adj st xs st' \<longleftrightarrow>
     set (dv_visiting st') = set (dv_visiting st) \<and> set (dv_found st) \<subseteq> set (dv_found st') \<and>
     set (dv_found st') \<subseteq> set (dv_found st) \<union> {v. (v, v) \<in> (adj_rel adj)\<^sup>+} \<and>
     (set (dv_found st') = {} \<longrightarrow>
        (closed_acyclic (adj_rel adj) (set (dv_visited st)) \<longrightarrow> closed_acyclic (adj_rel adj) (set (dv_visited st'))) \<and>
        set (dv_visited st) \<union> set xs \<subseteq> set (dv_visited st'))"

lemma scan_all_post_lift:
  assumes "\<And>s st st'. scan_pre adj st [s] \<Longrightarrow> scan_visit n rpt adj s st = Some st' \<Longrightarrow>
      scan_post adj st [s] st'"
    and "scan_pre adj st xs" and "scan_all n rpt adj xs st = Some st'"
  shows "scan_post adj st xs st'"
  using assms(2,3)
proof (induction xs arbitrary: st)
  case Nil
  then show ?case by (auto simp: scan_post_def)
next
  case (Cons x xs)
  from Cons.prems(2) obtain st1 where x: "scan_visit n rpt adj x st = Some st1"
    and rest: "scan_all n rpt adj xs st1 = Some st'" by (auto split: Option.bind_splits)
  have post: "scan_post adj st [x] st1"
    by (rule assms(1)[OF _ x]) (use Cons.prems(1) in \<open>simp add: scan_pre_def\<close>)
  then have "scan_pre adj st1 xs" using Cons.prems(1) by (simp add: scan_pre_def scan_post_def)
  from Cons.IH[OF this rest] post show ?case unfolding scan_post_def by auto
qed

lemma scan_pre_push:
  assumes "scan_pre adj st [s]"
  shows "scan_pre adj (st\<lparr>dv_visiting := set_add s (dv_visiting st)\<rparr>) (adj s)"
proof -
  have "(a, x) \<in> (adj_rel adj)\<^sup>+" if "x \<in> set (adj s)" "a = s \<or> a \<in> set (dv_visiting st)" for a x
  proof -
    have "(s, x) \<in> adj_rel adj" using that(1) by simp
    with that(2) assms show ?thesis by (auto simp: scan_pre_def intro: trancl_into_trancl)
  qed
  then show ?thesis by (auto simp: scan_pre_def)
qed

lemma scan_visit_post:
  assumes "records rpt"
  shows "scan_pre adj st [s] \<Longrightarrow> scan_visit n rpt adj s st = Some st' \<Longrightarrow> scan_post adj st [s] st'"
proof (induction n arbitrary: s st st')
  case (Suc n)
  consider (again) "s \<in> set (dv_visiting st)" | (finished) "s \<notin> set (dv_visiting st)" "s \<in> set (dv_visited st)"
    | (new) "s \<notin> set (dv_visiting st)" "s \<notin> set (dv_visited st)" by blast
  then show ?case
  proof cases
    case again
    then have st': "st' = st\<lparr>dv_found := rpt s (dv_found st)\<rparr>" using Suc.prems(2) by simp
    have "(s, s) \<in> (adj_rel adj)\<^sup>+" using again Suc.prems(1) by (simp add: scan_pre_def)
    then show ?thesis unfolding st' using assms by (auto simp: scan_post_def records_def)
  next
    case finished
    then show ?thesis using Suc.prems(2) by (auto simp: scan_post_def)
  next
    case new
    let ?st = "st\<lparr>dv_visiting := set_add s (dv_visiting st)\<rparr>"
    from new Suc.prems(2) obtain st1 where run: "scan_all n rpt adj (adj s) ?st = Some st1"
      and st': "st' = st1\<lparr>dv_visiting := set_remove s (dv_visiting st1), dv_visited := set_add s (dv_visited st1)\<rparr>"
      by (auto split: Option.bind_splits)
    have post: "scan_post adj ?st (adj s) st1"
      by (rule scan_all_post_lift[OF Suc.IH scan_pre_push[OF Suc.prems(1)] run])
    have closed: "closed_acyclic (adj_rel adj) (insert s (set (dv_visited st1)))"
      if "closed_acyclic (adj_rel adj) (set (dv_visited st1))" "set (adj s) \<subseteq> set (dv_visited st1)"
    proof (cases "s \<in> set (dv_visited st1)")
      case True
      then show ?thesis using that(1) by (simp add: insert_absorb)
    next
      case False
      then show ?thesis using that by (intro closed_acyclic_insert) auto
    qed
    show ?thesis using post new closed unfolding st' scan_post_def by auto
  qed
qed simp

lemma scan_all_post:
  "records rpt \<Longrightarrow> scan_pre adj st xs \<Longrightarrow> scan_all n rpt adj xs st = Some st' \<Longrightarrow> scan_post adj st xs st'"
  by (rule scan_all_post_lift) (rule scan_visit_post)

text \<open>A scan of all vertices with outgoing edges.\<close>

lemma scan_correct:
  assumes "records rpt" and "scan_all n rpt adj xs emptyScan = Some st"
    and "\<And>u v. (u, v) \<in> adj_rel adj \<Longrightarrow> u \<in> set xs"
  shows "dv_found st = [] \<longleftrightarrow> acyclic (adj_rel adj)"
    and "set (dv_found st) \<subseteq> {v. (v, v) \<in> (adj_rel adj)\<^sup>+}"
proof -
  have post: "scan_post adj emptyScan xs st"
    by (rule scan_all_post[OF assms(1) _ assms(2)]) (simp add: scan_pre_def emptyScan_def)
  then show sub: "set (dv_found st) \<subseteq> {v. (v, v) \<in> (adj_rel adj)\<^sup>+}"
    by (auto simp: scan_post_def emptyScan_def)
  show "dv_found st = [] \<longleftrightarrow> acyclic (adj_rel adj)"
  proof
    assume "dv_found st = []"
    then have closed: "closed_acyclic (adj_rel adj) (set (dv_visited st))" "set xs \<subseteq> set (dv_visited st)"
      using post by (auto simp: scan_post_def emptyScan_def)
    have "(v, v) \<notin> (adj_rel adj)\<^sup>+" for v
    proof
      assume loop: "(v, v) \<in> (adj_rel adj)\<^sup>+"
      then obtain w where "(v, w) \<in> adj_rel adj" by (auto dest: tranclD)
      with assms(3) closed(2) have "v \<in> set (dv_visited st)" by blast
      with closed_acyclic_no_loop[OF closed(1)] loop show False by blast
    qed
    then show "acyclic (adj_rel adj)" by (simp add: acyclic_def)
  next
    assume "acyclic (adj_rel adj)"
    with sub show "dv_found st = []" by (auto simp: acyclic_def)
  qed
qed

end
