(* ===== verification/PlanTypes.thy ===== *)
theory PlanTypes
  imports JsPrelude
begin

text \<open>
  The data model shared by the planning services: the canonical plan and its steps
  (\<open>services/planning/contracts\<close>), the issues, snapshots and evidence of structural validation
  (\<open>contracts/validation-types.ts\<close>, \<open>validation/validation-result.ts\<close>,
  \<open>validation/validation-context.ts\<close>) and the normalized plan
  (\<open>normalization/normalization-types.ts\<close>).  An optional property of the source is an
  \<open>option\<close>; a property of static type \<open>unknown\<close> is a \<open>json\<close> value.  The renderings
  \<open>*_json\<close> are the objects the code hands to its hash function.
\<close>

section \<open>Canonical plans\<close>

datatype PlanPriority = PriorityLow | PriorityNormal | PriorityHigh | PriorityCritical

datatype MissionClassification =
  Informational | Operational | Mutating | Restricted

datatype PlanExecutionMode = DryRun | Supervised | ApprovalRequired | Blocked

datatype StepType =
  Analyze | Retrieve | Transform | Validate | Propose | Route | ExecuteCandidate

datatype StepRiskLevel = RiskLow | RiskMedium | RiskHigh | RiskCritical

datatype LogLevel = LogDebug | LogInfo | LogWarn | LogError

fun priority_str :: "PlanPriority \<Rightarrow> string" where
  "priority_str PriorityLow = ''low''"
| "priority_str PriorityNormal = ''normal''"
| "priority_str PriorityHigh = ''high''"
| "priority_str PriorityCritical = ''critical''"

fun classification_str :: "MissionClassification \<Rightarrow> string" where
  "classification_str Informational = ''informational''"
| "classification_str Operational = ''operational''"
| "classification_str Mutating = ''mutating''"
| "classification_str Restricted = ''restricted''"

fun plan_mode_str :: "PlanExecutionMode \<Rightarrow> string" where
  "plan_mode_str DryRun = ''dry_run''"
| "plan_mode_str Supervised = ''supervised''"
| "plan_mode_str ApprovalRequired = ''approval_required''"
| "plan_mode_str Blocked = ''blocked''"

fun step_type_str :: "StepType \<Rightarrow> string" where
  "step_type_str Analyze = ''analyze''"
| "step_type_str Retrieve = ''retrieve''"
| "step_type_str Transform = ''transform''"
| "step_type_str Validate = ''validate''"
| "step_type_str Propose = ''propose''"
| "step_type_str Route = ''route''"
| "step_type_str ExecuteCandidate = ''execute_candidate''"

fun step_risk_str :: "StepRiskLevel \<Rightarrow> string" where
  "step_risk_str RiskLow = ''low''"
| "step_risk_str RiskMedium = ''medium''"
| "step_risk_str RiskHigh = ''high''"
| "step_risk_str RiskCritical = ''critical''"

fun log_level_str :: "LogLevel \<Rightarrow> string" where
  "log_level_str LogDebug = ''debug''"
| "log_level_str LogInfo = ''info''"
| "log_level_str LogWarn = ''warn''"
| "log_level_str LogError = ''error''"

record CanonicalStepAction =
  sa_tool :: string
  sa_operation :: string
  sa_parameters :: js_record

record CanonicalPlanStep =
  cs_stepId :: string
  cs_type :: StepType
  cs_title :: string
  cs_dependencies :: "string list"
  cs_action :: CanonicalStepAction
  cs_approvalRequired :: bool
  cs_dryRunSupported :: bool
  cs_riskLevel :: StepRiskLevel
  cs_timeoutMs :: int
  cs_retryable :: bool
  cs_idempotent :: bool
  cs_logLevel :: LogLevel
  cs_metricsEnabled :: bool

record RetryPolicy =
  rp_maxAttempts :: int
  rp_backoffMs :: int

record CanonicalPlan =
  cp_schemaVersion :: string
  cp_planId :: string
  cp_createdAt :: string
  cp_objective :: string
  cp_priority :: PlanPriority
  cp_classification :: MissionClassification
  cp_sourceIds :: "string list"
  cp_evidenceRefs :: "string list"
  cp_constraints :: "string list"
  cp_approvalsRequired :: bool
  cp_policyRefs :: "string list"
  cp_mode :: PlanExecutionMode
  cp_timeoutMs :: int
  cp_retryPolicy :: RetryPolicy
  cp_steps :: "CanonicalPlanStep list"
  cp_truthScoreRequired :: js_num
  cp_validationProfile :: string
  cp_plannerVersion :: string
  cp_generatedBy :: string

definition str_arr :: "string list \<Rightarrow> json" where
  "str_arr ss = JArr (map JStr ss)"

definition int_json :: "int \<Rightarrow> json" where
  "int_json i = JNum (num_of_int i)"

definition action_json :: "CanonicalStepAction \<Rightarrow> json" where
  "action_json a = JObj
     [(''tool'', JStr (sa_tool a)), (''operation'', JStr (sa_operation a)),
      (''parameters'', JObj (sa_parameters a))]"

definition step_json :: "CanonicalPlanStep \<Rightarrow> json" where
  "step_json s = JObj
     [(''stepId'', JStr (cs_stepId s)), (''type'', JStr (step_type_str (cs_type s))),
      (''title'', JStr (cs_title s)), (''dependencies'', str_arr (cs_dependencies s)),
      (''action'', action_json (cs_action s)),
      (''safety'', JObj
         [(''approvalRequired'', JBool (cs_approvalRequired s)),
          (''dryRunSupported'', JBool (cs_dryRunSupported s)),
          (''riskLevel'', JStr (step_risk_str (cs_riskLevel s)))]),
      (''execution'', JObj
         [(''timeoutMs'', int_json (cs_timeoutMs s)), (''retryable'', JBool (cs_retryable s)),
          (''idempotent'', JBool (cs_idempotent s))]),
      (''observability'', JObj
         [(''logLevel'', JStr (log_level_str (cs_logLevel s))),
          (''metricsEnabled'', JBool (cs_metricsEnabled s))])]"

definition plan_json :: "CanonicalPlan \<Rightarrow> json" where
  "plan_json p = JObj
     [(''schemaVersion'', JStr (cp_schemaVersion p)), (''planId'', JStr (cp_planId p)),
      (''createdAt'', JStr (cp_createdAt p)),
      (''mission'', JObj
         [(''objective'', JStr (cp_objective p)), (''priority'', JStr (priority_str (cp_priority p))),
          (''classification'', JStr (classification_str (cp_classification p)))]),
      (''context'', JObj
         [(''sourceIds'', str_arr (cp_sourceIds p)), (''evidenceRefs'', str_arr (cp_evidenceRefs p)),
          (''constraints'', str_arr (cp_constraints p))]),
      (''approvals'', JObj
         [(''required'', JBool (cp_approvalsRequired p)), (''policyRefs'', str_arr (cp_policyRefs p))]),
      (''execution'', JObj
         [(''mode'', JStr (plan_mode_str (cp_mode p))), (''timeoutMs'', int_json (cp_timeoutMs p)),
          (''retryPolicy'', JObj
             [(''maxAttempts'', int_json (rp_maxAttempts (cp_retryPolicy p))),
              (''backoffMs'', int_json (rp_backoffMs (cp_retryPolicy p)))])]),
      (''steps'', JArr (map step_json (cp_steps p))),
      (''governance'', JObj
         [(''truthScoreRequired'', JNum (cp_truthScoreRequired p)),
          (''validationProfile'', JStr (cp_validationProfile p))]),
      (''metadata'', JObj
         [(''plannerVersion'', JStr (cp_plannerVersion p)), (''generatedBy'', JStr (cp_generatedBy p))])]"

section \<open>Structural validation\<close>

datatype ValidationResultStatus =
    StatusValid | StatusInvalidSchema | StatusUnsupportedVersion | StatusUnknownField
  | StatusMissingRequiredField | StatusInvalidEnum | StatusInvalidStepGraph
  | StatusGovernanceViolation | StatusNondeterministicSerialization

record ValidationIssue =
  vi_code :: string
  vi_path :: string
  vi_message :: string

record CanonicalPlanValidationEvidence =
  ce_validationId :: string
  ce_schemaVersion :: string
  ce_status :: ValidationResultStatus
  ce_failureReason :: "string option"
  ce_issues :: "ValidationIssue list"
  ce_normalized :: "CanonicalPlan option"
  ce_deterministicHash :: "string option"
  ce_timestamp :: string

record FrozenValidationContext =
  vc_schemaVersion :: string
  vc_validatorVersion :: string
  vc_governancePolicyVersion :: string
  vc_compatibilityMatrixVersion :: string

datatype ValidationStatus = ApprovedForPlanningPipeline | Rejected | Unsafe | ApprovalIsRequired

record ValidationError =
  ve_code :: string
  ve_path :: string
  ve_message :: string
  ve_stage :: string

record ValidationTopologySummary =
  ts_nodeCount :: int
  ts_edgeCount :: int
  ts_branchCount :: int
  ts_maxDepth :: int

record ReplaySnapshot =
  rs_schemaVersion :: string
  rs_planHash :: string
  rs_graphHash :: string
  rs_authoredStepOrder :: "string list"
  rs_dependencyMap :: "(string \<times> string list) list"
  rs_topology :: ValidationTopologySummary

record ValidationEvidence =
  ev_validationRunId :: string
  ev_schemaVersion :: string
  ev_validatorVersion :: string
  ev_governancePolicyVersion :: string
  ev_compatibilityMatrixVersion :: string
  ev_topology :: ValidationTopologySummary
  ev_dependencyMap :: "(string \<times> string list) list"
  ev_validationStages :: "string list"
  ev_errors :: "ValidationError list"
  ev_warnings :: "ValidationError list"
  ev_graphHash :: string
  ev_validationHash :: string
  ev_replaySnapshot :: ReplaySnapshot
  ev_schemaEvidence :: CanonicalPlanValidationEvidence
  ev_context :: FrozenValidationContext
  ev_normalizedPlan :: CanonicalPlan
  ev_immutableAuditLedgerId :: "string option"

record ValidationResult =
  vr_ok :: bool
  vr_validated :: bool
  vr_status :: ValidationStatus
  vr_topology :: ValidationTopologySummary
  vr_errors :: "ValidationError list"
  vr_warnings :: "ValidationError list"
  vr_validationHash :: string
  vr_graphHash :: string
  vr_evidence :: ValidationEvidence

definition topology_json :: "ValidationTopologySummary \<Rightarrow> json" where
  "topology_json t = JObj
     [(''nodeCount'', int_json (ts_nodeCount t)), (''edgeCount'', int_json (ts_edgeCount t)),
      (''branchCount'', int_json (ts_branchCount t)), (''maxDepth'', int_json (ts_maxDepth t))]"

definition dep_map_json :: "(string \<times> string list) list \<Rightarrow> json" where
  "dep_map_json m = JObj (map (\<lambda>(k, ds). (k, str_arr ds)) m)"

definition snapshot_json :: "ReplaySnapshot \<Rightarrow> json" where
  "snapshot_json r = JObj
     [(''schemaVersion'', JStr (rs_schemaVersion r)), (''planHash'', JStr (rs_planHash r)),
      (''graphHash'', JStr (rs_graphHash r)), (''authoredStepOrder'', str_arr (rs_authoredStepOrder r)),
      (''dependencyMap'', dep_map_json (rs_dependencyMap r)),
      (''topology'', topology_json (rs_topology r))]"

section \<open>Normalized plans\<close>

datatype ApprovalMode = ApprovalREQUIRED | ApprovalOPTIONAL | ApprovalBLOCKED
datatype RetryMode = RetryNEVER | RetrySAFE_ONLY | RetryMANUAL_ONLY
datatype ExecutionMode = ExecSERIAL | ExecPARALLEL
datatype AutonomyLevel = AutonomyNONE | AutonomyADVISORY | AutonomySUPERVISED
datatype ContainmentLevel = ContainSTRICT | ContainSTANDARD

fun approval_mode_str :: "ApprovalMode \<Rightarrow> string" where
  "approval_mode_str ApprovalREQUIRED = ''REQUIRED''"
| "approval_mode_str ApprovalOPTIONAL = ''OPTIONAL''"
| "approval_mode_str ApprovalBLOCKED = ''BLOCKED''"

fun retry_mode_str :: "RetryMode \<Rightarrow> string" where
  "retry_mode_str RetryNEVER = ''NEVER''"
| "retry_mode_str RetrySAFE_ONLY = ''SAFE_ONLY''"
| "retry_mode_str RetryMANUAL_ONLY = ''MANUAL_ONLY''"

fun execution_mode_str :: "ExecutionMode \<Rightarrow> string" where
  "execution_mode_str ExecSERIAL = ''SERIAL''"
| "execution_mode_str ExecPARALLEL = ''PARALLEL''"

fun autonomy_level_str :: "AutonomyLevel \<Rightarrow> string" where
  "autonomy_level_str AutonomyNONE = ''NONE''"
| "autonomy_level_str AutonomyADVISORY = ''ADVISORY''"
| "autonomy_level_str AutonomySUPERVISED = ''SUPERVISED''"

fun containment_level_str :: "ContainmentLevel \<Rightarrow> string" where
  "containment_level_str ContainSTRICT = ''STRICT''"
| "containment_level_str ContainSTANDARD = ''STANDARD''"

record NormalizedPlanStep =
  ns_id :: string
  ns_sourceId :: "string option"
  ns_index :: int
  ns_title :: "string option"
  ns_intent :: "string option"
  ns_type :: string
  ns_action :: json
  ns_inputs :: js_record
  ns_outputs :: js_record
  ns_dependencies :: "string list"
  ns_constraints :: "json list"
  ns_approvalMode :: ApprovalMode
  ns_retryMode :: RetryMode
  ns_executionMode :: ExecutionMode
  ns_autonomyLevel :: AutonomyLevel
  ns_containmentLevel :: ContainmentLevel
  ns_hash :: string

record CanonicalPlanMetadata =
  pm_plannerVersion :: string
  pm_generatedBy :: string
  pm_createdAt :: string
  pm_extensions :: js_record

record NormalizedPlan =
  np_schemaVersion :: string
  np_normalizationVersion :: string
  np_planId :: string
  np_goal :: string
  np_validatedGraphHash :: string
  np_validationHash :: string
  np_normalizationHash :: string
  np_replayHash :: string
  np_steps :: "NormalizedPlanStep list"
  np_metadata :: CanonicalPlanMetadata
  np_evidenceRef :: string

definition opt_json :: "('a \<Rightarrow> json) \<Rightarrow> 'a option \<Rightarrow> json" where
  "opt_json f x = (case x of None \<Rightarrow> JUndef | Some v \<Rightarrow> f v)"

text \<open>\<open>value ?? null\<close> of an optional property.\<close>

definition nullish_json :: "('a \<Rightarrow> json) \<Rightarrow> 'a option \<Rightarrow> json" where
  "nullish_json f x = (case x of None \<Rightarrow> JNull | Some v \<Rightarrow> f v)"

definition metadata_json :: "CanonicalPlanMetadata \<Rightarrow> json" where
  "metadata_json m = JObj
     [(''plannerVersion'', JStr (pm_plannerVersion m)), (''generatedBy'', JStr (pm_generatedBy m)),
      (''createdAt'', JStr (pm_createdAt m)), (''extensions'', JObj (pm_extensions m))]"

definition normalized_step_fields :: "NormalizedPlanStep \<Rightarrow> js_record" where
  "normalized_step_fields s =
     [(''id'', JStr (ns_id s)), (''sourceId'', opt_json JStr (ns_sourceId s)),
      (''index'', int_json (ns_index s)), (''title'', opt_json JStr (ns_title s)),
      (''intent'', opt_json JStr (ns_intent s)), (''type'', JStr (ns_type s)),
      (''action'', ns_action s), (''inputs'', JObj (ns_inputs s)), (''outputs'', JObj (ns_outputs s)),
      (''dependencies'', str_arr (ns_dependencies s)), (''constraints'', JArr (ns_constraints s)),
      (''approvalMode'', JStr (approval_mode_str (ns_approvalMode s))),
      (''retryMode'', JStr (retry_mode_str (ns_retryMode s))),
      (''executionMode'', JStr (execution_mode_str (ns_executionMode s))),
      (''autonomyLevel'', JStr (autonomy_level_str (ns_autonomyLevel s))),
      (''containmentLevel'', JStr (containment_level_str (ns_containmentLevel s)))]"

definition normalized_step_json :: "NormalizedPlanStep \<Rightarrow> json" where
  "normalized_step_json s = JObj (normalized_step_fields s @ [(''hash'', JStr (ns_hash s))])"

text \<open>The fields of a normalized plan but its hashes and evidence reference.\<close>

definition unhashed_plan_fields :: "NormalizedPlan \<Rightarrow> js_record" where
  "unhashed_plan_fields p =
     [(''schemaVersion'', JStr (np_schemaVersion p)),
      (''normalizationVersion'', JStr (np_normalizationVersion p)),
      (''planId'', JStr (np_planId p)), (''goal'', JStr (np_goal p)),
      (''validatedGraphHash'', JStr (np_validatedGraphHash p)),
      (''validationHash'', JStr (np_validationHash p)),
      (''steps'', JArr (map normalized_step_json (np_steps p))),
      (''metadata'', metadata_json (np_metadata p))]"

definition normalized_plan_json :: "NormalizedPlan \<Rightarrow> json" where
  "normalized_plan_json p = JObj (unhashed_plan_fields p @
     [(''normalizationHash'', JStr (np_normalizationHash p)), (''replayHash'', JStr (np_replayHash p)),
      (''evidenceRef'', JStr (np_evidenceRef p))])"

end
