(* ===== verification/CanonicalJson.thy ===== *)
theory CanonicalJson
  imports JsPrelude
begin

text \<open>
  \<open>services/contracts/deterministicJson.ts\<close>, \<open>canonicalSerializer.ts\<close> and
  \<open>payloadHasher.ts\<close>, and \<open>services/planning/normalization/deterministic-serializer.ts\<close>: the
  canonical text every hash of the planning services is taken of.  SHA-256 is the parameter
  \<open>sha\<close> of the definitions.  \<open>json_text\<close> is \<open>JSON.stringify\<close> and \<open>reparse\<close> the value
  \<open>JSON.parse (JSON.stringify v)\<close> of the language.  The lemmas show that the text does not depend
  on the order in which an object's properties were written, at any depth, and that normalizing
  twice changes nothing.
\<close>

section \<open>Property order\<close>

definition is_digit :: "char \<Rightarrow> bool" where
  "is_digit c \<longleftrightarrow> 48 \<le> (of_char c :: nat) \<and> (of_char c :: nat) \<le> 57"

definition digits_val :: "string \<Rightarrow> nat" where
  "digits_val s = foldl (\<lambda>n c. 10 * n + (of_char c - 48)) 0 s"

text \<open>Keys that are array indices (canonical decimals below \<open>2^32 - 1\<close>) are enumerated first.\<close>

definition is_index_key :: "string \<Rightarrow> bool" where
  "is_index_key k \<longleftrightarrow> k \<noteq> [] \<and> list_all is_digit k \<and> (hd k = CHR ''0'' \<longrightarrow> k = ''0'') \<and>
     digits_val k < 4294967295"

definition js_entries :: "(string \<times> 'v) list \<Rightarrow> (string \<times> 'v) list" where
  "js_entries kvs =
     js_sort (cmp_on (\<lambda>(k, v). int (digits_val k)) (\<lambda>x y. x - y)) (filter (\<lambda>(k, v). is_index_key k) kvs)
     @ filter (\<lambda>(k, v). \<not> is_index_key k) kvs"

section \<open>JSON text\<close>

definition hex_digit :: "nat \<Rightarrow> char" where
  "hex_digit n = (if n < 10 then char_of (48 + n) else char_of (87 + n))"

definition json_escape :: "char \<Rightarrow> string" where
  "json_escape c =
     (let n = (of_char c :: nat) in
      if n = 8 then [CHR 0x5C, CHR ''b''] else if n = 9 then [CHR 0x5C, CHR ''t'']
      else if n = 10 then [CHR 0x5C, CHR ''n''] else if n = 12 then [CHR 0x5C, CHR ''f'']
      else if n = 13 then [CHR 0x5C, CHR ''r''] else if n = 34 then [CHR 0x5C, CHR 0x22]
      else if n = 92 then [CHR 0x5C, CHR 0x5C]
      else if n < 32 then [CHR 0x5C] @ ''u00'' @ [hex_digit (n div 16), hex_digit (n mod 16)]
      else [c])"

definition json_quote :: "string \<Rightarrow> string" where
  "json_quote s = CHR 0x22 # concat (map json_escape s) @ [CHR 0x22]"

definition members_text :: "(string \<times> string option) list \<Rightarrow> string" where
  "members_text kts = ''{'' @ js_join '',''
     (concat (map (\<lambda>(k, t). case t of None \<Rightarrow> [] | Some s \<Rightarrow> [json_quote k @ '':'' @ s]) (js_entries kts)))
     @ ''}''"

fun json_text :: "json \<Rightarrow> string option" where
  "json_text JUndef = None"
| "json_text JNull = Some ''null''"
| "json_text (JBool b) = Some (if b then ''true'' else ''false'')"
| "json_text (JNum x) = Some (num_str x)"
| "json_text (JStr s) = Some (json_quote s)"
| "json_text (JArr vs) =
     Some (''['' @ js_join '','' (map (\<lambda>v. js_default ''null'' (json_text v)) vs) @ '']'')"
| "json_text (JObj kvs) = Some (members_text (map (\<lambda>(k, v). (k, json_text v)) kvs))"

section \<open>Normalization and hashing\<close>

text \<open>
  Assigning \<open>accumulator["__proto__"]\<close> sets the prototype and makes no property, so such a key
  is lost.
\<close>

definition assign_entries :: "(string \<times> json) list \<Rightarrow> js_record" where
  "assign_entries kvs = filter (\<lambda>(k, v). k \<noteq> ''__proto__'') kvs"

fun normalize :: "json \<Rightarrow> json" where
  "normalize (JArr vs) = JArr (map normalize vs)"
| "normalize (JObj kvs) =
     JObj (assign_entries (js_sort (cmp_on fst code_unit_compare)
       (map (\<lambda>(k, v). (k, normalize v)) kvs)))"
| "normalize JUndef = JUndef"
| "normalize JNull = JNull"
| "normalize (JBool b) = JBool b"
| "normalize (JNum x) = JNum x"
| "normalize (JStr s) = JStr s"

definition toDeterministicJson :: "json \<Rightarrow> string option" where
  "toDeterministicJson v = json_text (normalize v)"

text \<open>\<open>JSON.parse (JSON.stringify v)\<close> of a value that has a text.\<close>

fun reparse :: "json \<Rightarrow> json" where
  "reparse (JArr vs) = JArr (map (\<lambda>v. if v = JUndef then JNull else reparse v) vs)"
| "reparse (JObj kvs) =
     JObj (js_entries (filter (\<lambda>(k, v). v \<noteq> JUndef) (map (\<lambda>(k, v). (k, reparse v)) kvs)))"
| "reparse JUndef = JUndef"
| "reparse JNull = JNull"
| "reparse (JBool b) = JBool b"
| "reparse (JNum x) = JNum x"
| "reparse (JStr s) = JStr s"

definition normalizeDeterministicValue :: "json \<Rightarrow> json" where
  "normalizeDeterministicValue v = reparse (normalize v)"

definition canonicalSerialize :: "json \<Rightarrow> string option" where
  "canonicalSerialize v = toDeterministicJson v"

text \<open>
  The digest of a payload.  Every caller passes an object, which always has a text
  (\<open>canonicalSerialize_object\<close>), so the payload is given by its properties.
\<close>

definition object_text :: "js_record \<Rightarrow> string" where
  "object_text kvs = members_text (map (\<lambda>(k, v). (k, json_text v)) kvs)"

definition normalize_record :: "js_record \<Rightarrow> js_record" where
  "normalize_record kvs =
     assign_entries (js_sort (cmp_on fst code_unit_compare) (map (\<lambda>(k, v). (k, normalize v)) kvs))"

definition hashPayloadDeterministically :: "(string \<Rightarrow> string) \<Rightarrow> js_record \<Rightarrow> string" where
  "hashPayloadDeterministically sha kvs = sha (object_text (normalize_record kvs))"

text \<open>\<open>sanitize\<close>: \<open>undefined\<close> becomes \<open>null\<close> and keys are put in collation order.\<close>

fun sanitize :: "(string \<Rightarrow> string \<Rightarrow> int) \<Rightarrow> json \<Rightarrow> json" where
  "sanitize lc JUndef = JNull"
| "sanitize lc (JArr vs) = JArr (map (sanitize lc) vs)"
| "sanitize lc (JObj kvs) =
     JObj (assign_entries (js_sort (cmp_on fst lc) (map (\<lambda>(k, v). (k, sanitize lc v)) kvs)))"
| "sanitize lc JNull = JNull"
| "sanitize lc (JBool b) = JBool b"
| "sanitize lc (JNum x) = JNum x"
| "sanitize lc (JStr s) = JStr s"

definition serializeDeterministically :: "(string \<Rightarrow> string \<Rightarrow> int) \<Rightarrow> json \<Rightarrow> string option" where
  "serializeDeterministically lc v = canonicalSerialize (sanitize lc v)"

text \<open>\<open>JSON.parse (serializeDeterministically payload)\<close> of an object payload.\<close>

definition reparse_serialized :: "(string \<Rightarrow> string \<Rightarrow> int) \<Rightarrow> json \<Rightarrow> json" where
  "reparse_serialized lc v = reparse (normalize (sanitize lc v))"

definition members :: "json \<Rightarrow> js_record" where
  "members v = (case v of JObj kvs \<Rightarrow> kvs | _ \<Rightarrow> [])"

lemma canonicalSerialize_object:
  "canonicalSerialize (JObj kvs) = Some (object_text (normalize_record kvs))"
  by (simp add: canonicalSerialize_def toDeterministicJson_def object_text_def normalize_record_def)

lemma reparse_serialized_object:
  "reparse_serialized lc (JObj kvs) = JObj (members (reparse_serialized lc (JObj kvs)))"
  by (simp add: reparse_serialized_def members_def)

section \<open>The order of properties does not matter\<close>

text \<open>Equality of values up to the order of object properties, at any depth.\<close>

inductive same_value :: "json \<Rightarrow> json \<Rightarrow> bool" and same_members :: "js_record \<Rightarrow> js_record \<Rightarrow> bool"
where
  same_refl: "same_value v v"
| same_arr: "list_all2 same_value vs ws \<Longrightarrow> same_value (JArr vs) (JArr ws)"
| same_obj: "same_members kvs kvs' \<Longrightarrow> mset kvs' = mset kws \<Longrightarrow> same_value (JObj kvs) (JObj kws)"
| members_Nil: "same_members [] []"
| members_Cons: "same_value v w \<Longrightarrow> same_members kvs kws \<Longrightarrow> same_members ((k, v) # kvs) ((k, w) # kws)"

text \<open>The property names of every object in a value are distinct, as those of an object are.\<close>

fun wf_json :: "json \<Rightarrow> bool" where
  "wf_json (JArr vs) = list_all wf_json vs"
| "wf_json (JObj kvs) = (distinct (map fst kvs) \<and> list_all (\<lambda>(k, v). wf_json v) kvs)"
| "wf_json JUndef = True"
| "wf_json JNull = True"
| "wf_json (JBool b) = True"
| "wf_json (JNum x) = True"
| "wf_json (JStr s) = True"

lemma comparator_keys: "comparator (cmp_on fst code_unit_compare :: string \<times> 'v \<Rightarrow> _)"
  by (rule comparator_on) (rule code_units.comparator_axioms)

lemma sort_keys_perm:
  assumes "mset kvs = mset kws" and "distinct (map fst kvs)"
  shows "js_sort (cmp_on fst code_unit_compare) kvs = js_sort (cmp_on fst code_unit_compare) kws"
  by (rule comparator.sort_perm_eq[OF comparator_keys assms(1)])
    (use assms(2) in \<open>auto simp: cmp_on_def distinct_map inj_on_def\<close>)

definition normalize_members :: "js_record \<Rightarrow> js_record" where
  "normalize_members kvs = map (\<lambda>(k, v). (k, normalize v)) kvs"

lemma fst_normalize_members [simp]: "map fst (normalize_members kvs) = map fst kvs"
  by (induction kvs) (auto simp: normalize_members_def)

lemma mset_normalize_members: "mset kvs = mset kws \<Longrightarrow> mset (normalize_members kvs) = mset (normalize_members kws)"
  by (simp add: normalize_members_def)

lemma normalize_obj:
  "normalize (JObj kvs) = JObj (assign_entries (js_sort (cmp_on fst code_unit_compare) (normalize_members kvs)))"
  by (simp add: normalize_members_def)

lemma same_value_normalize:
  "same_value v w \<Longrightarrow> wf_json v \<Longrightarrow> normalize v = normalize w"
  "same_members kvs kws \<Longrightarrow> list_all (\<lambda>(k, v). wf_json v) kvs \<Longrightarrow>
     normalize_members kvs = normalize_members kws"
proof (induction rule: same_value_same_members.inducts)
  case (same_arr vs ws)
  then have "map normalize vs = map normalize ws"
    by (induction vs ws rule: list_all2_induct) auto
  then show ?case by simp
next
  case (same_obj kvs kvs' kws)
  then have eq: "normalize_members kvs = normalize_members kvs'" by simp
  have "js_sort (cmp_on fst code_unit_compare) (normalize_members kvs)
      = js_sort (cmp_on fst code_unit_compare) (normalize_members kws)"
  proof (rule sort_keys_perm)
    have "mset (normalize_members kvs') = mset (normalize_members kws)"
      by (rule mset_normalize_members) (rule same_obj)
    then show "mset (normalize_members kvs) = mset (normalize_members kws)" using eq by simp
    show "distinct (map fst (normalize_members kvs))" using same_obj.prems by simp
  qed
  then show ?case by (simp only: normalize_obj)
qed (auto simp: normalize_members_def)

lemma sorted_assign:
  "sorted_wrt P kvs \<Longrightarrow> sorted_wrt P (assign_entries kvs)"
  unfolding assign_entries_def by (rule sorted_wrt_filter)

lemma normalize_members_id:
  "(\<And>k v. (k, v) \<in> set kvs \<Longrightarrow> normalize v = v) \<Longrightarrow> normalize_members kvs = kvs"
  by (induction kvs) (auto simp: normalize_members_def)

lemma normalize_idem: "normalize (normalize v) = normalize v"
proof (induction v rule: normalize.induct)
  case (2 kvs)
  let ?s = "js_sort (cmp_on fst code_unit_compare) (normalize_members kvs)"
  have "normalize v = v" if "(k, v) \<in> set (assign_entries ?s)" for k v
    using that 2 by (auto simp: assign_entries_def normalize_members_def)
  then have "normalize_members (assign_entries ?s) = assign_entries ?s"
    by (rule normalize_members_id)
  moreover have "js_sort (cmp_on fst code_unit_compare) (assign_entries ?s) = assign_entries ?s"
    by (intro js_sort_sorted_id sorted_assign comparator.sorted_sort[OF comparator_keys])
  moreover have "assign_entries (assign_entries ?s) = assign_entries ?s"
    by (simp add: assign_entries_def)
  ultimately show ?case by (simp only: normalize_obj)
qed auto

section \<open>The collation of the host does not matter\<close>

lemma mset_assign_entries: "mset kvs = mset kws \<Longrightarrow> mset (assign_entries kvs) = mset (assign_entries kws)"
  by (simp add: assign_entries_def)

lemma normalize_members_assign: "normalize_members (assign_entries kvs) = assign_entries (normalize_members kvs)"
  by (induction kvs) (auto simp: normalize_members_def assign_entries_def)

lemma distinct_assign: "distinct (map fst kvs) \<Longrightarrow> distinct (map fst (assign_entries kvs))"
  by (simp add: assign_entries_def distinct_map_filter)

lemma normalize_sanitize_lc: "wf_json v \<Longrightarrow> normalize (sanitize lc v) = normalize (sanitize lc' v)"
proof (induction v rule: wf_json.induct)
  case (2 kvs)
  let ?m = "\<lambda>lc. map (\<lambda>(k, v). (k, sanitize lc v)) kvs"
  have members: "normalize_members (?m lc) = normalize_members (?m lc')"
    using 2 by (auto simp: normalize_members_def list_all_iff)
  have "js_sort (cmp_on fst code_unit_compare) (normalize_members (assign_entries (js_sort (cmp_on fst lc) (?m lc))))
      = js_sort (cmp_on fst code_unit_compare) (normalize_members (assign_entries (js_sort (cmp_on fst lc') (?m lc'))))"
  proof (rule sort_keys_perm)
    have "mset (normalize_members (assign_entries (js_sort (cmp_on fst l) (?m l))))
        = mset (assign_entries (normalize_members (?m l)))" for l
      unfolding normalize_members_assign by (intro mset_assign_entries mset_normalize_members) simp
    then show "mset (normalize_members (assign_entries (js_sort (cmp_on fst lc) (?m lc))))
        = mset (normalize_members (assign_entries (js_sort (cmp_on fst lc') (?m lc'))))"
      by (simp only: members)
    have "distinct (map fst (?m lc))" using 2 by (simp add: comp_def case_prod_unfold)
    moreover have "mset (map fst (js_sort (cmp_on fst lc) (?m lc))) = mset (map fst (?m lc))"
      by (metis mset_js_sort mset_map)
    ultimately have "distinct (map fst (js_sort (cmp_on fst lc) (?m lc)))"
      using mset_eq_imp_distinct_iff by blast
    then show "distinct (map fst (normalize_members (assign_entries (js_sort (cmp_on fst lc) (?m lc)))))"
      by (simp add: distinct_assign)
  qed
  then show ?case by (simp only: sanitize.simps normalize_obj)
qed (auto simp: list_all_iff)

lemma serialize_lc: "wf_json v \<Longrightarrow> serializeDeterministically lc v = serializeDeterministically lc' v"
  using normalize_sanitize_lc[of v lc lc']
  by (simp add: serializeDeterministically_def canonicalSerialize_def toDeterministicJson_def)

section \<open>The key a payload cannot carry\<close>

lemma filter_js_insort: "\<not> P x \<Longrightarrow> filter P (js_insort cmp x xs) = filter P xs"
  by (induction xs) auto

lemma normalize_record_proto: "normalize_record ((''__proto__'', v) # kvs) = normalize_record kvs"
  by (simp add: normalize_record_def assign_entries_def filter_js_insort)

end
