(* ===== verification/PlanSchema.thy ===== *)
theory PlanSchema
  imports DfsScan PlanTypes CanonicalJson
begin

text \<open>
  \<open>services/planning/schema\<close>: the schema registry and its governance, version resolution, the plan
  normalizer and hash, the step graph check and the validator that composes them.  The schema
  library is outside the repository: \<open>parse\<close> stands for \<open>strictParse(canonicalPlanSchema, _)\<close>, giving
  the issues or the typed plan, and \<open>inspected\<close> for \<open>inspectSchema(canonicalPlanSchema)\<close>.
  \<open>schema_conforms\<close> states the constraints that \<open>canonical-plan.ts\<close> and \<open>canonical-step.ts\<close> put on a
  parsed plan.  The lemmas say that the step graph check always ends and reports a circular
  dependency exactly when there is one, and what a valid verdict implies.
\<close>

section \<open>The parser's interface\<close>

datatype path_segment = KeySegment string | IndexSegment nat

record ZodIssue =
  zi_code :: string
  zi_path :: "path_segment list"
  zi_message :: string

type_synonym plan_parser = "json \<Rightarrow> ZodIssue list + CanonicalPlan"

definition step_conforms :: "CanonicalPlanStep \<Rightarrow> bool" where
  "step_conforms s \<longleftrightarrow>
     cs_stepId s \<noteq> [] \<and> cs_title s \<noteq> [] \<and> [] \<notin> set (cs_dependencies s) \<and>
     sa_tool (cs_action s) \<noteq> [] \<and> sa_operation (cs_action s) \<noteq> [] \<and> 0 < cs_timeoutMs s"

definition schema_conforms :: "CanonicalPlan \<Rightarrow> bool" where
  "schema_conforms p \<longleftrightarrow>
     cp_schemaVersion p \<noteq> [] \<and> cp_planId p \<noteq> [] \<and> cp_objective p \<noteq> [] \<and>
     0 < cp_timeoutMs p \<and> 1 \<le> rp_maxAttempts (cp_retryPolicy p) \<and> 0 \<le> rp_backoffMs (cp_retryPolicy p) \<and>
     cp_steps p \<noteq> [] \<and> list_all step_conforms (cp_steps p) \<and>
     \<not> num_less (cp_truthScoreRequired p) (Dec 0 0) \<and> \<not> num_less (Dec 1 0) (cp_truthScoreRequired p) \<and>
     cp_validationProfile p \<noteq> [] \<and> cp_plannerVersion p \<noteq> [] \<and> cp_generatedBy p \<noteq> []"

section \<open>The registry\<close>

record SchemaApprovalMetadata =
  ap_approved :: bool
  ap_approvedBy :: string
  ap_policyRefs :: "string list"
  ap_publishedAt :: string

record CanonicalSchemaRecord =
  sr_schemaId :: string
  sr_version :: string
  sr_hash :: string
  sr_current :: bool
  sr_deprecated :: bool
  sr_compatibleVersions :: "string list"
  sr_approval :: SchemaApprovalMetadata

definition approval_json :: "SchemaApprovalMetadata \<Rightarrow> json" where
  "approval_json a = JObj
     [(''approved'', JBool (ap_approved a)), (''approvedBy'', JStr (ap_approvedBy a)),
      (''policyRefs'', str_arr (ap_policyRefs a)), (''publishedAt'', JStr (ap_publishedAt a))]"

definition createSchemaRecord ::
  "(string \<Rightarrow> string) \<Rightarrow> json \<Rightarrow> string \<Rightarrow> string \<Rightarrow> bool \<Rightarrow> bool \<Rightarrow> string list
   \<Rightarrow> SchemaApprovalMetadata \<Rightarrow> CanonicalSchemaRecord" where
  "createSchemaRecord sha inspected schemaId version current deprecated compatibleVersions approval =
     \<lparr>sr_schemaId = schemaId, sr_version = version,
      sr_hash = hashPayloadDeterministically sha
        [(''schemaId'', JStr schemaId), (''version'', JStr version), (''schema'', inspected),
         (''current'', JBool current), (''deprecated'', JBool deprecated),
         (''compatibleVersions'', str_arr compatibleVersions), (''approval'', approval_json approval)],
      sr_current = current, sr_deprecated = deprecated, sr_compatibleVersions = compatibleVersions,
      sr_approval = approval\<rparr>"

definition mission_control :: "string \<Rightarrow> SchemaApprovalMetadata" where
  "mission_control policyRef =
     \<lparr>ap_approved = True, ap_approvedBy = ''mission-control'', ap_policyRefs = [policyRef],
      ap_publishedAt = ''2026-05-14T00:00:00.000Z''\<rparr>"

definition canonicalSchemaRegistry :: "(string \<Rightarrow> string) \<Rightarrow> json \<Rightarrow> CanonicalSchemaRecord list" where
  "canonicalSchemaRegistry sha inspected =
     [createSchemaRecord sha inspected ''canonical-plan'' ''1.0.0'' False True [''1.0.0'']
        (mission_control ''planning.schema.v1''),
      createSchemaRecord sha inspected ''canonical-plan'' ''1.0.1'' False True [''1.0.1'']
        (mission_control ''planning.schema.v1.0.1''),
      createSchemaRecord sha inspected ''canonical-plan'' ''1.1.0'' True False [''1.1.0'', ''1.0.1'', ''1.0.0'']
        (mission_control ''planning.schema.v1.1'')]"

text \<open>\<open>None\<close> when there is no current schema, where the code throws.\<close>

definition getCurrentCanonicalSchema :: "(string \<Rightarrow> string) \<Rightarrow> json \<Rightarrow> CanonicalSchemaRecord option" where
  "getCurrentCanonicalSchema sha inspected = find sr_current (canonicalSchemaRegistry sha inspected)"

definition getSchemaByVersion :: "(string \<Rightarrow> string) \<Rightarrow> json \<Rightarrow> string \<Rightarrow> CanonicalSchemaRecord option" where
  "getSchemaByVersion sha inspected version =
     find (\<lambda>candidate. sr_version candidate = version) (canonicalSchemaRegistry sha inspected)"

definition getCompatibleSchemaVersions :: "string \<Rightarrow> string list" where
  "getCompatibleSchemaVersions version =
     js_default [] (js_map_of
       [(''1.0.0'', [''1.0.0'']), (''1.0.1'', [''1.0.1'']),
        (''1.1.0'', [''1.1.0'', ''1.0.1'', ''1.0.0''])] version)"

section \<open>Version resolution\<close>

record SchemaVersionResolution =
  vn_supported :: bool
  vn_version :: string
  vn_resolvedVersion :: "string option"
  vn_deprecated :: bool
  vn_reason :: "string option"

fun split_on :: "char \<Rightarrow> string \<Rightarrow> string list" where
  "split_on c [] = [[]]"
| "split_on c (x # xs) =
     (if x = c then [] # split_on c xs
      else case split_on c xs of [] \<Rightarrow> [[x]] | w # ws \<Rightarrow> (x # w) # ws)"

text \<open>Three groups of digits between two dots.\<close>

definition parseSemver :: "string \<Rightarrow> (nat \<times> nat \<times> nat) option" where
  "parseSemver version =
     (case split_on (CHR ''.'') version of
        [a, b, c] \<Rightarrow>
          (if a \<noteq> [] \<and> b \<noteq> [] \<and> c \<noteq> [] \<and> list_all is_digit (a @ b @ c)
           then Some (digits_val a, digits_val b, digits_val c) else None)
      | _ \<Rightarrow> None)"

definition unsupportedVersion :: "string \<Rightarrow> SchemaVersionResolution" where
  "unsupportedVersion version =
     \<lparr>vn_supported = False, vn_version = version, vn_resolvedVersion = None, vn_deprecated = False,
      vn_reason = Some ''unsupported_version''\<rparr>"

definition resolveSchemaVersion :: "(string \<Rightarrow> string) \<Rightarrow> json \<Rightarrow> string \<Rightarrow> SchemaVersionResolution option" where
  "resolveSchemaVersion sha inspected version = do {
     currentEntry \<leftarrow> getCurrentCanonicalSchema sha inspected;
     Some (case (parseSemver version, parseSemver (sr_version currentEntry)) of
       (Some (major, _), Some (currentMajor, _)) \<Rightarrow>
         (case getSchemaByVersion sha inspected version of
            Some direct \<Rightarrow>
              \<lparr>vn_supported = True, vn_version = version, vn_resolvedVersion = Some (sr_version direct),
               vn_deprecated = sr_deprecated direct, vn_reason = None\<rparr>
          | None \<Rightarrow>
              if major \<noteq> currentMajor then unsupportedVersion version
              else if version \<in> set (getCompatibleSchemaVersions (sr_version currentEntry)) then
                \<lparr>vn_supported = True, vn_version = version, vn_resolvedVersion = Some version,
                 vn_deprecated = True, vn_reason = None\<rparr>
              else unsupportedVersion version)
     | _ \<Rightarrow> unsupportedVersion version)
   }"

section \<open>Schema governance\<close>

definition mk_issue :: "string \<Rightarrow> string \<Rightarrow> string \<Rightarrow> ValidationIssue" where
  "mk_issue code path message = \<lparr>vi_code = code, vi_path = path, vi_message = message\<rparr>"

text \<open>The issues; the check is valid when there is none.\<close>

definition checkSchemaGovernance :: "(string \<Rightarrow> string) \<Rightarrow> json \<Rightarrow> string \<Rightarrow> string \<Rightarrow> ValidationIssue list" where
  "checkSchemaGovernance sha inspected version hash =
     (case getSchemaByVersion sha inspected version of
        None \<Rightarrow> [mk_issue ''PHASE42A_SCHEMA_VERSION_UNSUPPORTED'' ''schemaVersion'' ''Schema version is not approved.'']
      | Some schema \<Rightarrow>
          (if \<not> ap_approved (sr_approval schema) \<or> ap_approvedBy (sr_approval schema) = []
              \<or> ap_policyRefs (sr_approval schema) = []
           then [mk_issue ''PHASE42A_SCHEMA_NOT_APPROVED'' ''approval'' ''Schema approval metadata is required.'']
           else []) @
          (if sr_hash schema \<noteq> hash
           then [mk_issue ''PHASE42A_SCHEMA_HASH_MISMATCH'' ''hash''
                   ''Schema hash does not match immutable registry record.''] else []))"

section \<open>The plan normalizer\<close>

definition sortStrings :: "(string \<Rightarrow> string \<Rightarrow> int) \<Rightarrow> string list \<Rightarrow> string list" where
  "sortStrings lc values = js_sort lc values"

text \<open>
  \<open>normalizeDeterministicValue\<close> of a typed plan changes only the order of properties, which a record
  does not have, and the untyped parameters of the actions.
\<close>

definition normalizeParameters :: "js_record \<Rightarrow> js_record" where
  "normalizeParameters ps = members (normalizeDeterministicValue (JObj ps))"

definition normalizeCanonicalStep :: "(string \<Rightarrow> string \<Rightarrow> int) \<Rightarrow> CanonicalPlanStep \<Rightarrow> CanonicalPlanStep" where
  "normalizeCanonicalStep lc step = step
     \<lparr>cs_dependencies := sortStrings lc (cs_dependencies step),
      cs_action := (cs_action step)\<lparr>sa_parameters := normalizeParameters (sa_parameters (cs_action step))\<rparr>\<rparr>"

definition normalizeCanonicalPlan :: "(string \<Rightarrow> string \<Rightarrow> int) \<Rightarrow> CanonicalPlan \<Rightarrow> CanonicalPlan" where
  "normalizeCanonicalPlan lc plan = plan
     \<lparr>cp_sourceIds := sortStrings lc (cp_sourceIds plan),
      cp_evidenceRefs := sortStrings lc (cp_evidenceRefs plan),
      cp_constraints := sortStrings lc (cp_constraints plan),
      cp_policyRefs := sortStrings lc (cp_policyRefs plan),
      cp_steps := map (normalizeCanonicalStep lc) (cp_steps plan)\<rparr>"

definition hashCanonicalPlan ::
  "(string \<Rightarrow> string \<Rightarrow> int) \<Rightarrow> (string \<Rightarrow> string) \<Rightarrow> CanonicalPlan \<Rightarrow> string" where
  "hashCanonicalPlan lc sha plan =
     hashPayloadDeterministically sha (members (plan_json (normalizeCanonicalPlan lc plan)))"

section \<open>The step graph\<close>

definition map_keys :: "'a list \<Rightarrow> 'a list" where
  "map_keys xs = foldl (\<lambda>acc k. set_add k acc) [] xs"

lemma set_map_keys [simp]: "set (map_keys xs) = set xs"
proof -
  have "set (foldl (\<lambda>acc k. set_add k acc) acc xs) = set acc \<union> set xs" for acc
    by (induction xs arbitrary: acc) auto
  then show ?thesis by (simp add: map_keys_def)
qed

fun stepIssues :: "CanonicalPlan \<Rightarrow> string list \<Rightarrow> CanonicalPlanStep list \<Rightarrow> ValidationIssue list" where
  "stepIssues plan seen [] = []"
| "stepIssues plan seen (step # rest) =
     (if cs_stepId step \<in> set seen
      then [mk_issue ''PHASE42A_DUPLICATE_STEP_ID'' (''steps.'' @ cs_stepId step)
              (''Duplicate step id '' @ cs_stepId step @ ''.'')] else []) @
     (if cs_timeoutMs step \<le> 0 \<or> cp_timeoutMs plan \<le> 0
      then [mk_issue ''PHASE42A_INVALID_STEP_GRAPH'' (''steps.'' @ cs_stepId step @ ''.execution.timeoutMs'')
              ''Timeout values must be positive.''] else []) @
     (if cs_riskLevel step = RiskCritical \<and> \<not> cs_idempotent step \<and> \<not> cs_approvalRequired step
      then [mk_issue ''PHASE42A_UNSAFE_STEP'' (''steps.'' @ cs_stepId step @ ''.safety'')
              ''Critical non-idempotent steps must require approval.''] else []) @
     stepIssues plan (set_add (cs_stepId step) seen) rest"

definition missingIssues :: "CanonicalPlan \<Rightarrow> ValidationIssue list" where
  "missingIssues plan = concat (map (\<lambda>step. concat (map (\<lambda>dependency.
       if dependency \<notin> cs_stepId ` set (cp_steps plan)
       then [mk_issue ''PHASE42A_INVALID_STEP_GRAPH'' (''steps.'' @ cs_stepId step @ ''.dependencies'')
               (''Dependency target '' @ dependency @ '' does not exist.'')] else [])
       (cs_dependencies step))) (cp_steps plan))"

text \<open>The neighbours \<open>dfs\<close> descends to: the dependencies that are keys of the adjacency.\<close>

definition stepAdjacency :: "CanonicalPlan \<Rightarrow> string \<Rightarrow> string list" where
  "stepAdjacency plan k =
     filter (\<lambda>d. d \<in> cs_stepId ` set (cp_steps plan))
       (js_default [] (js_map_of (map (\<lambda>step. (cs_stepId step, cs_dependencies step)) (cp_steps plan)) k))"

definition plan_fuel :: "CanonicalPlan \<Rightarrow> nat" where
  "plan_fuel plan = Suc (length (cp_steps plan))"

definition cycleIssues :: "CanonicalPlan \<Rightarrow> ValidationIssue list option" where
  "cycleIssues plan = do {
     st \<leftarrow> scan_all (plan_fuel plan) (\<lambda>s found. found @ [s]) (stepAdjacency plan)
       (map_keys (map cs_stepId (cp_steps plan))) emptyScan;
     Some (map (\<lambda>s. mk_issue ''PHASE42A_CIRCULAR_DEPENDENCY'' (''steps.'' @ s @ ''.dependencies'')
       (''Circular dependency detected at '' @ s @ ''.'')) (dv_found st))
   }"

definition validateStepGraph :: "CanonicalPlan \<Rightarrow> ValidationIssue list option" where
  "validateStepGraph plan = do {
     cycles \<leftarrow> cycleIssues plan;
     Some (stepIssues plan [] (cp_steps plan) @ missingIssues plan @ cycles)
   }"

section \<open>The validator\<close>

fun result_status_str :: "ValidationResultStatus \<Rightarrow> string" where
  "result_status_str StatusValid = ''valid''"
| "result_status_str StatusInvalidSchema = ''invalid_schema''"
| "result_status_str StatusUnsupportedVersion = ''unsupported_version''"
| "result_status_str StatusUnknownField = ''unknown_field''"
| "result_status_str StatusMissingRequiredField = ''missing_required_field''"
| "result_status_str StatusInvalidEnum = ''invalid_enum''"
| "result_status_str StatusInvalidStepGraph = ''invalid_step_graph''"
| "result_status_str StatusGovernanceViolation = ''governance_violation''"
| "result_status_str StatusNondeterministicSerialization = ''nondeterministic_serialization''"

fun segment_str :: "path_segment \<Rightarrow> string" where
  "segment_str (KeySegment k) = k"
| "segment_str (IndexSegment i) = nat_str i"

definition issuePath :: "path_segment list \<Rightarrow> string" where
  "issuePath path = (if path = [] then ''$'' else js_join ''.'' (map segment_str path))"

definition hasIssueCode :: "ZodIssue list \<Rightarrow> string \<Rightarrow> bool" where
  "hasIssueCode issues code \<longleftrightarrow> list_ex (\<lambda>issue. zi_code issue = code) issues"

definition mapSchemaStatus :: "ZodIssue list \<Rightarrow> ValidationResultStatus" where
  "mapSchemaStatus issues =
     (if hasIssueCode issues ''unrecognized_keys'' then StatusUnknownField
      else if hasIssueCode issues ''invalid_value'' then StatusInvalidEnum
      else StatusInvalidSchema)"

definition atSchemaVersion :: "ZodIssue \<Rightarrow> bool" where
  "atSchemaVersion issue \<longleftrightarrow>
     (case zi_path issue of KeySegment k # _ \<Rightarrow> k = ''schemaVersion'' | _ \<Rightarrow> False)"

definition mapSchemaIssues :: "ZodIssue list \<Rightarrow> ValidationIssue list" where
  "mapSchemaIssues issues = map (\<lambda>issue.
     mk_issue
       (if zi_code issue = ''unrecognized_keys'' then ''PHASE42A_UNKNOWN_FIELD''
        else if zi_code issue = ''invalid_value'' then ''PHASE42A_INVALID_ENUM''
        else if atSchemaVersion issue then ''PHASE42A_SCHEMA_VERSION_MISSING''
        else ''PHASE42A_REQUIRED_FIELD_MISSING'')
       (issuePath (zi_path issue)) (zi_message issue)) issues"

definition issue_json :: "ValidationIssue \<Rightarrow> json" where
  "issue_json i = JObj
     [(''code'', JStr (vi_code i)), (''path'', JStr (vi_path i)), (''message'', JStr (vi_message i))]"

definition makeEvidence ::
  "(string \<Rightarrow> string) \<Rightarrow> string \<Rightarrow> ValidationResultStatus \<Rightarrow> string option \<Rightarrow> ValidationIssue list
   \<Rightarrow> CanonicalPlan option \<Rightarrow> string option \<Rightarrow> string \<Rightarrow> CanonicalPlanValidationEvidence" where
  "makeEvidence sha schemaVersion status failureReason issues normalized deterministicHash timestamp =
     \<lparr>ce_validationId = ''validation:'' @ take 16 (hashPayloadDeterministically sha
        [(''schemaVersion'', JStr schemaVersion), (''status'', JStr (result_status_str status)),
         (''issues'', JArr (map issue_json issues)), (''timestamp'', JStr timestamp)]),
      ce_schemaVersion = schemaVersion, ce_status = status, ce_failureReason = failureReason,
      ce_issues = issues, ce_normalized = normalized, ce_deterministicHash = deterministicHash,
      ce_timestamp = timestamp\<rparr>"

text \<open>\<open>typeof value === "string" ? value : fallback\<close>\<close>

definition string_or :: "json \<Rightarrow> string \<Rightarrow> string" where
  "string_or v d = (case v of JStr s \<Rightarrow> s | _ \<Rightarrow> d)"

text \<open>A parsed plan: normalized, its step graph checked, its schema governed.\<close>

definition validateParsedPlan ::
  "(string \<Rightarrow> string \<Rightarrow> int) \<Rightarrow> (string \<Rightarrow> string) \<Rightarrow> json \<Rightarrow> string \<Rightarrow> string \<Rightarrow> CanonicalPlan
   \<Rightarrow> CanonicalPlanValidationEvidence option" where
  "validateParsedPlan lc sha inspected schemaVersion timestamp data = do {
     let normalized = normalizeCanonicalPlan lc data;
     graphIssues \<leftarrow> validateStepGraph normalized;
     Some (if graphIssues \<noteq> [] then
         (let hasUnsafe = list_ex (\<lambda>i. vi_code i = ''PHASE42A_UNSAFE_STEP'') graphIssues in
          makeEvidence sha schemaVersion
            (if hasUnsafe then StatusGovernanceViolation else StatusInvalidStepGraph)
            (Some (if hasUnsafe then ''Unsafe step configuration.'' else ''Step graph validation failed.''))
            graphIssues None None timestamp)
       else
         (let governance = checkSchemaGovernance sha inspected schemaVersion
                (case getSchemaByVersion sha inspected schemaVersion of None \<Rightarrow> [] | Some schema \<Rightarrow> sr_hash schema) in
          if governance \<noteq> [] then
            makeEvidence sha schemaVersion StatusGovernanceViolation (Some ''Schema governance check failed.'')
              governance None None timestamp
          else makeEvidence sha schemaVersion StatusValid None [] (Some normalized)
                 (Some (hashCanonicalPlan lc sha normalized)) timestamp))
   }"

definition validateCanonicalPlan ::
  "(string \<Rightarrow> string \<Rightarrow> int) \<Rightarrow> (string \<Rightarrow> string) \<Rightarrow> json \<Rightarrow> plan_parser \<Rightarrow> json
   \<Rightarrow> CanonicalPlanValidationEvidence option" where
  "validateCanonicalPlan lc sha inspected parse input =
     (let schemaVersion = string_or (prop_get input ''schemaVersion'') [];
          timestamp = string_or (prop_get input ''createdAt'') ''1970-01-01T00:00:00.000Z'' in
      if schemaVersion = [] then
        Some (makeEvidence sha [] StatusMissingRequiredField (Some ''schemaVersion is required.'')
          [mk_issue ''PHASE42A_SCHEMA_VERSION_MISSING'' ''schemaVersion'' ''schemaVersion is required.'']
          None None timestamp)
      else do {
        resolution \<leftarrow> resolveSchemaVersion sha inspected schemaVersion;
        if \<not> vn_supported resolution then
          Some (makeEvidence sha schemaVersion StatusUnsupportedVersion (Some ''Unsupported schema version.'')
            [mk_issue ''PHASE42A_SCHEMA_VERSION_UNSUPPORTED'' ''schemaVersion'' ''Unsupported schema version.'']
            None None timestamp)
        else case parse input of
          Inl issues \<Rightarrow>
            Some (makeEvidence sha schemaVersion
              (if mapSchemaStatus issues = StatusInvalidSchema \<and> list_ex atSchemaVersion issues
               then StatusMissingRequiredField else mapSchemaStatus issues)
              (Some ''Schema validation failed.'') (mapSchemaIssues issues) None None timestamp)
        | Inr data \<Rightarrow> validateParsedPlan lc sha inspected schemaVersion timestamp data
      })"

definition validateAndNormalizePlan ::
  "(string \<Rightarrow> string \<Rightarrow> int) \<Rightarrow> (string \<Rightarrow> string) \<Rightarrow> json \<Rightarrow> plan_parser \<Rightarrow> json
   \<Rightarrow> CanonicalPlanValidationEvidence option" where
  "validateAndNormalizePlan = validateCanonicalPlan"

section \<open>The step graph check\<close>

interpretation step_graph: finite_digraph "stepAdjacency plan" "cs_stepId ` set (cp_steps plan)" for plan
proof
  fix v assume "v \<notin> cs_stepId ` set (cp_steps plan)"
  then have none: "js_map_of (map (\<lambda>step. (cs_stepId step, cs_dependencies step)) (cp_steps plan)) v = None"
    by (simp add: image_image)
  show "stepAdjacency plan v = []"
    by (simp only: stepAdjacency_def none js_default_simps filter.simps)
qed (auto simp: stepAdjacency_def)

lemma cycleIssues_returns: "\<exists>issues. cycleIssues plan = Some issues"
proof -
  have "card (cs_stepId ` set (cp_steps plan)) < plan_fuel plan"
    unfolding plan_fuel_def by (meson List.finite_set card_image_le card_length le_trans less_Suc_eq_le)
  then obtain st where "scan_all (plan_fuel plan) (\<lambda>s found. found @ [s]) (stepAdjacency plan)
      (map_keys (map cs_stepId (cp_steps plan))) emptyScan = Some st"
    using step_graph.scan_returns[of "map_keys (map cs_stepId (cp_steps plan))" plan] by auto
  then show ?thesis by (simp add: cycleIssues_def)
qed

lemma cycleIssues_Nil:
  assumes "cycleIssues plan = Some issues"
  shows "issues = [] \<longleftrightarrow> acyclic (adj_rel (stepAdjacency plan))"
proof -
  from assms obtain st where st: "scan_all (plan_fuel plan) (\<lambda>s found. found @ [s]) (stepAdjacency plan)
      (map_keys (map cs_stepId (cp_steps plan))) emptyScan = Some st" and "issues = [] \<longleftrightarrow> dv_found st = []"
    by (auto simp: cycleIssues_def split: Option.bind_splits)
  moreover have "u \<in> set (map_keys (map cs_stepId (cp_steps plan)))" if "(u, v) \<in> adj_rel (stepAdjacency plan)" for u v
    using that step_graph.adj_out[of u plan] by (cases "u \<in> cs_stepId ` set (cp_steps plan)") auto
  ultimately show ?thesis using scan_correct(1)[OF records_append st] by blast
qed

text \<open>The dependency relation of a plan: \<open>(d, s)\<close> when step \<open>s\<close> depends on \<open>d\<close>.\<close>

definition plan_rel :: "CanonicalPlan \<Rightarrow> (string \<times> string) set" where
  "plan_rel plan = {(d, cs_stepId s) | d s. s \<in> set (cp_steps plan) \<and> d \<in> set (cs_dependencies s)}"

definition plan_wf :: "CanonicalPlan \<Rightarrow> bool" where
  "plan_wf plan \<longleftrightarrow> distinct (map cs_stepId (cp_steps plan)) \<and>
     (\<forall>s \<in> set (cp_steps plan). set (cs_dependencies s) \<subseteq> cs_stepId ` set (cp_steps plan))"

definition step_safe :: "CanonicalPlan \<Rightarrow> CanonicalPlanStep \<Rightarrow> bool" where
  "step_safe plan s \<longleftrightarrow> 0 < cs_timeoutMs s \<and> 0 < cp_timeoutMs plan \<and>
     (cs_riskLevel s = RiskCritical \<longrightarrow> cs_idempotent s \<or> cs_approvalRequired s)"

lemma stepIssues_Nil:
  "stepIssues plan seen ss = [] \<longleftrightarrow>
     distinct (map cs_stepId ss) \<and> set seen \<inter> cs_stepId ` set ss = {} \<and> list_all (step_safe plan) ss"
  by (induction ss arbitrary: seen) (auto simp: step_safe_def)

lemma missingIssues_Nil:
  "missingIssues plan = [] \<longleftrightarrow>
     (\<forall>s \<in> set (cp_steps plan). set (cs_dependencies s) \<subseteq> cs_stepId ` set (cp_steps plan))"
  by (auto simp: missingIssues_def)

lemma stepAdjacency_wf:
  assumes "plan_wf plan"
  shows "adj_rel (stepAdjacency plan) = (plan_rel plan)\<inverse>"
proof -
  have deps: "js_map_of (map (\<lambda>step. (cs_stepId step, cs_dependencies step)) (cp_steps plan)) (cs_stepId s) =
      Some (cs_dependencies s)" if "s \<in> set (cp_steps plan)" for s
    by (rule js_map_of_distinct) (use assms that in \<open>auto simp: plan_wf_def comp_def\<close>)
  have "v \<in> set (stepAdjacency plan u) \<longleftrightarrow> (v, u) \<in> plan_rel plan" for u v
  proof (cases "u \<in> cs_stepId ` set (cp_steps plan)")
    case True
    then obtain s where s: "s \<in> set (cp_steps plan)" "u = cs_stepId s" by blast
    have "t = s" if "t \<in> set (cp_steps plan)" "cs_stepId t = cs_stepId s" for t
      using assms s(1) that by (auto simp: plan_wf_def distinct_map inj_on_def)
    then have "(v, u) \<in> plan_rel plan \<longleftrightarrow> v \<in> set (cs_dependencies s)"
      using s by (auto simp: plan_rel_def)
    moreover have "set (cs_dependencies s) \<subseteq> cs_stepId ` set (cp_steps plan)"
      using assms s(1) by (simp add: plan_wf_def)
    ultimately show ?thesis using deps[OF s(1)] s(2) by (auto simp: stepAdjacency_def)
  next
    case False
    then show ?thesis using step_graph.adj_out[OF False] by (auto simp: plan_rel_def)
  qed
  then show ?thesis by auto
qed

text \<open>What a plan without step graph issues is.\<close>

definition step_graph_ok :: "CanonicalPlan \<Rightarrow> bool" where
  "step_graph_ok plan \<longleftrightarrow> plan_wf plan \<and> acyclic (plan_rel plan) \<and> list_all (step_safe plan) (cp_steps plan)"

lemma validateStepGraph_returns: "\<exists>issues. validateStepGraph plan = Some issues"
  using cycleIssues_returns[of plan] by (auto simp: validateStepGraph_def)

lemma validateStepGraph_Nil:
  "validateStepGraph plan = Some issues \<Longrightarrow> issues = [] \<longleftrightarrow> step_graph_ok plan"
proof -
  assume "validateStepGraph plan = Some issues"
  then obtain cycles where c: "cycleIssues plan = Some cycles"
    and i: "issues = stepIssues plan [] (cp_steps plan) @ missingIssues plan @ cycles"
    by (auto simp: validateStepGraph_def split: Option.bind_splits)
  show ?thesis
  proof (cases "plan_wf plan")
    case True
    then show ?thesis unfolding i
      using cycleIssues_Nil[OF c] stepAdjacency_wf[OF True]
      by (auto simp: step_graph_ok_def stepIssues_Nil missingIssues_Nil plan_wf_def)
  next
    case False
    then show ?thesis unfolding i by (auto simp: step_graph_ok_def stepIssues_Nil missingIssues_Nil plan_wf_def)
  qed
qed

section \<open>The verdict\<close>

lemma registry_versions:
  "getSchemaByVersion sha inspected v = Some schema \<Longrightarrow> checkSchemaGovernance sha inspected v (sr_hash schema) = []"
  by (auto simp: checkSchemaGovernance_def getSchemaByVersion_def canonicalSchemaRegistry_def createSchemaRecord_def
      mission_control_def split: if_splits)

lemma supported_versions:
  "(\<exists>schema. getSchemaByVersion sha inspected v = Some schema) \<longleftrightarrow> v \<in> {''1.0.0'', ''1.0.1'', ''1.1.0''}"
  by (auto simp: getSchemaByVersion_def canonicalSchemaRegistry_def createSchemaRecord_def)

lemma current_schema: "getCurrentCanonicalSchema sha inspected =
    Some (createSchemaRecord sha inspected ''canonical-plan'' ''1.1.0'' True False [''1.1.0'', ''1.0.1'', ''1.0.0'']
        (mission_control ''planning.schema.v1.1''))"
  by (simp add: getCurrentCanonicalSchema_def canonicalSchemaRegistry_def createSchemaRecord_def)

lemma resolve_supported:
  "\<exists>r. resolveSchemaVersion sha inspected v = Some r \<and> (vn_supported r \<longleftrightarrow> v \<in> {''1.0.0'', ''1.0.1'', ''1.1.0''})"
proof (cases "v \<in> {''1.0.0'', ''1.0.1'', ''1.1.0''}")
  case True
  then obtain schema where s: "getSchemaByVersion sha inspected v = Some schema" using supported_versions by blast
  have "parseSemver v \<noteq> None" using True by (auto simp: parseSemver_def is_digit_def)
  moreover have "parseSemver ''1.1.0'' = Some (1, 1, 0)" by code_simp
  ultimately show ?thesis using True s
    by (auto simp: resolveSchemaVersion_def current_schema createSchemaRecord_def)
next
  case False
  then have "getSchemaByVersion sha inspected v = None"
    using supported_versions[of sha inspected v] by (cases "getSchemaByVersion sha inspected v") auto
  moreover have "v \<notin> set (getCompatibleSchemaVersions ''1.1.0'')"
    using False by (simp add: getCompatibleSchemaVersions_def js_map_of_def)
  ultimately show ?thesis using False
    by (auto simp: resolveSchemaVersion_def current_schema createSchemaRecord_def unsupportedVersion_def
        split: option.split prod.split)
qed

lemma validateCanonicalPlan_returns: "\<exists>e. validateCanonicalPlan lc sha inspected parse input = Some e"
proof -
  obtain r where "resolveSchemaVersion sha inspected (string_or (prop_get input ''schemaVersion'') []) = Some r"
    using resolve_supported by blast
  moreover have "\<exists>e. validateParsedPlan lc sha inspected v t data = Some e" for v t data
    using validateStepGraph_returns[of "normalizeCanonicalPlan lc data"] by (auto simp: validateParsedPlan_def Let_def)
  ultimately show ?thesis by (auto simp: validateCanonicalPlan_def Let_def split: sum.split)
qed

lemma makeEvidence_simps [simp]:
  "ce_status (makeEvidence sha v st fr is np dh t) = st"
  "ce_normalized (makeEvidence sha v st fr is np dh t) = np"
  "ce_issues (makeEvidence sha v st fr is np dh t) = is"
  "ce_schemaVersion (makeEvidence sha v st fr is np dh t) = v"
  by (simp_all add: makeEvidence_def)

lemma validateParsedPlan_valid:
  assumes "validateParsedPlan lc sha inspected v t data = Some e" and "v \<in> {''1.0.0'', ''1.0.1'', ''1.1.0''}"
  shows "ce_status e = StatusValid \<longleftrightarrow> step_graph_ok (normalizeCanonicalPlan lc data)"
    and "ce_normalized e = (if ce_status e = StatusValid then Some (normalizeCanonicalPlan lc data) else None)"
    and "ce_issues e = [] \<longleftrightarrow> ce_status e = StatusValid"
proof -
  obtain schema where schema: "getSchemaByVersion sha inspected v = Some schema"
    using assms(2) supported_versions by blast
  from assms(1) obtain issues where g: "validateStepGraph (normalizeCanonicalPlan lc data) = Some issues"
    by (auto simp: validateParsedPlan_def Let_def split: Option.bind_splits)
  have "e = (if issues \<noteq> [] then makeEvidence sha v
        (if list_ex (\<lambda>i. vi_code i = ''PHASE42A_UNSAFE_STEP'') issues then StatusGovernanceViolation else StatusInvalidStepGraph)
        (Some (if list_ex (\<lambda>i. vi_code i = ''PHASE42A_UNSAFE_STEP'') issues
           then ''Unsafe step configuration.'' else ''Step graph validation failed.'')) issues None None t
      else makeEvidence sha v StatusValid None [] (Some (normalizeCanonicalPlan lc data))
        (Some (hashCanonicalPlan lc sha (normalizeCanonicalPlan lc data))) t)"
    using assms(1) g registry_versions[OF schema]
    by (cases "issues = []") (simp_all add: validateParsedPlan_def Let_def schema)
  with validateStepGraph_Nil[OF g]
  show "ce_status e = StatusValid \<longleftrightarrow> step_graph_ok (normalizeCanonicalPlan lc data)"
    and "ce_normalized e = (if ce_status e = StatusValid then Some (normalizeCanonicalPlan lc data) else None)"
    and "ce_issues e = [] \<longleftrightarrow> ce_status e = StatusValid" by auto
qed

text \<open>A valid verdict: the version is registered, the schema accepts and the step graph is right.\<close>

lemma validateCanonicalPlan_valid:
  assumes "validateCanonicalPlan lc sha inspected parse input = Some e" and "ce_status e = StatusValid"
  obtains data where "parse input = Inr data" "ce_normalized e = Some (normalizeCanonicalPlan lc data)"
    "step_graph_ok (normalizeCanonicalPlan lc data)"
    "string_or (prop_get input ''schemaVersion'') [] \<in> {''1.0.0'', ''1.0.1'', ''1.1.0''}"
proof -
  let ?v = "string_or (prop_get input ''schemaVersion'') []"
  let ?t = "string_or (prop_get input ''createdAt'') ''1970-01-01T00:00:00.000Z''"
  obtain r where r: "resolveSchemaVersion sha inspected ?v = Some r"
    "vn_supported r \<longleftrightarrow> ?v \<in> {''1.0.0'', ''1.0.1'', ''1.1.0''}"
    using resolve_supported by blast
  have supp: "vn_supported r" "?v \<noteq> []"
    using assms r(1) by (auto simp: validateCanonicalPlan_def Let_def split: if_splits)
  moreover have "mapSchemaStatus issues \<noteq> StatusValid" for issues by (simp add: mapSchemaStatus_def)
  ultimately obtain data where data: "parse input = Inr data"
    "validateParsedPlan lc sha inspected ?v ?t data = Some e"
    using assms r(1) by (cases "parse input") (auto simp: validateCanonicalPlan_def Let_def split: if_splits)
  from validateParsedPlan_valid[OF data(2)] supp r(2) assms(2) data(1) show thesis
    by (intro that[of data]) auto
qed

lemma validateCanonicalPlan_accepts:
  assumes "string_or (prop_get input ''schemaVersion'') [] \<in> {''1.0.0'', ''1.0.1'', ''1.1.0''}"
    and "parse input = Inr data" and "step_graph_ok (normalizeCanonicalPlan lc data)"
  shows "\<exists>e. validateCanonicalPlan lc sha inspected parse input = Some e \<and> ce_status e = StatusValid \<and>
    ce_normalized e = Some (normalizeCanonicalPlan lc data)"
proof -
  let ?v = "string_or (prop_get input ''schemaVersion'') []"
  let ?t = "string_or (prop_get input ''createdAt'') ''1970-01-01T00:00:00.000Z''"
  obtain r where r: "resolveSchemaVersion sha inspected ?v = Some r" "vn_supported r"
    using resolve_supported[of sha inspected ?v] assms(1) by blast
  have ne: "?v \<noteq> []" using assms(1) by auto
  obtain e where e: "validateParsedPlan lc sha inspected ?v ?t data = Some e"
    using validateStepGraph_returns[of "normalizeCanonicalPlan lc data"] by (auto simp: validateParsedPlan_def Let_def)
  then have "validateCanonicalPlan lc sha inspected parse input = Some e"
    using r ne assms(2) by (simp add: validateCanonicalPlan_def Let_def)
  with validateParsedPlan_valid[OF e assms(1)] assms(3) show ?thesis by simp
qed

end
