(* ===== verification/PlanStructure.thy ===== *)
theory PlanStructure
  imports PlanSchema
begin

text \<open>
  \<open>services/planning/validation/structural\<close>, \<open>evidence/graph-hash.ts\<close> and \<open>passes\<close>: the graph index of
  a canonical plan, breadth-first traversal, depth, the cycle scan, and the ten passes over a plan.
  The traversal, the depth recursion and the scan run on fuel; the lemmas show when the fuel is
  enough (the depth recursion ends on acyclic graphs only) and what the three compute.
\<close>

section \<open>The graph index\<close>

record GraphNode =
  gn_stepId :: string
  gn_index :: nat
  gn_dependencies :: "string list"

record GraphEdge =
  gg_from :: string
  gg_to :: string

record GraphIndex =
  gi_planId :: string
  gi_nodes :: "GraphNode list"
  gi_nodeMap :: "string \<rightharpoonup> GraphNode"
  gi_edges :: "GraphEdge list"
  gi_incoming :: "string \<rightharpoonup> string list"
  gi_outgoing :: "string \<rightharpoonup> string list"
  gi_rootIds :: "string list"

definition addOutgoing :: "(string \<rightharpoonup> string list) \<Rightarrow> GraphEdge \<Rightarrow> (string \<rightharpoonup> string list)" where
  "addOutgoing out e = out(gg_from e \<mapsto> js_default [] (out (gg_from e)) @ [gg_to e])"

definition createGraphIndex :: "CanonicalPlan \<Rightarrow> GraphIndex" where
  "createGraphIndex plan =
     (let nodes = map (\<lambda>(index, step). \<lparr>gn_stepId = cs_stepId step, gn_index = index,
            gn_dependencies = cs_dependencies step\<rparr>) (enumerate 0 (cp_steps plan));
          edges = concat (map (\<lambda>node. map (\<lambda>d. \<lparr>gg_from = d, gg_to = gn_stepId node\<rparr>) (gn_dependencies node)) nodes)
      in \<lparr>gi_planId = cp_planId plan, gi_nodes = nodes,
          gi_nodeMap = js_map_of (map (\<lambda>node. (gn_stepId node, node)) nodes),
          gi_edges = edges,
          gi_incoming = js_map_of (map (\<lambda>node. (gn_stepId node, gn_dependencies node)) nodes),
          gi_outgoing = foldl addOutgoing (js_map_of (map (\<lambda>node. (gn_stepId node, [])) nodes)) edges,
          gi_rootIds = map gn_stepId (filter (\<lambda>node. gn_dependencies node = []) nodes)\<rparr>)"

definition outgoingOf :: "GraphIndex \<Rightarrow> string \<Rightarrow> string list" where
  "outgoingOf g k = js_default [] (gi_outgoing g k)"

definition incomingOf :: "GraphIndex \<Rightarrow> string \<Rightarrow> string list" where
  "incomingOf g k = js_default [] (gi_incoming g k)"

section \<open>Traversal and depth\<close>

text \<open>The queue loop: a falsy (empty) or visited id is skipped.\<close>

fun bfs :: "nat \<Rightarrow> (string \<Rightarrow> string list) \<Rightarrow> string list \<Rightarrow> string list \<Rightarrow> string list option" where
  "bfs n adj [] visited = Some visited"
| "bfs 0 adj (current # queue) visited = None"
| "bfs (Suc n) adj (current # queue) visited =
     (if current = [] \<or> current \<in> set visited then bfs n adj queue visited
      else bfs n adj (queue @ adj current) (set_add current visited))"

definition traverseFromRoot :: "GraphIndex \<Rightarrow> string \<Rightarrow> string list option" where
  "traverseFromRoot g rootId = bfs (Suc (length (gi_edges g))) (outgoingOf g) [rootId] []"

text \<open>The memoised recursion; a cached depth is used when it is truthy (not zero).\<close>

fun depth :: "nat \<Rightarrow> ('a \<Rightarrow> 'a list) \<Rightarrow> 'a \<Rightarrow> ('a \<rightharpoonup> int) \<Rightarrow> (int \<times> ('a \<rightharpoonup> int)) option"
  and depths ::
    "nat \<Rightarrow> ('a \<Rightarrow> 'a list) \<Rightarrow> 'a list \<Rightarrow> ('a \<rightharpoonup> int) \<Rightarrow> (int list \<times> ('a \<rightharpoonup> int)) option"
where
  "depth 0 par v memo = None"
| "depth (Suc n) par v memo =
     (if js_default 0 (memo v) \<noteq> 0 then Some (js_default 0 (memo v), memo)
      else if par v = [] then Some (1, memo(v \<mapsto> 1))
      else do {
        (ds, memo') \<leftarrow> depths n par (par v) memo;
        let value = 1 + foldl max (hd ds) (tl ds);
        Some (value, memo'(v \<mapsto> value))
      })"
| "depths n par [] memo = Some ([], memo)"
| "depths n par (p # ps) memo = do {
     (d, memo1) \<leftarrow> depth n par p memo;
     (ds, memo2) \<leftarrow> depths n par ps memo1;
     Some (d # ds, memo2)
   }"

fun maxDepthOver ::
  "nat \<Rightarrow> ('a \<Rightarrow> 'a list) \<Rightarrow> 'a list \<Rightarrow> ('a \<rightharpoonup> int) \<Rightarrow> int \<Rightarrow> int option" where
  "maxDepthOver n par [] memo acc = Some acc"
| "maxDepthOver n par (v # vs) memo acc = do {
     (d, memo') \<leftarrow> depth n par v memo;
     maxDepthOver n par vs memo' (max acc d)
   }"

definition index_universe :: "GraphIndex \<Rightarrow> string list" where
  "index_universe g = map gn_stepId (gi_nodes g) @ map gg_from (gi_edges g) @ map gg_to (gi_edges g)"

definition index_fuel :: "GraphIndex \<Rightarrow> nat" where
  "index_fuel g = Suc (length (index_universe g))"

definition computeGraphDepth :: "GraphIndex \<Rightarrow> int option" where
  "computeGraphDepth g =
     maxDepthOver (index_fuel g) (incomingOf g) (map gn_stepId (gi_nodes g)) Map.empty 0"

definition detectGraphCycles :: "GraphIndex \<Rightarrow> string list option" where
  "detectGraphCycles g = do {
     st \<leftarrow> scan_all (index_fuel g) set_add (outgoingOf g) (map gn_stepId (gi_nodes g)) emptyScan;
     Some (dv_found st)
   }"

section \<open>The passes\<close>

definition mk_error :: "string \<Rightarrow> string \<Rightarrow> string \<Rightarrow> string \<Rightarrow> ValidationError" where
  "mk_error code path message stage =
     \<lparr>ve_code = code, ve_path = path, ve_message = message, ve_stage = stage\<rparr>"

definition runTopologyPass :: "GraphIndex \<Rightarrow> (ValidationError list \<times> ValidationTopologySummary) option" where
  "runTopologyPass g = do {
     cycles \<leftarrow> detectGraphCycles g;
     reachable \<leftarrow> (case gi_rootIds g of [] \<Rightarrow> Some [] | root # _ \<Rightarrow> traverseFromRoot g root);
     maxDepth \<leftarrow> computeGraphDepth g;
     Some (
       map (\<lambda>c. mk_error ''STRUCTURE_CYCLE_DETECTED'' (''steps.'' @ c @ ''.dependencies'')
              (''Cycle detected at '' @ c @ ''.'') ''topology'') cycles @
       (if length (gi_rootIds g) \<noteq> 1
        then mk_error ''STRUCTURE_DISCONNECTED_GRAPH'' ''steps''
               ''Plan must have exactly one deterministic root.'' ''topology'' #
             map (\<lambda>orphan. mk_error ''STRUCTURE_ORPHAN_NODE'' (''steps.'' @ orphan)
               (''Orphan root '' @ orphan @ '' detected.'') ''topology'') (drop 1 (gi_rootIds g))
        else []) @
       (if 0 < length reachable \<and> length reachable \<noteq> length (gi_nodes g)
        then [mk_error ''STRUCTURE_DISCONNECTED_GRAPH'' ''steps'' ''Graph is disconnected.'' ''topology'']
        else []),
       \<lparr>ts_nodeCount = int (length (gi_nodes g)), ts_edgeCount = int (length (gi_edges g)),
        ts_branchCount = 0, ts_maxDepth = maxDepth\<rparr>)
   }"

definition MAX_DEPENDENCY_FANIN :: nat where "MAX_DEPENDENCY_FANIN = 4"
definition MAX_DEPENDENCY_FANOUT :: nat where "MAX_DEPENDENCY_FANOUT = 8"

definition runDependencyPass :: "GraphIndex \<Rightarrow> ValidationError list" where
  "runDependencyPass g = concat (map (\<lambda>node.
     concat (map (\<lambda>dependency.
       (if gi_nodeMap g dependency = None
        then [mk_error ''STRUCTURE_INVALID_ORDERING'' (''steps.'' @ gn_stepId node @ ''.dependencies'')
                (''Missing dependency '' @ dependency @ ''.'') ''dependency''] else []) @
       (if dependency = gn_stepId node
        then [mk_error ''STRUCTURE_CYCLE_DETECTED'' (''steps.'' @ gn_stepId node @ ''.dependencies'')
                (''Step '' @ gn_stepId node @ '' cannot depend on itself.'') ''dependency''] else []))
       (gn_dependencies node)) @
     (if MAX_DEPENDENCY_FANIN < length (gn_dependencies node)
      then [mk_error ''STRUCTURE_CONTAINMENT_FAILURE'' (''steps.'' @ gn_stepId node @ ''.dependencies'')
              (''Dependency fan-in exceeded for '' @ gn_stepId node @ ''.'') ''dependency''] else []) @
     (if MAX_DEPENDENCY_FANOUT < length (outgoingOf g (gn_stepId node))
      then [mk_error ''STRUCTURE_CONTAINMENT_FAILURE'' (''steps.'' @ gn_stepId node)
              (''Dependency fan-out exceeded for '' @ gn_stepId node @ ''.'') ''dependency''] else []))
     (gi_nodes g))"

fun str_of :: "json \<Rightarrow> string option" where
  "str_of (JStr s) = Some s"
| "str_of _ = None"

text \<open>The parameters of the action of a step.\<close>

definition param :: "CanonicalPlanStep \<Rightarrow> string \<Rightarrow> json" where
  "param step k = obj_get (sa_parameters (cs_action step)) k"

definition runOrderingPass :: "CanonicalPlan \<Rightarrow> GraphIndex \<Rightarrow> ValidationError list" where
  "runOrderingPass plan g = concat (map (\<lambda>step.
     case gi_nodeMap g (cs_stepId step) of
       None \<Rightarrow> []
     | Some node \<Rightarrow>
         concat (map (\<lambda>dependency.
           case gi_nodeMap g dependency of
             None \<Rightarrow> []
           | Some dependencyNode \<Rightarrow>
               (if gn_index node \<le> gn_index dependencyNode
                then [mk_error ''STRUCTURE_INVALID_ORDERING'' (''steps.'' @ cs_stepId step @ ''.dependencies'')
                        (''Dependency '' @ dependency @ '' appears after '' @ cs_stepId step @ ''.'') ''ordering'']
                else [])) (cs_dependencies step)) @
         (if param step ''parallel'' = JBool True \<and> str_of (param step ''parallelGroup'') = None
          then [mk_error ''STRUCTURE_INVALID_ORDERING''
                  (''steps.'' @ cs_stepId step @ ''.action.parameters.parallelGroup'')
                  ''Parallel execution must declare an explicit parallelGroup.'' ''ordering''] else []))
     (cp_steps plan))"

definition MAX_BRANCH_DEPTH :: nat where "MAX_BRANCH_DEPTH = 3"
definition MAX_BRANCH_COUNT :: nat where "MAX_BRANCH_COUNT = 8"

text \<open>A case is an object with a string condition and a string target.\<close>

definition branchCase :: "json \<Rightarrow> (string \<times> string) option" where
  "branchCase v =
     (case (str_of (prop_get v ''condition''), str_of (prop_get v ''nextStepId'')) of
        (Some condition, Some target) \<Rightarrow> Some (condition, target)
      | _ \<Rightarrow> None)"

definition branchCases :: "json \<Rightarrow> (string \<times> string) list option" where
  "branchCases v =
     (case v of
        JArr vs \<Rightarrow>
          (if vs = [] \<or> \<not> list_all (\<lambda>c. branchCase c \<noteq> None) vs then None
           else Some (concat (map (\<lambda>c. case branchCase c of None \<Rightarrow> [] | Some b \<Rightarrow> [b]) vs)))
      | _ \<Rightarrow> None)"

definition branchTargetOk :: "GraphIndex \<Rightarrow> string \<Rightarrow> string \<Rightarrow> bool" where
  "branchTargetOk g stepId nextStepId \<longleftrightarrow>
     (case (gi_nodeMap g nextStepId, gi_nodeMap g stepId) of
        (Some target, Some source) \<Rightarrow> gn_index source < gn_index target
      | _ \<Rightarrow> False)"

definition routeErrors :: "GraphIndex \<Rightarrow> CanonicalPlanStep \<Rightarrow> ValidationError list" where
  "routeErrors g step =
     (let path = ''steps.'' @ cs_stepId step @ ''.action.parameters.branchCases'' in
      case branchCases (param step ''branchCases'') of
        None \<Rightarrow> [mk_error ''STRUCTURE_INVALID_BRANCH'' path
                   ''Route steps must declare explicit branchCases.'' ''branch'']
      | Some cases \<Rightarrow> concat (map (\<lambda>(condition, nextStepId).
          (if js_trim condition = []
           then [mk_error ''STRUCTURE_INVALID_BRANCH'' path ''Branch conditions must be non-empty.'' ''branch'']
           else []) @
          (if \<not> branchTargetOk g (cs_stepId step) nextStepId
           then [mk_error ''STRUCTURE_INVALID_BRANCH'' path
                   (''Branch target '' @ nextStepId @ '' must exist after the route step.'') ''branch'']
           else [])) cases))"

definition runBranchPass :: "CanonicalPlan \<Rightarrow> GraphIndex \<Rightarrow> ValidationError list \<times> nat" where
  "runBranchPass plan g =
     (let routes = filter (\<lambda>step. cs_type step = Route) (cp_steps plan); branchCount = length routes in
      (concat (map (routeErrors g) routes) @
       (if MAX_BRANCH_COUNT < branchCount
        then [mk_error ''STRUCTURE_CONTAINMENT_FAILURE'' ''steps'' ''Branch count exceeded.'' ''branch''] else []) @
       (if MAX_BRANCH_DEPTH < length routes
        then [mk_error ''STRUCTURE_INVALID_BRANCH'' ''steps'' ''Nested branch depth exceeded.'' ''branch''] else []),
       branchCount))"

definition runMergePass :: "(string \<Rightarrow> string \<Rightarrow> int) \<Rightarrow> CanonicalPlan \<Rightarrow> ValidationError list" where
  "runMergePass lc plan = concat (map (\<lambda>step.
     if length (cs_dependencies step) \<le> 1 then []
     else case (str_of (param step ''mergePolicy''), param step ''mergeSources'') of
       (Some _, JArr sources) \<Rightarrow>
         (let dependencies = js_sort lc (cs_dependencies step);
              provided = js_sort lc (concat (map (\<lambda>v. case str_of v of None \<Rightarrow> [] | Some s \<Rightarrow> [s]) sources)) in
          if length dependencies \<noteq> length provided \<or> list_ex (\<lambda>(d, p). d \<noteq> p) (zip dependencies provided)
          then [mk_error ''STRUCTURE_UNSAFE_MERGE'' (''steps.'' @ cs_stepId step @ ''.action.parameters.mergeSources'')
                  ''Merge sources must exactly match dependencies.'' ''merge''] else [])
     | _ \<Rightarrow> [mk_error ''STRUCTURE_UNSAFE_MERGE'' (''steps.'' @ cs_stepId step @ ''.action.parameters'')
               ''Merge steps must declare explicit mergePolicy and mergeSources.'' ''merge''])
     (cp_steps plan))"

definition MAX_RETRY_DEPTH :: int where "MAX_RETRY_DEPTH = 5"

text \<open>A parsed number of attempts is an integer, hence finite.\<close>

definition runRetryPass :: "CanonicalPlan \<Rightarrow> ValidationError list" where
  "runRetryPass plan =
     (if MAX_RETRY_DEPTH < rp_maxAttempts (cp_retryPolicy plan)
      then [mk_error ''STRUCTURE_RETRY_LOOP'' ''execution.retryPolicy.maxAttempts''
              ''Retry attempts must be finite and bounded.'' ''retry''] else []) @
     concat (map (\<lambda>step.
       if param step ''retryTargetStepId'' = JStr (cs_stepId step)
       then [mk_error ''STRUCTURE_RETRY_LOOP'' (''steps.'' @ cs_stepId step @ ''.action.parameters.retryTargetStepId'')
               ''Retry target cannot point to the same step.'' ''retry''] else []) (cp_steps plan))"

definition runGovernancePass :: "CanonicalPlan \<Rightarrow> ValidationError list \<times> bool" where
  "runGovernancePass plan =
     (let sensitive = cp_classification plan = Restricted \<or> cp_classification plan = Mutating;
          modeGap = cp_mode plan = ApprovalRequired \<and> \<not> cp_approvalsRequired plan;
          stepGap = list_ex cs_approvalRequired (cp_steps plan) \<and> \<not> cp_approvalsRequired plan in
      ((if sensitive \<and> \<not> cp_approvalsRequired plan
        then [mk_error ''PLAN_APPROVAL_MISSING'' ''approvals.required''
                ''Restricted or mutating plans must declare approvals.'' ''governance''] else []) @
       (if modeGap
        then [mk_error ''PLAN_APPROVAL_MISSING'' ''execution.mode''
                ''approval_required execution mode needs approvals.required.'' ''approval''] else []) @
       (if num_less (cp_truthScoreRequired plan) (Dec 5 (-1))
        then [mk_error ''GOVERNANCE_FAILURE'' ''governance.truthScoreRequired''
                ''Governance truth score is below structural minimum.'' ''governance''] else []) @
       (if stepGap
        then [mk_error ''PLAN_APPROVAL_MISSING'' ''approvals.required''
                ''Approval-required steps must declare plan approval boundaries.'' ''approval''] else []),
       sensitive \<or> modeGap \<or> stepGap))"

section \<open>Determinism\<close>

definition lower_char :: "char \<Rightarrow> char" where
  "lower_char c = (let n = (of_char c :: nat) in if 65 \<le> n \<and> n \<le> 90 then char_of (n + 32) else c)"

fun contains :: "string \<Rightarrow> string \<Rightarrow> bool" where
  "contains pat s = (take (length pat) s = pat \<or> (case s of [] \<Rightarrow> False | _ # t \<Rightarrow> contains pat t))"

declare contains.simps [simp del]

text \<open>The alternatives of the pattern, which ignores case.\<close>

definition DYNAMIC_PATTERN :: "string list" where
  "DYNAMIC_PATTERN =
     [''$now'', ''$random'', ''date.now()'', ''math.random()'', ''uuid()'', ''dynamicdependency'']"

definition isDynamic :: "string \<Rightarrow> bool" where
  "isDynamic s \<longleftrightarrow> list_ex (\<lambda>pat. contains pat (map lower_char s)) DYNAMIC_PATTERN"

definition dynamicKeyError :: "string \<Rightarrow> string \<Rightarrow> ValidationError list" where
  "dynamicKeyError path key =
     (if isDynamic key
      then [mk_error ''PLAN_NON_DETERMINISTIC'' (path @ ''.'' @ key) ''Dynamic structural key detected.'' ''determinism'']
      else [])"

fun scan :: "json \<Rightarrow> string \<Rightarrow> ValidationError list" where
  "scan (JStr s) path =
     (if isDynamic s
      then [mk_error ''PLAN_NON_DETERMINISTIC'' path ''Dynamic or mutable structural value detected.'' ''determinism'']
      else [])"
| "scan (JArr vs) path =
     concat (map (\<lambda>(i, errs). errs (path @ ''.'' @ nat_str i)) (enumerate 0 (map scan vs)))"
| "scan (JObj kvs) path =
     concat (map (\<lambda>(k, errs). dynamicKeyError path k @ errs (path @ ''.'' @ k))
       (js_entries (map (\<lambda>(k, v). (k, scan v)) kvs)))"
| "scan JUndef path = []"
| "scan JNull path = []"
| "scan (JBool b) path = []"
| "scan (JNum x) path = []"

definition hashValidationGraph ::
  "(string \<Rightarrow> string \<Rightarrow> int) \<Rightarrow> (string \<Rightarrow> string) \<Rightarrow> GraphIndex \<Rightarrow> string" where
  "hashValidationGraph lc sha g = hashPayloadDeterministically sha
     [(''planId'', JStr (gi_planId g)),
      (''nodes'', JArr (map (\<lambda>node. JObj
         [(''stepId'', JStr (gn_stepId node)), (''index'', int_json (int (gn_index node))),
          (''dependencies'', str_arr (gn_dependencies node))]) (gi_nodes g))),
      (''edges'', str_arr (js_sort lc (map (\<lambda>e. gg_from e @ ''->'' @ gg_to e) (gi_edges g)))),
      (''roots'', str_arr (js_sort lc (gi_rootIds g)))]"

definition runDeterminismPass ::
  "(string \<Rightarrow> string \<Rightarrow> int) \<Rightarrow> (string \<Rightarrow> string) \<Rightarrow> CanonicalPlan \<Rightarrow> GraphIndex
   \<Rightarrow> ValidationError list \<times> string \<times> string" where
  "runDeterminismPass lc sha plan g =
     (let planHashLeft = hashCanonicalPlan lc sha plan; planHashRight = hashCanonicalPlan lc sha plan;
          graphHashLeft = hashValidationGraph lc sha g; graphHashRight = hashValidationGraph lc sha g in
      ((if planHashLeft \<noteq> planHashRight \<or> graphHashLeft \<noteq> graphHashRight
        then [mk_error ''PLAN_NON_DETERMINISTIC'' ''$'' ''Deterministic hashing was not stable.'' ''determinism'']
        else []) @
       concat (map (\<lambda>(index, step).
         scan (JObj (sa_parameters (cs_action step))) (''steps.'' @ nat_str index @ ''.action.parameters''))
         (enumerate 0 (cp_steps plan))),
       planHashLeft, graphHashLeft))"

definition MAX_PLAN_NODES :: int where "MAX_PLAN_NODES = 64"
definition MAX_PLAN_DEPTH :: int where "MAX_PLAN_DEPTH = 10"

definition runContainmentPass :: "int \<Rightarrow> int \<Rightarrow> ValidationError list" where
  "runContainmentPass nodeCount maxDepth =
     (if MAX_PLAN_NODES < nodeCount
      then [mk_error ''STRUCTURE_NODE_LIMIT_EXCEEDED'' ''steps'' ''Plan node limit exceeded.'' ''containment''] else []) @
     (if MAX_PLAN_DEPTH < maxDepth
      then [mk_error ''STRUCTURE_DEPTH_EXCEEDED'' ''steps'' ''Plan depth limit exceeded.'' ''containment''] else [])"

section \<open>The index of a plan\<close>

lemma no_elements: "(\<And>u. u \<notin> set xs) \<Longrightarrow> xs = []"
  by (cases xs) auto

lemma js_map_default_in:
  assumes "u \<in> set (js_default [] (js_map_of kvs k))"
  shows "\<exists>ds. (k, ds) \<in> set kvs \<and> u \<in> set ds"
proof (cases "js_map_of kvs k")
  case None
  with assms show ?thesis by (simp only: None js_default_simps) simp
next
  case (Some ds)
  with assms js_map_of_Some_in[OF Some] show ?thesis by (intro exI[of _ ds]) (simp only: Some js_default_simps)
qed

lemma map_gn_stepId [simp]: "map gn_stepId (gi_nodes (createGraphIndex plan)) = map cs_stepId (cp_steps plan)"
  by (rule nth_equalityI) (simp_all add: createGraphIndex_def Let_def nth_enumerate_eq case_prod_beta)

lemma length_gi_nodes [simp]: "length (gi_nodes (createGraphIndex plan)) = length (cp_steps plan)"
  by (simp add: createGraphIndex_def Let_def)

lemma nodes_build:
  "map (\<lambda>node. (gn_stepId node, gn_dependencies node)) (gi_nodes (createGraphIndex plan)) =
     map (\<lambda>s. (cs_stepId s, cs_dependencies s)) (cp_steps plan)"
  by (rule nth_equalityI) (simp_all add: createGraphIndex_def Let_def nth_enumerate_eq case_prod_beta)

lemma edges_build:
  "map (\<lambda>e. (gg_from e, gg_to e)) (gi_edges (createGraphIndex plan)) =
     concat (map (\<lambda>s. map (\<lambda>d. (d, cs_stepId s)) (cs_dependencies s)) (cp_steps plan))"
proof -
  have "gi_edges (createGraphIndex plan) = concat (map (\<lambda>(i, ds). map (\<lambda>d. \<lparr>gg_from = d, gg_to = i\<rparr>) ds)
      (map (\<lambda>node. (gn_stepId node, gn_dependencies node)) (gi_nodes (createGraphIndex plan))))"
    by (simp add: createGraphIndex_def Let_def comp_def)
  then show ?thesis unfolding nodes_build by (simp add: map_concat comp_def)
qed

lemma edges_rel: "(\<lambda>e. (gg_from e, gg_to e)) ` set (gi_edges (createGraphIndex plan)) = plan_rel plan"
proof -
  have "(\<lambda>e. (gg_from e, gg_to e)) ` set (gi_edges (createGraphIndex plan)) =
      set (map (\<lambda>e. (gg_from e, gg_to e)) (gi_edges (createGraphIndex plan)))" by simp
  then show ?thesis unfolding edges_build by (auto simp: plan_rel_def)
qed

lemma addOutgoing_default:
  "js_default [] (foldl addOutgoing m es k) = js_default [] (m k) @ map gg_to (filter (\<lambda>e. gg_from e = k) es)"
  by (induction es arbitrary: m) (auto simp: addOutgoing_def)

lemma outgoing_build: "outgoingOf (createGraphIndex plan) k =
    map gg_to (filter (\<lambda>e. gg_from e = k) (gi_edges (createGraphIndex plan)))"
proof -
  have empty: "js_default [] (js_map_of (map (\<lambda>node. (f node, [])) ns) k) = []" for f :: "'c \<Rightarrow> string" and ns
    by (rule no_elements) (auto dest!: js_map_default_in)
  show ?thesis
    by (simp add: outgoingOf_def createGraphIndex_def Let_def addOutgoing_default empty del: map_map)
qed

lemma set_outgoing: "v \<in> set (outgoingOf (createGraphIndex plan) u) \<longleftrightarrow> (u, v) \<in> plan_rel plan"
  unfolding outgoing_build by (force simp flip: edges_rel)

lemma adj_outgoing: "adj_rel (outgoingOf (createGraphIndex plan)) = plan_rel plan"
  by (auto simp: set_outgoing)

lemma incoming_build:
  "incomingOf (createGraphIndex plan) k =
     js_default [] (js_map_of (map (\<lambda>s. (cs_stepId s, cs_dependencies s)) (cp_steps plan)) k)"
proof -
  have "gi_incoming (createGraphIndex plan) =
      js_map_of (map (\<lambda>node. (gn_stepId node, gn_dependencies node)) (gi_nodes (createGraphIndex plan)))"
    by (simp add: createGraphIndex_def Let_def)
  then show ?thesis unfolding nodes_build incomingOf_def by simp
qed

lemma par_incoming:
  assumes "distinct (map cs_stepId (cp_steps plan))"
  shows "par_rel (incomingOf (createGraphIndex plan)) = plan_rel plan"
proof -
  have "u \<in> set (incomingOf (createGraphIndex plan) v) \<longleftrightarrow> (u, v) \<in> plan_rel plan" for u v
  proof (cases "v \<in> cs_stepId ` set (cp_steps plan)")
    case True
    then obtain s where s: "s \<in> set (cp_steps plan)" "v = cs_stepId s" by blast
    have "js_map_of (map (\<lambda>s. (cs_stepId s, cs_dependencies s)) (cp_steps plan)) (cs_stepId s) = Some (cs_dependencies s)"
      by (rule js_map_of_distinct) (use assms s in \<open>auto simp: comp_def\<close>)
    moreover have "t = s" if "t \<in> set (cp_steps plan)" "cs_stepId t = cs_stepId s" for t
      using assms s(1) that by (auto simp: distinct_map inj_on_def)
    ultimately show ?thesis using s by (auto simp: incoming_build plan_rel_def)
  next
    case False
    then have none: "js_map_of (map (\<lambda>s. (cs_stepId s, cs_dependencies s)) (cp_steps plan)) v = None"
      by (simp add: image_image)
    show ?thesis using False unfolding incoming_build none by (auto simp: plan_rel_def)
  qed
  then show ?thesis by (auto simp: par_rel_def)
qed

lemma plan_rel_target: "(u, v) \<in> plan_rel plan \<Longrightarrow> v \<in> cs_stepId ` set (cp_steps plan)"
  by (auto simp: plan_rel_def)

lemma plan_rel_universe:
  assumes "(u, v) \<in> plan_rel plan"
  shows "u \<in> set (index_universe (createGraphIndex plan)) \<and> v \<in> set (index_universe (createGraphIndex plan))"
proof -
  from assms have "(u, v) \<in> (\<lambda>e. (gg_from e, gg_to e)) ` set (gi_edges (createGraphIndex plan))"
    by (simp add: edges_rel)
  then show ?thesis by (auto simp: index_universe_def)
qed

interpretation out_graph: finite_digraph "outgoingOf (createGraphIndex plan)" "set (index_universe (createGraphIndex plan))" for plan
proof
  fix v
  show "set (outgoingOf (createGraphIndex plan) v) \<subseteq> set (index_universe (createGraphIndex plan))"
    using set_outgoing plan_rel_universe by blast
  assume out: "v \<notin> set (index_universe (createGraphIndex plan))"
  show "outgoingOf (createGraphIndex plan) v = []"
  proof (rule no_elements)
    fix u show "u \<notin> set (outgoingOf (createGraphIndex plan) v)"
      using out plan_rel_universe[of v u plan] unfolding set_outgoing by blast
  qed
qed simp

interpretation in_graph: finite_digraph "incomingOf (createGraphIndex plan)" "set (index_universe (createGraphIndex plan))" for plan
proof
  fix v
  have sub: "u \<in> set (incomingOf (createGraphIndex plan) v) \<Longrightarrow> (u, v) \<in> plan_rel plan" for u
    unfolding incoming_build by (auto simp: plan_rel_def dest!: js_map_default_in)
  then show "set (incomingOf (createGraphIndex plan) v) \<subseteq> set (index_universe (createGraphIndex plan))"
    using plan_rel_universe by blast
  assume out: "v \<notin> set (index_universe (createGraphIndex plan))"
  show "incomingOf (createGraphIndex plan) v = []"
  proof (rule no_elements)
    fix u show "u \<notin> set (incomingOf (createGraphIndex plan) v)"
      using out sub[of u] plan_rel_universe[of u v plan] by blast
  qed
qed simp

lemma card_index_universe: "card (set (index_universe g)) < index_fuel g"
  unfolding index_fuel_def by (simp add: card_length less_Suc_eq_le)

section \<open>The cycle scan\<close>

lemma detectGraphCycles_spec:
  "\<exists>cycles. detectGraphCycles (createGraphIndex plan) = Some cycles \<and>
     (plan_wf plan \<longrightarrow> (cycles = [] \<longleftrightarrow> acyclic (plan_rel plan))) \<and>
     set cycles \<subseteq> {v. (v, v) \<in> (plan_rel plan)\<^sup>+}"
proof -
  let ?g = "createGraphIndex plan"
  obtain st where st: "scan_all (index_fuel ?g) set_add (outgoingOf ?g) (map gn_stepId (gi_nodes ?g)) emptyScan = Some st"
    using out_graph.scan_returns[of "map gn_stepId (gi_nodes ?g)" plan "index_fuel ?g" set_add]
      card_index_universe[of ?g] by (auto simp: index_universe_def)
  have "dv_found st = [] \<longleftrightarrow> acyclic (plan_rel plan)" if "plan_wf plan"
  proof -
    have "(u, v) \<in> adj_rel (outgoingOf ?g) \<Longrightarrow> u \<in> set (map gn_stepId (gi_nodes ?g))" for u v
      using that unfolding adj_outgoing map_gn_stepId by (auto simp: plan_rel_def plan_wf_def)
    then show ?thesis using scan_correct(1)[OF records_set_add st] unfolding adj_outgoing by blast
  qed
  moreover have "set (dv_found st) \<subseteq> {v. (v, v) \<in> (plan_rel plan)\<^sup>+}"
    using scan_all_post[OF records_set_add _ st] unfolding adj_outgoing[symmetric]
    by (auto simp: scan_pre_def scan_post_def emptyScan_def)
  ultimately show ?thesis using st by (simp add: detectGraphCycles_def)
qed

end
