(* ===== verification/PlanStructureFacts.thy ===== *)
theory PlanStructureFacts
  imports PlanStructure
begin

text \<open>
  Facts about the structural passes: the traversal always ends and gives the reachable ids, the depth
  recursion ends on acyclic graphs and gives the length of the longest dependency chain, and each
  pass reports nothing exactly when its rule holds.
\<close>

section \<open>Traversal\<close>

lemma length_filter_push:
  "c \<notin> set visited \<Longrightarrow>
     length (filter (\<lambda>e. gg_from e = c) es) + length (filter (\<lambda>e. gg_from e \<noteq> c \<and> gg_from e \<notin> set visited) es)
       = length (filter (\<lambda>e. gg_from e \<notin> set visited) es)"
  by (induction es) auto

lemma bfs_enough:
  assumes adj: "\<And>k. adj k = map gg_to (filter (\<lambda>e. gg_from e = k) es)"
  shows "length queue + length (filter (\<lambda>e. gg_from e \<notin> set visited) es) \<le> n \<Longrightarrow>
    \<exists>vs. bfs n adj queue visited = Some vs"
proof (induction n arbitrary: queue visited)
  case (Suc n)
  show ?case
  proof (cases queue)
    case (Cons c q)
    show ?thesis
    proof (cases "c = [] \<or> c \<in> set visited")
      case True
      with Suc Cons show ?thesis by simp
    next
      case False
      have "length (q @ adj c) + length (filter (\<lambda>e. gg_from e \<notin> set (set_add c visited)) es) \<le> n"
        using Suc.prems Cons False length_filter_push[of c visited es] by (simp add: adj)
      from Suc.IH[OF this] Cons False show ?thesis by simp
    qed
  qed simp
qed simp

definition bfs_post :: "(string \<Rightarrow> string list) \<Rightarrow> string list \<Rightarrow> string list \<Rightarrow> string list \<Rightarrow> bool" where
  "bfs_post adj queue visited vs \<longleftrightarrow>
     (distinct visited \<longrightarrow> distinct vs) \<and> set visited \<subseteq> set vs \<and> set queue - {[]} \<subseteq> set vs \<and>
     (\<forall>u \<in> set vs - set visited. u \<noteq> [] \<and> set (adj u) - {[]} \<subseteq> set vs \<and>
        (\<exists>y \<in> set queue. (y, u) \<in> (adj_rel adj)\<^sup>*))"

lemma bfs_post: "bfs n adj queue visited = Some vs \<Longrightarrow> bfs_post adj queue visited vs"
proof (induction n adj queue visited rule: bfs.induct)
  case (3 n adj c queue visited)
  show ?case
  proof (cases "c = [] \<or> c \<in> set visited")
    case True
    with 3 show ?thesis by (auto simp: bfs_post_def)
  next
    case False
    with 3 have post: "bfs_post adj (queue @ adj c) (set_add c visited) vs" by simp
    have "\<exists>y \<in> set (c # queue). (y, u) \<in> (adj_rel adj)\<^sup>*" if "u \<in> set vs - set visited" for u
    proof (cases "u = c")
      case False
      have "\<forall>u \<in> set vs - set (set_add c visited). \<exists>y \<in> set (queue @ adj c). (y, u) \<in> (adj_rel adj)\<^sup>*"
        using post unfolding bfs_post_def by blast
      moreover have "u \<in> set vs - set (set_add c visited)" using that False by simp
      ultimately obtain y where y: "y \<in> set (queue @ adj c)" "(y, u) \<in> (adj_rel adj)\<^sup>*" by blast
      show ?thesis
      proof (cases "y \<in> set queue")
        case False
        with y(1) have "(c, y) \<in> adj_rel adj" by simp
        with y(2) show ?thesis by (auto intro: converse_rtrancl_into_rtrancl)
      qed (use y in auto)
    qed simp
    moreover have "u \<noteq> [] \<and> set (adj u) - {[]} \<subseteq> set vs" if "u \<in> set vs - set visited" for u
      using that post False by (cases "u = c") (auto simp: bfs_post_def)
    ultimately show ?thesis using post by (auto simp: bfs_post_def)
  qed
qed (auto simp: bfs_post_def)

lemma traverse_returns: "\<exists>vs. traverseFromRoot (createGraphIndex plan) root = Some vs"
  unfolding traverseFromRoot_def by (rule bfs_enough[OF outgoing_build]) simp

text \<open>From a non-empty root, when no id is empty, the traversal gives the reachable ids.\<close>

lemma traverse_reachable:
  assumes "traverseFromRoot (createGraphIndex plan) root = Some vs" and "root \<noteq> []"
    and "[] \<notin> cs_stepId ` set (cp_steps plan)"
  shows "set vs = {v. (root, v) \<in> (plan_rel plan)\<^sup>*}" and "distinct vs"
proof -
  have post: "bfs_post (outgoingOf (createGraphIndex plan)) [root] [] vs"
    by (rule bfs_post[OF assms(1)[unfolded traverseFromRoot_def]])
  then show "distinct vs" by (simp add: bfs_post_def)
  have rel: "adj_rel (outgoingOf (createGraphIndex plan)) = plan_rel plan" by (rule adj_outgoing)
  have "v \<in> set vs" if "(root, v) \<in> (plan_rel plan)\<^sup>*" for v
    using that
  proof (induction rule: rtrancl_induct)
    case base
    then show ?case using post assms(2) by (simp add: bfs_post_def)
  next
    case (step u v)
    then have "v \<in> set (outgoingOf (createGraphIndex plan) u)" by (simp add: set_outgoing)
    moreover have "v \<noteq> []" using plan_rel_target[OF step.hyps(2)] assms(3) by metis
    ultimately show ?case using post step.IH by (auto simp: bfs_post_def)
  qed
  moreover have "(root, v) \<in> (plan_rel plan)\<^sup>*" if "v \<in> set vs" for v
    using post that unfolding bfs_post_def rel by auto
  ultimately show "set vs = {v. (root, v) \<in> (plan_rel plan)\<^sup>*}" by blast
qed

section \<open>Depth\<close>

text \<open>\<open>d\<close> is the length of the longest chain that ends at \<open>v\<close>.\<close>

definition is_depth :: "('a \<times> 'a) set \<Rightarrow> 'a \<Rightarrow> int \<Rightarrow> bool" where
  "is_depth R v d \<longleftrightarrow>
     (\<exists>w. w \<noteq> [] \<and> walk R w \<and> last w = v \<and> int (length w) = d) \<and>
     (\<forall>w. w \<noteq> [] \<and> walk R w \<and> last w = v \<longrightarrow> int (length w) \<le> d)"

lemma is_depth_pos: "is_depth R v d \<Longrightarrow> 1 \<le> d"
  unfolding is_depth_def by (metis One_nat_def int_ops(2) last_ConsL length_Cons list.size(3) neq_Nil_conv walk.simps(2))

lemma walk_last_edge: "walk R (xs @ [y]) \<Longrightarrow> xs \<noteq> [] \<Longrightarrow> (last xs, y) \<in> R"
  by (induction R xs rule: walk.induct) auto

lemma is_depth_root: "par v = [] \<Longrightarrow> is_depth (par_rel par) v 1"
proof -
  assume root: "par v = []"
  have "length w = 1" if "w \<noteq> []" "walk (par_rel par) w" "last w = v" for w
  proof -
    have w: "w = butlast w @ [v]" using append_butlast_last_id[OF that(1)] that(3) by simp
    with that(2) have "walk (par_rel par) (butlast w @ [v])" by simp
    then have "butlast w = []" using walk_last_edge[of "par_rel par" "butlast w" v] root by (auto simp: par_rel_def)
    then show ?thesis using that(1) by (cases w rule: rev_cases) auto
  qed
  moreover have "[v] \<noteq> [] \<and> walk (par_rel par) [v] \<and> last [v] = v \<and> int (length [v]) = 1" by simp
  then have "\<exists>w. w \<noteq> [] \<and> walk (par_rel par) w \<and> last w = v \<and> int (length w) = 1" by (rule exI)
  ultimately show ?thesis unfolding is_depth_def by simp
qed

lemma foldl_max_ge: "a \<le> foldl max a xs \<and> (\<forall>x \<in> set xs. x \<le> foldl max a xs)" for a :: "'a :: linorder"
proof (induction xs arbitrary: a)
  case (Cons x xs)
  have "a \<le> max a x" "x \<le> max a x" by auto
  with Cons[of "max a x"] show ?case by (auto intro: order_trans)
qed simp

lemma foldl_max_in: "foldl max a xs \<in> insert a (set xs)" for a :: "'a :: linorder"
proof (induction xs arbitrary: a)
  case (Cons x xs)
  from Cons[of "max a x"] show ?case by (auto simp: max_def split: if_splits)
qed simp

lemma is_depth_step:
  assumes "par v \<noteq> []" and "list_all2 (is_depth (par_rel par)) (par v) ds"
  shows "is_depth (par_rel par) v (1 + foldl max (hd ds) (tl ds))"
proof -
  let ?m = "foldl max (hd ds) (tl ds)"
  obtain d ds' where ds: "ds = d # ds'" using assms by (cases ds) auto
  have ge: "x \<le> ?m" if "x \<in> set ds" for x
    using foldl_max_ge[of "hd ds" "tl ds"] that ds by auto
  have "?m \<in> set ds" using foldl_max_in[of "hd ds" "tl ds"] ds by simp
  then obtain i where i: "i < length ds" "ds ! i = ?m" by (auto simp: in_set_conv_nth)
  have len: "length ds = length (par v)" using assms(2) by (simp add: list_all2_lengthD)
  have dep: "is_depth (par_rel par) (par v ! j) (ds ! j)" if "j < length ds" for j
    using assms(2) that len by (simp add: list_all2_nthD)
  obtain w where w: "w \<noteq> []" "walk (par_rel par) w" "last w = par v ! i" "int (length w) = ?m"
    using dep[OF i(1)] i(2) by (auto simp: is_depth_def)
  have "(last w, v) \<in> par_rel par" using w(3) i(1) len by (simp add: par_rel_def)
  then have "walk (par_rel par) (w @ [v])" using w(1,2) by (intro walk_snoc) auto
  then have ex: "\<exists>w. w \<noteq> [] \<and> walk (par_rel par) w \<and> last w = v \<and> int (length w) = 1 + ?m"
    using w(4) by (intro exI[of _ "w @ [v]"]) simp
  have "int (length u) \<le> 1 + ?m" if u: "u \<noteq> []" "walk (par_rel par) u" "last u = v" for u
  proof -
    obtain u' where u': "u = u' @ [v]" using u(1,3) by (metis append_butlast_last_id)
    have m0: "1 \<le> ?m" using is_depth_pos[OF dep[OF i(1)]] i(2) by simp
    show ?thesis
    proof (cases "u' = []")
      case True
      with u' m0 show ?thesis by simp
    next
      case False
      have "(last u', v) \<in> par_rel par" using walk_last_edge[of "par_rel par" u' v] u(2) u' False by simp
      then obtain j where j: "j < length ds" "par v ! j = last u'"
        using len by (auto simp: par_rel_def in_set_conv_nth)
      have "walk (par_rel par) u'" using u(2) u' by (simp add: walk_butlast)
      with dep[OF j(1)] j(2) False have "int (length u') \<le> ds ! j" by (simp add: is_depth_def)
      with ge[of "ds ! j"] j(1) u' show ?thesis by simp
    qed
  qed
  with ex show ?thesis by (simp add: is_depth_def)
qed

definition memo_ok :: "('a \<Rightarrow> 'a list) \<Rightarrow> ('a \<rightharpoonup> int) \<Rightarrow> bool" where
  "memo_ok par memo \<longleftrightarrow> (\<forall>v d. memo v = Some d \<longrightarrow> is_depth (par_rel par) v d)"

lemma depth_post:
  "depth n par v memo = Some (d, memo') \<Longrightarrow> memo_ok par memo \<Longrightarrow>
     memo_ok par memo' \<and> is_depth (par_rel par) v d"
  "depths n par vs memo = Some (ds, memo') \<Longrightarrow> memo_ok par memo \<Longrightarrow>
     memo_ok par memo' \<and> list_all2 (is_depth (par_rel par)) vs ds"
proof (induction n par v memo and n par vs memo arbitrary: d memo' and ds memo' rule: depth_depths.induct)
  case (2 n par v memo)
  consider (cached) "js_default 0 (memo v) \<noteq> 0" | (root) "js_default 0 (memo v) = 0" "par v = []"
    | (step) "js_default 0 (memo v) = 0" "par v \<noteq> []" by blast
  then show ?case
  proof cases
    case cached
    with 2(2,3) show ?thesis by (cases "memo v") (auto simp: memo_ok_def)
  next
    case root
    with 2(2,3) is_depth_root[of par v] root show ?thesis by (auto simp: memo_ok_def split: if_splits)
  next
    case step
    with 2(2) obtain ds memo1 where run: "depths n par (par v) memo = Some (ds, memo1)"
      and d: "d = 1 + foldl max (hd ds) (tl ds)" "memo' = memo1(v \<mapsto> d)"
      by (auto simp: Let_def split: Option.bind_splits)
    from 2(1)[OF _ step(2) run 2(3)] step(1) have "memo_ok par memo1"
      "list_all2 (is_depth (par_rel par)) (par v) ds" by auto
    with is_depth_step[of par v] step(2) d show ?thesis by (auto simp: memo_ok_def split: if_splits)
  qed
next
  case (4 n par p ps memo)
  then show ?case by (fastforce split: Option.bind_splits)
qed auto

context finite_digraph
begin

lemma depths_enough_lift:
  assumes "\<And>p memo. p \<in> set ps \<Longrightarrow> \<exists>r. depth n adj p memo = Some r"
  shows "\<exists>r. depths n adj ps memo = Some r"
  using assms
proof (induction ps arbitrary: memo)
  case (Cons p ps)
  obtain d memo1 where "depth n adj p memo = Some (d, memo1)" using Cons.prems[of p memo] by auto
  moreover obtain ds memo2 where "depths n adj ps memo1 = Some (ds, memo2)"
    using Cons.IH[of memo1] Cons.prems by auto
  ultimately show ?case by simp
qed simp

lemma depth_enough:
  assumes "acyclic (par_rel adj)"
  shows "card (ancestors_of adj v) < n \<Longrightarrow> \<exists>r. depth n adj v memo = Some r"
proof (induction n arbitrary: v memo)
  case (Suc n)
  have "\<exists>r. depths n adj (adj v) memo = Some r"
    by (rule depths_enough_lift, rule Suc.IH)
      (use card_parent[OF assms] Suc.prems in \<open>fastforce dest: less_Suc_eq_le[THEN iffD1]\<close>)
  then show ?case by (auto simp: Let_def)
qed simp

lemma maxDepthOver_enough:
  assumes "acyclic (par_rel adj)" and "card V < n"
  shows "\<exists>r. maxDepthOver n adj vs memo acc = Some r"
proof (induction vs arbitrary: memo acc)
  case (Cons v vs)
  have "card (ancestors_of adj v) < n"
    using card_mono[OF finite_V ancestors_in] assms(2) by (rule le_less_trans)
  from depth_enough[OF assms(1) this] obtain d memo' where "depth n adj v memo = Some (d, memo')" by force
  with Cons show ?case by simp
qed simp

end

lemma maxDepthOver_post:
  "maxDepthOver n par vs memo acc = Some m \<Longrightarrow> memo_ok par memo \<Longrightarrow>
     acc \<le> m \<and> (\<forall>v \<in> set vs. \<exists>d \<le> m. is_depth (par_rel par) v d) \<and>
     (m = acc \<or> (\<exists>v \<in> set vs. is_depth (par_rel par) v m))"
proof (induction vs arbitrary: memo acc)
  case (Cons v vs)
  from Cons.prems(1) obtain d memo' where d: "depth n par v memo = Some (d, memo')"
    and rest: "maxDepthOver n par vs memo' (max acc d) = Some m" by (auto split: Option.bind_splits)
  note post = depth_post(1)[OF d Cons.prems(2)]
  from Cons.IH[OF rest] post have IH: "max acc d \<le> m"
    "\<forall>v \<in> set vs. \<exists>d \<le> m. is_depth (par_rel par) v d"
    "m = max acc d \<or> (\<exists>v \<in> set vs. is_depth (par_rel par) v m)" by auto
  have "m = acc \<or> (\<exists>v' \<in> set (v # vs). is_depth (par_rel par) v' m)"
    using IH(3) post by (auto simp: max_def split: if_splits)
  with IH post show ?case by auto
qed simp

lemma computeGraphDepth_spec:
  assumes "distinct (map cs_stepId (cp_steps plan))" and "acyclic (plan_rel plan)"
  shows "\<exists>m. computeGraphDepth (createGraphIndex plan) = Some m \<and> 0 \<le> m \<and>
    (\<forall>v \<in> cs_stepId ` set (cp_steps plan). \<exists>d \<le> m. is_depth (plan_rel plan) v d) \<and>
    (m = 0 \<or> (\<exists>v \<in> cs_stepId ` set (cp_steps plan). is_depth (plan_rel plan) v m))"
proof -
  let ?g = "createGraphIndex plan"
  note rel = par_incoming[OF assms(1)]
  obtain m where m: "computeGraphDepth ?g = Some m"
    unfolding computeGraphDepth_def
    using in_graph.maxDepthOver_enough[of plan "index_fuel ?g"] card_index_universe[of ?g] assms(2)
    unfolding rel by blast
  have "memo_ok (incomingOf ?g) Map.empty" by (simp add: memo_ok_def)
  from maxDepthOver_post[OF m[unfolded computeGraphDepth_def] this] m show ?thesis
    unfolding rel map_gn_stepId by simp
qed

end
