(* ===== verification/AuditLedger.thy ===== *)
theory AuditLedger
  imports CanonicalJson
begin

text \<open>
  \<open>services/audit/evidenceHashing.ts\<close> and \<open>services/audit/immutableAuditLedger.ts\<close>: the evidence
  serializer, ledger entries and the chain check.  The lemmas say that appending keeps a chain
  verified and how far the check reaches.
\<close>

section \<open>Evidence hashing\<close>

text \<open>
  \<open>JSON.stringify\<close> of \<open>undefined\<close> is \<open>undefined\<close> (\<open>None\<close>): \<open>join\<close> renders it as the empty string
  and a template as the word.
\<close>

fun stableSerialize :: "(string \<Rightarrow> string \<Rightarrow> int) \<Rightarrow> json \<Rightarrow> string option" where
  "stableSerialize lc (JArr vs) =
     Some (''['' @ js_join '','' (map (\<lambda>v. js_default [] (stableSerialize lc v)) vs) @ '']'')"
| "stableSerialize lc (JObj kvs) =
     Some (''{'' @ js_join '','' (map (\<lambda>(k, t). json_quote k @ '':'' @ js_default ''undefined'' t)
       (js_sort (cmp_on fst lc) (js_entries (map (\<lambda>(k, v). (k, stableSerialize lc v)) kvs)))) @ ''}'')"
| "stableSerialize lc JUndef = json_text JUndef"
| "stableSerialize lc JNull = json_text JNull"
| "stableSerialize lc (JBool b) = json_text (JBool b)"
| "stableSerialize lc (JNum x) = json_text (JNum x)"
| "stableSerialize lc (JStr s) = json_text (JStr s)"

text \<open>Every caller hashes an object; \<open>update(undefined)\<close> would throw.\<close>

definition hashEvidence :: "(string \<Rightarrow> string \<Rightarrow> int) \<Rightarrow> (string \<Rightarrow> string) \<Rightarrow> js_record \<Rightarrow> string" where
  "hashEvidence lc sha kvs = sha (js_default [] (stableSerialize lc (JObj kvs)))"

definition verifyEvidenceHash ::
  "(string \<Rightarrow> string \<Rightarrow> int) \<Rightarrow> (string \<Rightarrow> string) \<Rightarrow> js_record \<Rightarrow> string \<Rightarrow> bool" where
  "verifyEvidenceHash lc sha kvs expected \<longleftrightarrow> hashEvidence lc sha kvs = expected"

section \<open>The ledger\<close>

record ImmutableAuditLedgerEntry =
  al_ledgerId :: string
  al_previousHash :: "string option"
  al_entryHash :: string
  al_payload :: json

definition entryHashOf ::
  "(string \<Rightarrow> string \<Rightarrow> int) \<Rightarrow> (string \<Rightarrow> string) \<Rightarrow> string \<Rightarrow> json \<Rightarrow> string option \<Rightarrow> string" where
  "entryHashOf lc sha scope payload previousHash =
     hashEvidence lc sha
       [(''previousHash'', case previousHash of None \<Rightarrow> JNull | Some h \<Rightarrow> JStr h),
        (''payload'', payload), (''scope'', JStr scope)]"

definition appendImmutableLedgerEntry ::
  "(string \<Rightarrow> string \<Rightarrow> int) \<Rightarrow> (string \<Rightarrow> string) \<Rightarrow> string \<Rightarrow> json \<Rightarrow> string option
   \<Rightarrow> ImmutableAuditLedgerEntry" where
  "appendImmutableLedgerEntry lc sha scope payload previousHash =
     (let entryHash = entryHashOf lc sha scope payload previousHash in
      \<lparr>al_ledgerId = ''ledger:'' @ scope @ '':'' @ take 16 entryHash, al_previousHash = previousHash,
       al_entryHash = entryHash, al_payload = payload\<rparr>)"

text \<open>\<open>entry.previousHash === null\<close> for the first entry, the hash of its predecessor for the others.\<close>

definition verifyImmutableLedgerChain :: "ImmutableAuditLedgerEntry list \<Rightarrow> bool" where
  "verifyImmutableLedgerChain entries =
     list_all (\<lambda>(i, entry).
       if i = 0 then al_previousHash entry = None
       else al_previousHash entry = Some (al_entryHash (entries ! (i - 1))))
     (enumerate 0 entries)"

lemma verify_iff:
  "verifyImmutableLedgerChain entries \<longleftrightarrow>
     (\<forall>i < length entries. al_previousHash (entries ! i) =
        (if i = 0 then None else Some (al_entryHash (entries ! (i - 1)))))"
  by (auto simp: verifyImmutableLedgerChain_def list_all_length nth_enumerate_eq)

text \<open>The hash the next entry is to carry.\<close>

definition chain_head :: "ImmutableAuditLedgerEntry list \<Rightarrow> string option" where
  "chain_head entries = (if entries = [] then None else Some (al_entryHash (last entries)))"

lemma verify_snoc:
  "verifyImmutableLedgerChain (entries @ [e]) \<longleftrightarrow>
     verifyImmutableLedgerChain entries \<and> al_previousHash e = chain_head entries"
  unfolding verify_iff by (auto simp: nth_append less_Suc_eq chain_head_def last_conv_nth)

text \<open>A ledger of one scope, built by appending payloads one after another.\<close>

fun ledger_of ::
  "(string \<Rightarrow> string \<Rightarrow> int) \<Rightarrow> (string \<Rightarrow> string) \<Rightarrow> string \<Rightarrow> ImmutableAuditLedgerEntry list \<Rightarrow> json list
   \<Rightarrow> ImmutableAuditLedgerEntry list" where
  "ledger_of lc sha scope entries [] = entries"
| "ledger_of lc sha scope entries (p # ps) =
     ledger_of lc sha scope (entries @ [appendImmutableLedgerEntry lc sha scope p (chain_head entries)]) ps"

lemma verify_ledger_of:
  "verifyImmutableLedgerChain entries \<Longrightarrow> verifyImmutableLedgerChain (ledger_of lc sha scope entries ps)"
  by (induction ps arbitrary: entries) (simp_all add: verify_snoc appendImmutableLedgerEntry_def Let_def)

text \<open>What the chain check looks at.\<close>

lemma verify_cong:
  assumes "map (\<lambda>e. (al_previousHash e, al_entryHash e)) entries = map (\<lambda>e. (al_previousHash e, al_entryHash e)) entries'"
  shows "verifyImmutableLedgerChain entries = verifyImmutableLedgerChain entries'"
proof -
  have len: "length entries = length entries'" using assms by (rule map_eq_imp_length_eq)
  have "al_previousHash (entries ! i) = al_previousHash (entries' ! i) \<and>
      al_entryHash (entries ! i) = al_entryHash (entries' ! i)" if "i < length entries" for i
    using assms that len by (metis (no_types, lifting) nth_map prod.inject)
  then show ?thesis unfolding verify_iff using len by auto
qed

end
