(* ===== verification/PlanValidation.thy ===== *)
theory PlanValidation
  imports PlanStructureFacts AuditLedger "HOL-Library.AList"
begin

text \<open>
  \<open>services/planning/validation\<close> above the passes: the frozen context, the schema pass, the replay
  snapshot, the evidence with its hash and ledger id, and \<open>validation-orchestrator.ts\<close>.  Parameters:
  the collation, the digest, the inspected schema, the zod parser and the ids of the tool registry
  (read from files).  \<open>None\<close> is a run that does not return.
\<close>

section \<open>Context, snapshot and evidence\<close>

definition PLANNING_VALIDATOR_VERSION :: string where "PLANNING_VALIDATOR_VERSION = ''4.2B''"
definition PLANNING_GOVERNANCE_POLICY_VERSION :: string where "PLANNING_GOVERNANCE_POLICY_VERSION = ''4.2B''"
definition PLANNING_COMPATIBILITY_MATRIX_VERSION :: string where "PLANNING_COMPATIBILITY_MATRIX_VERSION = ''4.2B''"

definition createFrozenValidationContext ::
  "string option \<Rightarrow> string option \<Rightarrow> string option \<Rightarrow> string option \<Rightarrow> FrozenValidationContext" where
  "createFrozenValidationContext schemaVersion validatorVersion governancePolicyVersion compatibilityMatrixVersion =
     \<lparr>vc_schemaVersion = js_default ''1.1.0'' schemaVersion,
      vc_validatorVersion = js_default PLANNING_VALIDATOR_VERSION validatorVersion,
      vc_governancePolicyVersion = js_default PLANNING_GOVERNANCE_POLICY_VERSION governancePolicyVersion,
      vc_compatibilityMatrixVersion = js_default PLANNING_COMPATIBILITY_MATRIX_VERSION compatibilityMatrixVersion\<rparr>"

text \<open>\<open>Object.fromEntries\<close>: a repeated id keeps its first place and its last value.\<close>

definition dependencyMapOf :: "CanonicalPlan \<Rightarrow> (string \<times> string list) list" where
  "dependencyMapOf plan =
     foldl (\<lambda>m step. AList.update (cs_stepId step) (cs_dependencies step) m) [] (cp_steps plan)"

definition createGraphReplaySnapshot ::
  "CanonicalPlan \<Rightarrow> FrozenValidationContext \<Rightarrow> string \<Rightarrow> string \<Rightarrow> ValidationTopologySummary \<Rightarrow> ReplaySnapshot" where
  "createGraphReplaySnapshot plan context planHash graphHash topology =
     \<lparr>rs_schemaVersion = vc_schemaVersion context, rs_planHash = planHash, rs_graphHash = graphHash,
      rs_authoredStepOrder = map cs_stepId (cp_steps plan), rs_dependencyMap = dependencyMapOf plan,
      rs_topology = topology\<rparr>"

definition context_json :: "FrozenValidationContext \<Rightarrow> json" where
  "context_json c = JObj
     [(''schemaVersion'', JStr (vc_schemaVersion c)), (''validatorVersion'', JStr (vc_validatorVersion c)),
      (''governancePolicyVersion'', JStr (vc_governancePolicyVersion c)),
      (''compatibilityMatrixVersion'', JStr (vc_compatibilityMatrixVersion c))]"

definition error_json :: "ValidationError \<Rightarrow> json" where
  "error_json e = JObj
     [(''code'', JStr (ve_code e)), (''path'', JStr (ve_path e)), (''message'', JStr (ve_message e)),
      (''stage'', JStr (ve_stage e))]"

definition schema_evidence_json :: "CanonicalPlanValidationEvidence \<Rightarrow> json" where
  "schema_evidence_json e = JObj
     [(''validationId'', JStr (ce_validationId e)), (''schemaVersion'', JStr (ce_schemaVersion e)),
      (''status'', JStr (result_status_str (ce_status e))),
      (''failureReason'', opt_json JStr (ce_failureReason e)),
      (''issues'', JArr (map issue_json (ce_issues e))),
      (''normalized'', opt_json plan_json (ce_normalized e)),
      (''deterministicHash'', opt_json JStr (ce_deterministicHash e)),
      (''timestamp'', JStr (ce_timestamp e))]"

text \<open>The fields of the evidence that are hashed: all but the hash itself and the ledger id.\<close>

definition evidence_base :: "ValidationEvidence \<Rightarrow> js_record" where
  "evidence_base e =
     [(''validationRunId'', JStr (ev_validationRunId e)), (''schemaVersion'', JStr (ev_schemaVersion e)),
      (''validatorVersion'', JStr (ev_validatorVersion e)),
      (''governancePolicyVersion'', JStr (ev_governancePolicyVersion e)),
      (''compatibilityMatrixVersion'', JStr (ev_compatibilityMatrixVersion e)),
      (''topology'', topology_json (ev_topology e)), (''dependencyMap'', dep_map_json (ev_dependencyMap e)),
      (''validationStages'', str_arr (ev_validationStages e)),
      (''errors'', JArr (map error_json (ev_errors e))), (''warnings'', JArr (map error_json (ev_warnings e))),
      (''graphHash'', JStr (ev_graphHash e)), (''replaySnapshot'', snapshot_json (ev_replaySnapshot e)),
      (''schemaEvidence'', schema_evidence_json (ev_schemaEvidence e)),
      (''context'', context_json (ev_context e)), (''normalizedPlan'', plan_json (ev_normalizedPlan e))]"

definition createValidationAuditLog ::
  "(string \<Rightarrow> string \<Rightarrow> int) \<Rightarrow> (string \<Rightarrow> string) \<Rightarrow> ValidationEvidence \<Rightarrow> ImmutableAuditLedgerEntry" where
  "createValidationAuditLog lc sha evidence = appendImmutableLedgerEntry lc sha ''planning-validation''
     (JObj
       [(''validationRunId'', JStr (ev_validationRunId evidence)),
        (''schemaVersion'', JStr (ev_schemaVersion evidence)), (''graphHash'', JStr (ev_graphHash evidence)),
        (''validationHash'', JStr (ev_validationHash evidence))]) None"

definition validationRunIdOf :: "(string \<Rightarrow> string) \<Rightarrow> string \<Rightarrow> string \<Rightarrow> FrozenValidationContext \<Rightarrow> string" where
  "validationRunIdOf sha planId graphHash context = ''planning-validation:'' @
     take 16 (hashPayloadDeterministically sha
       [(''planId'', JStr planId), (''graphHash'', JStr graphHash), (''context'', context_json context)])"

definition createValidationEvidence ::
  "(string \<Rightarrow> string \<Rightarrow> int) \<Rightarrow> (string \<Rightarrow> string) \<Rightarrow> CanonicalPlan \<Rightarrow> CanonicalPlanValidationEvidence
   \<Rightarrow> FrozenValidationContext \<Rightarrow> ValidationTopologySummary \<Rightarrow> (string \<times> string list) list \<Rightarrow> string list
   \<Rightarrow> ValidationError list \<Rightarrow> string \<Rightarrow> ReplaySnapshot \<Rightarrow> ValidationEvidence" where
  "createValidationEvidence lc sha plan schemaEvidence context topology dependencyMap stages errors graphHash snapshot =
     (let base =
        \<lparr>ev_validationRunId = validationRunIdOf sha (cp_planId plan) graphHash context,
         ev_schemaVersion = cp_schemaVersion plan, ev_validatorVersion = vc_validatorVersion context,
         ev_governancePolicyVersion = vc_governancePolicyVersion context,
         ev_compatibilityMatrixVersion = vc_compatibilityMatrixVersion context, ev_topology = topology,
         ev_dependencyMap = dependencyMap, ev_validationStages = stages, ev_errors = errors, ev_warnings = [],
         ev_graphHash = graphHash, ev_validationHash = [], ev_replaySnapshot = snapshot,
         ev_schemaEvidence = schemaEvidence, ev_context = context, ev_normalizedPlan = plan,
         ev_immutableAuditLedgerId = None\<rparr>;
          evidence = base\<lparr>ev_validationHash := hashPayloadDeterministically sha (evidence_base base)\<rparr>
      in evidence\<lparr>ev_immutableAuditLedgerId := Some (al_ledgerId (createValidationAuditLog lc sha evidence))\<rparr>)"

section \<open>The schema pass\<close>

definition schemaErrorCode :: "string \<Rightarrow> string" where
  "schemaErrorCode code =
     (if code = ''PHASE42A_UNKNOWN_FIELD'' then ''PLAN_UNKNOWN_FIELD''
      else if code = ''PHASE42A_CIRCULAR_DEPENDENCY'' then ''STRUCTURE_CYCLE_DETECTED''
      else if code = ''PHASE42A_INVALID_STEP_GRAPH'' then ''STRUCTURE_INVALID_ORDERING''
      else if code = ''PHASE42A_UNSAFE_STEP'' then ''PLAN_SAFETY_VIOLATION''
      else if code = ''PHASE42A_DUPLICATE_STEP_ID'' then ''STRUCTURE_INVALID_ORDERING''
      else ''PLAN_SCHEMA_INVALID'')"

text \<open>The evidence with the errors, or with the plan.\<close>

definition runSchemaPass ::
  "(string \<Rightarrow> string \<Rightarrow> int) \<Rightarrow> (string \<Rightarrow> string) \<Rightarrow> json \<Rightarrow> plan_parser \<Rightarrow> json
   \<Rightarrow> (CanonicalPlanValidationEvidence \<times> (ValidationError list + CanonicalPlan)) option" where
  "runSchemaPass lc sha inspected parse input = do {
     evidence \<leftarrow> validateAndNormalizePlan lc sha inspected parse input;
     Some (evidence,
       case (ce_status evidence, ce_normalized evidence) of
         (StatusValid, Some plan) \<Rightarrow> Inr plan
       | _ \<Rightarrow> Inl (map (\<lambda>issue. mk_error (schemaErrorCode (vi_code issue)) (vi_path issue) (vi_message issue)
                  ''schema'') (ce_issues evidence)))
   }"

section \<open>The orchestrator\<close>

definition toolValidation :: "string list \<Rightarrow> CanonicalPlan \<Rightarrow> ValidationError list" where
  "toolValidation tools plan = concat (map (\<lambda>step.
     if sa_tool (cs_action step) \<in> set tools then []
     else [mk_error ''PLAN_TOOL_UNKNOWN'' (''steps.'' @ cs_stepId step @ ''.action.tool'')
       (''Tool '' @ sa_tool (cs_action step) @ '' is not declared in the registry.'') ''step'']) (cp_steps plan))"

definition aggregateStatus :: "ValidationError list \<Rightarrow> bool \<Rightarrow> ValidationStatus" where
  "aggregateStatus errors approvalRequired =
     (if errors = [] then ApprovedForPlanningPipeline
      else if approvalRequired \<and> list_ex (\<lambda>e. ve_code e = ''PLAN_APPROVAL_MISSING'') errors then ApprovalIsRequired
      else if list_ex (\<lambda>e. ve_code e = ''PLAN_NON_DETERMINISTIC'' \<or> ve_code e = ''GOVERNANCE_FAILURE'') errors
      then Unsafe
      else Rejected)"

definition emptyTopology :: ValidationTopologySummary where
  "emptyTopology = \<lparr>ts_nodeCount = 0, ts_edgeCount = 0, ts_branchCount = 0, ts_maxDepth = 0\<rparr>"

definition placeholderPlan :: "FrozenValidationContext \<Rightarrow> CanonicalPlan" where
  "placeholderPlan context =
     \<lparr>cp_schemaVersion = vc_schemaVersion context, cp_planId = ''invalid-plan'',
      cp_createdAt = ''1970-01-01T00:00:00.000Z'', cp_objective = [], cp_priority = PriorityNormal,
      cp_classification = Informational, cp_sourceIds = [], cp_evidenceRefs = [], cp_constraints = [],
      cp_approvalsRequired = False, cp_policyRefs = [], cp_mode = Blocked, cp_timeoutMs = 1,
      cp_retryPolicy = \<lparr>rp_maxAttempts = 1, rp_backoffMs = 0\<rparr>, cp_steps = [],
      cp_truthScoreRequired = num_of_int 1, cp_validationProfile = ''invalid'',
      cp_plannerVersion = ''4.2B'', cp_generatedBy = ''validation-engine''\<rparr>"

definition rejectedResult ::
  "(string \<Rightarrow> string \<Rightarrow> int) \<Rightarrow> (string \<Rightarrow> string) \<Rightarrow> FrozenValidationContext \<Rightarrow> CanonicalPlanValidationEvidence
   \<Rightarrow> ValidationError list \<Rightarrow> ValidationResult" where
  "rejectedResult lc sha context schemaEvidence errors =
     (let snapshot = \<lparr>rs_schemaVersion = vc_schemaVersion context, rs_planHash = [], rs_graphHash = [],
            rs_authoredStepOrder = [], rs_dependencyMap = [], rs_topology = emptyTopology\<rparr>;
          evidence = createValidationEvidence lc sha (placeholderPlan context) schemaEvidence context emptyTopology []
            [''schema''] errors [] snapshot
      in \<lparr>vr_ok = False, vr_validated = False, vr_status = Rejected, vr_topology = emptyTopology,
          vr_errors = errors, vr_warnings = [], vr_validationHash = ev_validationHash evidence,
          vr_graphHash = ev_graphHash evidence, vr_evidence = evidence\<rparr>)"

definition VALIDATION_STAGES :: "string list" where
  "VALIDATION_STAGES = [''schema'', ''topology'', ''dependency'', ''step'', ''ordering'', ''branch'', ''merge'',
     ''retry'', ''governance'', ''approval'', ''determinism'', ''containment'', ''evidence'', ''final'']"

text \<open>The passes over a plan that the schema pass lets through.\<close>

definition validateStructure ::
  "(string \<Rightarrow> string \<Rightarrow> int) \<Rightarrow> (string \<Rightarrow> string) \<Rightarrow> string list \<Rightarrow> FrozenValidationContext
   \<Rightarrow> CanonicalPlanValidationEvidence \<Rightarrow> CanonicalPlan \<Rightarrow> ValidationResult option" where
  "validateStructure lc sha tools context schemaEvidence plan = do {
     let graph = createGraphIndex plan;
     (topologyErrors, topology) \<leftarrow> runTopologyPass graph;
     let (branchErrs, branchCount) = runBranchPass plan graph;
     let (governanceErrors, approvalRequired) = runGovernancePass plan;
     let (determinismErrors, planHash, graphHash) = runDeterminismPass lc sha plan graph;
     let topologyWithBranches = topology\<lparr>ts_branchCount := int branchCount\<rparr>;
     let errors = topologyErrors @ runDependencyPass graph @ toolValidation tools plan @ runOrderingPass plan graph @
       branchErrs @ runMergePass lc plan @ runRetryPass plan @ governanceErrors @ determinismErrors @
       runContainmentPass (ts_nodeCount topologyWithBranches) (ts_maxDepth topologyWithBranches);
     let evidence = createValidationEvidence lc sha plan schemaEvidence context topologyWithBranches
       (dependencyMapOf plan) VALIDATION_STAGES errors graphHash
       (createGraphReplaySnapshot plan context planHash graphHash topologyWithBranches);
     Some \<lparr>vr_ok = (errors = []), vr_validated = True, vr_status = aggregateStatus errors approvalRequired,
           vr_topology = topologyWithBranches, vr_errors = errors, vr_warnings = [],
           vr_validationHash = ev_validationHash evidence, vr_graphHash = ev_graphHash evidence,
           vr_evidence = evidence\<rparr>
   }"

definition orchestratePlanValidation ::
  "(string \<Rightarrow> string \<Rightarrow> int) \<Rightarrow> (string \<Rightarrow> string) \<Rightarrow> json \<Rightarrow> plan_parser \<Rightarrow> string list \<Rightarrow> json
   \<Rightarrow> FrozenValidationContext \<Rightarrow> ValidationResult option" where
  "orchestratePlanValidation lc sha inspected parse tools input context = do {
     (schemaEvidence, outcome) \<leftarrow> runSchemaPass lc sha inspected parse input;
     case outcome of
       Inl errors \<Rightarrow> Some (rejectedResult lc sha context schemaEvidence errors)
     | Inr plan \<Rightarrow> validateStructure lc sha tools context schemaEvidence plan
   }"

definition validatePlanStructure ::
  "(string \<Rightarrow> string \<Rightarrow> int) \<Rightarrow> (string \<Rightarrow> string) \<Rightarrow> json \<Rightarrow> plan_parser \<Rightarrow> string list \<Rightarrow> json
   \<Rightarrow> FrozenValidationContext option \<Rightarrow> ValidationResult option" where
  "validatePlanStructure lc sha inspected parse tools input context =
     orchestratePlanValidation lc sha inspected parse tools input
       (js_default (createFrozenValidationContext None None None None) context)"

end
