(* ===== verification/PlanContract.thy ===== *)
theory PlanContract
  imports PlanValidation
begin

text \<open>
  What structural validation promises, stated without the passes: \<open>structure_contract\<close> speaks of the
  dependency relation, its chains and its root, and of the rules a step obeys.  The lemmas show that
  each pass reports nothing exactly when its part of the contract holds, on plans whose step graph the
  schema pass has accepted.
\<close>

section \<open>The contract\<close>

text \<open>\<open>a\<close> stands in the plan before \<open>b\<close>.\<close>

definition stands_before :: "CanonicalPlan \<Rightarrow> string \<Rightarrow> string \<Rightarrow> bool" where
  "stands_before plan a b \<longleftrightarrow> (\<exists>j < length (cp_steps plan). \<exists>i < j.
     cs_stepId (cp_steps plan ! i) = a \<and> cs_stepId (cp_steps plan ! j) = b)"

definition single_rooted :: "CanonicalPlan \<Rightarrow> bool" where
  "single_rooted plan \<longleftrightarrow> (\<exists>root \<in> cs_stepId ` set (cp_steps plan).
     \<forall>v \<in> cs_stepId ` set (cp_steps plan). (root, v) \<in> (plan_rel plan)\<^sup>*)"

definition chains_bounded :: "CanonicalPlan \<Rightarrow> nat \<Rightarrow> bool" where
  "chains_bounded plan n \<longleftrightarrow> (\<forall>chain. walk (plan_rel plan) chain \<longrightarrow> length chain \<le> n)"

definition fan_out :: "CanonicalPlan \<Rightarrow> string \<Rightarrow> nat" where
  "fan_out plan k = (\<Sum>s \<leftarrow> cp_steps plan. length (filter (\<lambda>d. d = k) (cs_dependencies s)))"

definition parallel_ok :: "CanonicalPlanStep \<Rightarrow> bool" where
  "parallel_ok s \<longleftrightarrow> (param s ''parallel'' = JBool True \<longrightarrow> (\<exists>group. param s ''parallelGroup'' = JStr group))"

definition case_ok :: "CanonicalPlan \<Rightarrow> string \<Rightarrow> json \<Rightarrow> bool" where
  "case_ok plan source v \<longleftrightarrow> (\<exists>condition target.
     prop_get v ''condition'' = JStr condition \<and> prop_get v ''nextStepId'' = JStr target \<and>
     js_trim condition \<noteq> [] \<and> stands_before plan source target)"

definition route_ok :: "CanonicalPlan \<Rightarrow> CanonicalPlanStep \<Rightarrow> bool" where
  "route_ok plan s \<longleftrightarrow> (cs_type s = Route \<longrightarrow> (\<exists>cases. param s ''branchCases'' = JArr cases \<and> cases \<noteq> [] \<and>
     (\<forall>c \<in> set cases. case_ok plan (cs_stepId s) c)))"

text \<open>The strings of an array.\<close>

definition strings_of :: "json list \<Rightarrow> string list" where
  "strings_of vs = concat (map (\<lambda>v. case v of JStr s \<Rightarrow> [s] | _ \<Rightarrow> []) vs)"

definition merge_ok :: "CanonicalPlanStep \<Rightarrow> bool" where
  "merge_ok s \<longleftrightarrow> (1 < length (cs_dependencies s) \<longrightarrow>
     (\<exists>policy sources. param s ''mergePolicy'' = JStr policy \<and> param s ''mergeSources'' = JArr sources \<and>
        mset (strings_of sources) = mset (cs_dependencies s)))"

fun static_value :: "json \<Rightarrow> bool" where
  "static_value (JStr s) \<longleftrightarrow> \<not> isDynamic s"
| "static_value (JArr vs) \<longleftrightarrow> list_all id (map static_value vs)"
| "static_value (JObj kvs) \<longleftrightarrow> list_all (\<lambda>(k, ok). \<not> isDynamic k \<and> ok) (map (\<lambda>(k, v). (k, static_value v)) kvs)"
| "static_value JUndef \<longleftrightarrow> True"
| "static_value JNull \<longleftrightarrow> True"
| "static_value (JBool b) \<longleftrightarrow> True"
| "static_value (JNum x) \<longleftrightarrow> True"

definition governance_ok :: "CanonicalPlan \<Rightarrow> bool" where
  "governance_ok plan \<longleftrightarrow>
     (cp_approvalsRequired plan \<or> (cp_classification plan \<notin> {Restricted, Mutating} \<and> cp_mode plan \<noteq> ApprovalRequired \<and>
        (\<forall>s \<in> set (cp_steps plan). \<not> cs_approvalRequired s))) \<and>
     \<not> num_less (cp_truthScoreRequired plan) (Dec 5 (-1))"

definition step_rules :: "string list \<Rightarrow> CanonicalPlan \<Rightarrow> CanonicalPlanStep \<Rightarrow> bool" where
  "step_rules tools plan s \<longleftrightarrow>
     (\<forall>d \<in> set (cs_dependencies s). stands_before plan d (cs_stepId s)) \<and>
     length (cs_dependencies s) \<le> 4 \<and> fan_out plan (cs_stepId s) \<le> 8 \<and>
     sa_tool (cs_action s) \<in> set tools \<and> parallel_ok s \<and> route_ok plan s \<and> merge_ok s \<and>
     param s ''retryTargetStepId'' \<noteq> JStr (cs_stepId s) \<and> static_value (JObj (sa_parameters (cs_action s)))"

definition structure_contract :: "string list \<Rightarrow> CanonicalPlan \<Rightarrow> bool" where
  "structure_contract tools plan \<longleftrightarrow>
     single_rooted plan \<and> length (cp_steps plan) \<le> 64 \<and> chains_bounded plan 10 \<and>
     length (filter (\<lambda>s. cs_type s = Route) (cp_steps plan)) \<le> 3 \<and>
     rp_maxAttempts (cp_retryPolicy plan) \<le> 5 \<and> governance_ok plan \<and>
     (\<forall>s \<in> set (cp_steps plan). step_rules tools plan s)"

section \<open>Positions\<close>

lemma stands_before_iff:
  assumes "distinct (map cs_stepId (cp_steps plan))" and "i < length (cp_steps plan)" and "j < length (cp_steps plan)"
  shows "stands_before plan (cs_stepId (cp_steps plan ! i)) (cs_stepId (cp_steps plan ! j)) \<longleftrightarrow> i < j"
proof -
  have "k = l" if "k < length (cp_steps plan)" "l < length (cp_steps plan)"
      "cs_stepId (cp_steps plan ! k) = cs_stepId (cp_steps plan ! l)" for k l
    using assms(1) that nth_eq_iff_index_eq[of "map cs_stepId (cp_steps plan)" k l] by simp
  then show ?thesis unfolding stands_before_def using assms(2,3) by (metis less_trans)
qed

lemma nodeMap_nth:
  assumes "distinct (map cs_stepId (cp_steps plan))" and "i < length (cp_steps plan)"
  shows "gi_nodeMap (createGraphIndex plan) (cs_stepId (cp_steps plan ! i)) =
    Some \<lparr>gn_stepId = cs_stepId (cp_steps plan ! i), gn_index = i, gn_dependencies = cs_dependencies (cp_steps plan ! i)\<rparr>"
proof -
  have map: "gi_nodeMap (createGraphIndex plan) =
      js_map_of (map (\<lambda>node. (gn_stepId node, node)) (gi_nodes (createGraphIndex plan)))"
    by (simp add: createGraphIndex_def Let_def)
  let ?n = "\<lparr>gn_stepId = cs_stepId (cp_steps plan ! i), gn_index = i, gn_dependencies = cs_dependencies (cp_steps plan ! i)\<rparr>"
  have "gi_nodes (createGraphIndex plan) ! i = ?n"
    using assms(2) by (simp add: createGraphIndex_def Let_def nth_enumerate_eq case_prod_beta)
  then have mem: "?n \<in> set (gi_nodes (createGraphIndex plan))" using assms(2) by (metis length_gi_nodes nth_mem)
  have "distinct (map gn_stepId (gi_nodes (createGraphIndex plan)))" using assms(1) by simp
  from js_map_of_keyed_distinct[OF this mem] show ?thesis unfolding map by simp
qed

lemma indexNode_None: "gi_nodeMap (createGraphIndex plan) k = None \<longleftrightarrow> k \<notin> cs_stepId ` set (cp_steps plan)"
proof -
  have "gi_nodeMap (createGraphIndex plan) =
      js_map_of (map (\<lambda>node. (gn_stepId node, node)) (gi_nodes (createGraphIndex plan)))"
    by (simp add: createGraphIndex_def Let_def)
  moreover have "gn_stepId ` set (gi_nodes (createGraphIndex plan)) = cs_stepId ` set (cp_steps plan)"
    by (metis list.set_map map_gn_stepId)
  ultimately show ?thesis by (simp add: image_image)
qed

lemma index_less_iff:
  assumes "distinct (map cs_stepId (cp_steps plan))"
    and "gi_nodeMap (createGraphIndex plan) a = Some na" and "gi_nodeMap (createGraphIndex plan) b = Some nb"
  shows "gn_index na < gn_index nb \<longleftrightarrow> stands_before plan a b"
proof -
  have "a \<in> cs_stepId ` set (cp_steps plan)" "b \<in> cs_stepId ` set (cp_steps plan)"
    using assms(2,3) indexNode_None by (metis option.distinct(1))+
  then obtain i j where ij: "i < length (cp_steps plan)" "a = cs_stepId (cp_steps plan ! i)"
    "j < length (cp_steps plan)" "b = cs_stepId (cp_steps plan ! j)"
    by (metis imageE in_set_conv_nth)
  have "gn_index na = i" "gn_index nb = j"
    using assms(2,3) nodeMap_nth[OF assms(1) ij(1)] nodeMap_nth[OF assms(1) ij(3)] ij(2,4) by auto
  then show ?thesis using stands_before_iff[OF assms(1) ij(1,3)] ij(2,4) by simp
qed

lemma stands_before_in: "stands_before plan a b \<Longrightarrow> a \<in> cs_stepId ` set (cp_steps plan) \<and> b \<in> cs_stepId ` set (cp_steps plan)"
  by (auto simp: stands_before_def)

lemma branchTargetOk_iff:
  assumes "distinct (map cs_stepId (cp_steps plan))"
  shows "branchTargetOk (createGraphIndex plan) a b \<longleftrightarrow> stands_before plan a b"
proof (cases "gi_nodeMap (createGraphIndex plan) a = None \<or> gi_nodeMap (createGraphIndex plan) b = None")
  case True
  then have "\<not> stands_before plan a b" using stands_before_in indexNode_None by blast
  with True show ?thesis by (auto simp: branchTargetOk_def split: option.split)
next
  case False
  then obtain na nb where n: "gi_nodeMap (createGraphIndex plan) a = Some na" "gi_nodeMap (createGraphIndex plan) b = Some nb"
    by auto
  show ?thesis using index_less_iff[OF assms n] n by (simp add: branchTargetOk_def)
qed

section \<open>The passes one by one\<close>

lemma concat_map_Nil [simp]: "concat (map f xs) = [] \<longleftrightarrow> (\<forall>x \<in> set xs. f x = [])"
  by auto

lemma length_outgoing: "length (outgoingOf (createGraphIndex plan) k) = fan_out plan k"
proof -
  have "length (filter (\<lambda>e. gg_from e = k) (gi_edges (createGraphIndex plan))) =
      length (filter (\<lambda>(d, i). d = k) (map (\<lambda>e. (gg_from e, gg_to e)) (gi_edges (createGraphIndex plan))))"
    by (simp add: filter_map comp_def)
  moreover have "length (filter (\<lambda>(d, i). d = k) (concat (map (\<lambda>s. map (\<lambda>d. (d, cs_stepId s)) (cs_dependencies s)) ss)))
      = (\<Sum>s \<leftarrow> ss. length (filter (\<lambda>d. d = k) (cs_dependencies s)))" for ss
    by (induction ss) (simp_all add: filter_map comp_def)
  ultimately show ?thesis by (simp add: outgoing_build edges_build fan_out_def)
qed

lemma nodes_ball: "(\<forall>node \<in> set (gi_nodes (createGraphIndex plan)). P (gn_stepId node) (gn_dependencies node)) \<longleftrightarrow>
    (\<forall>s \<in> set (cp_steps plan). P (cs_stepId s) (cs_dependencies s))"
proof -
  have "(\<forall>node \<in> set (gi_nodes (createGraphIndex plan)). P (gn_stepId node) (gn_dependencies node)) \<longleftrightarrow>
      list_all (\<lambda>(i, ds). P i ds) (map (\<lambda>node. (gn_stepId node, gn_dependencies node)) (gi_nodes (createGraphIndex plan)))"
    by (simp add: list_all_iff)
  then show ?thesis unfolding nodes_build by (simp add: list_all_iff)
qed

lemma runDependencyPass_Nil:
  assumes "plan_wf plan" and "acyclic (plan_rel plan)"
  shows "runDependencyPass (createGraphIndex plan) = [] \<longleftrightarrow>
    (\<forall>s \<in> set (cp_steps plan). length (cs_dependencies s) \<le> 4 \<and> fan_out plan (cs_stepId s) \<le> 8)"
proof -
  have "d \<in> cs_stepId ` set (cp_steps plan) \<and> d \<noteq> cs_stepId s"
    if "s \<in> set (cp_steps plan)" "d \<in> set (cs_dependencies s)" for s d
  proof -
    have "(d, cs_stepId s) \<in> plan_rel plan" using that by (auto simp: plan_rel_def)
    then have "d \<noteq> cs_stepId s" using assms(2) by (auto simp: acyclic_def)
    with assms(1) that show ?thesis by (auto simp: plan_wf_def)
  qed
  then show ?thesis
    unfolding runDependencyPass_def concat_map_Nil append_is_Nil_conv length_outgoing indexNode_None
    by (subst nodes_ball) (auto simp: MAX_DEPENDENCY_FANIN_def MAX_DEPENDENCY_FANOUT_def not_less)
qed

lemma toolValidation_Nil:
  "toolValidation tools plan = [] \<longleftrightarrow> (\<forall>s \<in> set (cp_steps plan). sa_tool (cs_action s) \<in> set tools)"
  by (auto simp: toolValidation_def)

lemma str_of_None: "str_of v = None \<longleftrightarrow> (\<nexists>s. v = JStr s)"
  by (cases v) auto

lemma runOrderingPass_Nil:
  assumes "plan_wf plan"
  shows "runOrderingPass plan (createGraphIndex plan) = [] \<longleftrightarrow>
    (\<forall>s \<in> set (cp_steps plan). parallel_ok s \<and> (\<forall>d \<in> set (cs_dependencies s). stands_before plan d (cs_stepId s)))"
proof -
  let ?nm = "gi_nodeMap (createGraphIndex plan)"
  have dist: "distinct (map cs_stepId (cp_steps plan))" using assms by (simp add: plan_wf_def)
  have "?nm k \<noteq> None" if "k \<in> cs_stepId ` set (cp_steps plan)" for k using that indexNode_None by blast
  then have node: "\<exists>n. ?nm (cs_stepId s) = Some n" if "s \<in> set (cp_steps plan)" for s
    using that by (metis imageI not_None_eq)
  have dep: "\<exists>n. ?nm d = Some n" if "s \<in> set (cp_steps plan)" "d \<in> set (cs_dependencies s)" for s d
    using that assms indexNode_None[of plan d] unfolding plan_wf_def by (metis not_None_eq subsetD)
  have "(case ?nm d of None \<Rightarrow> [] | Some dn \<Rightarrow> if gn_index n \<le> gn_index dn then [e] else []) = [] \<longleftrightarrow>
      stands_before plan d (cs_stepId s)"
    if "s \<in> set (cp_steps plan)" "d \<in> set (cs_dependencies s)" "?nm (cs_stepId s) = Some n" for s d n and e :: ValidationError
    using dep[OF that(1,2)] index_less_iff[OF dist _ that(3), of d] by (auto simp: not_le[symmetric])
  note * = this
  have "(case ?nm (cs_stepId s) of None \<Rightarrow> [] | Some node \<Rightarrow>
        concat (map (\<lambda>d. case ?nm d of None \<Rightarrow> [] | Some dn \<Rightarrow> if gn_index node \<le> gn_index dn then [e d] else [])
          (cs_dependencies s)) @
        (if param s ''parallel'' = JBool True \<and> str_of (param s ''parallelGroup'') = None then [e'] else [])) = [] \<longleftrightarrow>
      parallel_ok s \<and> (\<forall>d \<in> set (cs_dependencies s). stands_before plan d (cs_stepId s))"
    if s: "s \<in> set (cp_steps plan)" for s and e :: "string \<Rightarrow> ValidationError" and e'
  proof -
    obtain n where n: "?nm (cs_stepId s) = Some n" using node[OF s] by blast
    show ?thesis unfolding n option.case append_is_Nil_conv concat_map_Nil
      using *[OF s _ n] by (auto simp: parallel_ok_def str_of_None)
  qed
  then show ?thesis unfolding runOrderingPass_def concat_map_Nil by simp
qed

lemma branchCases_Some: "branchCases v = Some bs \<longleftrightarrow>
    (\<exists>vs. v = JArr vs \<and> vs \<noteq> [] \<and> map branchCase vs = map Some bs)"
proof -
  have "list_all (\<lambda>c. branchCase c \<noteq> None) vs \<and>
      concat (map (\<lambda>c. case branchCase c of None \<Rightarrow> [] | Some b \<Rightarrow> [b]) vs) = bs \<longleftrightarrow> map branchCase vs = map Some bs" for vs bs
  proof (induction vs arbitrary: bs)
    case (Cons v vs)
    show ?case using Cons[of "tl bs"] by (cases "branchCase v"; cases bs) auto
  qed auto
  from this[of _ bs] show ?thesis by (cases v) (auto simp: branchCases_def)
qed

lemma str_of_Some: "str_of v = Some s \<longleftrightarrow> v = JStr s"
  by (cases v) auto

lemma two_strings: "(case (str_of a, str_of b) of (Some c, Some t) \<Rightarrow> Some (c, t) | _ \<Rightarrow> None) = Some (c, t) \<longleftrightarrow>
    a = JStr c \<and> b = JStr t"
  by (cases a; cases b) auto

lemma branchCase_Some: "branchCase v = Some (c, t) \<longleftrightarrow>
    prop_get v ''condition'' = JStr c \<and> prop_get v ''nextStepId'' = JStr t"
  unfolding branchCase_def by (rule two_strings)

lemma routeErrors_Nil:
  assumes "distinct (map cs_stepId (cp_steps plan))"
  shows "routeErrors (createGraphIndex plan) s = [] \<longleftrightarrow>
    (\<exists>cases. param s ''branchCases'' = JArr cases \<and> cases \<noteq> [] \<and> (\<forall>c \<in> set cases. case_ok plan (cs_stepId s) c))"
proof -
  have "routeErrors (createGraphIndex plan) s = [] \<longleftrightarrow>
      (\<exists>bs. branchCases (param s ''branchCases'') = Some bs \<and>
        (\<forall>(c, t) \<in> set bs. js_trim c \<noteq> [] \<and> stands_before plan (cs_stepId s) t))"
    using branchTargetOk_iff[OF assms] by (auto simp: routeErrors_def Let_def split: option.splits if_splits)
  also have "\<dots> \<longleftrightarrow> (\<exists>cases bs. param s ''branchCases'' = JArr cases \<and> cases \<noteq> [] \<and> map branchCase cases = map Some bs \<and>
        (\<forall>(c, t) \<in> set bs. js_trim c \<noteq> [] \<and> stands_before plan (cs_stepId s) t))"
    unfolding branchCases_Some by blast
  also have "\<dots> \<longleftrightarrow> (\<exists>cases. param s ''branchCases'' = JArr cases \<and> cases \<noteq> [] \<and> (\<forall>c \<in> set cases. case_ok plan (cs_stepId s) c))"
  proof -
    have "(\<exists>bs. map branchCase cases = map Some bs \<and> (\<forall>(c, t) \<in> set bs. P c t)) \<longleftrightarrow>
        (\<forall>v \<in> set cases. \<exists>c t. branchCase v = Some (c, t) \<and> P c t)" for cases P
    proof (induction cases)
      case (Cons v cases)
      have "(\<exists>bs. map branchCase (v # cases) = map Some bs \<and> (\<forall>(c, t) \<in> set bs. P c t)) \<longleftrightarrow>
          (\<exists>c t. branchCase v = Some (c, t) \<and> P c t) \<and>
          (\<exists>bs. map branchCase cases = map Some bs \<and> (\<forall>(c, t) \<in> set bs. P c t))"
        by (force simp: Cons_eq_map_conv)
      with Cons show ?case by simp
    qed simp
    note ex = this[of _ "\<lambda>c t. js_trim c \<noteq> [] \<and> stands_before plan (cs_stepId s) t"]
    have "(\<forall>c \<in> set cases. case_ok plan (cs_stepId s) c) \<longleftrightarrow> (\<exists>bs. map branchCase cases = map Some bs \<and>
        (\<forall>(c, t) \<in> set bs. js_trim c \<noteq> [] \<and> stands_before plan (cs_stepId s) t))" for cases
      unfolding ex case_ok_def branchCase_Some by simp
    then show ?thesis by blast
  qed
  finally show ?thesis .
qed

lemma runBranchPass_Nil:
  assumes "distinct (map cs_stepId (cp_steps plan))"
  shows "fst (runBranchPass plan (createGraphIndex plan)) = [] \<longleftrightarrow>
    length (filter (\<lambda>s. cs_type s = Route) (cp_steps plan)) \<le> 3 \<and> (\<forall>s \<in> set (cp_steps plan). route_ok plan s)"
  unfolding runBranchPass_def Let_def fst_conv append_is_Nil_conv concat_map_Nil
  by (auto simp: routeErrors_Nil[OF assms] route_ok_def MAX_BRANCH_COUNT_def MAX_BRANCH_DEPTH_def)

text \<open>A collation that tells different strings apart.\<close>

locale collation = comparator lc for lc :: "string \<Rightarrow> string \<Rightarrow> int" +
  assumes lc_zero: "lc a b = 0 \<Longrightarrow> a = b"
begin

lemma sort_eq_iff: "js_sort lc xs = js_sort lc ys \<longleftrightarrow> mset xs = mset ys"
  using sort_perm_eq[of xs ys] lc_zero mset_js_sort[of lc xs] mset_js_sort[of lc ys] by metis

end

interpretation code_unit_collation: collation code_unit_compare
  by unfold_locales simp

lemma zip_differs: "(length xs \<noteq> length ys \<or> list_ex (\<lambda>(x, y). x \<noteq> y) (zip xs ys)) \<longleftrightarrow> xs \<noteq> ys"
proof (induction xs arbitrary: ys)
  case (Cons x xs)
  then show ?case by (cases ys) auto
qed auto

lemma strings_of_alt: "concat (map (\<lambda>v. case str_of v of None \<Rightarrow> [] | Some s \<Rightarrow> [s]) vs) = strings_of vs"
proof -
  have "(case str_of v of None \<Rightarrow> [] | Some s \<Rightarrow> [s]) = (case v of JStr s \<Rightarrow> [s] | _ \<Rightarrow> [])" for v
    by (cases v) auto
  then show ?thesis by (simp add: strings_of_def)
qed

lemma merge_step_Nil:
  assumes "collation lc"
  shows "(case (str_of p, m) of
       (Some _, JArr sources) \<Rightarrow>
         if length (js_sort lc ds) \<noteq> length (js_sort lc (strings_of sources)) \<or>
            list_ex (\<lambda>(d, p). d \<noteq> p) (zip (js_sort lc ds) (js_sort lc (strings_of sources)))
         then [e] else []
     | _ \<Rightarrow> [e']) = [] \<longleftrightarrow>
     (\<exists>policy sources. p = JStr policy \<and> m = JArr sources \<and> mset (strings_of sources) = mset ds)"
  unfolding zip_differs collation.sort_eq_iff[OF assms]
  by (cases p; cases m) auto

lemma runMergePass_Nil:
  assumes "collation lc"
  shows "runMergePass lc plan = [] \<longleftrightarrow> (\<forall>s \<in> set (cp_steps plan). merge_ok s)"
proof -
  have "(if length ds \<le> 1 then [] else xs) = [] \<longleftrightarrow> (1 < length ds \<longrightarrow> xs = [])" for ds :: "string list" and xs :: "ValidationError list"
    by auto
  note if_Nil = this
  show ?thesis
    unfolding runMergePass_def concat_map_Nil if_Nil Let_def strings_of_alt merge_step_Nil[OF assms] merge_ok_def ..
qed

lemma runRetryPass_Nil: "runRetryPass plan = [] \<longleftrightarrow> rp_maxAttempts (cp_retryPolicy plan) \<le> 5 \<and>
    (\<forall>s \<in> set (cp_steps plan). param s ''retryTargetStepId'' \<noteq> JStr (cs_stepId s))"
  unfolding runRetryPass_def append_is_Nil_conv concat_map_Nil by (auto simp: MAX_RETRY_DEPTH_def)

lemma runGovernancePass_Nil: "fst (runGovernancePass plan) = [] \<longleftrightarrow> governance_ok plan"
  unfolding runGovernancePass_def Let_def fst_conv append_is_Nil_conv governance_ok_def
  by (auto simp: list_ex_iff)

lemma scan_Nil: "scan v path = [] \<longleftrightarrow> static_value v"
proof (induction v arbitrary: path)
  case (JArr vs)
  have "scan (JArr vs) path = [] \<longleftrightarrow> (\<forall>i < length vs. scan (vs ! i) (path @ ''.'' @ nat_str i) = [])"
    by (simp add: in_set_enumerate_eq case_prod_beta all_set_conv_all_nth nth_enumerate_eq)
  with JArr show ?case by (simp add: list_all_length)
next
  case (JObj kvs)
  have "set (js_entries (map (\<lambda>(k, v). (k, scan v)) kvs)) = set (map (\<lambda>(k, v). (k, scan v)) kvs)"
    by (auto simp: js_entries_def)
  then have "scan (JObj kvs) path = [] \<longleftrightarrow>
      (\<forall>(k, v) \<in> set kvs. dynamicKeyError path k = [] \<and> scan v (path @ ''.'' @ k) = [])"
    by (simp add: case_prod_beta)
  with JObj show ?case by (force simp: list_all_iff dynamicKeyError_def)
qed auto

lemma runDeterminismPass_Nil: "fst (runDeterminismPass lc sha plan g) = [] \<longleftrightarrow>
    (\<forall>s \<in> set (cp_steps plan). static_value (JObj (sa_parameters (cs_action s))))"
proof -
  have "(\<forall>p \<in> set (enumerate 0 xs). P (snd p)) \<longleftrightarrow> (\<forall>x \<in> set xs. P x)" for xs P
    using list.set_map[of snd "enumerate 0 xs"] by (metis (no_types, lifting) imageE imageI map_snd_enumerate)
  note enum = this
  show ?thesis
    unfolding runDeterminismPass_def Let_def fst_conv append_is_Nil_conv concat_map_Nil case_prod_beta scan_Nil
    by (subst enum) simp
qed

section \<open>Topology\<close>

lemma rootIds_build: "gi_rootIds (createGraphIndex plan) =
    map cs_stepId (filter (\<lambda>s. cs_dependencies s = []) (cp_steps plan))"
proof -
  have "gi_rootIds (createGraphIndex plan) = map fst (filter (\<lambda>(i, ds). ds = [])
      (map (\<lambda>node. (gn_stepId node, gn_dependencies node)) (gi_nodes (createGraphIndex plan))))"
    by (simp add: createGraphIndex_def Let_def filter_map comp_def)
  then show ?thesis unfolding nodes_build by (simp add: filter_map comp_def)
qed

lemma singleton_list: "set xs = {a} \<Longrightarrow> distinct xs \<Longrightarrow> xs = [a]"
  by (cases xs; cases "tl xs") auto

lemma plan_rel_deps:
  assumes "distinct (map cs_stepId (cp_steps plan))" and "s \<in> set (cp_steps plan)"
  shows "(u, cs_stepId s) \<in> plan_rel plan \<longleftrightarrow> u \<in> set (cs_dependencies s)"
proof
  assume "(u, cs_stepId s) \<in> plan_rel plan"
  then obtain t where t: "t \<in> set (cp_steps plan)" "cs_stepId t = cs_stepId s" "u \<in> set (cs_dependencies t)"
    by (auto simp: plan_rel_def)
  then have "t = s" using assms by (simp add: distinct_map inj_on_def)
  with t(3) show "u \<in> set (cs_dependencies s)" by simp
qed (use assms(2) in \<open>auto simp: plan_rel_def\<close>)

lemma single_root_list:
  assumes "plan_wf plan" and "acyclic (plan_rel plan)" and "root \<in> cs_stepId ` set (cp_steps plan)"
    and "\<forall>v \<in> cs_stepId ` set (cp_steps plan). (root, v) \<in> (plan_rel plan)\<^sup>*"
  shows "gi_rootIds (createGraphIndex plan) = [root]"
proof -
  have dist: "distinct (map cs_stepId (cp_steps plan))" using assms(1) by (simp add: plan_wf_def)
  have no_dep: "cs_dependencies s = [] \<longleftrightarrow> cs_stepId s = root" if s: "s \<in> set (cp_steps plan)" for s
  proof
    assume "cs_dependencies s = []"
    then have "(u, cs_stepId s) \<notin> plan_rel plan" for u using plan_rel_deps[OF dist s] by simp
    moreover have "(root, cs_stepId s) \<in> (plan_rel plan)\<^sup>*" using assms(4) s by simp
    ultimately show "cs_stepId s = root" by (metis rtranclE)
  next
    assume root: "cs_stepId s = root"
    have "d \<notin> set (cs_dependencies s)" for d
    proof
      assume d: "d \<in> set (cs_dependencies s)"
      then have "(d, root) \<in> plan_rel plan" using s root by (auto simp: plan_rel_def)
      moreover have "(root, d) \<in> (plan_rel plan)\<^sup>*" using assms(1,4) s d by (auto simp: plan_wf_def)
      ultimately show False using assms(2) by (meson acyclic_def rtrancl_into_trancl2 rtrancl_into_trancl1)
    qed
    then show "cs_dependencies s = []" by (rule no_elements)
  qed
  let ?roots = "gi_rootIds (createGraphIndex plan)"
  have "set ?roots = {root}" using assms(3) no_dep unfolding rootIds_build by force
  moreover have "distinct ?roots" using dist unfolding rootIds_build by (simp add: distinct_map inj_on_def)
  ultimately show ?thesis by (rule singleton_list)
qed

lemma reach_within:
  assumes "(root, v) \<in> (plan_rel plan)\<^sup>*" and "root \<in> cs_stepId ` set (cp_steps plan)"
  shows "v \<in> cs_stepId ` set (cp_steps plan)"
  using assms by (induction rule: rtrancl_induct) (auto dest: plan_rel_target)

lemma reachable_full_iff:
  assumes "plan_wf plan" and "[] \<notin> cs_stepId ` set (cp_steps plan)" and "root \<in> cs_stepId ` set (cp_steps plan)"
    and "traverseFromRoot (createGraphIndex plan) root = Some vs"
  shows "vs \<noteq> []" and "length vs = length (cp_steps plan) \<longleftrightarrow>
    (\<forall>v \<in> cs_stepId ` set (cp_steps plan). (root, v) \<in> (plan_rel plan)\<^sup>*)"
proof -
  let ?ids = "cs_stepId ` set (cp_steps plan)"
  have "root \<noteq> []" using assms(2,3) by metis
  note reach = traverse_reachable[OF assms(4) this assms(2)]
  then show "vs \<noteq> []" by auto
  have sub: "set vs \<subseteq> ?ids" using reach_within assms(3) unfolding reach(1) by blast
  have "card ?ids = length (cp_steps plan)"
    using assms(1) distinct_card[of "map cs_stepId (cp_steps plan)"] by (simp add: plan_wf_def)
  moreover have "card (set vs) = length vs" using reach(2) by (rule distinct_card)
  ultimately have "length vs = length (cp_steps plan) \<longleftrightarrow> set vs = ?ids"
    using card_subset_eq[OF _ sub] by auto
  then show "length vs = length (cp_steps plan) \<longleftrightarrow> (\<forall>v \<in> ?ids. (root, v) \<in> (plan_rel plan)\<^sup>*)"
    using sub unfolding reach(1) by blast
qed

lemma depth_chains:
  assumes "0 \<le> m" and "\<forall>v \<in> cs_stepId ` set (cp_steps plan). \<exists>d \<le> m. is_depth (plan_rel plan) v d"
    and "m = 0 \<or> (\<exists>v \<in> cs_stepId ` set (cp_steps plan). is_depth (plan_rel plan) v m)" and "1 \<le> n"
  shows "m \<le> int n \<longleftrightarrow> chains_bounded plan n"
proof
  assume m: "m \<le> int n"
  have "length w \<le> n" if w: "walk (plan_rel plan) w" for w
  proof (cases w rule: rev_cases)
    case (snoc u v)
    show ?thesis
    proof (cases "u = []")
      case True
      with snoc assms(4) show ?thesis by simp
    next
      case False
      then have "v \<in> cs_stepId ` set (cp_steps plan)"
        using walk_last_edge[of "plan_rel plan" u v] w snoc plan_rel_target by blast
      then obtain d where "d \<le> m" "is_depth (plan_rel plan) v d" using assms(2) by blast
      with w snoc m have "int (length w) \<le> int n" unfolding is_depth_def by (metis last_snoc order_trans snoc_eq_iff_butlast)
      then show ?thesis by simp
    qed
  qed simp
  then show "chains_bounded plan n" by (simp add: chains_bounded_def)
next
  assume b: "chains_bounded plan n"
  show "m \<le> int n"
  proof (cases "m = 0")
    case False
    with assms(3) obtain v w where "walk (plan_rel plan) w" "int (length w) = m" by (auto simp: is_depth_def)
    with b show ?thesis by (auto simp: chains_bounded_def)
  qed simp
qed

lemma runTopologyPass_spec:
  assumes "plan_wf plan" and "acyclic (plan_rel plan)" and "[] \<notin> cs_stepId ` set (cp_steps plan)"
  shows "\<exists>errors topo. runTopologyPass (createGraphIndex plan) = Some (errors, topo) \<and>
    (errors = [] \<longleftrightarrow> single_rooted plan) \<and> ts_nodeCount topo = int (length (cp_steps plan)) \<and>
    (\<forall>n \<ge> 1. ts_maxDepth topo \<le> int n \<longleftrightarrow> chains_bounded plan n)"
proof -
  let ?g = "createGraphIndex plan" and ?ids = "cs_stepId ` set (cp_steps plan)"
  have dist: "distinct (map cs_stepId (cp_steps plan))" using assms(1) by (simp add: plan_wf_def)
  have cycles: "detectGraphCycles ?g = Some []" using detectGraphCycles_spec[of plan] assms(1,2) by auto
  obtain m where m: "computeGraphDepth ?g = Some m" "0 \<le> m"
    "\<forall>v \<in> ?ids. \<exists>d \<le> m. is_depth (plan_rel plan) v d" "m = 0 \<or> (\<exists>v \<in> ?ids. is_depth (plan_rel plan) v m)"
    using computeGraphDepth_spec[OF dist assms(2)] by blast
  note depth = depth_chains[OF m(2-4)]
  have roots: "set (gi_rootIds ?g) \<subseteq> ?ids" unfolding rootIds_build by auto
  show ?thesis
  proof (cases "\<exists>root. gi_rootIds ?g = [root]")
    case True
    then obtain root where root: "gi_rootIds ?g = [root]" by blast
    then have mem: "root \<in> ?ids" using roots by simp
    obtain vs where vs: "traverseFromRoot ?g root = Some vs" using traverse_returns by blast
    note full = reachable_full_iff[OF assms(1,3) mem vs]
    have "single_rooted plan \<longleftrightarrow> length vs = length (cp_steps plan)"
      using single_root_list[OF assms(1,2)] root mem unfolding full(2) single_rooted_def by (metis list.inject)
    then show ?thesis using full(1) depth by (simp add: runTopologyPass_def cycles root vs m(1))
  next
    case False
    then have "\<not> single_rooted plan" using single_root_list[OF assms(1,2)] unfolding single_rooted_def by blast
    moreover obtain vs where "(case gi_rootIds ?g of [] \<Rightarrow> Some [] | root # _ \<Rightarrow> traverseFromRoot ?g root) = Some vs"
      using traverse_returns by (cases "gi_rootIds ?g") auto
    moreover have "length (gi_rootIds ?g) \<noteq> 1" using False by (auto simp: length_Suc_conv)
    ultimately show ?thesis using depth by (simp add: runTopologyPass_def cycles m(1))
  qed
qed

section \<open>The passes together\<close>

lemma validateStructure_spec:
  assumes "step_graph_ok plan" and "[] \<notin> cs_stepId ` set (cp_steps plan)" and "collation lc"
  shows "\<exists>r. validateStructure lc sha tools context evidence plan = Some r \<and> vr_validated r \<and>
    (vr_ok r \<longleftrightarrow> structure_contract tools plan)"
proof -
  let ?g = "createGraphIndex plan"
  have wf: "plan_wf plan" and ac: "acyclic (plan_rel plan)" using assms(1) by (simp_all add: step_graph_ok_def)
  then have dist: "distinct (map cs_stepId (cp_steps plan))" by (simp add: plan_wf_def)
  obtain errors topo where t: "runTopologyPass ?g = Some (errors, topo)" "errors = [] \<longleftrightarrow> single_rooted plan"
    "ts_nodeCount topo = int (length (cp_steps plan))" "ts_maxDepth topo \<le> 10 \<longleftrightarrow> chains_bounded plan 10"
    using runTopologyPass_spec[OF wf ac assms(2)] by (metis of_nat_numeral one_le_numeral)
  obtain be bc where b: "runBranchPass plan ?g = (be, bc)" by fastforce
  obtain ge ga where g: "runGovernancePass plan = (ge, ga)" by fastforce
  obtain de ph gh where d: "runDeterminismPass lc sha plan ?g = (de, ph, gh)" by (metis prod_cases3)
  have "runContainmentPass (ts_nodeCount topo) (ts_maxDepth topo) = [] \<longleftrightarrow>
      length (cp_steps plan) \<le> 64 \<and> chains_bounded plan 10"
    using t(3,4) by (auto simp: runContainmentPass_def MAX_PLAN_NODES_def MAX_PLAN_DEPTH_def not_less)
  moreover note runBranchPass_Nil[OF dist, unfolded b fst_conv] runGovernancePass_Nil[of plan, unfolded g fst_conv]
    runDeterminismPass_Nil[of lc sha plan ?g, unfolded d fst_conv]
  ultimately have "errors @ runDependencyPass ?g @ toolValidation tools plan @ runOrderingPass plan ?g @ be @
      runMergePass lc plan @ runRetryPass plan @ ge @ de @ runContainmentPass (ts_nodeCount topo) (ts_maxDepth topo) = []
      \<longleftrightarrow> structure_contract tools plan"
    unfolding append_is_Nil_conv t(2) runDependencyPass_Nil[OF wf ac] toolValidation_Nil runOrderingPass_Nil[OF wf]
      runMergePass_Nil[OF assms(3)] runRetryPass_Nil structure_contract_def step_rules_def by blast
  then show ?thesis by (simp add: validateStructure_def Let_def t(1) b g d del: append_is_Nil_conv)
qed

end
