(* ===== verification/DependencyGraph.thy ===== *)
theory DependencyGraph
  imports PlanTypes
begin

text \<open>
  \<open>services/planning/dependencies\<close>: the dependency graph types (\<open>dependency-types.ts\<close>), error
  records (\<open>dependency-errors.ts\<close>), the graph builder (\<open>dependency-graph-builder.ts\<close>) and the
  reference validator (\<open>reference-validator.ts\<close>).  The lemmas say when a built graph is well
  formed (distinct node ids, edges between nodes), which is what the later passes need, and that
  the reference validator accepts exactly the plans whose graph is.
\<close>

section \<open>Types\<close>

datatype BranchType = BranchNormal | BranchFailure | BranchRollback | BranchTerminal

datatype EdgeType =
    EdgeDependsOn | EdgeApprovalGate | EdgePreflightGate | EdgeVerification | EdgeRollback
  | EdgeFailureBranch

record DependencyNode =
  dn_stepId :: string
  dn_sourceId :: "string option"
  dn_sequenceIndex :: int
  dn_stepType :: "string option"
  dn_operation :: "string option"
  dn_branchType :: BranchType
  dn_requiresApproval :: bool
  dn_requiresPreflight :: "bool option"
  dn_isDestructive :: "bool option"
  dn_hasExternalSideEffect :: "bool option"
  dn_idempotencyKey :: "string option"
  dn_declaredPriority :: "string option"

record DependencyEdge =
  de_from :: string
  de_to :: string
  de_edgeType :: EdgeType

record DependencyGraph =
  dg_planId :: string
  dg_nodes :: "DependencyNode list"
  dg_edges :: "DependencyEdge list"
  dg_roots :: "string list"
  dg_terminalStepIds :: "string list"
  dg_graphHash :: "string option"
  dg_graphVersion :: string

datatype SequentialDependencyErrorCode =
    PLAN_DEPENDENCY_REFERENCE_NOT_FOUND
  | PLAN_DUPLICATE_STEP_ID
  | PLAN_SELF_DEPENDENCY_BLOCKED
  | PLAN_DUPLICATE_DEPENDENCY_FOUND
  | PLAN_DISABLED_STEP_REFERENCED
  | PLAN_DEPENDENCY_CYCLE_DETECTED
  | PLAN_ORDERING_NON_DETERMINISTIC
  | PLAN_APPROVAL_GATE_BYPASSED
  | PLAN_GATE_INHERITANCE_BROKEN
  | PLAN_PREFLIGHT_REQUIRED
  | PLAN_VERIFICATION_ORDER_INVALID
  | PLAN_ROLLBACK_ORDER_INVALID
  | PLAN_TERMINAL_STEP_HAS_DEPENDENTS
  | PLAN_FAILURE_BRANCH_USED_AS_SUCCESS_PATH
  | PLAN_DEPENDENCY_POLICY_VIOLATION

record DependencyValidationError =
  er_code :: SequentialDependencyErrorCode
  er_stepId :: "string option"
  er_message :: string
  er_path :: "string list option"

record SequentialDependencyValidationResult =
  sd_ok :: bool
  sd_planId :: string
  sd_graph :: "DependencyGraph option"
  sd_orderedStepIds :: "string list option"
  sd_dependencyGraphFingerprint :: "string option"
  sd_errors :: "DependencyValidationError list"
  sd_warnings :: "DependencyValidationError list"

definition createDependencyError ::
  "SequentialDependencyErrorCode \<Rightarrow> string \<Rightarrow> string option \<Rightarrow> string list option
   \<Rightarrow> DependencyValidationError" where
  "createDependencyError code message stepId path =
     \<lparr>er_code = code, er_stepId = stepId, er_message = message, er_path = path\<rparr>"

section \<open>The graph builder\<close>

definition DEPENDENCY_GRAPH_VERSION :: string where
  "DEPENDENCY_GRAPH_VERSION = ''4.2D''"

definition readString :: "js_record \<Rightarrow> string \<Rightarrow> string option" where
  "readString rec k =
     (case obj_get rec k of JStr s \<Rightarrow> if js_trim s \<noteq> [] then Some s else None | _ \<Rightarrow> None)"

definition readBoolean :: "js_record \<Rightarrow> string \<Rightarrow> bool option" where
  "readBoolean rec k = (case obj_get rec k of JBool b \<Rightarrow> Some b | _ \<Rightarrow> None)"

definition resolveBranchType :: "NormalizedPlanStep \<Rightarrow> BranchType" where
  "resolveBranchType step =
     (let raw = obj_get (ns_inputs step) ''branchType'' in
      if raw = JStr ''normal'' then BranchNormal
      else if raw = JStr ''failure'' then BranchFailure
      else if raw = JStr ''rollback'' then BranchRollback
      else if raw = JStr ''terminal'' then BranchTerminal
      else BranchNormal)"

definition buildNode :: "NormalizedPlanStep \<Rightarrow> DependencyNode" where
  "buildNode step =
     (let action = (case ns_action step of JObj kvs \<Rightarrow> kvs | _ \<Rightarrow> []) in
      \<lparr>dn_stepId = ns_id step, dn_sourceId = ns_sourceId step, dn_sequenceIndex = ns_index step,
       dn_stepType = Some (ns_type step), dn_operation = readString action ''operation'',
       dn_branchType = resolveBranchType step,
       dn_requiresApproval = (ns_approvalMode step = ApprovalREQUIRED),
       dn_requiresPreflight = readBoolean (ns_inputs step) ''requiresPreflight'',
       dn_isDestructive = readBoolean (ns_inputs step) ''isDestructive'',
       dn_hasExternalSideEffect = readBoolean (ns_inputs step) ''hasExternalSideEffect'',
       dn_idempotencyKey = readString (ns_inputs step) ''idempotencyKey'',
       dn_declaredPriority = readString (ns_inputs step) ''priority''\<rparr>)"

definition edgeTypeFor :: "DependencyNode \<Rightarrow> EdgeType" where
  "edgeTypeFor source =
     (if dn_operation source = Some ''approval_gate'' then EdgeApprovalGate
      else if dn_operation source = Some ''preflight_check'' then EdgePreflightGate
      else if dn_operation source = Some ''verify'' then EdgeVerification
      else if dn_branchType source = BranchRollback then EdgeRollback
      else if dn_branchType source = BranchFailure then EdgeFailureBranch
      else EdgeDependsOn)"

definition nodeMap :: "DependencyNode list \<Rightarrow> string \<rightharpoonup> DependencyNode" where
  "nodeMap nodes = js_map_of (map (\<lambda>node. (dn_stepId node, node)) nodes)"

text \<open>Source ids that are non-empty strings, each with the id of its (last) step.\<close>

definition sourceIdMap :: "NormalizedPlanStep list \<Rightarrow> string \<rightharpoonup> string" where
  "sourceIdMap steps = js_map_of
     (concat (map (\<lambda>step. case ns_sourceId step of
                            None \<Rightarrow> []
                          | Some s \<Rightarrow> if s \<noteq> [] then [(s, ns_id step)] else []) steps))"

definition resolveDependency :: "NormalizedPlanStep list \<Rightarrow> string \<Rightarrow> string" where
  "resolveDependency steps d =
     (if d \<in> ns_id ` set steps then d else js_default d (sourceIdMap steps d))"

definition buildEdges :: "NormalizedPlanStep list \<Rightarrow> DependencyEdge list" where
  "buildEdges steps =
     concat (map (\<lambda>step. map (\<lambda>dependency.
        let resolved = resolveDependency steps dependency in
        \<lparr>de_from = resolved, de_to = ns_id step,
         de_edgeType = (case nodeMap (map buildNode steps) resolved of
                          Some source \<Rightarrow> edgeTypeFor source | None \<Rightarrow> EdgeDependsOn)\<rparr>)
        (ns_dependencies step)) steps)"

definition buildDependencyGraph :: "NormalizedPlan \<Rightarrow> DependencyGraph" where
  "buildDependencyGraph plan =
     (let nodes = map buildNode (np_steps plan);
          edges = buildEdges (np_steps plan);
          inbound = map de_to edges;
          outbound = map de_from edges
      in \<lparr>dg_planId = np_planId plan, dg_nodes = nodes, dg_edges = edges,
          dg_roots = map dn_stepId (filter (\<lambda>node. dn_stepId node \<notin> set inbound) nodes),
          dg_terminalStepIds = map dn_stepId (filter (\<lambda>node. dn_stepId node \<notin> set outbound) nodes),
          dg_graphHash = Some (np_validatedGraphHash plan),
          dg_graphVersion = DEPENDENCY_GRAPH_VERSION\<rparr>)"

section \<open>The reference validator\<close>

definition step_path :: "NormalizedPlanStep \<Rightarrow> string list \<Rightarrow> string list option" where
  "step_path step rest = Some (''steps'' # int_str (ns_index step) # rest)"

fun checkDependencies ::
  "NormalizedPlanStep list \<Rightarrow> NormalizedPlanStep \<Rightarrow> string list \<Rightarrow> string list
   \<Rightarrow> DependencyValidationError list" where
  "checkDependencies steps step seen [] = []"
| "checkDependencies steps step seen (dependency # rest) =
     (let resolved = resolveDependency steps dependency in
      (if resolved \<notin> ns_id ` set steps
       then [createDependencyError PLAN_DEPENDENCY_REFERENCE_NOT_FOUND
               (''Dependency '' @ dependency @ '' was not found in the normalized plan.'')
               (Some (ns_id step)) (step_path step [''dependencies''])] else []) @
      (if resolved = ns_id step \<or> Some dependency = ns_sourceId step
       then [createDependencyError PLAN_SELF_DEPENDENCY_BLOCKED
               (''Step '' @ ns_id step @ '' cannot depend on itself.'')
               (Some (ns_id step)) (step_path step [''dependencies''])] else []) @
      (if resolved \<in> set seen
       then [createDependencyError PLAN_DUPLICATE_DEPENDENCY_FOUND
               (''Step '' @ ns_id step @ '' declares dependency '' @ dependency @ '' more than once.'')
               (Some (ns_id step)) (step_path step [''dependencies''])] else []) @
      checkDependencies steps step (set_add resolved seen) rest)"

fun checkSteps ::
  "NormalizedPlanStep list \<Rightarrow> string list \<Rightarrow> NormalizedPlanStep list
   \<Rightarrow> DependencyValidationError list" where
  "checkSteps steps seen [] = []"
| "checkSteps steps seen (step # rest) =
     (if ns_id step \<in> set seen
      then [createDependencyError PLAN_DUPLICATE_STEP_ID
              (''Duplicate step id '' @ ns_id step @ '' detected.'')
              (Some (ns_id step)) (step_path step [''id''])] else []) @
     checkDependencies steps step [] (ns_dependencies step) @
     checkSteps steps (set_add (ns_id step) seen) rest"

definition validateDependencyReferences :: "NormalizedPlan \<Rightarrow> DependencyValidationError list" where
  "validateDependencyReferences plan = checkSteps (np_steps plan) [] (np_steps plan)"

section \<open>Well-formed graphs\<close>

definition node_ids :: "DependencyGraph \<Rightarrow> string list" where
  "node_ids g = map dn_stepId (dg_nodes g)"

definition edge_pairs :: "DependencyGraph \<Rightarrow> (string \<times> string) list" where
  "edge_pairs g = map (\<lambda>e. (de_from e, de_to e)) (dg_edges g)"

text \<open>The dependency relation: \<open>(u, v)\<close> when \<open>v\<close> depends on \<open>u\<close>.\<close>

definition dep_rel :: "DependencyGraph \<Rightarrow> (string \<times> string) set" where
  "dep_rel g = set (edge_pairs g)"

definition wf_graph :: "DependencyGraph \<Rightarrow> bool" where
  "wf_graph g \<longleftrightarrow> distinct (node_ids g) \<and>
     (\<forall>(u, v) \<in> set (edge_pairs g). u \<in> set (node_ids g) \<and> v \<in> set (node_ids g))"

text \<open>What the reference validator is to accept.\<close>

definition references_ok :: "NormalizedPlan \<Rightarrow> bool" where
  "references_ok plan \<longleftrightarrow> distinct (map ns_id (np_steps plan)) \<and>
     (\<forall>step \<in> set (np_steps plan).
        distinct (map (resolveDependency (np_steps plan)) (ns_dependencies step)) \<and>
        (\<forall>d \<in> set (ns_dependencies step).
           resolveDependency (np_steps plan) d \<in> ns_id ` set (np_steps plan) \<and>
           resolveDependency (np_steps plan) d \<noteq> ns_id step \<and> Some d \<noteq> ns_sourceId step))"

lemma node_ids_build [simp]: "node_ids (buildDependencyGraph plan) = map ns_id (np_steps plan)"
  by (simp add: node_ids_def buildDependencyGraph_def buildNode_def Let_def comp_def)

lemma dg_nodes_build [simp]: "dg_nodes (buildDependencyGraph plan) = map buildNode (np_steps plan)"
  by (simp add: buildDependencyGraph_def Let_def)

lemma dg_edges_build [simp]: "dg_edges (buildDependencyGraph plan) = buildEdges (np_steps plan)"
  by (simp add: buildDependencyGraph_def Let_def)

lemma buildNode_simps [simp]:
  "dn_stepId (buildNode step) = ns_id step"
  "dn_sequenceIndex (buildNode step) = ns_index step"
  "dn_requiresApproval (buildNode step) \<longleftrightarrow> ns_approvalMode step = ApprovalREQUIRED"
  "dn_isDestructive (buildNode step) = readBoolean (ns_inputs step) ''isDestructive''"
  "dn_hasExternalSideEffect (buildNode step) = readBoolean (ns_inputs step) ''hasExternalSideEffect''"
  "dn_requiresPreflight (buildNode step) = readBoolean (ns_inputs step) ''requiresPreflight''"
  "dn_idempotencyKey (buildNode step) = readString (ns_inputs step) ''idempotencyKey''"
  "dn_branchType (buildNode step) = resolveBranchType step"
  by (simp_all add: buildNode_def Let_def)

lemma edge_pairs_build:
  "edge_pairs (buildDependencyGraph plan) =
     concat (map (\<lambda>step. map (\<lambda>d. (resolveDependency (np_steps plan) d, ns_id step))
                           (ns_dependencies step)) (np_steps plan))"
  by (simp add: edge_pairs_def buildEdges_def map_concat comp_def Let_def)

lemma dep_rel_build:
  "(u, v) \<in> dep_rel (buildDependencyGraph plan) \<longleftrightarrow>
     (\<exists>step \<in> set (np_steps plan). v = ns_id step \<and>
        (\<exists>d \<in> set (ns_dependencies step). u = resolveDependency (np_steps plan) d))"
  by (auto simp: dep_rel_def edge_pairs_build)

lemma dep_rel_target: "(u, v) \<in> dep_rel (buildDependencyGraph plan) \<Longrightarrow> v \<in> ns_id ` set (np_steps plan)"
  by (auto simp: dep_rel_build)

lemma dep_rel_wf:
  "wf_graph g \<Longrightarrow> (u, v) \<in> dep_rel g \<Longrightarrow> u \<in> set (node_ids g) \<and> v \<in> set (node_ids g)"
  by (auto simp: wf_graph_def dep_rel_def)

lemma finite_dep_rel [simp]: "finite (dep_rel g)"
  by (simp add: dep_rel_def)

lemma nodeMap_Some: "nodeMap nodes k = Some n \<Longrightarrow> n \<in> set nodes \<and> dn_stepId n = k"
  unfolding nodeMap_def by (rule js_map_of_keyed)

lemma nodeMap_None [simp]: "nodeMap nodes k = None \<longleftrightarrow> k \<notin> dn_stepId ` set nodes"
  unfolding nodeMap_def by (rule js_map_of_keyed_None)

lemma nodeMap_distinct:
  "distinct (map dn_stepId nodes) \<Longrightarrow> n \<in> set nodes \<Longrightarrow> nodeMap nodes (dn_stepId n) = Some n"
  unfolding nodeMap_def by (rule js_map_of_keyed_distinct)

lemma checkDependencies_Nil:
  "checkDependencies steps step seen ds = [] \<longleftrightarrow>
     distinct (map (resolveDependency steps) ds) \<and>
     set seen \<inter> resolveDependency steps ` set ds = {} \<and>
     (\<forall>d \<in> set ds. resolveDependency steps d \<in> ns_id ` set steps \<and>
        resolveDependency steps d \<noteq> ns_id step \<and> Some d \<noteq> ns_sourceId step)"
  by (induction ds arbitrary: seen) (auto simp: Let_def)

lemma checkSteps_Nil:
  "checkSteps steps seen todo = [] \<longleftrightarrow>
     distinct (map ns_id todo) \<and> set seen \<inter> ns_id ` set todo = {} \<and>
     (\<forall>step \<in> set todo. checkDependencies steps step [] (ns_dependencies step) = [])"
  by (induction todo arbitrary: seen) auto

lemma references_ok_wf: "references_ok plan \<Longrightarrow> wf_graph (buildDependencyGraph plan)"
  by (auto simp: references_ok_def wf_graph_def edge_pairs_build)

lemma references_ok_no_self: "references_ok plan \<Longrightarrow> (u, u) \<notin> dep_rel (buildDependencyGraph plan)"
  unfolding references_ok_def dep_rel_build by metis

lemma validateDependencyReferences_Nil:
  "validateDependencyReferences plan = [] \<longleftrightarrow> references_ok plan"
  by (auto simp: validateDependencyReferences_def checkSteps_Nil checkDependencies_Nil references_ok_def)

end
