(* ===== verification/PlanNormalization.thy ===== *)
theory PlanNormalization
  imports AuditLedger DependencyGraph CanonicalJson "HOL-Library.AList"
begin

text \<open>
  \<open>services/planning/normalization\<close>: from a validated canonical plan to the normalized plan the later
  phases use.  One definition per function of the phase, in the order in which
  \<open>orchestratePlanNormalization\<close> calls them.  Step ids named \<open>__proto__\<close> are outside the model:
  assigning such a property of a plain object has another effect in the language.
\<close>

section \<open>Types\<close>

datatype PlanNormalizationErrorCode =
    PLAN_NORMALIZATION_UNVALIDATED_INPUT
  | PLAN_NORMALIZATION_FAILED
  | PLAN_NORMALIZATION_NON_DETERMINISTIC
  | PLAN_NORMALIZATION_ID_COLLISION
  | PLAN_NORMALIZATION_ENUM_UNKNOWN
  | PLAN_NORMALIZATION_DEPENDENCY_MISSING
  | PLAN_NORMALIZATION_HASH_FAILED
  | PLAN_NORMALIZATION_BOUNDARY_VIOLATION
  | PLAN_NORMALIZATION_REPLAY_MISMATCH

record PlanNormalizationError =
  pe_code :: PlanNormalizationErrorCode
  pe_message :: string
  pe_details :: "js_record option"

definition createNormalizationError ::
  "PlanNormalizationErrorCode \<Rightarrow> string \<Rightarrow> js_record option \<Rightarrow> PlanNormalizationError" where
  "createNormalizationError code message details =
     \<lparr>pe_code = code, pe_message = message, pe_details = details\<rparr>"

datatype NormalizationAction =
    FIELD_RENAMED | DEFAULT_APPLIED | ENUM_CANONICALIZED | ID_NORMALIZED
  | DEPENDENCY_NORMALIZED | ORDER_CANONICALIZED | METADATA_CANONICALIZED | HASH_COMPUTED

fun normalization_action_str :: "NormalizationAction \<Rightarrow> string" where
  "normalization_action_str FIELD_RENAMED = ''FIELD_RENAMED''"
| "normalization_action_str DEFAULT_APPLIED = ''DEFAULT_APPLIED''"
| "normalization_action_str ENUM_CANONICALIZED = ''ENUM_CANONICALIZED''"
| "normalization_action_str ID_NORMALIZED = ''ID_NORMALIZED''"
| "normalization_action_str DEPENDENCY_NORMALIZED = ''DEPENDENCY_NORMALIZED''"
| "normalization_action_str ORDER_CANONICALIZED = ''ORDER_CANONICALIZED''"
| "normalization_action_str METADATA_CANONICALIZED = ''METADATA_CANONICALIZED''"
| "normalization_action_str HASH_COMPUTED = ''HASH_COMPUTED''"

record NormalizationEvent =
  ne_eventId :: string
  ne_path :: string
  ne_action :: NormalizationAction
  ne_before :: json
  ne_after :: json
  ne_reason :: string

definition mk_event ::
  "string \<Rightarrow> string \<Rightarrow> NormalizationAction \<Rightarrow> json \<Rightarrow> json \<Rightarrow> string \<Rightarrow> NormalizationEvent" where
  "mk_event eventId path action before after reason =
     \<lparr>ne_eventId = eventId, ne_path = path, ne_action = action, ne_before = before, ne_after = after,
      ne_reason = reason\<rparr>"

record NormalizationHashes =
  nh_graphHash :: string
  nh_validationHash :: string
  nh_normalizationHash :: string
  nh_replayHash :: string
  nh_stepHashes :: "(string \<times> string) list"

record NormalizationEvidence =
  nv_validationRunId :: string
  nv_schemaVersion :: string
  nv_normalizationVersion :: string
  nv_graphHash :: string
  nv_validationHash :: string
  nv_normalizationHash :: string
  nv_replayHash :: string
  nv_orderedEvents :: "NormalizationEvent list"
  nv_replaySnapshot :: ReplaySnapshot
  nv_sourceValidationMetadata :: ValidationEvidence
  nv_immutableAuditLedgerId :: "string option"

record NormalizePlanInput =
  ni_validatedPlan :: CanonicalPlan
  ni_validationResult :: ValidationResult
  ni_replaySnapshot :: ReplaySnapshot
  ni_graphHash :: string
  ni_validationHash :: string
  ni_normalizationVersion :: string

record NormalizePlanSuccess =
  ps_normalizedPlan :: NormalizedPlan
  ps_normalizationEvidence :: NormalizationEvidence
  ps_hashes :: NormalizationHashes

section \<open>Step defaults and modes\<close>

definition steps_path :: "nat \<Rightarrow> string \<Rightarrow> string" where
  "steps_path index field = ''steps.'' @ nat_str index @ ''.'' @ field"

definition applyStepNormalizationDefaults ::
  "nat \<Rightarrow> string \<Rightarrow> js_record option \<Rightarrow> json list option
   \<Rightarrow> js_record \<times> json list \<times> NormalizationEvent list" where
  "applyStepNormalizationDefaults stepIndex sourceId outputs constraints =
     (js_default [] outputs, js_default [] constraints,
      (if outputs = None
       then [mk_event (''default:'' @ sourceId @ '':outputs'') (steps_path stepIndex ''outputs'')
               DEFAULT_APPLIED JUndef (JObj []) ''Missing outputs normalize to an empty record.''] else []) @
      (if constraints = None
       then [mk_event (''default:'' @ sourceId @ '':constraints'') (steps_path stepIndex ''constraints'')
               DEFAULT_APPLIED JUndef (JArr []) ''Missing constraints normalize to an empty array.''] else []))"

text \<open>\<open>value ?? fallback\<close>\<close>

definition nullish_or :: "json \<Rightarrow> json \<Rightarrow> json" where
  "nullish_or v d = (if v = JUndef \<or> v = JNull then d else v)"

record EnumNormalization =
  en_executionMode :: ExecutionMode
  en_retryMode :: RetryMode
  en_approvalMode :: ApprovalMode
  en_autonomyLevel :: AutonomyLevel
  en_containmentLevel :: ContainmentLevel
  en_events :: "NormalizationEvent list"
  en_error :: "PlanNormalizationError option"

definition executionMode_of :: "json \<Rightarrow> ExecutionMode option" where
  "executionMode_of v =
     (if v = JStr ''PARALLEL'' then Some ExecPARALLEL else if v = JStr ''SERIAL'' then Some ExecSERIAL else None)"

definition retryMode_of :: "json \<Rightarrow> RetryMode option" where
  "retryMode_of v =
     (if v = JStr ''NEVER'' then Some RetryNEVER else if v = JStr ''SAFE_ONLY'' then Some RetrySAFE_ONLY
      else if v = JStr ''MANUAL_ONLY'' then Some RetryMANUAL_ONLY else None)"

definition approvalMode_of :: "json \<Rightarrow> ApprovalMode option" where
  "approvalMode_of v =
     (if v = JStr ''REQUIRED'' then Some ApprovalREQUIRED else if v = JStr ''OPTIONAL'' then Some ApprovalOPTIONAL
      else if v = JStr ''BLOCKED'' then Some ApprovalBLOCKED else None)"

definition autonomyLevel_of :: "json \<Rightarrow> AutonomyLevel option" where
  "autonomyLevel_of v =
     (if v = JStr ''NONE'' then Some AutonomyNONE else if v = JStr ''ADVISORY'' then Some AutonomyADVISORY
      else if v = JStr ''SUPERVISED'' then Some AutonomySUPERVISED else None)"

definition containmentLevel_of :: "json \<Rightarrow> ContainmentLevel option" where
  "containmentLevel_of v =
     (if v = JStr ''STRICT'' then Some ContainSTRICT else if v = JStr ''STANDARD'' then Some ContainSTANDARD else None)"

definition unknownEnums :: "string \<Rightarrow> EnumNormalization" where
  "unknownEnums sourceId =
     \<lparr>en_executionMode = ExecSERIAL, en_retryMode = RetryNEVER, en_approvalMode = ApprovalBLOCKED,
      en_autonomyLevel = AutonomyNONE, en_containmentLevel = ContainSTRICT, en_events = [],
      en_error = Some (createNormalizationError PLAN_NORMALIZATION_ENUM_UNKNOWN
        (''Unknown enum value encountered while normalizing step '' @ sourceId @ ''.'') None)\<rparr>"

definition enumEvents ::
  "nat \<Rightarrow> string \<Rightarrow> json \<Rightarrow> json \<Rightarrow> json \<Rightarrow> ExecutionMode \<Rightarrow> RetryMode \<Rightarrow> ApprovalMode \<Rightarrow> NormalizationEvent list" where
  "enumEvents stepIndex sourceId executionRaw retryRaw approvalRaw execution retry approval =
     [mk_event (''enum:'' @ sourceId @ '':execution'') (steps_path stepIndex ''executionMode'')
        ENUM_CANONICALIZED executionRaw (JStr (execution_mode_str execution))
        ''Execution mode is canonicalized to a stable planner enum.'',
      mk_event (''enum:'' @ sourceId @ '':retry'') (steps_path stepIndex ''retryMode'')
        ENUM_CANONICALIZED retryRaw (JStr (retry_mode_str retry))
        ''Retry mode is canonicalized to a stable planner enum.'',
      mk_event (''enum:'' @ sourceId @ '':approval'') (steps_path stepIndex ''approvalMode'')
        ENUM_CANONICALIZED approvalRaw (JStr (approval_mode_str approval))
        ''Approval mode is canonicalized to a stable planner enum.'']"

definition normalizeStepEnums ::
  "nat \<Rightarrow> string \<Rightarrow> bool \<Rightarrow> bool \<Rightarrow> json \<Rightarrow> json \<Rightarrow> json \<Rightarrow> json \<Rightarrow> json \<Rightarrow> EnumNormalization" where
  "normalizeStepEnums stepIndex sourceId retryable approvalRequired
       executionMode retryMode approvalMode autonomyLevel containmentLevel =
     (let executionRaw = nullish_or executionMode (JStr ''SERIAL'');
          retryRaw = nullish_or retryMode (JStr (if retryable then ''SAFE_ONLY'' else ''NEVER''));
          approvalRaw = nullish_or approvalMode (JStr (if approvalRequired then ''REQUIRED'' else ''OPTIONAL''));
          autonomyRaw = nullish_or autonomyLevel (JStr ''NONE'');
          containmentRaw = nullish_or containmentLevel (JStr ''STRICT'')
      in case (executionMode_of executionRaw, retryMode_of retryRaw, approvalMode_of approvalRaw,
               autonomyLevel_of autonomyRaw, containmentLevel_of containmentRaw) of
           (Some execution, Some retry, Some approval, Some autonomy, Some containment) \<Rightarrow>
             \<lparr>en_executionMode = execution, en_retryMode = retry, en_approvalMode = approval,
              en_autonomyLevel = autonomy, en_containmentLevel = containment,
              en_events = enumEvents stepIndex sourceId executionRaw retryRaw approvalRaw execution retry approval,
              en_error = None\<rparr>
         | _ \<Rightarrow> unknownEnums sourceId)"

section \<open>Ids\<close>

definition padStart3 :: "string \<Rightarrow> string" where
  "padStart3 s = replicate (3 - length s) (CHR ''0'') @ s"

definition canonicalStepId :: "(string \<Rightarrow> string) \<Rightarrow> string \<Rightarrow> nat \<Rightarrow> string \<Rightarrow> string" where
  "canonicalStepId sha planId index stepId =
     ''step-'' @ padStart3 (nat_str (index + 1)) @ ''-'' @
     take 8 (hashPayloadDeterministically sha [(''planId'', JStr planId), (''sourceId'', JStr stepId)])"

text \<open>
  The record \<open>ids\<close> is an association list, an assignment replaces the entry of its key; the loop
  returns at the first canonical id it has seen before.
\<close>

fun assignStepIds ::
  "(string \<Rightarrow> string) \<Rightarrow> string \<Rightarrow> nat \<Rightarrow> string list \<Rightarrow> (string \<times> string) list \<Rightarrow> NormalizationEvent list
   \<Rightarrow> CanonicalPlanStep list
   \<Rightarrow> (string \<times> string) list \<times> NormalizationEvent list \<times> PlanNormalizationError option" where
  "assignStepIds sha planId index seen ids events [] = (ids, events, None)"
| "assignStepIds sha planId index seen ids events (step # rest) =
     (let canonicalId = canonicalStepId sha planId index (cs_stepId step) in
      if canonicalId \<in> set seen then
        (ids, events, Some (createNormalizationError PLAN_NORMALIZATION_ID_COLLISION
           (''Canonical step id collision detected for '' @ cs_stepId step @ ''.'') None))
      else assignStepIds sha planId (index + 1) (set_add canonicalId seen)
             (AList.update (cs_stepId step) canonicalId ids)
             (events @ [mk_event (''normalize-id:'' @ canonicalId) (steps_path index ''id'') ID_NORMALIZED
                (JStr (cs_stepId step)) (JStr canonicalId)
                ''Stable canonical step ids are derived from authored step ids and plan id.'']) rest)"

definition normalizePlanStepIds ::
  "(string \<Rightarrow> string) \<Rightarrow> CanonicalPlan
   \<Rightarrow> (string \<times> string) list \<times> NormalizationEvent list \<times> PlanNormalizationError option" where
  "normalizePlanStepIds sha plan = assignStepIds sha (cp_planId plan) 0 [] [] [] (cp_steps plan)"

section \<open>Root, ordering and metadata\<close>

definition normalizePlanRoot :: "CanonicalPlan \<Rightarrow> string \<times> NormalizationEvent list" where
  "normalizePlanRoot plan =
     (cp_objective plan,
      [mk_event (''field:'' @ cp_planId plan @ '':goal'') ''goal'' FIELD_RENAMED (JStr (cp_objective plan))
         (JStr (cp_objective plan)) ''Mission objective is exposed as normalized goal without semantic rewrite.''])"

definition preserveValidatedOrdering :: "CanonicalPlan \<Rightarrow> string list \<times> NormalizationEvent list" where
  "preserveValidatedOrdering plan =
     (let authored = map cs_stepId (cp_steps plan) in
      (authored,
       [mk_event (''ordering:'' @ cp_planId plan) ''steps'' ORDER_CANONICALIZED (str_arr authored)
          (str_arr authored) ''Authored step order from 4.2B is preserved exactly.'']))"

definition normalizePlanMetadata :: "CanonicalPlan \<Rightarrow> CanonicalPlanMetadata \<times> NormalizationEvent list" where
  "normalizePlanMetadata plan =
     (let metadata = \<lparr>pm_plannerVersion = cp_plannerVersion plan, pm_generatedBy = cp_generatedBy plan,
            pm_createdAt = cp_createdAt plan, pm_extensions = []\<rparr> in
      (metadata,
       [mk_event (''metadata:'' @ cp_planId plan) ''metadata'' METADATA_CANONICALIZED
          (JObj [(''plannerVersion'', JStr (cp_plannerVersion plan)), (''generatedBy'', JStr (cp_generatedBy plan))])
          (metadata_json metadata)
          ''Plan metadata is canonicalized into a stable normalization metadata shape.'']))"

section \<open>Steps\<close>

definition normalizePlanStep ::
  "(string \<Rightarrow> string) \<Rightarrow> CanonicalPlan \<Rightarrow> CanonicalPlanStep \<Rightarrow> nat \<Rightarrow> string
   \<Rightarrow> PlanNormalizationError + (NormalizedPlanStep \<times> NormalizationEvent list)" where
  "normalizePlanStep sha plan step index canonicalId =
     (let (outputs, constraints, defaultEvents) =
            applyStepNormalizationDefaults index (cs_stepId step) None None;
          enums = normalizeStepEnums index (cs_stepId step) (cs_retryable step)
            (cs_approvalRequired step \<or> cp_approvalsRequired plan) JUndef JUndef JUndef JUndef JUndef
      in case en_error enums of
           Some error \<Rightarrow> Inl error
         | None \<Rightarrow>
             (let unhashed =
                \<lparr>ns_id = canonicalId, ns_sourceId = Some (cs_stepId step), ns_index = int index,
                 ns_title = Some (cs_title step), ns_intent = Some (sa_operation (cs_action step)),
                 ns_type = step_type_str (cs_type step), ns_action = action_json (cs_action step),
                 ns_inputs = sa_parameters (cs_action step), ns_outputs = outputs,
                 ns_dependencies = cs_dependencies step, ns_constraints = constraints,
                 ns_approvalMode = en_approvalMode enums, ns_retryMode = en_retryMode enums,
                 ns_executionMode = en_executionMode enums, ns_autonomyLevel = en_autonomyLevel enums,
                 ns_containmentLevel = en_containmentLevel enums, ns_hash = []\<rparr>;
                  hash = hashPayloadDeterministically sha (normalized_step_fields unhashed)
              in Inr (unhashed\<lparr>ns_hash := hash\<rparr>,
                   defaultEvents @ en_events enums @
                   [mk_event (''dependency:'' @ cs_stepId step) (steps_path index ''dependencies'')
                      DEPENDENCY_NORMALIZED (str_arr (cs_dependencies step)) (str_arr (cs_dependencies step))
                      ''Dependencies are preserved from validated structure without semantic change.'',
                    mk_event (''hash:'' @ cs_stepId step) (steps_path index ''hash'') HASH_COMPUTED JNull (JStr hash)
                      ''Stable step hash computed from normalized step payload.''])))"

text \<open>The loop over the steps with their events; a failing step ends it.\<close>

fun normalizeSteps ::
  "(string \<Rightarrow> string) \<Rightarrow> CanonicalPlan \<Rightarrow> (string \<times> string) list \<Rightarrow> nat \<Rightarrow> CanonicalPlanStep list
   \<Rightarrow> NormalizedPlanStep list \<Rightarrow> NormalizationEvent list
   \<Rightarrow> PlanNormalizationError + (NormalizedPlanStep list \<times> NormalizationEvent list)" where
  "normalizeSteps sha plan ids index [] steps events = Inr (steps, events)"
| "normalizeSteps sha plan ids index (step # rest) steps events =
     (case normalizePlanStep sha plan step index (js_default [] (map_of ids (cs_stepId step))) of
        Inl error \<Rightarrow> Inl error
      | Inr (normalized, stepEvents) \<Rightarrow>
          normalizeSteps sha plan ids (index + 1) rest (steps @ [normalized]) (events @ stepEvents))"

definition stepHashesOf :: "NormalizedPlanStep list \<Rightarrow> (string \<times> string) list" where
  "stepHashesOf steps = foldl (\<lambda>hs s. AList.update (ns_id s) (ns_hash s) hs) [] steps"

section \<open>Hashes\<close>

text \<open>None of the values is a function or cyclic, so the serializer does not throw.\<close>

definition computeNormalizationHashes ::
  "(string \<Rightarrow> string \<Rightarrow> int) \<Rightarrow> (string \<Rightarrow> string) \<Rightarrow> string \<Rightarrow> string \<Rightarrow> js_record \<Rightarrow> json
   \<Rightarrow> (string \<times> string) list \<Rightarrow> PlanNormalizationError + NormalizationHashes" where
  "computeNormalizationHashes lc sha graphHash validationHash planFields snapshot stepHashes =
     (let replayHash = hashPayloadDeterministically sha
            [(''replaySnapshot'', reparse_serialized lc snapshot), (''graphHash'', JStr graphHash),
             (''validationHash'', JStr validationHash)];
          normalizationHash = hashPayloadDeterministically sha
            [(''normalizedPlan'', reparse_serialized lc (JObj planFields)), (''graphHash'', JStr graphHash),
             (''validationHash'', JStr validationHash), (''replayHash'', JStr replayHash)]
      in Inr \<lparr>nh_graphHash = graphHash, nh_validationHash = validationHash,
              nh_normalizationHash = normalizationHash, nh_replayHash = replayHash,
              nh_stepHashes = stepHashes\<rparr>)"

section \<open>Replay metadata\<close>

definition normalizeReplayMetadata :: "NormalizePlanInput \<Rightarrow> PlanNormalizationError + ReplaySnapshot" where
  "normalizeReplayMetadata input =
     (let recorded = ev_replaySnapshot (vr_evidence (ni_validationResult input));
          given = ni_replaySnapshot input in
      if rs_graphHash recorded \<noteq> rs_graphHash given then
        Inl (createNormalizationError PLAN_NORMALIZATION_REPLAY_MISMATCH
          ''Replay snapshot graph hash does not match 4.2B validation evidence.'' None)
      else if json_text (snapshot_json recorded) \<noteq> json_text (snapshot_json given) then
        Inl (createNormalizationError PLAN_NORMALIZATION_REPLAY_MISMATCH
          ''Replay snapshot semantics diverged from 4.2B validation evidence.'' None)
      else Inr given)"

section \<open>The boundary\<close>

definition sameJson :: "json \<Rightarrow> json \<Rightarrow> bool" where
  "sameJson l r \<longleftrightarrow> json_text l = json_text r"

definition boundaryViolation :: "string \<Rightarrow> js_record option \<Rightarrow> PlanNormalizationError option" where
  "boundaryViolation message details =
     Some (createNormalizationError PLAN_NORMALIZATION_BOUNDARY_VIOLATION message details)"

text \<open>The loop over the source steps; a normalized step may be missing at an index.\<close>

fun checkStepBoundary ::
  "nat \<Rightarrow> CanonicalPlanStep list \<Rightarrow> NormalizedPlanStep list \<Rightarrow> PlanNormalizationError option" where
  "checkStepBoundary index [] normalized = None"
| "checkStepBoundary index (s # ss) [] =
     boundaryViolation (''Normalized step missing at index '' @ nat_str index @ ''.'') None"
| "checkStepBoundary index (s # ss) (n # ns) =
     (if \<not> sameJson (str_arr (cs_dependencies s)) (str_arr (ns_dependencies n)) then
        boundaryViolation (''Normalization changed dependencies for step '' @ cs_stepId s @ ''.'') None
      else if \<not> sameJson (action_json (cs_action s)) (ns_action n) then
        boundaryViolation (''Normalization changed action payload for step '' @ cs_stepId s @ ''.'') None
      else checkStepBoundary (index + 1) ss ns)"

definition enforceNormalizationBoundary ::
  "CanonicalPlan \<Rightarrow> NormalizedPlan \<Rightarrow> string \<Rightarrow> string \<Rightarrow> string list \<Rightarrow> PlanNormalizationError option" where
  "enforceNormalizationBoundary source normalized graphHash validationHash authoredStepOrder =
     (let order = map (\<lambda>step. js_default [] (ns_sourceId step)) (np_steps normalized) in
      if cp_objective source \<noteq> np_goal normalized then
        boundaryViolation ''Normalization changed the plan goal.'' None
      else if length (cp_steps source) \<noteq> length (np_steps normalized) then
        boundaryViolation ''Normalization changed the step count.'' None
      else if \<not> sameJson (str_arr authoredStepOrder) (str_arr order) then
        boundaryViolation ''Normalization changed authored step ordering.''
          (Some [(''expected'', str_arr authoredStepOrder), (''actual'', str_arr order)])
      else case checkStepBoundary 0 (cp_steps source) (np_steps normalized) of
        Some error \<Rightarrow> Some error
      | None \<Rightarrow>
          if np_validatedGraphHash normalized \<noteq> graphHash then
            boundaryViolation ''Normalization changed the validated graph hash.'' None
          else if np_validationHash normalized \<noteq> validationHash then
            boundaryViolation ''Normalization changed the validation hash reference.'' None
          else None)"

section \<open>Evidence\<close>

definition orderNormalizationEvents ::
  "(string \<Rightarrow> string \<Rightarrow> int) \<Rightarrow> NormalizationEvent list \<Rightarrow> NormalizationEvent list" where
  "orderNormalizationEvents lc events =
     js_sort (cmp_or (cmp_on ne_path lc)
             (cmp_or (cmp_on (\<lambda>e. normalization_action_str (ne_action e)) lc)
             (cmp_or (cmp_on ne_reason lc) (cmp_on ne_eventId lc)))) events"

definition createNormalizationRunId ::
  "(string \<Rightarrow> string) \<Rightarrow> string \<Rightarrow> string \<Rightarrow> string \<Rightarrow> string \<Rightarrow> string" where
  "createNormalizationRunId sha planId graphHash validationHash normalizationVersion =
     ''normalization:'' @ hashPayloadDeterministically sha
       [(''planId'', JStr planId), (''graphHash'', JStr graphHash), (''validationHash'', JStr validationHash),
        (''normalizationVersion'', JStr normalizationVersion)]"

definition appendNormalizationAuditLog ::
  "(string \<Rightarrow> string \<Rightarrow> int) \<Rightarrow> (string \<Rightarrow> string) \<Rightarrow> NormalizationEvidence \<Rightarrow> ImmutableAuditLedgerEntry" where
  "appendNormalizationAuditLog lc sha evidence =
     appendImmutableLedgerEntry lc sha ''planning-normalization''
       (JObj [(''validationRunId'', JStr (nv_validationRunId evidence)),
              (''graphHash'', JStr (nv_graphHash evidence)),
              (''validationHash'', JStr (nv_validationHash evidence)),
              (''normalizationHash'', JStr (nv_normalizationHash evidence)),
              (''replayHash'', JStr (nv_replayHash evidence))]) None"

definition createNormalizationEvidence ::
  "(string \<Rightarrow> string \<Rightarrow> int) \<Rightarrow> (string \<Rightarrow> string) \<Rightarrow> NormalizedPlan \<Rightarrow> NormalizationEvent list
   \<Rightarrow> NormalizationHashes \<Rightarrow> NormalizePlanInput \<Rightarrow> NormalizationEvidence" where
  "createNormalizationEvidence lc sha normalized events hashes input =
     (let payload =
        \<lparr>nv_validationRunId = createNormalizationRunId sha (np_planId normalized) (nh_graphHash hashes)
           (nh_validationHash hashes) (ni_normalizationVersion input),
         nv_schemaVersion = np_schemaVersion normalized,
         nv_normalizationVersion = ni_normalizationVersion input,
         nv_graphHash = nh_graphHash hashes, nv_validationHash = nh_validationHash hashes,
         nv_normalizationHash = nh_normalizationHash hashes, nv_replayHash = nh_replayHash hashes,
         nv_orderedEvents = orderNormalizationEvents lc events,
         nv_replaySnapshot = ni_replaySnapshot input,
         nv_sourceValidationMetadata = vr_evidence (ni_validationResult input),
         nv_immutableAuditLedgerId = None\<rparr>
      in payload\<lparr>nv_immutableAuditLedgerId := Some (al_ledgerId (appendNormalizationAuditLog lc sha payload))\<rparr>)"

section \<open>The orchestrator\<close>

definition evidenceRefOf :: "(string \<Rightarrow> string) \<Rightarrow> string \<Rightarrow> string \<Rightarrow> string" where
  "evidenceRefOf sha planId normalizationHash =
     ''evidence:'' @ take 16 (hashPayloadDeterministically sha
       [(''planId'', JStr planId), (''normalizationHash'', JStr normalizationHash)])"

text \<open>The plan before its hashes and evidence reference are known.\<close>

definition unhashedPlan :: "NormalizePlanInput \<Rightarrow> NormalizedPlanStep list \<Rightarrow> NormalizedPlan" where
  "unhashedPlan input steps =
     \<lparr>np_schemaVersion = cp_schemaVersion (ni_validatedPlan input),
      np_normalizationVersion = ni_normalizationVersion input,
      np_planId = cp_planId (ni_validatedPlan input),
      np_goal = fst (normalizePlanRoot (ni_validatedPlan input)),
      np_validatedGraphHash = ni_graphHash input, np_validationHash = ni_validationHash input,
      np_normalizationHash = [], np_replayHash = [], np_steps = steps,
      np_metadata = fst (normalizePlanMetadata (ni_validatedPlan input)), np_evidenceRef = []\<rparr>"

definition orchestratePlanNormalization ::
  "(string \<Rightarrow> string \<Rightarrow> int) \<Rightarrow> (string \<Rightarrow> string) \<Rightarrow> NormalizePlanInput
   \<Rightarrow> PlanNormalizationError + NormalizePlanSuccess" where
  "orchestratePlanNormalization lc sha input =
     (let result = ni_validationResult input; plan = ni_validatedPlan input in
      if \<not> vr_ok result \<or> \<not> vr_validated result then
        Inl (createNormalizationError PLAN_NORMALIZATION_UNVALIDATED_INPUT
          ''Phase 4.2C only accepts plans that passed 4.2B validation.'' None)
      else if vr_graphHash result \<noteq> ni_graphHash input \<or> vr_validationHash result \<noteq> ni_validationHash input then
        Inl (createNormalizationError PLAN_NORMALIZATION_REPLAY_MISMATCH
          ''Normalization input hashes diverged from 4.2B validation output.'' None)
      else case normalizeReplayMetadata input of Inl error \<Rightarrow> Inl error
      | Inr snapshot \<Rightarrow>
      (case normalizePlanStepIds sha plan of (ids, idEvents, Some error) \<Rightarrow> Inl error
      | (ids, idEvents, None) \<Rightarrow>
      (case normalizeSteps sha plan ids 0 (cp_steps plan) []
              (idEvents @ snd (normalizePlanRoot plan) @ snd (preserveValidatedOrdering plan)
                 @ snd (normalizePlanMetadata plan)) of Inl error \<Rightarrow> Inl error
      | Inr (steps, events) \<Rightarrow>
      (case computeNormalizationHashes lc sha (ni_graphHash input) (ni_validationHash input)
              (unhashed_plan_fields (unhashedPlan input steps)) (snapshot_json snapshot) (stepHashesOf steps)
         of Inl error \<Rightarrow> Inl error
      | Inr hashes \<Rightarrow>
      (let allEvents = events @
             [mk_event (''hash:'' @ cp_planId plan) ''normalizationHash'' HASH_COMPUTED JNull
                (JStr (nh_normalizationHash hashes))
                ''Stable normalization hash computed from normalized plan and replay-safe inputs.''];
           normalized = (unhashedPlan input steps)
             \<lparr>np_normalizationHash := nh_normalizationHash hashes, np_replayHash := nh_replayHash hashes,
              np_evidenceRef := evidenceRefOf sha (cp_planId plan) (nh_normalizationHash hashes)\<rparr>
       in case enforceNormalizationBoundary plan normalized (ni_graphHash input) (ni_validationHash input)
                 (rs_authoredStepOrder snapshot) of
            Some error \<Rightarrow> Inl error
          | None \<Rightarrow> Inr \<lparr>ps_normalizedPlan = normalized,
              ps_normalizationEvidence = createNormalizationEvidence lc sha normalized allEvents hashes input,
              ps_hashes = hashes\<rparr>)))))"

end
