(* ===== verification/DependencyCycles.thy ===== *)
theory DependencyCycles
  imports DependencyGraph Digraph
begin

text \<open>
  \<open>services/planning/dependencies/cycle-detector.ts\<close>: a depth-first search with the visited
  and active sets and the stack threaded as a state, stopping at the first back edge.  The
  recursion of \<open>visit\<close> is bounded by a fuel; \<open>visit_enough\<close> shows that one unit more than
  the vertices not yet visited is enough, so the detector always returns.  The invariant
  \<open>dfs_inv\<close> gives soundness (the reported path is a closed walk) and completeness (no report
  means the graph is acyclic).
\<close>

record 'v CycleState =
  vs_visited :: "'v list"
  vs_active :: "'v list"
  vs_stack :: "'v list"
  vs_cyclePath :: "'v list option"

definition adjacencyOf :: "DependencyGraph \<Rightarrow> string \<Rightarrow> string list" where
  "adjacencyOf g k =
     (if k \<in> set (node_ids g) then map de_to (filter (\<lambda>e. de_from e = k) (dg_edges g)) else [])"

text \<open>\<open>[...stack.slice(stack.indexOf(stepId)), stepId]\<close>; \<open>slice(-1)\<close> is the last element.\<close>

definition cycleFrom :: "'v list \<Rightarrow> 'v \<Rightarrow> 'v list" where
  "cycleFrom stack s =
     (if s \<in> set stack then dropWhile (\<lambda>x. x \<noteq> s) stack else drop (length stack - 1) stack) @ [s]"

fun visit :: "nat \<Rightarrow> ('v \<Rightarrow> 'v list) \<Rightarrow> 'v \<Rightarrow> 'v CycleState \<Rightarrow> 'v CycleState option"
  and visitAll :: "nat \<Rightarrow> ('v \<Rightarrow> 'v list) \<Rightarrow> 'v list \<Rightarrow> 'v CycleState \<Rightarrow> 'v CycleState option"
where
  "visit 0 adj s st = None"
| "visit (Suc n) adj s st =
     (if vs_cyclePath st \<noteq> None then Some st
      else if s \<in> set (vs_active st)
      then Some (st\<lparr>vs_cyclePath := Some (cycleFrom (vs_stack st) s)\<rparr>)
      else if s \<in> set (vs_visited st) then Some st
      else do {
        st' \<leftarrow> visitAll n adj (adj s)
          (st\<lparr>vs_visited := set_add s (vs_visited st), vs_active := set_add s (vs_active st),
              vs_stack := vs_stack st @ [s]\<rparr>);
        if vs_cyclePath st' \<noteq> None then Some st'
        else Some (st'\<lparr>vs_stack := butlast (vs_stack st'), vs_active := set_remove s (vs_active st')\<rparr>)
      })"
| "visitAll n adj [] st = Some st"
| "visitAll n adj (x # xs) st = do {
     st' \<leftarrow> visit n adj x st;
     if vs_cyclePath st' \<noteq> None then Some st' else visitAll n adj xs st'
   }"

definition emptyCycleState :: "'v CycleState" where
  "emptyCycleState = \<lparr>vs_visited = [], vs_active = [], vs_stack = [], vs_cyclePath = None\<rparr>"

text \<open>All the strings a search can meet, and the fuel that is enough for them.\<close>

definition graph_universe :: "DependencyGraph \<Rightarrow> string list" where
  "graph_universe g = node_ids g @ map de_to (dg_edges g) @ map de_from (dg_edges g)"

definition graph_fuel :: "DependencyGraph \<Rightarrow> nat" where
  "graph_fuel g = Suc (length (graph_universe g))"

definition cycleErrors :: "string list \<Rightarrow> DependencyValidationError list" where
  "cycleErrors p =
     [createDependencyError PLAN_DEPENDENCY_CYCLE_DETECTED
        (''Dependency cycle detected: '' @ js_join '' -> '' p)
        (case p of [] \<Rightarrow> None | x # _ \<Rightarrow> Some x) (Some p)]"

definition detectDependencyCycles ::
  "DependencyGraph \<Rightarrow> (DependencyValidationError list \<times> string list option) option" where
  "detectDependencyCycles g = do {
     st \<leftarrow> visitAll (graph_fuel g) (adjacencyOf g) (node_ids g) emptyCycleState;
     Some (case vs_cyclePath st of
             None \<Rightarrow> ([], None)
           | Some p \<Rightarrow> (cycleErrors p, Some p))
   }"

section \<open>The graph as a finite digraph\<close>

interpretation dep_graph: finite_digraph "adjacencyOf g" "set (graph_universe g)" for g
  by unfold_locales (auto simp: adjacencyOf_def graph_universe_def)

lemma adj_rel_wf: "wf_graph g \<Longrightarrow> adj_rel (adjacencyOf g) = dep_rel g"
  by (force simp: adjacencyOf_def dep_rel_def wf_graph_def edge_pairs_def split: if_splits)

lemma adj_rel_subset: "adj_rel (adjacencyOf g) \<subseteq> dep_rel g"
  by (force simp: adjacencyOf_def dep_rel_def edge_pairs_def split: if_splits)

section \<open>The search returns\<close>

context finite_digraph
begin

lemma visitAll_enough_lift:
  assumes "\<And>s st. s \<in> V \<Longrightarrow> card (V - set (vs_visited st)) < n \<Longrightarrow>
      \<exists>st'. visit n adj s st = Some st' \<and> set (vs_visited st) \<subseteq> set (vs_visited st')"
    and "set xs \<subseteq> V" and "card (V - set (vs_visited st)) < n"
  shows "\<exists>st'. visitAll n adj xs st = Some st' \<and> set (vs_visited st) \<subseteq> set (vs_visited st')"
  using assms(2,3)
proof (induction xs arbitrary: st)
  case (Cons x xs)
  then obtain st1 where st1: "visit n adj x st = Some st1"
    and sub: "set (vs_visited st) \<subseteq> set (vs_visited st1)"
    using assms(1)[of x st] by auto
  have "card (V - set (vs_visited st1)) < n"
    using card_remaining_mono[OF sub] Cons.prems(2) by linarith
  then obtain st2 where "visitAll n adj xs st1 = Some st2"
      "set (vs_visited st1) \<subseteq> set (vs_visited st2)"
    using Cons.IH[of st1] Cons.prems(1) by auto
  with st1 sub show ?case by auto
qed simp

lemma visit_enough:
  "s \<in> V \<Longrightarrow> card (V - set (vs_visited st)) < n \<Longrightarrow>
     \<exists>st'. visit n adj s st = Some st' \<and> set (vs_visited st) \<subseteq> set (vs_visited st')"
proof (induction n arbitrary: s st)
  case (Suc n)
  show ?case
  proof (cases "vs_cyclePath st \<noteq> None \<or> s \<in> set (vs_active st) \<or> s \<in> set (vs_visited st)")
    case False
    let ?st = "st\<lparr>vs_visited := set_add s (vs_visited st), vs_active := set_add s (vs_active st),
              vs_stack := vs_stack st @ [s]\<rparr>"
    have "card (V - set (vs_visited ?st)) < card (V - set (vs_visited st))"
      by (rule card_remaining_less[of s]) (use Suc.prems False in auto)
    then have "card (V - set (vs_visited ?st)) < n" using Suc.prems(2) by linarith
    from visitAll_enough_lift[OF Suc.IH adj_in[OF Suc.prems(1)] this] False
    show ?thesis by (auto simp del: visitAll.simps)
  qed auto
qed simp

lemma visitAll_enough:
  "set xs \<subseteq> V \<Longrightarrow> card (V - set (vs_visited st)) < n \<Longrightarrow>
     \<exists>st'. visitAll n adj xs st = Some st' \<and> set (vs_visited st) \<subseteq> set (vs_visited st')"
  using visitAll_enough_lift[OF visit_enough] by blast

end

section \<open>The search is right\<close>

definition dfs_inv :: "('v \<Rightarrow> 'v list) \<Rightarrow> 'v CycleState \<Rightarrow> bool" where
  "dfs_inv adj st \<longleftrightarrow> vs_cyclePath st = None \<and> set (vs_active st) = set (vs_stack st) \<and>
     distinct (vs_stack st) \<and> set (vs_stack st) \<subseteq> set (vs_visited st) \<and>
     walk (adj_rel adj) (vs_stack st) \<and>
     closed_acyclic (adj_rel adj) (set (vs_visited st) - set (vs_stack st))"

definition dfs_post :: "('v \<Rightarrow> 'v list) \<Rightarrow> 'v CycleState \<Rightarrow> 'v list \<Rightarrow> 'v CycleState \<Rightarrow> bool" where
  "dfs_post adj st xs st' \<longleftrightarrow>
     (case vs_cyclePath st' of
        Some p \<Rightarrow> closed_walk (adj_rel adj) p
      | None \<Rightarrow> dfs_inv adj st' \<and> vs_stack st' = vs_stack st \<and>
          set (vs_visited st) \<union> set xs \<subseteq> set (vs_visited st') \<and> set xs \<inter> set (vs_stack st) = {})"

definition from_stack :: "('v \<Rightarrow> 'v list) \<Rightarrow> 'v CycleState \<Rightarrow> 'v list \<Rightarrow> bool" where
  "from_stack adj st xs \<longleftrightarrow> (vs_stack st \<noteq> [] \<longrightarrow> set xs \<subseteq> set (adj (last (vs_stack st))))"

lemma back_edge_closed_walk:
  assumes "dfs_inv adj st" and "from_stack adj st [s]" and "s \<in> set (vs_active st)"
  shows "closed_walk (adj_rel adj) (cycleFrom (vs_stack st) s)"
proof -
  let ?d = "dropWhile (\<lambda>x. x \<noteq> s) (vs_stack st)"
  have s: "s \<in> set (vs_stack st)" and w: "walk (adj_rel adj) (vs_stack st)"
    using assms(1,3) by (auto simp: dfs_inv_def)
  from s obtain d where d: "?d = s # d" by (blast dest: dropWhile_neq_hd)
  have "last ?d = last (vs_stack st)"
    using d by (metis dropWhile_append3 last_appendR list.distinct(1) takeWhile_dropWhile_id)
  then have "(last ?d, s) \<in> adj_rel adj"
    using assms(2) s by (auto simp: from_stack_def)
  then have "walk (adj_rel adj) (?d @ [s])"
    using walk_snoc[OF walk_dropWhile[OF w]] by blast
  then show ?thesis using d s by (auto simp: closed_walk_def cycleFrom_def)
qed

lemma visitAll_post_lift:
  assumes "\<And>s st st'. dfs_inv adj st \<Longrightarrow> from_stack adj st [s] \<Longrightarrow>
      visit n adj s st = Some st' \<Longrightarrow> dfs_post adj st [s] st'"
    and "dfs_inv adj st" and "from_stack adj st xs" and "visitAll n adj xs st = Some st'"
  shows "dfs_post adj st xs st'"
  using assms(2-)
proof (induction xs arbitrary: st)
  case Nil
  then show ?case by (auto simp: dfs_post_def dfs_inv_def)
next
  case (Cons x xs)
  from Cons.prems(3) obtain st1 where st1: "visit n adj x st = Some st1"
    and rest: "(if vs_cyclePath st1 \<noteq> None then Some st1 else visitAll n adj xs st1) = Some st'"
    by (auto split: Option.bind_splits)
  have post1: "dfs_post adj st [x] st1"
    using assms(1)[OF Cons.prems(1) _ st1] Cons.prems(2) by (auto simp: from_stack_def)
  show ?case
  proof (cases "vs_cyclePath st1")
    case None
    with post1 have inv1: "dfs_inv adj st1" and stk: "vs_stack st1 = vs_stack st"
      by (auto simp: dfs_post_def)
    have "dfs_post adj st1 xs st'"
      using Cons.IH[OF inv1] Cons.prems(2) rest None stk by (auto simp: from_stack_def)
    with post1 None stk show ?thesis by (auto simp: dfs_post_def split: option.splits)
  next
    case (Some p)
    with rest post1 show ?thesis by (auto simp: dfs_post_def)
  qed
qed

lemma dfs_inv_push:
  assumes "dfs_inv adj st" and "from_stack adj st [s]" and "s \<notin> set (vs_visited st)"
  shows "dfs_inv adj (st\<lparr>vs_visited := set_add s (vs_visited st),
      vs_active := set_add s (vs_active st), vs_stack := vs_stack st @ [s]\<rparr>)"
proof -
  have "insert s (set (vs_visited st)) - insert s (set (vs_stack st))
      = set (vs_visited st) - set (vs_stack st)"
    using assms(3) by auto
  moreover have "walk (adj_rel adj) (vs_stack st @ [s])"
    by (rule walk_snoc) (use assms(1,2) in \<open>auto simp: dfs_inv_def from_stack_def\<close>)
  ultimately show ?thesis using assms by (auto simp: dfs_inv_def)
qed

lemma dfs_inv_pop:
  assumes "dfs_inv adj st" and "vs_stack st = stack @ [s]" and "set (adj s) \<subseteq> set (vs_visited st)"
    and "set (adj s) \<inter> set (stack @ [s]) = {}"
  shows "dfs_inv adj (st\<lparr>vs_stack := butlast (vs_stack st), vs_active := set_remove s (vs_active st)\<rparr>)"
proof -
  let ?F = "set (vs_visited st) - set (stack @ [s])"
  have s: "s \<in> set (vs_visited st)" and ns: "s \<notin> set stack"
    using assms(1,2) by (auto simp: dfs_inv_def)
  have "closed_acyclic (adj_rel adj) (insert s ?F)"
    by (rule closed_acyclic_insert) (use assms in \<open>auto simp: dfs_inv_def\<close>)
  moreover have "insert s ?F = set (vs_visited st) - set stack" using s ns by auto
  moreover have "walk (adj_rel adj) stack"
    using assms(1,2) by (auto simp: dfs_inv_def intro: walk_butlast)
  ultimately show ?thesis using assms(1,2) ns by (auto simp: dfs_inv_def)
qed

lemma visit_post:
  "dfs_inv adj st \<Longrightarrow> from_stack adj st [s] \<Longrightarrow> visit n adj s st = Some st' \<Longrightarrow>
     dfs_post adj st [s] st'"
proof (induction n arbitrary: s st st')
  case (Suc n)
  have none: "vs_cyclePath st = None" using Suc.prems(1) by (simp add: dfs_inv_def)
  consider (active) "s \<in> set (vs_active st)"
    | (visited) "s \<notin> set (vs_active st)" "s \<in> set (vs_visited st)"
    | (new) "s \<notin> set (vs_active st)" "s \<notin> set (vs_visited st)" by blast
  then show ?case
  proof cases
    case active
    with Suc.prems none show ?thesis
      using back_edge_closed_walk[OF Suc.prems(1,2)] by (auto simp: dfs_post_def)
  next
    case visited
    with Suc.prems none show ?thesis by (auto simp: dfs_post_def dfs_inv_def)
  next
    case new
    let ?st = "st\<lparr>vs_visited := set_add s (vs_visited st), vs_active := set_add s (vs_active st),
              vs_stack := vs_stack st @ [s]\<rparr>"
    from Suc.prems(3) none new obtain st2 where st2: "visitAll n adj (adj s) ?st = Some st2"
      and st': "st' = (if vs_cyclePath st2 \<noteq> None then st2
        else st2\<lparr>vs_stack := butlast (vs_stack st2), vs_active := set_remove s (vs_active st2)\<rparr>)"
      by (auto split: Option.bind_splits if_splits)
    have post2: "dfs_post adj ?st (adj s) st2"
      by (rule visitAll_post_lift[OF Suc.IH dfs_inv_push[OF Suc.prems(1,2) new(2)] _ st2])
        (auto simp: from_stack_def)
    show ?thesis
    proof (cases "vs_cyclePath st2")
      case None
      with post2 have inv2: "dfs_inv adj st2" and stk: "vs_stack st2 = vs_stack st @ [s]"
        and vis: "insert s (set (vs_visited st)) \<union> set (adj s) \<subseteq> set (vs_visited st2)"
        and dis: "set (adj s) \<inter> set (vs_stack st @ [s]) = {}"
        by (auto simp: dfs_post_def)
      have "dfs_inv adj st'"
        using dfs_inv_pop[OF inv2 stk _ dis] vis st' None by auto
      with stk vis None st' new Suc.prems(1) show ?thesis
        by (auto simp: dfs_post_def dfs_inv_def)
    qed (use post2 st' in \<open>auto simp: dfs_post_def\<close>)
  qed
qed simp

lemma visitAll_post:
  "dfs_inv adj st \<Longrightarrow> from_stack adj st xs \<Longrightarrow> visitAll n adj xs st = Some st' \<Longrightarrow>
     dfs_post adj st xs st'"
  by (rule visitAll_post_lift) (rule visit_post)

lemma dfs_inv_empty: "dfs_inv adj emptyCycleState"
  by (simp add: dfs_inv_def emptyCycleState_def)

section \<open>The detector\<close>

lemma card_universe: "card (set (graph_universe g) - A) < graph_fuel g"
  unfolding graph_fuel_def
  by (meson List.finite_set card_length card_mono Diff_subset le_trans less_Suc_eq_le)

lemma detect_returns: "\<exists>r. detectDependencyCycles g = Some r"
proof -
  obtain st where "visitAll (graph_fuel g) (adjacencyOf g) (node_ids g) emptyCycleState = Some st"
    using dep_graph.visitAll_enough[of "node_ids g" g emptyCycleState "graph_fuel g"]
      card_universe[of g] by (auto simp: graph_universe_def)
  then show ?thesis by (simp add: detectDependencyCycles_def)
qed

lemma detect_cases:
  assumes "detectDependencyCycles g = Some r"
  obtains (cyclic) p where "r = (cycleErrors p, Some p)" "closed_walk (adj_rel (adjacencyOf g)) p"
  | (acyclic) "r = ([], None)" "acyclic (adj_rel (adjacencyOf g))"
proof -
  from assms obtain st
    where st: "visitAll (graph_fuel g) (adjacencyOf g) (node_ids g) emptyCycleState = Some st"
      and r: "r = (case vs_cyclePath st of None \<Rightarrow> ([], None) | Some p \<Rightarrow> (cycleErrors p, Some p))"
    by (auto simp: detectDependencyCycles_def split: Option.bind_splits)
  have post: "dfs_post (adjacencyOf g) emptyCycleState (node_ids g) st"
    by (rule visitAll_post[OF dfs_inv_empty _ st]) (simp add: from_stack_def emptyCycleState_def)
  show thesis
  proof (cases "vs_cyclePath st")
    case None
    let ?R = "adj_rel (adjacencyOf g)"
    from post None have F: "closed_acyclic ?R (set (vs_visited st))"
      and "set (node_ids g) \<subseteq> set (vs_visited st)"
      by (auto simp: dfs_post_def dfs_inv_def emptyCycleState_def)
    moreover have "?R \<subseteq> set (node_ids g) \<times> UNIV"
      by (auto simp: adjacencyOf_def split: if_splits)
    ultimately have "?R \<inter> set (vs_visited st) \<times> set (vs_visited st) = ?R"
      unfolding closed_acyclic_def by blast
    with F have "acyclic ?R" by (simp add: closed_acyclic_def)
    with None r show thesis by (intro acyclic) auto
  next
    case (Some p)
    with post r show thesis by (intro cyclic[of p]) (auto simp: dfs_post_def)
  qed
qed

lemma detect_acyclic_iff:
  "detectDependencyCycles g = Some (errors, path) \<Longrightarrow>
     (errors = [] \<longleftrightarrow> acyclic (adj_rel (adjacencyOf g))) \<and> (path = None \<longleftrightarrow> errors = [])"
  by (erule detect_cases) (auto simp: cycleErrors_def dest: closed_walk_not_acyclic)

end
