(* ===== verification/DependencyGates.thy ===== *)
theory DependencyGates
  imports DependencyCycles
begin

text \<open>
  \<open>services/planning/dependencies\<close>: \<open>gate-inheritance-validator.ts\<close>,
  \<open>branch-semantics-validator.ts\<close> and \<open>dependency-policy-validator.ts\<close>.  The memoising
  recursion \<open>collect\<close> of the ancestor map has no guard against cycles; it is modelled with fuel,
  \<open>None\<close> meaning that the recursion has not returned.  \<open>ancestors_enough\<close> and
  \<open>ancestors_returns_wf\<close> show that it returns exactly on acyclic graphs, and \<open>ancestors_correct\<close>
  that the map then is the transitive closure of the dependency relation.
\<close>

section \<open>The ancestor map\<close>

type_synonym ancestor_map = "string \<rightharpoonup> string list"

definition reverseOf :: "DependencyGraph \<Rightarrow> string \<Rightarrow> string list" where
  "reverseOf g k =
     (if k \<in> set (node_ids g) then map de_from (filter (\<lambda>e. de_to e = k) (dg_edges g)) else [])"

definition add_ancestors :: "'a \<Rightarrow> 'a list \<Rightarrow> 'a list \<Rightarrow> 'a list" where
  "add_ancestors parent inherited ancestors = foldl (\<lambda>acc a. set_add a acc) (set_add parent ancestors) inherited"

fun collect :: "nat \<Rightarrow> ('a \<Rightarrow> 'a list) \<Rightarrow> 'a \<Rightarrow> ('a \<rightharpoonup> 'a list) \<Rightarrow> ('a list \<times> ('a \<rightharpoonup> 'a list)) option"
  and collectParents ::
    "nat \<Rightarrow> ('a \<Rightarrow> 'a list) \<Rightarrow> 'a list \<Rightarrow> 'a list \<Rightarrow> ('a \<rightharpoonup> 'a list) \<Rightarrow> ('a list \<times> ('a \<rightharpoonup> 'a list)) option"
where
  "collect 0 par s cache = None"
| "collect (Suc n) par s cache =
     (case cache s of
        Some ancestors \<Rightarrow> Some (ancestors, cache)
      | None \<Rightarrow> do {
          (ancestors, cache') \<leftarrow> collectParents n par (par s) [] cache;
          Some (ancestors, cache'(s \<mapsto> ancestors))
        })"
| "collectParents n par [] ancestors cache = Some (ancestors, cache)"
| "collectParents n par (parent # rest) ancestors cache = do {
     (inherited, cache') \<leftarrow> collect n par parent cache;
     collectParents n par rest (add_ancestors parent inherited ancestors) cache'
   }"

fun collectAll :: "nat \<Rightarrow> ('a \<Rightarrow> 'a list) \<Rightarrow> 'a list \<Rightarrow> ('a \<rightharpoonup> 'a list) \<Rightarrow> ('a \<rightharpoonup> 'a list) option" where
  "collectAll n par [] cache = Some cache"
| "collectAll n par (s # ss) cache = do {
     (_, cache') \<leftarrow> collect n par s cache;
     collectAll n par ss cache'
   }"

text \<open>Both validators carry the same function, each its own copy.\<close>

definition gateAncestorMap :: "nat \<Rightarrow> DependencyGraph \<Rightarrow> ancestor_map option" where
  "gateAncestorMap n g = collectAll n (reverseOf g) (node_ids g) Map.empty"

definition policyAncestorMap :: "nat \<Rightarrow> DependencyGraph \<Rightarrow> ancestor_map option" where
  "policyAncestorMap n g = collectAll n (reverseOf g) (node_ids g) Map.empty"

definition ancestorNodesOf :: "DependencyGraph \<Rightarrow> ancestor_map \<Rightarrow> string \<Rightarrow> DependencyNode list" where
  "ancestorNodesOf g ancestors s =
     concat (map (\<lambda>a. case nodeMap (dg_nodes g) a of None \<Rightarrow> [] | Some n \<Rightarrow> [n])
       (js_default [] (ancestors s)))"

section \<open>Gate inheritance\<close>

definition isApprovalGate :: "DependencyNode \<Rightarrow> bool" where
  "isApprovalGate node \<longleftrightarrow> dn_operation node = Some ''approval_gate''"

definition isPreflightGate :: "DependencyNode \<Rightarrow> bool" where
  "isPreflightGate node \<longleftrightarrow> dn_operation node = Some ''preflight_check''"

definition stepMap :: "NormalizedPlan \<Rightarrow> string \<rightharpoonup> NormalizedPlanStep" where
  "stepMap plan = js_map_of (map (\<lambda>step. (ns_id step, step)) (np_steps plan))"

definition gateErrors ::
  "DependencyNode \<Rightarrow> NormalizedPlanStep \<Rightarrow> DependencyNode list \<Rightarrow> DependencyValidationError list" where
  "gateErrors node step ancestorNodes =
     (if dn_requiresApproval node \<and> \<not> list_ex isApprovalGate ancestorNodes
      then [createDependencyError PLAN_APPROVAL_GATE_BYPASSED
              (''Step '' @ dn_stepId node @ '' requires an approval gate ancestor.'')
              (Some (dn_stepId node)) (step_path step [])] else []) @
     (if (dn_requiresPreflight node = Some True \<or> dn_isDestructive node = Some True)
         \<and> \<not> list_ex isPreflightGate ancestorNodes
      then [createDependencyError PLAN_PREFLIGHT_REQUIRED
              (''Step '' @ dn_stepId node @ '' requires a preflight gate ancestor.'')
              (Some (dn_stepId node)) (step_path step [])] else []) @
     (if isApprovalGate node \<and>
         filter (\<lambda>a. dn_isDestructive a = Some True \<or> dn_hasExternalSideEffect a = Some True) ancestorNodes \<noteq> []
      then [createDependencyError PLAN_GATE_INHERITANCE_BROKEN
              (''Approval gate '' @ dn_stepId node @ '' cannot depend on mutation execution.'')
              (Some (dn_stepId node)) (step_path step [])] else [])"

definition validateGateInheritance ::
  "nat \<Rightarrow> NormalizedPlan \<Rightarrow> DependencyGraph \<Rightarrow> DependencyValidationError list option" where
  "validateGateInheritance n plan g = do {
     ancestors \<leftarrow> gateAncestorMap n g;
     Some (concat (map (\<lambda>node.
       case stepMap plan (dn_stepId node) of
         None \<Rightarrow> []
       | Some step \<Rightarrow> gateErrors node step (ancestorNodesOf g ancestors (dn_stepId node))) (dg_nodes g)))
   }"

section \<open>Branch semantics\<close>

definition dependentsOf :: "DependencyGraph \<Rightarrow> string \<Rightarrow> DependencyNode list" where
  "dependentsOf g k =
     (if k \<in> set (node_ids g)
      then concat (map (\<lambda>e. case nodeMap (dg_nodes g) (de_to e) of None \<Rightarrow> [] | Some n \<Rightarrow> [n])
             (filter (\<lambda>e. de_from e = k) (dg_edges g)))
      else [])"

definition allowedBranchTypes :: "string list" where
  "allowedBranchTypes = [''normal'', ''failure'', ''rollback'', ''terminal'']"

definition rawBranchErrors :: "NormalizedPlanStep \<Rightarrow> DependencyValidationError list" where
  "rawBranchErrors step =
     (let raw = obj_get (ns_inputs step) ''branchType'' in
      if raw \<noteq> JUndef \<and> js_String raw \<notin> set allowedBranchTypes
      then [createDependencyError PLAN_DEPENDENCY_POLICY_VIOLATION
              (''Unknown branch semantics '' @ js_String raw @ '' are not allowed.'')
              (Some (ns_id step)) (step_path step [''inputs'', ''branchType''])]
      else [])"

definition verifyTarget :: "NormalizedPlan \<Rightarrow> DependencyGraph \<Rightarrow> DependencyNode \<Rightarrow> DependencyNode option" where
  "verifyTarget plan g node =
     (case find (\<lambda>step. ns_id step = dn_stepId node) (np_steps plan) of
        None \<Rightarrow> None
      | Some step \<Rightarrow>
          (case obj_get (ns_inputs step) ''verifiesStepId'' of
             JStr target \<Rightarrow> if target \<noteq> [] then nodeMap (dg_nodes g) target else None
           | _ \<Rightarrow> None))"

definition branchErrors :: "NormalizedPlan \<Rightarrow> DependencyGraph \<Rightarrow> DependencyNode \<Rightarrow> DependencyValidationError list" where
  "branchErrors plan g node =
     (let nodeDependents = dependentsOf g (dn_stepId node);
          feedsNormal = list_ex (\<lambda>d. dn_branchType d = BranchNormal) nodeDependents in
      (if dn_branchType node = BranchRollback \<and> feedsNormal
       then [createDependencyError PLAN_ROLLBACK_ORDER_INVALID
               (''Rollback step '' @ dn_stepId node @ '' cannot feed the normal success path.'')
               (Some (dn_stepId node)) None] else []) @
      (if dn_branchType node = BranchFailure \<and> feedsNormal
       then [createDependencyError PLAN_FAILURE_BRANCH_USED_AS_SUCCESS_PATH
               (''Failure branch step '' @ dn_stepId node @ '' cannot be reused as a success dependency.'')
               (Some (dn_stepId node)) None] else []) @
      (if dn_branchType node = BranchTerminal \<and> nodeDependents \<noteq> []
       then [createDependencyError PLAN_TERMINAL_STEP_HAS_DEPENDENTS
               (''Terminal step '' @ dn_stepId node @ '' cannot have dependents.'')
               (Some (dn_stepId node)) None] else []) @
      (if dn_operation node = Some ''verify''
          \<and> (case verifyTarget plan g node of
                None \<Rightarrow> True | Some target \<Rightarrow> dn_sequenceIndex node \<le> dn_sequenceIndex target)
       then [createDependencyError PLAN_VERIFICATION_ORDER_INVALID
               (''Verification step '' @ dn_stepId node @ '' must come after the step it verifies.'')
               (Some (dn_stepId node)) None] else []))"

definition validateBranchSemantics ::
  "NormalizedPlan \<Rightarrow> DependencyGraph \<Rightarrow> DependencyValidationError list" where
  "validateBranchSemantics plan g =
     concat (map rawBranchErrors (np_steps plan)) @ concat (map (branchErrors plan g) (dg_nodes g))"

section \<open>Policies\<close>

definition policyErrors ::
  "DependencyGraph \<Rightarrow> NormalizedPlanStep \<Rightarrow> DependencyNode \<Rightarrow> DependencyNode list
   \<Rightarrow> DependencyValidationError list" where
  "policyErrors g step node ancestorNodes =
     (if obj_get (ns_inputs step) ''disabled'' = JBool True
      then [createDependencyError PLAN_DISABLED_STEP_REFERENCED
              (''Disabled step '' @ ns_id step @ '' cannot participate in dependency execution order.'')
              (Some (ns_id step)) (step_path step [])] else []) @
     (if obj_get (ns_inputs step) ''dynamicDependencyRef'' \<noteq> JUndef
      then [createDependencyError PLAN_DEPENDENCY_POLICY_VIOLATION
              (''Dynamic dependency references are not allowed for '' @ ns_id step @ ''.'')
              (Some (ns_id step)) (step_path step [''inputs'', ''dynamicDependencyRef''])] else []) @
     (if obj_get (ns_inputs step) ''targetEnvironment'' = JStr ''production''
         \<and> dn_isDestructive node = Some True \<and> \<not> list_ex isApprovalGate ancestorNodes
      then [createDependencyError PLAN_APPROVAL_GATE_BYPASSED
              (''Production mutation '' @ ns_id step @ '' requires an approval gate ancestor.'')
              (Some (ns_id step)) None] else []) @
     (if dn_isDestructive node = Some True \<and> \<not> list_ex isPreflightGate ancestorNodes
      then [createDependencyError PLAN_PREFLIGHT_REQUIRED
              (''Destructive step '' @ ns_id step @ '' requires a preflight gate ancestor.'')
              (Some (ns_id step)) None] else []) @
     (if dn_hasExternalSideEffect node = Some True \<and> dn_idempotencyKey node = None
      then [createDependencyError PLAN_DEPENDENCY_POLICY_VIOLATION
              (''External side-effect step '' @ ns_id step @ '' requires idempotency metadata.'')
              (Some (ns_id step)) None] else []) @
     (if dn_branchType node = BranchRollback
         \<and> list_ex (\<lambda>d. dn_branchType d = BranchNormal) (dependentsOf g (ns_id step))
      then [createDependencyError PLAN_ROLLBACK_ORDER_INVALID
              (''Rollback step '' @ ns_id step @ '' cannot be used as forward execution.'')
              (Some (ns_id step)) None] else [])"

definition validateDependencyPolicies ::
  "nat \<Rightarrow> NormalizedPlan \<Rightarrow> DependencyGraph \<Rightarrow> DependencyValidationError list option" where
  "validateDependencyPolicies n plan g = do {
     ancestors \<leftarrow> policyAncestorMap n g;
     Some (concat (map (\<lambda>step.
       case nodeMap (dg_nodes g) (ns_id step) of
         None \<Rightarrow> []
       | Some node \<Rightarrow> policyErrors g step node (ancestorNodesOf g ancestors (ns_id step))) (np_steps plan)))
   }"

section \<open>The recursion against the relation\<close>

definition cache_inv :: "('a \<Rightarrow> 'a list) \<Rightarrow> ('a \<rightharpoonup> 'a list) \<Rightarrow> bool" where
  "cache_inv par cache \<longleftrightarrow>
     (\<forall>v as. cache v = Some as \<longrightarrow> set as = ancestors_of par v \<and> v \<in> Wellfounded.acc (par_rel par))"

lemma set_add_ancestors [simp]:
  "set (add_ancestors p inherited ancestors) = insert p (set inherited) \<union> set ancestors"
proof -
  have "set (foldl (\<lambda>acc a. set_add a acc) acc xs) = set xs \<union> set acc" for acc and xs :: "'a list"
    by (induction xs arbitrary: acc) auto
  then show ?thesis by (auto simp: add_ancestors_def)
qed

lemma collectParents_post_lift:
  assumes "\<And>s cache as cache'. cache_inv par cache \<Longrightarrow> collect n par s cache = Some (as, cache') \<Longrightarrow>
      cache_inv par cache' \<and> set as = ancestors_of par s \<and> s \<in> Wellfounded.acc (par_rel par) \<and>
      insert s (dom cache) \<subseteq> dom cache'"
  shows "cache_inv par cache \<Longrightarrow> collectParents n par ps ancestors cache = Some (as, cache') \<Longrightarrow>
      cache_inv par cache' \<and> set as = set ancestors \<union> (\<Union>p \<in> set ps. insert p (ancestors_of par p)) \<and>
      set ps \<subseteq> Wellfounded.acc (par_rel par) \<and> dom cache \<subseteq> dom cache'"
proof (induction ps arbitrary: ancestors cache)
  case (Cons p ps)
  from Cons.prems(2) obtain more1 cache1 where p: "collect n par p cache = Some (more1, cache1)"
    and rest: "collectParents n par ps (add_ancestors p more1 ancestors) cache1 = Some (as, cache')"
    by (auto split: Option.bind_splits)
  from assms[OF Cons.prems(1) p] Cons.IH[OF _ rest] show ?case by simp blast
qed simp

lemma collect_post:
  "cache_inv par cache \<Longrightarrow> collect n par s cache = Some (as, cache') \<Longrightarrow>
     cache_inv par cache' \<and> set as = ancestors_of par s \<and> s \<in> Wellfounded.acc (par_rel par) \<and>
     insert s (dom cache) \<subseteq> dom cache'"
proof (induction n arbitrary: s cache as cache')
  case (Suc n)
  show ?case
  proof (cases "cache s")
    case (Some bs)
    with Suc.prems show ?thesis by (auto simp: cache_inv_def)
  next
    case None
    with Suc.prems(2) obtain cache1 where
      ps: "collectParents n par (par s) [] cache = Some (as, cache1)" and c: "cache' = cache1(s \<mapsto> as)"
      by (auto split: Option.bind_splits)
    have post: "cache_inv par cache1 \<and>
        set as = set [] \<union> (\<Union>p \<in> set (par s). insert p (ancestors_of par p)) \<and>
        set (par s) \<subseteq> Wellfounded.acc (par_rel par) \<and> dom cache \<subseteq> dom cache1"
      by (rule collectParents_post_lift[OF _ Suc.prems(1) ps]) (rule Suc.IH)
    note inv = post[THEN conjunct1] and par = post[THEN conjunct2, THEN conjunct2, THEN conjunct1]
      and dom = post[THEN conjunct2, THEN conjunct2, THEN conjunct2]
    have "set as = (\<Union>p \<in> set (par s). insert p (ancestors_of par p))"
      using post[THEN conjunct2, THEN conjunct1] by simp
    then have as: "set as = ancestors_of par s"
      by (rule trans[OF _ ancestors_of_parents[symmetric]])
    have "s \<in> Wellfounded.acc (par_rel par)"
      by (rule accI) (use par in \<open>auto simp: par_rel_def\<close>)
    with inv as c dom show ?thesis by (auto simp: cache_inv_def)
  qed
qed simp

lemma collectAll_post:
  "cache_inv par cache \<Longrightarrow> collectAll n par ss cache = Some cache' \<Longrightarrow>
     cache_inv par cache' \<and> set ss \<subseteq> Wellfounded.acc (par_rel par) \<and>
     set ss \<union> dom cache \<subseteq> dom cache'"
proof (induction ss arbitrary: cache)
  case (Cons s ss)
  from Cons.prems(2) obtain as cache1 where s: "collect n par s cache = Some (as, cache1)"
    and rest: "collectAll n par ss cache1 = Some cache'"
    by (auto split: Option.bind_splits)
  from collect_post[OF Cons.prems(1) s] Cons.IH[OF _ rest] show ?case by simp blast
qed simp

lemma cache_inv_empty [simp]: "cache_inv par Map.empty"
  by (simp add: cache_inv_def)

lemma acc_no_loop: "v \<in> Wellfounded.acc R \<Longrightarrow> (v, v) \<notin> R\<^sup>+"
proof (induction rule: acc.induct)
  case (accI x)
  show ?case
  proof
    assume "(x, x) \<in> R\<^sup>+"
    then obtain y where y: "(y, x) \<in> R" "(x, y) \<in> R\<^sup>*" by (auto dest: tranclD2)
    then have "(y, y) \<in> R\<^sup>+" by (auto intro: rtrancl_into_trancl2)
    with accI y(1) show False by blast
  qed
qed

text \<open>On an acyclic graph the fuel needed is bounded by the number of ancestors.\<close>

context finite_digraph
begin

lemma collectParents_enough_lift:
  assumes "\<And>p cache. p \<in> set ps \<Longrightarrow> \<exists>r. collect n adj p cache = Some r"
  shows "\<exists>r. collectParents n adj ps ancestors cache = Some r"
  using assms
proof (induction ps arbitrary: ancestors cache)
  case (Cons p ps)
  obtain as cache' where "collect n adj p cache = Some (as, cache')"
    using Cons.prems[of p cache] by auto
  with Cons show ?case by simp
qed simp

lemma collect_enough:
  assumes "acyclic (par_rel adj)"
  shows "card (ancestors_of adj s) < n \<Longrightarrow> \<exists>r. collect n adj s cache = Some r"
proof (induction n arbitrary: s cache)
  case (Suc n)
  have "\<exists>r. collectParents n adj (adj s) [] cache = Some r"
    by (rule collectParents_enough_lift, rule Suc.IH)
      (use card_parent[OF assms] Suc.prems in \<open>fastforce dest: less_Suc_eq_le[THEN iffD1]\<close>)
  then show ?case by (auto split: option.splits)
qed simp

lemma collectAll_enough:
  assumes "acyclic (par_rel adj)" and "card V < n"
  shows "\<exists>r. collectAll n adj ss cache = Some r"
proof (induction ss arbitrary: cache)
  case (Cons s ss)
  have "card (ancestors_of adj s) < n"
    using card_mono[OF finite_V ancestors_in] assms(2) by (rule le_less_trans)
  from collect_enough[OF assms(1) this] obtain as cache' where "collect n adj s cache = Some (as, cache')"
    by force
  with Cons show ?case by simp
qed simp

end

interpretation rev_graph: finite_digraph "reverseOf g" "set (graph_universe g)" for g
  by unfold_locales (auto simp: reverseOf_def graph_universe_def)

text \<open>For a graph whose edges point to nodes, as every built graph is.\<close>

definition targets_ok :: "DependencyGraph \<Rightarrow> bool" where
  "targets_ok g \<longleftrightarrow> snd ` dep_rel g \<subseteq> set (node_ids g)"

lemma targets_ok_build [simp]: "targets_ok (buildDependencyGraph plan)"
  by (auto simp: targets_ok_def dest: dep_rel_target)

lemma targets_ok_wf: "wf_graph g \<Longrightarrow> targets_ok g"
  by (auto simp: targets_ok_def dest: dep_rel_wf)

lemma par_rel_reverse: "targets_ok g \<Longrightarrow> par_rel (reverseOf g) = dep_rel g"
  by (force simp: targets_ok_def par_rel_def reverseOf_def dep_rel_def edge_pairs_def split: if_splits)

lemma ancestors_returns_wf:
  assumes "targets_ok g" and "collectAll n (reverseOf g) (node_ids g) Map.empty = Some anc"
  shows "acyclic (dep_rel g)"
proof -
  have "set (node_ids g) \<subseteq> Wellfounded.acc (dep_rel g)"
    using collectAll_post[OF cache_inv_empty assms(2)] par_rel_reverse[OF assms(1)] by simp
  moreover have "v \<in> set (node_ids g)" if "(v, v) \<in> (dep_rel g)\<^sup>+" for v
    using that assms(1) by (auto simp: targets_ok_def dest!: tranclD2)
  ultimately have "(v, v) \<notin> (dep_rel g)\<^sup>+" for v
    using acc_no_loop[of v "dep_rel g"] by blast
  then show ?thesis by (simp add: acyclic_def)
qed

lemma card_universe_fuel: "card (set (graph_universe g)) < graph_fuel g"
  using card_universe[of g "{}"] by simp

lemma ancestors_enough:
  "targets_ok g \<Longrightarrow> acyclic (dep_rel g) \<Longrightarrow>
     \<exists>anc. collectAll (graph_fuel g) (reverseOf g) (node_ids g) Map.empty = Some anc"
  using rev_graph.collectAll_enough[OF _ card_universe_fuel] by (simp add: par_rel_reverse)

text \<open>Every node's entry of a returned map is its set of ancestors.\<close>

lemma ancestors_correct:
  assumes "targets_ok g" and "collectAll n (reverseOf g) (node_ids g) Map.empty = Some anc"
    and "s \<in> set (node_ids g)"
  shows "set (js_default [] (anc s)) = {u. (u, s) \<in> (dep_rel g)\<^sup>+}"
proof -
  have "s \<in> dom anc" and "cache_inv (reverseOf g) anc"
    using collectAll_post[OF cache_inv_empty assms(2)] assms(3) by auto
  then show ?thesis
    by (auto simp: cache_inv_def ancestors_of_def par_rel_reverse[OF assms(1)])
qed

end
