(* ===== verification/DependencyOrder.thy ===== *)
theory DependencyOrder
  imports DependencyGraph Digraph "HOL-Library.AList"
begin

text \<open>
  \<open>services/planning/dependencies/stable-topological-sorter.ts\<close>: Kahn's algorithm with a ready
  list kept sorted by \<open>compareNodes\<close>.  The in-degree \<open>Map\<close> is an association list; the main
  loop ends because every turn removes a ready node and a node enters the ready list only when
  its in-degree falls from one to zero.  The result is \<open>None\<close> where the code throws (a neighbour
  that is no node is pushed as \<open>undefined\<close>).  The locale parameter \<open>lc\<close> is
  \<open>String.prototype.localeCompare\<close>, whose collation the host decides.
\<close>

definition compareNodes :: "(string \<Rightarrow> string \<Rightarrow> int) \<Rightarrow> DependencyNode \<Rightarrow> DependencyNode \<Rightarrow> int" where
  "compareNodes lc =
     cmp_or (cmp_on dn_sequenceIndex (\<lambda>l r. l - r))
    (cmp_or (cmp_on dn_stepId lc)
    (cmp_or (cmp_on (\<lambda>n. js_default '''' (dn_stepType n)) lc)
    (cmp_or (cmp_on (\<lambda>n. js_default '''' (dn_declaredPriority n)) lc)
            (cmp_on dn_stepId lc))))"

type_synonym degrees = "(string \<times> int) list"

definition degree_get :: "degrees \<Rightarrow> string \<Rightarrow> int" where
  "degree_get ds k = js_default 0 (map_of ds k)"

definition initDegrees :: "DependencyGraph \<Rightarrow> degrees" where
  "initDegrees g =
     foldl (\<lambda>ds e. AList.update (de_to e) (degree_get ds (de_to e) + 1) ds)
       (foldl (\<lambda>ds node. AList.update (dn_stepId node) 0 ds) [] (dg_nodes g)) (dg_edges g)"

text \<open>\<open>sort\<close> leaves \<open>undefined\<close> elements at the end, without calling the comparator.\<close>

definition sortReady ::
  "(string \<Rightarrow> string \<Rightarrow> int) \<Rightarrow> DependencyNode option list \<Rightarrow> DependencyNode option list" where
  "sortReady lc ready =
     map Some (js_sort (compareNodes lc) (concat (map (\<lambda>x. case x of None \<Rightarrow> [] | Some n \<Rightarrow> [n]) ready)))
     @ filter (\<lambda>x. x = None) ready"

fun relax ::
  "(string \<Rightarrow> string \<Rightarrow> int) \<Rightarrow> (string \<rightharpoonup> DependencyNode) \<Rightarrow> string list
   \<Rightarrow> degrees \<times> DependencyNode option list \<Rightarrow> degrees \<times> DependencyNode option list" where
  "relax lc nm [] st = st"
| "relax lc nm (neighbor # rest) (ds, ready) =
     (let nextDegree = degree_get ds neighbor - 1;
          ready' = (if nextDegree = 0 then sortReady lc (ready @ [nm neighbor]) else ready)
      in relax lc nm rest (AList.update neighbor nextDegree ds, ready'))"

definition positives :: "degrees \<Rightarrow> nat" where
  "positives ds = length (filter (\<lambda>(k, d). 0 < d) ds)"

lemma length_sortReady [simp]: "length (sortReady lc ready) = length ready"
proof -
  have "length (concat (map (\<lambda>x. case x of None \<Rightarrow> [] | Some n \<Rightarrow> [n]) ready))
      + length (filter (\<lambda>x. x = None) ready) = length ready"
    by (induction ready) (auto split: option.splits)
  then show ?thesis by (simp add: sortReady_def)
qed

lemma positives_update:
  "positives (AList.update k (degree_get ds k - 1) ds) + (if degree_get ds k = 1 then 1 else 0)
     \<le> positives ds"
  by (induction ds) (auto simp: positives_def degree_get_def)

lemma relax_measure:
  "relax lc nm nbs (ds, ready) = (ds', ready') \<Longrightarrow>
     length ready' + positives ds' \<le> length ready + positives ds"
proof (induction nbs arbitrary: ds ready)
  case (Cons nb nbs)
  let ?d = "degree_get ds nb - 1"
  let ?r = "if ?d = 0 then sortReady lc (ready @ [nm nb]) else ready"
  have "length ready' + positives ds' \<le> length ?r + positives (AList.update nb ?d ds)"
    using Cons.prems by (intro Cons.IH) (simp add: Let_def)
  also have "\<dots> \<le> length ready + positives ds"
    using positives_update[of nb ds] by (auto split: if_splits)
  finally show ?case .
qed simp

function kahn ::
  "(string \<Rightarrow> string \<Rightarrow> int) \<Rightarrow> (string \<rightharpoonup> DependencyNode) \<Rightarrow> (string \<Rightarrow> string list)
   \<Rightarrow> degrees \<Rightarrow> DependencyNode option list \<Rightarrow> string list \<Rightarrow> string list option" where
  "kahn lc nm adj ds ready ordered =
     (case ready of
        [] \<Rightarrow> Some ordered
      | None # _ \<Rightarrow> None
      | Some node # rest \<Rightarrow>
          (case relax lc nm (adj (dn_stepId node)) (ds, rest) of (ds', ready') \<Rightarrow>
             kahn lc nm adj ds' ready' (ordered @ [dn_stepId node])))"
  by pat_completeness auto
termination
  by (relation "measure (\<lambda>(lc, nm, adj, ds, ready, ordered). length ready + positives ds)")
    (auto dest: relax_measure relax_measure[OF sym])

declare kahn.simps [simp del]

definition sortAdjacency :: "DependencyGraph \<Rightarrow> string \<Rightarrow> string list" where
  "sortAdjacency g k =
     (if k \<in> set (node_ids g) then map de_to (filter (\<lambda>e. de_from e = k) (dg_edges g)) else [])"

definition initReady :: "(string \<Rightarrow> string \<Rightarrow> int) \<Rightarrow> DependencyGraph \<Rightarrow> DependencyNode option list" where
  "initReady lc g = map Some (js_sort (compareNodes lc)
     (filter (\<lambda>node. degree_get (initDegrees g) (dn_stepId node) = 0) (dg_nodes g)))"

definition stableTopologicalSort ::
  "(string \<Rightarrow> string \<Rightarrow> int) \<Rightarrow> DependencyGraph
   \<Rightarrow> (string list option \<times> DependencyValidationError list) option" where
  "stableTopologicalSort lc g = do {
     ordered \<leftarrow> kahn lc (nodeMap (dg_nodes g)) (sortAdjacency g) (initDegrees g) (initReady lc g) [];
     Some (if length ordered \<noteq> length (dg_nodes g)
           then (None, [createDependencyError PLAN_ORDERING_NON_DETERMINISTIC
                          ''Stable topological ordering could not be produced.'' None None])
           else (Some ordered, []))
   }"

section \<open>Topological orders\<close>

text \<open>Every predecessor of an element stands before it.\<close>

definition topo_order :: "('a \<times> 'a) set \<Rightarrow> 'a list \<Rightarrow> bool" where
  "topo_order R xs \<longleftrightarrow> (\<forall>i < length xs. \<forall>a. (a, xs ! i) \<in> R \<longrightarrow> a \<in> set (take i xs))"

lemma topo_order_Nil [simp]: "topo_order R []"
  by (simp add: topo_order_def)

lemma topo_order_snoc [simp]:
  "topo_order R (xs @ [x]) \<longleftrightarrow> topo_order R xs \<and> (\<forall>a. (a, x) \<in> R \<longrightarrow> a \<in> set xs)"
  unfolding topo_order_def by (auto simp: nth_append less_Suc_eq)

lemma topo_order_before:
  assumes "topo_order R xs" and "(a, b) \<in> R" and "i < length xs" and "xs ! i = b"
  shows "\<exists>j < i. xs ! j = a"
proof -
  have "a \<in> set (take i xs)" using assms by (auto simp: topo_order_def)
  then show ?thesis using assms(3) by (auto simp: in_set_conv_nth)
qed

text \<open>A closed relation with a topological order of distinct elements has no cycle.\<close>

lemma topo_order_acyclic:
  assumes "topo_order R xs" and "distinct xs" and "R \<subseteq> set xs \<times> set xs"
  shows "acyclic R"
proof -
  let ?pos = "\<lambda>x. (THE i. i < length xs \<and> xs ! i = x)"
  have pos: "?pos (xs ! i) = i" if "i < length xs" for i
    using that assms(2) by (intro the_equality) (auto simp: nth_eq_iff_index_eq)
  have "?pos a < ?pos b" if ab: "(a, b) \<in> R" for a b
  proof -
    from ab assms(3) have "b \<in> set xs" by blast
    then obtain i where "i < length xs" "xs ! i = b" by (auto simp: in_set_conv_nth)
    moreover from this obtain j where "j < i" "xs ! j = a"
      using topo_order_before[OF assms(1) ab] by blast
    ultimately show ?thesis using pos[of i] pos[of j] by auto
  qed
  then have "R \<subseteq> {(a, b). ?pos a < ?pos b}" by auto
  moreover have "acyclic {(a, b). ?pos a < ?pos b}"
    by (rule wf_acyclic, rule wf_subset[OF wf_measure[of ?pos]]) (auto simp: measure_def inv_image_def)
  ultimately show ?thesis by (rule acyclic_subset[rotated])
qed

section \<open>What the loop keeps\<close>

text \<open>The edges into \<open>v\<close> whose source is not yet ordered, with multiplicity.\<close>

definition pending :: "(string \<times> string) list \<Rightarrow> string set \<Rightarrow> string \<Rightarrow> nat" where
  "pending E done v = length (filter (\<lambda>(a, b). b = v \<and> a \<notin> done) E)"

lemma pending_0: "pending E done v = 0 \<longleftrightarrow> (\<forall>a. (a, v) \<in> set E \<longrightarrow> a \<in> done)"
  by (auto simp: pending_def filter_empty_conv)

lemma pending_insert:
  "u \<notin> done \<Longrightarrow>
     pending E done v = pending E (insert u done) v + count_list (map snd (filter (\<lambda>(a, b). a = u) E)) v"
  by (induction E) (auto simp: pending_def)

lemma degree_get_update [simp]:
  "degree_get (AList.update k d ds) v = (if v = k then d else degree_get ds v)"
  by (simp add: degree_get_def update_conv')

lemma sortAdjacency_pairs:
  "k \<in> set (node_ids g) \<Longrightarrow> sortAdjacency g k = map snd (filter (\<lambda>(a, b). a = k) (edge_pairs g))"
  by (simp add: sortAdjacency_def edge_pairs_def filter_map comp_def)

lemma initDegrees_pending: "degree_get (initDegrees g) v = int (pending (edge_pairs g) {} v)"
proof -
  have base: "degree_get (foldl (\<lambda>ds node. AList.update (dn_stepId node) 0 ds) ds ns) v
      = (if v \<in> dn_stepId ` set ns then 0 else degree_get ds v)" for ds and ns :: "DependencyNode list"
    by (induction ns arbitrary: ds) auto
  have step: "degree_get (foldl (\<lambda>ds e. AList.update (de_to e) (degree_get ds (de_to e) + 1) ds) ds es) v
      = degree_get ds v + int (length (filter (\<lambda>e. de_to e = v) es))"
    for ds and es :: "DependencyEdge list"
    by (induction es arbitrary: ds) auto
  show ?thesis
    by (simp add: initDegrees_def step base pending_def edge_pairs_def filter_map comp_def)
      (simp add: degree_get_def)
qed

definition ids :: "DependencyNode list \<Rightarrow> string list" where
  "ids ns = map dn_stepId ns"

lemma ids_simps [simp]:
  "ids [] = []" "ids (n # ns) = dn_stepId n # ids ns" "ids (ns @ ms) = ids ns @ ids ms"
  by (simp_all add: ids_def)

lemma set_ids [simp]: "set (ids ns) = dn_stepId ` set ns"
  by (simp add: ids_def)

lemma node_ids_ids: "node_ids g = ids (dg_nodes g)"
  by (simp add: node_ids_def ids_def)

lemma distinct_ids_filter: "distinct (ids ns) \<Longrightarrow> distinct (ids (filter P ns))"
  unfolding ids_def by (rule distinct_map_filter)

lemma card_node_ids: "wf_graph g \<Longrightarrow> card (set (node_ids g)) = length (dg_nodes g)"
  by (simp add: wf_graph_def distinct_card) (simp add: node_ids_def)

lemma distinct_ids_sort [simp]: "distinct (ids (js_sort cmp ns)) = distinct (ids ns)"
  unfolding ids_def by (rule mset_eq_imp_distinct_iff) simp

lemma sortReady_Some [simp]: "sortReady lc (map Some ns) = map Some (js_sort (compareNodes lc) ns)"
proof -
  have "concat (map (\<lambda>x. case x of None \<Rightarrow> [] | Some n \<Rightarrow> [n]) (map Some ns)) = ns"
    by (induction ns) auto
  moreover have "filter (\<lambda>x. x = None) (map Some ns) = []"
    by (induction ns) auto
  ultimately show ?thesis by (simp add: sortReady_def)
qed

text \<open>
  The state of the loop: \<open>ready\<close> holds nodes, and a node is ordered or ready exactly when its
  in-degree is zero; \<open>extra\<close> counts the decrements the inner loop still has to do.
\<close>

definition loop_inv ::
  "DependencyGraph \<Rightarrow> (string \<Rightarrow> nat) \<Rightarrow> string list \<Rightarrow> degrees \<Rightarrow> DependencyNode list \<Rightarrow> bool" where
  "loop_inv g extra ordered ds rs \<longleftrightarrow>
     set rs \<subseteq> set (dg_nodes g) \<and> set ordered \<subseteq> set (node_ids g) \<and> distinct (ordered @ ids rs) \<and>
     (\<forall>v \<in> set (node_ids g).
        degree_get ds v = int (pending (edge_pairs g) (set ordered) v + extra v) \<and>
        (degree_get ds v = 0 \<longleftrightarrow> v \<in> set ordered \<union> set (ids rs)))"

lemma relax_inv:
  assumes wf: "wf_graph g"
    and P: "\<And>ns. set ns \<subseteq> set (dg_nodes g) \<Longrightarrow> distinct (ids ns) \<Longrightarrow> P (js_sort (compareNodes lc) ns)"
  shows "loop_inv g (count_list nbs) ordered ds rs \<Longrightarrow> set nbs \<subseteq> set (node_ids g) \<Longrightarrow>
    \<exists>ds' rs'. relax lc (nodeMap (dg_nodes g)) nbs (ds, map Some rs) = (ds', map Some rs') \<and>
      loop_inv g (\<lambda>_. 0) ordered ds' rs' \<and> (P rs \<longrightarrow> P rs')"
proof (induction nbs arbitrary: ds rs)
  case Nil
  then show ?case by auto
next
  case (Cons nb nbs)
  let ?d = "degree_get ds nb - 1"
  let ?ds = "AList.update nb ?d ds"
  have nb: "nb \<in> set (node_ids g)" using Cons.prems(2) by simp
  then obtain n where n: "nodeMap (dg_nodes g) nb = Some n" "n \<in> set (dg_nodes g)" "dn_stepId n = nb"
    using nodeMap_Some nodeMap_None[of "dg_nodes g" nb]
    by (cases "nodeMap (dg_nodes g) nb") (auto simp: node_ids_def)
  have pos: "0 < degree_get ds nb" and fresh: "nb \<notin> set ordered \<union> set (ids rs)"
    using Cons.prems(1) nb by (auto simp: loop_inv_def)
  let ?rs = "if ?d = 0 then js_sort (compareNodes lc) (rs @ [n]) else rs"
  have "sortReady lc (map Some rs @ [Some n]) = map Some (js_sort (compareNodes lc) (rs @ [n]))"
    using sortReady_Some[of lc "rs @ [n]"] by simp
  then have step: "relax lc (nodeMap (dg_nodes g)) (nb # nbs) (ds, map Some rs)
      = relax lc (nodeMap (dg_nodes g)) nbs (?ds, map Some ?rs)"
    using n by (simp add: Let_def)
  have "loop_inv g (count_list nbs) ordered ?ds ?rs"
    using Cons.prems(1) nb pos fresh n by (auto simp: loop_inv_def)
  from Cons.IH[OF this] Cons.prems(2) obtain ds' rs' where
    "relax lc (nodeMap (dg_nodes g)) nbs (?ds, map Some ?rs) = (ds', map Some rs')"
    "loop_inv g (\<lambda>_. 0) ordered ds' rs'" "P ?rs \<longrightarrow> P rs'" by auto
  moreover have "P rs \<longrightarrow> P ?rs"
    using P[of "rs @ [n]"] Cons.prems(1) fresh n by (auto simp: loop_inv_def)
  ultimately show ?case using step by auto
qed

lemma loop_inv_shift:
  assumes wf: "wf_graph g" and inv: "loop_inv g (\<lambda>_. 0) ordered ds (node # rest)"
  shows "loop_inv g (count_list (sortAdjacency g (dn_stepId node))) (ordered @ [dn_stepId node]) ds rest"
    and "set (sortAdjacency g (dn_stepId node)) \<subseteq> set (node_ids g)"
    and "(a, dn_stepId node) \<in> dep_rel g \<Longrightarrow> a \<in> set ordered"
proof -
  let ?u = "dn_stepId node" and ?E = "edge_pairs g"
  have u: "?u \<in> set (node_ids g)" "?u \<notin> set ordered"
    and dist: "distinct (ordered @ [?u] @ ids rest)"
    using inv by (auto simp: loop_inv_def node_ids_def)
  have adj: "sortAdjacency g ?u = map snd (filter (\<lambda>(a, b). a = ?u) ?E)"
    by (rule sortAdjacency_pairs) (rule u)
  then show "set (sortAdjacency g ?u) \<subseteq> set (node_ids g)"
    using wf by (auto simp: wf_graph_def)
  show "loop_inv g (count_list (sortAdjacency g ?u)) (ordered @ [?u]) ds rest"
    using inv u dist pending_insert[OF u(2), of ?E] adj by (auto simp: loop_inv_def)
  have "pending ?E (set ordered) ?u = 0" using inv u by (auto simp: loop_inv_def)
  then show "(a, ?u) \<in> dep_rel g \<Longrightarrow> a \<in> set ordered" by (simp add: pending_0 dep_rel_def)
qed

lemma loop_inv_length: "wf_graph g \<Longrightarrow> loop_inv g extra ordered ds rs \<Longrightarrow> length ordered \<le> length (node_ids g)"
  using card_mono[of "set (node_ids g)" "set ordered"]
  by (simp add: loop_inv_def wf_graph_def distinct_card)

lemma kahn_result:
  assumes wf: "wf_graph g"
  shows "loop_inv g (\<lambda>_. 0) ordered ds rs \<Longrightarrow> topo_order (dep_rel g) ordered \<Longrightarrow>
    \<exists>ordered' ds'. kahn lc (nodeMap (dg_nodes g)) (sortAdjacency g) ds (map Some rs) ordered = Some ordered' \<and>
      loop_inv g (\<lambda>_. 0) ordered' ds' [] \<and> topo_order (dep_rel g) ordered'"
proof (induction "length (node_ids g) - length ordered" arbitrary: ordered ds rs rule: less_induct)
  case less
  show ?case
  proof (cases rs)
    case Nil
    then show ?thesis using less.prems by (subst kahn.simps) auto
  next
    case (Cons node rest)
    note shift = loop_inv_shift[OF wf less.prems(1)[unfolded Cons]]
    let ?u = "dn_stepId node"
    from relax_inv[OF wf _ shift(1,2), of "\<lambda>_. True" lc] obtain ds' rs' where
      relax: "relax lc (nodeMap (dg_nodes g)) (sortAdjacency g ?u) (ds, map Some rest) = (ds', map Some rs')"
      and inv: "loop_inv g (\<lambda>_. 0) (ordered @ [?u]) ds' rs'" by blast
    have topo: "topo_order (dep_rel g) (ordered @ [?u])" using less.prems(2) shift(3) by simp
    have "length (node_ids g) - length (ordered @ [?u]) < length (node_ids g) - length ordered"
      using loop_inv_length[OF wf inv] by simp
    from less.hyps[OF this inv topo] relax Cons show ?thesis
      by (subst kahn.simps) simp
  qed
qed

lemma init_inv:
  assumes "wf_graph g"
  shows "loop_inv g (\<lambda>_. 0) [] (initDegrees g)
    (js_sort (compareNodes lc) (filter (\<lambda>node. degree_get (initDegrees g) (dn_stepId node) = 0) (dg_nodes g)))"
  using assms
  by (auto simp: loop_inv_def wf_graph_def initDegrees_pending node_ids_ids distinct_ids_filter)

lemma loop_end_complete:
  assumes "wf_graph g" and "loop_inv g (\<lambda>_. 0) ordered ds []" and "acyclic (dep_rel g)"
  shows "set ordered = set (node_ids g)"
proof (rule ccontr)
  let ?A = "set (node_ids g) - set ordered"
  assume "set ordered \<noteq> set (node_ids g)"
  then have "?A \<noteq> {}" using assms(2) by (auto simp: loop_inv_def)
  moreover have "acyclic ((dep_rel g)\<inverse>)" using assms(3) by simp
  ultimately obtain x where x: "x \<in> ?A" and least: "\<forall>y \<in> ?A. (y, x) \<notin> dep_rel g"
    using finite_acyclic_maximal[of ?A "(dep_rel g)\<inverse>"] by auto
  then have "pending (edge_pairs g) (set ordered) x \<noteq> 0"
    using assms(2) by (auto simp: loop_inv_def)
  then obtain a where "(a, x) \<in> dep_rel g" "a \<notin> set ordered"
    unfolding pending_0 dep_rel_def by blast
  with least dep_rel_wf[OF assms(1)] show False by blast
qed

lemma sort_run:
  assumes "wf_graph g"
  obtains ordered ds where
    "kahn lc (nodeMap (dg_nodes g)) (sortAdjacency g) (initDegrees g) (initReady lc g) [] = Some ordered"
    "loop_inv g (\<lambda>_. 0) ordered ds []" "topo_order (dep_rel g) ordered"
  using kahn_result[OF assms init_inv[OF assms], of lc lc] that by (auto simp: initReady_def)

lemma sort_acyclic:
  assumes wf: "wf_graph g" and "acyclic (dep_rel g)"
  shows "\<exists>xs. stableTopologicalSort lc g = Some (Some xs, []) \<and>
    mset xs = mset (node_ids g) \<and> topo_order (dep_rel g) xs"
proof -
  obtain xs ds where run: "kahn lc (nodeMap (dg_nodes g)) (sortAdjacency g) (initDegrees g) (initReady lc g) [] = Some xs"
    and inv: "loop_inv g (\<lambda>_. 0) xs ds []" and topo: "topo_order (dep_rel g) xs"
    using sort_run[OF wf] .
  have "mset xs = mset (node_ids g)"
    using loop_end_complete[OF wf inv assms(2)] inv wf
    by (simp add: loop_inv_def wf_graph_def set_eq_iff_mset_eq_distinct)
  moreover from this have "length xs = length (dg_nodes g)"
    by (metis mset_eq_length node_ids_def length_map)
  ultimately show ?thesis using run topo by (simp add: stableTopologicalSort_def)
qed

lemma sort_cyclic:
  assumes wf: "wf_graph g" and "\<not> acyclic (dep_rel g)"
  shows "\<exists>e. stableTopologicalSort lc g = Some (None, [e]) \<and> er_code e = PLAN_ORDERING_NON_DETERMINISTIC"
proof -
  obtain xs ds where run: "kahn lc (nodeMap (dg_nodes g)) (sortAdjacency g) (initDegrees g) (initReady lc g) [] = Some xs"
    and inv: "loop_inv g (\<lambda>_. 0) xs ds []" and topo: "topo_order (dep_rel g) xs"
    using sort_run[OF wf] .
  have "length xs \<noteq> length (dg_nodes g)"
  proof
    assume "length xs = length (dg_nodes g)"
    then have "set xs = set (node_ids g)"
      using inv card_node_ids[OF wf]
      by (intro card_subset_eq) (auto simp: loop_inv_def distinct_card)
    then have "dep_rel g \<subseteq> set xs \<times> set xs" using dep_rel_wf[OF wf] by auto
    with topo_order_acyclic[OF topo] inv assms(2) show False by (simp add: loop_inv_def)
  qed
  then show ?thesis using run by (simp add: stableTopologicalSort_def createDependencyError_def)
qed

section \<open>Which order\<close>

lemma comparator_nodes: "comparator lc \<Longrightarrow> comparator (compareNodes lc)"
  unfolding compareNodes_def by (intro comparator_or comparator_on comparator_diff)

lemma compareNodes_index:
  "comparator lc \<Longrightarrow> (dn_sequenceIndex x = dn_sequenceIndex y \<Longrightarrow> x = y) \<Longrightarrow>
     compareNodes lc x y = dn_sequenceIndex x - dn_sequenceIndex y"
  using comparator.cmp_refl by (fastforce simp: compareNodes_def cmp_or_def cmp_on_def)

lemma sortReady_lc:
  assumes "comparator lc" "comparator lc'" "inj_on dn_sequenceIndex N" "set ready \<subseteq> insert None (Some ` N)"
  shows "sortReady lc ready = sortReady lc' ready"
proof -
  have "js_sort (compareNodes lc) ns = js_sort (compareNodes lc') ns" if "set ns \<subseteq> N" for ns
    by (rule js_sort_cong) (use assms(1-3) that in \<open>simp add: compareNodes_index inj_on_def subset_eq\<close>)
  moreover have "set (concat (map (\<lambda>x. case x of None \<Rightarrow> [] | Some n \<Rightarrow> [n]) ready)) \<subseteq> N"
    using assms(4) by (auto split: option.splits)
  ultimately show ?thesis by (simp add: sortReady_def)
qed

lemma set_sortReady: "set (sortReady lc ready) \<subseteq> set ready"
proof -
  have "n \<in> set (concat (map (\<lambda>x. case x of None \<Rightarrow> [] | Some n \<Rightarrow> [n]) ready)) \<Longrightarrow> Some n \<in> set ready" for n
    by (induction ready) (auto split: option.splits)
  then show ?thesis unfolding sortReady_def by auto
qed

lemma relax_lc:
  assumes "comparator lc" "comparator lc'" "inj_on dn_sequenceIndex N" "range nm \<subseteq> insert None (Some ` N)"
  shows "set ready \<subseteq> insert None (Some ` N) \<Longrightarrow>
    relax lc nm nbs (ds, ready) = relax lc' nm nbs (ds, ready) \<and>
    set (snd (relax lc nm nbs (ds, ready))) \<subseteq> insert None (Some ` N)"
proof (induction nbs arbitrary: ds ready)
  case (Cons nb nbs)
  have sub: "set (ready @ [nm nb]) \<subseteq> insert None (Some ` N)"
    using Cons.prems assms(4) by (simp add: image_subset_iff)
  let ?r = "if degree_get ds nb - 1 = 0 then sortReady lc (ready @ [nm nb]) else ready"
  have eq: "(if degree_get ds nb - 1 = 0 then sortReady lc' (ready @ [nm nb]) else ready) = ?r"
    using sortReady_lc[OF assms(1-3) sub] by simp
  have "set ?r \<subseteq> insert None (Some ` N)"
    using Cons.prems subset_trans[OF set_sortReady sub] by simp
  from Cons.IH[OF this] show ?case
    unfolding relax.simps Let_def eq by blast
qed simp

lemma kahn_lc:
  assumes "comparator lc" "comparator lc'" "inj_on dn_sequenceIndex N" "range nm \<subseteq> insert None (Some ` N)"
  shows "set ready \<subseteq> insert None (Some ` N) \<Longrightarrow>
    kahn lc nm adj ds ready ordered = kahn lc' nm adj ds ready ordered"
proof (induction "length ready + positives ds" arbitrary: ds ready ordered rule: less_induct)
  case less
  show ?case
  proof (cases "\<exists>node rest. ready = Some node # rest")
    case True
    then obtain node rest where r: "ready = Some node # rest" by blast
    obtain ds' ready' where rel: "relax lc nm (adj (dn_stepId node)) (ds, rest) = (ds', ready')"
      by (cases "relax lc nm (adj (dn_stepId node)) (ds, rest)")
    have "relax lc' nm (adj (dn_stepId node)) (ds, rest) = (ds', ready')"
      and "set ready' \<subseteq> insert None (Some ` N)"
      using relax_lc[OF assms, of rest "adj (dn_stepId node)" ds] less.prems r rel by auto
    moreover have "length ready' + positives ds' < length ready + positives ds"
      using relax_measure[OF rel] r by simp
    ultimately show ?thesis
      using less.hyps[of ready' ds' "ordered @ [dn_stepId node]"] rel r
      by (simp add: kahn.simps[of _ _ _ ds])
  next
    case False
    then show ?thesis
      by (cases ready; cases "hd ready") (auto simp: kahn.simps[of _ _ _ ds])
  qed
qed

lemma sort_lc:
  assumes "comparator lc" "comparator lc'" "inj_on dn_sequenceIndex (set (dg_nodes g))"
  shows "stableTopologicalSort lc g = stableTopologicalSort lc' g"
proof -
  have "initReady lc g = initReady lc' g"
    unfolding initReady_def
    by (intro arg_cong[of _ _ "map Some"] js_sort_cong)
      (use assms in \<open>auto simp: compareNodes_index inj_on_def\<close>)
  moreover have "range (nodeMap (dg_nodes g)) \<subseteq> insert None (Some ` set (dg_nodes g))"
  proof
    fix x assume "x \<in> range (nodeMap (dg_nodes g))"
    then show "x \<in> insert None (Some ` set (dg_nodes g))"
      using nodeMap_Some[of "dg_nodes g"] by (cases x) fastforce+
  qed
  moreover have "set (initReady lc' g) \<subseteq> insert None (Some ` set (dg_nodes g))"
    by (auto simp: initReady_def)
  ultimately show ?thesis
    using kahn_lc[OF assms(1,2,3)] by (simp add: stableTopologicalSort_def)
qed

text \<open>
  Where the nodes stand in index order and every edge goes forward, the ready list always starts
  with the next node, so the order is the authored one.
\<close>

definition forward :: "DependencyGraph \<Rightarrow> bool" where
  "forward g \<longleftrightarrow> sorted_wrt (\<lambda>n m. dn_sequenceIndex n < dn_sequenceIndex m) (dg_nodes g) \<and>
     (\<forall>i < length (dg_nodes g). \<forall>j < length (dg_nodes g).
        (dn_stepId (dg_nodes g ! i), dn_stepId (dg_nodes g ! j)) \<in> dep_rel g \<longrightarrow> i < j)"

lemma next_ready:
  assumes wf: "wf_graph g" and "forward g" and "comparator lc"
    and inv: "loop_inv g (\<lambda>_. 0) (take k (node_ids g)) ds rs"
    and sorted: "sorted_wrt (\<lambda>x y. compareNodes lc x y \<le> 0) rs"
    and k: "k < length (dg_nodes g)"
  shows "\<exists>rest. rs = dg_nodes g ! k # rest"
proof -
  let ?N = "dg_nodes g" and ?ids = "node_ids g"
  have len: "length ?ids = length ?N" and nth: "\<And>i. i < length ?N \<Longrightarrow> ?ids ! i = dn_stepId (?N ! i)"
    by (simp_all add: node_ids_def)
  have dist: "distinct ?ids" using wf by (simp add: wf_graph_def)
  have taken: "?ids ! i \<in> set (take k ?ids) \<longleftrightarrow> i < k" if "i < length ?N" for i
    using that dist k len by (auto simp: in_set_conv_nth nth_eq_iff_index_eq)
  have "a \<in> set (take k ?ids)" if "(a, ?ids ! k) \<in> dep_rel g" for a
  proof -
    from dep_rel_wf[OF wf that] obtain i where i: "i < length ?N" "a = ?ids ! i"
      by (auto simp: in_set_conv_nth len)
    with that k assms(2) nth have "i < k" by (auto simp: forward_def)
    with i taken show ?thesis by simp
  qed
  then have "pending (edge_pairs g) (set (take k ?ids)) (?ids ! k) = 0"
    by (simp add: pending_0 dep_rel_def)
  then have "?ids ! k \<in> set (ids rs)"
    using inv k len taken[OF k] by (auto simp: loop_inv_def)
  then obtain n where n: "n \<in> set rs" "dn_stepId n = ?ids ! k" by auto
  have node: "\<exists>j < length ?N. k \<le> j \<and> m = ?N ! j" if m: "m \<in> set rs" for m
  proof -
    from m inv have "m \<in> set ?N" by (auto simp: loop_inv_def)
    then obtain j where j: "j < length ?N" "m = ?N ! j" by (auto simp: in_set_conv_nth)
    moreover have "dn_stepId m \<notin> set (take k ?ids)" using m inv by (auto simp: loop_inv_def)
    ultimately show ?thesis using taken[OF j(1)] nth[OF j(1)] by auto
  qed
  have index: "dn_sequenceIndex (?N ! i) < dn_sequenceIndex (?N ! j)" if "i < j" "j < length ?N" for i j
    using assms(2) that by (auto simp: forward_def sorted_wrt_iff_nth_less)
  from n obtain h rest where rs: "rs = h # rest" by (cases rs) auto
  obtain j where j: "j < length ?N" "k \<le> j" "h = ?N ! j" using node[of h] rs by auto
  have nk: "n = ?N ! k"
  proof -
    from node[OF n(1)] obtain i where i: "i < length ?N" "n = ?N ! i" by auto
    with n(2) nth have "?ids ! i = ?ids ! k" by simp
    with dist i(1) k len have "i = k" by (simp add: nth_eq_iff_index_eq)
    with i show ?thesis by simp
  qed
  have "j = k"
  proof (rule ccontr)
    assume "j \<noteq> k"
    then have "dn_sequenceIndex n < dn_sequenceIndex h" using index[of k j] j nk by simp
    then have "0 < compareNodes lc h n" and "n \<noteq> h"
      using compareNodes_index[OF assms(3), of h n] by auto
    moreover have "n = h \<or> compareNodes lc h n \<le> 0" using sorted rs n(1) by auto
    ultimately show False by auto
  qed
  with j rs show ?thesis by simp
qed

lemma kahn_forward:
  assumes wf: "wf_graph g" and fwd: "forward g" and lc: "comparator lc"
  shows "k \<le> length (dg_nodes g) \<Longrightarrow> loop_inv g (\<lambda>_. 0) (take k (node_ids g)) ds rs \<Longrightarrow>
    sorted_wrt (\<lambda>x y. compareNodes lc x y \<le> 0) rs \<Longrightarrow>
    kahn lc (nodeMap (dg_nodes g)) (sortAdjacency g) ds (map Some rs) (take k (node_ids g))
      = Some (node_ids g)"
proof (induction "length (dg_nodes g) - k" arbitrary: k ds rs)
  case 0
  then have "take k (node_ids g) = node_ids g" by (simp add: node_ids_def)
  moreover from this 0 have "rs = []"
    by (cases rs) (auto simp: loop_inv_def node_ids_def)
  ultimately show ?case by (subst kahn.simps) simp
next
  case (Suc d)
  then have k: "k < length (dg_nodes g)" by simp
  let ?node = "dg_nodes g ! k"
  from next_ready[OF wf fwd lc Suc.prems(2,3) k] obtain rest where rs: "rs = ?node # rest" by blast
  have next_k: "take k (node_ids g) @ [dn_stepId ?node] = take (Suc k) (node_ids g)"
    using k by (simp add: node_ids_def take_Suc_conv_app_nth)
  note shift = loop_inv_shift[OF wf Suc.prems(2)[unfolded rs]]
  from relax_inv[OF wf _ shift(1,2), of "sorted_wrt (\<lambda>x y. compareNodes lc x y \<le> 0)" lc]
  obtain ds' rs' where
    relax: "relax lc (nodeMap (dg_nodes g)) (sortAdjacency g (dn_stepId ?node)) (ds, map Some rest) = (ds', map Some rs')"
    and inv: "loop_inv g (\<lambda>_. 0) (take (Suc k) (node_ids g)) ds' rs'"
    and sorted: "sorted_wrt (\<lambda>x y. compareNodes lc x y \<le> 0) rs'"
    using comparator.sorted_sort[OF comparator_nodes[OF lc]] Suc.prems(3) rs next_k by auto
  have "kahn lc (nodeMap (dg_nodes g)) (sortAdjacency g) ds' (map Some rs') (take (Suc k) (node_ids g))
      = Some (node_ids g)"
    using Suc.hyps k by (intro Suc.hyps(1) inv sorted) auto
  then show ?case using relax rs next_k by (subst kahn.simps) simp
qed

lemma sort_forward:
  assumes wf: "wf_graph g" and fwd: "forward g" and lc: "comparator lc"
  shows "stableTopologicalSort lc g = Some (Some (node_ids g), [])"
  using kahn_forward[OF assms, of 0 "initDegrees g"] init_inv[OF wf, of lc]
    comparator.sorted_sort[OF comparator_nodes[OF lc]]
  by (simp add: stableTopologicalSort_def initReady_def node_ids_def)

end
