(* ===== verification/DependencyValidator.thy ===== *)
theory DependencyValidator
  imports DependencyGates DependencyOrder CanonicalJson
begin

text \<open>
  \<open>services/planning/dependencies\<close>: \<open>sequential-dependency-validator.ts\<close> and
  \<open>dependency-graph-fingerprint.ts\<close>, the composition of the passes.  The result is \<open>None\<close>
  where the call does not return: the ancestor recursion of the gate validators does not end on a
  cyclic graph.  The properties say when the validator returns, what its acceptance guarantees
  about the execution order and the gates, and that nothing depends on the collation of the host.
\<close>

section \<open>The fingerprint\<close>

fun branch_type_str :: "BranchType \<Rightarrow> string" where
  "branch_type_str BranchNormal = ''normal''"
| "branch_type_str BranchFailure = ''failure''"
| "branch_type_str BranchRollback = ''rollback''"
| "branch_type_str BranchTerminal = ''terminal''"

fun edge_type_str :: "EdgeType \<Rightarrow> string" where
  "edge_type_str EdgeDependsOn = ''depends_on''"
| "edge_type_str EdgeApprovalGate = ''approval_gate''"
| "edge_type_str EdgePreflightGate = ''preflight_gate''"
| "edge_type_str EdgeVerification = ''verification''"
| "edge_type_str EdgeRollback = ''rollback''"
| "edge_type_str EdgeFailureBranch = ''failure_branch''"

definition node_payload :: "DependencyNode \<Rightarrow> json" where
  "node_payload node = JObj
     [(''stepId'', JStr (dn_stepId node)), (''sourceId'', nullish_json JStr (dn_sourceId node)),
      (''sequenceIndex'', int_json (dn_sequenceIndex node)),
      (''stepType'', nullish_json JStr (dn_stepType node)),
      (''operation'', nullish_json JStr (dn_operation node)),
      (''branchType'', JStr (branch_type_str (dn_branchType node))),
      (''requiresApproval'', JBool (dn_requiresApproval node)),
      (''requiresPreflight'', JBool (js_default False (dn_requiresPreflight node))),
      (''isDestructive'', JBool (js_default False (dn_isDestructive node))),
      (''hasExternalSideEffect'', JBool (js_default False (dn_hasExternalSideEffect node))),
      (''idempotencyKey'', nullish_json JStr (dn_idempotencyKey node))]"

definition fingerprint_payload :: "DependencyGraph \<Rightarrow> json" where
  "fingerprint_payload g = JObj
     [(''planId'', JStr (dg_planId g)), (''graphVersion'', JStr (dg_graphVersion g)),
      (''graphHash'', JStr (js_default [] (dg_graphHash g))),
      (''roots'', str_arr (dg_roots g)), (''terminalStepIds'', str_arr (dg_terminalStepIds g)),
      (''nodes'', JArr (map node_payload (dg_nodes g))),
      (''edges'', JArr (map (\<lambda>e. JObj
         [(''from'', JStr (de_from e)), (''to'', JStr (de_to e)),
          (''edgeType'', JStr (edge_type_str (de_edgeType e)))]) (dg_edges g)))]"

definition createDependencyGraphFingerprint ::
  "(string \<Rightarrow> string \<Rightarrow> int) \<Rightarrow> (string \<Rightarrow> string) \<Rightarrow> DependencyGraph \<Rightarrow> string" where
  "createDependencyGraphFingerprint lc sha g =
     hashPayloadDeterministically sha (members (reparse_serialized lc (fingerprint_payload g)))"

section \<open>The validator\<close>

definition is_string :: "json \<Rightarrow> bool" where
  "is_string v = (case v of JStr s \<Rightarrow> True | _ \<Rightarrow> False)"

definition is_array :: "json \<Rightarrow> bool" where
  "is_array v = (case v of JArr vs \<Rightarrow> True | _ \<Rightarrow> False)"

definition isNormalizedPlan :: "json \<Rightarrow> bool" where
  "isNormalizedPlan input \<longleftrightarrow>
     is_string (prop_get input ''normalizationVersion'') \<and>
     is_string (prop_get input ''validatedGraphHash'') \<and>
     is_string (prop_get input ''validationHash'') \<and>
     is_string (prop_get input ''replayHash'') \<and>
     is_string (prop_get input ''evidenceRef'') \<and>
     is_array (prop_get input ''steps'')"

text \<open>
  The argument has static type \<open>unknown\<close>: a normalized plan, or any other value, which the guard
  is there to refuse.  Another value that passes the guard is outside the model (\<open>None\<close>).
\<close>

datatype dependency_input = OtherValue json | PlanValue NormalizedPlan

fun input_value :: "dependency_input \<Rightarrow> json" where
  "input_value (OtherValue v) = v"
| "input_value (PlanValue plan) = normalized_plan_json plan"

definition dependencyErrors ::
  "(string \<Rightarrow> string \<Rightarrow> int) \<Rightarrow> NormalizedPlan
   \<Rightarrow> (string list option \<times> DependencyValidationError list) option" where
  "dependencyErrors lc plan = do {
     let graph = buildDependencyGraph plan;
     let reference = validateDependencyReferences plan;
     (cycle, _) \<leftarrow> detectDependencyCycles graph;
     (orderedStepIds, ordering) \<leftarrow> stableTopologicalSort lc graph;
     gateInheritance \<leftarrow> validateGateInheritance (graph_fuel graph) plan graph;
     let branchSemantics = validateBranchSemantics plan graph;
     policy \<leftarrow> validateDependencyPolicies (graph_fuel graph) plan graph;
     Some (orderedStepIds, reference @ cycle @ ordering @ gateInheritance @ branchSemantics @ policy)
   }"

definition rejectedDependencyInput :: SequentialDependencyValidationResult where
  "rejectedDependencyInput =
     \<lparr>sd_ok = False, sd_planId = ''unknown-plan'', sd_graph = None, sd_orderedStepIds = None,
      sd_dependencyGraphFingerprint = None,
      sd_errors = [createDependencyError PLAN_DEPENDENCY_POLICY_VIOLATION
        ''Phase 4.2D only accepts 4.2C-normalized plan artifacts.'' None None],
      sd_warnings = []\<rparr>"

definition validateSequentialDependencies ::
  "(string \<Rightarrow> string \<Rightarrow> int) \<Rightarrow> (string \<Rightarrow> string) \<Rightarrow> dependency_input
   \<Rightarrow> SequentialDependencyValidationResult option" where
  "validateSequentialDependencies lc sha input =
     (if \<not> isNormalizedPlan (input_value input) then Some rejectedDependencyInput
      else case input of
        OtherValue v \<Rightarrow> None
      | PlanValue plan \<Rightarrow> do {
          (orderedStepIds, errors) \<leftarrow> dependencyErrors lc plan;
          let graph = buildDependencyGraph plan;
          Some \<lparr>sd_ok = (errors = []), sd_planId = np_planId plan, sd_graph = Some graph,
            sd_orderedStepIds = orderedStepIds,
            sd_dependencyGraphFingerprint =
              (if errors = [] then Some (createDependencyGraphFingerprint lc sha graph) else None),
            sd_errors = errors, sd_warnings = []\<rparr>
        })"

lemma isNormalizedPlan_plan [simp]: "isNormalizedPlan (normalized_plan_json plan)"
  by (simp add: isNormalizedPlan_def normalized_plan_json_def unhashed_plan_fields_def prop_get_def
      obj_get_def is_string_def is_array_def)

lemma validate_plan_value:
  "validateSequentialDependencies lc sha (PlanValue plan) = do {
     (orderedStepIds, errors) \<leftarrow> dependencyErrors lc plan;
     Some \<lparr>sd_ok = (errors = []), sd_planId = np_planId plan,
       sd_graph = Some (buildDependencyGraph plan), sd_orderedStepIds = orderedStepIds,
       sd_dependencyGraphFingerprint =
         (if errors = [] then Some (createDependencyGraphFingerprint lc sha (buildDependencyGraph plan))
          else None),
       sd_errors = errors, sd_warnings = []\<rparr>
   }"
  by (simp add: validateSequentialDependencies_def Let_def)

section \<open>When the validator returns\<close>

lemma relax_returns:
  assumes "set nbs \<subseteq> dn_stepId ` set nodes"
  shows "\<exists>ds' rs'. relax lc (nodeMap nodes) nbs (ds, map Some rs) = (ds', map Some rs')"
  using assms
proof (induction nbs arbitrary: ds rs)
  case (Cons nb nbs)
  then obtain n where "nodeMap nodes nb = Some n"
    using nodeMap_None[of nodes nb] by (cases "nodeMap nodes nb") auto
  then have "\<exists>rs1. (if degree_get ds nb - 1 = 0 then sortReady lc (map Some rs @ [nodeMap nodes nb])
      else map Some rs) = map Some rs1"
    using sortReady_Some[of lc "rs @ [n]"] by auto
  then obtain rs1 where "(if degree_get ds nb - 1 = 0
      then sortReady lc (map Some rs @ [nodeMap nodes nb]) else map Some rs) = map Some rs1" by blast
  then show ?case using Cons by (simp only: relax.simps Let_def) auto
qed auto

lemma kahn_returns:
  assumes "\<And>k. set (adj k) \<subseteq> dn_stepId ` set nodes"
  shows "\<exists>xs. kahn lc (nodeMap nodes) adj ds (map Some rs) ordered = Some xs"
proof (induction "length rs + positives ds" arbitrary: ds rs ordered rule: less_induct)
  case less
  show ?case
  proof (cases rs)
    case (Cons node rest)
    obtain ds' rs' where rel: "relax lc (nodeMap nodes) (adj (dn_stepId node)) (ds, map Some rest) = (ds', map Some rs')"
      using relax_returns[OF assms] by blast
    then have "length rs' + positives ds' < length rs + positives ds"
      using relax_measure[OF rel] Cons by simp
    from less.hyps[OF this, of "ordered @ [dn_stepId node]"] rel Cons show ?thesis
      by (simp add: kahn.simps[of _ _ _ ds])
  qed (simp add: kahn.simps)
qed

lemma sort_returns: "targets_ok g \<Longrightarrow> \<exists>r. stableTopologicalSort lc g = Some r"
proof -
  assume ok: "targets_ok g"
  have "set (sortAdjacency g k) \<subseteq> dn_stepId ` set (dg_nodes g)" for k
    using ok by (force simp: sortAdjacency_def targets_ok_def dep_rel_def edge_pairs_def node_ids_def)
  then obtain xs where "kahn lc (nodeMap (dg_nodes g)) (sortAdjacency g) (initDegrees g) (initReady lc g) [] = Some xs"
    unfolding initReady_def using kahn_returns[of "sortAdjacency g" "dg_nodes g"] by blast
  then show ?thesis by (simp add: stableTopologicalSort_def)
qed

lemma gates_return_iff:
  assumes "targets_ok g"
  shows "(\<exists>r. validateGateInheritance (graph_fuel g) plan g = Some r) \<longleftrightarrow> acyclic (dep_rel g)"
    and "(\<exists>r. validateDependencyPolicies (graph_fuel g) plan g = Some r) \<longleftrightarrow> acyclic (dep_rel g)"
  using ancestors_enough[OF assms] ancestors_returns_wf[OF assms]
  by (auto simp: validateGateInheritance_def validateDependencyPolicies_def gateAncestorMap_def
      policyAncestorMap_def split: Option.bind_splits)

lemma dependencyErrors_returns_iff:
  "(\<exists>r. dependencyErrors lc plan = Some r) \<longleftrightarrow> acyclic (dep_rel (buildDependencyGraph plan))"
proof -
  let ?g = "buildDependencyGraph plan"
  obtain c where "detectDependencyCycles ?g = Some c" using detect_returns by blast
  moreover obtain t where "stableTopologicalSort lc ?g = Some t"
    using sort_returns[OF targets_ok_build] by blast
  ultimately show ?thesis
    using gates_return_iff[OF targets_ok_build[of plan], of plan]
    by (cases c; cases t) (auto simp: dependencyErrors_def Let_def split: Option.bind_splits)
qed

section \<open>What acceptance means\<close>

lemma accepted_dest:
  assumes "validateSequentialDependencies lc sha (PlanValue plan) = Some r" and "sd_ok r"
  shows "references_ok plan" and "acyclic (dep_rel (buildDependencyGraph plan))"
    and "validateGateInheritance (graph_fuel (buildDependencyGraph plan)) plan (buildDependencyGraph plan) = Some []"
    and "validateBranchSemantics plan (buildDependencyGraph plan) = []"
    and "validateDependencyPolicies (graph_fuel (buildDependencyGraph plan)) plan (buildDependencyGraph plan) = Some []"
    and "stableTopologicalSort lc (buildDependencyGraph plan) = Some (sd_orderedStepIds r, [])"
proof -
  let ?g = "buildDependencyGraph plan"
  from assms obtain ordered where errs: "dependencyErrors lc plan = Some (ordered, [])"
    and r: "sd_orderedStepIds r = ordered"
    by (auto simp: validate_plan_value split: Option.bind_splits)
  then show "acyclic (dep_rel ?g)" using dependencyErrors_returns_iff[of lc plan] by blast
  from errs r show "references_ok plan"
    "validateGateInheritance (graph_fuel ?g) plan ?g = Some []"
    "validateBranchSemantics plan ?g = []"
    "validateDependencyPolicies (graph_fuel ?g) plan ?g = Some []"
    "stableTopologicalSort lc ?g = Some (sd_orderedStepIds r, [])"
    by (auto simp: dependencyErrors_def Let_def validateDependencyReferences_Nil
        split: Option.bind_splits)
qed

lemma accepted_order:
  assumes "validateSequentialDependencies lc sha (PlanValue plan) = Some r" and "sd_ok r"
  obtains xs where "sd_orderedStepIds r = Some xs" "mset xs = mset (map ns_id (np_steps plan))"
    "topo_order (dep_rel (buildDependencyGraph plan)) xs"
  using sort_acyclic[OF references_ok_wf[OF accepted_dest(1)[OF assms]] accepted_dest(2)[OF assms], of lc]
    accepted_dest(6)[OF assms] that by auto

text \<open>\<open>a\<close> stands before \<open>b\<close> in a list.\<close>

definition precedes :: "'a list \<Rightarrow> 'a \<Rightarrow> 'a \<Rightarrow> bool" where
  "precedes xs a b \<longleftrightarrow> (\<exists>i j. i < j \<and> j < length xs \<and> xs ! i = a \<and> xs ! j = b)"

lemma precedes_Cons_code:
  "precedes [] a b = False"
  "precedes (x # xs) a b \<longleftrightarrow> (x = a \<and> b \<in> set xs) \<or> precedes xs a b"
proof -
  show "precedes (x # xs) a b \<longleftrightarrow> (x = a \<and> b \<in> set xs) \<or> precedes xs a b"
  proof
    assume "precedes (x # xs) a b"
    then obtain i j where ij: "i < j" "j < Suc (length xs)" "(x # xs) ! i = a" "(x # xs) ! j = b"
      by (auto simp: precedes_def)
    then obtain j' where j': "j = Suc j'" by (cases j) auto
    show "(x = a \<and> b \<in> set xs) \<or> precedes xs a b"
    proof (cases i)
      case 0
      with ij j' show ?thesis by auto
    next
      case (Suc i')
      with ij j' have "i' < j' \<and> j' < length xs \<and> xs ! i' = a \<and> xs ! j' = b" by simp
      then show ?thesis unfolding precedes_def by blast
    qed
  next
    assume "(x = a \<and> b \<in> set xs) \<or> precedes xs a b"
    then show "precedes (x # xs) a b"
    proof
      assume "x = a \<and> b \<in> set xs"
      then obtain j where "j < length xs" "xs ! j = b" "x = a" by (auto simp: in_set_conv_nth)
      then have "0 < Suc j \<and> Suc j < length (x # xs) \<and> (x # xs) ! 0 = a \<and> (x # xs) ! Suc j = b" by simp
      then show ?thesis unfolding precedes_def by blast
    next
      assume "precedes xs a b"
      then obtain i j where "i < j" "j < length xs" "xs ! i = a" "xs ! j = b" by (auto simp: precedes_def)
      then have "Suc i < Suc j \<and> Suc j < length (x # xs) \<and> (x # xs) ! Suc i = a \<and> (x # xs) ! Suc j = b"
        by simp
      then show ?thesis unfolding precedes_def by blast
    qed
  qed
qed (simp add: precedes_def)

lemma topo_order_precedes:
  assumes "topo_order R xs" and "(a, b) \<in> R\<^sup>+" and "b \<in> set xs"
  shows "precedes xs a b"
proof -
  have "\<exists>j < i. xs ! j = a" if "i < length xs" "xs ! i = b" for i
    using assms(2) that
  proof (induction arbitrary: i rule: trancl_induct)
    case (base y)
    then show ?case using topo_order_before[OF assms(1)] by blast
  next
    case (step y z)
    from topo_order_before[OF assms(1) step.hyps(2) step.prems] obtain j where
      "j < i" "xs ! j = y" by blast
    with step.IH[of j] step.prems show ?case by (meson order.strict_trans)
  qed
  with assms(3) show ?thesis by (auto simp: precedes_def in_set_conv_nth) blast
qed

text \<open>The nodes the gate validators see of an accepted plan are the ancestors of the step.\<close>

lemma ancestorNodes_spec:
  assumes "references_ok plan"
    and "collectAll n (reverseOf (buildDependencyGraph plan)) (node_ids (buildDependencyGraph plan)) Map.empty
      = Some anc"
    and "s \<in> ns_id ` set (np_steps plan)"
  shows "m \<in> set (ancestorNodesOf (buildDependencyGraph plan) anc s) \<longleftrightarrow>
    (\<exists>step \<in> set (np_steps plan). m = buildNode step \<and>
       (ns_id step, s) \<in> (dep_rel (buildDependencyGraph plan))\<^sup>+)"
proof -
  let ?g = "buildDependencyGraph plan"
  have dist: "distinct (map dn_stepId (dg_nodes ?g))"
    using assms(1) by (simp add: references_ok_def comp_def)
  have anc: "set (js_default [] (anc s)) = {u. (u, s) \<in> (dep_rel ?g)\<^sup>+}"
    by (rule ancestors_correct[OF targets_ok_build assms(2)]) (use assms(3) in simp)
  have "m \<in> set (ancestorNodesOf ?g anc s) \<longleftrightarrow>
      (\<exists>u. (u, s) \<in> (dep_rel ?g)\<^sup>+ \<and> nodeMap (dg_nodes ?g) u = Some m)"
    using anc by (auto simp: ancestorNodesOf_def split: option.splits)
  also have "\<dots> \<longleftrightarrow> m \<in> set (dg_nodes ?g) \<and> (dn_stepId m, s) \<in> (dep_rel ?g)\<^sup>+"
    using nodeMap_Some[of "dg_nodes ?g"] nodeMap_distinct[OF dist] by blast
  finally show ?thesis by auto
qed

lemma stepMap_distinct:
  "references_ok plan \<Longrightarrow> step \<in> set (np_steps plan) \<Longrightarrow> stepMap plan (ns_id step) = Some step"
  unfolding stepMap_def references_ok_def by (blast intro: js_map_of_keyed_distinct)

lemma accepted_gate_errors:
  assumes "validateSequentialDependencies lc sha (PlanValue plan) = Some r" and "sd_ok r"
    and "step \<in> set (np_steps plan)"
  obtains ns where "gateErrors (buildNode step) step ns = []"
    "policyErrors (buildDependencyGraph plan) step (buildNode step) ns = []"
    "\<And>m. m \<in> set ns \<longleftrightarrow> (\<exists>s \<in> set (np_steps plan). m = buildNode s \<and>
       (ns_id s, ns_id step) \<in> (dep_rel (buildDependencyGraph plan))\<^sup>+)"
proof -
  let ?g = "buildDependencyGraph plan"
  note acc = accepted_dest[OF assms(1,2)]
  have dist: "distinct (map dn_stepId (dg_nodes ?g))"
    using acc(1) by (simp add: references_ok_def comp_def)
  from acc(3) obtain anc where anc: "gateAncestorMap (graph_fuel ?g) ?g = Some anc"
    and gates: "\<forall>node \<in> set (dg_nodes ?g). (case stepMap plan (dn_stepId node) of None \<Rightarrow> []
       | Some step \<Rightarrow> gateErrors node step (ancestorNodesOf ?g anc (dn_stepId node))) = []"
    by (auto simp: validateGateInheritance_def split: Option.bind_splits)
  have anc': "policyAncestorMap (graph_fuel ?g) ?g = Some anc"
    using anc by (simp add: gateAncestorMap_def policyAncestorMap_def)
  then have policies: "\<forall>step \<in> set (np_steps plan). (case nodeMap (dg_nodes ?g) (ns_id step) of None \<Rightarrow> []
       | Some node \<Rightarrow> policyErrors ?g step node (ancestorNodesOf ?g anc (ns_id step))) = []"
    using acc(5) by (auto simp: validateDependencyPolicies_def)
  have node: "buildNode step \<in> set (dg_nodes ?g)" using assms(3) by simp
  have "gateErrors (buildNode step) step (ancestorNodesOf ?g anc (ns_id step)) = []"
    using bspec[OF gates node] stepMap_distinct[OF acc(1) assms(3)] by simp
  moreover have "policyErrors ?g step (buildNode step) (ancestorNodesOf ?g anc (ns_id step)) = []"
    using bspec[OF policies assms(3)] nodeMap_distinct[OF dist node] by simp
  moreover note ancestorNodes_spec[OF acc(1) anc[unfolded gateAncestorMap_def]]
  ultimately show thesis using assms(3) by (intro that[of "ancestorNodesOf ?g anc (ns_id step)"]) auto
qed

text \<open>A step of the plan that precedes another in the accepted order because it is its ancestor.\<close>

lemma accepted_ancestor_precedes:
  assumes "validateSequentialDependencies lc sha (PlanValue plan) = Some r" and "sd_ok r"
    and "(a, b) \<in> (dep_rel (buildDependencyGraph plan))\<^sup>+" and "sd_orderedStepIds r = Some xs"
  shows "precedes xs a b"
proof -
  obtain ys where ys: "sd_orderedStepIds r = Some ys" "mset ys = mset (map ns_id (np_steps plan))"
    "topo_order (dep_rel (buildDependencyGraph plan)) ys"
    using accepted_order[OF assms(1,2)] .
  moreover have "b \<in> set ys"
    using tranclD2[OF assms(3)] dep_rel_target mset_eq_setD[OF ys(2)] by fastforce
  ultimately show ?thesis using topo_order_precedes[OF _ assms(3)] assms(4) by simp
qed

end
