(* ===== verification/DependencySample.thy ===== *)
theory DependencySample
  imports DependencyValidator
begin

text \<open>
  A concrete normalized plan on which the witnesses of the dependency properties run: a preflight
  check, an approval gate after it and a destructive production step after both.
\<close>

definition sample_step ::
  "string \<Rightarrow> int \<Rightarrow> string \<Rightarrow> string list \<Rightarrow> js_record \<Rightarrow> ApprovalMode \<Rightarrow> NormalizedPlanStep" where
  "sample_step i idx operation deps inputs approval =
     \<lparr>ns_id = i, ns_sourceId = None, ns_index = idx, ns_title = None, ns_intent = None,
      ns_type = ''validate'', ns_action = JObj [(''operation'', JStr operation)], ns_inputs = inputs,
      ns_outputs = [], ns_dependencies = deps, ns_constraints = [], ns_approvalMode = approval,
      ns_retryMode = RetryNEVER, ns_executionMode = ExecSERIAL, ns_autonomyLevel = AutonomyNONE,
      ns_containmentLevel = ContainSTRICT, ns_hash = []\<rparr>"

definition sample_inputs :: "js_record \<Rightarrow> js_record" where
  "sample_inputs extra = extra @
     [(''targetEnvironment'', JStr ''staging''), (''rollbackCapability'', JStr ''full''),
      (''autonomySensitivity'', JStr ''safe'')]"

definition sample_plan_of :: "NormalizedPlanStep list \<Rightarrow> NormalizedPlan" where
  "sample_plan_of steps =
     \<lparr>np_schemaVersion = ''1.1.0'', np_normalizationVersion = ''4.2C'', np_planId = ''p'',
      np_goal = [], np_validatedGraphHash = ''g'', np_validationHash = ''v'',
      np_normalizationHash = ''n'', np_replayHash = ''r'', np_steps = steps,
      np_metadata = \<lparr>pm_plannerVersion = [], pm_generatedBy = [], pm_createdAt = [], pm_extensions = []\<rparr>,
      np_evidenceRef = []\<rparr>"

definition sample_plan :: NormalizedPlan where
  "sample_plan = sample_plan_of
     [sample_step ''a'' 0 ''preflight_check'' [] (sample_inputs []) ApprovalOPTIONAL,
      sample_step ''b'' 1 ''approval_gate'' [''a''] (sample_inputs []) ApprovalOPTIONAL,
      sample_step ''c'' 2 ''drop'' [''a'', ''b'']
        [(''isDestructive'', JBool True), (''targetEnvironment'', JStr ''production''),
         (''idempotencyKey'', JStr ''k''), (''rollbackCapability'', JStr ''full''),
         (''autonomySensitivity'', JStr ''safe'')] ApprovalREQUIRED]"

text \<open>Two steps that depend on each other.\<close>

definition cyclic_plan :: NormalizedPlan where
  "cyclic_plan = sample_plan_of
     [sample_step ''a'' 0 ''x'' [''b''] [] ApprovalOPTIONAL,
      sample_step ''b'' 1 ''x'' [''a''] [] ApprovalOPTIONAL]"

lemma sample_edges:
  "edge_pairs (buildDependencyGraph sample_plan) = [(''a'', ''b''), (''a'', ''c''), (''b'', ''c'')]"
  by code_simp

lemma sample_dependencyErrors:
  "dependencyErrors code_unit_compare sample_plan = Some (Some [''a'', ''b'', ''c''], [])"
  by code_simp

end
