(* ===== verification/JsonText.thy ===== *)
theory JsonText
  imports CanonicalJson
begin

text \<open>
  Reading back the texts that \<open>JSON.stringify\<close> writes.  \<open>read_json\<close> consumes one value and returns the
  rest of the text; on every text of the model's \<open>json_text\<close> it gives the value \<open>reparse\<close>
  (\<open>read_json_text\<close>).  So the canonical text of a payload determines the payload, which is what a hash
  of the text can promise about it (\<open>canonical_text_determines\<close>).
\<close>

section \<open>Characters and strings\<close>

definition hex_val :: "char \<Rightarrow> nat" where
  "hex_val c = (let n = (of_char c :: nat) in if n < 58 then n - 48 else n - 87)"

fun read_escape :: "string \<Rightarrow> (char \<times> string) option" where
  "read_escape [] = None"
| "read_escape (d # s) =
     (if d = CHR ''u'' then (case s of a # b # h # l # r \<Rightarrow> Some (char_of (16 * hex_val h + hex_val l), r) | _ \<Rightarrow> None)
      else if d = CHR ''b'' then Some (char_of (8 :: nat), s) else if d = CHR ''t'' then Some (char_of (9 :: nat), s)
      else if d = CHR ''n'' then Some (char_of (10 :: nat), s) else if d = CHR ''f'' then Some (char_of (12 :: nat), s)
      else if d = CHR ''r'' then Some (char_of (13 :: nat), s) else Some (d, s))"

fun read_chars :: "nat \<Rightarrow> string \<Rightarrow> (string \<times> string) option" where
  "read_chars (Suc n) (c # s) =
     (if c = CHR 0x22 then Some ([], s)
      else do {
        (d, r) \<leftarrow> (if c = CHR 0x5C then read_escape s else Some (c, s));
        (ds, r') \<leftarrow> read_chars n r;
        Some (d # ds, r')
      })"
| "read_chars _ _ = None"

lemma hex_val_digit: "k < 16 \<Longrightarrow> hex_val (hex_digit k) = k"
  by (simp add: hex_val_def hex_digit_def Let_def)

lemma escape_cases:
  obtains "json_escape c = [c]" "c \<noteq> CHR 0x22" "c \<noteq> CHR 0x5C"
  | e where "json_escape c = CHR 0x5C # e" "\<And>r. read_escape (e @ r) = Some (c, r)"
proof -
  define n where "n = (of_char c :: nat)"
  have c: "c = char_of n" by (simp add: n_def)
  have "n div 16 < 16" using nat_of_char_less_256[of c] by (simp add: n_def div_less_iff_less_mult)
  then have hex: "16 * hex_val (hex_digit (n div 16)) + hex_val (hex_digit (n mod 16)) = n"
    by (simp add: hex_val_digit)
  note esc = json_escape_def Let_def n_def[symmetric]
  consider "n = 8" | "n = 9" | "n = 10" | "n = 12" | "n = 13" | "n = 34" | "n = 92"
    | "n \<notin> {8, 9, 10, 12, 13, 34, 92}" "n < 32" | "n \<notin> {8, 9, 10, 12, 13, 34, 92}" "\<not> n < 32"
    by blast
  then show thesis
  proof cases
    case 8
    show thesis
    proof (rule that(2))
      show "json_escape c = CHR 0x5C # (''u00'' @ [hex_digit (n div 16), hex_digit (n mod 16)])"
        using 8 by (simp add: esc)
      show "read_escape ((''u00'' @ [hex_digit (n div 16), hex_digit (n mod 16)]) @ r) = Some (c, r)" for r
        by (simp add: hex c)
    qed
  next
    case 9
    then have "c \<noteq> CHR 0x22" "c \<noteq> CHR 0x5C" by (auto simp: n_def)
    with 9 show thesis by (intro that(1)) (simp_all add: esc)
  qed (rule that(2), simp add: esc, simp add: c char_of_def bit_Suc_0_iff)+
qed

lemma read_chars_quote:
  "length (concat (map json_escape s)) < n \<Longrightarrow>
     read_chars n (concat (map json_escape s) @ CHR 0x22 # r) = Some (s, r)"
proof (induction s arbitrary: n)
  case Nil
  then show ?case by (cases n) auto
next
  case (Cons c s)
  then obtain m where n: "n = Suc m" by (cases n) auto
  show ?case
  proof (cases c rule: escape_cases)
    case 1
    then show ?thesis using Cons n by simp
  next
    case (2 e)
    then have "length (concat (map json_escape s)) < m" using Cons.prems n by simp
    then show ?thesis using 2 Cons.IH n by simp
  qed
qed

section \<open>Numbers\<close>

text \<open>The numbers of the model: the significand of zero is zero, no other ends in a zero.\<close>

definition wf_num :: "js_num \<Rightarrow> bool" where
  "wf_num x \<longleftrightarrow> (case x of Dec s e \<Rightarrow> (s = 0 \<longrightarrow> e = 0) \<and> (s \<noteq> 0 \<longrightarrow> s mod 10 \<noteq> 0))"

definition read_digits :: "string \<Rightarrow> string \<times> string" where
  "read_digits s = (takeWhile is_digit s, dropWhile is_digit s)"

definition read_fraction :: "string \<Rightarrow> string \<times> string" where
  "read_fraction s = (case s of c # t \<Rightarrow> if c = CHR ''.'' then read_digits t else ([], s) | [] \<Rightarrow> ([], s))"

definition read_exponent :: "string \<Rightarrow> int \<times> string" where
  "read_exponent s =
     (case s of c # d # t \<Rightarrow>
        if c = CHR ''e'' then
          (let (ds, r) = read_digits t; x = int (digits_val ds) in (if d = CHR ''-'' then - x else x, r))
        else (0, s)
      | _ \<Rightarrow> (0, s))"

definition read_magnitude :: "string \<Rightarrow> (nat \<times> int \<times> string) option" where
  "read_magnitude s =
     (let (ip, s1) = read_digits s; (fp, s2) = read_fraction s1; (ex, s3) = read_exponent s2
      in if ip = [] then None else Some (digits_val (ip @ fp), ex - int (length fp), s3))"

definition make_num :: "int \<Rightarrow> int \<Rightarrow> js_num" where
  "make_num s e = (if s = 0 then Dec 0 0 else num_strip s e)"

definition read_num :: "string \<Rightarrow> (js_num \<times> string) option" where
  "read_num s =
     (if s \<noteq> [] \<and> hd s = CHR ''-'' then do { (v, e, r) \<leftarrow> read_magnitude (tl s); Some (make_num (- int v) e, r) }
      else do { (v, e, r) \<leftarrow> read_magnitude s; Some (make_num (int v) e, r) })"

text \<open>What can follow a value in a text.\<close>

definition stops :: "string \<Rightarrow> bool" where
  "stops r \<longleftrightarrow> r = [] \<or> hd r = CHR '','' \<or> hd r = CHR '']'' \<or> hd r = CHR ''}''"

definition all_digits :: "string \<Rightarrow> bool" where
  "all_digits ds \<longleftrightarrow> (\<forall>c \<in> set ds. is_digit c)"

definition no_digit :: "string \<Rightarrow> bool" where
  "no_digit r \<longleftrightarrow> r = [] \<or> \<not> is_digit (hd r)"

lemma is_digit_simps [simp]:
  "is_digit CHR ''0''" "\<not> is_digit CHR ''.''" "\<not> is_digit CHR ''e''" "\<not> is_digit CHR ''-''" "\<not> is_digit CHR ''+''"
  by (simp_all add: is_digit_def)

lemma no_digit_Cons [simp]: "no_digit (c # r) \<longleftrightarrow> \<not> is_digit c"
  by (simp add: no_digit_def)

lemma stops_no_digit: "stops r \<Longrightarrow> no_digit r"
  by (auto simp: stops_def no_digit_def is_digit_def)

lemma read_digits_append: "all_digits ds \<Longrightarrow> no_digit r \<Longrightarrow> read_digits (ds @ r) = (ds, r)"
  by (induction ds) (auto simp: read_digits_def no_digit_def all_digits_def takeWhile_eq_Nil_iff dropWhile_eq_self_iff)

lemma all_digits_simps [simp]:
  "all_digits []" "all_digits (xs @ ys) \<longleftrightarrow> all_digits xs \<and> all_digits ys"
  "all_digits (replicate k CHR ''0'')" "all_digits ds \<Longrightarrow> all_digits (take k ds)" "all_digits ds \<Longrightarrow> all_digits (drop k ds)"
  by (auto simp: all_digits_def dest: in_set_takeD in_set_dropD)

lemma digit_char_val: "d < 10 \<Longrightarrow> is_digit (digit_char d) \<and> of_char (digit_char d) - 48 = d"
  by (simp add: is_digit_def digit_char_def)

lemma digits_val_Nil [simp]: "digits_val [] = 0"
  by (simp add: digits_val_def)

lemma digits_val_snoc: "digits_val (ds @ [c]) = 10 * digits_val ds + (of_char c - 48)"
  by (simp add: digits_val_def)

lemma digits_val_append: "digits_val (ds @ es) = digits_val ds * 10 ^ length es + digits_val es"
proof (induction es rule: rev_induct)
  case Nil
  then show ?case by (simp add: digits_val_def)
next
  case (snoc c es)
  then show ?case by (simp add: digits_val_snoc flip: append_assoc)
qed

lemma digits_val_zeros [simp]: "digits_val (replicate k CHR ''0'') = 0"
  by (induction k) (simp_all add: digits_val_def)

lemma nat_str_digits: "all_digits (nat_str n) \<and> digits_val (nat_str n) = n \<and> nat_str n \<noteq> []"
proof (induction n rule: nat_str.induct)
  case (1 n)
  have eq: "nat_str n = (if n < 10 then [digit_char n] else nat_str (n div 10) @ [digit_char (n mod 10)])"
    by (rule nat_str.simps)
  show ?case
  proof (cases "n < 10")
    case True
    then show ?thesis using digit_char_val[of n] unfolding eq by (simp add: all_digits_def digits_val_def)
  next
    case False
    then show ?thesis using 1 digit_char_val[of "n mod 10"] unfolding eq by (simp add: all_digits_def digits_val_snoc)
  qed
qed

lemma num_strip_scaled: "s mod 10 \<noteq> 0 \<Longrightarrow> num_strip (s * 10 ^ k) e = Dec s (e + int k)"
proof (induction k arbitrary: e)
  case 0
  then show ?case by (simp add: num_strip.simps[of s e])
next
  case (Suc k)
  then have "s \<noteq> 0" by auto
  moreover have "s * 10 ^ Suc k mod 10 = 0" "s * 10 ^ Suc k div 10 = s * 10 ^ k" by (simp_all add: mult.left_commute)
  ultimately show ?case using Suc by (subst num_strip.simps) (simp add: algebra_simps)
qed

text \<open>The magnitude of a number as it is written: sign and significand taken away.\<close>

definition num_body :: "string \<Rightarrow> int \<Rightarrow> string" where
  "num_body ds e =
     (let k = int (length ds); n = k + e in
      if k \<le> n \<and> n \<le> 21 then ds @ replicate (nat (n - k)) (CHR ''0'')
      else if 0 < n \<and> n \<le> 21 then take (nat n) ds @ ''.'' @ drop (nat n) ds
      else if -6 < n \<and> n \<le> 0 then ''0.'' @ replicate (nat (- n)) (CHR ''0'') @ ds
      else take 1 ds @ (if k = 1 then [] else ''.'' @ drop 1 ds) @ ''e''
           @ (if 0 \<le> n - 1 then ''+'' else ''-'') @ nat_str (nat \<bar>n - 1\<bar>))"

lemma num_str_body:
  "num_str (Dec s e) = (if s = 0 then ''0'' else (if s < 0 then ''-'' else []) @ num_body (nat_str (nat \<bar>s\<bar>)) e)"
  by (simp add: num_str_def num_body_def Let_def)

lemma read_exponent_none: "stops r \<Longrightarrow> read_exponent r = (0, r)"
  by (auto simp: read_exponent_def stops_def split: list.splits)

lemma read_exponent_some:
  "no_digit r \<Longrightarrow> read_exponent (''e'' @ (if 0 \<le> x then ''+'' else ''-'') @ nat_str (nat \<bar>x\<bar>) @ r) = (x, r)"
  using nat_str_digits[of "nat \<bar>x\<bar>"] by (auto simp: read_exponent_def read_digits_append)

lemma read_fraction_none: "stops r \<or> (r \<noteq> [] \<and> hd r = CHR ''e'') \<Longrightarrow> read_fraction r = ([], r)"
  by (auto simp: read_fraction_def stops_def split: list.splits)

lemma read_fraction_some: "all_digits ds \<Longrightarrow> no_digit r \<Longrightarrow> read_fraction (''.'' @ ds @ r) = (ds, r)"
  by (simp add: read_fraction_def read_digits_append)

lemma read_body:
  assumes "all_digits ds" and "ds \<noteq> []" and "stops r"
  shows "\<exists>j. read_magnitude (num_body ds e @ r) = Some (digits_val ds * 10 ^ j, e - int j, r)"
proof -
  define n where "n = int (length ds) + e"
  note body = num_body_def[of ds e, unfolded Let_def n_def[symmetric]]
  note reads = read_magnitude_def read_digits_append read_fraction_none read_fraction_some read_exponent_none assms(3)
    stops_no_digit[OF assms(3)]
  consider (int) "int (length ds) \<le> n" "n \<le> 21" | (point) "0 < n" "n \<le> 21" "n < int (length ds)"
    | (small) "-6 < n" "n \<le> 0" | (exp) "\<not> (int (length ds) \<le> n \<and> n \<le> 21)" "\<not> (0 < n \<and> n \<le> 21)" "\<not> (-6 < n \<and> n \<le> 0)"
    by linarith
  then show ?thesis
  proof cases
    case int
    have "num_body ds e @ r = (ds @ replicate (nat (n - int (length ds))) CHR ''0'') @ r" using int by (simp add: body)
    then have "read_magnitude (num_body ds e @ r) = Some (digits_val ds * 10 ^ nat (n - int (length ds)), 0, r)"
      using assms by (simp add: reads digits_val_append del: append_assoc)
    moreover have "0 = e - int (nat (n - int (length ds)))" using int by (simp add: n_def)
    ultimately show ?thesis by metis
  next
    case point
    then have "num_body ds e @ r = take (nat n) ds @ ''.'' @ drop (nat n) ds @ r" by (simp add: body)
    moreover have "int (length ds - nat n) = - e" using point by (simp add: n_def)
    ultimately have "read_magnitude (num_body ds e @ r) = Some (digits_val ds * 10 ^ 0, e - int 0, r)"
      using assms point by (simp add: reads read_fraction_some[simplified])
    then show ?thesis by blast
  next
    case small
    moreover have "\<not> int (length ds) \<le> n" using small(2) assms(2) by (cases ds) simp_all
    ultimately have "num_body ds e @ r = ''0'' @ ''.'' @ (replicate (nat (- n)) CHR ''0'' @ ds) @ r" by (simp add: body)
    moreover have "int (nat (- n) + length ds) = - e" using small by (simp add: n_def)
    moreover have "all_digits ''0''" by (simp add: all_digits_def)
    ultimately have "read_magnitude (num_body ds e @ r) = Some (digits_val ds * 10 ^ 0, e - int 0, r)"
      using assms read_fraction_some[of "replicate (nat (- n)) CHR ''0'' @ ds" r] digits_val_append[of "''0'' @ replicate (nat (- n)) CHR ''0''" ds]
        digits_val_zeros[of "Suc (nat (- n))"]
      by (simp add: reads read_digits_append[of "''0''", simplified])
    then show ?thesis by blast
  next
    case exp
    define x where "x = ''e'' @ (if 0 \<le> n - 1 then ''+'' else ''-'') @ nat_str (nat \<bar>n - 1\<bar>)"
    have read: "read_exponent (x @ r) = (n - 1, r)"
      using read_exponent_some[of r "n - 1"] assms by (simp add: reads x_def)
    have follow: "no_digit (x @ r)" "read_fraction (x @ r) = ([], x @ r)"
      by (simp_all add: read_fraction_none x_def)
    obtain c cs where ds: "ds = c # cs" using assms(2) by (cases ds) auto
    then have cs: "all_digits [c]" "all_digits cs" using assms(1) by (auto simp: all_digits_def)
    have "num_body ds e = take 1 ds @ (if int (length ds) = 1 then [] else ''.'' @ drop 1 ds) @ x"
      unfolding body x_def by (simp only: exp if_False)
    then have shape: "num_body ds e @ r = [c] @ (if cs = [] then [] else ''.'' @ cs) @ x @ r" by (simp add: ds)
    have len: "n - 1 - int (length cs) = e" by (simp add: n_def ds)
    have "read_magnitude (num_body ds e @ r) = Some (digits_val ds * 10 ^ 0, e - int 0, r)"
    proof (cases "cs = []")
      case True
      then show ?thesis using read follow len read_digits_append[OF cs(1) follow(1)] unfolding shape
        by (simp add: read_magnitude_def ds)
    next
      case False
      then show ?thesis
        using read follow len read_fraction_some[OF cs(2) follow(1)] read_digits_append[OF cs(1), of "''.'' @ cs @ x @ r"]
        unfolding shape by (simp add: read_magnitude_def ds)
    qed
    then show ?thesis by blast
  qed
qed

lemma num_body_digit: "all_digits ds \<Longrightarrow> ds \<noteq> [] \<Longrightarrow> num_body ds e \<noteq> [] \<and> is_digit (hd (num_body ds e))"
  by (cases ds) (auto simp: num_body_def Let_def all_digits_def take_Cons')

lemma read_num_str:
  assumes "wf_num x" and "stops r"
  shows "read_num (num_str x @ r) = Some (x, r)"
proof (cases x)
  case (Dec s e)
  show ?thesis
  proof (cases "s = 0")
    case True
    then have "e = 0" using assms(1) Dec by (simp add: wf_num_def)
    moreover have "read_magnitude (''0'' @ r) = Some (0, 0, r)"
      using read_digits_append[of "''0''" r] read_fraction_none[of r] read_exponent_none[of r] assms(2) stops_no_digit
      by (simp add: read_magnitude_def all_digits_def digits_val_def)
    ultimately show ?thesis using True Dec by (simp add: num_str_body read_num_def make_num_def)
  next
    case False
    define ds where "ds = nat_str (nat \<bar>s\<bar>)"
    have shape: "num_str x = (if s < 0 then ''-'' else []) @ num_body ds e" using False by (simp add: Dec num_str_body ds_def)
    have ds: "all_digits ds" "ds \<noteq> []" "digits_val ds = nat \<bar>s\<bar>" using nat_str_digits by (simp_all add: ds_def)
    obtain j where j: "read_magnitude (num_body ds e @ r) = Some (digits_val ds * 10 ^ j, e - int j, r)"
      using read_body[OF ds(1,2) assms(2)] by blast
    have "s mod 10 \<noteq> 0" using assms(1) Dec False by (simp add: wf_num_def)
    from num_strip_scaled[OF this, of j "e - int j"] False
    have strip: "make_num (s * 10 ^ j) (e - int j) = x" by (simp add: make_num_def Dec)
    show ?thesis
    proof (cases "s < 0")
      case True
      then have "- int (digits_val ds * 10 ^ j) = s * 10 ^ j" using ds(3) by simp
      then show ?thesis using True j strip by (simp add: shape read_num_def)
    next
      case neg: False
      then have "int (digits_val ds * 10 ^ j) = s * 10 ^ j" using ds(3) by simp
      then show ?thesis using neg False j strip num_body_digit[OF ds(1,2), of e]
        by (auto simp: shape read_num_def hd_append)
    qed
  qed
qed

section \<open>Values\<close>

fun read_json :: "nat \<Rightarrow> string \<Rightarrow> (json \<times> string) option"
  and read_items :: "nat \<Rightarrow> string \<Rightarrow> (json list \<times> string) option"
  and read_members :: "nat \<Rightarrow> string \<Rightarrow> (js_record \<times> string) option"
where
  "read_json (Suc n) (c # s) =
     (if c = CHR 0x22 then do { (t, r) \<leftarrow> read_chars n s; Some (JStr t, r) }
      else if c = CHR ''['' then
        (if s \<noteq> [] \<and> hd s = CHR '']'' then Some (JArr [], tl s)
         else do { (vs, r) \<leftarrow> read_items n s; Some (JArr vs, r) })
      else if c = CHR ''{'' then
        (if s \<noteq> [] \<and> hd s = CHR ''}'' then Some (JObj [], tl s)
         else do { (kvs, r) \<leftarrow> read_members n s; Some (JObj kvs, r) })
      else if c = CHR ''n'' then Some (JNull, drop 3 s)
      else if c = CHR ''t'' then Some (JBool True, drop 3 s)
      else if c = CHR ''f'' then Some (JBool False, drop 4 s)
      else do { (x, r) \<leftarrow> read_num (c # s); Some (JNum x, r) })"
| "read_items (Suc n) s = do {
     (v, r) \<leftarrow> read_json n s;
     (case r of
        [] \<Rightarrow> None
      | c # t \<Rightarrow> if c = CHR '','' then do { (vs, r') \<leftarrow> read_items n t; Some (v # vs, r') } else Some ([v], t))
   }"
| "read_members (Suc n) s =
     (case s of
        [] \<Rightarrow> None
      | q # u \<Rightarrow> do {
          (k, r) \<leftarrow> read_chars n u;
          (v, r') \<leftarrow> read_json n (tl r);
          (case r' of
             [] \<Rightarrow> None
           | c # t \<Rightarrow> if c = CHR '','' then do { (kvs, r'') \<leftarrow> read_members n t; Some ((k, v) # kvs, r'') } else Some ([(k, v)], t))
        })"
| "read_json _ _ = None"
| "read_items _ _ = None"
| "read_members _ _ = None"

text \<open>Every number of a value is one of the language.\<close>

fun wf_numbers :: "json \<Rightarrow> bool" where
  "wf_numbers (JArr vs) = list_all wf_numbers vs"
| "wf_numbers (JObj kvs) = list_all (\<lambda>(k, v). wf_numbers v) kvs"
| "wf_numbers (JNum x) = wf_num x"
| "wf_numbers JUndef = True"
| "wf_numbers JNull = True"
| "wf_numbers (JBool b) = True"
| "wf_numbers (JStr s) = True"

text \<open>Text that any sufficient fuel reads as a value.\<close>

definition reads :: "string \<Rightarrow> json \<Rightarrow> bool" where
  "reads t v \<longleftrightarrow> t \<noteq> [] \<and> \<not> stops t \<and> (\<forall>n r. length t \<le> n \<longrightarrow> stops r \<longrightarrow> read_json n (t @ r) = Some (v, r))"

lemma stops_Cons [simp]: "stops (CHR '','' # r)" "stops (CHR '']'' # r)" "stops (CHR ''}'' # r)"
  by (simp_all add: stops_def)

lemma read_items_join:
  assumes "list_all2 reads ts vs" and "ts \<noteq> []" and "length (js_join '','' ts) < n"
  shows "read_items n (js_join '','' ts @ CHR '']'' # r) = Some (vs, r)"
  using assms
proof (induction ts vs arbitrary: n rule: list_all2_induct)
  case (Cons t ts v vs)
  then obtain m where n: "n = Suc m" by (cases n) auto
  show ?case
  proof (cases ts)
    case Nil
    then have "read_json m (t @ CHR '']'' # r) = Some (v, CHR '']'' # r)" using Cons n by (auto simp: reads_def)
    then show ?thesis using Nil Cons n by simp
  next
    case more: (Cons u us)
    then have "read_json m (t @ CHR '','' # js_join '','' ts @ CHR '']'' # r) = Some (v, CHR '','' # js_join '','' ts @ CHR '']'' # r)"
      using Cons n by (auto simp: reads_def)
    moreover have "read_items m (js_join '','' ts @ CHR '']'' # r) = Some (vs, r)"
      using Cons n more by (intro Cons.IH) auto
    ultimately show ?thesis using more n by simp
  qed
qed simp

definition member_text :: "string \<times> string \<Rightarrow> string" where
  "member_text m = json_quote (fst m) @ '':'' @ snd m"

lemma read_members_join:
  assumes "list_all2 (\<lambda>m kv. fst m = fst kv \<and> reads (snd m) (snd kv)) ms kvs" and "ms \<noteq> []"
    and "length (js_join '','' (map member_text ms)) < n"
  shows "read_members n (js_join '','' (map member_text ms) @ CHR ''}'' # r) = Some (kvs, r)"
  using assms
proof (induction ms kvs arbitrary: n rule: list_all2_induct)
  case (Cons m ms kv kvs)
  then obtain j where n: "n = Suc j" by (cases n) auto
  obtain k t v where m: "m = (k, t)" and kv: "kv = (k, v)" and t: "reads t v"
    using Cons.hyps by (cases m, cases kv) auto
  have read: "read_json j (t @ r) = Some (v, r)" if "length t \<le> j" "stops r" for r
    using t that by (simp add: reads_def)
  show ?case
  proof (cases ms)
    case Nil
    then have "length (concat (map json_escape k)) < j" "length t \<le> j"
      using Cons.prems n by (simp_all add: m member_text_def json_quote_def)
    then show ?thesis using Nil Cons.hyps read[of "CHR ''}'' # r"]
      by (simp add: n m kv member_text_def json_quote_def read_chars_quote)
  next
    case more: (Cons m' ms')
    define rest where "rest = js_join '','' (map member_text ms)"
    have head: "member_text m = CHR 0x22 # concat (map json_escape k) @ CHR 0x22 # CHR '':'' # t"
      by (simp add: m member_text_def json_quote_def)
    have join: "js_join '','' (map member_text (m # ms)) = member_text m @ CHR '','' # rest"
      by (simp add: rest_def more)
    have len: "length (concat (map json_escape k)) < j" "length t \<le> j" "length rest < j"
      using Cons.prems(2) unfolding join head n by simp_all
    have "read_members j (rest @ CHR ''}'' # r) = Some (kvs, r)"
      using len(3) more unfolding rest_def by (intro Cons.IH) auto
    then show ?thesis using len(1,2) read[of "CHR '','' # rest @ CHR ''}'' # r"] unfolding join
      by (simp add: n head kv read_chars_quote)
  qed
qed simp

section \<open>The entries of an object\<close>

lemma js_insort_map:
  "(\<And>a b. cmp (f a) (f b) = cmp' a b) \<Longrightarrow> js_insort cmp (f x) (map f xs) = map f (js_insort cmp' x xs)"
  by (induction xs) auto

lemma js_sort_map: "(\<And>a b. cmp (f a) (f b) = cmp' a b) \<Longrightarrow> js_sort cmp (map f xs) = map f (js_sort cmp' xs)"
  by (induction xs) (auto simp: js_insort_map)

lemma js_entries_map: "js_entries (map (\<lambda>(k, v). (k, f v)) kvs) = map (\<lambda>(k, v). (k, f v)) (js_entries kvs)"
  by (simp add: js_entries_def filter_map comp_def case_prod_unfold)
    (rule js_sort_map, simp add: cmp_on_def case_prod_unfold)

lemma set_js_entries [simp]: "set (js_entries kvs) = set kvs"
  by (auto simp: js_entries_def)

text \<open>A stable sort commutes with leaving elements out.\<close>

lemma filter_insort:
  assumes "comparator cmp" and "sorted_wrt (\<lambda>x y. cmp x y \<le> 0) xs"
  shows "filter P (js_insort cmp x xs) = (if P x then js_insort cmp x (filter P xs) else filter P xs)"
  using assms(2)
proof (induction xs)
  case (Cons a xs)
  have first: "js_insort cmp x ys = x # ys" if "\<forall>y \<in> set ys. cmp x y \<le> 0" for ys
    using that by (cases ys) auto
  have "\<forall>y \<in> set xs. cmp x y \<le> 0" if "cmp x a \<le> 0"
    using Cons.prems that by (auto intro: comparator.cmp_trans[OF assms(1)])
  then show ?case using Cons by (auto simp: first)
qed simp

lemma filter_js_sort: "comparator cmp \<Longrightarrow> filter P (js_sort cmp xs) = js_sort cmp (filter P xs)"
  by (induction xs) (simp_all add: filter_insort comparator.sorted_sort)

lemma comparator_index: "comparator (cmp_on (\<lambda>(k, v). int (digits_val k)) (\<lambda>x y. x - y))"
  by (rule comparator_on) (rule comparator_diff)

lemma js_entries_filter: "js_entries (filter P kvs) = filter P (js_entries kvs)"
  by (simp add: js_entries_def filter_js_sort comparator_index conj_commute)

section \<open>Reading a value back\<close>

lemma json_text_None: "json_text v = None \<longleftrightarrow> v = JUndef"
  by (cases v) auto

definition text_of :: "json \<Rightarrow> string" where
  "text_of v = js_default ''null'' (json_text v)"

definition item_value :: "json \<Rightarrow> json" where
  "item_value v = (if v = JUndef then JNull else reparse v)"

lemma reparse_JUndef [simp]: "reparse v = JUndef \<longleftrightarrow> v = JUndef"
  by (cases v) auto

text \<open>The members an object's text is made of, and the entries they are read as.\<close>

definition defined_entries :: "js_record \<Rightarrow> js_record" where
  "defined_entries kvs = filter (\<lambda>(k, v). v \<noteq> JUndef) (js_entries kvs)"

lemma members_text_eq:
  "members_text (map (\<lambda>(k, v). (k, json_text v)) kvs) =
     ''{'' @ js_join '','' (map member_text (map (\<lambda>(k, v). (k, text_of v)) (defined_entries kvs))) @ ''}''"
proof -
  have "concat (map (\<lambda>(k, t). case t of None \<Rightarrow> [] | Some s \<Rightarrow> [json_quote k @ '':'' @ s])
      (map (\<lambda>(k, v). (k, json_text v)) es)) =
    map member_text (map (\<lambda>(k, v). (k, text_of v)) (filter (\<lambda>(k, v). v \<noteq> JUndef) es))" for es
    by (induction es) (auto simp: json_text_None text_of_def member_text_def split: option.splits)
  then show ?thesis by (simp add: members_text_def js_entries_map defined_entries_def)
qed

lemma reparse_object:
  "reparse (JObj kvs) = JObj (map (\<lambda>(k, v). (k, reparse v)) (defined_entries kvs))"
proof -
  have "filter (\<lambda>(k, v). v \<noteq> JUndef) (map (\<lambda>(k, v). (k, reparse v)) kvs) =
      map (\<lambda>(k, v). (k, reparse v)) (filter (\<lambda>(k, v). v \<noteq> JUndef) kvs)"
    by (induction kvs) auto
  then show ?thesis by (simp add: js_entries_map js_entries_filter defined_entries_def)
qed

lemma read_array:
  assumes "\<And>v. v \<in> set vs \<Longrightarrow> reads (text_of v) (item_value v)"
  shows "reads (text_of (JArr vs)) (reparse (JArr vs))"
proof -
  have "read_json n (text_of (JArr vs) @ r) = Some (reparse (JArr vs), r)" if n: "length (text_of (JArr vs)) \<le> n" for n r
  proof (cases "vs = []")
    case True
    then show ?thesis using n by (cases n) (simp_all add: text_of_def)
  next
    case False
    let ?ts = "map text_of vs"
    have shape: "text_of (JArr vs) = ''['' @ js_join '','' ?ts @ '']''" by (simp add: text_of_def[abs_def])
    then obtain m where m: "n = Suc m" "length (js_join '','' ?ts) < m" using n by (cases n) auto
    have all: "list_all2 reads ?ts (map item_value vs)" using assms by (simp add: list_all2_map1 list_all2_map2 list_all2_same)
    have "reads (hd ?ts) (item_value (hd vs))" using False assms by (cases vs) auto
    then have "js_join '','' ?ts \<noteq> [] \<and> hd (js_join '','' ?ts) \<noteq> CHR '']''"
      using False by (cases vs; cases "tl vs") (auto simp: reads_def stops_def hd_append)
    then show ?thesis using read_items_join[OF all _ m(2)] False by (simp add: shape m(1) hd_append item_value_def)
  qed
  then show ?thesis by (simp add: reads_def text_of_def stops_def)
qed

lemma read_object:
  assumes "\<And>k v. (k, v) \<in> set kvs \<Longrightarrow> v \<noteq> JUndef \<Longrightarrow> reads (text_of v) (reparse v)"
  shows "reads (text_of (JObj kvs)) (reparse (JObj kvs))"
proof -
  let ?ms = "map (\<lambda>(k, v). (k, text_of v)) (defined_entries kvs)"
    and ?es = "map (\<lambda>(k, v). (k, reparse v)) (defined_entries kvs)"
  have shape: "text_of (JObj kvs) = ''{'' @ js_join '','' (map member_text ?ms) @ ''}''"
    by (simp only: text_of_def json_text.simps js_default_simps members_text_eq)
  have all: "list_all2 (\<lambda>m kv. fst m = fst kv \<and> reads (snd m) (snd kv)) ?ms ?es"
    using assms by (auto simp: list_all2_map1 list_all2_map2 list_all2_same defined_entries_def)
  have "read_json n (text_of (JObj kvs) @ r) = Some (JObj ?es, r)" if n: "length (text_of (JObj kvs)) \<le> n" for n r
  proof (cases "?ms = []")
    case True
    then show ?thesis using n by (cases n) (simp_all add: shape)
  next
    case False
    obtain m where m: "n = Suc m" "length (js_join '','' (map member_text ?ms)) < m" using n shape by (cases n) auto
    have "js_join '','' (map member_text ?ms) \<noteq> [] \<and> hd (js_join '','' (map member_text ?ms)) = CHR 0x22"
      using False by (cases ?ms; cases "tl ?ms") (auto simp: member_text_def json_quote_def hd_append)
    then show ?thesis using read_members_join[OF all False m(2)] by (simp add: shape m(1) hd_append)
  qed
  then show ?thesis unfolding reparse_object by (simp add: reads_def shape stops_def)
qed

lemma num_str_start: "wf_num x \<Longrightarrow> num_str x \<noteq> [] \<and> (is_digit (hd (num_str x)) \<or> hd (num_str x) = CHR ''-'')"
  using num_body_digit[of "nat_str n" for n] nat_str_digits
  by (cases x) (auto simp: num_str_body)

lemma reads_intro:
  assumes "t \<noteq> []" and "\<not> stops t" and "\<And>m r. length t \<le> Suc m \<Longrightarrow> stops r \<Longrightarrow> read_json (Suc m) (t @ r) = Some (v, r)"
  shows "reads t v"
proof -
  have "\<exists>m. n = Suc m" if "length t \<le> n" for n using that assms(1) by (cases n) auto
  with assms show ?thesis unfolding reads_def by blast
qed

lemma reads_literal:
  "reads ''null'' JNull" "reads ''true'' (JBool True)" "reads ''false'' (JBool False)"
  by (rule reads_intro; simp add: stops_def)+

lemma read_json_text:
  assumes "v \<noteq> JUndef" and "wf_numbers v"
  shows "reads (text_of v) (reparse v)"
  using assms
proof (induction v rule: wf_numbers.induct)
  case (1 vs)
  have null: "reads (text_of JUndef) JNull" by (simp add: text_of_def reads_literal)
  show ?case
  proof (rule read_array)
    fix v assume "v \<in> set vs"
    then show "reads (text_of v) (item_value v)" using 1 null by (auto simp: item_value_def list_all_iff)
  qed
next
  case (2 kvs)
  then show ?case by (intro read_object) (auto simp: list_all_iff)
next
  case (3 x)
  obtain c s where cs: "num_str x = c # s" "is_digit c \<or> c = CHR ''-''"
    using num_str_start[of x] 3 by (cases "num_str x") auto
  have "reads (num_str x) (JNum x)"
  proof (rule reads_intro)
    show "read_json (Suc m) (num_str x @ r) = Some (JNum x, r)" if "stops r" for m r
    proof -
      have "read_num (c # s @ r) = Some (x, r)" using read_num_str[of x r] that 3 cs(1) by simp
      moreover have "c \<noteq> CHR 0x22" "c \<noteq> CHR ''[''" "c \<noteq> CHR ''{''" "c \<noteq> CHR ''n''" "c \<noteq> CHR ''t''" "c \<noteq> CHR ''f''"
        using cs(2) by (auto simp: is_digit_def)
      ultimately show ?thesis by (simp add: cs(1))
    qed
  qed (use cs in \<open>auto simp: stops_def is_digit_def\<close>)
  then show ?case by (simp add: text_of_def)
next
  case (7 s)
  have "reads (json_quote s) (JStr s)"
    by (rule reads_intro) (simp_all add: json_quote_def stops_def read_chars_quote)
  then show ?case by (simp add: text_of_def)
qed (simp_all add: text_of_def reads_literal)

text \<open>\<open>JSON.parse (JSON.stringify v)\<close>, with the text's own length as fuel.\<close>

lemma read_json_inverts:
  assumes "json_text v = Some t" and "wf_numbers v"
  shows "read_json (length t) t = Some (reparse v, [])"
proof -
  have "v \<noteq> JUndef" "text_of v = t" using assms(1) by (auto simp: text_of_def)
  then show ?thesis using read_json_text[of v] assms(2)
    by (auto simp: reads_def stops_def dest!: spec[of _ "length t"] spec[of _ "[]"])
qed

lemma json_text_determines:
  assumes "json_text v = json_text w" and "wf_numbers v" and "wf_numbers w"
  shows "reparse v = reparse w"
proof (cases "json_text v")
  case None
  then show ?thesis using assms(1) json_text_None[of v] json_text_None[of w] by simp
next
  case (Some t)
  then show ?thesis using read_json_inverts[of v t] read_json_inverts[of w t] assms by simp
qed

section \<open>What a canonical text determines\<close>

lemma set_assign_entries: "set (assign_entries kvs) = {(k, v). (k, v) \<in> set kvs \<and> k \<noteq> ''__proto__''}"
  by (auto simp: assign_entries_def)

lemma wf_numbers_normalize: "wf_numbers v \<Longrightarrow> wf_numbers (normalize v)"
  by (induction v rule: normalize.induct) (auto simp: list_all_iff set_assign_entries)

lemma wf_numbers_sanitize: "wf_numbers v \<Longrightarrow> wf_numbers (sanitize lc v)"
  by (induction lc v rule: sanitize.induct) (auto simp: list_all_iff set_assign_entries)

lemma wf_numbers_reparse: "wf_numbers v \<Longrightarrow> wf_numbers (reparse v)"
  by (induction v rule: reparse.induct) (auto simp: list_all_iff)

lemma distinct_fst_perm: "mset kvs = mset kws \<Longrightarrow> distinct (map fst kvs) = distinct (map fst kws)"
  by (metis mset_map mset_eq_imp_distinct_iff)

lemma mset_js_entries: "mset (js_entries kvs) = mset kvs"
  by (simp add: js_entries_def mset_filter multiset_partition[symmetric] case_prod_unfold)

lemma fst_map_snd: "map fst (map (\<lambda>(k, v). (k, f v)) kvs) = map fst kvs"
  by (simp add: case_prod_unfold comp_def)

lemma distinct_fst_filter: "distinct (map fst kvs) \<Longrightarrow> distinct (map fst (filter P kvs))"
  by (simp add: distinct_map_filter)

lemma normalize_entries:
  assumes "distinct (map fst kvs)" and "normalize (JObj kvs) = JObj kws"
  shows "distinct (map fst kws)" and "set kws = {(k, normalize v) | k v. (k, v) \<in> set kvs \<and> k \<noteq> ''__proto__''}"
proof -
  have "kws = assign_entries (js_sort (cmp_on fst code_unit_compare) (map (\<lambda>(k, v). (k, normalize v)) kvs))" (is "_ = assign_entries ?s")
    using assms(2) by simp
  moreover have "distinct (map fst ?s)"
    using distinct_fst_perm[of ?s "map (\<lambda>(k, v). (k, normalize v)) kvs"] assms(1) by (simp only: mset_js_sort fst_map_snd)
  ultimately show "distinct (map fst kws)" "set kws = {(k, normalize v) | k v. (k, v) \<in> set kvs \<and> k \<noteq> ''__proto__''}"
    by (auto simp: set_assign_entries assign_entries_def intro: distinct_fst_filter)
qed

lemma sanitize_entries:
  assumes "distinct (map fst kvs)" and "sanitize lc (JObj kvs) = JObj kws"
  shows "distinct (map fst kws)" and "set kws = {(k, sanitize lc v) | k v. (k, v) \<in> set kvs \<and> k \<noteq> ''__proto__''}"
proof -
  have "kws = assign_entries (js_sort (cmp_on fst lc) (map (\<lambda>(k, v). (k, sanitize lc v)) kvs))" (is "_ = assign_entries ?s")
    using assms(2) by simp
  moreover have "distinct (map fst ?s)"
    using distinct_fst_perm[of ?s "map (\<lambda>(k, v). (k, sanitize lc v)) kvs"] assms(1) by (simp only: mset_js_sort fst_map_snd)
  ultimately show "distinct (map fst kws)" "set kws = {(k, sanitize lc v) | k v. (k, v) \<in> set kvs \<and> k \<noteq> ''__proto__''}"
    by (auto simp: set_assign_entries assign_entries_def intro: distinct_fst_filter)
qed

lemma reparse_entries:
  assumes "distinct (map fst kvs)" and "reparse (JObj kvs) = JObj kws"
  shows "distinct (map fst kws)" and "set kws = {(k, reparse v) | k v. (k, v) \<in> set kvs \<and> v \<noteq> JUndef}"
proof -
  have kws: "kws = map (\<lambda>(k, v). (k, reparse v)) (defined_entries kvs)" using assms(2) unfolding reparse_object by simp
  have "distinct (map fst (js_entries kvs))" using distinct_fst_perm[OF mset_js_entries[of kvs]] assms(1) by simp
  then show "distinct (map fst kws)" unfolding kws fst_map_snd defined_entries_def by (rule distinct_fst_filter)
  have "(k, v) \<in> set (defined_entries kvs) \<longleftrightarrow> (k, v) \<in> set kvs \<and> v \<noteq> JUndef" for k v by (simp add: defined_entries_def)
  then have "p \<in> set kws \<longleftrightarrow> (\<exists>k v. p = (k, reparse v) \<and> (k, v) \<in> set kvs \<and> v \<noteq> JUndef)" for p
    unfolding kws set_map image_iff by (metis (no_types, lifting) case_prod_conv surj_pair)
  then show "set kws = {(k, reparse v) | k v. (k, v) \<in> set kvs \<and> v \<noteq> JUndef}" by blast
qed

text \<open>
  The value a payload is read back as: \<open>canon\<close> when it is hashed as it is, \<open>decoded\<close> when the caller
  serializes and parses it first, as the compatibility and replay hashes do.
\<close>

definition canon :: "json \<Rightarrow> json" where
  "canon v = reparse (normalize v)"

definition decoded :: "(string \<Rightarrow> string \<Rightarrow> int) \<Rightarrow> json \<Rightarrow> json" where
  "decoded lc v = canon (canon (sanitize lc v))"

lemma normalize_JUndef [simp]: "normalize v = JUndef \<longleftrightarrow> v = JUndef"
  by (cases v) auto

lemma sanitize_defined [simp]: "sanitize lc v \<noteq> JUndef"
  by (cases v) auto

lemma canon_JUndef [simp]: "canon v = JUndef \<longleftrightarrow> v = JUndef"
  by (simp add: canon_def)

lemma canon_entries:
  assumes "distinct (map fst kvs)"
  obtains kws where "canon (JObj kvs) = JObj kws" "distinct (map fst kws)"
    and "set kws = {(k, canon v) | k v. (k, v) \<in> set kvs \<and> k \<noteq> ''__proto__'' \<and> v \<noteq> JUndef}"
proof -
  obtain a where a: "normalize (JObj kvs) = JObj a" by simp
  obtain b where b: "reparse (JObj a) = JObj b" by simp
  note facts = normalize_entries[OF assms a] reparse_entries[OF normalize_entries(1)[OF assms a] b]
  have "set b = {(k, canon v) | k v. (k, v) \<in> set kvs \<and> k \<noteq> ''__proto__'' \<and> v \<noteq> JUndef}"
    unfolding facts(4) facts(2) canon_def using normalize_JUndef by blast
  with a b facts(3) show thesis by (intro that[of b]) (simp_all only: canon_def)
qed

lemma decoded_entries:
  assumes "distinct (map fst kvs)"
  obtains kws where "decoded lc (JObj kvs) = JObj kws" "distinct (map fst kws)"
    and "set kws = {(k, decoded lc v) | k v. (k, v) \<in> set kvs \<and> k \<noteq> ''__proto__''}"
proof -
  obtain a where a: "sanitize lc (JObj kvs) = JObj a" by simp
  note fa = sanitize_entries[OF assms a]
  obtain b where b: "canon (JObj a) = JObj b" "distinct (map fst b)"
    "set b = {(k, canon v) | k v. (k, v) \<in> set a \<and> k \<noteq> ''__proto__'' \<and> v \<noteq> JUndef}"
    using canon_entries[OF fa(1)] .
  obtain c where c: "canon (JObj b) = JObj c" "distinct (map fst c)"
    "set c = {(k, canon v) | k v. (k, v) \<in> set b \<and> k \<noteq> ''__proto__'' \<and> v \<noteq> JUndef}"
    using canon_entries[OF b(2)] .
  have "set c = {(k, decoded lc v) | k v. (k, v) \<in> set kvs \<and> k \<noteq> ''__proto__''}"
    unfolding c(3) b(3) fa(2) decoded_def using sanitize_defined canon_JUndef by blast
  with a b(1) c(1,2) show thesis by (intro that[of c]) (simp_all only: decoded_def)
qed

lemma canon_simps [simp]:
  "canon JNull = JNull" "canon (JBool b) = JBool b" "canon (JNum x) = JNum x" "canon (JStr s) = JStr s"
  "canon (JArr vs) = JArr (map (\<lambda>v. if v = JUndef then JNull else canon v) vs)"
  by (simp_all add: canon_def)

lemma decoded_simps [simp]:
  "decoded lc JUndef = JNull" "decoded lc JNull = JNull" "decoded lc (JBool b) = JBool b"
  "decoded lc (JNum x) = JNum x" "decoded lc (JStr s) = JStr s" "decoded lc (JArr vs) = JArr (map (decoded lc) vs)"
  by (simp_all add: decoded_def comp_def)

text \<open>Objects that are read back as the same value agree in every field.\<close>

lemma decoded_field:
  assumes "decoded lc (JObj kvs) = decoded lc (JObj kws)" and "distinct (map fst kvs)" and "distinct (map fst kws)"
    and "(k, v) \<in> set kvs" and "k \<noteq> ''__proto__''"
  shows "\<exists>w. (k, w) \<in> set kws \<and> decoded lc v = decoded lc w"
proof -
  obtain a where a: "decoded lc (JObj kvs) = JObj a" "set a = {(k, decoded lc v) | k v. (k, v) \<in> set kvs \<and> k \<noteq> ''__proto__''}"
    using decoded_entries[OF assms(2)] .
  obtain b where b: "decoded lc (JObj kws) = JObj b" "set b = {(k, decoded lc v) | k v. (k, v) \<in> set kws \<and> k \<noteq> ''__proto__''}"
    using decoded_entries[OF assms(3)] .
  have "(k, decoded lc v) \<in> set a" using a(2) assms(4,5) by blast
  moreover have "a = b" using assms(1) a(1) b(1) by simp
  ultimately show ?thesis using b(2) by blast
qed

lemma canon_field:
  assumes "canon (JObj kvs) = canon (JObj kws)" and "distinct (map fst kvs)" and "distinct (map fst kws)"
    and "(k, v) \<in> set kvs" and "k \<noteq> ''__proto__''" and "v \<noteq> JUndef"
  shows "\<exists>w. (k, w) \<in> set kws \<and> canon v = canon w"
proof -
  obtain a where a: "canon (JObj kvs) = JObj a"
    "set a = {(k, canon v) | k v. (k, v) \<in> set kvs \<and> k \<noteq> ''__proto__'' \<and> v \<noteq> JUndef}"
    using canon_entries[OF assms(2)] .
  obtain b where b: "canon (JObj kws) = JObj b"
    "set b = {(k, canon v) | k v. (k, v) \<in> set kws \<and> k \<noteq> ''__proto__'' \<and> v \<noteq> JUndef}"
    using canon_entries[OF assms(3)] .
  have "(k, canon v) \<in> set a" using a(2) assms(4-6) by blast
  moreover have "a = b" using assms(1) a(1) b(1) by simp
  ultimately show ?thesis using b(2) by blast
qed

text \<open>Equal digests give equal values, for a digest without a collision on the two texts.\<close>

definition payload_text :: "js_record \<Rightarrow> string" where
  "payload_text kvs = object_text (normalize_record kvs)"

lemma hash_payload: "hashPayloadDeterministically sha kvs = sha (payload_text kvs)"
  by (simp add: hashPayloadDeterministically_def payload_text_def)

lemma payload_text_json: "json_text (normalize (JObj kvs)) = Some (payload_text kvs)"
  by (simp add: payload_text_def object_text_def normalize_record_def)

lemma payload_text_determines:
  assumes "payload_text kvs = payload_text kws" and "wf_numbers (JObj kvs)" and "wf_numbers (JObj kws)"
  shows "canon (JObj kvs) = canon (JObj kws)"
  unfolding canon_def
  by (rule json_text_determines) (use assms in \<open>simp_all only: payload_text_json wf_numbers_normalize\<close>)

text \<open>The text of a payload that is serialized and parsed before it is hashed.\<close>

definition decoded_text :: "(string \<Rightarrow> string \<Rightarrow> int) \<Rightarrow> json \<Rightarrow> string" where
  "decoded_text lc v = payload_text (members (reparse_serialized lc v))"

lemma decoded_text_determines:
  assumes "decoded_text lc (JObj kvs) = decoded_text lc (JObj kws)" and "wf_numbers (JObj kvs)" and "wf_numbers (JObj kws)"
  shows "decoded lc (JObj kvs) = decoded lc (JObj kws)"
proof -
  have serial: "reparse_serialized lc v = canon (sanitize lc v)" for v by (simp add: reparse_serialized_def canon_def)
  have object: "JObj (members (reparse_serialized lc (JObj kvs))) = canon (sanitize lc (JObj kvs))" for kvs
    using reparse_serialized_object[of lc kvs] by (simp only: serial)
  have "wf_numbers (canon (sanitize lc v))" if "wf_numbers v" for v
    using that unfolding canon_def by (intro wf_numbers_reparse wf_numbers_normalize wf_numbers_sanitize)
  with payload_text_determines[OF assms(1)[unfolded decoded_text_def]] assms(2,3) show ?thesis
    by (simp only: object decoded_def)
qed

end
