(* ===== verification/NormalizationProperties.thy ===== *)
theory NormalizationProperties
  imports PlanNormalization DependencySample JsonText
begin

text \<open>
  What normalization guarantees: canonical ids never collide, every step is carried over with its
  source id, action, inputs and dependencies, the boundary check can only fail on the recorded step
  order, and the dependency graph built from the result is the authored one.
\<close>

section \<open>Canonical ids\<close>

lemma of_digit_char: "n < 10 \<Longrightarrow> (of_char (digit_char n) :: nat) = 48 + n"
  by (simp add: digit_char_def)

lemma digits_val_nat_str [simp]: "digits_val (nat_str n) = n"
  using nat_str_digits by blast

lemma digits_val_padded: "digits_val (replicate k (CHR ''0'') @ s) = digits_val s"
  by (simp add: digits_val_append)

lemma digit_char_dash: "n < 10 \<Longrightarrow> digit_char n \<noteq> CHR ''-''"
proof
  assume "n < 10" "digit_char n = CHR ''-''"
  then have "48 + n = (of_char (CHR ''-'') :: nat)" using of_digit_char[of n] by simp
  then show False by simp
qed

lemma nat_str_dash: "CHR ''-'' \<notin> set (nat_str n)"
proof (induction n rule: nat_str.induct)
  case (1 n)
  then show ?case using digit_char_dash[of n] digit_char_dash[of "n mod 10"]
    by (subst nat_str.simps) auto
qed

lemma split_at_dash:
  assumes "xs @ CHR ''-'' # s = ys @ CHR ''-'' # t" and "CHR ''-'' \<notin> set xs" and "CHR ''-'' \<notin> set ys"
  shows "xs = ys"
  using assms by (induction xs arbitrary: ys) (auto simp: Cons_eq_append_conv append_eq_Cons_conv)

lemma canonicalStepId_index:
  assumes "canonicalStepId sha p i a = canonicalStepId sha p j b"
  shows "i = j"
proof -
  have "padStart3 (nat_str (i + 1)) = padStart3 (nat_str (j + 1))"
    by (rule split_at_dash) (use assms nat_str_dash in \<open>auto simp: canonicalStepId_def padStart3_def\<close>)
  then have "digits_val (padStart3 (nat_str (i + 1))) = digits_val (padStart3 (nat_str (j + 1)))" by simp
  then show ?thesis by (simp add: padStart3_def digits_val_padded)
qed

text \<open>The id each source id ends up with: that of its last step.\<close>

fun canonical_ids :: "(string \<Rightarrow> string) \<Rightarrow> string \<Rightarrow> nat \<Rightarrow> CanonicalPlanStep list \<Rightarrow> string list" where
  "canonical_ids sha p i [] = []"
| "canonical_ids sha p i (s # ss) = canonicalStepId sha p i (cs_stepId s) # canonical_ids sha p (i + 1) ss"

lemma length_canonical_ids [simp]: "length (canonical_ids sha p i ss) = length ss"
  by (induction ss arbitrary: i) auto

lemma nth_canonical_ids:
  "k < length ss \<Longrightarrow> canonical_ids sha p i ss ! k = canonicalStepId sha p (i + k) (cs_stepId (ss ! k))"
  by (induction ss arbitrary: i k) (auto simp: nth_Cons split: nat.split)

lemma distinct_canonical_ids: "distinct (canonical_ids sha p i ss)"
  by (auto simp: distinct_conv_nth nth_canonical_ids dest: canonicalStepId_index)

lemma assignStepIds_ok:
  "set seen \<inter> set (canonical_ids sha p i ss) = {} \<Longrightarrow>
     \<exists>events'. assignStepIds sha p i seen idm events ss =
       (foldl (\<lambda>m (k, v). AList.update k v m) idm (zip (map cs_stepId ss) (canonical_ids sha p i ss)),
        events', None)"
proof (induction ss arbitrary: i seen idm events)
  case (Cons s ss)
  let ?c = "canonicalStepId sha p i (cs_stepId s)"
  have fresh: "?c \<notin> set (canonical_ids sha p (Suc i) ss)"
    using distinct_canonical_ids[of sha p i "s # ss"] by simp
  with Cons.prems have "set (set_add ?c seen) \<inter> set (canonical_ids sha p (Suc i) ss) = {}" by auto
  note IH = Cons.IH[OF this]
  from Cons.prems have "?c \<notin> set seen" by simp
  then show ?case using IH by (simp add: Let_def)
qed simp

lemma foldl_update_other:
  "k \<notin> set ks \<Longrightarrow> map_of (foldl (\<lambda>m (k, v). AList.update k v m) m (zip ks vs)) k = map_of m k"
  by (induction ks arbitrary: vs m) (auto simp: zip_Cons1 update_conv' split: list.split)

lemma foldl_update_nth:
  "distinct ks \<Longrightarrow> length vs = length ks \<Longrightarrow> i < length ks \<Longrightarrow>
     map_of (foldl (\<lambda>m (k, v). AList.update k v m) m (zip ks vs)) (ks ! i) = Some (vs ! i)"
proof (induction ks arbitrary: vs m i)
  case (Cons k ks)
  then obtain v vs' where vs: "vs = v # vs'" by (cases vs) auto
  show ?case
  proof (cases i)
    case 0
    then show ?thesis using Cons.prems vs foldl_update_other[of k ks "AList.update k v m" vs']
      by (simp add: update_conv')
  next
    case (Suc j)
    then show ?thesis using Cons vs by simp
  qed
qed simp

section \<open>Steps\<close>

text \<open>The step the phase makes of a source step.\<close>

definition normalizedStepOf ::
  "(string \<Rightarrow> string) \<Rightarrow> CanonicalPlan \<Rightarrow> CanonicalPlanStep \<Rightarrow> nat \<Rightarrow> string \<Rightarrow> NormalizedPlanStep" where
  "normalizedStepOf sha plan step index canonicalId =
     (let unhashed =
        \<lparr>ns_id = canonicalId, ns_sourceId = Some (cs_stepId step), ns_index = int index,
         ns_title = Some (cs_title step), ns_intent = Some (sa_operation (cs_action step)),
         ns_type = step_type_str (cs_type step), ns_action = action_json (cs_action step),
         ns_inputs = sa_parameters (cs_action step), ns_outputs = [],
         ns_dependencies = cs_dependencies step, ns_constraints = [],
         ns_approvalMode = (if cs_approvalRequired step \<or> cp_approvalsRequired plan
           then ApprovalREQUIRED else ApprovalOPTIONAL),
         ns_retryMode = (if cs_retryable step then RetrySAFE_ONLY else RetryNEVER),
         ns_executionMode = ExecSERIAL, ns_autonomyLevel = AutonomyNONE,
         ns_containmentLevel = ContainSTRICT, ns_hash = []\<rparr>
      in unhashed\<lparr>ns_hash := hashPayloadDeterministically sha (normalized_step_fields unhashed)\<rparr>)"

lemma normalizePlanStep_ok:
  "\<exists>events. normalizePlanStep sha plan step index c = Inr (normalizedStepOf sha plan step index c, events)"
  by (simp add: normalizePlanStep_def normalizeStepEnums_def nullish_or_def executionMode_of_def
      retryMode_of_def approvalMode_of_def autonomyLevel_of_def containmentLevel_of_def
      applyStepNormalizationDefaults_def normalizedStepOf_def Let_def)

fun normalized_steps ::
  "(string \<Rightarrow> string) \<Rightarrow> CanonicalPlan \<Rightarrow> (string \<times> string) list \<Rightarrow> nat \<Rightarrow> CanonicalPlanStep list \<Rightarrow> NormalizedPlanStep list" where
  "normalized_steps sha plan idm i [] = []"
| "normalized_steps sha plan idm i (s # ss) =
     normalizedStepOf sha plan s i (js_default [] (map_of idm (cs_stepId s))) # normalized_steps sha plan idm (i + 1) ss"

lemma length_normalized_steps [simp]: "length (normalized_steps sha plan idm i ss) = length ss"
  by (induction ss arbitrary: i) auto

lemma nth_normalized_steps:
  "k < length ss \<Longrightarrow> normalized_steps sha plan idm i ss ! k =
     normalizedStepOf sha plan (ss ! k) (i + k) (js_default [] (map_of idm (cs_stepId (ss ! k))))"
  by (induction ss arbitrary: i k) (auto simp: nth_Cons split: nat.split)

lemma normalizeSteps_ok:
  "\<exists>events'. normalizeSteps sha plan idm i ss steps events =
     Inr (steps @ normalized_steps sha plan idm i ss, events')"
proof (induction ss arbitrary: i steps events)
  case (Cons s ss)
  obtain ev where "normalizePlanStep sha plan s i (js_default [] (map_of idm (cs_stepId s))) =
      Inr (normalizedStepOf sha plan s i (js_default [] (map_of idm (cs_stepId s))), ev)"
    using normalizePlanStep_ok by blast
  moreover obtain ev' where "normalizeSteps sha plan idm (Suc i) ss
      (steps @ [normalizedStepOf sha plan s i (js_default [] (map_of idm (cs_stepId s)))]) (events @ ev) =
    Inr ((steps @ [normalizedStepOf sha plan s i (js_default [] (map_of idm (cs_stepId s)))]) @
      normalized_steps sha plan idm (Suc i) ss, ev')"
    using Cons.IH by blast
  ultimately show ?case by simp
qed simp

lemma normalizedStepOf_simps [simp]:
  "ns_id (normalizedStepOf sha plan s i c) = c"
  "ns_sourceId (normalizedStepOf sha plan s i c) = Some (cs_stepId s)"
  "ns_index (normalizedStepOf sha plan s i c) = int i"
  "ns_action (normalizedStepOf sha plan s i c) = action_json (cs_action s)"
  "ns_inputs (normalizedStepOf sha plan s i c) = sa_parameters (cs_action s)"
  "ns_dependencies (normalizedStepOf sha plan s i c) = cs_dependencies s"
  "ns_approvalMode (normalizedStepOf sha plan s i c) = ApprovalREQUIRED \<longleftrightarrow>
     cs_approvalRequired s \<or> cp_approvalsRequired plan"
  "ns_retryMode (normalizedStepOf sha plan s i c) = RetryNEVER \<longleftrightarrow> \<not> cs_retryable s"
  by (simp_all add: normalizedStepOf_def Let_def)

section \<open>The orchestrator\<close>

definition ids_of :: "(string \<Rightarrow> string) \<Rightarrow> CanonicalPlan \<Rightarrow> (string \<times> string) list" where
  "ids_of sha plan = foldl (\<lambda>m (k, v). AList.update k v m) []
     (zip (map cs_stepId (cp_steps plan)) (canonical_ids sha (cp_planId plan) 0 (cp_steps plan)))"

lemma ids_ok: "\<exists>events. normalizePlanStepIds sha plan = (ids_of sha plan, events, None)"
  using assignStepIds_ok[of "[]" sha "cp_planId plan" 0 "cp_steps plan" "[]" "[]"]
  by (simp add: normalizePlanStepIds_def ids_of_def)

lemma checkStepBoundary_ok: "checkStepBoundary k ss (normalized_steps sha plan idm i ss) = None"
  by (induction ss arbitrary: k i) (simp_all add: sameJson_def)

lemma sourceIds_normalized: "map (\<lambda>s. js_default [] (ns_sourceId s)) (normalized_steps sha plan idm i ss) = map cs_stepId ss"
  by (induction ss arbitrary: i) simp_all

definition inputs_agree :: "NormalizePlanInput \<Rightarrow> bool" where
  "inputs_agree input \<longleftrightarrow>
     vr_ok (ni_validationResult input) \<and> vr_validated (ni_validationResult input) \<and>
     vr_graphHash (ni_validationResult input) = ni_graphHash input \<and>
     vr_validationHash (ni_validationResult input) = ni_validationHash input \<and>
     rs_graphHash (ev_replaySnapshot (vr_evidence (ni_validationResult input))) = rs_graphHash (ni_replaySnapshot input) \<and>
     sameJson (snapshot_json (ev_replaySnapshot (vr_evidence (ni_validationResult input))))
       (snapshot_json (ni_replaySnapshot input)) \<and>
     sameJson (str_arr (rs_authoredStepOrder (ni_replaySnapshot input)))
       (str_arr (map cs_stepId (cp_steps (ni_validatedPlan input))))"

lemma boundary_normalized:
  assumes "np_steps normalized = normalized_steps sha plan idm 0 (cp_steps plan)"
    and "np_goal normalized = cp_objective plan"
    and "np_validatedGraphHash normalized = gh" and "np_validationHash normalized = vh"
  shows "enforceNormalizationBoundary plan normalized gh vh order =
    (if sameJson (str_arr order) (str_arr (map cs_stepId (cp_steps plan))) then None
     else boundaryViolation ''Normalization changed authored step ordering.''
       (Some [(''expected'', str_arr order), (''actual'', str_arr (map cs_stepId (cp_steps plan)))]))"
  unfolding enforceNormalizationBoundary_def assms sourceIds_normalized Let_def checkStepBoundary_ok
  by simp

text \<open>The normalized plan of an input, and the phase over it.\<close>

definition normalizedHashes ::
  "(string \<Rightarrow> string \<Rightarrow> int) \<Rightarrow> (string \<Rightarrow> string) \<Rightarrow> NormalizePlanInput \<Rightarrow> NormalizedPlanStep list \<Rightarrow> NormalizationHashes" where
  "normalizedHashes lc sha input steps =
     projr (computeNormalizationHashes lc sha (ni_graphHash input) (ni_validationHash input)
       (unhashed_plan_fields (unhashedPlan input steps)) (snapshot_json (ni_replaySnapshot input)) (stepHashesOf steps))"

lemma computeNormalizationHashes_ok:
  "computeNormalizationHashes lc sha (ni_graphHash input) (ni_validationHash input)
     (unhashed_plan_fields (unhashedPlan input steps)) (snapshot_json (ni_replaySnapshot input)) (stepHashesOf steps)
   = Inr (normalizedHashes lc sha input steps)"
  by (simp add: normalizedHashes_def computeNormalizationHashes_def Let_def)

definition stepsOf :: "(string \<Rightarrow> string) \<Rightarrow> CanonicalPlan \<Rightarrow> NormalizedPlanStep list" where
  "stepsOf sha plan = normalized_steps sha plan (ids_of sha plan) 0 (cp_steps plan)"

definition normalizedPlanOf ::
  "(string \<Rightarrow> string \<Rightarrow> int) \<Rightarrow> (string \<Rightarrow> string) \<Rightarrow> NormalizePlanInput \<Rightarrow> NormalizedPlan" where
  "normalizedPlanOf lc sha input =
     (let steps = stepsOf sha (ni_validatedPlan input); hashes = normalizedHashes lc sha input steps in
      (unhashedPlan input steps)
        \<lparr>np_normalizationHash := nh_normalizationHash hashes, np_replayHash := nh_replayHash hashes,
         np_evidenceRef := evidenceRefOf sha (cp_planId (ni_validatedPlan input)) (nh_normalizationHash hashes)\<rparr>)"

lemma normalizedPlanOf_simps [simp]:
  "np_steps (normalizedPlanOf lc sha input) = stepsOf sha (ni_validatedPlan input)"
  "np_goal (normalizedPlanOf lc sha input) = cp_objective (ni_validatedPlan input)"
  "np_planId (normalizedPlanOf lc sha input) = cp_planId (ni_validatedPlan input)"
  "np_validatedGraphHash (normalizedPlanOf lc sha input) = ni_graphHash input"
  "np_validationHash (normalizedPlanOf lc sha input) = ni_validationHash input"
  by (simp_all add: normalizedPlanOf_def unhashedPlan_def normalizePlanRoot_def Let_def)

lemma orchestrate_after_replay:
  assumes "vr_ok (ni_validationResult input)" and "vr_validated (ni_validationResult input)"
    and "vr_graphHash (ni_validationResult input) = ni_graphHash input"
    and "vr_validationHash (ni_validationResult input) = ni_validationHash input"
    and "normalizeReplayMetadata input = Inr (ni_replaySnapshot input)"
  shows "\<exists>ev. orchestratePlanNormalization lc sha input =
    (case enforceNormalizationBoundary (ni_validatedPlan input) (normalizedPlanOf lc sha input)
        (ni_graphHash input) (ni_validationHash input) (rs_authoredStepOrder (ni_replaySnapshot input)) of
       Some error \<Rightarrow> Inl error
     | None \<Rightarrow> Inr \<lparr>ps_normalizedPlan = normalizedPlanOf lc sha input, ps_normalizationEvidence = ev,
         ps_hashes = normalizedHashes lc sha input (stepsOf sha (ni_validatedPlan input))\<rparr>)"
proof -
  let ?plan = "ni_validatedPlan input"
  obtain idEvents where ids: "normalizePlanStepIds sha ?plan = (ids_of sha ?plan, idEvents, None)"
    using ids_ok by blast
  obtain events where steps: "normalizeSteps sha ?plan (ids_of sha ?plan) 0 (cp_steps ?plan) []
      (idEvents @ snd (normalizePlanRoot ?plan) @ snd (preserveValidatedOrdering ?plan)
         @ snd (normalizePlanMetadata ?plan)) = Inr (stepsOf sha ?plan, events)"
    unfolding stepsOf_def
    using normalizeSteps_ok[of sha ?plan "ids_of sha ?plan" 0 "cp_steps ?plan" "[]"] by fastforce
  have plan: "(unhashedPlan input (stepsOf sha ?plan))
      \<lparr>np_normalizationHash := nh_normalizationHash (normalizedHashes lc sha input (stepsOf sha ?plan)),
       np_replayHash := nh_replayHash (normalizedHashes lc sha input (stepsOf sha ?plan)),
       np_evidenceRef := evidenceRefOf sha (cp_planId ?plan)
         (nh_normalizationHash (normalizedHashes lc sha input (stepsOf sha ?plan)))\<rparr> = normalizedPlanOf lc sha input"
    by (simp add: normalizedPlanOf_def Let_def)
  show ?thesis
    unfolding orchestratePlanNormalization_def Let_def assms(3-5) ids prod.case sum.case option.case steps
      computeNormalizationHashes_ok plan
    using assms(1,2) by (auto split: option.split)
qed

lemma normalizeReplayMetadata_iff:
  "normalizeReplayMetadata input = Inr (ni_replaySnapshot input) \<longleftrightarrow>
     rs_graphHash (ev_replaySnapshot (vr_evidence (ni_validationResult input))) = rs_graphHash (ni_replaySnapshot input) \<and>
     sameJson (snapshot_json (ev_replaySnapshot (vr_evidence (ni_validationResult input))))
       (snapshot_json (ni_replaySnapshot input))"
  by (simp add: normalizeReplayMetadata_def sameJson_def Let_def)

lemma normalizeReplayMetadata_error:
  "normalizeReplayMetadata input = Inl e \<Longrightarrow> pe_code e = PLAN_NORMALIZATION_REPLAY_MISMATCH"
  "normalizeReplayMetadata input = Inr r \<Longrightarrow> r = ni_replaySnapshot input"
  by (auto simp: normalizeReplayMetadata_def createNormalizationError_def Let_def split: if_splits)

text \<open>The outcome of the phase.\<close>

lemma orchestrate_ok:
  assumes "inputs_agree input"
  shows "\<exists>ev. orchestratePlanNormalization lc sha input = Inr \<lparr>ps_normalizedPlan = normalizedPlanOf lc sha input,
    ps_normalizationEvidence = ev, ps_hashes = normalizedHashes lc sha input (stepsOf sha (ni_validatedPlan input))\<rparr>"
  using orchestrate_after_replay[of input lc sha] assms
    boundary_normalized[of "normalizedPlanOf lc sha input" sha "ni_validatedPlan input"]
  by (simp add: inputs_agree_def normalizeReplayMetadata_iff stepsOf_def)

lemma orchestrate_error:
  assumes "\<not> inputs_agree input"
  shows "\<exists>e. orchestratePlanNormalization lc sha input = Inl e \<and>
    pe_code e \<in> {PLAN_NORMALIZATION_UNVALIDATED_INPUT, PLAN_NORMALIZATION_REPLAY_MISMATCH,
      PLAN_NORMALIZATION_BOUNDARY_VIOLATION}"
proof -
  consider (early) "\<not> vr_ok (ni_validationResult input) \<or> \<not> vr_validated (ni_validationResult input) \<or>
      vr_graphHash (ni_validationResult input) \<noteq> ni_graphHash input \<or>
      vr_validationHash (ni_validationResult input) \<noteq> ni_validationHash input"
    | (replay) e where "normalizeReplayMetadata input = Inl e"
    | (order) "vr_ok (ni_validationResult input)" "vr_validated (ni_validationResult input)"
      "vr_graphHash (ni_validationResult input) = ni_graphHash input"
      "vr_validationHash (ni_validationResult input) = ni_validationHash input"
      "normalizeReplayMetadata input = Inr (ni_replaySnapshot input)"
    using normalizeReplayMetadata_error(2)[of input] by (cases "normalizeReplayMetadata input") auto
  then show ?thesis
  proof cases
    case early
    then show ?thesis
      by (auto simp: orchestratePlanNormalization_def Let_def createNormalizationError_def)
  next
    case (replay e)
    then show ?thesis using normalizeReplayMetadata_error(1)[OF replay]
      by (auto simp: orchestratePlanNormalization_def Let_def createNormalizationError_def)
  next
    case order
    have "\<not> sameJson (str_arr (rs_authoredStepOrder (ni_replaySnapshot input)))
        (str_arr (map cs_stepId (cp_steps (ni_validatedPlan input))))"
      using assms order by (simp add: inputs_agree_def normalizeReplayMetadata_iff)
    then show ?thesis
      using orchestrate_after_replay[OF order, of lc sha]
        boundary_normalized[of "normalizedPlanOf lc sha input" sha "ni_validatedPlan input"]
      by (simp add: boundaryViolation_def createNormalizationError_def stepsOf_def)
  qed
qed

section \<open>The dependency graph of a normalized plan\<close>

definition canonicalOf :: "(string \<Rightarrow> string) \<Rightarrow> CanonicalPlan \<Rightarrow> string \<Rightarrow> string" where
  "canonicalOf sha plan x = js_default [] (map_of (ids_of sha plan) x)"

definition source_rel :: "CanonicalPlan \<Rightarrow> (string \<times> string) set" where
  "source_rel plan = {(d, cs_stepId s) | d s. s \<in> set (cp_steps plan) \<and> d \<in> set (cs_dependencies s)}"

text \<open>What structural validation establishes of the authored ids, and that none of them looks like a
  canonical id of the plan.\<close>

definition authored_ids_ok :: "(string \<Rightarrow> string) \<Rightarrow> CanonicalPlan \<Rightarrow> bool" where
  "authored_ids_ok sha plan \<longleftrightarrow>
     distinct (map cs_stepId (cp_steps plan)) \<and> [] \<notin> cs_stepId ` set (cp_steps plan) \<and>
     (\<forall>s \<in> set (cp_steps plan). \<forall>d \<in> set (cs_dependencies s). d \<in> cs_stepId ` set (cp_steps plan)) \<and>
     cs_stepId ` set (cp_steps plan) \<inter> set (canonical_ids sha (cp_planId plan) 0 (cp_steps plan)) = {}"

lemma canonicalOf_nth:
  assumes "distinct (map cs_stepId (cp_steps plan))" and "k < length (cp_steps plan)"
  shows "canonicalOf sha plan (cs_stepId (cp_steps plan ! k)) =
    canonical_ids sha (cp_planId plan) 0 (cp_steps plan) ! k"
  using foldl_update_nth[OF assms(1), of "canonical_ids sha (cp_planId plan) 0 (cp_steps plan)" k "[]"] assms(2)
  by (simp add: canonicalOf_def ids_of_def)

lemma length_stepsOf [simp]: "length (stepsOf sha plan) = length (cp_steps plan)"
  by (simp add: stepsOf_def)

lemma nth_stepsOf: "k < length (cp_steps plan) \<Longrightarrow> stepsOf sha plan ! k =
    normalizedStepOf sha plan (cp_steps plan ! k) k (canonicalOf sha plan (cs_stepId (cp_steps plan ! k)))"
  by (simp add: stepsOf_def nth_normalized_steps canonicalOf_def)

lemma Bex_stepsOf: "(\<exists>step \<in> set (stepsOf sha plan). P step) \<longleftrightarrow> (\<exists>k < length (cp_steps plan).
    P (normalizedStepOf sha plan (cp_steps plan ! k) k (canonicalOf sha plan (cs_stepId (cp_steps plan ! k)))))"
proof -
  have "(\<exists>step \<in> set (stepsOf sha plan). P step) \<longleftrightarrow> (\<exists>k < length (cp_steps plan). P (stepsOf sha plan ! k))"
    by (metis in_set_conv_nth length_stepsOf)
  then show ?thesis by (simp add: nth_stepsOf cong: conj_cong)
qed

lemma ids_stepsOf: "map ns_id (stepsOf sha plan) = map (canonicalOf sha plan) (map cs_stepId (cp_steps plan))"
  by (rule nth_equalityI) (simp_all add: nth_stepsOf)

lemma canonicalOf_map:
  assumes "distinct (map cs_stepId (cp_steps plan))"
  shows "map (canonicalOf sha plan) (map cs_stepId (cp_steps plan)) =
    canonical_ids sha (cp_planId plan) 0 (cp_steps plan)"
  by (rule nth_equalityI) (simp_all add: canonicalOf_nth[OF assms])

lemma distinct_stepsOf: "distinct (map cs_stepId (cp_steps plan)) \<Longrightarrow> distinct (map ns_id (stepsOf sha plan))"
  unfolding ids_stepsOf by (simp only: canonicalOf_map distinct_canonical_ids)

lemma canonicalOf_inj:
  "distinct (map cs_stepId (cp_steps plan)) \<Longrightarrow> inj_on (canonicalOf sha plan) (cs_stepId ` set (cp_steps plan))"
  using distinct_stepsOf[of plan sha] unfolding ids_stepsOf by (auto simp: distinct_map intro: inj_on_imageI)

lemma sourceIdMap_stepsOf:
  assumes "authored_ids_ok sha plan" and "d \<in> cs_stepId ` set (cp_steps plan)"
  shows "sourceIdMap (stepsOf sha plan) d = Some (canonicalOf sha plan d)"
proof -
  have ne: "[] \<notin> cs_stepId ` set ss \<Longrightarrow>
      concat (map (\<lambda>step. case ns_sourceId step of None \<Rightarrow> []
        | Some s \<Rightarrow> if s \<noteq> [] then [(s, ns_id step)] else []) (normalized_steps sha plan idm i ss)) =
      map (\<lambda>x. (x, js_default [] (map_of idm x))) (map cs_stepId ss)" for i idm ss
    by (induction ss arbitrary: i) auto
  have "sourceIdMap (stepsOf sha plan) =
      js_map_of (map (\<lambda>x. (x, canonicalOf sha plan x)) (map cs_stepId (cp_steps plan)))"
    using ne[of "cp_steps plan" "ids_of sha plan" 0] assms(1)
    by (simp add: sourceIdMap_def stepsOf_def canonicalOf_def[abs_def] authored_ids_ok_def)
  moreover have "distinct (map fst (map (\<lambda>x. (x, canonicalOf sha plan x)) (map cs_stepId (cp_steps plan))))"
    using assms(1) by (simp add: authored_ids_ok_def comp_def)
  ultimately show ?thesis using js_map_of_distinct assms(2) by fastforce
qed

lemma resolve_stepsOf:
  assumes "authored_ids_ok sha plan" and "d \<in> cs_stepId ` set (cp_steps plan)"
  shows "resolveDependency (stepsOf sha plan) d = canonicalOf sha plan d"
proof -
  have "set (map ns_id (stepsOf sha plan)) = set (canonical_ids sha (cp_planId plan) 0 (cp_steps plan))"
    unfolding ids_stepsOf using assms(1) by (simp only: canonicalOf_map authored_ids_ok_def)
  then have "d \<notin> ns_id ` set (stepsOf sha plan)"
    using assms by (auto simp: authored_ids_ok_def)
  then show ?thesis using sourceIdMap_stepsOf[OF assms] by (simp add: resolveDependency_def)
qed

lemma dep_rel_stepsOf:
  assumes "authored_ids_ok sha plan" and "np_steps normalized = stepsOf sha plan"
  shows "dep_rel (buildDependencyGraph normalized) =
    map_prod (canonicalOf sha plan) (canonicalOf sha plan) ` source_rel plan"
proof -
  have step: "(u, v) \<in> dep_rel (buildDependencyGraph normalized) \<longleftrightarrow>
      (\<exists>k < length (cp_steps plan). v = canonicalOf sha plan (cs_stepId (cp_steps plan ! k)) \<and>
         (\<exists>d \<in> set (cs_dependencies (cp_steps plan ! k)). u = resolveDependency (stepsOf sha plan) d))" for u v
    unfolding dep_rel_build assms(2) Bex_stepsOf by simp
  have res: "d \<in> set (cs_dependencies (cp_steps plan ! k)) \<Longrightarrow> k < length (cp_steps plan) \<Longrightarrow>
      resolveDependency (stepsOf sha plan) d = canonicalOf sha plan d" for d k
    using resolve_stepsOf[OF assms(1), of d] assms(1) nth_mem[of k "cp_steps plan"]
    unfolding authored_ids_ok_def by blast
  have "(u, v) \<in> dep_rel (buildDependencyGraph normalized) \<longleftrightarrow>
      (\<exists>s \<in> set (cp_steps plan). v = canonicalOf sha plan (cs_stepId s) \<and>
         (\<exists>d \<in> set (cs_dependencies s). u = canonicalOf sha plan d))" for u v
    unfolding step by (metis res in_set_conv_nth)
  then show ?thesis unfolding source_rel_def by (auto simp: image_iff) blast
qed

lemma canonicalOf_inj_field:
  assumes "authored_ids_ok sha plan"
  shows "inj_on (canonicalOf sha plan) (Field (source_rel plan))"
proof -
  have "Field (source_rel plan) \<subseteq> cs_stepId ` set (cp_steps plan)"
    using assms by (auto simp: Field_def source_rel_def authored_ids_ok_def)
  moreover have "inj_on (canonicalOf sha plan) (cs_stepId ` set (cp_steps plan))"
    using assms by (intro canonicalOf_inj) (simp add: authored_ids_ok_def)
  ultimately show ?thesis by (rule inj_on_subset[rotated])
qed

lemma acyclic_map_prod:
  assumes "inj_on f (Field R)" and "acyclic R"
  shows "acyclic (map_prod f f ` R)"
proof -
  have "(x, y) \<in> (map_prod f f ` R)\<^sup>+ \<Longrightarrow> \<exists>a b. x = f a \<and> y = f b \<and> (a, b) \<in> R\<^sup>+" for x y
  proof (induction rule: trancl_induct)
    case (step y z)
    then obtain a b c d where "x = f a" "y = f b" "(a, b) \<in> R\<^sup>+" "y = f c" "z = f d" "(c, d) \<in> R" by auto
    moreover from this have "b = c"
      using assms(1) by (auto simp: inj_on_def dest!: tranclD2 intro: FieldI1 FieldI2)
    ultimately show ?case by (auto intro: trancl_into_trancl)
  qed auto
  moreover have "(a, b) \<in> R\<^sup>+ \<Longrightarrow> f a = f b \<Longrightarrow> a = b" for a b
    using assms(1) by (metis (no_types, lifting) FieldI1 FieldI2 inj_onD tranclD tranclD2)
  ultimately show ?thesis using assms(2) unfolding acyclic_def by metis
qed

section \<open>A concrete input\<close>

definition authored_step :: "string \<Rightarrow> string list \<Rightarrow> CanonicalPlanStep" where
  "authored_step i deps =
     \<lparr>cs_stepId = i, cs_type = Analyze, cs_title = ''t'', cs_dependencies = deps,
      cs_action = \<lparr>sa_tool = ''tool'', sa_operation = ''read'', sa_parameters = []\<rparr>,
      cs_approvalRequired = True, cs_dryRunSupported = True, cs_riskLevel = RiskLow, cs_timeoutMs = 1000,
      cs_retryable = False, cs_idempotent = True, cs_logLevel = LogInfo, cs_metricsEnabled = True\<rparr>"

definition authored_plan :: CanonicalPlan where
  "authored_plan =
     \<lparr>cp_schemaVersion = ''1.0.0'', cp_planId = ''p'', cp_createdAt = ''2026-01-01T00:00:00.000Z'',
      cp_objective = ''goal'', cp_priority = PriorityNormal, cp_classification = Informational,
      cp_sourceIds = [], cp_evidenceRefs = [], cp_constraints = [], cp_approvalsRequired = False,
      cp_policyRefs = [], cp_mode = Supervised, cp_timeoutMs = 1000,
      cp_retryPolicy = \<lparr>rp_maxAttempts = 0, rp_backoffMs = 0\<rparr>,
      cp_steps = [authored_step ''a'' [], authored_step ''b'' [''a'']],
      cp_truthScoreRequired = Dec 1 0, cp_validationProfile = ''strict'', cp_plannerVersion = ''1'',
      cp_generatedBy = ''planner''\<rparr>"

definition authored_topology :: ValidationTopologySummary where
  "authored_topology = \<lparr>ts_nodeCount = 2, ts_edgeCount = 1, ts_branchCount = 0, ts_maxDepth = 2\<rparr>"

definition authored_snapshot :: ReplaySnapshot where
  "authored_snapshot =
     \<lparr>rs_schemaVersion = ''1.0.0'', rs_planHash = ''ph'', rs_graphHash = ''gh'',
      rs_authoredStepOrder = [''a'', ''b''], rs_dependencyMap = [(''a'', []), (''b'', [''a''])],
      rs_topology = authored_topology\<rparr>"

definition authored_evidence :: ValidationEvidence where
  "authored_evidence =
     \<lparr>ev_validationRunId = ''run'', ev_schemaVersion = ''1.0.0'', ev_validatorVersion = ''1'',
      ev_governancePolicyVersion = ''1'', ev_compatibilityMatrixVersion = ''1'',
      ev_topology = authored_topology, ev_dependencyMap = [(''a'', []), (''b'', [''a''])],
      ev_validationStages = [], ev_errors = [], ev_warnings = [], ev_graphHash = ''gh'',
      ev_validationHash = ''vh'', ev_replaySnapshot = authored_snapshot,
      ev_schemaEvidence = \<lparr>ce_validationId = ''v'', ce_schemaVersion = ''1.0.0'', ce_status = StatusValid,
        ce_failureReason = None, ce_issues = [], ce_normalized = Some authored_plan,
        ce_deterministicHash = None, ce_timestamp = ''t''\<rparr>,
      ev_context = \<lparr>vc_schemaVersion = ''1.0.0'', vc_validatorVersion = ''1'', vc_governancePolicyVersion = ''1'',
        vc_compatibilityMatrixVersion = ''1''\<rparr>,
      ev_normalizedPlan = authored_plan, ev_immutableAuditLedgerId = None\<rparr>"

definition authored_input :: NormalizePlanInput where
  "authored_input =
     \<lparr>ni_validatedPlan = authored_plan,
      ni_validationResult = \<lparr>vr_ok = True, vr_validated = True, vr_status = ApprovedForPlanningPipeline,
        vr_topology = authored_topology, vr_errors = [], vr_warnings = [], vr_validationHash = ''vh'',
        vr_graphHash = ''gh'', vr_evidence = authored_evidence\<rparr>,
      ni_replaySnapshot = authored_snapshot, ni_graphHash = ''gh'', ni_validationHash = ''vh'',
      ni_normalizationVersion = ''4.2C''\<rparr>"

definition test_sha :: "string \<Rightarrow> string" where
  "test_sha t = ''0123456789abcdef0123''"

lemma authored_agree: "inputs_agree authored_input"
  by (simp add: inputs_agree_def authored_input_def authored_evidence_def authored_snapshot_def
      authored_plan_def authored_step_def sameJson_def)

lemma authored_run:
  "\<exists>s. orchestratePlanNormalization code_unit_compare test_sha authored_input = Inr s"
  using orchestrate_ok[OF authored_agree] by blast

lemma authored_plan_input [simp]: "ni_validatedPlan authored_input = authored_plan"
  by (simp add: authored_input_def)

lemma orchestrate_dest:
  assumes "orchestratePlanNormalization lc sha input = Inr s"
  shows "inputs_agree input" and "ps_normalizedPlan s = normalizedPlanOf lc sha input"
proof -
  show agree: "inputs_agree input"
    using orchestrate_error[of input lc sha] assms by fastforce
  show "ps_normalizedPlan s = normalizedPlanOf lc sha input"
    using orchestrate_ok[OF agree, of lc sha] assms by auto
qed

lemma source_rel_UN: "source_rel plan = (\<Union>s \<in> set (cp_steps plan). (\<lambda>d. (d, cs_stepId s)) ` set (cs_dependencies s))"
  by (auto simp: source_rel_def)

section \<open>Properties\<close>

text \<open>Normalization succeeds exactly when the input is a validated result
  whose hashes, replay snapshot and recorded step order agree with the plan; otherwise it fails with the
  unvalidated-input, replay-mismatch or boundary error, and with no other.\<close>

lemma normalization_outcome:
  "case orchestratePlanNormalization lc sha input of
     Inr s \<Rightarrow> inputs_agree input
   | Inl e \<Rightarrow> \<not> inputs_agree input \<and> pe_code e \<in> {PLAN_NORMALIZATION_UNVALIDATED_INPUT,
       PLAN_NORMALIZATION_REPLAY_MISMATCH, PLAN_NORMALIZATION_BOUNDARY_VIOLATION}"
  using orchestrate_ok[of input lc sha] orchestrate_error[of input lc sha]
  by (cases "inputs_agree input") auto

text \<open>C32 (normalized_plan_faithful): a normalized plan keeps the goal, the validated hashes and the steps
  of the validated plan in their order: each step keeps its id as source id, its action, parameters and
  dependencies; it requires approval exactly when the step or the plan does, is retryable exactly when the
  step is, and runs serially, without autonomy and strictly contained.\<close>

theorem normalized_plan_faithful:
  assumes "orchestratePlanNormalization lc sha input = Inr s"
  shows "np_goal (ps_normalizedPlan s) = cp_objective (ni_validatedPlan input) \<and>
    np_validatedGraphHash (ps_normalizedPlan s) = vr_graphHash (ni_validationResult input) \<and>
    np_validationHash (ps_normalizedPlan s) = vr_validationHash (ni_validationResult input) \<and>
    list_all2 (\<lambda>source step.
        ns_sourceId step = Some (cs_stepId source) \<and> ns_action step = action_json (cs_action source) \<and>
        ns_inputs step = sa_parameters (cs_action source) \<and> ns_dependencies step = cs_dependencies source \<and>
        (ns_approvalMode step = ApprovalREQUIRED) =
          (cs_approvalRequired source \<or> cp_approvalsRequired (ni_validatedPlan input)) \<and>
        (ns_retryMode step = RetryNEVER) = (\<not> cs_retryable source) \<and>
        ns_executionMode step = ExecSERIAL \<and> ns_autonomyLevel step = AutonomyNONE \<and>
        ns_containmentLevel step = ContainSTRICT)
      (cp_steps (ni_validatedPlan input)) (np_steps (ps_normalizedPlan s))"
proof -
  note agree = orchestrate_dest(1)[OF assms] and plan = orchestrate_dest(2)[OF assms]
  have modes: "ns_executionMode (normalizedStepOf sha p st i c) = ExecSERIAL \<and>
      ns_autonomyLevel (normalizedStepOf sha p st i c) = AutonomyNONE \<and>
      ns_containmentLevel (normalizedStepOf sha p st i c) = ContainSTRICT" for p st i c
    by (simp add: normalizedStepOf_def Let_def)
  show ?thesis
    unfolding plan using agree
    by (simp add: list_all2_conv_all_nth nth_stepsOf modes inputs_agree_def)
qed

theorem normalized_plan_faithful_witness:
  "\<exists>s. orchestratePlanNormalization code_unit_compare test_sha authored_input = Inr s \<and>
     np_goal (ps_normalizedPlan s) = ''goal''"
proof -
  obtain s where s: "orchestratePlanNormalization code_unit_compare test_sha authored_input = Inr s"
    using authored_run by blast
  have "cp_objective authored_plan = ''goal''" by (simp add: authored_plan_def)
  with s normalized_plan_faithful[OF s] show ?thesis by auto
qed

text \<open>The collision error of the id normalizer cannot occur, whatever the
  digest function: the position in the id already separates the steps; and when the authored ids are
  distinct, so are the ids of the normalized steps.\<close>

lemma canonical_ids_never_collide:
  assumes "orchestratePlanNormalization lc sha input = Inr s"
    and "distinct (map cs_stepId (cp_steps (ni_validatedPlan input)))"
  shows "(\<forall>plan. snd (snd (normalizePlanStepIds sha plan)) = None) \<and>
    distinct (map ns_id (np_steps (ps_normalizedPlan s)))"
proof -
  have "snd (snd (normalizePlanStepIds sha plan)) = None" for plan
    using ids_ok[of sha plan] by auto
  then show ?thesis
    unfolding orchestrate_dest(2)[OF assms(1)] using distinct_stepsOf[OF assms(2)] by simp
qed

text \<open>C33 (normalization_keeps_dependencies): when the authored ids are distinct, non-empty, closed under
  dependencies and not of canonical form, the dependency graph that the dependency validator builds from
  the normalized plan is the authored dependency relation renamed by an injective map, so it is acyclic
  exactly when the authored one is.\<close>

theorem normalization_keeps_dependencies:
  assumes "orchestratePlanNormalization lc sha input = Inr s"
    and "authored_ids_ok sha (ni_validatedPlan input)"
  shows "dep_rel (buildDependencyGraph (ps_normalizedPlan s)) =
      map_prod (canonicalOf sha (ni_validatedPlan input)) (canonicalOf sha (ni_validatedPlan input))
        ` source_rel (ni_validatedPlan input) \<and>
    inj_on (canonicalOf sha (ni_validatedPlan input)) (cs_stepId ` set (cp_steps (ni_validatedPlan input))) \<and>
    (acyclic (source_rel (ni_validatedPlan input)) \<longrightarrow>
       acyclic (dep_rel (buildDependencyGraph (ps_normalizedPlan s))))"
proof -
  let ?plan = "ni_validatedPlan input"
  have rel: "dep_rel (buildDependencyGraph (ps_normalizedPlan s)) =
      map_prod (canonicalOf sha ?plan) (canonicalOf sha ?plan) ` source_rel ?plan"
    by (rule dep_rel_stepsOf[OF assms(2)]) (simp add: orchestrate_dest(2)[OF assms(1)])
  have inj: "inj_on (canonicalOf sha ?plan) (cs_stepId ` set (cp_steps ?plan))"
    using assms(2) by (intro canonicalOf_inj) (simp add: authored_ids_ok_def)
  from acyclic_map_prod[OF canonicalOf_inj_field[OF assms(2)]] rel inj show ?thesis by simp
qed

theorem normalization_keeps_dependencies_witness:
  "\<exists>s. orchestratePlanNormalization code_unit_compare test_sha authored_input = Inr s \<and>
     dep_rel (buildDependencyGraph (ps_normalizedPlan s)) = {(''step-001-01234567'', ''step-002-01234567'')}"
proof -
  obtain s where s: "orchestratePlanNormalization code_unit_compare test_sha authored_input = Inr s"
    using authored_run by blast
  have ids: "canonical_ids test_sha (cp_planId authored_plan) 0 (cp_steps authored_plan) =
      [''step-001-01234567'', ''step-002-01234567'']" by code_simp
  have ok: "authored_ids_ok test_sha authored_plan"
    unfolding authored_ids_ok_def ids by (simp add: authored_plan_def authored_step_def)
  have rel: "source_rel authored_plan = {(''a'', ''b'')}"
    unfolding source_rel_UN by (simp add: authored_plan_def authored_step_def)
  have "canonicalOf test_sha authored_plan ''a'' = ''step-001-01234567''"
    "canonicalOf test_sha authored_plan ''b'' = ''step-002-01234567''" by code_simp+
  with normalization_keeps_dependencies[OF s] ok rel s show ?thesis by auto
qed

section \<open>The audit ledger\<close>

text \<open>A ledger built by appending payloads, each entry carrying the hash of
  its predecessor, passes the chain check.\<close>

lemma appended_ledger_verifies:
  "verifyImmutableLedgerChain (ledger_of lc sha scope [] payloads)"
  by (rule verify_ledger_of) (simp add: verifyImmutableLedgerChain_def)

text \<open>The chain check compares stored hashes only: replacing the
  payload of any entry of any chain leaves its verdict unchanged.\<close>

lemma ledger_check_ignores_payloads:
  "verifyImmutableLedgerChain (entries[i := (entries ! i)\<lparr>al_payload := payload\<rparr>]) =
     verifyImmutableLedgerChain entries"
proof (cases "i < length entries")
  case True
  show ?thesis by (rule verify_cong, rule nth_equalityI) (use True in \<open>auto simp: nth_list_update\<close>)
qed (simp add: list_update_beyond)

end
