(* ===== verification/ValidationProperties.thy ===== *)
theory ValidationProperties
  imports PlanContract NormalizationProperties
begin

text \<open>
  What structural validation guarantees: it returns on every input, accepts exactly the plans that meet
  \<open>structure_contract\<close>, gives a status that reflects the errors, and leaves a result normalization
  always accepts.  The parser hypothesis states what the zod schemas check.
\<close>

section \<open>Facts about results\<close>

lemma runTopologyPass_returns:
  assumes "step_graph_ok plan"
  shows "\<exists>t. runTopologyPass (createGraphIndex plan) = Some t"
proof -
  let ?g = "createGraphIndex plan"
  have "distinct (map cs_stepId (cp_steps plan))" "acyclic (plan_rel plan)"
    using assms by (simp_all add: step_graph_ok_def plan_wf_def)
  then obtain m where "computeGraphDepth ?g = Some m" using computeGraphDepth_spec by blast
  moreover obtain cs where "detectGraphCycles ?g = Some cs" using detectGraphCycles_spec by blast
  moreover obtain vs where "(case gi_rootIds ?g of [] \<Rightarrow> Some [] | root # _ \<Rightarrow> traverseFromRoot ?g root) = Some vs"
    using traverse_returns by (cases "gi_rootIds ?g") auto
  ultimately show ?thesis by (simp add: runTopologyPass_def)
qed

lemma runSchemaPass_cases:
  obtains (rejected) e errors where "runSchemaPass lc sha inspected parse input = Some (e, Inl errors)"
  | (plan) e data where "runSchemaPass lc sha inspected parse input = Some (e, Inr (normalizeCanonicalPlan lc data))"
      "parse input = Inr data" "step_graph_ok (normalizeCanonicalPlan lc data)"
      "string_or (prop_get input ''schemaVersion'') [] \<in> {''1.0.0'', ''1.0.1'', ''1.1.0''}"
proof -
  obtain e where e: "validateAndNormalizePlan lc sha inspected parse input = Some e"
    unfolding validateAndNormalizePlan_def using validateCanonicalPlan_returns by blast
  show thesis
  proof (cases "ce_status e = StatusValid")
    case True
    from validateCanonicalPlan_valid[OF e[unfolded validateAndNormalizePlan_def] True] plan show thesis
      using e by (fastforce simp: runSchemaPass_def True)
  next
    case False
    then show thesis using rejected e by (cases "ce_status e") (auto simp: runSchemaPass_def)
  qed
qed

lemma runSchemaPass_accepts:
  assumes "string_or (prop_get input ''schemaVersion'') [] \<in> {''1.0.0'', ''1.0.1'', ''1.1.0''}"
    and "parse input = Inr data" and "step_graph_ok (normalizeCanonicalPlan lc data)"
  shows "\<exists>e. runSchemaPass lc sha inspected parse input = Some (e, Inr (normalizeCanonicalPlan lc data))"
  using validateCanonicalPlan_accepts[of input parse data lc sha inspected] assms
  by (auto simp: runSchemaPass_def validateAndNormalizePlan_def)

lemma normalized_ids [simp]: "cs_stepId ` set (cp_steps (normalizeCanonicalPlan lc data)) = cs_stepId ` set (cp_steps data)"
  by (simp add: normalizeCanonicalPlan_def normalizeCanonicalStep_def image_image)

lemma schema_conforms_ids: "schema_conforms data \<Longrightarrow> [] \<notin> cs_stepId ` set (cp_steps data)"
  by (force simp: schema_conforms_def step_conforms_def list_all_iff)

text \<open>The shape of a result: every returned result is the rejected one or comes from the passes.\<close>

lemma validatePlanStructure_cases:
  assumes "validatePlanStructure lc sha inspected parse tools input context = Some r"
  obtains (rejected) c e errors where "r = rejectedResult lc sha c e errors"
  | (passes) c e data where "parse input = Inr data" "step_graph_ok (normalizeCanonicalPlan lc data)"
      "string_or (prop_get input ''schemaVersion'') [] \<in> {''1.0.0'', ''1.0.1'', ''1.1.0''}"
      "validateStructure lc sha tools c e (normalizeCanonicalPlan lc data) = Some r"
proof (rule runSchemaPass_cases[of lc sha inspected parse input])
  fix e errors assume "runSchemaPass lc sha inspected parse input = Some (e, Inl errors)"
  with assms have "r = rejectedResult lc sha (js_default (createFrozenValidationContext None None None None) context) e errors"
    by (simp add: validatePlanStructure_def orchestratePlanValidation_def)
  then show thesis by (rule rejected)
next
  fix e data assume "runSchemaPass lc sha inspected parse input = Some (e, Inr (normalizeCanonicalPlan lc data))"
    "parse input = Inr data" "step_graph_ok (normalizeCanonicalPlan lc data)"
    "string_or (prop_get input ''schemaVersion'') [] \<in> {''1.0.0'', ''1.0.1'', ''1.1.0''}"
  with assms passes[of data] show thesis by (simp add: validatePlanStructure_def orchestratePlanValidation_def)
qed

lemma rejectedResult_simps [simp]:
  "\<not> vr_ok (rejectedResult lc sha c e errors)" "\<not> vr_validated (rejectedResult lc sha c e errors)"
  "vr_status (rejectedResult lc sha c e errors) = Rejected"
  by (simp_all add: rejectedResult_def Let_def)

lemma evidence_simps [simp]:
  fixes lc sha plan se c topo dm stages errors gh snap
  defines "ev \<equiv> createValidationEvidence lc sha plan se c topo dm stages errors gh snap"
  shows "ev_errors ev = errors" and "ev_topology ev = topo" and "ev_graphHash ev = gh"
    and "ev_replaySnapshot ev = snap" and "ev_normalizedPlan ev = plan"
    and "ev_validationHash ev = hashPayloadDeterministically sha (evidence_base ev)"
    and "ev_immutableAuditLedgerId ev = Some (al_ledgerId (createValidationAuditLog lc sha ev))"
  by (simp_all add: ev_def createValidationEvidence_def Let_def evidence_base_def createValidationAuditLog_def)

lemma validateStructure_shape:
  assumes "validateStructure lc sha tools c e plan = Some r"
  obtains topo errors ph gh ev where
    "ev = createValidationEvidence lc sha plan e c topo (dependencyMapOf plan) VALIDATION_STAGES errors gh
       (createGraphReplaySnapshot plan c ph gh topo)"
    "r = \<lparr>vr_ok = (errors = []), vr_validated = True, vr_status = aggregateStatus errors (snd (runGovernancePass plan)),
       vr_topology = topo, vr_errors = errors, vr_warnings = [], vr_validationHash = ev_validationHash ev,
       vr_graphHash = ev_graphHash ev, vr_evidence = ev\<rparr>"
proof -
  obtain te t where t: "runTopologyPass (createGraphIndex plan) = Some (te, t)"
    using assms by (auto simp: validateStructure_def Let_def split: Option.bind_splits)
  show thesis
    using assms unfolding validateStructure_def Let_def t Option.bind.bind_lunit case_prod_beta option.inject
    by (rule that[OF refl sym])
qed

lemma validateStructure_ok:
  assumes "validateStructure lc sha tools c e plan = Some r"
  shows "vr_ok r \<longleftrightarrow> vr_errors r = []" and "vr_validated r"
    and "ev_normalizedPlan (vr_evidence r) = plan"
    and "rs_authoredStepOrder (ev_replaySnapshot (vr_evidence r)) = map cs_stepId (cp_steps plan)"
    and "vr_status r = aggregateStatus (vr_errors r) (snd (runGovernancePass plan))"
    and "rs_graphHash (ev_replaySnapshot (vr_evidence r)) = vr_graphHash r"
  by (rule validateStructure_shape[OF assms]; simp add: createGraphReplaySnapshot_def)+

lemma validation_result_exists:
  "\<exists>r. validatePlanStructure lc sha inspected parse tools input context = Some r"
proof (rule runSchemaPass_cases[of lc sha inspected parse input])
  fix e errors assume "runSchemaPass lc sha inspected parse input = Some (e, Inl errors)"
  then show ?thesis by (simp add: validatePlanStructure_def orchestratePlanValidation_def)
next
  fix e data
  assume run: "runSchemaPass lc sha inspected parse input = Some (e, Inr (normalizeCanonicalPlan lc data))"
    and graph: "step_graph_ok (normalizeCanonicalPlan lc data)"
  obtain t where "runTopologyPass (createGraphIndex (normalizeCanonicalPlan lc data)) = Some t"
    using runTopologyPass_returns[OF graph] by blast
  then show ?thesis
    by (cases t) (simp add: validatePlanStructure_def orchestratePlanValidation_def run validateStructure_def
        Let_def case_prod_beta)
qed

section \<open>A concrete input\<close>

definition valid_plan :: CanonicalPlan where
  "valid_plan = authored_plan\<lparr>cp_retryPolicy := \<lparr>rp_maxAttempts = 1, rp_backoffMs = 0\<rparr>, cp_approvalsRequired := True\<rparr>"

definition valid_input :: json where
  "valid_input = JObj [(''schemaVersion'', JStr ''1.1.0'')]"

lemma valid_normalized:
  "normalizeCanonicalPlan code_unit_compare valid_plan = valid_plan"
  "normalizeCanonicalPlan code_unit_compare authored_plan = authored_plan"
proof -
  have "normalizeParameters [] = []"
    by (simp add: normalizeParameters_def normalizeDeterministicValue_def assign_entries_def js_entries_def members_def)
  then show "normalizeCanonicalPlan code_unit_compare valid_plan = valid_plan"
    and "normalizeCanonicalPlan code_unit_compare authored_plan = authored_plan"
    by (simp_all add: normalizeCanonicalPlan_def normalizeCanonicalStep_def valid_plan_def authored_plan_def
        authored_step_def sortStrings_def)
qed

lemma valid_rel: "plan_rel valid_plan = {(''a'', ''b'')}"
  unfolding plan_rel_def[folded source_rel_def] source_rel_UN
  by (simp add: valid_plan_def authored_plan_def authored_step_def)

lemma valid_graph: "step_graph_ok valid_plan"
proof -
  have "acyclic (plan_rel valid_plan)"
    unfolding valid_rel by (simp add: acyclic_insert wf_acyclic)
  then show ?thesis
    by (simp add: step_graph_ok_def plan_wf_def step_safe_def valid_plan_def authored_plan_def authored_step_def)
qed

lemma valid_version: "string_or (prop_get valid_input ''schemaVersion'') [] \<in> {''1.0.0'', ''1.0.1'', ''1.1.0''}"
  by (simp add: valid_input_def prop_get_def obj_get_def string_or_def)

lemma valid_conforms: "schema_conforms valid_plan"
  by (simp add: schema_conforms_def step_conforms_def valid_plan_def authored_plan_def authored_step_def num_less_def)

lemma valid_contract: "structure_contract [''tool''] valid_plan"
proof -
  have steps: "cp_steps valid_plan = [authored_step ''a'' [], authored_step ''b'' [''a'']]"
    by (simp add: valid_plan_def authored_plan_def)
  have "length w \<le> 2" if "walk {(''a'', ''b'')} w" for w
    using that by (cases w; cases "tl w"; cases "tl (tl w)") auto
  then have "chains_bounded valid_plan 10" unfolding chains_bounded_def valid_rel by fastforce
  moreover have "single_rooted valid_plan" by (auto simp: single_rooted_def valid_rel steps authored_step_def)
  moreover have "stands_before valid_plan ''a'' ''b''"
    unfolding stands_before_def steps by (rule exI[of _ 1]) (auto simp: authored_step_def)
  ultimately show ?thesis
    by (simp add: structure_contract_def step_rules_def steps authored_step_def parallel_ok_def route_ok_def
        merge_ok_def param_def obj_get_def fan_out_def governance_ok_def valid_plan_def authored_plan_def num_less_def)
qed

section \<open>Error codes\<close>

text \<open>Only the governance pass reports a missing approval.\<close>

definition no_approval_error :: "ValidationError list \<Rightarrow> bool" where
  "no_approval_error errors \<longleftrightarrow> (\<forall>e \<in> set errors. ve_code e \<noteq> ''PLAN_APPROVAL_MISSING'')"

lemma no_approval_simps [simp]:
  "no_approval_error []"
  "no_approval_error (e # es) \<longleftrightarrow> ve_code e \<noteq> ''PLAN_APPROVAL_MISSING'' \<and> no_approval_error es"
  "no_approval_error (xs @ ys) \<longleftrightarrow> no_approval_error xs \<and> no_approval_error ys"
  by (auto simp: no_approval_error_def)

lemma no_approval_concat: "(\<And>x. x \<in> set xs \<Longrightarrow> no_approval_error (f x)) \<Longrightarrow> no_approval_error (concat (map f xs))"
  by (auto simp: no_approval_error_def)

lemma no_approval_if: "(c \<Longrightarrow> no_approval_error xs) \<Longrightarrow> (\<not> c \<Longrightarrow> no_approval_error ys) \<Longrightarrow> no_approval_error (if c then xs else ys)"
  by simp

lemma code_mk_error [simp]: "ve_code (mk_error code path message stage) = code"
  by (simp add: mk_error_def)

lemma no_approval_map: "(\<And>x. x \<in> set xs \<Longrightarrow> ve_code (f x) \<noteq> ''PLAN_APPROVAL_MISSING'') \<Longrightarrow> no_approval_error (map f xs)"
  by (auto simp: no_approval_error_def)

lemmas no_approval_intros = no_approval_concat no_approval_map

lemma no_approval_topology: "runTopologyPass g = Some (errors, t) \<Longrightarrow> no_approval_error errors"
  by (auto simp: runTopologyPass_def intro!: no_approval_intros split: Option.bind_splits)

lemma no_approval_dependency: "no_approval_error (runDependencyPass g)"
  unfolding runDependencyPass_def by (intro no_approval_concat) (auto intro!: no_approval_intros)

lemma no_approval_tools: "no_approval_error (toolValidation tools plan)"
  unfolding toolValidation_def by (intro no_approval_concat) auto

lemma no_approval_ordering: "no_approval_error (runOrderingPass plan g)"
  unfolding runOrderingPass_def by (intro no_approval_concat) (auto intro!: no_approval_intros split: option.splits)

lemma no_approval_branch: "no_approval_error (fst (runBranchPass plan g))"
  unfolding runBranchPass_def routeErrors_def Let_def by (auto intro!: no_approval_intros split: option.splits)

lemma no_approval_merge: "no_approval_error (runMergePass lc plan)"
proof -
  have "no_approval_error (case (str_of p, m) of (Some _, JArr sources) \<Rightarrow> f sources | _ \<Rightarrow> [e])"
    if "\<And>x. no_approval_error (f x)" "no_approval_error [e]" for p m f e
    using that by (cases "str_of p"; cases m) auto
  then show ?thesis unfolding runMergePass_def Let_def
    by (intro no_approval_concat no_approval_if) auto
qed

lemma no_approval_retry: "no_approval_error (runRetryPass plan)"
  unfolding runRetryPass_def by (auto intro!: no_approval_intros)

lemma no_approval_scan: "no_approval_error (scan v path)"
proof (induction v arbitrary: path)
  case (JArr vs)
  have "no_approval_error (f p)" if "f \<in> set (map scan vs)" for f p using that JArr by auto
  then show ?case by (auto intro!: no_approval_concat simp: in_set_enumerate_eq)
next
  case (JObj kvs)
  have "no_approval_error (f p)" if "(k, f) \<in> set (js_entries (map (\<lambda>(k, v). (k, scan v)) kvs))" for k f p
    using that JObj by (force simp: js_entries_def)
  then show ?case by (auto intro!: no_approval_concat simp: dynamicKeyError_def)
qed auto

lemma no_approval_determinism: "no_approval_error (fst (runDeterminismPass lc sha plan g))"
  unfolding runDeterminismPass_def Let_def by (auto intro!: no_approval_concat no_approval_scan simp del: scan.simps)

lemma no_approval_containment: "no_approval_error (runContainmentPass n d)"
  by (simp add: runContainmentPass_def)

lemmas no_approval_passes = no_approval_dependency no_approval_tools no_approval_ordering no_approval_merge
  no_approval_retry no_approval_containment

definition approval_gap :: "CanonicalPlan \<Rightarrow> bool" where
  "approval_gap plan \<longleftrightarrow> \<not> cp_approvalsRequired plan \<and>
     (cp_classification plan \<in> {Restricted, Mutating} \<or> cp_mode plan = ApprovalRequired \<or>
      (\<exists>s \<in> set (cp_steps plan). cs_approvalRequired s))"

lemma governance_gap:
  "snd (runGovernancePass plan) \<and> \<not> no_approval_error (fst (runGovernancePass plan)) \<longleftrightarrow> approval_gap plan"
  unfolding runGovernancePass_def Let_def approval_gap_def list_ex_iff by auto

lemma status_approval:
  assumes "validateStructure lc sha tools c e plan = Some r"
  shows "vr_status r = ApprovalIsRequired \<longleftrightarrow> approval_gap plan"
proof -
  let ?g = "createGraphIndex plan"
  obtain te t where t: "runTopologyPass ?g = Some (te, t)"
    using assms by (auto simp: validateStructure_def Let_def split: Option.bind_splits)
  have errors: "vr_errors r = te @ runDependencyPass ?g @ toolValidation tools plan @ runOrderingPass plan ?g @
      fst (runBranchPass plan ?g) @ runMergePass lc plan @ runRetryPass plan @ fst (runGovernancePass plan) @
      fst (runDeterminismPass lc sha plan ?g) @ runContainmentPass (ts_nodeCount t) (ts_maxDepth t)"
    using assms by (auto simp: validateStructure_def Let_def t split: prod.splits)
  have "no_approval_error (vr_errors r) \<longleftrightarrow> no_approval_error (fst (runGovernancePass plan))"
    unfolding errors using no_approval_topology[OF t] no_approval_branch[of plan ?g] no_approval_passes
      no_approval_determinism[of lc sha plan ?g] by simp
  moreover have "list_ex (\<lambda>e. ve_code e = ''PLAN_APPROVAL_MISSING'') errors \<longleftrightarrow> \<not> no_approval_error errors" for errors
    by (auto simp: no_approval_error_def list_ex_iff)
  moreover have "vr_errors r \<noteq> []" if "\<not> no_approval_error (vr_errors r)" using that by auto
  ultimately show ?thesis
    unfolding validateStructure_ok(5)[OF assms] governance_gap[symmetric] aggregateStatus_def by auto
qed

section \<open>Accepted results\<close>

lemma accepted_result:
  assumes "validatePlanStructure lc sha inspected parse tools input context = Some r" and "vr_ok r"
    and "collation lc" and "\<And>data. parse input = Inr data \<Longrightarrow> schema_conforms data"
  shows "step_graph_ok (ev_normalizedPlan (vr_evidence r))"
    and "[] \<notin> cs_stepId ` set (cp_steps (ev_normalizedPlan (vr_evidence r)))"
    and "structure_contract tools (ev_normalizedPlan (vr_evidence r))"
    and "rs_authoredStepOrder (ev_replaySnapshot (vr_evidence r)) =
      map cs_stepId (cp_steps (ev_normalizedPlan (vr_evidence r)))"
    and "rs_graphHash (ev_replaySnapshot (vr_evidence r)) = vr_graphHash r" and "vr_validated r"
proof -
  from assms(1,2) obtain c e data where run: "validateStructure lc sha tools c e (normalizeCanonicalPlan lc data) = Some r"
    "parse input = Inr data" "step_graph_ok (normalizeCanonicalPlan lc data)"
    by (cases rule: validatePlanStructure_cases) auto
  note facts = validateStructure_ok[OF run(1)]
  have ids: "[] \<notin> cs_stepId ` set (cp_steps (normalizeCanonicalPlan lc data))"
    using schema_conforms_ids[OF assms(4)[OF run(2)]] by simp
  from validateStructure_spec[OF run(3) ids assms(3), of sha tools c e] run(1) assms(2)
  show "structure_contract tools (ev_normalizedPlan (vr_evidence r))" by (simp add: facts(3))
  show "step_graph_ok (ev_normalizedPlan (vr_evidence r))"
    "[] \<notin> cs_stepId ` set (cp_steps (ev_normalizedPlan (vr_evidence r)))"
    using run(3) ids by (simp_all add: facts(3))
qed (use assms in \<open>auto elim!: validatePlanStructure_cases simp: validateStructure_ok\<close>)

lemma stands_before_trancl:
  assumes "distinct (map cs_stepId (cp_steps plan))" and "(a, b) \<in> (plan_rel plan)\<^sup>+"
    and "\<And>s d. s \<in> set (cp_steps plan) \<Longrightarrow> d \<in> set (cs_dependencies s) \<Longrightarrow> stands_before plan d (cs_stepId s)"
  shows "stands_before plan a b"
proof -
  have edge: "(u, v) \<in> plan_rel plan \<Longrightarrow> stands_before plan u v" for u v using assms(3) by (auto simp: plan_rel_def)
  have trans: "stands_before plan u w" if uv: "stands_before plan u v" and vw: "stands_before plan v w" for u v w
  proof -
    obtain i j where ij: "j < length (cp_steps plan)" "i < j" "u = cs_stepId (cp_steps plan ! i)" "v = cs_stepId (cp_steps plan ! j)"
      using uv unfolding stands_before_def by blast
    obtain k l where kl: "l < length (cp_steps plan)" "k < l" "v = cs_stepId (cp_steps plan ! k)" "w = cs_stepId (cp_steps plan ! l)"
      using vw unfolding stands_before_def by blast
    have "j < l" using stands_before_iff[OF assms(1) ij(1) kl(1)] vw ij(4) kl(4) by simp
    then show ?thesis unfolding stands_before_def ij(3) kl(4) using ij(2) kl(1)
      by (intro exI[of _ l] conjI exI[of _ i]) simp_all
  qed
  from assms(2) show ?thesis by (induction rule: trancl_induct) (auto intro: edge trans)
qed

lemma valid_run:
  "\<exists>r. validatePlanStructure code_unit_compare test_sha JNull (\<lambda>_. Inr valid_plan) [''tool''] valid_input None = Some r \<and>
     vr_ok r \<and> ev_normalizedPlan (vr_evidence r) = valid_plan"
proof -
  obtain e where run: "runSchemaPass code_unit_compare test_sha JNull (\<lambda>_. Inr valid_plan) valid_input = Some (e, Inr valid_plan)"
    using runSchemaPass_accepts[of valid_input "\<lambda>_. Inr valid_plan" valid_plan code_unit_compare] valid_version valid_graph
      valid_normalized(1) by auto
  obtain r where r: "validateStructure code_unit_compare test_sha [''tool'']
      (createFrozenValidationContext None None None None) e valid_plan = Some r" "vr_ok r"
    using validateStructure_spec[OF valid_graph schema_conforms_ids[OF valid_conforms] code_unit_collation.collation_axioms]
      valid_contract by blast
  then show ?thesis using validateStructure_ok(3)[OF r(1)]
    by (simp add: validatePlanStructure_def orchestratePlanValidation_def run)
qed

section \<open>Properties\<close>

text \<open>C3 (validation_implements_contract): for a parser that enforces the schema's non-empty ids and a
  collation that separates strings, validation accepts an input exactly when its version is registered,
  it parses, the step graph of the normalized plan is sound and the plan meets the structural contract:
  one root that reaches every step, chains of at most ten steps, at most 64 steps and three routes,
  dependencies before their dependents, bounded fan-in and fan-out, known tools, explicit branches,
  merges and parallel groups, declared approvals and no dynamic values.\<close>

theorem validation_implements_contract:
  assumes "collation lc" and "\<And>data. parse input = Inr data \<Longrightarrow> schema_conforms data"
  shows "(\<exists>r. validatePlanStructure lc sha inspected parse tools input context = Some r \<and> vr_ok r) \<longleftrightarrow>
    string_or (prop_get input ''schemaVersion'') [] \<in> {''1.0.0'', ''1.0.1'', ''1.1.0''} \<and>
    (\<exists>data. parse input = Inr data \<and> step_graph_ok (normalizeCanonicalPlan lc data) \<and>
       structure_contract tools (normalizeCanonicalPlan lc data))"
proof -
  have run: "\<exists>r. validateStructure lc sha tools c e (normalizeCanonicalPlan lc data) = Some r \<and>
      (vr_ok r \<longleftrightarrow> structure_contract tools (normalizeCanonicalPlan lc data))"
    if "parse input = Inr data" "step_graph_ok (normalizeCanonicalPlan lc data)" for c e data
    using validateStructure_spec[OF that(2) _ assms(1)] schema_conforms_ids[OF assms(2)[OF that(1)]] by fastforce
  show ?thesis
  proof (intro iffI)
    assume "\<exists>r. validatePlanStructure lc sha inspected parse tools input context = Some r \<and> vr_ok r"
    then obtain r where r: "validatePlanStructure lc sha inspected parse tools input context = Some r" "vr_ok r" by blast
    from r(1) show "string_or (prop_get input ''schemaVersion'') [] \<in> {''1.0.0'', ''1.0.1'', ''1.1.0''} \<and>
      (\<exists>data. parse input = Inr data \<and> step_graph_ok (normalizeCanonicalPlan lc data) \<and>
         structure_contract tools (normalizeCanonicalPlan lc data))"
    proof (cases rule: validatePlanStructure_cases)
      case (passes c e data)
      with run[of data c e] r(2) show ?thesis by auto
    qed (use r(2) in simp)
  next
    assume "string_or (prop_get input ''schemaVersion'') [] \<in> {''1.0.0'', ''1.0.1'', ''1.1.0''} \<and>
      (\<exists>data. parse input = Inr data \<and> step_graph_ok (normalizeCanonicalPlan lc data) \<and>
         structure_contract tools (normalizeCanonicalPlan lc data))"
    then obtain data where data: "string_or (prop_get input ''schemaVersion'') [] \<in> {''1.0.0'', ''1.0.1'', ''1.1.0''}"
      "parse input = Inr data" "step_graph_ok (normalizeCanonicalPlan lc data)"
      "structure_contract tools (normalizeCanonicalPlan lc data)" by blast
    from runSchemaPass_accepts[of input parse data lc sha inspected] data obtain e where
      "runSchemaPass lc sha inspected parse input = Some (e, Inr (normalizeCanonicalPlan lc data))" by blast
    then show "\<exists>r. validatePlanStructure lc sha inspected parse tools input context = Some r \<and> vr_ok r"
      using run[OF data(2,3)] data(4) by (simp add: validatePlanStructure_def orchestratePlanValidation_def)
  qed
qed

theorem validation_implements_contract_witness:
  "\<exists>r. validatePlanStructure code_unit_compare test_sha JNull (\<lambda>_. Inr valid_plan) [''tool''] valid_input None = Some r \<and>
     vr_ok r"
proof (rule validation_implements_contract[THEN iffD2])
  show "collation code_unit_compare" by unfold_locales
qed (use valid_conforms valid_version valid_normalized valid_graph valid_contract in simp_all)

text \<open>C5 (validation_always_returns): validation returns a result on every input, whatever the parser,
  digest, collation and registry; the depth recursion only runs on plans already known to be acyclic.\<close>

theorem validation_always_returns:
  "\<exists>r. validatePlanStructure lc sha inspected parse tools input context = Some r"
  by (rule validation_result_exists)

text \<open>C6 (validation_result_coherent): in every result the ok flag, the approved status and an empty list
  of errors of a validated plan coincide, the evidence records the same errors, topology and hashes, the
  validation hash is the digest of the evidence, and the snapshot carries the graph hash.\<close>

theorem validation_result_coherent:
  assumes "validatePlanStructure lc sha inspected parse tools input context = Some r"
  shows "(vr_ok r \<longleftrightarrow> vr_status r = ApprovedForPlanningPipeline) \<and>
    (vr_ok r \<longleftrightarrow> vr_validated r \<and> vr_errors r = []) \<and>
    ev_errors (vr_evidence r) = vr_errors r \<and> ev_topology (vr_evidence r) = vr_topology r \<and>
    vr_validationHash r = hashPayloadDeterministically sha (evidence_base (vr_evidence r)) \<and>
    rs_graphHash (ev_replaySnapshot (vr_evidence r)) = vr_graphHash r \<and>
    ev_immutableAuditLedgerId (vr_evidence r) = Some (al_ledgerId (createValidationAuditLog lc sha (vr_evidence r)))"
  using assms
proof (cases rule: validatePlanStructure_cases)
  case (rejected c e errors)
  then show ?thesis by (simp add: rejectedResult_def Let_def)
next
  case (passes c e data)
  show ?thesis
    by (rule validateStructure_shape[OF passes(4)]) (simp add: createGraphReplaySnapshot_def aggregateStatus_def)
qed

theorem validation_result_coherent_witness:
  "\<exists>r. validatePlanStructure code_unit_compare test_sha JNull (\<lambda>_. Inl []) [] JNull None = Some r \<and>
     \<not> vr_validated r \<and> vr_status r \<noteq> ApprovedForPlanningPipeline"
proof -
  obtain r where r: "validatePlanStructure code_unit_compare test_sha JNull (\<lambda>_. Inl []) [] JNull None = Some r"
    using validation_result_exists by blast
  from this have "\<not> vr_validated r" by (cases rule: validatePlanStructure_cases) simp_all
  with validation_result_coherent[OF r] r show ?thesis by blast
qed

text \<open>A result asks for approval exactly when the plan was validated and needs
  approvals (by its classification, its mode or one of its steps) without declaring them.\<close>

lemma approval_status_exact:
  assumes "validatePlanStructure lc sha inspected parse tools input context = Some r"
  shows "vr_status r = ApprovalIsRequired \<longleftrightarrow> vr_validated r \<and> approval_gap (ev_normalizedPlan (vr_evidence r))"
  using assms
proof (cases rule: validatePlanStructure_cases)
  case (passes c e data)
  then show ?thesis using status_approval validateStructure_ok(2,3) by metis
qed simp

text \<open>C4 (validated_plan_safe): in the plan of an accepted result the authored order respects the
  transitive dependencies, every tool is registered, and a critical step that is not idempotent requires
  approval in a plan that declares approvals.\<close>

theorem validated_plan_safe:
  assumes "validatePlanStructure lc sha inspected parse tools input context = Some r" and "vr_ok r"
    and "collation lc" and "\<And>data. parse input = Inr data \<Longrightarrow> schema_conforms data"
  shows "(\<forall>(a, b) \<in> (plan_rel (ev_normalizedPlan (vr_evidence r)))\<^sup>+. stands_before (ev_normalizedPlan (vr_evidence r)) a b) \<and>
    (\<forall>s \<in> set (cp_steps (ev_normalizedPlan (vr_evidence r))). sa_tool (cs_action s) \<in> set tools \<and>
       (cs_riskLevel s = RiskCritical \<and> \<not> cs_idempotent s \<longrightarrow>
          cs_approvalRequired s \<and> cp_approvalsRequired (ev_normalizedPlan (vr_evidence r))))"
proof -
  let ?plan = "ev_normalizedPlan (vr_evidence r)"
  note facts = accepted_result[OF assms]
  have dist: "distinct (map cs_stepId (cp_steps ?plan))" and safe: "list_all (step_safe ?plan) (cp_steps ?plan)"
    using facts(1) by (simp_all add: step_graph_ok_def plan_wf_def)
  have rules: "\<forall>s \<in> set (cp_steps ?plan). step_rules tools ?plan s" and gov: "governance_ok ?plan"
    using facts(3) by (simp_all add: structure_contract_def)
  have "stands_before ?plan a b" if "(a, b) \<in> (plan_rel ?plan)\<^sup>+" for a b
    by (rule stands_before_trancl[OF dist that]) (use rules in \<open>simp add: step_rules_def\<close>)
  moreover have "sa_tool (cs_action s) \<in> set tools \<and> (cs_riskLevel s = RiskCritical \<and> \<not> cs_idempotent s \<longrightarrow>
      cs_approvalRequired s \<and> cp_approvalsRequired ?plan)" if "s \<in> set (cp_steps ?plan)" for s
    using that rules gov safe by (auto simp: step_rules_def governance_ok_def step_safe_def list_all_iff)
  ultimately show ?thesis by blast
qed

theorem validated_plan_safe_witness:
  "\<exists>r. validatePlanStructure code_unit_compare test_sha JNull (\<lambda>_. Inr valid_plan) [''tool''] valid_input None = Some r \<and>
     stands_before (ev_normalizedPlan (vr_evidence r)) ''a'' ''b''"
proof -
  obtain r where r: "validatePlanStructure code_unit_compare test_sha JNull (\<lambda>_. Inr valid_plan) [''tool''] valid_input None = Some r"
    "vr_ok r" "ev_normalizedPlan (vr_evidence r) = valid_plan" using valid_run by blast
  have "(''a'', ''b'') \<in> (plan_rel (ev_normalizedPlan (vr_evidence r)))\<^sup>+"
    by (rule r_into_trancl) (simp add: r(3) valid_rel)
  then have "stands_before (ev_normalizedPlan (vr_evidence r)) ''a'' ''b''"
    using validated_plan_safe[OF r(1,2) code_unit_collation.collation_axioms] valid_conforms by fastforce
  with r(1) show ?thesis by (intro exI[of _ r] conjI)
qed

text \<open>C14 (graph_depth_is_longest_chain): on a plan with distinct ids and acyclic dependencies the memoised
  depth recursion returns, and a bound on the depth is a bound on the length of every dependency chain.\<close>

theorem graph_depth_is_longest_chain:
  assumes "distinct (map cs_stepId (cp_steps plan))" and "acyclic (plan_rel plan)"
  shows "\<exists>m. computeGraphDepth (createGraphIndex plan) = Some m \<and>
    (\<forall>n \<ge> 1. m \<le> int n \<longleftrightarrow> chains_bounded plan n)"
  using computeGraphDepth_spec[OF assms] depth_chains[of _ plan] by metis

theorem graph_depth_is_longest_chain_witness:
  "\<exists>m. computeGraphDepth (createGraphIndex valid_plan) = Some m \<and> m \<le> 10"
proof -
  have "distinct (map cs_stepId (cp_steps valid_plan))" "acyclic (plan_rel valid_plan)"
    using valid_graph by (simp_all add: step_graph_ok_def plan_wf_def)
  from graph_depth_is_longest_chain[OF this] obtain m where m: "computeGraphDepth (createGraphIndex valid_plan) = Some m"
    "\<And>n. 1 \<le> n \<Longrightarrow> m \<le> int n \<longleftrightarrow> chains_bounded valid_plan n" by blast
  from m(2)[of 10] valid_contract have "m \<le> 10" by (simp add: structure_contract_def)
  with m(1) show ?thesis by blast
qed

end
