(* ===== verification/DependencyContract.thy ===== *)
theory DependencyContract
  imports DependencySample
begin

text \<open>
  What the sequential dependency validator promises, stated over the plan alone: the references
  resolve, the dependency relation is acyclic and every step obeys the gate, branch and policy
  rules with respect to the steps it (transitively) depends on.  \<open>accepts_iff\<close> shows that the
  composed passes accept exactly these plans.
\<close>

definition depends :: "NormalizedPlan \<Rightarrow> NormalizedPlanStep \<Rightarrow> NormalizedPlanStep \<Rightarrow> bool" where
  "depends plan a b \<longleftrightarrow> (ns_id a, ns_id b) \<in> dep_rel (buildDependencyGraph plan)"

text \<open>The steps of the plan a step transitively depends on, and those directly after it.\<close>

definition upstream :: "NormalizedPlan \<Rightarrow> NormalizedPlanStep \<Rightarrow> NormalizedPlanStep set" where
  "upstream plan step =
     {s \<in> set (np_steps plan). (ns_id s, ns_id step) \<in> (dep_rel (buildDependencyGraph plan))\<^sup>+}"

definition dependents :: "NormalizedPlan \<Rightarrow> NormalizedPlanStep \<Rightarrow> NormalizedPlanStep set" where
  "dependents plan step = {d \<in> set (np_steps plan). depends plan step d}"

definition approval_gate :: "NormalizedPlanStep \<Rightarrow> bool" where
  "approval_gate step \<longleftrightarrow> dn_operation (buildNode step) = Some ''approval_gate''"

definition preflight_gate :: "NormalizedPlanStep \<Rightarrow> bool" where
  "preflight_gate step \<longleftrightarrow> dn_operation (buildNode step) = Some ''preflight_check''"

definition destructive :: "NormalizedPlanStep \<Rightarrow> bool" where
  "destructive step \<longleftrightarrow> obj_get (ns_inputs step) ''isDestructive'' = JBool True"

definition side_effecting :: "NormalizedPlanStep \<Rightarrow> bool" where
  "side_effecting step \<longleftrightarrow> obj_get (ns_inputs step) ''hasExternalSideEffect'' = JBool True"

definition in_production :: "NormalizedPlanStep \<Rightarrow> bool" where
  "in_production step \<longleftrightarrow> obj_get (ns_inputs step) ''targetEnvironment'' = JStr ''production''"

definition gate_contract :: "NormalizedPlan \<Rightarrow> NormalizedPlanStep \<Rightarrow> bool" where
  "gate_contract plan step \<longleftrightarrow>
     (ns_approvalMode step = ApprovalREQUIRED \<or> (in_production step \<and> destructive step)
        \<longrightarrow> (\<exists>s \<in> upstream plan step. approval_gate s)) \<and>
     (obj_get (ns_inputs step) ''requiresPreflight'' = JBool True \<or> destructive step
        \<longrightarrow> (\<exists>s \<in> upstream plan step. preflight_gate s)) \<and>
     (approval_gate step \<longrightarrow> (\<forall>s \<in> upstream plan step. \<not> destructive s \<and> \<not> side_effecting s))"

definition branch_contract :: "NormalizedPlan \<Rightarrow> NormalizedPlanStep \<Rightarrow> bool" where
  "branch_contract plan step \<longleftrightarrow>
     (obj_get (ns_inputs step) ''branchType'' = JUndef
        \<or> js_String (obj_get (ns_inputs step) ''branchType'') \<in> set allowedBranchTypes) \<and>
     (resolveBranchType step \<in> {BranchRollback, BranchFailure}
        \<longrightarrow> (\<forall>d \<in> dependents plan step. resolveBranchType d \<noteq> BranchNormal)) \<and>
     (resolveBranchType step = BranchTerminal \<longrightarrow> dependents plan step = {}) \<and>
     (dn_operation (buildNode step) = Some ''verify''
        \<longrightarrow> (\<exists>target \<in> set (np_steps plan). ns_id target \<noteq> [] \<and>
              obj_get (ns_inputs step) ''verifiesStepId'' = JStr (ns_id target) \<and>
              ns_index target < ns_index step))"

definition policy_contract :: "NormalizedPlanStep \<Rightarrow> bool" where
  "policy_contract step \<longleftrightarrow>
     obj_get (ns_inputs step) ''disabled'' \<noteq> JBool True \<and>
     obj_get (ns_inputs step) ''dynamicDependencyRef'' = JUndef \<and>
     (side_effecting step \<longrightarrow> readString (ns_inputs step) ''idempotencyKey'' \<noteq> None)"

definition dependency_contract :: "NormalizedPlan \<Rightarrow> bool" where
  "dependency_contract plan \<longleftrightarrow>
     references_ok plan \<and> acyclic (dep_rel (buildDependencyGraph plan)) \<and>
     (\<forall>step \<in> set (np_steps plan).
        gate_contract plan step \<and> branch_contract plan step \<and> policy_contract step)"

section \<open>The passes on a plan with valid references\<close>

lemma readBoolean_True [simp]: "readBoolean rec k = Some True \<longleftrightarrow> obj_get rec k = JBool True"
  by (simp add: readBoolean_def split: json.split)

lemma dependentsOf_spec:
  assumes "references_ok plan" and "step \<in> set (np_steps plan)"
  shows "set (dependentsOf (buildDependencyGraph plan) (ns_id step)) = buildNode ` dependents plan step"
proof -
  let ?g = "buildDependencyGraph plan"
  have dist: "distinct (map dn_stepId (dg_nodes ?g))"
    using assms(1) by (simp add: references_ok_def comp_def)
  have "m \<in> set (dependentsOf ?g (ns_id step)) \<longleftrightarrow>
      (\<exists>v. (ns_id step, v) \<in> dep_rel ?g \<and> nodeMap (dg_nodes ?g) v = Some m)" for m
    using assms(2) by (force simp: dependentsOf_def dep_rel_def edge_pairs_def split: option.splits)
  moreover have "(\<exists>v. (ns_id step, v) \<in> dep_rel ?g \<and> nodeMap (dg_nodes ?g) v = Some m) \<longleftrightarrow>
      m \<in> set (dg_nodes ?g) \<and> (ns_id step, dn_stepId m) \<in> dep_rel ?g" for m
    using nodeMap_Some[of "dg_nodes ?g"] nodeMap_distinct[OF dist] by blast
  ultimately show ?thesis by (auto simp: dependents_def depends_def)
qed

lemma find_distinct:
  "distinct (map f xs) \<Longrightarrow> x \<in> set xs \<Longrightarrow> find (\<lambda>y. f y = f x) xs = Some x"
  by (induction xs) (auto simp: image_iff)

lemma verifyTarget_spec:
  assumes "references_ok plan" and "step \<in> set (np_steps plan)"
  shows "verifyTarget plan (buildDependencyGraph plan) (buildNode step) = Some t \<longleftrightarrow>
    (\<exists>target \<in> set (np_steps plan). t = buildNode target \<and> ns_id target \<noteq> [] \<and>
       obj_get (ns_inputs step) ''verifiesStepId'' = JStr (ns_id target))"
proof -
  let ?nodes = "dg_nodes (buildDependencyGraph plan)"
  have dist: "distinct (map ns_id (np_steps plan))" and dist': "distinct (map dn_stepId ?nodes)"
    using assms(1) by (simp_all add: references_ok_def comp_def)
  have "find (\<lambda>s. ns_id s = ns_id step) (np_steps plan) = Some step"
    using dist assms(2) by (rule find_distinct)
  then have run: "verifyTarget plan (buildDependencyGraph plan) (buildNode step) =
      (case obj_get (ns_inputs step) ''verifiesStepId'' of
         JStr target \<Rightarrow> if target \<noteq> [] then nodeMap ?nodes target else None
       | _ \<Rightarrow> None)"
    by (simp add: verifyTarget_def)
  have "nodeMap ?nodes k = Some t \<longleftrightarrow> t \<in> set ?nodes \<and> dn_stepId t = k" for k
    using nodeMap_Some[of ?nodes k t] nodeMap_distinct[OF dist', of t] by blast
  then have map: "nodeMap ?nodes k = Some t \<longleftrightarrow>
      (\<exists>target \<in> set (np_steps plan). t = buildNode target \<and> dn_stepId (buildNode target) = k)" for k
    unfolding dg_nodes_build set_map by blast
  show ?thesis
  proof (cases "obj_get (ns_inputs step) ''verifiesStepId''")
    case (JStr target)
    show ?thesis unfolding run JStr json.case json.inject using map[of target] unfolding buildNode_simps(1) by auto
  qed (auto simp: run)
qed

lemma ancestor_nodes:
  assumes "references_ok plan" and "acyclic (dep_rel (buildDependencyGraph plan))"
  obtains anc where
    "gateAncestorMap (graph_fuel (buildDependencyGraph plan)) (buildDependencyGraph plan) = Some anc"
    "policyAncestorMap (graph_fuel (buildDependencyGraph plan)) (buildDependencyGraph plan) = Some anc"
    "\<And>step. step \<in> set (np_steps plan) \<Longrightarrow>
       set (ancestorNodesOf (buildDependencyGraph plan) anc (ns_id step)) = buildNode ` upstream plan step"
proof -
  let ?g = "buildDependencyGraph plan"
  obtain anc where anc: "collectAll (graph_fuel ?g) (reverseOf ?g) (node_ids ?g) Map.empty = Some anc"
    using ancestors_enough[OF targets_ok_build assms(2)] by blast
  have "set (ancestorNodesOf ?g anc (ns_id step)) = buildNode ` upstream plan step"
    if "step \<in> set (np_steps plan)" for step
    using ancestorNodes_spec[OF assms(1) anc, of "ns_id step"] that by (auto simp: upstream_def)
  with anc show thesis by (intro that[of anc]) (simp_all add: gateAncestorMap_def policyAncestorMap_def)
qed

lemma gateErrors_Nil:
  assumes "set ns = buildNode ` upstream plan step"
  shows "gateErrors (buildNode step) step ns = [] \<longleftrightarrow>
    (ns_approvalMode step = ApprovalREQUIRED \<longrightarrow> (\<exists>s \<in> upstream plan step. approval_gate s)) \<and>
    (obj_get (ns_inputs step) ''requiresPreflight'' = JBool True \<or> destructive step
       \<longrightarrow> (\<exists>s \<in> upstream plan step. preflight_gate s)) \<and>
    (approval_gate step \<longrightarrow> (\<forall>s \<in> upstream plan step. \<not> destructive s \<and> \<not> side_effecting s))"
  by (auto simp: gateErrors_def list_ex_iff assms filter_empty_conv approval_gate_def preflight_gate_def
      destructive_def side_effecting_def isApprovalGate_def isPreflightGate_def)

lemma policyErrors_Nil:
  assumes "set ns = buildNode ` upstream plan step" and "references_ok plan"
    and "step \<in> set (np_steps plan)"
  shows "policyErrors (buildDependencyGraph plan) step (buildNode step) ns = [] \<longleftrightarrow>
    policy_contract step \<and>
    (in_production step \<and> destructive step \<longrightarrow> (\<exists>s \<in> upstream plan step. approval_gate s)) \<and>
    (destructive step \<longrightarrow> (\<exists>s \<in> upstream plan step. preflight_gate s)) \<and>
    (resolveBranchType step = BranchRollback
       \<longrightarrow> (\<forall>d \<in> dependents plan step. resolveBranchType d \<noteq> BranchNormal))"
  by (auto simp: policyErrors_def list_ex_iff assms(1) dependentsOf_spec[OF assms(2,3)]
      policy_contract_def in_production_def approval_gate_def preflight_gate_def
      destructive_def side_effecting_def isApprovalGate_def isPreflightGate_def)

lemma branchErrors_Nil:
  assumes "references_ok plan" and "step \<in> set (np_steps plan)"
  shows "rawBranchErrors step = [] \<and> branchErrors plan (buildDependencyGraph plan) (buildNode step) = []
    \<longleftrightarrow> branch_contract plan step"
proof -
  let ?g = "buildDependencyGraph plan"
  have verify: "(case verifyTarget plan ?g (buildNode step) of None \<Rightarrow> True
        | Some target \<Rightarrow> dn_sequenceIndex (buildNode step) \<le> dn_sequenceIndex target)
      \<longleftrightarrow> \<not> (\<exists>target \<in> set (np_steps plan). ns_id target \<noteq> [] \<and>
          obj_get (ns_inputs step) ''verifiesStepId'' = JStr (ns_id target) \<and>
          ns_index target < ns_index step)" (is "?l \<longleftrightarrow> \<not> ?r")
  proof (cases "verifyTarget plan ?g (buildNode step)")
    case None
    then have "\<not> ?r" using verifyTarget_spec[OF assms] by (metis option.distinct(1))
    with None show ?thesis by simp
  next
    case (Some t)
    then obtain target where t: "target \<in> set (np_steps plan)" "t = buildNode target" "ns_id target \<noteq> []"
      "obj_get (ns_inputs step) ''verifiesStepId'' = JStr (ns_id target)"
      using verifyTarget_spec[OF assms] by metis
    moreover have "other = target" if "other \<in> set (np_steps plan)" "ns_id other = ns_id target" for other
      using that t(1) assms(1) by (auto simp: references_ok_def distinct_map inj_on_def)
    ultimately show ?thesis using Some by fastforce
  qed
  have raw: "rawBranchErrors step = [] \<longleftrightarrow> obj_get (ns_inputs step) ''branchType'' = JUndef
      \<or> js_String (obj_get (ns_inputs step) ''branchType'') \<in> set allowedBranchTypes"
    by (simp add: rawBranchErrors_def Let_def)
  have "branchErrors plan ?g (buildNode step) = [] \<longleftrightarrow>
      \<not> (resolveBranchType step = BranchRollback \<and> (\<exists>d \<in> dependents plan step. resolveBranchType d = BranchNormal)) \<and>
      \<not> (resolveBranchType step = BranchFailure \<and> (\<exists>d \<in> dependents plan step. resolveBranchType d = BranchNormal)) \<and>
      \<not> (resolveBranchType step = BranchTerminal \<and> dependents plan step \<noteq> {}) \<and>
      \<not> (dn_operation (buildNode step) = Some ''verify'' \<and>
         (case verifyTarget plan ?g (buildNode step) of None \<Rightarrow> True
          | Some target \<Rightarrow> dn_sequenceIndex (buildNode step) \<le> dn_sequenceIndex target))"
    by (simp add: branchErrors_def Let_def list_ex_iff dependentsOf_spec[OF assms] flip: set_empty)
  with raw show ?thesis
    unfolding branch_contract_def verify by blast
qed

section \<open>The passes together\<close>

lemma passes_Nil:
  assumes "references_ok plan" and "acyclic (dep_rel (buildDependencyGraph plan))"
  shows "validateGateInheritance (graph_fuel (buildDependencyGraph plan)) plan (buildDependencyGraph plan) = Some [] \<and>
    validateBranchSemantics plan (buildDependencyGraph plan) = [] \<and>
    validateDependencyPolicies (graph_fuel (buildDependencyGraph plan)) plan (buildDependencyGraph plan) = Some []
    \<longleftrightarrow> dependency_contract plan"
proof -
  let ?g = "buildDependencyGraph plan"
  obtain anc where anc: "gateAncestorMap (graph_fuel ?g) ?g = Some anc"
    "policyAncestorMap (graph_fuel ?g) ?g = Some anc"
    and up: "\<And>step. step \<in> set (np_steps plan) \<Longrightarrow>
       set (ancestorNodesOf ?g anc (ns_id step)) = buildNode ` upstream plan step"
    using ancestor_nodes[OF assms] by blast
  have node: "nodeMap (dg_nodes ?g) (ns_id step) = Some (buildNode step)" if "step \<in> set (np_steps plan)" for step
    using nodeMap_distinct[of "dg_nodes ?g" "buildNode step"] that assms(1)
    by (simp add: references_ok_def comp_def)
  have "validateGateInheritance (graph_fuel ?g) plan ?g = Some [] \<longleftrightarrow>
      (\<forall>step \<in> set (np_steps plan). gateErrors (buildNode step) step (ancestorNodesOf ?g anc (ns_id step)) = [])"
    using stepMap_distinct[OF assms(1)] by (simp add: validateGateInheritance_def anc)
  moreover have "validateDependencyPolicies (graph_fuel ?g) plan ?g = Some [] \<longleftrightarrow>
      (\<forall>step \<in> set (np_steps plan). policyErrors ?g step (buildNode step) (ancestorNodesOf ?g anc (ns_id step)) = [])"
    using node by (simp add: validateDependencyPolicies_def anc)
  moreover have "validateBranchSemantics plan ?g = [] \<longleftrightarrow>
      (\<forall>step \<in> set (np_steps plan). rawBranchErrors step = [] \<and> branchErrors plan ?g (buildNode step) = [])"
    by (auto simp: validateBranchSemantics_def)
  moreover have "gateErrors (buildNode step) step (ancestorNodesOf ?g anc (ns_id step)) = [] \<and>
      (rawBranchErrors step = [] \<and> branchErrors plan ?g (buildNode step) = []) \<and>
      policyErrors ?g step (buildNode step) (ancestorNodesOf ?g anc (ns_id step)) = []
      \<longleftrightarrow> gate_contract plan step \<and> branch_contract plan step \<and> policy_contract step"
    if "step \<in> set (np_steps plan)" for step
    unfolding gateErrors_Nil[OF up[OF that]] policyErrors_Nil[OF up[OF that] assms(1) that]
      branchErrors_Nil[OF assms(1) that] gate_contract_def branch_contract_def
    by blast
  ultimately show ?thesis
    unfolding dependency_contract_def using assms by blast
qed

lemma contract_accepted:
  assumes "dependency_contract plan"
  shows "\<exists>ordered. dependencyErrors lc plan = Some (ordered, [])"
proof -
  let ?g = "buildDependencyGraph plan"
  have ok: "references_ok plan" "acyclic (dep_rel ?g)"
    using assms by (simp_all add: dependency_contract_def)
  obtain c where c: "detectDependencyCycles ?g = Some c" using detect_returns by blast
  have "acyclic (adj_rel (adjacencyOf ?g))" using ok(2) adj_rel_subset by (rule acyclic_subset)
  with c have "fst c = []" using detect_acyclic_iff[of ?g "fst c" "snd c"] by simp
  with c passes_Nil[OF ok] assms sort_acyclic[OF references_ok_wf[OF ok(1)] ok(2), of lc]
    validateDependencyReferences_Nil[of plan] ok(1)
  show ?thesis by (cases c) (auto simp: dependencyErrors_def Let_def)
qed

lemma accepts_iff:
  "(\<exists>r. validateSequentialDependencies lc sha (PlanValue plan) = Some r \<and> sd_ok r)
     \<longleftrightarrow> dependency_contract plan"
proof
  assume "\<exists>r. validateSequentialDependencies lc sha (PlanValue plan) = Some r \<and> sd_ok r"
  then obtain r where "validateSequentialDependencies lc sha (PlanValue plan) = Some r" "sd_ok r" by blast
  from accepted_dest[OF this] show "dependency_contract plan" by (simp flip: passes_Nil)
next
  assume "dependency_contract plan"
  then obtain ordered where "dependencyErrors lc plan = Some (ordered, [])"
    using contract_accepted by blast
  then show "\<exists>r. validateSequentialDependencies lc sha (PlanValue plan) = Some r \<and> sd_ok r"
    by (simp add: validate_plan_value)
qed

lemma accepted_contract:
  "validateSequentialDependencies lc sha (PlanValue plan) = Some r \<Longrightarrow> sd_ok r \<Longrightarrow> dependency_contract plan"
  using accepts_iff by blast

text \<open>Upstream steps come first in the accepted order.\<close>

lemma accepted_upstream:
  assumes "validateSequentialDependencies lc sha (PlanValue plan) = Some r" and "sd_ok r"
    and "sd_orderedStepIds r = Some xs" and "s \<in> upstream plan step"
  shows "s \<in> set (np_steps plan) \<and> precedes xs (ns_id s) (ns_id step)"
  using accepted_ancestor_precedes[OF assms(1,2) _ assms(3)] assms(4) by (simp add: upstream_def)

end
