(* ===== verification/DependencyProperties.thy ===== *)
theory DependencyProperties
  imports DependencyContract
begin

text \<open>
  The properties of the sequential dependency validator and of the canonical serialization it
  hashes with, each with a witness on the sample plans.
\<close>

section \<open>Facts the witnesses share\<close>

lemma sample_accepted:
  "\<exists>r. validateSequentialDependencies code_unit_compare id (PlanValue sample_plan) = Some r \<and> sd_ok r \<and>
     sd_orderedStepIds r = Some [''a'', ''b'', ''c'']"
  by (simp add: validate_plan_value sample_dependencyErrors)

lemma sample_references_ok: "references_ok sample_plan"
  by (simp flip: validateDependencyReferences_Nil) code_simp

lemma sample_wf: "wf_graph (buildDependencyGraph sample_plan)"
  by (rule references_ok_wf) (rule sample_references_ok)

lemma sample_acyclic: "acyclic (dep_rel (buildDependencyGraph sample_plan))"
  using dependencyErrors_returns_iff[of code_unit_compare sample_plan] sample_dependencyErrors by blast

lemma sample_third: "np_steps sample_plan ! 2 \<in> set (np_steps sample_plan)"
  by (rule nth_mem) code_simp

lemma cyclic_detected:
  "detectDependencyCycles (buildDependencyGraph cyclic_plan) =
     Some (cycleErrors [''a'', ''b'', ''a''], Some [''a'', ''b'', ''a''])"
  by code_simp

section \<open>The validator\<close>

text \<open>C15 (validator_implements_contract): the composed passes accept a normalized plan exactly when
  it meets the declarative contract: references resolve to distinct steps, the dependency relation is
  acyclic, and every step obeys the gate, branch and policy rules with respect to the steps it
  transitively depends on.\<close>

theorem validator_implements_contract:
  "(\<exists>r. validateSequentialDependencies lc sha (PlanValue plan) = Some r \<and> sd_ok r)
     \<longleftrightarrow> dependency_contract plan"
  by (rule accepts_iff)

text \<open>C29 (accepted_order_respects_dependencies): the order returned with an accepted plan lists every
  step exactly once and puts every step after all the steps it transitively depends on.\<close>

theorem accepted_order_respects_dependencies:
  assumes "validateSequentialDependencies lc sha (PlanValue plan) = Some r" and "sd_ok r"
  shows "\<exists>xs. sd_orderedStepIds r = Some xs \<and> mset xs = mset (map ns_id (np_steps plan)) \<and>
    distinct xs \<and> (\<forall>(a, b) \<in> (dep_rel (buildDependencyGraph plan))\<^sup>+. precedes xs a b)"
proof -
  obtain xs where xs: "sd_orderedStepIds r = Some xs" "mset xs = mset (map ns_id (np_steps plan))"
    using accepted_order[OF assms] by blast
  moreover have "distinct xs"
    using accepted_dest(1)[OF assms] mset_eq_imp_distinct_iff[OF xs(2)] by (simp add: references_ok_def)
  ultimately show ?thesis using accepted_ancestor_precedes[OF assms] by fast
qed

theorem accepted_order_respects_dependencies_witness:
  "\<exists>r. validateSequentialDependencies code_unit_compare id (PlanValue sample_plan) = Some r \<and>
     sd_orderedStepIds r = Some [''a'', ''b'', ''c''] \<and>
     (\<forall>(a, b) \<in> (dep_rel (buildDependencyGraph sample_plan))\<^sup>+. precedes [''a'', ''b'', ''c''] a b)"
proof -
  obtain r where r: "validateSequentialDependencies code_unit_compare id (PlanValue sample_plan) = Some r"
    "sd_ok r" "sd_orderedStepIds r = Some [''a'', ''b'', ''c'']"
    using sample_accepted by blast
  from accepted_order_respects_dependencies[OF r(1,2)]
  have "\<forall>(a, b) \<in> (dep_rel (buildDependencyGraph sample_plan))\<^sup>+. precedes [''a'', ''b'', ''c''] a b"
    unfolding r(3) option.inject by blast
  with r show ?thesis by blast
qed

text \<open>C30 (approval_gate_comes_first): in an accepted plan, a step that requires approval, or that is
  destructive in production, stands in the returned order after an approval gate; and no destructive or
  externally effective step is among the steps that gate depends on.\<close>

theorem approval_gate_comes_first:
  assumes "validateSequentialDependencies lc sha (PlanValue plan) = Some r" and "sd_ok r"
    and "sd_orderedStepIds r = Some xs" and "step \<in> set (np_steps plan)"
    and "ns_approvalMode step = ApprovalREQUIRED \<or> (in_production step \<and> destructive step)"
  shows "\<exists>gate \<in> set (np_steps plan). approval_gate gate \<and> precedes xs (ns_id gate) (ns_id step) \<and>
    (\<forall>s \<in> upstream plan gate. \<not> destructive s \<and> \<not> side_effecting s)"
proof -
  have contract: "gate_contract plan s" if "s \<in> set (np_steps plan)" for s
    using accepted_contract[OF assms(1,2)] that by (simp add: dependency_contract_def)
  from contract[OF assms(4)] assms(5) obtain gate where gate: "gate \<in> upstream plan step" "approval_gate gate"
    unfolding gate_contract_def by blast
  with accepted_upstream[OF assms(1-3)] have "gate \<in> set (np_steps plan)"
    "precedes xs (ns_id gate) (ns_id step)" by blast+
  with gate contract show ?thesis unfolding gate_contract_def by blast
qed

theorem approval_gate_comes_first_witness:
  "\<exists>gate \<in> set (np_steps sample_plan). approval_gate gate \<and> precedes [''a'', ''b'', ''c''] (ns_id gate) ''c''"
proof -
  have "ns_approvalMode (np_steps sample_plan ! 2) = ApprovalREQUIRED" "ns_id (np_steps sample_plan ! 2) = ''c''"
    by code_simp+
  with sample_accepted approval_gate_comes_first[of code_unit_compare id sample_plan, OF _ _ _ sample_third]
  show ?thesis by metis
qed

text \<open>In an accepted plan, a step that is destructive or asks for a
  preflight stands in the returned order after a preflight gate.\<close>

lemma preflight_comes_first:
  assumes "validateSequentialDependencies lc sha (PlanValue plan) = Some r" and "sd_ok r"
    and "sd_orderedStepIds r = Some xs" and "step \<in> set (np_steps plan)"
    and "destructive step \<or> obj_get (ns_inputs step) ''requiresPreflight'' = JBool True"
  shows "\<exists>gate \<in> set (np_steps plan). preflight_gate gate \<and> precedes xs (ns_id gate) (ns_id step)"
proof -
  have "gate_contract plan step"
    using accepted_contract[OF assms(1,2)] assms(4) by (simp add: dependency_contract_def)
  with assms(5) obtain gate where "gate \<in> upstream plan step" "preflight_gate gate"
    unfolding gate_contract_def by blast
  with accepted_upstream[OF assms(1-3)] show ?thesis by blast
qed

text \<open>C34 (validator_returns_iff_acyclic): the validator returns on a normalized plan exactly when its
  dependency relation is acyclic; on a cyclic one the ancestor recursion of both gate passes does not
  return, whatever its bound.\<close>

theorem validator_returns_iff_acyclic:
  "((\<exists>r. validateSequentialDependencies lc sha (PlanValue plan) = Some r)
      \<longleftrightarrow> acyclic (dep_rel (buildDependencyGraph plan))) \<and>
   ((\<exists>n r. validateGateInheritance n plan (buildDependencyGraph plan) = Some r)
      \<longleftrightarrow> acyclic (dep_rel (buildDependencyGraph plan))) \<and>
   ((\<exists>n r. validateDependencyPolicies n plan (buildDependencyGraph plan) = Some r)
      \<longleftrightarrow> acyclic (dep_rel (buildDependencyGraph plan)))"
proof -
  let ?g = "buildDependencyGraph plan"
  have "(\<exists>r. validateSequentialDependencies lc sha (PlanValue plan) = Some r) \<longleftrightarrow> acyclic (dep_rel ?g)"
    using dependencyErrors_returns_iff[of lc plan]
    by (auto simp: validate_plan_value split: Option.bind_splits)
  moreover have "validateGateInheritance n plan ?g = Some r \<Longrightarrow> acyclic (dep_rel ?g)"
    "validateDependencyPolicies n plan ?g = Some r \<Longrightarrow> acyclic (dep_rel ?g)" for n r
    using ancestors_returns_wf[OF targets_ok_build]
    by (auto simp: validateGateInheritance_def validateDependencyPolicies_def gateAncestorMap_def
        policyAncestorMap_def split: Option.bind_splits)
  ultimately show ?thesis using gates_return_iff[OF targets_ok_build[of plan], of plan] by blast
qed

text \<open>On a graph whose edges join its nodes the depth-first detector
  returns; it reports an error exactly when the relation has a cycle, and the path it reports is a
  closed walk of the relation.\<close>

lemma cycle_detector_correct:
  assumes "wf_graph g"
  shows "\<exists>errors path. detectDependencyCycles g = Some (errors, path) \<and>
    (errors = [] \<longleftrightarrow> acyclic (dep_rel g)) \<and> (path = None \<longleftrightarrow> acyclic (dep_rel g)) \<and>
    (\<forall>p. path = Some p \<longrightarrow> closed_walk (dep_rel g) p)"
proof -
  obtain errors path where d: "detectDependencyCycles g = Some (errors, path)"
    using detect_returns[of g] by auto
  from detect_cases[OF d] have "path = Some p \<Longrightarrow> closed_walk (dep_rel g) p" for p
    unfolding adj_rel_wf[OF assms] by blast
  with d detect_acyclic_iff[OF d] show ?thesis unfolding adj_rel_wf[OF assms] by blast
qed

text \<open>On a graph whose edges join its distinct nodes the sorter returns;
  if the relation is acyclic it gives every node once, each after all the nodes it depends on, and if it
  is cyclic it gives no order and the ordering error.\<close>

lemma topological_sort_correct:
  assumes "wf_graph g"
  shows "if acyclic (dep_rel g)
    then \<exists>xs. stableTopologicalSort lc g = Some (Some xs, []) \<and> mset xs = mset (node_ids g) \<and>
           topo_order (dep_rel g) xs
    else \<exists>e. stableTopologicalSort lc g = Some (None, [e]) \<and> er_code e = PLAN_ORDERING_NON_DETERMINISTIC"
  using sort_acyclic[OF assms] sort_cyclic[OF assms] by simp

text \<open>When the sequence indices increase along the plan and every
  dependency points to an earlier step, the computed order is the authored one, whatever the collation.\<close>

lemma sorter_keeps_authored_order:
  assumes "wf_graph (buildDependencyGraph plan)" and "forward (buildDependencyGraph plan)" and "comparator lc"
  shows "stableTopologicalSort lc (buildDependencyGraph plan) = Some (Some (map ns_id (np_steps plan)), [])"
  using sort_forward[OF assms] by simp

lemma fingerprint_lc:
  "createDependencyGraphFingerprint lc sha g = createDependencyGraphFingerprint lc' sha g"
proof -
  have "wf_json (fingerprint_payload g)"
    by (simp add: fingerprint_payload_def node_payload_def str_arr_def int_json_def nullish_json_def
        list.pred_map list.pred_True comp_def split: option.split)
  from normalize_sanitize_lc[OF this, of lc lc'] show ?thesis
    by (simp add: createDependencyGraphFingerprint_def reparse_serialized_def)
qed

lemma dependencyErrors_lc:
  assumes "comparator lc" and "comparator lc'" and "inj_on ns_index (set (np_steps plan))"
  shows "dependencyErrors lc plan = dependencyErrors lc' plan"
proof -
  have "inj_on dn_sequenceIndex (set (dg_nodes (buildDependencyGraph plan)))"
    using assms(3) by (auto simp: inj_on_def)
  from sort_lc[OF assms(1,2) this] show ?thesis by (simp add: dependencyErrors_def)
qed

text \<open>When the steps have distinct sequence indices, nothing in
  the result of the validator, its order and its fingerprint included, depends on the collation the
  host's \<open>localeCompare\<close> uses.\<close>

lemma validator_collation_independent:
  assumes "comparator lc" and "comparator lc'" and "inj_on ns_index (set (np_steps plan))"
  shows "validateSequentialDependencies lc sha (PlanValue plan) =
    validateSequentialDependencies lc' sha (PlanValue plan)"
  unfolding validate_plan_value fingerprint_lc[of lc sha _ lc'] dependencyErrors_lc[OF assms] ..

text \<open>On a plan with an acyclic dependency relation the memoised ancestor
  map is computed and gives each step exactly the steps it transitively depends on.\<close>

lemma ancestor_map_is_closure:
  assumes "acyclic (dep_rel (buildDependencyGraph plan))"
  shows "\<exists>anc. gateAncestorMap (graph_fuel (buildDependencyGraph plan)) (buildDependencyGraph plan) = Some anc \<and>
    (\<forall>s \<in> ns_id ` set (np_steps plan).
       set (js_default [] (anc s)) = {u. (u, s) \<in> (dep_rel (buildDependencyGraph plan))\<^sup>+})"
  using ancestors_enough[OF targets_ok_build assms] ancestors_correct[OF targets_ok_build]
  by (fastforce simp: gateAncestorMap_def)

section \<open>Canonical serialization\<close>

text \<open>Values that differ only in the order of the properties of
  their objects, at any depth, have the same canonical text.\<close>

lemma canonical_text_order_independent:
  assumes "same_value v w" and "wf_json v"
  shows "canonicalSerialize v = canonicalSerialize w"
  using same_value_normalize(1)[OF assms] by (simp add: canonicalSerialize_def toDeterministicJson_def)

text \<open>The collation-ordered serializer of the planning
  services gives the same text under every collation, and normalizing twice is normalizing once.\<close>

lemma serialization_collation_independent:
  assumes "wf_json v"
  shows "serializeDeterministically lc v = serializeDeterministically lc' v \<and>
    normalize (normalize v) = normalize v"
  using serialize_lc[OF assms] normalize_idem by simp

text \<open>A property named \<open>__proto__\<close> is dropped by the deterministic form, so a
  payload with any such property has the digest of the payload without it.\<close>

lemma hash_ignores_proto:
  "hashPayloadDeterministically sha ((''__proto__'', v) # kvs) = hashPayloadDeterministically sha kvs"
  by (simp add: hashPayloadDeterministically_def normalize_record_proto)

end
