(* ===== verification/TruthRisk.thy ===== *)
theory TruthRisk
  imports DependencyContract
begin

text \<open>
  \<open>services/planning/execution-truth\<close>: the risk types (\<open>execution-truth-types.ts\<close>), the signal
  extractor (\<open>risk-signal-extractor.ts\<close>), the scorer (\<open>deterministic-risk-scorer.ts\<close>) and the two
  passes that raise a profile (\<open>topology-risk-propagator.ts\<close>, \<open>rollback-exposure-analyzer.ts\<close>).
  Risk levels are a linear order, so that the overall risk is a maximum.  The lemmas say that the
  overall risk bounds every score and is attained, that no pass lowers it or clears the fail-closed
  flag, and what a profile that is not fail-closed says of every step.
\<close>

section \<open>Types\<close>

datatype RiskLevel =
    R0_SAFE | R1_LOW | R2_MODERATE | R3_ELEVATED | R4_HIGH | R5_CRITICAL | R6_FORBIDDEN

datatype RiskCategory =
    ExecutionRisk | RollbackRisk | ConcurrencyRisk | GovernanceRisk | AutonomyRisk | IntegrityRisk
  | EscalationRisk | ResourceRisk | DependencyRisk | ExternalSystemRisk

datatype TargetEnvironment = EnvLocal | EnvStaging | EnvProduction | EnvUnknown
datatype RollbackCapability = RollbackFull | RollbackPartial | RollbackNone | RollbackUnknown
datatype AutonomySensitivity = SensitivitySafe | SensitivityRestricted | SensitivityCritical | SensitivityUnknown

record ExecutionRiskSignals =
  sg_stepId :: string
  sg_destructive :: bool
  sg_externalSideEffect :: bool
  sg_idempotent :: bool
  sg_targetEnvironment :: TargetEnvironment
  sg_rollbackCapability :: RollbackCapability
  sg_autonomySensitivity :: AutonomySensitivity
  sg_terminalBranch :: bool
  sg_failureBranch :: bool
  sg_rollbackBranch :: bool

record RiskScore =
  sc_category :: RiskCategory
  sc_score :: int
  sc_level :: RiskLevel
  sc_reasons :: "string list"

record DeterministicRiskProfile =
  rk_overallRisk :: RiskLevel
  rk_scores :: "RiskScore list"
  rk_stepSignals :: "ExecutionRiskSignals list"
  rk_failClosed :: bool
  rk_reasons :: "string list"

datatype ExecutionTruthErrorCode =
    PHASE_4_2E_DEPENDENCY_ARTIFACT_MISSING
  | PHASE_4_2E_DEPENDENCY_VALIDATION_FAILED
  | PHASE_4_2E_RISK_SIGNAL_EXTRACTION_FAILED
  | PHASE_4_2E_FORBIDDEN_RISK
  | PHASE_4_2E_GOVERNANCE_BLOCKED
  | PHASE_4_2E_REPLAY_MISMATCH
  | PHASE_4_2E_EXECUTION_TRUTH_HASH_MISMATCH
  | PHASE_4_2E_UNKNOWN_RISK_FAIL_CLOSED

record ExecutionTruthError =
  te_code :: ExecutionTruthErrorCode
  te_message :: string
  te_details :: "json option"

definition createExecutionTruthError ::
  "ExecutionTruthErrorCode \<Rightarrow> string \<Rightarrow> json option \<Rightarrow> ExecutionTruthError" where
  "createExecutionTruthError code message details =
     \<lparr>te_code = code, te_message = message, te_details = details\<rparr>"

text \<open>The position of a level in the list \<open>ordered\<close> of the scorer.\<close>

fun risk_rank :: "RiskLevel \<Rightarrow> nat" where
  "risk_rank R0_SAFE = 0"
| "risk_rank R1_LOW = 1"
| "risk_rank R2_MODERATE = 2"
| "risk_rank R3_ELEVATED = 3"
| "risk_rank R4_HIGH = 4"
| "risk_rank R5_CRITICAL = 5"
| "risk_rank R6_FORBIDDEN = 6"

lemma risk_rank_eq [simp]: "risk_rank r = risk_rank s \<longleftrightarrow> r = s"
  by (cases r; cases s) auto

instantiation RiskLevel :: linorder
begin

definition less_eq_RiskLevel :: "RiskLevel \<Rightarrow> RiskLevel \<Rightarrow> bool" where
  "less_eq_RiskLevel r s \<longleftrightarrow> risk_rank r \<le> risk_rank s"

definition less_RiskLevel :: "RiskLevel \<Rightarrow> RiskLevel \<Rightarrow> bool" where
  "less_RiskLevel r s \<longleftrightarrow> risk_rank r < risk_rank s"

instance
  by standard (auto simp: less_eq_RiskLevel_def less_RiskLevel_def simp flip: risk_rank_eq)

end

lemma R0_least [simp]: "R0_SAFE \<le> r"
  by (simp add: less_eq_RiskLevel_def)

lemma R6_greatest [simp]: "r \<le> R6_FORBIDDEN"
  by (cases r) (simp_all add: less_eq_RiskLevel_def)

section \<open>Extracting the signals\<close>

definition readEnvironment :: "json \<Rightarrow> TargetEnvironment" where
  "readEnvironment v =
     (if v = JStr ''local'' then EnvLocal else if v = JStr ''staging'' then EnvStaging
      else if v = JStr ''production'' then EnvProduction else EnvUnknown)"

definition readRollbackCapability :: "json \<Rightarrow> RollbackCapability" where
  "readRollbackCapability v =
     (if v = JStr ''full'' then RollbackFull else if v = JStr ''partial'' then RollbackPartial
      else if v = JStr ''none'' then RollbackNone else RollbackUnknown)"

definition readAutonomySensitivity :: "json \<Rightarrow> AutonomySensitivity" where
  "readAutonomySensitivity v =
     (if v = JStr ''safe'' then SensitivitySafe else if v = JStr ''restricted'' then SensitivityRestricted
      else if v = JStr ''critical'' then SensitivityCritical else SensitivityUnknown)"

definition signalOf :: "NormalizedPlanStep \<Rightarrow> ExecutionRiskSignals" where
  "signalOf step =
     (let inputs = ns_inputs step;
          operation = (case prop_get (ns_action step) ''operation'' of JStr s \<Rightarrow> s | _ \<Rightarrow> []);
          branchType = obj_get inputs ''branchType'' in
      \<lparr>sg_stepId = ns_id step,
       sg_destructive = (obj_get inputs ''isDestructive'' = JBool True),
       sg_externalSideEffect = (obj_get inputs ''hasExternalSideEffect'' = JBool True),
       sg_idempotent = (js_truthy (obj_get inputs ''idempotencyKey'')
          \<or> operation = ''approval_gate'' \<or> operation = ''preflight_check''),
       sg_targetEnvironment = readEnvironment (obj_get inputs ''targetEnvironment''),
       sg_rollbackCapability = readRollbackCapability (obj_get inputs ''rollbackCapability''),
       sg_autonomySensitivity = readAutonomySensitivity (obj_get inputs ''autonomySensitivity''),
       sg_terminalBranch = (branchType = JStr ''terminal''),
       sg_failureBranch = (branchType = JStr ''failure''),
       sg_rollbackBranch = (branchType = JStr ''rollback'')\<rparr>)"

text \<open>On a value of the plan type none of the reads throws, so the error branch is not taken.\<close>

definition extractRiskSignals :: "NormalizedPlan \<Rightarrow> ExecutionTruthError + ExecutionRiskSignals list" where
  "extractRiskSignals plan = Inr (map signalOf (np_steps plan))"

section \<open>The scorer\<close>

datatype RiskWeight =
    W_destructive | W_externalSideEffect | W_production | W_unknownEnvironment
  | W_missingIdempotency | W_rollbackNone | W_rollbackUnknown | W_autonomyCritical
  | W_autonomyUnknown | W_terminalBranch | W_failureBranch | W_rollbackBranch

fun RISK_WEIGHTS :: "RiskWeight \<Rightarrow> int" where
  "RISK_WEIGHTS W_destructive = 30"
| "RISK_WEIGHTS W_externalSideEffect = 25"
| "RISK_WEIGHTS W_production = 30"
| "RISK_WEIGHTS W_unknownEnvironment = 20"
| "RISK_WEIGHTS W_missingIdempotency = 25"
| "RISK_WEIGHTS W_rollbackNone = 30"
| "RISK_WEIGHTS W_rollbackUnknown = 20"
| "RISK_WEIGHTS W_autonomyCritical = 30"
| "RISK_WEIGHTS W_autonomyUnknown = 15"
| "RISK_WEIGHTS W_terminalBranch = 20"
| "RISK_WEIGHTS W_failureBranch = 10"
| "RISK_WEIGHTS W_rollbackBranch = 10"

definition mapScoreToRiskLevel :: "int \<Rightarrow> bool \<Rightarrow> RiskLevel" where
  "mapScoreToRiskLevel score forbidden =
     (if forbidden then R6_FORBIDDEN
      else if score \<le> 0 then R0_SAFE
      else if score \<le> 20 then R1_LOW
      else if score \<le> 40 then R2_MODERATE
      else if score \<le> 60 then R3_ELEVATED
      else if score \<le> 80 then R4_HIGH
      else R5_CRITICAL)"

definition buildScore :: "RiskCategory \<Rightarrow> int \<Rightarrow> string list \<Rightarrow> bool \<Rightarrow> RiskScore" where
  "buildScore category score reasons forbidden =
     \<lparr>sc_category = category, sc_score = score, sc_level = mapScoreToRiskLevel score forbidden,
      sc_reasons = reasons\<rparr>"

text \<open>The contributions to one score: the weights that apply, each with its reason.\<close>

type_synonym contributions = "(RiskWeight \<times> string) list"

definition weigh :: "contributions \<Rightarrow> int" where
  "weigh cs = sum_list (map (\<lambda>(w, reason). RISK_WEIGHTS w) cs)"

definition reasonsOf :: "string \<Rightarrow> contributions \<Rightarrow> string list" where
  "reasonsOf stepId cs = map (\<lambda>(w, reason). stepId @ '': '' @ reason) cs"

definition executionPart :: "ExecutionRiskSignals \<Rightarrow> contributions" where
  "executionPart s =
     (if sg_destructive s then [(W_destructive, ''destructive operation'')] else []) @
     (case sg_targetEnvironment s of
        EnvProduction \<Rightarrow> [(W_production, ''production target'')]
      | EnvUnknown \<Rightarrow> [(W_unknownEnvironment, ''unknown target environment'')]
      | _ \<Rightarrow> [])"

definition externalPart :: "ExecutionRiskSignals \<Rightarrow> contributions" where
  "externalPart s =
     (if sg_externalSideEffect s then [(W_externalSideEffect, ''external side effect'')] else []) @
     (if (sg_destructive s \<or> sg_externalSideEffect s) \<and> \<not> sg_idempotent s
      then [(W_missingIdempotency, ''missing idempotency metadata'')] else [])"

definition rollbackPart :: "ExecutionRiskSignals \<Rightarrow> contributions" where
  "rollbackPart s =
     (case sg_rollbackCapability s of
        RollbackNone \<Rightarrow> [(W_rollbackNone, ''no rollback capability'')]
      | RollbackUnknown \<Rightarrow> [(W_rollbackUnknown, ''unknown rollback capability'')]
      | _ \<Rightarrow> []) @
     (if sg_terminalBranch s then [(W_terminalBranch, ''terminal branch increases irreversibility risk'')] else []) @
     (if sg_failureBranch s then [(W_failureBranch, ''failure branch containment risk'')] else []) @
     (if sg_rollbackBranch s then [(W_rollbackBranch, ''rollback branch exposure'')] else [])"

definition autonomyPart :: "ExecutionRiskSignals \<Rightarrow> contributions" where
  "autonomyPart s =
     (case sg_autonomySensitivity s of
        SensitivityCritical \<Rightarrow> [(W_autonomyCritical, ''critical autonomy sensitivity'')]
      | SensitivityUnknown \<Rightarrow> [(W_autonomyUnknown, ''unknown autonomy sensitivity'')]
      | _ \<Rightarrow> [])"

definition forbiddenSignal :: "ExecutionRiskSignals \<Rightarrow> bool" where
  "forbiddenSignal s \<longleftrightarrow>
     sg_destructive s \<and> sg_targetEnvironment s = EnvProduction \<and> \<not> sg_idempotent s"

definition governanceReasons :: "ExecutionRiskSignals \<Rightarrow> string list" where
  "governanceReasons s =
     (if forbiddenSignal s
      then [sg_stepId s @ '': destructive production operation without idempotency is forbidden''] else [])"

definition signalFailsClosed :: "ExecutionRiskSignals \<Rightarrow> bool" where
  "signalFailsClosed s \<longleftrightarrow>
     sg_targetEnvironment s = EnvUnknown \<or> sg_rollbackCapability s = RollbackUnknown \<or>
     sg_autonomySensitivity s = SensitivityUnknown \<or> forbiddenSignal s"

definition partScore :: "RiskCategory \<Rightarrow> string \<Rightarrow> contributions \<Rightarrow> RiskScore" where
  "partScore category stepId cs = buildScore category (weigh cs) (reasonsOf stepId cs) False"

definition signalScores :: "ExecutionRiskSignals \<Rightarrow> RiskScore list" where
  "signalScores s =
     [partScore ExecutionRisk (sg_stepId s) (executionPart s),
      partScore RollbackRisk (sg_stepId s) (rollbackPart s),
      partScore AutonomyRisk (sg_stepId s) (autonomyPart s),
      partScore ExternalSystemRisk (sg_stepId s) (externalPart s)] @
     (if governanceReasons s \<noteq> [] then [buildScore GovernanceRisk 100 (governanceReasons s) True] else [])"

definition signalReasons :: "ExecutionRiskSignals \<Rightarrow> string list" where
  "signalReasons s =
     reasonsOf (sg_stepId s) (executionPart s) @ reasonsOf (sg_stepId s) (rollbackPart s) @
     reasonsOf (sg_stepId s) (autonomyPart s) @ reasonsOf (sg_stepId s) (externalPart s) @
     governanceReasons s"

definition raiseRisk :: "RiskLevel \<Rightarrow> RiskLevel \<Rightarrow> RiskLevel" where
  "raiseRisk current level = (if risk_rank current < risk_rank level then level else current)"

definition scoreRiskDeterministically :: "ExecutionRiskSignals list \<Rightarrow> DeterministicRiskProfile" where
  "scoreRiskDeterministically stepSignals =
     (let scores = concat (map signalScores stepSignals) in
      \<lparr>rk_overallRisk = foldl (\<lambda>current score. raiseRisk current (sc_level score)) R0_SAFE scores,
       rk_scores = scores,
       rk_stepSignals = stepSignals,
       rk_failClosed = list_ex signalFailsClosed stepSignals,
       rk_reasons = concat (map signalReasons stepSignals)\<rparr>)"

section \<open>The passes that raise a profile\<close>

fun update_first :: "('a \<Rightarrow> bool) \<Rightarrow> ('a \<Rightarrow> 'a) \<Rightarrow> 'a list \<Rightarrow> 'a list" where
  "update_first P f [] = []"
| "update_first P f (x # xs) = (if P x then f x # xs else x # update_first P f xs)"

definition bumpScore :: "string \<Rightarrow> RiskScore \<Rightarrow> RiskScore" where
  "bumpScore reason score =
     score\<lparr>sc_score := sc_score score + 10, sc_level := mapScoreToRiskLevel (sc_score score + 10) False,
       sc_reasons := sc_reasons score @ [reason]\<rparr>"

definition isHighRisk :: "ExecutionRiskSignals \<Rightarrow> bool" where
  "isHighRisk s \<longleftrightarrow> sg_destructive s \<or> sg_externalSideEffect s \<or> sg_targetEnvironment s = EnvProduction"

definition propagateEdge :: "string list \<Rightarrow> RiskScore list \<times> string list \<Rightarrow> DependencyEdge
   \<Rightarrow> RiskScore list \<times> string list" where
  "propagateEdge highRiskSteps st edge =
     (case st of (scores, added) \<Rightarrow>
      if de_from edge \<in> set highRiskSteps \<and> de_edgeType edge = EdgeDependsOn then
        (let reason = de_to edge @ '': inherited upstream high-risk awareness from '' @ de_from edge in
         (if list_ex (\<lambda>e. sc_category e = DependencyRisk) scores
          then update_first (\<lambda>e. sc_category e = DependencyRisk) (bumpScore reason) scores
          else scores @ [\<lparr>sc_category = DependencyRisk, sc_score = 10, sc_level = R1_LOW,
                          sc_reasons = [reason]\<rparr>],
          added @ [de_to edge @ '': upstream risk propagated from '' @ de_from edge]))
      else (scores, added))"

definition propagateTopologyRisk ::
  "DeterministicRiskProfile \<Rightarrow> SequentialDependencyValidationResult \<Rightarrow> DeterministicRiskProfile" where
  "propagateTopologyRisk profile dependencyValidation =
     (case sd_graph dependencyValidation of
        None \<Rightarrow> profile\<lparr>rk_failClosed := True, rk_overallRisk := R6_FORBIDDEN,
          rk_reasons := rk_reasons profile
            @ [''Dependency graph missing during topology-aware risk propagation.'']\<rparr>
      | Some graph \<Rightarrow>
          (let highRiskSteps = map sg_stepId (filter isHighRisk (rk_stepSignals profile));
               (scores, added) = foldl (propagateEdge highRiskSteps) (rk_scores profile, []) (dg_edges graph)
           in profile\<lparr>rk_overallRisk :=
                foldl (\<lambda>current score. raiseRisk current (sc_level score)) (rk_overallRisk profile) scores,
              rk_scores := scores, rk_reasons := rk_reasons profile @ added\<rparr>))"

text \<open>\<open>find\<close> gives the first score of the category; the loop then changes that object in place.\<close>

definition exposeSignal :: "RiskScore list \<times> string list \<Rightarrow> ExecutionRiskSignals
   \<Rightarrow> RiskScore list \<times> string list" where
  "exposeSignal st signal =
     (case st of (scores, extra) \<Rightarrow>
      if sg_rollbackBranch signal \<and> sg_rollbackCapability signal \<noteq> RollbackFull then
        (update_first (\<lambda>e. sc_category e = RollbackRisk)
           (bumpScore (sg_stepId signal @ '': rollback branch has incomplete recovery coverage'')) scores,
         extra @ [sg_stepId signal
                    @ '': rollback exposure increased due to incomplete rollback coverage''])
      else (scores, extra))"

definition analyzeRollbackExposure :: "DeterministicRiskProfile \<Rightarrow> DeterministicRiskProfile" where
  "analyzeRollbackExposure profile =
     (let (scores, extra) = foldl exposeSignal (rk_scores profile, []) (rk_stepSignals profile)
      in profile\<lparr>rk_overallRisk :=
           foldl (\<lambda>current score. raiseRisk current (sc_level score)) (rk_overallRisk profile) scores,
         rk_scores := scores, rk_reasons := rk_reasons profile @ extra\<rparr>)"

section \<open>The overall risk\<close>

lemma raiseRisk_max: "raiseRisk r s = max r s"
  by (simp add: raiseRisk_def max_def less_eq_RiskLevel_def)

lemma Max_insert_max:
  "finite A \<Longrightarrow> Max (insert (max r l) A) = Max (insert r (insert l A))" for r :: "'a :: linorder"
  by (cases "A = {}") (simp_all add: max.assoc)

lemma foldl_raise:
  "foldl (\<lambda>current score. raiseRisk current (sc_level score)) r scores = Max (insert r (sc_level ` set scores))"
proof (induction scores arbitrary: r)
  case (Cons s scores)
  show ?case
    unfolding foldl_Cons Cons.IH unfolding raiseRisk_max list.set image_insert by (rule Max_insert_max) simp
qed simp

definition risk_of :: "DeterministicRiskProfile \<Rightarrow> RiskLevel" where
  "risk_of profile = Max (insert R0_SAFE (sc_level ` set (rk_scores profile)))"

lemma scoreRisk_overall: "rk_overallRisk (scoreRiskDeterministically signals) =
    risk_of (scoreRiskDeterministically signals)"
  by (simp add: scoreRiskDeterministically_def Let_def foldl_raise risk_of_def)

lemma scoreRisk_simps [simp]:
  "rk_stepSignals (scoreRiskDeterministically signals) = signals"
  "rk_failClosed (scoreRiskDeterministically signals) \<longleftrightarrow> (\<exists>s \<in> set signals. signalFailsClosed s)"
  by (simp_all add: scoreRiskDeterministically_def Let_def list_ex_iff)

lemma raise_passes [simp]:
  "rk_stepSignals (propagateTopologyRisk profile dv) = rk_stepSignals profile"
  "rk_stepSignals (analyzeRollbackExposure profile) = rk_stepSignals profile"
  "rk_failClosed (analyzeRollbackExposure profile) = rk_failClosed profile"
  "rk_failClosed (propagateTopologyRisk profile dv) \<longleftrightarrow> rk_failClosed profile \<or> sd_graph dv = None"
  by (auto simp: propagateTopologyRisk_def analyzeRollbackExposure_def split: option.split prod.split)

lemma propagate_raises: "rk_overallRisk profile \<le> rk_overallRisk (propagateTopologyRisk profile dv)"
  by (auto simp: propagateTopologyRisk_def foldl_raise split: option.split prod.split)

lemma analyze_raises: "rk_overallRisk profile \<le> rk_overallRisk (analyzeRollbackExposure profile)"
  by (auto simp: analyzeRollbackExposure_def foldl_raise split: prod.split)

lemma risk_of_ge: "sc \<in> set (rk_scores profile) \<Longrightarrow> sc_level sc \<le> risk_of profile"
  unfolding risk_of_def by (intro Max_ge) auto

lemma forbidden_score:
  "forbiddenSignal s \<Longrightarrow> buildScore GovernanceRisk 100 (governanceReasons s) True \<in> set (signalScores s)"
  by (simp add: signalScores_def governanceReasons_def)

lemma forbidden_overall:
  assumes "s \<in> set signals" and "forbiddenSignal s"
  shows "rk_overallRisk (scoreRiskDeterministically signals) = R6_FORBIDDEN"
proof -
  have "buildScore GovernanceRisk 100 (governanceReasons s) True
      \<in> set (rk_scores (scoreRiskDeterministically signals))"
    using forbidden_score[OF assms(2)] assms(1) by (auto simp: scoreRiskDeterministically_def Let_def)
  from risk_of_ge[OF this] show ?thesis
    by (simp add: scoreRisk_overall buildScore_def mapScoreToRiskLevel_def antisym)
qed

end
