(* ===== verification/TruthValidator.thy ===== *)
theory TruthValidator
  imports TruthRisk
begin

text \<open>
  \<open>services/planning/execution-truth\<close>: the governance and autonomy envelopes
  (\<open>governance-envelope-builder.ts\<close>, \<open>autonomy-envelope-builder.ts\<close>), the package hash
  (\<open>execution-truth-hasher.ts\<close>), the validator that composes them with the dependency validator
  (\<open>execution-truth-validator.ts\<close>) and the replay check (\<open>execution-truth-replay-validator.ts\<close>).
  \<open>deepFreeze\<close> returns its argument, so it has no counterpart.  The lemmas give the outcome of the
  validator on every branch.
\<close>

section \<open>Types\<close>

record GovernanceEnvelope =
  ge_allowed :: bool
  ge_requiredApprovals :: "string list"
  ge_blockedReasons :: "string list"
  ge_escalationRequired :: bool

datatype MaxAutonomyLevel =
    MaxNone | MaxManualOnly | MaxApprovalRequired | MaxSupervised | MaxBoundedAutonomous

record AutonomyEnvelope =
  ae_maxAutonomyLevel :: MaxAutonomyLevel
  ae_downgradeReasons :: "string list"

record ReplayEnvelope =
  re_replayable :: bool
  re_sourceFingerprint :: string
  re_replayHash :: string

record ExecutionTruthPackage =
  tp_planId :: string
  tp_dependencyGraphFingerprint :: string
  tp_riskProfile :: DeterministicRiskProfile
  tp_governanceEnvelope :: GovernanceEnvelope
  tp_autonomyEnvelope :: AutonomyEnvelope
  tp_replayEnvelope :: ReplayEnvelope
  tp_executionTruthHash :: string
  tp_authorized :: bool

datatype ExecutionTruthResult =
    TruthOk SequentialDependencyValidationResult ExecutionTruthPackage
  | TruthFailed ExecutionTruthError "SequentialDependencyValidationResult option"

datatype ExecutionTruthReplayValidationResult =
    ReplayOk ExecutionTruthPackage
  | ReplayFailed ExecutionTruthError

text \<open>\<open>{ normalizedPlan, dependencyValidation? }\<close>, or the plan itself.\<close>

datatype truth_input =
    BuildInput "NormalizedPlan option" "SequentialDependencyValidationResult option"
  | PlanInput NormalizedPlan

fun autonomy_rank :: "MaxAutonomyLevel \<Rightarrow> nat" where
  "autonomy_rank MaxNone = 0"
| "autonomy_rank MaxManualOnly = 1"
| "autonomy_rank MaxApprovalRequired = 2"
| "autonomy_rank MaxSupervised = 3"
| "autonomy_rank MaxBoundedAutonomous = 4"

lemma autonomy_rank_eq [simp]: "autonomy_rank a = autonomy_rank b \<longleftrightarrow> a = b"
  by (cases a; cases b) auto

instantiation MaxAutonomyLevel :: linorder
begin

definition less_eq_MaxAutonomyLevel :: "MaxAutonomyLevel \<Rightarrow> MaxAutonomyLevel \<Rightarrow> bool" where
  "less_eq_MaxAutonomyLevel a b \<longleftrightarrow> autonomy_rank a \<le> autonomy_rank b"

definition less_MaxAutonomyLevel :: "MaxAutonomyLevel \<Rightarrow> MaxAutonomyLevel \<Rightarrow> bool" where
  "less_MaxAutonomyLevel a b \<longleftrightarrow> autonomy_rank a < autonomy_rank b"

instance
  by standard (auto simp: less_eq_MaxAutonomyLevel_def less_MaxAutonomyLevel_def simp flip: autonomy_rank_eq)

end

section \<open>The envelopes\<close>

definition signalApprovals :: "string list \<Rightarrow> ExecutionRiskSignals \<Rightarrow> string list" where
  "signalApprovals approvals s =
     (let a = (if sg_targetEnvironment s = EnvProduction then set_add ''production'' approvals else approvals);
          b = (if sg_rollbackCapability s = RollbackNone \<or> sg_rollbackCapability s = RollbackUnknown
               then set_add ''rollback'' a else a)
      in if sg_autonomySensitivity s = SensitivityCritical then set_add ''autonomy'' b else b)"

definition signalBlocks :: "ExecutionRiskSignals \<Rightarrow> string list" where
  "signalBlocks s =
     (if sg_destructive s \<and> sg_targetEnvironment s = EnvProduction \<and> \<not> sg_idempotent s
      then [''Step '' @ sg_stepId s @ '' is a destructive production action without deterministic idempotency.'']
      else []) @
     (if sg_externalSideEffect s \<and> sg_targetEnvironment s = EnvProduction \<and> \<not> sg_idempotent s
      then [''Step '' @ sg_stepId s @ '' has production side effects without idempotency.''] else [])"

text \<open>\<open>!fingerprint\<close>: absent or empty.\<close>

definition no_fingerprint :: "SequentialDependencyValidationResult \<Rightarrow> bool" where
  "no_fingerprint dv \<longleftrightarrow> js_default [] (sd_dependencyGraphFingerprint dv) = []"

definition buildGovernanceEnvelope ::
  "(string \<Rightarrow> string \<Rightarrow> int) \<Rightarrow> DeterministicRiskProfile \<Rightarrow> SequentialDependencyValidationResult
   \<Rightarrow> GovernanceEnvelope" where
  "buildGovernanceEnvelope lc profile dv =
     (let highRisk = rk_overallRisk profile = R4_HIGH \<or> rk_overallRisk profile = R5_CRITICAL;
          approvals = foldl signalApprovals [] (rk_stepSignals profile);
          blocked =
            (if \<not> sd_ok dv then [''Dependency validation failed.''] else []) @
            (if no_fingerprint dv then [''Dependency graph fingerprint missing.''] else []) @
            (if rk_overallRisk profile = R6_FORBIDDEN then [''Forbidden risk detected.''] else []) @
            (if rk_failClosed profile then [''Risk profile entered fail-closed mode.''] else []) @
            concat (map signalBlocks (rk_stepSignals profile))
      in \<lparr>ge_allowed = (blocked = []),
          ge_requiredApprovals =
            js_sort lc (if highRisk then set_add ''high_risk'' approvals else approvals),
          ge_blockedReasons = blocked,
          ge_escalationRequired =
            (list_ex (\<lambda>s. sg_targetEnvironment s = EnvProduction) (rk_stepSignals profile) \<or> highRisk)\<rparr>)"

definition buildAutonomyEnvelope ::
  "DeterministicRiskProfile \<Rightarrow> GovernanceEnvelope \<Rightarrow> AutonomyEnvelope" where
  "buildAutonomyEnvelope profile governance =
     (if \<not> ge_allowed governance \<or> rk_overallRisk profile = R6_FORBIDDEN \<or> rk_failClosed profile then
        \<lparr>ae_maxAutonomyLevel = MaxNone,
         ae_downgradeReasons = [''Governance or fail-closed risk state blocks autonomous execution.'']\<rparr>
      else if list_ex (\<lambda>s. sg_targetEnvironment s = EnvProduction \<and> sg_destructive s) (rk_stepSignals profile) then
        \<lparr>ae_maxAutonomyLevel = MaxManualOnly,
         ae_downgradeReasons = [''Production destructive action limits autonomy to manual_only.'']\<rparr>
      else if list_ex (\<lambda>s. sg_autonomySensitivity s = SensitivityCritical) (rk_stepSignals profile) then
        \<lparr>ae_maxAutonomyLevel = MaxApprovalRequired,
         ae_downgradeReasons = [''Critical autonomy sensitivity requires approval.'']\<rparr>
      else (case rk_overallRisk profile of
        R0_SAFE \<Rightarrow> \<lparr>ae_maxAutonomyLevel = MaxBoundedAutonomous, ae_downgradeReasons = []\<rparr>
      | R1_LOW \<Rightarrow> \<lparr>ae_maxAutonomyLevel = MaxBoundedAutonomous, ae_downgradeReasons = []\<rparr>
      | R2_MODERATE \<Rightarrow> \<lparr>ae_maxAutonomyLevel = MaxSupervised,
          ae_downgradeReasons = [''Moderate risk limits autonomy to supervised.'']\<rparr>
      | R3_ELEVATED \<Rightarrow> \<lparr>ae_maxAutonomyLevel = MaxApprovalRequired,
          ae_downgradeReasons = [''Elevated risk requires explicit approval.'']\<rparr>
      | R4_HIGH \<Rightarrow> \<lparr>ae_maxAutonomyLevel = MaxManualOnly,
          ae_downgradeReasons = [''High risk limits autonomy to manual_only.'']\<rparr>
      | R5_CRITICAL \<Rightarrow> \<lparr>ae_maxAutonomyLevel = MaxManualOnly,
          ae_downgradeReasons = [''High risk limits autonomy to manual_only.'']\<rparr>
      | R6_FORBIDDEN \<Rightarrow> \<lparr>ae_maxAutonomyLevel = MaxNone,
          ae_downgradeReasons = [''Unknown risk state collapses autonomy to none.'']\<rparr>))"

section \<open>The hash\<close>

fun risk_level_str :: "RiskLevel \<Rightarrow> string" where
  "risk_level_str R0_SAFE = ''R0_SAFE''"
| "risk_level_str R1_LOW = ''R1_LOW''"
| "risk_level_str R2_MODERATE = ''R2_MODERATE''"
| "risk_level_str R3_ELEVATED = ''R3_ELEVATED''"
| "risk_level_str R4_HIGH = ''R4_HIGH''"
| "risk_level_str R5_CRITICAL = ''R5_CRITICAL''"
| "risk_level_str R6_FORBIDDEN = ''R6_FORBIDDEN''"

fun risk_category_str :: "RiskCategory \<Rightarrow> string" where
  "risk_category_str ExecutionRisk = ''execution_risk''"
| "risk_category_str RollbackRisk = ''rollback_risk''"
| "risk_category_str ConcurrencyRisk = ''concurrency_risk''"
| "risk_category_str GovernanceRisk = ''governance_risk''"
| "risk_category_str AutonomyRisk = ''autonomy_risk''"
| "risk_category_str IntegrityRisk = ''integrity_risk''"
| "risk_category_str EscalationRisk = ''escalation_risk''"
| "risk_category_str ResourceRisk = ''resource_risk''"
| "risk_category_str DependencyRisk = ''dependency_risk''"
| "risk_category_str ExternalSystemRisk = ''external_system_risk''"

fun environment_str :: "TargetEnvironment \<Rightarrow> string" where
  "environment_str EnvLocal = ''local''"
| "environment_str EnvStaging = ''staging''"
| "environment_str EnvProduction = ''production''"
| "environment_str EnvUnknown = ''unknown''"

fun rollback_str :: "RollbackCapability \<Rightarrow> string" where
  "rollback_str RollbackFull = ''full''"
| "rollback_str RollbackPartial = ''partial''"
| "rollback_str RollbackNone = ''none''"
| "rollback_str RollbackUnknown = ''unknown''"

fun sensitivity_str :: "AutonomySensitivity \<Rightarrow> string" where
  "sensitivity_str SensitivitySafe = ''safe''"
| "sensitivity_str SensitivityRestricted = ''restricted''"
| "sensitivity_str SensitivityCritical = ''critical''"
| "sensitivity_str SensitivityUnknown = ''unknown''"

fun max_autonomy_str :: "MaxAutonomyLevel \<Rightarrow> string" where
  "max_autonomy_str MaxNone = ''none''"
| "max_autonomy_str MaxManualOnly = ''manual_only''"
| "max_autonomy_str MaxApprovalRequired = ''approval_required''"
| "max_autonomy_str MaxSupervised = ''supervised''"
| "max_autonomy_str MaxBoundedAutonomous = ''bounded_autonomous''"

fun truth_code_str :: "ExecutionTruthErrorCode \<Rightarrow> string" where
  "truth_code_str PHASE_4_2E_DEPENDENCY_ARTIFACT_MISSING = ''PHASE_4_2E_DEPENDENCY_ARTIFACT_MISSING''"
| "truth_code_str PHASE_4_2E_DEPENDENCY_VALIDATION_FAILED = ''PHASE_4_2E_DEPENDENCY_VALIDATION_FAILED''"
| "truth_code_str PHASE_4_2E_RISK_SIGNAL_EXTRACTION_FAILED = ''PHASE_4_2E_RISK_SIGNAL_EXTRACTION_FAILED''"
| "truth_code_str PHASE_4_2E_FORBIDDEN_RISK = ''PHASE_4_2E_FORBIDDEN_RISK''"
| "truth_code_str PHASE_4_2E_GOVERNANCE_BLOCKED = ''PHASE_4_2E_GOVERNANCE_BLOCKED''"
| "truth_code_str PHASE_4_2E_REPLAY_MISMATCH = ''PHASE_4_2E_REPLAY_MISMATCH''"
| "truth_code_str PHASE_4_2E_EXECUTION_TRUTH_HASH_MISMATCH = ''PHASE_4_2E_EXECUTION_TRUTH_HASH_MISMATCH''"
| "truth_code_str PHASE_4_2E_UNKNOWN_RISK_FAIL_CLOSED = ''PHASE_4_2E_UNKNOWN_RISK_FAIL_CLOSED''"

definition signal_json :: "ExecutionRiskSignals \<Rightarrow> json" where
  "signal_json s = JObj
     [(''stepId'', JStr (sg_stepId s)), (''destructive'', JBool (sg_destructive s)),
      (''externalSideEffect'', JBool (sg_externalSideEffect s)), (''idempotent'', JBool (sg_idempotent s)),
      (''targetEnvironment'', JStr (environment_str (sg_targetEnvironment s))),
      (''rollbackCapability'', JStr (rollback_str (sg_rollbackCapability s))),
      (''autonomySensitivity'', JStr (sensitivity_str (sg_autonomySensitivity s))),
      (''terminalBranch'', JBool (sg_terminalBranch s)), (''failureBranch'', JBool (sg_failureBranch s)),
      (''rollbackBranch'', JBool (sg_rollbackBranch s)), (''source'', JStr ''normalized_step_inputs'')]"

definition score_json :: "RiskScore \<Rightarrow> json" where
  "score_json s = JObj
     [(''category'', JStr (risk_category_str (sc_category s))), (''score'', int_json (sc_score s)),
      (''level'', JStr (risk_level_str (sc_level s))), (''reasons'', str_arr (sc_reasons s))]"

definition profile_json :: "DeterministicRiskProfile \<Rightarrow> json" where
  "profile_json p = JObj
     [(''overallRisk'', JStr (risk_level_str (rk_overallRisk p))),
      (''scores'', JArr (map score_json (rk_scores p))),
      (''stepSignals'', JArr (map signal_json (rk_stepSignals p))),
      (''failClosed'', JBool (rk_failClosed p)), (''reasons'', str_arr (rk_reasons p))]"

definition governance_json :: "GovernanceEnvelope \<Rightarrow> json" where
  "governance_json g = JObj
     [(''allowed'', JBool (ge_allowed g)), (''requiredApprovals'', str_arr (ge_requiredApprovals g)),
      (''blockedReasons'', str_arr (ge_blockedReasons g)),
      (''escalationRequired'', JBool (ge_escalationRequired g))]"

definition autonomy_json :: "AutonomyEnvelope \<Rightarrow> json" where
  "autonomy_json a = JObj
     [(''maxAutonomyLevel'', JStr (max_autonomy_str (ae_maxAutonomyLevel a))),
      (''downgradeReasons'', str_arr (ae_downgradeReasons a))]"

definition truth_payload ::
  "string option \<Rightarrow> string \<Rightarrow> DeterministicRiskProfile \<Rightarrow> GovernanceEnvelope \<Rightarrow> AutonomyEnvelope
   \<Rightarrow> ReplayEnvelope \<Rightarrow> json" where
  "truth_payload version fingerprint profile governance autonomy replay = JObj
     [(''version'', JStr (js_default ''4.2E'' version)),
      (''dependencyGraphFingerprint'', JStr fingerprint),
      (''riskProfile'', profile_json profile),
      (''governanceEnvelope'', governance_json governance),
      (''autonomyEnvelope'', autonomy_json autonomy),
      (''replayEnvelope'', JObj
         [(''sourceFingerprint'', JStr (re_sourceFingerprint replay)),
          (''replayHash'', JStr (re_replayHash replay)),
          (''replayable'', JBool (re_replayable replay))])]"

definition hashExecutionTruth ::
  "(string \<Rightarrow> string \<Rightarrow> int) \<Rightarrow> (string \<Rightarrow> string) \<Rightarrow> string option \<Rightarrow> string
   \<Rightarrow> DeterministicRiskProfile \<Rightarrow> GovernanceEnvelope \<Rightarrow> AutonomyEnvelope \<Rightarrow> ReplayEnvelope \<Rightarrow> string" where
  "hashExecutionTruth lc sha version fingerprint profile governance autonomy replay =
     hashPayloadDeterministically sha
       (members (reparse_serialized lc (truth_payload version fingerprint profile governance autonomy replay)))"

section \<open>The validator\<close>

definition replayEnvelopeOf :: "(string \<Rightarrow> string) \<Rightarrow> NormalizedPlan \<Rightarrow> string \<Rightarrow> ReplayEnvelope" where
  "replayEnvelopeOf sha plan fingerprint =
     \<lparr>re_replayable = True, re_sourceFingerprint = fingerprint,
      re_replayHash = hashPayloadDeterministically sha
        [(''dependencyGraphFingerprint'', JStr fingerprint),
         (''normalizationHash'', JStr (np_normalizationHash plan)),
         (''replayHash'', JStr (np_replayHash plan)),
         (''validationHash'', JStr (np_validationHash plan))]\<rparr>"

definition riskProfileOf ::
  "ExecutionRiskSignals list \<Rightarrow> SequentialDependencyValidationResult \<Rightarrow> DeterministicRiskProfile" where
  "riskProfileOf signals dv =
     analyzeRollbackExposure (propagateTopologyRisk (scoreRiskDeterministically signals) dv)"

definition truthPackage ::
  "(string \<Rightarrow> string \<Rightarrow> int) \<Rightarrow> (string \<Rightarrow> string) \<Rightarrow> NormalizedPlan \<Rightarrow> string
   \<Rightarrow> DeterministicRiskProfile \<Rightarrow> GovernanceEnvelope \<Rightarrow> ExecutionTruthPackage" where
  "truthPackage lc sha plan fingerprint profile governance =
     (let autonomy = buildAutonomyEnvelope profile governance;
          replay = replayEnvelopeOf sha plan fingerprint in
      \<lparr>tp_planId = np_planId plan, tp_dependencyGraphFingerprint = fingerprint,
       tp_riskProfile = profile, tp_governanceEnvelope = governance, tp_autonomyEnvelope = autonomy,
       tp_replayEnvelope = replay,
       tp_executionTruthHash = hashExecutionTruth lc sha None fingerprint profile governance autonomy replay,
       tp_authorized = ge_allowed governance\<rparr>)"

definition truthOfValidated ::
  "(string \<Rightarrow> string \<Rightarrow> int) \<Rightarrow> (string \<Rightarrow> string) \<Rightarrow> NormalizedPlan
   \<Rightarrow> SequentialDependencyValidationResult \<Rightarrow> ExecutionTruthResult" where
  "truthOfValidated lc sha plan dv =
     (if \<not> sd_ok dv \<or> no_fingerprint dv then
        TruthFailed (createExecutionTruthError PHASE_4_2E_DEPENDENCY_VALIDATION_FAILED
          ''Execution truth validation requires a successful 4.2D dependency validation artifact.'' None) (Some dv)
      else case extractRiskSignals plan of
        Inl error \<Rightarrow> TruthFailed error (Some dv)
      | Inr signals \<Rightarrow>
          (let profile = riskProfileOf signals dv;
               governance = buildGovernanceEnvelope lc profile dv in
           if \<not> ge_allowed governance \<and> rk_overallRisk profile = R6_FORBIDDEN then
             TruthFailed (createExecutionTruthError PHASE_4_2E_FORBIDDEN_RISK
               ''Forbidden risk blocked execution truth authorization.'' None) (Some dv)
           else if rk_failClosed profile \<and> rk_overallRisk profile \<noteq> R6_FORBIDDEN then
             TruthFailed (createExecutionTruthError PHASE_4_2E_UNKNOWN_RISK_FAIL_CLOSED
               ''Unknown or unstable risk state forced fail-closed behavior.'' None) (Some dv)
           else if \<not> ge_allowed governance then
             TruthFailed (createExecutionTruthError PHASE_4_2E_GOVERNANCE_BLOCKED
               ''Governance envelope blocked execution truth authorization.''
               (Some (JObj [(''blockedReasons'', str_arr (ge_blockedReasons governance))]))) (Some dv)
           else TruthOk dv (truthPackage lc sha plan
                  (js_default [] (sd_dependencyGraphFingerprint dv)) profile governance)))"

fun planOfInput :: "truth_input \<Rightarrow> NormalizedPlan option" where
  "planOfInput (PlanInput plan) = Some plan"
| "planOfInput (BuildInput plan _) = plan"

text \<open>The supplied dependency artifact, when there is one, is used instead of a fresh validation.\<close>

fun suppliedValidation :: "truth_input \<Rightarrow> SequentialDependencyValidationResult option" where
  "suppliedValidation (PlanInput _) = None"
| "suppliedValidation (BuildInput _ dv) = dv"

definition validateExecutionTruth ::
  "(string \<Rightarrow> string \<Rightarrow> int) \<Rightarrow> (string \<Rightarrow> string) \<Rightarrow> truth_input \<Rightarrow> ExecutionTruthResult option" where
  "validateExecutionTruth lc sha input =
     (case planOfInput input of
        None \<Rightarrow> Some (TruthFailed (createExecutionTruthError PHASE_4_2E_DEPENDENCY_ARTIFACT_MISSING
          ''Execution truth validation requires a normalized 4.2C plan.'' None) None)
      | Some plan \<Rightarrow> do {
          dv \<leftarrow> (case suppliedValidation input of
                   Some dv \<Rightarrow> Some dv
                 | None \<Rightarrow> validateSequentialDependencies lc sha (PlanValue plan));
          Some (truthOfValidated lc sha plan dv)
        })"

section \<open>The replay check\<close>

definition truth_error_json :: "ExecutionTruthError \<Rightarrow> json" where
  "truth_error_json e = JObj
     [(''code'', JStr (truth_code_str (te_code e))), (''message'', JStr (te_message e)),
      (''details'', opt_json id (te_details e))]"

definition validateExecutionTruthReplay ::
  "(string \<Rightarrow> string \<Rightarrow> int) \<Rightarrow> (string \<Rightarrow> string) \<Rightarrow> NormalizedPlan \<Rightarrow> ExecutionTruthPackage
   \<Rightarrow> ExecutionTruthReplayValidationResult option" where
  "validateExecutionTruthReplay lc sha plan pkg = do {
     recomputed \<leftarrow> validateExecutionTruth lc sha (BuildInput (Some plan) None);
     Some (case recomputed of
       TruthFailed error _ \<Rightarrow> ReplayFailed (createExecutionTruthError PHASE_4_2E_REPLAY_MISMATCH
         ''Replay validation failed because execution truth could not be recomputed.''
         (Some (JObj [(''error'', truth_error_json error)])))
     | TruthOk _ fresh \<Rightarrow>
         if tp_executionTruthHash fresh \<noteq> tp_executionTruthHash pkg then
           ReplayFailed (createExecutionTruthError PHASE_4_2E_EXECUTION_TRUTH_HASH_MISMATCH
             ''Execution truth hash mismatch during replay validation.'' None)
         else ReplayOk fresh)
   }"

section \<open>The outcome\<close>

definition unknown_signal :: "ExecutionRiskSignals \<Rightarrow> bool" where
  "unknown_signal s \<longleftrightarrow> sg_targetEnvironment s = EnvUnknown \<or> sg_rollbackCapability s = RollbackUnknown \<or>
     sg_autonomySensitivity s = SensitivityUnknown"

definition unsafe_effect :: "ExecutionRiskSignals \<Rightarrow> bool" where
  "unsafe_effect s \<longleftrightarrow> sg_externalSideEffect s \<and> sg_targetEnvironment s = EnvProduction \<and> \<not> sg_idempotent s"

text \<open>The error the validator is to give, if any, in the order in which it decides.\<close>

definition truth_outcome ::
  "ExecutionRiskSignals list \<Rightarrow> SequentialDependencyValidationResult \<Rightarrow> ExecutionTruthErrorCode option" where
  "truth_outcome signals dv =
     (if \<not> sd_ok dv \<or> no_fingerprint dv then Some PHASE_4_2E_DEPENDENCY_VALIDATION_FAILED
      else if sd_graph dv = None \<or> list_ex forbiddenSignal signals then Some PHASE_4_2E_FORBIDDEN_RISK
      else if list_ex unknown_signal signals then Some PHASE_4_2E_UNKNOWN_RISK_FAIL_CLOSED
      else if list_ex unsafe_effect signals then Some PHASE_4_2E_GOVERNANCE_BLOCKED
      else None)"

fun outcome_code :: "ExecutionTruthResult \<Rightarrow> ExecutionTruthErrorCode option" where
  "outcome_code (TruthOk _ _) = None"
| "outcome_code (TruthFailed e _) = Some (te_code e)"

lemma bumpScore_level [simp]: "sc_level (bumpScore reason sc) \<noteq> R6_FORBIDDEN"
  by (simp add: bumpScore_def mapScoreToRiskLevel_def)

definition none_forbidden :: "RiskScore list \<Rightarrow> bool" where
  "none_forbidden scores \<longleftrightarrow> list_all (\<lambda>sc. sc_level sc \<noteq> R6_FORBIDDEN) scores"

lemma update_first_bump: "none_forbidden scores \<Longrightarrow> none_forbidden (update_first P (bumpScore reason) scores)"
  by (induction scores) (auto simp: none_forbidden_def)

lemma propagateEdge_levels: "none_forbidden (fst st) \<Longrightarrow> none_forbidden (fst (propagateEdge high st edge))"
  by (cases st) (simp add: propagateEdge_def Let_def update_first_bump, simp add: none_forbidden_def)

lemma foldl_propagate:
  "none_forbidden (fst st) \<Longrightarrow> none_forbidden (fst (foldl (propagateEdge high) st edges))"
  by (induction edges arbitrary: st) (simp_all add: propagateEdge_levels)

lemma exposeSignal_levels: "none_forbidden (fst st) \<Longrightarrow> none_forbidden (fst (exposeSignal st signal))"
  by (cases st) (simp add: exposeSignal_def update_first_bump)

lemma foldl_expose:
  "none_forbidden (fst st) \<Longrightarrow> none_forbidden (fst (foldl exposeSignal st signals))"
  by (induction signals arbitrary: st) (simp_all add: exposeSignal_levels)

lemma signalScores_levels: "\<not> forbiddenSignal s \<Longrightarrow> none_forbidden (signalScores s)"
  by (simp add: none_forbidden_def signalScores_def partScore_def buildScore_def mapScoreToRiskLevel_def
      governanceReasons_def)

lemma scoreRisk_levels:
  "\<not> list_ex forbiddenSignal signals \<Longrightarrow> none_forbidden (rk_scores (scoreRiskDeterministically signals))"
proof (induction signals)
  case (Cons s signals)
  then show ?case using signalScores_levels[of s]
    by (simp add: scoreRiskDeterministically_def Let_def none_forbidden_def)
qed (simp add: scoreRiskDeterministically_def none_forbidden_def)

lemma Max_not_forbidden:
  "none_forbidden scores \<Longrightarrow> r \<noteq> R6_FORBIDDEN \<Longrightarrow>
     foldl (\<lambda>current score. raiseRisk current (sc_level score)) r scores \<noteq> R6_FORBIDDEN"
  by (induction scores arbitrary: r) (simp_all add: none_forbidden_def raiseRisk_def)

lemma riskProfile_forbidden:
  "rk_overallRisk (riskProfileOf signals dv) = R6_FORBIDDEN \<longleftrightarrow>
     sd_graph dv = None \<or> list_ex forbiddenSignal signals"
proof -
  let ?scored = "scoreRiskDeterministically signals" and ?p = "propagateTopologyRisk (scoreRiskDeterministically signals) dv"
  have up: "r = R6_FORBIDDEN" if "R6_FORBIDDEN \<le> r" for r
    using that by (simp add: antisym)
  consider (graph) "sd_graph dv = None" | (signal) "list_ex forbiddenSignal signals"
    | (none) g where "sd_graph dv = Some g" "\<not> list_ex forbiddenSignal signals" by auto
  then show ?thesis
  proof cases
    case graph
    then have "rk_overallRisk ?p = R6_FORBIDDEN" by (simp add: propagateTopologyRisk_def)
    with analyze_raises[of ?p] graph up show ?thesis by (simp add: riskProfileOf_def)
  next
    case signal
    then have "rk_overallRisk ?scored = R6_FORBIDDEN" by (auto simp: list_ex_iff intro: forbidden_overall)
    with propagate_raises[of ?scored dv] analyze_raises[of ?p] signal up show ?thesis
      by (simp add: riskProfileOf_def)
  next
    case none
    note scores = scoreRisk_levels[OF none(2)]
    have overall: "rk_overallRisk ?scored \<noteq> R6_FORBIDDEN"
      using Max_not_forbidden[OF scores, of R0_SAFE]
      by (simp add: scoreRiskDeterministically_def Let_def)
    let ?high = "map sg_stepId (filter isHighRisk signals)"
    have ps: "none_forbidden (rk_scores ?p)"
      using foldl_propagate[of "(rk_scores ?scored, [])" ?high "dg_edges g"] scores none(1)
      by (simp add: propagateTopologyRisk_def case_prod_beta Let_def)
    then have po: "rk_overallRisk ?p \<noteq> R6_FORBIDDEN"
      using Max_not_forbidden[OF _ overall] none(1)
      by (simp add: propagateTopologyRisk_def case_prod_beta Let_def)
    have "none_forbidden (fst (foldl exposeSignal (rk_scores ?p, []) signals))"
      using foldl_expose[of "(rk_scores ?p, [])"] ps by simp
    from Max_not_forbidden[OF this po] none show ?thesis
      by (simp add: riskProfileOf_def analyzeRollbackExposure_def case_prod_beta Let_def)
  qed
qed

lemma riskProfile_failClosed:
  "rk_failClosed (riskProfileOf signals dv) \<longleftrightarrow>
     sd_graph dv = None \<or> list_ex forbiddenSignal signals \<or> list_ex unknown_signal signals"
  by (auto simp: riskProfileOf_def signalFailsClosed_def unknown_signal_def list_ex_iff)

lemma riskProfile_signals [simp]: "rk_stepSignals (riskProfileOf signals dv) = signals"
  by (simp add: riskProfileOf_def)

lemma signalBlocks_Nil: "signalBlocks s = [] \<longleftrightarrow> \<not> forbiddenSignal s \<and> \<not> unsafe_effect s"
  by (simp add: signalBlocks_def forbiddenSignal_def unsafe_effect_def)

lemma governance_allowed:
  "ge_allowed (buildGovernanceEnvelope lc (riskProfileOf signals dv) dv) \<longleftrightarrow>
     truth_outcome signals dv = None"
  by (auto simp: buildGovernanceEnvelope_def Let_def riskProfile_forbidden riskProfile_failClosed
      signalBlocks_Nil truth_outcome_def list_ex_iff)

lemma outcome_truthOfValidated:
  "outcome_code (truthOfValidated lc sha plan dv) = truth_outcome (map signalOf (np_steps plan)) dv"
  unfolding truthOfValidated_def extractRiskSignals_def sum.case Let_def governance_allowed
    riskProfile_forbidden riskProfile_failClosed
  by (simp add: truth_outcome_def createExecutionTruthError_def)

lemma truthOfValidated_Ok:
  assumes "truthOfValidated lc sha plan dv = TruthOk dv' pkg"
  shows "dv' = dv" and "truth_outcome (map signalOf (np_steps plan)) dv = None"
    and "pkg = truthPackage lc sha plan (js_default [] (sd_dependencyGraphFingerprint dv))
      (riskProfileOf (map signalOf (np_steps plan)) dv)
      (buildGovernanceEnvelope lc (riskProfileOf (map signalOf (np_steps plan)) dv) dv)"
    and "ge_allowed (tp_governanceEnvelope pkg)"
proof -
  show none: "truth_outcome (map signalOf (np_steps plan)) dv = None"
    using outcome_truthOfValidated[of lc sha plan dv] assms by simp
  from assms show "dv' = dv" and pkg: "pkg = truthPackage lc sha plan (js_default [] (sd_dependencyGraphFingerprint dv))
      (riskProfileOf (map signalOf (np_steps plan)) dv)
      (buildGovernanceEnvelope lc (riskProfileOf (map signalOf (np_steps plan)) dv) dv)"
    by (auto simp: truthOfValidated_def extractRiskSignals_def Let_def split: if_splits)
  show "ge_allowed (tp_governanceEnvelope pkg)"
    using none unfolding pkg by (simp add: truthPackage_def Let_def governance_allowed)
qed

lemma truthOfValidated_accepts:
  "truth_outcome (map signalOf (np_steps plan)) dv = None \<longleftrightarrow>
     (\<exists>pkg. truthOfValidated lc sha plan dv = TruthOk dv pkg)"
  using outcome_truthOfValidated[of lc sha plan dv, symmetric] truthOfValidated_Ok(1)[of lc sha plan dv]
  by (cases "truthOfValidated lc sha plan dv") auto

lemma fresh_validation:
  "validateSequentialDependencies lc sha (PlanValue plan) = Some dv \<Longrightarrow>
     sd_graph dv = Some (buildDependencyGraph plan) \<and>
     (no_fingerprint dv \<longleftrightarrow>
        (sd_ok dv \<longrightarrow> createDependencyGraphFingerprint lc sha (buildDependencyGraph plan) = []))"
  by (auto simp: validate_plan_value no_fingerprint_def split: Option.bind_splits)

end
