(* ===== verification/TruthProperties.thy ===== *)
theory TruthProperties
  imports TruthValidator
begin

text \<open>
  The properties of the execution-truth services: what is authorized and which error every other
  plan gets, how the risk of a plan is bounded and in what direction it moves, how autonomy follows
  it, and what a replay accepts.
\<close>

section \<open>Helpers\<close>

lemma truth_outcome_None:
  "truth_outcome signals dv = None \<longleftrightarrow> sd_ok dv \<and> \<not> no_fingerprint dv \<and> sd_graph dv \<noteq> None \<and>
     (\<forall>s \<in> set signals. \<not> forbiddenSignal s \<and> \<not> unknown_signal s \<and> \<not> unsafe_effect s)"
  by (auto simp: truth_outcome_def list_ex_iff)

lemma truth_plan_input:
  "(\<exists>dv pkg. validateExecutionTruth lc sha (PlanInput plan) = Some (TruthOk dv pkg)) \<longleftrightarrow>
     (\<exists>dv. validateSequentialDependencies lc sha (PlanValue plan) = Some dv \<and>
        truth_outcome (map signalOf (np_steps plan)) dv = None)" (is "?l \<longleftrightarrow> ?r")
proof
  assume ?l
  then obtain dv dv' pkg where "validateSequentialDependencies lc sha (PlanValue plan) = Some dv'"
    "truthOfValidated lc sha plan dv' = TruthOk dv pkg"
    by (auto simp: validateExecutionTruth_def split: Option.bind_splits)
  then show ?r using truthOfValidated_Ok(2) by blast
next
  assume ?r
  then obtain dv pkg where "validateSequentialDependencies lc sha (PlanValue plan) = Some dv"
    "truthOfValidated lc sha plan dv = TruthOk dv pkg"
    using truthOfValidated_accepts by blast
  then show ?l by (auto simp: validateExecutionTruth_def)
qed

lemma truth_ok_dest:
  assumes "validateExecutionTruth lc sha input = Some (TruthOk dv pkg)"
  obtains plan where "planOfInput input = Some plan" "truthOfValidated lc sha plan dv = TruthOk dv pkg"
proof -
  from assms obtain plan dv' where plan: "planOfInput input = Some plan"
    and run: "truthOfValidated lc sha plan dv' = TruthOk dv pkg"
    by (auto simp: validateExecutionTruth_def split: option.splits Option.bind_splits)
  with truthOfValidated_Ok(1)[OF run] show thesis by (intro that[of plan]) simp_all
qed

lemma sample_truth_signals:
  "list_all (\<lambda>s. \<not> forbiddenSignal s \<and> \<not> unknown_signal s \<and> \<not> unsafe_effect s)
     (map signalOf (np_steps sample_plan))"
  by code_simp

section \<open>What is authorized\<close>

text \<open>With a dependency artifact at hand, the validator's outcome is decided
  in this order: a failed artifact, a forbidden step or missing graph, an unknown environment, rollback
  capability or autonomy sensitivity, a production side effect without idempotency, and authorization
  only when none of them holds.\<close>

lemma truth_outcome_exact:
  "map_option outcome_code (validateExecutionTruth lc sha (BuildInput (Some plan) (Some dv))) =
     Some (truth_outcome (map signalOf (np_steps plan)) dv)"
  by (simp add: validateExecutionTruth_def outcome_truthOfValidated)

text \<open>C28 (truth_end_to_end): for a digest function that never gives the empty string, a plan is
  authorized exactly when it meets the dependency contract and every step declares a known environment,
  rollback capability and autonomy sensitivity and is no destructive or externally effective production
  step without idempotency.\<close>

theorem truth_end_to_end:
  assumes "\<forall>t. sha t \<noteq> []"
  shows "(\<exists>dv pkg. validateExecutionTruth lc sha (PlanInput plan) = Some (TruthOk dv pkg)) \<longleftrightarrow>
    dependency_contract plan \<and>
    (\<forall>step \<in> set (np_steps plan). \<not> forbiddenSignal (signalOf step) \<and> \<not> unknown_signal (signalOf step) \<and>
       \<not> unsafe_effect (signalOf step))"
proof -
  have "createDependencyGraphFingerprint lc sha g \<noteq> []" for g
    using assms by (simp add: createDependencyGraphFingerprint_def hashPayloadDeterministically_def)
  then have "\<not> no_fingerprint dv \<and> sd_graph dv \<noteq> None"
    if "validateSequentialDependencies lc sha (PlanValue plan) = Some dv" "sd_ok dv" for dv
    using fresh_validation[OF that(1)] that(2) by simp
  then show ?thesis
    unfolding truth_plan_input truth_outcome_None
    using accepts_iff[of lc sha plan] by (auto simp: image_iff)
qed

theorem truth_end_to_end_witness:
  "\<exists>dv pkg. validateExecutionTruth code_unit_compare (\<lambda>t. ''h'') (PlanInput sample_plan) = Some (TruthOk dv pkg)"
proof -
  have "validateSequentialDependencies code_unit_compare (\<lambda>t. ''h'') (PlanValue sample_plan) \<noteq> None"
    "\<exists>r. validateSequentialDependencies code_unit_compare (\<lambda>t. ''h'') (PlanValue sample_plan) = Some r \<and> sd_ok r"
    by (simp_all add: validate_plan_value sample_dependencyErrors)
  then have "dependency_contract sample_plan" by (simp add: accepts_iff)
  with truth_end_to_end[of "\<lambda>t. ''h''" code_unit_compare sample_plan] sample_truth_signals
  show ?thesis by (simp add: list.pred_map list_all_iff)
qed

text \<open>C31 (authorized_package_safe): whatever the input, a package that is returned is authorized, rests on
  a successful dependency artifact, is below the forbidden level and not fail-closed, has no blocked
  reason, and leaves some autonomy; a destructive production step caps that autonomy at manual only.\<close>

theorem authorized_package_safe:
  assumes "validateExecutionTruth lc sha input = Some (TruthOk dv pkg)"
  shows "tp_authorized pkg \<and> sd_ok dv \<and> rk_overallRisk (tp_riskProfile pkg) < R6_FORBIDDEN \<and>
    \<not> rk_failClosed (tp_riskProfile pkg) \<and> ge_blockedReasons (tp_governanceEnvelope pkg) = [] \<and>
    MaxNone < ae_maxAutonomyLevel (tp_autonomyEnvelope pkg) \<and>
    (\<forall>s \<in> set (rk_stepSignals (tp_riskProfile pkg)).
       sg_destructive s \<and> sg_targetEnvironment s = EnvProduction \<longrightarrow>
         sg_idempotent s \<and> ae_maxAutonomyLevel (tp_autonomyEnvelope pkg) = MaxManualOnly)"
proof -
  obtain plan where run: "truthOfValidated lc sha plan dv = TruthOk dv pkg"
    using truth_ok_dest[OF assms] by blast
  let ?profile = "riskProfileOf (map signalOf (np_steps plan)) dv"
  let ?governance = "buildGovernanceEnvelope lc ?profile dv"
  note none = truthOfValidated_Ok(2)[OF run]
  have pkg: "tp_riskProfile pkg = ?profile" "tp_governanceEnvelope pkg = ?governance"
    "tp_autonomyEnvelope pkg = buildAutonomyEnvelope ?profile ?governance"
    "tp_authorized pkg = ge_allowed ?governance"
    unfolding truthOfValidated_Ok(3)[OF run] by (simp_all add: truthPackage_def Let_def)
  have allowed: "ge_allowed ?governance" using none by (simp add: governance_allowed)
  then have blocked: "ge_blockedReasons ?governance = []" by (simp add: buildGovernanceEnvelope_def Let_def)
  have risk: "rk_overallRisk ?profile \<noteq> R6_FORBIDDEN" "\<not> rk_failClosed ?profile"
    using none unfolding riskProfile_forbidden riskProfile_failClosed truth_outcome_None
    by (auto simp: list_ex_iff)
  have level: "MaxNone < ae_maxAutonomyLevel (buildAutonomyEnvelope ?profile ?governance)"
    using allowed risk by (simp add: buildAutonomyEnvelope_def less_MaxAutonomyLevel_def split: RiskLevel.split)
  have prod: "sg_idempotent s \<and> ae_maxAutonomyLevel (buildAutonomyEnvelope ?profile ?governance) = MaxManualOnly"
    if "s \<in> set (rk_stepSignals ?profile)" "sg_destructive s" "sg_targetEnvironment s = EnvProduction" for s
  proof -
    have "\<not> forbiddenSignal s" using none that(1) unfolding truth_outcome_None by auto
    moreover have "list_ex (\<lambda>s. sg_targetEnvironment s = EnvProduction \<and> sg_destructive s) (rk_stepSignals ?profile)"
      using that by (auto simp: list_ex_iff)
    ultimately show ?thesis using that(2,3) allowed risk
      by (simp add: forbiddenSignal_def buildAutonomyEnvelope_def)
  qed
  have "sd_ok dv" using none by (simp add: truth_outcome_None)
  moreover have "rk_overallRisk ?profile < R6_FORBIDDEN" using risk(1) by (simp add: less_le)
  ultimately show ?thesis unfolding pkg using allowed blocked risk(2) level prod by blast
qed

theorem authorized_package_safe_witness:
  "\<exists>dv pkg. validateExecutionTruth code_unit_compare (\<lambda>t. ''h'') (PlanInput sample_plan) = Some (TruthOk dv pkg)
     \<and> tp_authorized pkg"
proof -
  have "\<exists>r. validateSequentialDependencies code_unit_compare (\<lambda>t. ''h'') (PlanValue sample_plan) = Some r \<and>
      truth_outcome (map signalOf (np_steps sample_plan)) r = None"
    using sample_truth_signals
    by (simp add: validate_plan_value sample_dependencyErrors truth_outcome_None no_fingerprint_def
        createDependencyGraphFingerprint_def hashPayloadDeterministically_def list.pred_map list_all_iff)
  then show ?thesis
    unfolding truth_plan_input[symmetric] using authorized_package_safe by blast
qed

section \<open>Risk and autonomy\<close>

text \<open>Adding steps to a plan never lowers its scored risk nor clears the fail-closed
  flag; in particular neither depends on the order of the steps or on repetitions.\<close>

lemma scorer_monotone:
  assumes "set signals \<subseteq> set signals'"
  shows "rk_overallRisk (scoreRiskDeterministically signals) \<le> rk_overallRisk (scoreRiskDeterministically signals') \<and>
    (rk_failClosed (scoreRiskDeterministically signals) \<longrightarrow> rk_failClosed (scoreRiskDeterministically signals'))"
proof -
  have "set (rk_scores (scoreRiskDeterministically signals)) \<subseteq> set (rk_scores (scoreRiskDeterministically signals'))"
    using assms by (auto simp: scoreRiskDeterministically_def Let_def)
  then have "risk_of (scoreRiskDeterministically signals) \<le> risk_of (scoreRiskDeterministically signals')"
    unfolding risk_of_def by (intro Max_mono) auto
  then show ?thesis using assms by (auto simp: scoreRisk_overall)
qed

text \<open>The overall risk of the final profile is at least the level of every score
  of it and at least the overall risk of the scorer, and the fail-closed flag of the scorer survives.\<close>

lemma risk_profile_bounds:
  "list_all (\<lambda>sc. sc_level sc \<le> rk_overallRisk (riskProfileOf signals dv)) (rk_scores (riskProfileOf signals dv)) \<and>
   rk_overallRisk (scoreRiskDeterministically signals) \<le> rk_overallRisk (riskProfileOf signals dv) \<and>
   rk_failClosed (riskProfileOf signals dv) =
     (rk_failClosed (scoreRiskDeterministically signals) \<or> sd_graph dv = None)"
proof -
  let ?scored = "scoreRiskDeterministically signals" and ?p = "propagateTopologyRisk (scoreRiskDeterministically signals) dv"
  have "sc_level sc \<le> rk_overallRisk (analyzeRollbackExposure ?p)"
    if "sc \<in> set (rk_scores (analyzeRollbackExposure ?p))" for sc
    using that by (auto simp: analyzeRollbackExposure_def foldl_raise case_prod_beta Let_def intro!: Max_ge)
  moreover have "rk_overallRisk ?scored \<le> rk_overallRisk (analyzeRollbackExposure ?p)"
    using propagate_raises analyze_raises by (rule order_trans)
  ultimately show ?thesis by (simp add: riskProfileOf_def list_all_iff)
qed

text \<open>For the same steps, a higher risk, a fail-closed state or a refusal by
  governance never leaves more autonomy.\<close>

lemma autonomy_antitone:
  assumes "rk_stepSignals p = rk_stepSignals q" and "rk_overallRisk p \<le> rk_overallRisk q"
    and "rk_failClosed p \<longrightarrow> rk_failClosed q" and "ge_allowed gq \<longrightarrow> ge_allowed gp"
  shows "ae_maxAutonomyLevel (buildAutonomyEnvelope q gq) \<le> ae_maxAutonomyLevel (buildAutonomyEnvelope p gp)"
proof (cases "\<not> ge_allowed gq \<or> rk_overallRisk q = R6_FORBIDDEN \<or> rk_failClosed q")
  case True
  then show ?thesis by (auto simp: buildAutonomyEnvelope_def less_eq_MaxAutonomyLevel_def)
next
  case False
  then have p: "ge_allowed gp" "\<not> rk_failClosed p" "rk_overallRisk p \<noteq> R6_FORBIDDEN"
    using assms by (auto simp: antisym)
  show ?thesis
    using False p assms(1,2)
    by (cases "rk_overallRisk p"; cases "rk_overallRisk q")
      (simp_all add: buildAutonomyEnvelope_def less_eq_MaxAutonomyLevel_def less_eq_RiskLevel_def)
qed

text \<open>Two steps on which the order matters.\<close>

definition exposed_signal :: "string \<Rightarrow> RollbackCapability \<Rightarrow> bool \<Rightarrow> bool \<Rightarrow> ExecutionRiskSignals" where
  "exposed_signal i capability failure rollback =
     \<lparr>sg_stepId = i, sg_destructive = False, sg_externalSideEffect = False, sg_idempotent = True,
      sg_targetEnvironment = EnvLocal, sg_rollbackCapability = capability,
      sg_autonomySensitivity = SensitivitySafe, sg_terminalBranch = False, sg_failureBranch = failure,
      sg_rollbackBranch = rollback\<rparr>"

definition one_node_result :: SequentialDependencyValidationResult where
  "one_node_result =
     \<lparr>sd_ok = True, sd_planId = ''p'', sd_graph = Some (buildDependencyGraph (sample_plan_of [])),
      sd_orderedStepIds = None, sd_dependencyGraphFingerprint = Some ''h'', sd_errors = [], sd_warnings = []\<rparr>"

text \<open>The exposure analyzer adds every rollback penalty to the
  first rollback score, whichever step it belongs to, so two plans with the same steps in another order
  can get different overall risks.\<close>

lemma rollback_exposure_depends_on_order:
  "\<exists>signals signals'. mset signals = mset signals' \<and>
     rk_overallRisk (riskProfileOf signals one_node_result) \<noteq>
     rk_overallRisk (riskProfileOf signals' one_node_result)"
proof (intro exI conjI)
  let ?a = "exposed_signal ''a'' RollbackNone True False"
  let ?b = "exposed_signal ''b'' RollbackPartial False True"
  show "mset [?a, ?b] = mset [?b, ?a]" by simp
  have "rk_overallRisk (riskProfileOf [?a, ?b] one_node_result) = R3_ELEVATED"
    "rk_overallRisk (riskProfileOf [?b, ?a] one_node_result) = R2_MODERATE"
    by code_simp+
  then show "rk_overallRisk (riskProfileOf [?a, ?b] one_node_result) \<noteq>
     rk_overallRisk (riskProfileOf [?b, ?a] one_node_result)" by simp
qed

section \<open>Replay\<close>

text \<open>The replay check accepts a package exactly when the plan is
  authorized afresh with the same truth hash, and then returns the recomputed package; so a package
  computed from the plan is always accepted, and a plan that is no longer authorized never is.\<close>

lemma replay_accepts_recomputation:
  "(validateExecutionTruthReplay lc sha plan pkg = Some (ReplayOk fresh)) \<longleftrightarrow>
     (\<exists>dv. validateExecutionTruth lc sha (PlanInput plan) = Some (TruthOk dv fresh)) \<and>
     tp_executionTruthHash fresh = tp_executionTruthHash pkg"
proof -
  have "validateExecutionTruth lc sha (BuildInput (Some plan) None) = validateExecutionTruth lc sha (PlanInput plan)"
    by (simp add: validateExecutionTruth_def)
  then show ?thesis
    by (cases "validateExecutionTruth lc sha (PlanInput plan)")
      (auto simp: validateExecutionTruthReplay_def split: ExecutionTruthResult.splits)
qed

end
