(* ===== verification/Pipeline.thy ===== *)
theory Pipeline
  imports ValidationProperties DependencyProperties TruthProperties
begin

text \<open>
  Validation, normalization and dependency validation in sequence: an accepted result is a valid input
  of normalization, and the dependency graph of the normalized plan is well formed and in authored order.
\<close>

text \<open>The input with which the pipeline calls normalization: everything is taken from the result.\<close>

definition normalizationInput :: "ValidationResult \<Rightarrow> string \<Rightarrow> NormalizePlanInput" where
  "normalizationInput r version =
     \<lparr>ni_validatedPlan = ev_normalizedPlan (vr_evidence r), ni_validationResult = r,
      ni_replaySnapshot = ev_replaySnapshot (vr_evidence r), ni_graphHash = vr_graphHash r,
      ni_validationHash = vr_validationHash r, ni_normalizationVersion = version\<rparr>"

lemma accepted_inputs_agree:
  assumes "validatePlanStructure lc sha inspected parse tools input context = Some r" and "vr_ok r"
    and "collation lc" and "\<And>data. parse input = Inr data \<Longrightarrow> schema_conforms data"
  shows "inputs_agree (normalizationInput r version)"
  using accepted_result[OF assms] assms(2) by (simp add: inputs_agree_def normalizationInput_def sameJson_def)

lemma normalized_acyclic:
  assumes "authored_ids_ok sha plan" and "acyclic (plan_rel plan)" and "np_steps normalized = stepsOf sha plan"
  shows "acyclic (dep_rel (buildDependencyGraph normalized))"
  unfolding dep_rel_stepsOf[OF assms(1,3)]
  using canonicalOf_inj_field[OF assms(1)] assms(2) unfolding plan_rel_def[folded source_rel_def]
  by (rule acyclic_map_prod)

lemma normalized_edge:
  assumes "authored_ids_ok sha plan" and "np_steps normalized = stepsOf sha plan"
    and "(u, v) \<in> dep_rel (buildDependencyGraph normalized)"
  obtains a b where "u = canonicalOf sha plan a" "v = canonicalOf sha plan b" "(a, b) \<in> plan_rel plan"
  using assms(3) that unfolding dep_rel_stepsOf[OF assms(1,2)] plan_rel_def[folded source_rel_def] by auto

lemma normalized_wf_graph:
  assumes "authored_ids_ok sha plan" and "np_steps normalized = stepsOf sha plan"
  shows "wf_graph (buildDependencyGraph normalized)"
proof -
  have ids: "map ns_id (np_steps normalized) = map (canonicalOf sha plan) (map cs_stepId (cp_steps plan))"
    unfolding assms(2) by (rule ids_stepsOf)
  have "distinct (map ns_id (np_steps normalized))"
    unfolding assms(2) using assms(1) by (intro distinct_stepsOf) (simp add: authored_ids_ok_def)
  moreover have "canonicalOf sha plan a \<in> set (map ns_id (np_steps normalized)) \<and>
      canonicalOf sha plan b \<in> set (map ns_id (np_steps normalized))" if "(a, b) \<in> plan_rel plan" for a b
  proof -
    have "a \<in> set (map cs_stepId (cp_steps plan))" "b \<in> set (map cs_stepId (cp_steps plan))"
      using that assms(1) by (auto simp: plan_rel_def authored_ids_ok_def)
    then show ?thesis unfolding ids set_map[of "canonicalOf sha plan"] by blast
  qed
  ultimately show ?thesis
    unfolding wf_graph_def node_ids_build dep_rel_def[symmetric] by (auto elim!: normalized_edge[OF assms])
qed

lemma normalized_forward:
  assumes "authored_ids_ok sha plan" and "np_steps normalized = stepsOf sha plan"
    and "\<And>a b. (a, b) \<in> plan_rel plan \<Longrightarrow> stands_before plan a b"
  shows "forward (buildDependencyGraph normalized)"
proof -
  let ?n = "length (cp_steps plan)"
  have dist: "distinct (map cs_stepId (cp_steps plan))" using assms(1) by (simp add: authored_ids_ok_def)
  have index: "ns_index (stepsOf sha plan ! k) = int k" "ns_id (stepsOf sha plan ! k) = canonicalOf sha plan (cs_stepId (cp_steps plan ! k))"
    if "k < ?n" for k using that by (simp_all add: nth_stepsOf normalizedStepOf_def Let_def)
  have "i < j" if ij: "i < ?n" "j < ?n" and edge: "(ns_id (stepsOf sha plan ! i), ns_id (stepsOf sha plan ! j)) \<in>
      dep_rel (buildDependencyGraph normalized)" for i j
  proof -
    obtain a b where ab: "canonicalOf sha plan (cs_stepId (cp_steps plan ! i)) = canonicalOf sha plan a"
      "canonicalOf sha plan (cs_stepId (cp_steps plan ! j)) = canonicalOf sha plan b" "(a, b) \<in> plan_rel plan"
      using normalized_edge[OF assms(1,2) edge] index ij by metis
    have "a \<in> cs_stepId ` set (cp_steps plan)" "b \<in> cs_stepId ` set (cp_steps plan)"
      using ab(3) assms(1) by (auto simp: plan_rel_def authored_ids_ok_def)
    then have "a = cs_stepId (cp_steps plan ! i)" "b = cs_stepId (cp_steps plan ! j)"
      using ab(1,2) canonicalOf_inj[OF dist, of sha] ij by (auto simp: inj_on_def)
    with assms(3)[OF ab(3)] stands_before_iff[OF dist ij] show ?thesis by simp
  qed
  then show ?thesis by (auto simp: forward_def assms(2) sorted_wrt_iff_nth_less index)
qed

lemma normalized_order:
  assumes "authored_ids_ok sha plan" and "np_steps normalized = stepsOf sha plan" and "comparator lc"
    and "acyclic (plan_rel plan)" and "\<And>a b. (a, b) \<in> plan_rel plan \<Longrightarrow> stands_before plan a b"
  shows "\<exists>dv. validateSequentialDependencies lc sha (PlanValue normalized) = Some dv \<and>
    sd_orderedStepIds dv = Some (map ns_id (np_steps normalized))"
proof -
  note sort = sort_forward[OF normalized_wf_graph[OF assms(1,2)] normalized_forward[OF assms(1,2,5)] assms(3)]
  obtain d where d: "dependencyErrors lc normalized = Some d"
    using dependencyErrors_returns_iff[of lc normalized] normalized_acyclic[OF assms(1,4,2)] by blast
  then have "fst d = Some (map ns_id (np_steps normalized))"
    by (auto simp: dependencyErrors_def Let_def sort split: Option.bind_splits)
  with d show ?thesis by (cases d) (simp add: validate_plan_value)
qed

lemma accepted_ids_ok:
  assumes "validatePlanStructure lc sha inspected parse tools input context = Some r" and "vr_ok r"
    and "collation lc" and "\<And>data. parse input = Inr data \<Longrightarrow> schema_conforms data"
    and "cs_stepId ` set (cp_steps (ev_normalizedPlan (vr_evidence r))) \<inter>
      set (canonical_ids sha (cp_planId (ev_normalizedPlan (vr_evidence r))) 0 (cp_steps (ev_normalizedPlan (vr_evidence r)))) = {}"
  shows "authored_ids_ok sha (ev_normalizedPlan (vr_evidence r))"
proof -
  let ?plan = "ev_normalizedPlan (vr_evidence r)"
  note facts = accepted_result[OF assms(1-4)]
  have "d \<in> cs_stepId ` set (cp_steps ?plan)" if "s \<in> set (cp_steps ?plan)" "d \<in> set (cs_dependencies s)" for s d
  proof -
    have "stands_before ?plan d (cs_stepId s)"
      using facts(3) that by (simp add: structure_contract_def step_rules_def)
    then show ?thesis using stands_before_in by blast
  qed
  then show ?thesis using facts(1,2) assms(5) by (auto simp: authored_ids_ok_def step_graph_ok_def plan_wf_def)
qed

end
