(* ===== verification/CycleWalk.thy ===== *)
theory CycleWalk
  imports DependencyCycles
begin

text \<open>
  \<open>detectCycle\<close>, the depth-first search that \<open>execution-compatibility/authority-graph-validator.ts\<close> and
  \<open>escalation-graph-validator.ts\<close> repeat: a \<open>visiting\<close> and a \<open>visited\<close> set and a stack, returning the
  first cycle.  Unlike \<open>dependencies/cycle-detector.ts\<close> a vertex is added to \<open>visited\<close> only when it is
  left.  The simulation \<open>walk_sim\<close> shows that both searches give the same answer, so this one inherits
  the correctness of the other.
\<close>

record CompatibilityEdge =
  ed_from :: string
  ed_to :: string

record 'v WalkState =
  wk_visiting :: "'v list"
  wk_visited :: "'v list"
  wk_stack :: "'v list"

fun walk_node :: "nat \<Rightarrow> ('v \<Rightarrow> 'v list) \<Rightarrow> 'v \<Rightarrow> 'v WalkState \<Rightarrow> ('v list option \<times> 'v WalkState) option"
  and walk_nexts :: "nat \<Rightarrow> ('v \<Rightarrow> 'v list) \<Rightarrow> 'v list \<Rightarrow> 'v WalkState \<Rightarrow> ('v list option \<times> 'v WalkState) option"
where
  "walk_node 0 adj node st = None"
| "walk_node (Suc n) adj node st =
     (if node \<in> set (wk_visiting st) then Some (Some (cycleFrom (wk_stack st) node), st)
      else if node \<in> set (wk_visited st) then Some (None, st)
      else do {
        (cycle, st') \<leftarrow> walk_nexts n adj (adj node)
          (st\<lparr>wk_visiting := set_add node (wk_visiting st), wk_stack := wk_stack st @ [node]\<rparr>);
        Some (if cycle \<noteq> None then (cycle, st')
          else (None, st'\<lparr>wk_stack := butlast (wk_stack st'), wk_visiting := set_remove node (wk_visiting st'),
            wk_visited := set_add node (wk_visited st')\<rparr>))
      })"
| "walk_nexts n adj [] st = Some (None, st)"
| "walk_nexts n adj (next # nexts) st = do {
     (cycle, st') \<leftarrow> walk_node n adj next st;
     if cycle \<noteq> None then Some (cycle, st') else walk_nexts n adj nexts st'
   }"

definition edgeAdjacency :: "CompatibilityEdge list \<Rightarrow> string \<Rightarrow> string list" where
  "edgeAdjacency edges k = map ed_to (filter (\<lambda>e. ed_from e = k) edges)"

text \<open>\<open>adjacency.keys()\<close>: the sources in the order of their first edge.\<close>

definition edgeSources :: "CompatibilityEdge list \<Rightarrow> string list" where
  "edgeSources edges = foldl (\<lambda>ks e. set_add (ed_from e) ks) [] edges"

definition emptyWalk :: "'v WalkState" where
  "emptyWalk = \<lparr>wk_visiting = [], wk_visited = [], wk_stack = []\<rparr>"

definition edge_vertices :: "CompatibilityEdge list \<Rightarrow> string list" where
  "edge_vertices edges = map ed_from edges @ map ed_to edges"

definition edge_fuel :: "CompatibilityEdge list \<Rightarrow> nat" where
  "edge_fuel edges = Suc (length (edge_vertices edges))"

definition detectCycle :: "CompatibilityEdge list \<Rightarrow> string list option option" where
  "detectCycle edges = do {
     (cycle, _) \<leftarrow> walk_nexts (edge_fuel edges) (edgeAdjacency edges) (edgeSources edges) emptyWalk;
     Some cycle
   }"

section \<open>The same answers as the dependency detector\<close>

definition walk_agrees :: "'v WalkState \<Rightarrow> 'v CycleState \<Rightarrow> bool" where
  "walk_agrees w s \<longleftrightarrow> vs_cyclePath s = None \<and> vs_active s = wk_visiting w \<and> vs_stack s = wk_stack w \<and>
     set (vs_visited s) = set (wk_visiting w) \<union> set (wk_visited w)"

definition walk_result :: "'v list option \<times> 'v WalkState \<Rightarrow> 'v CycleState \<Rightarrow> bool" where
  "walk_result r s \<longleftrightarrow> vs_cyclePath s = fst r \<and> (fst r = None \<longrightarrow> walk_agrees (snd r) s)"

lemma walk_nexts_lift:
  assumes "\<And>v w s. walk_agrees w s \<Longrightarrow> rel_option walk_result (walk_node n adj v w) (visit n adj v s)"
    and "walk_agrees w s"
  shows "rel_option walk_result (walk_nexts n adj vs w) (visitAll n adj vs s)"
  using assms(2)
proof (induction vs arbitrary: w s)
  case Nil
  then show ?case by (simp add: walk_result_def walk_agrees_def)
next
  case (Cons v vs)
  note one = assms(1)[OF Cons.prems, of v]
  show ?case
  proof (cases "walk_node n adj v w")
    case (Some r)
    with one obtain s1 where s1: "visit n adj v s = Some s1" "walk_result r s1"
      by (auto simp: option_rel_Some1)
    then show ?thesis using Some Cons.IH[of "snd r" s1] by (cases r) (auto simp: walk_result_def)
  qed (use one in simp)
qed

lemma set_remove_agrees:
  assumes "walk_agrees w s" and "v \<in> set (wk_visiting w)"
  shows "walk_agrees (w\<lparr>wk_stack := butlast (wk_stack w), wk_visiting := set_remove v (wk_visiting w),
      wk_visited := set_add v (wk_visited w)\<rparr>)
    (s\<lparr>vs_stack := butlast (vs_stack s), vs_active := set_remove v (vs_active s)\<rparr>)"
  using assms by (auto simp: walk_agrees_def)

text \<open>A search leaves the vertices on the stack in the visiting set.\<close>

lemma walk_nexts_visiting_lift:
  assumes "\<And>v w c w'. walk_node n adj v w = Some (c, w') \<Longrightarrow> c = None \<Longrightarrow> set (wk_visiting w') = set (wk_visiting w)"
    and "walk_nexts n adj vs w = Some (c, w')" and "c = None"
  shows "set (wk_visiting w') = set (wk_visiting w)"
  using assms(2,3)
proof (induction vs arbitrary: w)
  case (Cons v vs)
  then obtain c1 w1 where "walk_node n adj v w = Some (c1, w1)"
    "(if c1 \<noteq> None then Some (c1, w1) else walk_nexts n adj vs w1) = Some (c, w')"
    by (auto split: Option.bind_splits)
  with Cons.IH[of w1] Cons.prems(2) assms(1) show ?case by (auto split: if_splits)
qed simp

lemma walk_node_visiting:
  "walk_node n adj v w = Some (c, w') \<Longrightarrow> c = None \<Longrightarrow> set (wk_visiting w') = set (wk_visiting w)"
proof (induction n arbitrary: v w c w')
  case (Suc n)
  show ?case
  proof (cases "v \<in> set (wk_visiting w) \<or> v \<in> set (wk_visited w)")
    case False
    let ?w = "w\<lparr>wk_visiting := set_add v (wk_visiting w), wk_stack := wk_stack w @ [v]\<rparr>"
    from False Suc.prems obtain w1 where w1: "walk_nexts n adj (adj v) ?w = Some (None, w1)"
      "set (wk_visiting w') = set (wk_visiting w1) - {v}"
      by (auto split: Option.bind_splits if_splits)
    have "set (wk_visiting w1) = set (wk_visiting ?w)"
      by (rule walk_nexts_visiting_lift[OF Suc.IH w1(1) refl])
    with w1(2) False show ?thesis by auto
  qed (use Suc.prems in \<open>auto split: if_splits\<close>)
qed simp

lemma walk_sim:
  "walk_agrees w s \<Longrightarrow> rel_option walk_result (walk_node n adj v w) (visit n adj v s)"
proof (induction n arbitrary: v w s)
  case (Suc n)
  show ?case
  proof (cases "v \<in> set (wk_visiting w) \<or> v \<in> set (wk_visited w)")
    case True
    then show ?thesis using Suc.prems by (auto simp: walk_agrees_def walk_result_def)
  next
    case False
    let ?w = "w\<lparr>wk_visiting := set_add v (wk_visiting w), wk_stack := wk_stack w @ [v]\<rparr>"
    let ?s = "s\<lparr>vs_visited := set_add v (vs_visited s), vs_active := set_add v (vs_active s), vs_stack := vs_stack s @ [v]\<rparr>"
    have "walk_agrees ?w ?s" using Suc.prems by (auto simp: walk_agrees_def)
    note rest = walk_nexts_lift[OF Suc.IH this, of "adj v"]
    have new: "vs_cyclePath s = None" "v \<notin> set (vs_active s)" "v \<notin> set (vs_visited s)"
      using Suc.prems False by (auto simp: walk_agrees_def)
    show ?thesis
    proof (cases "walk_nexts n adj (adj v) ?w")
      case None
      with rest False new show ?thesis by simp
    next
      case (Some r)
      obtain c w1 where r: "r = (c, w1)" by fastforce
      with rest Some obtain s1 where s1: "visitAll n adj (adj v) ?s = Some s1" "walk_result (c, w1) s1"
        by (auto simp: option_rel_Some1)
      show ?thesis
      proof (cases c)
        case None
        with Some r have "set (wk_visiting w1) = set (wk_visiting ?w)"
          by (intro walk_nexts_visiting_lift[OF walk_node_visiting]) auto
        then have "v \<in> set (wk_visiting w1)" by simp
        then show ?thesis using s1 Some r None False new set_remove_agrees[of w1 s1 v]
          by (simp add: walk_result_def)
      qed (use s1 Some r False new in \<open>simp add: walk_result_def\<close>)
    qed
  qed
qed simp

lemma walk_nexts_sim:
  "walk_agrees w s \<Longrightarrow> rel_option walk_result (walk_nexts n adj vs w) (visitAll n adj vs s)"
  by (rule walk_nexts_lift[OF walk_sim])

section \<open>The detector is right\<close>

definition edge_rel :: "CompatibilityEdge list \<Rightarrow> (string \<times> string) set" where
  "edge_rel edges = (\<lambda>e. (ed_from e, ed_to e)) ` set edges"

interpretation edge_graph: finite_digraph "edgeAdjacency edges" "set (edge_vertices edges)" for edges
  by unfold_locales (auto simp: edgeAdjacency_def edge_vertices_def filter_empty_conv)

lemma adj_rel_edges [simp]: "adj_rel (edgeAdjacency edges) = edge_rel edges"
  by (auto simp: edgeAdjacency_def edge_rel_def adj_rel_def image_iff)

lemma set_edgeSources: "set (edgeSources edges) = ed_from ` set edges"
proof -
  have "set (foldl (\<lambda>ks e. set_add (ed_from e) ks) ks edges) = set ks \<union> ed_from ` set edges" for ks
    by (induction edges arbitrary: ks) auto
  then show ?thesis by (simp add: edgeSources_def)
qed

lemma detectCycle_visit:
  obtains st where "visitAll (edge_fuel edges) (edgeAdjacency edges) (edgeSources edges) emptyCycleState = Some st"
    and "detectCycle edges = Some (vs_cyclePath st)"
proof -
  have "walk_agrees emptyWalk emptyCycleState"
    by (simp add: walk_agrees_def emptyWalk_def emptyCycleState_def)
  note sim = walk_nexts_sim[OF this, of "edge_fuel edges" "edgeAdjacency edges" "edgeSources edges"]
  have "card (set (edge_vertices edges) - set (vs_visited emptyCycleState)) < edge_fuel edges"
    unfolding edge_fuel_def by (meson List.finite_set card_length card_mono Diff_subset le_trans less_Suc_eq_le)
  moreover have "set (edgeSources edges) \<subseteq> set (edge_vertices edges)"
    by (auto simp: set_edgeSources edge_vertices_def)
  ultimately obtain st where
    st: "visitAll (edge_fuel edges) (edgeAdjacency edges) (edgeSources edges) emptyCycleState = Some st"
    using edge_graph.visitAll_enough by blast
  with sim obtain r where "walk_nexts (edge_fuel edges) (edgeAdjacency edges) (edgeSources edges) emptyWalk = Some r"
    "walk_result r st" by (auto simp: option_rel_Some2)
  then have "detectCycle edges = Some (vs_cyclePath st)"
    by (cases r) (simp add: detectCycle_def walk_result_def)
  with st show thesis by (rule that)
qed

lemma detectCycle_cases:
  obtains (acyclic) "detectCycle edges = Some None" "acyclic (edge_rel edges)"
  | (cyclic) p where "detectCycle edges = Some (Some p)" "closed_walk (edge_rel edges) p"
proof (rule detectCycle_visit[of edges])
  fix st
  assume st: "visitAll (edge_fuel edges) (edgeAdjacency edges) (edgeSources edges) emptyCycleState = Some st"
    and result: "detectCycle edges = Some (vs_cyclePath st)"
  have post: "dfs_post (edgeAdjacency edges) emptyCycleState (edgeSources edges) st"
    by (rule visitAll_post[OF dfs_inv_empty _ st]) (simp add: from_stack_def emptyCycleState_def)
  show thesis
  proof (cases "vs_cyclePath st")
    case None
    let ?F = "set (vs_visited st)"
    from post None have F: "closed_acyclic (edge_rel edges) ?F" and sources: "ed_from ` set edges \<subseteq> ?F"
      by (auto simp: dfs_post_def dfs_inv_def emptyCycleState_def set_edgeSources)
    have "(u, v) \<in> ?F \<times> ?F" if uv: "(u, v) \<in> edge_rel edges" for u v
    proof -
      have "u \<in> ?F" using uv sources by (auto simp: edge_rel_def)
      moreover from this have "v \<in> edge_rel edges `` ?F" using uv by blast
      then have "v \<in> ?F" using F unfolding closed_acyclic_def by blast
      ultimately show ?thesis by simp
    qed
    then have "edge_rel edges \<inter> ?F \<times> ?F = edge_rel edges" by auto
    with F have "acyclic (edge_rel edges)" by (simp add: closed_acyclic_def)
    with None result acyclic show thesis by simp
  next
    case (Some p)
    with post have "closed_walk (edge_rel edges) p" by (auto simp: dfs_post_def)
    with Some result cyclic show thesis by simp
  qed
qed

lemma detectCycle_None: "detectCycle edges = Some None \<longleftrightarrow> acyclic (edge_rel edges)"
  by (rule detectCycle_cases[of edges]) (auto dest: closed_walk_not_acyclic)

lemma detectCycle_returns: "\<exists>c. detectCycle edges = Some c"
  by (rule detectCycle_cases[of edges]) auto

end
