(* ===== verification/ExecutionCompatibility.thy ===== *)
theory ExecutionCompatibility
  imports TruthValidator PlanStructure CycleWalk "HOL-Library.AList"
begin

text \<open>
  \<open>services/planning/execution-compatibility\<close>: the contracts read from the \<open>compatibility\<close> metadata of the
  steps, the authority and escalation graphs, the eight validators over them, the snapshot, the hash and
  \<open>validateExecutionCompatibility\<close>, which composes them.  A rollback order is a number, so it is kept as
  the decimal it was written as.
\<close>

section \<open>Types\<close>

datatype ExecutionCompatibilityErrorCode =
    PLAN_COMPATIBILITY_INPUT_MISSING
  | PLAN_APPROVAL_CONTRACT_MISSING
  | PLAN_ROLLBACK_CONTRACT_MISSING
  | PLAN_SCOPE_BOUNDARY_INVALID
  | PLAN_COMPENSATION_REQUIRED
  | PLAN_AUTHORITY_GRAPH_INVALID
  | PLAN_ESCALATION_GRAPH_INVALID
  | PLAN_ROLLBACK_DEPENDENCY_CONFLICT
  | PLAN_ROLLBACK_GOVERNANCE_WEAKER_THAN_FORWARD
  | PLAN_COMPATIBILITY_HASH_MISMATCH
  | PLAN_COMPATIBILITY_VALIDATION_FAILED

datatype CompatibilitySeverity = SeverityBlocking | SeverityWarning

record CompatibilityScope =
  sb_actionScope :: "string list"
  sb_resourceScope :: "string list"
  sb_environmentScope :: "string list"
  sb_tenantScope :: "string list"
  sb_toolScope :: "string list"

record ApprovalContract =
  apc_stepId :: string
  apc_required :: bool
  apc_requiredRole :: "string option"
  apc_scope :: CompatibilityScope
  apc_expiresAt :: "string option"

record RollbackContract =
  rbc_stepId :: string
  rbc_required :: bool
  rbc_rollbackStrategy :: "string option"
  rbc_rollbackOrder :: "js_num option"
  rbc_checkpointRequired :: bool
  rbc_compensationRequired :: bool

record CompensationContract =
  cpc_stepId :: string
  cpc_irreversible :: bool
  cpc_compensationStrategy :: "string option"
  cpc_compensationWindowSeconds :: "js_num option"
  cpc_requiresApproval :: bool

record AuthorityGraphNode =
  an_stepId :: string
  an_requiredRole :: "string option"
  an_environmentScope :: "string list"

record AuthorityGraph =
  ag_nodes :: "AuthorityGraphNode list"
  ag_edges :: "CompatibilityEdge list"

record EscalationGraphNode =
  en_stepId :: string
  en_terminal :: bool

record EscalationGraph =
  eg_nodes :: "EscalationGraphNode list"
  eg_edges :: "CompatibilityEdge list"

record CompatibilitySnapshot =
  sn_planId :: string
  sn_executionTruthHash :: string
  sn_dependencyGraphFingerprint :: string
  sn_authorityGraph :: AuthorityGraph
  sn_escalationGraph :: EscalationGraph
  sn_scopeBoundaries :: "(string \<times> CompatibilityScope) list"
  sn_rollbackOrder :: "(string \<times> js_num) list"

record CompatibilityViolation =
  cv_code :: ExecutionCompatibilityErrorCode
  cv_message :: string
  cv_path :: "string option"
  cv_severity :: CompatibilitySeverity

record ExecutionCompatibilityContract =
  xc_executionTruthHash :: string
  xc_executionCompatibilityHash :: string
  xc_approvalContracts :: "ApprovalContract list"
  xc_rollbackContracts :: "RollbackContract list"
  xc_compensationContracts :: "CompensationContract list"
  xc_authorityGraph :: AuthorityGraph
  xc_escalationGraph :: EscalationGraph
  xc_compatibilitySnapshot :: CompatibilitySnapshot
  xc_violations :: "CompatibilityViolation list"
  xc_compatible :: bool

record ExecutionCompatibilityInput =
  ci_executionTruthHash :: string
  ci_normalizedPlan :: "NormalizedPlan option"
  ci_executionTruth :: "ExecutionTruthPackage option"
  ci_dependencyValidation :: "SequentialDependencyValidationResult option"
  ci_dependencyGraph :: "DependencyGraph option"
  ci_expectedCompatibilityHash :: "string option"

datatype ExecutionCompatibilityValidationResult =
    CompatibilityOk ExecutionCompatibilityContract "CompatibilityViolation list"
  | CompatibilityFailed "ExecutionCompatibilityContract option" "CompatibilityViolation list"

text \<open>The severity defaults to blocking and no caller gives another.\<close>

definition createCompatibilityViolation ::
  "ExecutionCompatibilityErrorCode \<Rightarrow> string \<Rightarrow> string option \<Rightarrow> CompatibilityViolation" where
  "createCompatibilityViolation code message path =
     \<lparr>cv_code = code, cv_message = message, cv_path = path, cv_severity = SeverityBlocking\<rparr>"

section \<open>Reading the metadata\<close>

text \<open>An array is an object too; a named property of it is \<open>undefined\<close>.\<close>

definition readRecord :: "json \<Rightarrow> json" where
  "readRecord v = (case v of JObj kvs \<Rightarrow> JObj kvs | JArr vs \<Rightarrow> JArr vs | _ \<Rightarrow> JObj [])"

definition has_keys :: "json \<Rightarrow> bool" where
  "has_keys v \<longleftrightarrow> (case v of JObj kvs \<Rightarrow> kvs \<noteq> [] | JArr vs \<Rightarrow> vs \<noteq> [] | _ \<Rightarrow> False)"

definition string_of :: "json \<Rightarrow> string option" where
  "string_of v = (case v of JStr s \<Rightarrow> Some s | _ \<Rightarrow> None)"

definition number_of :: "json \<Rightarrow> js_num option" where
  "number_of v = (case v of JNum x \<Rightarrow> Some x | _ \<Rightarrow> None)"

definition readStringArray :: "json \<Rightarrow> string list option" where
  "readStringArray v = (case v of JArr vs \<Rightarrow> Some (List.map_filter string_of vs) | _ \<Rightarrow> None)"

definition compatibilityOf :: "NormalizedPlanStep \<Rightarrow> string \<Rightarrow> json" where
  "compatibilityOf step section =
     readRecord (prop_get (readRecord (obj_get (ns_inputs step) ''compatibility'')) section)"

definition fallbackScope :: "string \<Rightarrow> CompatibilityScope" where
  "fallbackScope stepId =
     \<lparr>sb_actionScope = [stepId], sb_resourceScope = [stepId], sb_environmentScope = [''local''],
      sb_tenantScope = [''single-tenant''], sb_toolScope = [''planner'']\<rparr>"

definition normalizeApprovalContract :: "NormalizedPlanStep \<Rightarrow> ApprovalContract option" where
  "normalizeApprovalContract step =
     (let approval = compatibilityOf step ''approval'';
          scopeInput = readRecord (prop_get approval ''scope'');
          fallback = fallbackScope (ns_id step) in
      if \<not> has_keys approval then None
      else Some
        \<lparr>apc_stepId = ns_id step,
         apc_required = (prop_get approval ''required'' = JBool True \<or> ns_approvalMode step = ApprovalREQUIRED),
         apc_requiredRole = string_of (prop_get approval ''requiredRole''),
         apc_scope =
           \<lparr>sb_actionScope = js_default (sb_actionScope fallback) (readStringArray (prop_get scopeInput ''actionScope'')),
            sb_resourceScope = js_default (sb_resourceScope fallback) (readStringArray (prop_get scopeInput ''resourceScope'')),
            sb_environmentScope =
              js_default (sb_environmentScope fallback) (readStringArray (prop_get scopeInput ''environmentScope'')),
            sb_tenantScope = js_default (sb_tenantScope fallback) (readStringArray (prop_get scopeInput ''tenantScope'')),
            sb_toolScope = js_default (sb_toolScope fallback) (readStringArray (prop_get scopeInput ''toolScope''))\<rparr>,
         apc_expiresAt = string_of (prop_get approval ''expiresAt'')\<rparr>)"

definition normalizeRollbackContract :: "NormalizedPlanStep \<Rightarrow> RollbackContract option" where
  "normalizeRollbackContract step =
     (let rollback = compatibilityOf step ''rollback'' in
      if \<not> has_keys rollback then None
      else Some
        \<lparr>rbc_stepId = ns_id step,
         rbc_required = (prop_get rollback ''required'' = JBool True),
         rbc_rollbackStrategy = string_of (prop_get rollback ''rollbackStrategy''),
         rbc_rollbackOrder = number_of (prop_get rollback ''rollbackOrder''),
         rbc_checkpointRequired = (prop_get rollback ''checkpointRequired'' = JBool True),
         rbc_compensationRequired = (prop_get rollback ''compensationRequired'' = JBool True)\<rparr>)"

definition buildCompensationContracts :: "NormalizedPlanStep list \<Rightarrow> CompensationContract list" where
  "buildCompensationContracts steps = map (\<lambda>step.
     let compensation = compatibilityOf step ''compensation'' in
     \<lparr>cpc_stepId = ns_id step,
      cpc_irreversible = (prop_get compensation ''irreversible'' = JBool True \<or>
        obj_get (ns_inputs step) ''irreversible'' = JBool True),
      cpc_compensationStrategy = string_of (prop_get compensation ''compensationStrategy''),
      cpc_compensationWindowSeconds = number_of (prop_get compensation ''compensationWindowSeconds''),
      cpc_requiresApproval = (prop_get compensation ''requiresApproval'' = JBool True)\<rparr>) steps"

definition buildAuthorityGraph :: "ApprovalContract list \<Rightarrow> NormalizedPlanStep list \<Rightarrow> AuthorityGraph" where
  "buildAuthorityGraph approvalContracts steps =
     \<lparr>ag_nodes = map (\<lambda>c. \<lparr>an_stepId = apc_stepId c, an_requiredRole = apc_requiredRole c,
        an_environmentScope = sb_environmentScope (apc_scope c)\<rparr>) approvalContracts,
      ag_edges = concat (map (\<lambda>step.
        map (\<lambda>parent. \<lparr>ed_from = parent, ed_to = ns_id step\<rparr>)
          (js_default [] (readStringArray (prop_get (compatibilityOf step ''authority'') ''parents'')))) steps)\<rparr>"

definition buildEscalationGraph :: "NormalizedPlanStep list \<Rightarrow> EscalationGraph" where
  "buildEscalationGraph steps =
     \<lparr>eg_nodes = map (\<lambda>step. \<lparr>en_stepId = ns_id step,
        en_terminal = (prop_get (compatibilityOf step ''escalation'') ''terminal'' = JBool True)\<rparr>) steps,
      eg_edges = concat (map (\<lambda>step.
        map (\<lambda>target. \<lparr>ed_from = ns_id step, ed_to = target\<rparr>)
          (js_default [] (readStringArray (prop_get (compatibilityOf step ''escalation'') ''targets'')))) steps)\<rparr>"

section \<open>The validators\<close>

definition isWildcard :: "string list \<Rightarrow> bool" where
  "isWildcard values \<longleftrightarrow> list_ex (\<lambda>v. contains ''*'' v) values"

definition isDynamicTenant :: "string list \<Rightarrow> bool" where
  "isDynamicTenant values \<longleftrightarrow>
     list_ex (\<lambda>v. contains ''${'' v \<or> contains ''dynamic'' (map lower_char v)) values"

text \<open>\<open>Object.entries(contract.scope)\<close>, in the order in which the contract is written.\<close>

definition scope_entries :: "CompatibilityScope \<Rightarrow> (string \<times> string list) list" where
  "scope_entries s =
     [(''actionScope'', sb_actionScope s), (''resourceScope'', sb_resourceScope s),
      (''environmentScope'', sb_environmentScope s), (''tenantScope'', sb_tenantScope s),
      (''toolScope'', sb_toolScope s)]"

definition validateScopeBoundaries :: "ApprovalContract list \<Rightarrow> CompatibilityViolation list" where
  "validateScopeBoundaries approvalContracts = concat (map (\<lambda>c.
     concat (map (\<lambda>(scopeName, values).
       (if isWildcard values
        then [createCompatibilityViolation PLAN_SCOPE_BOUNDARY_INVALID
                (''Wildcard scope is invalid for '' @ apc_stepId c @ ''.'')
                (Some (''approvalContracts.'' @ apc_stepId c @ ''.'' @ scopeName))] else []) @
       (if scopeName = ''tenantScope'' \<and> isDynamicTenant values
        then [createCompatibilityViolation PLAN_SCOPE_BOUNDARY_INVALID
                (''Dynamic tenant scope is invalid for '' @ apc_stepId c @ ''.'')
                (Some (''approvalContracts.'' @ apc_stepId c @ ''.'' @ scopeName))] else []))
       (scope_entries (apc_scope c)))) approvalContracts)"

definition validateCompensationContracts :: "CompensationContract list \<Rightarrow> CompatibilityViolation list" where
  "validateCompensationContracts contracts = concat (map (\<lambda>c.
     if cpc_irreversible c \<and> js_default [] (cpc_compensationStrategy c) = []
     then [createCompatibilityViolation PLAN_COMPENSATION_REQUIRED
             (''Irreversible step '' @ cpc_stepId c @ '' requires compensation metadata.'')
             (Some (''compensationContracts.'' @ cpc_stepId c))]
     else []) contracts)"

definition authorityEdgeViolations :: "AuthorityGraph \<Rightarrow> CompatibilityEdge \<Rightarrow> CompatibilityViolation list" where
  "authorityEdgeViolations g e =
     (let nm = js_map_of (map (\<lambda>n. (an_stepId n, n)) (ag_nodes g)) in
      case (nm (ed_from e), nm (ed_to e)) of
        (Some fromNode, Some toNode) \<Rightarrow>
          if list_ex (\<lambda>scope. scope \<notin> set (an_environmentScope fromNode)) (an_environmentScope toNode)
          then [createCompatibilityViolation PLAN_AUTHORITY_GRAPH_INVALID
                  (''Cross-environment authority escalation is invalid for '' @ ed_from e @ '' -> '' @ ed_to e @ ''.'')
                  (Some (''authorityGraph.'' @ ed_from e @ ''.'' @ ed_to e))]
          else []
      | _ \<Rightarrow> [createCompatibilityViolation PLAN_AUTHORITY_GRAPH_INVALID
                (''Authority edge '' @ ed_from e @ '' -> '' @ ed_to e @ '' references an unknown node.'')
                (Some ''authorityGraph.edges'')])"

definition validateAuthorityGraph :: "AuthorityGraph \<Rightarrow> CompatibilityViolation list option" where
  "validateAuthorityGraph g = do {
     cycle \<leftarrow> detectCycle (ag_edges g);
     Some (concat (map (authorityEdgeViolations g) (ag_edges g)) @
       (case cycle of
          None \<Rightarrow> []
        | Some p \<Rightarrow> [createCompatibilityViolation PLAN_AUTHORITY_GRAPH_INVALID
            (''Authority graph cycle detected: '' @ js_join '' -> '' p @ ''.'') (Some ''authorityGraph'')]))
   }"

definition validateEscalationGraph :: "EscalationGraph \<Rightarrow> CompatibilityViolation list option" where
  "validateEscalationGraph g = do {
     cycle \<leftarrow> detectCycle (eg_edges g);
     let known = map en_stepId (eg_nodes g);
     let outbound = map ed_from (eg_edges g);
     Some (
       concat (map (\<lambda>e.
         if ed_from e \<notin> set known \<or> ed_to e \<notin> set known
         then [createCompatibilityViolation PLAN_ESCALATION_GRAPH_INVALID
                 (''Escalation edge '' @ ed_from e @ '' -> '' @ ed_to e @ '' references an unknown node.'')
                 (Some ''escalationGraph.edges'')]
         else []) (eg_edges g)) @
       (case cycle of
          None \<Rightarrow> []
        | Some p \<Rightarrow> [createCompatibilityViolation PLAN_ESCALATION_GRAPH_INVALID
            (''Escalation graph loop detected: '' @ js_join '' -> '' p @ ''.'') (Some ''escalationGraph'')]) @
       concat (map (\<lambda>node.
         if en_stepId node \<notin> set outbound \<and> list_ex (\<lambda>e. ed_to e = en_stepId node) (eg_edges g) \<and> \<not> en_terminal node
         then [createCompatibilityViolation PLAN_ESCALATION_GRAPH_INVALID
                 (''Escalation graph dead end detected at '' @ en_stepId node @ ''.'')
                 (Some (''escalationGraph.'' @ en_stepId node))]
         else []) (eg_nodes g)))
   }"

definition validateRollbackDependencyCompatibility ::
  "DependencyGraph \<Rightarrow> RollbackContract list \<Rightarrow> CompatibilityViolation list" where
  "validateRollbackDependencyCompatibility graph rollbackContracts =
     (let rollbackByStep = js_map_of (map (\<lambda>c. (rbc_stepId c, c)) rollbackContracts);
          sequenceIndex = js_map_of (map (\<lambda>n. (dn_stepId n, dn_sequenceIndex n)) (dg_nodes graph));
          expected = (\<lambda>k. num_of_int (int (length (dg_nodes graph)) - 1 - js_default 0 (sequenceIndex k)))
      in concat (map (\<lambda>e.
        case (rollbackByStep (de_from e), rollbackByStep (de_to e)) of
          (Some fromRollback, Some toRollback) \<Rightarrow>
            if rbc_required fromRollback \<and> rbc_required toRollback \<and>
               \<not> num_less (js_default (expected (de_to e)) (rbc_rollbackOrder toRollback))
                   (js_default (expected (de_from e)) (rbc_rollbackOrder fromRollback))
            then [createCompatibilityViolation PLAN_ROLLBACK_DEPENDENCY_CONFLICT
                    (''Rollback order for '' @ de_from e @ '' must be later than rollback order for '' @ de_to e @ ''.'')
                    (Some (''rollbackContracts.'' @ de_from e))]
            else []
        | _ \<Rightarrow> []) (dg_edges graph)))"

definition needsRollback :: "NormalizedPlanStep \<Rightarrow> bool" where
  "needsRollback step \<longleftrightarrow> obj_get (ns_inputs step) ''isDestructive'' = JBool True \<or>
     obj_get (ns_inputs step) ''hasExternalSideEffect'' = JBool True"

definition isExecutableStep :: "NormalizedPlanStep \<Rightarrow> bool" where
  "isExecutableStep step \<longleftrightarrow>
     js_default [] (string_of (prop_get (readRecord (ns_action step)) ''operation'')) \<noteq> ''approval_gate''"

definition validateApprovalContracts ::
  "NormalizedPlanStep list \<Rightarrow> ApprovalContract list \<Rightarrow> CompatibilityViolation list" where
  "validateApprovalContracts steps approvalContracts = concat (map (\<lambda>step.
     if isExecutableStep step \<and> ns_id step \<notin> apc_stepId ` set approvalContracts
     then [createCompatibilityViolation PLAN_APPROVAL_CONTRACT_MISSING
             (''Executable step '' @ ns_id step @ '' is missing approval compatibility metadata.'')
             (Some (''steps.'' @ ns_id step @ ''.inputs.compatibility.approval''))]
     else []) steps)"

definition validateRollbackContracts ::
  "NormalizedPlanStep list \<Rightarrow> RollbackContract list \<Rightarrow> CompatibilityViolation list" where
  "validateRollbackContracts steps rollbackContracts = concat (map (\<lambda>step.
     if needsRollback step \<and> ns_id step \<notin> rbc_stepId ` set rollbackContracts
     then [createCompatibilityViolation PLAN_ROLLBACK_CONTRACT_MISSING
             (''Mutating step '' @ ns_id step @ '' is missing rollback compatibility metadata.'')
             (Some (''steps.'' @ ns_id step @ ''.inputs.compatibility.rollback''))]
     else []) steps)"

definition validateRollbackGovernance ::
  "NormalizedPlanStep list \<Rightarrow> RollbackContract list \<Rightarrow> ApprovalContract list \<Rightarrow> CompatibilityViolation list" where
  "validateRollbackGovernance steps rollbackContracts approvalContracts =
     (let rollbackMap = js_map_of (map (\<lambda>c. (rbc_stepId c, c)) rollbackContracts);
          approvalMap = js_map_of (map (\<lambda>c. (apc_stepId c, c)) approvalContracts)
      in concat (map (\<lambda>step.
        case rollbackMap (ns_id step) of
          None \<Rightarrow> []
        | Some rollback \<Rightarrow>
            if rbc_required rollback \<and> rbc_compensationRequired rollback \<and>
               \<not> js_default False (map_option apc_required (approvalMap (ns_id step)))
            then [createCompatibilityViolation PLAN_ROLLBACK_GOVERNANCE_WEAKER_THAN_FORWARD
                    (''Rollback governance for '' @ ns_id step @
                       '' cannot be weaker than forward approval requirements.'')
                    (Some (''rollbackContracts.'' @ ns_id step))]
            else []) steps))"

section \<open>The snapshot and the hash\<close>

text \<open>\<open>Object.fromEntries\<close>: a repeated key keeps its first place and its last value.\<close>

definition fromEntries :: "(string \<times> 'v) list \<Rightarrow> (string \<times> 'v) list" where
  "fromEntries kvs = foldl (\<lambda>m (k, v). AList.update k v m) [] kvs"

definition buildCompatibilitySnapshot ::
  "string \<Rightarrow> string \<Rightarrow> string \<Rightarrow> ApprovalContract list \<Rightarrow> RollbackContract list \<Rightarrow> AuthorityGraph \<Rightarrow> EscalationGraph
   \<Rightarrow> CompatibilitySnapshot" where
  "buildCompatibilitySnapshot planId truthHash fingerprint approvals rollbacks authority escalation =
     \<lparr>sn_planId = planId, sn_executionTruthHash = truthHash, sn_dependencyGraphFingerprint = fingerprint,
      sn_authorityGraph = authority, sn_escalationGraph = escalation,
      sn_scopeBoundaries = fromEntries (map (\<lambda>c. (apc_stepId c, apc_scope c)) approvals),
      sn_rollbackOrder = fromEntries (map (\<lambda>c. (rbc_stepId c,
        js_default (num_of_int (- 1)) (rbc_rollbackOrder c))) rollbacks)\<rparr>"

definition scope_json :: "CompatibilityScope \<Rightarrow> json" where
  "scope_json s = JObj (map (\<lambda>(k, vs). (k, str_arr vs)) (scope_entries s))"

text \<open>An approval contract as it is hashed: without its expiry.\<close>

definition approval_contract_json :: "ApprovalContract \<Rightarrow> json" where
  "approval_contract_json c = JObj
     [(''stepId'', JStr (apc_stepId c)), (''required'', JBool (apc_required c)),
      (''requiredRole'', opt_json JStr (apc_requiredRole c)), (''expiresAt'', JUndef),
      (''scope'', scope_json (apc_scope c))]"

definition rollback_contract_json :: "RollbackContract \<Rightarrow> json" where
  "rollback_contract_json c = JObj
     [(''stepId'', JStr (rbc_stepId c)), (''required'', JBool (rbc_required c)),
      (''rollbackStrategy'', opt_json JStr (rbc_rollbackStrategy c)),
      (''rollbackOrder'', opt_json JNum (rbc_rollbackOrder c)),
      (''checkpointRequired'', JBool (rbc_checkpointRequired c)),
      (''compensationRequired'', JBool (rbc_compensationRequired c))]"

definition compensation_json :: "CompensationContract \<Rightarrow> json" where
  "compensation_json c = JObj
     [(''stepId'', JStr (cpc_stepId c)), (''irreversible'', JBool (cpc_irreversible c)),
      (''compensationStrategy'', opt_json JStr (cpc_compensationStrategy c)),
      (''compensationWindowSeconds'', opt_json JNum (cpc_compensationWindowSeconds c)),
      (''requiresApproval'', JBool (cpc_requiresApproval c))]"

definition edges_json :: "CompatibilityEdge list \<Rightarrow> json" where
  "edges_json es = JArr (map (\<lambda>e. JObj [(''from'', JStr (ed_from e)), (''to'', JStr (ed_to e))]) es)"

definition authority_json :: "AuthorityGraph \<Rightarrow> json" where
  "authority_json g = JObj
     [(''nodes'', JArr (map (\<lambda>n. JObj [(''stepId'', JStr (an_stepId n)),
         (''requiredRole'', opt_json JStr (an_requiredRole n)),
         (''environmentScope'', str_arr (an_environmentScope n))]) (ag_nodes g))),
      (''edges'', edges_json (ag_edges g))]"

definition escalation_json :: "EscalationGraph \<Rightarrow> json" where
  "escalation_json g = JObj
     [(''nodes'', JArr (map (\<lambda>n. JObj [(''stepId'', JStr (en_stepId n)),
         (''terminal'', JBool (en_terminal n))]) (eg_nodes g))),
      (''edges'', edges_json (eg_edges g))]"

definition compatibility_snapshot_json :: "CompatibilitySnapshot \<Rightarrow> json" where
  "compatibility_snapshot_json s = JObj
     [(''planId'', JStr (sn_planId s)), (''executionTruthHash'', JStr (sn_executionTruthHash s)),
      (''dependencyGraphFingerprint'', JStr (sn_dependencyGraphFingerprint s)),
      (''authorityGraph'', authority_json (sn_authorityGraph s)),
      (''escalationGraph'', escalation_json (sn_escalationGraph s)),
      (''scopeBoundaries'', JObj (map (\<lambda>(k, v). (k, scope_json v)) (sn_scopeBoundaries s))),
      (''rollbackOrder'', JObj (map (\<lambda>(k, v). (k, JNum v)) (sn_rollbackOrder s)))]"

definition compatibility_payload :: "ExecutionCompatibilityContract \<Rightarrow> json" where
  "compatibility_payload c = JObj
     [(''executionTruthHash'', JStr (xc_executionTruthHash c)),
      (''approvalContracts'', JArr (map approval_contract_json (xc_approvalContracts c))),
      (''rollbackContracts'', JArr (map rollback_contract_json (xc_rollbackContracts c))),
      (''compensationContracts'', JArr (map compensation_json (xc_compensationContracts c))),
      (''authorityGraph'', authority_json (xc_authorityGraph c)),
      (''escalationGraph'', escalation_json (xc_escalationGraph c)),
      (''compatibilitySnapshot'', compatibility_snapshot_json (xc_compatibilitySnapshot c))]"

definition hashExecutionCompatibilityContract ::
  "(string \<Rightarrow> string \<Rightarrow> int) \<Rightarrow> (string \<Rightarrow> string) \<Rightarrow> ExecutionCompatibilityContract \<Rightarrow> string" where
  "hashExecutionCompatibilityContract lc sha c =
     hashPayloadDeterministically sha (members (reparse_serialized lc (compatibility_payload c)))"

section \<open>The validator\<close>

definition approvalContractsOf :: "NormalizedPlanStep list \<Rightarrow> ApprovalContract list" where
  "approvalContractsOf steps = List.map_filter normalizeApprovalContract steps"

text \<open>A rollback contract without an order gets the reverse of its position.\<close>

definition rollbackContractsOf :: "NormalizedPlanStep list \<Rightarrow> RollbackContract list" where
  "rollbackContractsOf steps = concat (map (\<lambda>(index, step).
     case normalizeRollbackContract step of
       None \<Rightarrow> []
     | Some c \<Rightarrow> [c\<lparr>rbc_rollbackOrder :=
         Some (js_default (num_of_int (int (length steps) - 1 - int index)) (rbc_rollbackOrder c))\<rparr>])
     (enumerate 0 steps))"

definition compatibilityViolations ::
  "NormalizedPlan \<Rightarrow> DependencyGraph \<Rightarrow> CompatibilityViolation list option" where
  "compatibilityViolations plan graph = do {
     let steps = np_steps plan;
     let approvals = approvalContractsOf steps;
     let rollbacks = rollbackContractsOf steps;
     authority \<leftarrow> validateAuthorityGraph (buildAuthorityGraph approvals steps);
     escalation \<leftarrow> validateEscalationGraph (buildEscalationGraph steps);
     Some (validateApprovalContracts steps approvals @ validateRollbackContracts steps rollbacks @
       validateCompensationContracts (buildCompensationContracts steps) @ validateScopeBoundaries approvals @
       authority @ escalation @ validateRollbackDependencyCompatibility graph rollbacks @
       validateRollbackGovernance steps rollbacks approvals)
   }"

text \<open>The contract before it is hashed and judged.\<close>

definition bareContract :: "string \<Rightarrow> NormalizedPlan \<Rightarrow> string \<Rightarrow> ExecutionCompatibilityContract" where
  "bareContract truthHash plan fingerprint =
     (let steps = np_steps plan;
          approvals = approvalContractsOf steps;
          rollbacks = rollbackContractsOf steps;
          authority = buildAuthorityGraph approvals steps;
          escalation = buildEscalationGraph steps
      in \<lparr>xc_executionTruthHash = truthHash, xc_executionCompatibilityHash = [], xc_approvalContracts = approvals,
          xc_rollbackContracts = rollbacks, xc_compensationContracts = buildCompensationContracts steps,
          xc_authorityGraph = authority, xc_escalationGraph = escalation,
          xc_compatibilitySnapshot =
            buildCompatibilitySnapshot (np_planId plan) truthHash fingerprint approvals rollbacks authority escalation,
          xc_violations = [], xc_compatible = False\<rparr>)"

definition compatibilityOutcome ::
  "(string \<Rightarrow> string \<Rightarrow> int) \<Rightarrow> (string \<Rightarrow> string) \<Rightarrow> string option \<Rightarrow> ExecutionCompatibilityContract
   \<Rightarrow> CompatibilityViolation list \<Rightarrow> ExecutionCompatibilityValidationResult" where
  "compatibilityOutcome lc sha expectedHash bare found =
     (let hash = hashExecutionCompatibilityContract lc sha bare;
          violations = found @
            (if js_default [] expectedHash \<noteq> [] \<and> expectedHash \<noteq> Some hash
             then [createCompatibilityViolation PLAN_COMPATIBILITY_HASH_MISMATCH
                     ''Execution compatibility hash drift detected.'' (Some ''executionCompatibilityHash'')]
             else []);
          contract = bare\<lparr>xc_executionCompatibilityHash := hash, xc_violations := violations,
            xc_compatible := list_all (\<lambda>v. cv_severity v \<noteq> SeverityBlocking) violations\<rparr>
      in if \<not> xc_compatible contract then CompatibilityFailed (Some contract) violations
         else CompatibilityOk contract violations)"

definition resolveDependencyValidation ::
  "(string \<Rightarrow> string \<Rightarrow> int) \<Rightarrow> (string \<Rightarrow> string) \<Rightarrow> ExecutionCompatibilityInput \<Rightarrow> NormalizedPlan
   \<Rightarrow> SequentialDependencyValidationResult option" where
  "resolveDependencyValidation lc sha input plan =
     (case ci_dependencyValidation input of
        Some dv \<Rightarrow> Some dv
      | None \<Rightarrow> validateSequentialDependencies lc sha (PlanValue plan))"

definition resolveDependencyGraph ::
  "ExecutionCompatibilityInput \<Rightarrow> SequentialDependencyValidationResult \<Rightarrow> DependencyGraph option" where
  "resolveDependencyGraph input dv =
     (case ci_dependencyGraph input of Some g \<Rightarrow> Some g | None \<Rightarrow> sd_graph dv)"

definition validateExecutionCompatibility ::
  "(string \<Rightarrow> string \<Rightarrow> int) \<Rightarrow> (string \<Rightarrow> string) \<Rightarrow> ExecutionCompatibilityInput
   \<Rightarrow> ExecutionCompatibilityValidationResult option" where
  "validateExecutionCompatibility lc sha input =
     (case (ci_normalizedPlan input, ci_executionTruth input) of
        (Some plan, Some truth) \<Rightarrow>
          if ci_executionTruthHash input = [] then Some (CompatibilityFailed None [createCompatibilityViolation
            PLAN_COMPATIBILITY_INPUT_MISSING
            ''Execution compatibility requires normalized plan, execution truth, and execution truth hash.'' None])
          else do {
            dv \<leftarrow> resolveDependencyValidation lc sha input plan;
            if \<not> sd_ok dv \<or> no_fingerprint dv then Some (CompatibilityFailed None [createCompatibilityViolation
              PLAN_COMPATIBILITY_VALIDATION_FAILED
              ''Execution compatibility requires a valid dependency validation artifact.'' None])
            else (case resolveDependencyGraph input dv of
              None \<Rightarrow> Some (CompatibilityFailed None [createCompatibilityViolation
                PLAN_COMPATIBILITY_VALIDATION_FAILED ''Execution compatibility requires a dependency graph.'' None])
            | Some graph \<Rightarrow> do {
                found \<leftarrow> compatibilityViolations plan graph;
                Some (compatibilityOutcome lc sha (ci_expectedCompatibilityHash input)
                  (bareContract (ci_executionTruthHash input) plan (js_default [] (sd_dependencyGraphFingerprint dv)))
                  found)
              })
          }
      | _ \<Rightarrow> Some (CompatibilityFailed None [createCompatibilityViolation
          PLAN_COMPATIBILITY_INPUT_MISSING
          ''Execution compatibility requires normalized plan, execution truth, and execution truth hash.'' None]))"

end
