(* ===== verification/ReplayAudit.thy ===== *)
theory ReplayAudit
  imports ExecutionCompatibility
begin

text \<open>
  \<open>services/planning/replay-audit\<close>: what is recorded of a compatible plan so that it can be replayed and
  audited.  The snapshot of the compatibility contract is checked for mutable fields and against the
  contract and the truth package; then a replay snapshot, a proof, an audit artifact, a chain of ledger
  events and an evidence reference are built, each hashed into the next (\<open>buildReplayAuditReadiness\<close>).
\<close>

section \<open>Types\<close>

datatype ReplayAuditFailureCode =
    REPO_CONTEXT_MISSING
  | COMPATIBILITY_TRUTH_VIOLATION
  | MISSING_EXECUTION_TRUTH_HASH
  | MISSING_EXECUTION_COMPATIBILITY_HASH
  | MISSING_COMPATIBILITY_SNAPSHOT
  | COMPATIBILITY_HASH_DRIFT
  | COMPATIBILITY_SNAPSHOT_MISMATCH
  | REPLAY_SNAPSHOT_HASH_MISMATCH
  | REPLAY_PROOF_MISMATCH
  | AUDIT_ARTIFACT_HASH_MISMATCH
  | MUTABLE_REPLAY_INPUT_DETECTED
  | APPROVAL_CONTRACT_REHYDRATION_DETECTED
  | ROLLBACK_CONTRACT_REGENERATION_DETECTED
  | AUTHORITY_GRAPH_DIVERGENCE
  | ESCALATION_GRAPH_DIVERGENCE
  | LEDGER_EVENT_HASH_MISMATCH
  | EVIDENCE_REFERENCE_HASH_MISMATCH

fun audit_code_str :: "ReplayAuditFailureCode \<Rightarrow> string" where
  "audit_code_str REPO_CONTEXT_MISSING = ''PHASE4_2H_REPO_CONTEXT_MISSING''"
| "audit_code_str COMPATIBILITY_TRUTH_VIOLATION = ''PHASE4_2H_COMPATIBILITY_TRUTH_VIOLATION''"
| "audit_code_str MISSING_EXECUTION_TRUTH_HASH = ''PHASE4_2H_MISSING_EXECUTION_TRUTH_HASH''"
| "audit_code_str MISSING_EXECUTION_COMPATIBILITY_HASH = ''PHASE4_2H_MISSING_EXECUTION_COMPATIBILITY_HASH''"
| "audit_code_str MISSING_COMPATIBILITY_SNAPSHOT = ''PHASE4_2H_MISSING_COMPATIBILITY_SNAPSHOT''"
| "audit_code_str COMPATIBILITY_HASH_DRIFT = ''PHASE4_2H_COMPATIBILITY_HASH_DRIFT''"
| "audit_code_str COMPATIBILITY_SNAPSHOT_MISMATCH = ''PHASE4_2H_COMPATIBILITY_SNAPSHOT_MISMATCH''"
| "audit_code_str REPLAY_SNAPSHOT_HASH_MISMATCH = ''PHASE4_2H_REPLAY_SNAPSHOT_HASH_MISMATCH''"
| "audit_code_str REPLAY_PROOF_MISMATCH = ''PHASE4_2H_REPLAY_PROOF_MISMATCH''"
| "audit_code_str AUDIT_ARTIFACT_HASH_MISMATCH = ''PHASE4_2H_AUDIT_ARTIFACT_HASH_MISMATCH''"
| "audit_code_str MUTABLE_REPLAY_INPUT_DETECTED = ''PHASE4_2H_MUTABLE_REPLAY_INPUT_DETECTED''"
| "audit_code_str APPROVAL_CONTRACT_REHYDRATION_DETECTED = ''PHASE4_2H_APPROVAL_CONTRACT_REHYDRATION_DETECTED''"
| "audit_code_str ROLLBACK_CONTRACT_REGENERATION_DETECTED = ''PHASE4_2H_ROLLBACK_CONTRACT_REGENERATION_DETECTED''"
| "audit_code_str AUTHORITY_GRAPH_DIVERGENCE = ''PHASE4_2H_AUTHORITY_GRAPH_DIVERGENCE''"
| "audit_code_str ESCALATION_GRAPH_DIVERGENCE = ''PHASE4_2H_ESCALATION_GRAPH_DIVERGENCE''"
| "audit_code_str LEDGER_EVENT_HASH_MISMATCH = ''PHASE4_2H_LEDGER_EVENT_HASH_MISMATCH''"
| "audit_code_str EVIDENCE_REFERENCE_HASH_MISMATCH = ''PHASE4_2H_EVIDENCE_REFERENCE_HASH_MISMATCH''"

record ReplayAuditFailure =
  raf_code :: ReplayAuditFailureCode
  raf_message :: string
  raf_path :: "string option"

record CompatibilityReplayReference =
  rcr_executionTruthHash :: string
  rcr_executionCompatibilityHash :: string
  rcr_compatibilitySnapshotHash :: string

record ReplayInputSnapshot =
  ris_snapshotVersion :: string
  ris_planId :: string
  ris_planHash :: string
  ris_normalizedPlanHash :: string
  ris_executionTruthHash :: string
  ris_executionCompatibilityHash :: string
  ris_compatibilitySnapshotHash :: string
  ris_compatibilitySnapshot :: json

datatype ReplayVerdict = REPLAY_COMPATIBLE | REPLAY_INCOMPATIBLE

record ReplayProof =
  rpf_proofVersion :: string
  rpf_planId :: string
  rpf_originalExecutionTruthHash :: string
  rpf_replayedExecutionTruthHash :: string
  rpf_originalExecutionCompatibilityHash :: string
  rpf_replayedExecutionCompatibilityHash :: string
  rpf_originalReplaySnapshotHash :: string
  rpf_replayedReplaySnapshotHash :: string
  rpf_structuralEquality :: bool
  rpf_verdict :: ReplayVerdict
  rpf_failureCode :: "ReplayAuditFailureCode option"

text \<open>A plan audit artifact, and the one that has no hash yet (\<open>Omit<PlanAuditArtifact, "artifactHash">\<close>).\<close>

record BareAuditArtifact =
  paa_artifactVersion :: string
  paa_planId :: string
  paa_planHash :: string
  paa_normalizedPlanHash :: string
  paa_executionTruthHash :: string
  paa_executionCompatibilityHash :: string
  paa_compatibilitySnapshotHash :: string
  paa_replaySnapshotHash :: string
  paa_replayProofHash :: string

record PlanAuditArtifact = BareAuditArtifact +
  paa_artifactHash :: string

record AuditLedgerEvent =
  ale_eventVersion :: string
  ale_eventType :: string
  ale_planId :: string
  ale_planHash :: string
  ale_previousEventHash :: "string option"
  ale_payloadHash :: string
  ale_eventHash :: string
  ale_payload :: js_record

record PlanEvidenceReference =
  per_referenceVersion :: string
  per_planId :: string
  per_planHash :: string
  per_normalizedPlanHash :: string
  per_executionTruthHash :: string
  per_executionCompatibilityHash :: string
  per_compatibilitySnapshotHash :: string
  per_replaySnapshotHash :: string
  per_replayProofHash :: string
  per_auditArtifactHash :: string
  per_ledgerEventHashes :: "string list"

datatype ReplayAuditReadinessVerdict = REPLAY_AUDIT_READY | REPLAY_AUDIT_BLOCKED

text \<open>
  The service checks that the contract carries a snapshot, so the field
  \<open>executionCompatibilityContract.compatibilitySnapshot\<close> is kept apart from the rest of the contract.
\<close>

record ReplayAuditInput =
  rai_normalizedPlan :: NormalizedPlan
  rai_executionTruthPackage :: ExecutionTruthPackage
  rai_contract :: ExecutionCompatibilityContract
  rai_compatibilitySnapshot :: "CompatibilitySnapshot option"
  rai_expectedExecutionTruthHash :: "string option"
  rai_expectedExecutionCompatibilityHash :: "string option"

record ReplayAuditArtifacts =
  raa_compatibilityReference :: CompatibilityReplayReference
  raa_replayInputSnapshot :: ReplayInputSnapshot
  raa_replaySnapshotHash :: string
  raa_replayProof :: ReplayProof
  raa_replayProofHash :: string
  raa_auditArtifact :: PlanAuditArtifact
  raa_ledgerEvents :: "AuditLedgerEvent list"
  raa_evidenceReference :: PlanEvidenceReference
  raa_evidenceReferenceHash :: string

record ReplayAuditResult =
  rar_verdict :: ReplayAuditReadinessVerdict
  rar_planId :: string
  rar_planHash :: string
  rar_normalizedPlanHash :: string
  rar_executionTruthHash :: "string option"
  rar_executionCompatibilityHash :: "string option"
  rar_compatibilitySnapshotHash :: "string option"
  rar_replaySnapshotHash :: "string option"
  rar_replayProofHash :: "string option"
  rar_auditArtifactHash :: "string option"
  rar_evidenceReferenceHash :: "string option"
  rar_failures :: "ReplayAuditFailure list"
  rar_artifacts :: "ReplayAuditArtifacts option"

definition createReplayAuditFailure :: "ReplayAuditFailureCode \<Rightarrow> string \<Rightarrow> string option \<Rightarrow> ReplayAuditFailure" where
  "createReplayAuditFailure code message path = \<lparr>raf_code = code, raf_message = message, raf_path = path\<rparr>"

section \<open>The compatibility snapshot\<close>

text \<open>\<open>hashPayloadDeterministically (JSON.parse (serializeDeterministically snapshot))\<close>.\<close>

definition hashReplayInputSnapshot :: "(string \<Rightarrow> string \<Rightarrow> int) \<Rightarrow> (string \<Rightarrow> string) \<Rightarrow> json \<Rightarrow> string" where
  "hashReplayInputSnapshot lc sha snapshot = sha (js_default [] (canonicalSerialize (reparse_serialized lc snapshot)))"

definition mutable_key :: "string \<Rightarrow> bool" where
  "mutable_key key \<longleftrightarrow>
     (let lowered = map lower_char key in
      contains ''timestamp'' lowered \<or> lowered = ''session'' \<or> contains ''runtime'' lowered \<or>
      contains ''approvaldecision'' lowered \<or> contains ''network'' lowered \<or> contains ''result'' lowered)"

text \<open>The failures below a value, as a function of the path it is reached by.\<close>

definition sub_path :: "string \<Rightarrow> string \<Rightarrow> string" where
  "sub_path path key = (if path = [] then key else path @ ''.'' @ key)"

fun scanMutableFields :: "json \<Rightarrow> string \<Rightarrow> ReplayAuditFailure list" where
  "scanMutableFields (JArr vs) path =
     concat (map (\<lambda>(index, scan). scan (path @ ''['' @ nat_str index @ '']''))
       (enumerate 0 (map (\<lambda>v p. scanMutableFields v p) vs)))"
| "scanMutableFields (JObj kvs) path =
     concat (map (\<lambda>(key, scan).
       (if mutable_key key
        then [createReplayAuditFailure MUTABLE_REPLAY_INPUT_DETECTED
                (''Mutable replay input field detected at '' @ (if path = [] then [] else path @ ''.'') @ key @ ''.'')
                (Some (sub_path path key))]
        else []) @ scan (sub_path path key))
       (js_entries (map (\<lambda>(k, v). (k, \<lambda>p. scanMutableFields v p)) kvs)))"
| "scanMutableFields v path = []"

record IngestedCompatibilitySnapshot =
  ics_compatibilityReference :: "CompatibilityReplayReference option"
  ics_compatibilitySnapshotHash :: "string option"
  ics_failures :: "ReplayAuditFailure list"

definition ingestionFailures ::
  "ExecutionCompatibilityContract \<Rightarrow> CompatibilitySnapshot option \<Rightarrow> ReplayAuditFailure list" where
  "ingestionFailures contract snapshot =
     (if xc_executionTruthHash contract = []
      then [createReplayAuditFailure MISSING_EXECUTION_TRUTH_HASH
              ''Execution truth hash is required for replay/audit ingestion.'' (Some ''executionTruthHash'')] else []) @
     (if xc_executionCompatibilityHash contract = []
      then [createReplayAuditFailure MISSING_EXECUTION_COMPATIBILITY_HASH
              ''Execution compatibility hash is required for replay/audit ingestion.''
              (Some ''executionCompatibilityHash'')] else []) @
     (case snapshot of
        None \<Rightarrow> [createReplayAuditFailure MISSING_COMPATIBILITY_SNAPSHOT
                  ''Compatibility snapshot is required for replay/audit ingestion.'' (Some ''compatibilitySnapshot'')]
      | Some s \<Rightarrow> scanMutableFields (compatibility_snapshot_json s) ''compatibilitySnapshot'')"

definition buildCompatibilityHashReference ::
  "ExecutionCompatibilityContract \<Rightarrow> string \<Rightarrow> CompatibilityReplayReference" where
  "buildCompatibilityHashReference contract snapshotHash =
     \<lparr>rcr_executionTruthHash = xc_executionTruthHash contract,
      rcr_executionCompatibilityHash = xc_executionCompatibilityHash contract,
      rcr_compatibilitySnapshotHash = snapshotHash\<rparr>"

definition ingestCompatibilitySnapshot ::
  "(string \<Rightarrow> string \<Rightarrow> int) \<Rightarrow> (string \<Rightarrow> string) \<Rightarrow> ExecutionCompatibilityContract \<Rightarrow> CompatibilitySnapshot option
   \<Rightarrow> IngestedCompatibilitySnapshot" where
  "ingestCompatibilitySnapshot lc sha contract snapshot =
     (let failures = ingestionFailures contract snapshot in
      case snapshot of
        None \<Rightarrow> \<lparr>ics_compatibilityReference = None, ics_compatibilitySnapshotHash = None, ics_failures = failures\<rparr>
      | Some s \<Rightarrow>
          if failures \<noteq> []
          then \<lparr>ics_compatibilityReference = None, ics_compatibilitySnapshotHash = None, ics_failures = failures\<rparr>
          else (let snapshotHash = hashReplayInputSnapshot lc sha (compatibility_snapshot_json s) in
            \<lparr>ics_compatibilityReference = Some (buildCompatibilityHashReference contract snapshotHash),
             ics_compatibilitySnapshotHash = Some snapshotHash, ics_failures = failures\<rparr>))"

text \<open>\<open>compareKeys\<close>: the same strings the same number of times.\<close>

definition compareKeys :: "string list \<Rightarrow> string list \<Rightarrow> bool" where
  "compareKeys actual expected \<longleftrightarrow>
     (let actualList = js_sort code_unit_compare actual; expectedList = js_sort code_unit_compare expected in
      length actualList = length expectedList \<and>
      list_all (\<lambda>(index, value). value = expectedList ! index) (enumerate 0 actualList))"

definition object_keys :: "(string \<times> 'v) list \<Rightarrow> string list" where
  "object_keys kvs = map fst (js_entries kvs)"

definition audit_failure_if :: "bool \<Rightarrow> ReplayAuditFailureCode \<Rightarrow> string \<Rightarrow> string \<Rightarrow> ReplayAuditFailure list" where
  "audit_failure_if failed code message path =
     (if failed then [createReplayAuditFailure code message (Some path)] else [])"

definition validateCompatibilityTruth ::
  "(string \<Rightarrow> string \<Rightarrow> int) \<Rightarrow> ReplayAuditInput \<Rightarrow> CompatibilitySnapshot \<Rightarrow> string \<Rightarrow> ReplayAuditFailure list" where
  "validateCompatibilityTruth lc input snapshot snapshotHash =
     (let contract = rai_contract input;
          truthHash = tp_executionTruthHash (rai_executionTruthPackage input);
          expectedTruth = js_default [] (rai_expectedExecutionTruthHash input);
          expectedCompatibility = js_default [] (rai_expectedExecutionCompatibilityHash input)
      in
       audit_failure_if (expectedTruth \<noteq> [] \<and> expectedTruth \<noteq> truthHash) COMPATIBILITY_HASH_DRIFT
         ''Expected execution truth hash does not match the provided execution truth package.''
         ''expectedExecutionTruthHash'' @
       audit_failure_if (expectedCompatibility \<noteq> [] \<and> expectedCompatibility \<noteq> xc_executionCompatibilityHash contract)
         COMPATIBILITY_HASH_DRIFT
         ''Expected execution compatibility hash does not match the provided compatibility contract.''
         ''expectedExecutionCompatibilityHash'' @
       audit_failure_if (xc_executionTruthHash contract \<noteq> truthHash) COMPATIBILITY_TRUTH_VIOLATION
         ''Compatibility contract does not preserve the upstream execution truth hash.''
         ''executionCompatibilityContract.executionTruthHash'' @
       audit_failure_if (sn_executionTruthHash snapshot \<noteq> xc_executionTruthHash contract) COMPATIBILITY_SNAPSHOT_MISMATCH
         ''Compatibility snapshot execution truth hash diverged from the compatibility contract.''
         ''compatibilitySnapshot.executionTruthHash'' @
       audit_failure_if (sn_planId snapshot \<noteq> np_planId (rai_normalizedPlan input)) COMPATIBILITY_SNAPSHOT_MISMATCH
         ''Compatibility snapshot planId diverged from normalized plan identity.''
         ''compatibilitySnapshot.planId'' @
       audit_failure_if
         (\<not> compareKeys (map apc_stepId (xc_approvalContracts contract)) (object_keys (sn_scopeBoundaries snapshot)))
         APPROVAL_CONTRACT_REHYDRATION_DETECTED
         ''Approval contracts and compatibility snapshot scope boundaries no longer align.''
         ''compatibilitySnapshot.scopeBoundaries'' @
       audit_failure_if
         (\<not> compareKeys (map rbc_stepId (xc_rollbackContracts contract)) (object_keys (sn_rollbackOrder snapshot)))
         ROLLBACK_CONTRACT_REGENERATION_DETECTED
         ''Rollback contracts and compatibility snapshot rollback order no longer align.''
         ''compatibilitySnapshot.rollbackOrder'' @
       audit_failure_if
         (serializeDeterministically lc (authority_json (sn_authorityGraph snapshot)) \<noteq>
          serializeDeterministically lc (authority_json (xc_authorityGraph contract)))
         AUTHORITY_GRAPH_DIVERGENCE ''Authority graph diverged from the compatibility snapshot.''
         ''compatibilitySnapshot.authorityGraph'' @
       audit_failure_if
         (serializeDeterministically lc (escalation_json (sn_escalationGraph snapshot)) \<noteq>
          serializeDeterministically lc (escalation_json (xc_escalationGraph contract)))
         ESCALATION_GRAPH_DIVERGENCE ''Escalation graph diverged from the compatibility snapshot.''
         ''compatibilitySnapshot.escalationGraph'' @
       audit_failure_if (snapshotHash = []) COMPATIBILITY_SNAPSHOT_MISMATCH
         ''Compatibility snapshot hash could not be derived deterministically.'' ''compatibilitySnapshotHash'')"

text \<open>Both views are of the one snapshot; \<open>undefined\<close> is serialized as \<open>null\<close>.\<close>

definition detectCompatibilityDrift ::
  "(string \<Rightarrow> string \<Rightarrow> int) \<Rightarrow> (string \<Rightarrow> string) \<Rightarrow> ReplayAuditInput \<Rightarrow> ReplayAuditFailure list" where
  "detectCompatibilityDrift lc sha input =
     (let view = opt_json compatibility_snapshot_json (rai_compatibilitySnapshot input);
          frozenSnapshotHash = hashReplayInputSnapshot lc sha view;
          replayedSnapshotHash = hashReplayInputSnapshot lc sha view
      in if frozenSnapshotHash = replayedSnapshotHash then []
         else [createReplayAuditFailure COMPATIBILITY_SNAPSHOT_MISMATCH
                 ''Compatibility snapshot drift detected between frozen and replayed views.''
                 (Some ''compatibilitySnapshot'')])"

section \<open>Snapshot, proof, artifact, ledger and evidence\<close>

definition plan_identity_fields :: "NormalizedPlan \<Rightarrow> js_record" where
  "plan_identity_fields plan =
     [(''planId'', JStr (np_planId plan)), (''schemaVersion'', JStr (np_schemaVersion plan)),
      (''goal'', JStr (np_goal plan)), (''stepIds'', str_arr (map ns_id (np_steps plan))),
      (''stepHashes'', str_arr (map ns_hash (np_steps plan)))]"

definition derivePlanHash :: "(string \<Rightarrow> string) \<Rightarrow> NormalizedPlan \<Rightarrow> string" where
  "derivePlanHash sha plan = hashPayloadDeterministically sha (plan_identity_fields plan)"

definition buildReplayInputSnapshot :: "ReplayAuditInput \<Rightarrow> string \<Rightarrow> string \<Rightarrow> ReplayInputSnapshot" where
  "buildReplayInputSnapshot input planHash snapshotHash =
     \<lparr>ris_snapshotVersion = ''4.2H'', ris_planId = np_planId (rai_normalizedPlan input), ris_planHash = planHash,
      ris_normalizedPlanHash = np_normalizationHash (rai_normalizedPlan input),
      ris_executionTruthHash = tp_executionTruthHash (rai_executionTruthPackage input),
      ris_executionCompatibilityHash = xc_executionCompatibilityHash (rai_contract input),
      ris_compatibilitySnapshotHash = snapshotHash,
      ris_compatibilitySnapshot = opt_json compatibility_snapshot_json (rai_compatibilitySnapshot input)\<rparr>"

definition input_snapshot_json :: "ReplayInputSnapshot \<Rightarrow> json" where
  "input_snapshot_json s = JObj
     [(''snapshotVersion'', JStr (ris_snapshotVersion s)), (''planId'', JStr (ris_planId s)),
      (''planHash'', JStr (ris_planHash s)), (''normalizedPlanHash'', JStr (ris_normalizedPlanHash s)),
      (''executionTruthHash'', JStr (ris_executionTruthHash s)),
      (''executionCompatibilityHash'', JStr (ris_executionCompatibilityHash s)),
      (''compatibilitySnapshotHash'', JStr (ris_compatibilitySnapshotHash s)),
      (''compatibilitySnapshot'', ris_compatibilitySnapshot s)]"

fun verdict_str :: "ReplayVerdict \<Rightarrow> string" where
  "verdict_str REPLAY_COMPATIBLE = ''REPLAY_COMPATIBLE''"
| "verdict_str REPLAY_INCOMPATIBLE = ''REPLAY_INCOMPATIBLE''"

definition buildReplayProof :: "ReplayAuditInput \<Rightarrow> string \<Rightarrow> string \<Rightarrow> ReplayProof" where
  "buildReplayProof input originalSnapshotHash replayedSnapshotHash =
     (let originalTruth = tp_executionTruthHash (rai_executionTruthPackage input);
          replayedTruth = tp_executionTruthHash (rai_executionTruthPackage input);
          originalCompatibility = xc_executionCompatibilityHash (rai_contract input);
          replayedCompatibility = xc_executionCompatibilityHash (rai_contract input);
          structuralEquality = (originalTruth = replayedTruth \<and> originalCompatibility = replayedCompatibility \<and>
            originalSnapshotHash = replayedSnapshotHash)
      in \<lparr>rpf_proofVersion = ''4.2H'', rpf_planId = np_planId (rai_normalizedPlan input),
          rpf_originalExecutionTruthHash = originalTruth, rpf_replayedExecutionTruthHash = replayedTruth,
          rpf_originalExecutionCompatibilityHash = originalCompatibility,
          rpf_replayedExecutionCompatibilityHash = replayedCompatibility,
          rpf_originalReplaySnapshotHash = originalSnapshotHash, rpf_replayedReplaySnapshotHash = replayedSnapshotHash,
          rpf_structuralEquality = structuralEquality,
          rpf_verdict = (if structuralEquality then REPLAY_COMPATIBLE else REPLAY_INCOMPATIBLE),
          rpf_failureCode = (if structuralEquality then None else Some REPLAY_PROOF_MISMATCH)\<rparr>)"

definition proof_fields :: "ReplayProof \<Rightarrow> js_record" where
  "proof_fields p =
     [(''proofVersion'', JStr (rpf_proofVersion p)), (''planId'', JStr (rpf_planId p)),
      (''originalExecutionTruthHash'', JStr (rpf_originalExecutionTruthHash p)),
      (''replayedExecutionTruthHash'', JStr (rpf_replayedExecutionTruthHash p)),
      (''originalExecutionCompatibilityHash'', JStr (rpf_originalExecutionCompatibilityHash p)),
      (''replayedExecutionCompatibilityHash'', JStr (rpf_replayedExecutionCompatibilityHash p)),
      (''originalReplaySnapshotHash'', JStr (rpf_originalReplaySnapshotHash p)),
      (''replayedReplaySnapshotHash'', JStr (rpf_replayedReplaySnapshotHash p)),
      (''structuralEquality'', JBool (rpf_structuralEquality p)), (''verdict'', JStr (verdict_str (rpf_verdict p))),
      (''failureCode'', opt_json (\<lambda>c. JStr (audit_code_str c)) (rpf_failureCode p))]"

definition hashReplayProof :: "(string \<Rightarrow> string) \<Rightarrow> ReplayProof \<Rightarrow> string" where
  "hashReplayProof sha p = hashPayloadDeterministically sha (proof_fields p)"

definition validateReplayProof :: "ReplayProof \<Rightarrow> ReplayAuditFailure list" where
  "validateReplayProof p =
     (if rpf_structuralEquality p \<and> rpf_verdict p = REPLAY_COMPATIBLE then []
      else [createReplayAuditFailure REPLAY_PROOF_MISMATCH
              ''Replay proof diverged from the original replay snapshot chain.'' (Some ''replayProof'')])"

definition artifact_fields :: "('a :: type) BareAuditArtifact_scheme \<Rightarrow> js_record" where
  "artifact_fields a =
     [(''artifactVersion'', JStr (paa_artifactVersion a)), (''planId'', JStr (paa_planId a)),
      (''planHash'', JStr (paa_planHash a)), (''normalizedPlanHash'', JStr (paa_normalizedPlanHash a)),
      (''executionTruthHash'', JStr (paa_executionTruthHash a)),
      (''executionCompatibilityHash'', JStr (paa_executionCompatibilityHash a)),
      (''compatibilitySnapshotHash'', JStr (paa_compatibilitySnapshotHash a)),
      (''replaySnapshotHash'', JStr (paa_replaySnapshotHash a)), (''replayProofHash'', JStr (paa_replayProofHash a))]"

definition hashAuditArtifact :: "(string \<Rightarrow> string) \<Rightarrow> BareAuditArtifact \<Rightarrow> string" where
  "hashAuditArtifact sha a = hashPayloadDeterministically sha (artifact_fields a)"

definition buildAuditArtifact ::
  "NormalizedPlan \<Rightarrow> string \<Rightarrow> CompatibilityReplayReference \<Rightarrow> string \<Rightarrow> string \<Rightarrow> BareAuditArtifact" where
  "buildAuditArtifact plan planHash reference replaySnapshotHash replayProofHash =
     \<lparr>paa_artifactVersion = ''4.2H'', paa_planId = np_planId plan, paa_planHash = planHash,
      paa_normalizedPlanHash = np_normalizationHash plan,
      paa_executionTruthHash = rcr_executionTruthHash reference,
      paa_executionCompatibilityHash = rcr_executionCompatibilityHash reference,
      paa_compatibilitySnapshotHash = rcr_compatibilitySnapshotHash reference,
      paa_replaySnapshotHash = replaySnapshotHash, paa_replayProofHash = replayProofHash\<rparr>"

definition EVENT_TYPES :: "string list" where
  "EVENT_TYPES =
     [''plan.execution_truth.validated'', ''plan.execution_compatibility.validated'',
      ''plan.compatibility_snapshot.frozen'', ''plan.replay_snapshot.generated'',
      ''plan.replay_proof.generated'', ''plan.audit_artifact.generated'']"

definition event_payloads ::
  "CompatibilityReplayReference \<Rightarrow> string \<Rightarrow> string \<Rightarrow> string \<Rightarrow> js_record list" where
  "event_payloads reference replaySnapshotHash replayProofHash auditArtifactHash =
     [[(''executionTruthHash'', JStr (rcr_executionTruthHash reference))],
      [(''executionCompatibilityHash'', JStr (rcr_executionCompatibilityHash reference))],
      [(''compatibilitySnapshotHash'', JStr (rcr_compatibilitySnapshotHash reference))],
      [(''replaySnapshotHash'', JStr replaySnapshotHash)], [(''replayProofHash'', JStr replayProofHash)],
      [(''auditArtifactHash'', JStr auditArtifactHash)]]"

definition event_fields ::
  "string \<Rightarrow> string \<Rightarrow> string \<Rightarrow> string option \<Rightarrow> string \<Rightarrow> js_record \<Rightarrow> js_record" where
  "event_fields eventType planId planHash previousEventHash payloadHash payload =
     [(''eventVersion'', JStr ''4.2H''), (''eventType'', JStr eventType), (''planId'', JStr planId),
      (''planHash'', JStr planHash), (''previousEventHash'', opt_json JStr previousEventHash),
      (''payloadHash'', JStr payloadHash), (''payload'', JObj payload)]"

text \<open>\<open>EVENT_TYPES.map\<close> with the hash of the event before.\<close>

fun chainEvents ::
  "(string \<Rightarrow> string) \<Rightarrow> string \<Rightarrow> string \<Rightarrow> string option \<Rightarrow> (string \<times> js_record) list \<Rightarrow> AuditLedgerEvent list" where
  "chainEvents sha planId planHash previousEventHash [] = []"
| "chainEvents sha planId planHash previousEventHash ((eventType, payload) # rest) =
     (let payloadHash = hashPayloadDeterministically sha payload;
          eventHash = hashPayloadDeterministically sha
            (event_fields eventType planId planHash previousEventHash payloadHash payload)
      in \<lparr>ale_eventVersion = ''4.2H'', ale_eventType = eventType, ale_planId = planId, ale_planHash = planHash,
          ale_previousEventHash = previousEventHash, ale_payloadHash = payloadHash, ale_eventHash = eventHash,
          ale_payload = payload\<rparr> # chainEvents sha planId planHash (Some eventHash) rest)"

definition buildAuditLedgerEvents ::
  "(string \<Rightarrow> string) \<Rightarrow> string \<Rightarrow> string \<Rightarrow> CompatibilityReplayReference \<Rightarrow> string \<Rightarrow> string \<Rightarrow> string
   \<Rightarrow> AuditLedgerEvent list" where
  "buildAuditLedgerEvents sha planId planHash reference replaySnapshotHash replayProofHash auditArtifactHash =
     chainEvents sha planId planHash None
       (zip EVENT_TYPES (event_payloads reference replaySnapshotHash replayProofHash auditArtifactHash))"

definition reference_fields :: "PlanEvidenceReference \<Rightarrow> js_record" where
  "reference_fields r =
     [(''referenceVersion'', JStr (per_referenceVersion r)), (''planId'', JStr (per_planId r)),
      (''planHash'', JStr (per_planHash r)), (''normalizedPlanHash'', JStr (per_normalizedPlanHash r)),
      (''executionTruthHash'', JStr (per_executionTruthHash r)),
      (''executionCompatibilityHash'', JStr (per_executionCompatibilityHash r)),
      (''compatibilitySnapshotHash'', JStr (per_compatibilitySnapshotHash r)),
      (''replaySnapshotHash'', JStr (per_replaySnapshotHash r)), (''replayProofHash'', JStr (per_replayProofHash r)),
      (''auditArtifactHash'', JStr (per_auditArtifactHash r)),
      (''ledgerEventHashes'', str_arr (per_ledgerEventHashes r))]"

text \<open>The reference is copied field by field, so it is the one given; with it comes its hash.\<close>

definition buildEvidenceReference :: "(string \<Rightarrow> string) \<Rightarrow> PlanEvidenceReference \<Rightarrow> PlanEvidenceReference \<times> string" where
  "buildEvidenceReference sha r = (r, hashPayloadDeterministically sha (reference_fields r))"

section \<open>The readiness of a plan\<close>

text \<open>The loop over the events stops at the first that does not carry its predecessor's hash.\<close>

definition ledgerFailures :: "AuditLedgerEvent list \<Rightarrow> ReplayAuditFailure list" where
  "ledgerFailures events =
     (case filter (\<lambda>index. ale_previousEventHash (events ! index) \<noteq> Some (ale_eventHash (events ! (index - 1))))
        [1..<length events] of
        [] \<Rightarrow> []
      | index # _ \<Rightarrow> [createReplayAuditFailure LEDGER_EVENT_HASH_MISMATCH
          ''Ledger event chain is not append-only compatible.'' (Some (''ledgerEvents['' @ nat_str index @ '']''))])"

definition blockedAudit ::
  "ReplayAuditInput \<Rightarrow> string \<Rightarrow> string option \<Rightarrow> ReplayAuditFailure list \<Rightarrow> ReplayAuditResult" where
  "blockedAudit input planHash snapshotHash failures =
     \<lparr>rar_verdict = REPLAY_AUDIT_BLOCKED, rar_planId = np_planId (rai_normalizedPlan input), rar_planHash = planHash,
      rar_normalizedPlanHash = np_normalizationHash (rai_normalizedPlan input),
      rar_executionTruthHash = Some (tp_executionTruthHash (rai_executionTruthPackage input)),
      rar_executionCompatibilityHash = Some (xc_executionCompatibilityHash (rai_contract input)),
      rar_compatibilitySnapshotHash = snapshotHash, rar_replaySnapshotHash = None, rar_replayProofHash = None,
      rar_auditArtifactHash = None, rar_evidenceReferenceHash = None, rar_failures = failures,
      rar_artifacts = None\<rparr>"

text \<open>
  From the accepted reference on: every artifact is built and hashed, and every check that compares a
  recomputed hash adds its failure.  The check that every event hash is a string holds by typing.
\<close>

definition completeAudit ::
  "(string \<Rightarrow> string \<Rightarrow> int) \<Rightarrow> (string \<Rightarrow> string) \<Rightarrow> ReplayAuditInput \<Rightarrow> string \<Rightarrow> CompatibilityReplayReference \<Rightarrow> string
   \<Rightarrow> ReplayAuditFailure list \<Rightarrow> ReplayAuditResult" where
  "completeAudit lc sha input planHash reference snapshotHash failures0 =
     (let plan = rai_normalizedPlan input;
          replayInputSnapshot = buildReplayInputSnapshot input planHash snapshotHash;
          replaySnapshotHash = hashReplayInputSnapshot lc sha (input_snapshot_json replayInputSnapshot);
          replayedSnapshotHash = hashReplayInputSnapshot lc sha
            (input_snapshot_json (buildReplayInputSnapshot input planHash snapshotHash));
          replayProof = buildReplayProof input replaySnapshotHash replayedSnapshotHash;
          replayProofHash = hashReplayProof sha replayProof;
          bareArtifact = buildAuditArtifact plan planHash reference replaySnapshotHash replayProofHash;
          auditArtifactHash = hashAuditArtifact sha bareArtifact;
          auditArtifact = BareAuditArtifact.extend bareArtifact (PlanAuditArtifact.fields auditArtifactHash);
          ledgerEvents = buildAuditLedgerEvents sha (np_planId plan) planHash reference replaySnapshotHash
            replayProofHash auditArtifactHash;
          (evidence, evidenceHash) = buildEvidenceReference sha
            \<lparr>per_referenceVersion = ''4.2H'', per_planId = np_planId plan, per_planHash = planHash,
             per_normalizedPlanHash = np_normalizationHash plan,
             per_executionTruthHash = rcr_executionTruthHash reference,
             per_executionCompatibilityHash = rcr_executionCompatibilityHash reference,
             per_compatibilitySnapshotHash = rcr_compatibilitySnapshotHash reference,
             per_replaySnapshotHash = replaySnapshotHash, per_replayProofHash = replayProofHash,
             per_auditArtifactHash = auditArtifactHash, per_ledgerEventHashes = map ale_eventHash ledgerEvents\<rparr>;
          failures = failures0 @
            audit_failure_if (replaySnapshotHash \<noteq> replayedSnapshotHash) REPLAY_SNAPSHOT_HASH_MISMATCH
              ''Replay snapshot hash drift detected.'' ''replaySnapshotHash'' @
            validateReplayProof replayProof @
            audit_failure_if (hashAuditArtifact sha bareArtifact \<noteq> paa_artifactHash auditArtifact)
              AUDIT_ARTIFACT_HASH_MISMATCH ''Audit artifact hash drift detected.'' ''auditArtifact.artifactHash'' @
            ledgerFailures ledgerEvents
      in \<lparr>rar_verdict = (if failures = [] then REPLAY_AUDIT_READY else REPLAY_AUDIT_BLOCKED),
          rar_planId = np_planId plan, rar_planHash = planHash, rar_normalizedPlanHash = np_normalizationHash plan,
          rar_executionTruthHash = Some (rcr_executionTruthHash reference),
          rar_executionCompatibilityHash = Some (rcr_executionCompatibilityHash reference),
          rar_compatibilitySnapshotHash = Some (rcr_compatibilitySnapshotHash reference),
          rar_replaySnapshotHash = Some replaySnapshotHash, rar_replayProofHash = Some replayProofHash,
          rar_auditArtifactHash = Some auditArtifactHash, rar_evidenceReferenceHash = Some evidenceHash,
          rar_failures = failures,
          rar_artifacts = Some
            \<lparr>raa_compatibilityReference = reference, raa_replayInputSnapshot = replayInputSnapshot,
             raa_replaySnapshotHash = replaySnapshotHash, raa_replayProof = replayProof,
             raa_replayProofHash = replayProofHash, raa_auditArtifact = auditArtifact,
             raa_ledgerEvents = ledgerEvents, raa_evidenceReference = evidence,
             raa_evidenceReferenceHash = evidenceHash\<rparr>\<rparr>)"

definition buildReplayAuditReadiness ::
  "(string \<Rightarrow> string \<Rightarrow> int) \<Rightarrow> (string \<Rightarrow> string) \<Rightarrow> ReplayAuditInput \<Rightarrow> ReplayAuditResult" where
  "buildReplayAuditReadiness lc sha input =
     (let planHash = derivePlanHash sha (rai_normalizedPlan input);
          ingested = ingestCompatibilitySnapshot lc sha (rai_contract input) (rai_compatibilitySnapshot input);
          snapshotHash = js_default [] (ics_compatibilitySnapshotHash ingested);
          truthFailures = (case rai_compatibilitySnapshot input of
            Some snapshot \<Rightarrow>
              if snapshotHash \<noteq> [] then validateCompatibilityTruth lc input snapshot snapshotHash else []
          | None \<Rightarrow> []);
          failures = ics_failures ingested @ truthFailures @ detectCompatibilityDrift lc sha input
      in case ics_compatibilityReference ingested of
           None \<Rightarrow> blockedAudit input planHash (ics_compatibilitySnapshotHash ingested) failures
         | Some reference \<Rightarrow>
             if failures \<noteq> [] \<or> snapshotHash = []
             then blockedAudit input planHash (ics_compatibilitySnapshotHash ingested) failures
             else completeAudit lc sha input planHash
               (buildCompatibilityHashReference (rai_contract input) snapshotHash) snapshotHash failures)"

end
