(* ===== verification/CompatibilityProperties.thy ===== *)
theory CompatibilityProperties
  imports ExecutionCompatibility PlanContract TruthProperties
begin

text \<open>
  What compatibility means of a plan (\<open>compatibility_contract\<close>), that the eight validators implement it,
  and what it gives: authority never widens its environments along the authority graph, and every
  escalation ends in a terminal step.
\<close>

section \<open>The contract\<close>

definition has_approval :: "NormalizedPlanStep \<Rightarrow> bool" where
  "has_approval s \<longleftrightarrow> has_keys (compatibilityOf s ''approval'')"

definition has_rollback :: "NormalizedPlanStep \<Rightarrow> bool" where
  "has_rollback s \<longleftrightarrow> has_keys (compatibilityOf s ''rollback'')"

definition rollback_required :: "NormalizedPlanStep \<Rightarrow> bool" where
  "rollback_required s \<longleftrightarrow> has_rollback s \<and> prop_get (compatibilityOf s ''rollback'') ''required'' = JBool True"

definition approval_required :: "NormalizedPlanStep \<Rightarrow> bool" where
  "approval_required s \<longleftrightarrow> has_approval s \<and>
     (prop_get (compatibilityOf s ''approval'') ''required'' = JBool True \<or> ns_approvalMode s = ApprovalREQUIRED)"

definition scope_of :: "NormalizedPlanStep \<Rightarrow> CompatibilityScope option" where
  "scope_of s = map_option apc_scope (normalizeApprovalContract s)"

definition scope_closed :: "CompatibilityScope \<Rightarrow> bool" where
  "scope_closed sc \<longleftrightarrow> (\<forall>(k, vs) \<in> set (scope_entries sc). \<not> isWildcard vs) \<and> \<not> isDynamicTenant (sb_tenantScope sc)"

definition authority_parents :: "NormalizedPlanStep \<Rightarrow> string list" where
  "authority_parents s = js_default [] (readStringArray (prop_get (compatibilityOf s ''authority'') ''parents''))"

definition escalation_targets :: "NormalizedPlanStep \<Rightarrow> string list" where
  "escalation_targets s = js_default [] (readStringArray (prop_get (compatibilityOf s ''escalation'') ''targets''))"

definition escalation_terminal :: "NormalizedPlanStep \<Rightarrow> bool" where
  "escalation_terminal s \<longleftrightarrow> prop_get (compatibilityOf s ''escalation'') ''terminal'' = JBool True"

definition uncompensated :: "NormalizedPlanStep \<Rightarrow> bool" where
  "uncompensated s \<longleftrightarrow>
     (prop_get (compatibilityOf s ''compensation'') ''irreversible'' = JBool True \<or>
      obj_get (ns_inputs s) ''irreversible'' = JBool True) \<and>
     js_default [] (string_of (prop_get (compatibilityOf s ''compensation'') ''compensationStrategy'')) = []"

definition step_compatible :: "NormalizedPlanStep \<Rightarrow> bool" where
  "step_compatible s \<longleftrightarrow>
     (isExecutableStep s \<longrightarrow> has_approval s) \<and> (needsRollback s \<longrightarrow> has_rollback s) \<and> \<not> uncompensated s \<and>
     (\<forall>sc. scope_of s = Some sc \<longrightarrow> scope_closed sc) \<and>
     (rollback_required s \<and> prop_get (compatibilityOf s ''rollback'') ''compensationRequired'' = JBool True \<longrightarrow>
        approval_required s)"

definition authority_rel :: "NormalizedPlanStep list \<Rightarrow> (string \<times> string) set" where
  "authority_rel steps = {(p, ns_id s) | p s. s \<in> set steps \<and> p \<in> set (authority_parents s)}"

definition escalation_rel :: "NormalizedPlanStep list \<Rightarrow> (string \<times> string) set" where
  "escalation_rel steps = {(ns_id s, t) | s t. s \<in> set steps \<and> t \<in> set (escalation_targets s)}"

definition authority_ok :: "NormalizedPlanStep list \<Rightarrow> bool" where
  "authority_ok steps \<longleftrightarrow> acyclic (authority_rel steps) \<and>
     (\<forall>s \<in> set steps. \<forall>p \<in> set (authority_parents s). \<exists>q \<in> set steps. \<exists>sq ss.
        ns_id q = p \<and> scope_of q = Some sq \<and> scope_of s = Some ss \<and>
        set (sb_environmentScope ss) \<subseteq> set (sb_environmentScope sq))"

definition escalation_ok :: "NormalizedPlanStep list \<Rightarrow> bool" where
  "escalation_ok steps \<longleftrightarrow> acyclic (escalation_rel steps) \<and>
     (\<forall>s \<in> set steps. set (escalation_targets s) \<subseteq> ns_id ` set steps) \<and>
     (\<forall>s \<in> set steps. escalation_targets s = [] \<and> ns_id s \<in> Range (escalation_rel steps) \<longrightarrow> escalation_terminal s)"

definition rollback_order :: "NormalizedPlanStep list \<Rightarrow> nat \<Rightarrow> js_num" where
  "rollback_order steps i = js_default (num_of_int (int (length steps) - 1 - int i))
     (number_of (prop_get (compatibilityOf (steps ! i) ''rollback'') ''rollbackOrder''))"

definition rollback_order_ok :: "NormalizedPlanStep list \<Rightarrow> DependencyGraph \<Rightarrow> bool" where
  "rollback_order_ok steps graph \<longleftrightarrow>
     (\<forall>e \<in> set (dg_edges graph). \<forall>i < length steps. \<forall>j < length steps.
        ns_id (steps ! i) = de_from e \<and> ns_id (steps ! j) = de_to e \<and>
        rollback_required (steps ! i) \<and> rollback_required (steps ! j) \<longrightarrow>
        num_less (rollback_order steps j) (rollback_order steps i))"

definition compatibility_contract :: "NormalizedPlan \<Rightarrow> DependencyGraph \<Rightarrow> bool" where
  "compatibility_contract plan graph \<longleftrightarrow>
     (\<forall>s \<in> set (np_steps plan). step_compatible s) \<and> authority_ok (np_steps plan) \<and>
     escalation_ok (np_steps plan) \<and> rollback_order_ok (np_steps plan) graph"

section \<open>The contracts of the steps\<close>

lemma approval_Some:
  "normalizeApprovalContract s = Some c \<Longrightarrow>
     apc_stepId c = ns_id s \<and> has_approval s \<and> (apc_required c \<longleftrightarrow> approval_required s) \<and> scope_of s = Some (apc_scope c)"
  by (auto simp: normalizeApprovalContract_def Let_def has_approval_def approval_required_def scope_of_def split: if_splits)

lemma approval_None: "normalizeApprovalContract s = None \<longleftrightarrow> \<not> has_approval s"
  by (simp add: normalizeApprovalContract_def Let_def has_approval_def)

lemma set_approvals: "set (approvalContractsOf steps) = {c. \<exists>s \<in> set steps. normalizeApprovalContract s = Some c}"
  by (force simp: approvalContractsOf_def List.map_filter_def)

lemma approvals_map:
  assumes "distinct (map ns_id steps)" and "s \<in> set steps"
  shows "js_map_of (map (\<lambda>c. (apc_stepId c, c)) (approvalContractsOf steps)) (ns_id s) = normalizeApprovalContract s"
    (is "?m (ns_id s) = _")
proof (cases "?m (ns_id s)")
  case None
  then have "normalizeApprovalContract s \<noteq> Some c" for c
    using assms(2) approval_Some[of s c] by (force simp: set_approvals)
  then have "normalizeApprovalContract s = None" by (metis not_None_eq)
  then show ?thesis using None by simp
next
  case (Some c)
  from js_map_of_keyed[OF this] obtain t where t: "t \<in> set steps" "normalizeApprovalContract t = Some c" "ns_id t = ns_id s"
    using approval_Some by (force simp: set_approvals)
  then have "t = s" using assms by (auto simp: distinct_map inj_on_def)
  with Some t show ?thesis by simp
qed

lemma rollback_Some:
  "normalizeRollbackContract s = Some c \<Longrightarrow>
     rbc_stepId c = ns_id s \<and> has_rollback s \<and> (rbc_required c \<longleftrightarrow> rollback_required s) \<and>
     rbc_rollbackOrder c = number_of (prop_get (compatibilityOf s ''rollback'') ''rollbackOrder'') \<and>
     (rbc_compensationRequired c \<longleftrightarrow> prop_get (compatibilityOf s ''rollback'') ''compensationRequired'' = JBool True)"
  by (auto simp: normalizeRollbackContract_def Let_def has_rollback_def rollback_required_def split: if_splits)

lemma rollback_None: "normalizeRollbackContract s = None \<longleftrightarrow> \<not> has_rollback s"
  by (simp add: normalizeRollbackContract_def Let_def has_rollback_def)

text \<open>The rollback contract of the step in a position, with the order filled in.\<close>

definition rollbackAt :: "NormalizedPlanStep list \<Rightarrow> nat \<Rightarrow> RollbackContract option" where
  "rollbackAt steps i =
     map_option (\<lambda>c. c\<lparr>rbc_rollbackOrder := Some (rollback_order steps i)\<rparr>) (normalizeRollbackContract (steps ! i))"

lemma set_rollbacks: "set (rollbackContractsOf steps) = {c. \<exists>i < length steps. rollbackAt steps i = Some c}"
proof -
  have "(i, s) \<in> set (enumerate 0 steps) \<longleftrightarrow> i < length steps \<and> s = steps ! i" for i s
    by (auto simp: in_set_enumerate_eq)
  moreover have "js_default (num_of_int (int (length steps) - 1 - int i)) (rbc_rollbackOrder c) = rollback_order steps i"
    if "normalizeRollbackContract (steps ! i) = Some c" for c i
    using rollback_Some[OF that] by (simp add: rollback_order_def)
  ultimately show ?thesis
    by (force simp: rollbackContractsOf_def rollbackAt_def split: option.splits)
qed

lemma rollbackAt_Some:
  "rollbackAt steps i = Some c \<Longrightarrow> rbc_stepId c = ns_id (steps ! i) \<and> has_rollback (steps ! i) \<and>
     (rbc_required c \<longleftrightarrow> rollback_required (steps ! i)) \<and> rbc_rollbackOrder c = Some (rollback_order steps i) \<and>
     (rbc_compensationRequired c \<longleftrightarrow> prop_get (compatibilityOf (steps ! i) ''rollback'') ''compensationRequired'' = JBool True)"
  by (auto simp: rollbackAt_def dest: rollback_Some)

lemma rollbackAt_None: "rollbackAt steps i = None \<longleftrightarrow> \<not> has_rollback (steps ! i)"
  by (simp add: rollbackAt_def rollback_None)

lemma rollbacks_map:
  assumes "distinct (map ns_id steps)" and "i < length steps"
  shows "js_map_of (map (\<lambda>c. (rbc_stepId c, c)) (rollbackContractsOf steps)) (ns_id (steps ! i)) = rollbackAt steps i"
    (is "?m (ns_id (steps ! i)) = _")
proof (cases "?m (ns_id (steps ! i))")
  case None
  then have "rollbackAt steps i \<noteq> Some c" for c
    using assms(2) rollbackAt_Some[of steps i c] by (force simp: set_rollbacks)
  then have "rollbackAt steps i = None" by (metis not_None_eq)
  then show ?thesis using None by simp
next
  case (Some c)
  from js_map_of_keyed[OF this] obtain j where j: "j < length steps" "rollbackAt steps j = Some c"
    "ns_id (steps ! j) = ns_id (steps ! i)"
    using rollbackAt_Some by (force simp: set_rollbacks)
  then have "j = i" using assms nth_eq_iff_index_eq[of "map ns_id steps" j i] by simp
  with Some j show ?thesis by simp
qed

lemma rollbacks_ids: "rbc_stepId ` set (rollbackContractsOf steps) = ns_id ` {s \<in> set steps. has_rollback s}"
proof (intro equalityI subsetI)
  fix k assume "k \<in> rbc_stepId ` set (rollbackContractsOf steps)"
  then obtain i c where "i < length steps" "rollbackAt steps i = Some c" "k = rbc_stepId c"
    by (auto simp: set_rollbacks)
  then show "k \<in> ns_id ` {s \<in> set steps. has_rollback s}" using rollbackAt_Some[of steps i c] by auto
next
  fix k assume "k \<in> ns_id ` {s \<in> set steps. has_rollback s}"
  then obtain i where i: "i < length steps" "has_rollback (steps ! i)" "k = ns_id (steps ! i)"
    by (auto simp: in_set_conv_nth)
  then obtain c where "rollbackAt steps i = Some c" using rollbackAt_None[of steps i] by auto
  with i show "k \<in> rbc_stepId ` set (rollbackContractsOf steps)"
    using rollbackAt_Some[of steps i c] by (force simp: set_rollbacks)
qed

lemma approvals_ids: "apc_stepId ` set (approvalContractsOf steps) = ns_id ` {s \<in> set steps. has_approval s}"
proof -
  have "(\<exists>c. normalizeApprovalContract s = Some c) \<longleftrightarrow> has_approval s" for s
    using approval_None[of s] by (cases "normalizeApprovalContract s") auto
  then show ?thesis by (force simp: set_approvals dest: approval_Some)
qed

section \<open>Each validator\<close>

lemma if_singleton_Nil: "(if b then [x] else []) = [] \<longleftrightarrow> \<not> b"
  by simp

lemma validateApprovalContracts_Nil:
  assumes "distinct (map ns_id steps)"
  shows "validateApprovalContracts steps (approvalContractsOf steps) = [] \<longleftrightarrow>
    (\<forall>s \<in> set steps. isExecutableStep s \<longrightarrow> has_approval s)"
proof -
  have "ns_id s \<in> ns_id ` {s \<in> set steps. has_approval s} \<longleftrightarrow> has_approval s" if "s \<in> set steps" for s
    using that assms by (auto simp: distinct_map inj_on_def)
  then show ?thesis by (auto simp: validateApprovalContracts_def approvals_ids)
qed

lemma validateRollbackContracts_Nil:
  assumes "distinct (map ns_id steps)"
  shows "validateRollbackContracts steps (rollbackContractsOf steps) = [] \<longleftrightarrow>
    (\<forall>s \<in> set steps. needsRollback s \<longrightarrow> has_rollback s)"
proof -
  have "ns_id s \<in> ns_id ` {s \<in> set steps. has_rollback s} \<longleftrightarrow> has_rollback s" if "s \<in> set steps" for s
    using that assms by (auto simp: distinct_map inj_on_def)
  then show ?thesis by (auto simp: validateRollbackContracts_def rollbacks_ids)
qed

lemma validateCompensationContracts_Nil:
  "validateCompensationContracts (buildCompensationContracts steps) = [] \<longleftrightarrow> (\<forall>s \<in> set steps. \<not> uncompensated s)"
  by (auto simp: validateCompensationContracts_def buildCompensationContracts_def uncompensated_def Let_def)

lemma scope_violations_Nil:
  "(\<forall>entry \<in> set (scope_entries sc).
     (case entry of (k, vs) \<Rightarrow> (if isWildcard vs then [a k] else []) @
        (if k = ''tenantScope'' \<and> isDynamicTenant vs then [b k] else [])) = []) \<longleftrightarrow> scope_closed sc"
  by (auto simp: scope_entries_def scope_closed_def)

lemma validateScopeBoundaries_Nil:
  "validateScopeBoundaries (approvalContractsOf steps) = [] \<longleftrightarrow>
    (\<forall>s \<in> set steps. \<forall>sc. scope_of s = Some sc \<longrightarrow> scope_closed sc)"
  unfolding validateScopeBoundaries_def concat_map_Nil scope_violations_Nil set_approvals
  by (fastforce simp: scope_of_def)

lemma authority_edges:
  "ag_edges (buildAuthorityGraph approvals steps) =
     concat (map (\<lambda>s. map (\<lambda>p. \<lparr>ed_from = p, ed_to = ns_id s\<rparr>) (authority_parents s)) steps)"
  by (simp add: buildAuthorityGraph_def authority_parents_def)

lemma authority_edge_rel: "edge_rel (ag_edges (buildAuthorityGraph approvals steps)) = authority_rel steps"
  unfolding authority_edges edge_rel_def authority_rel_def by (force simp: image_iff)

lemma authority_node_map:
  "js_map_of (map (\<lambda>n. (an_stepId n, n)) (ag_nodes (buildAuthorityGraph approvals steps))) k =
     map_option (\<lambda>c. \<lparr>an_stepId = apc_stepId c, an_requiredRole = apc_requiredRole c,
       an_environmentScope = sb_environmentScope (apc_scope c)\<rparr>)
       (js_map_of (map (\<lambda>c. (apc_stepId c, c)) approvals) k)"
proof -
  have "map_of (map (\<lambda>c. (apc_stepId c, f c)) xs) k = map_option f (map_of (map (\<lambda>c. (apc_stepId c, c)) xs) k)" for f xs
    by (induction xs) auto
  then show ?thesis by (simp add: js_map_of_def buildAuthorityGraph_def comp_def rev_map)
qed

lemma approvals_map_unknown:
  "k \<notin> ns_id ` set steps \<Longrightarrow> js_map_of (map (\<lambda>c. (apc_stepId c, c)) (approvalContractsOf steps)) k = None"
  by (auto simp: image_image set_approvals dest: approval_Some)

lemma authorityEdge_Nil:
  assumes "distinct (map ns_id steps)" and "s \<in> set steps"
  shows "authorityEdgeViolations (buildAuthorityGraph (approvalContractsOf steps) steps) \<lparr>ed_from = p, ed_to = ns_id s\<rparr> = []
    \<longleftrightarrow> (\<exists>q \<in> set steps. \<exists>sq ss. ns_id q = p \<and> scope_of q = Some sq \<and> scope_of s = Some ss \<and>
        set (sb_environmentScope ss) \<subseteq> set (sb_environmentScope sq))"
proof (cases "p \<in> ns_id ` set steps")
  case False
  then show ?thesis
    by (auto simp: authorityEdgeViolations_def Let_def authority_node_map approvals_map_unknown)
next
  case True
  then obtain q where q: "q \<in> set steps" "ns_id q = p" by blast
  have unique: "r = q" if "r \<in> set steps" "ns_id r = p" for r
    using that q assms(1) by (auto simp: distinct_map inj_on_def)
  then have only: "(\<exists>r \<in> set steps. \<exists>sq ss. ns_id r = p \<and> scope_of r = Some sq \<and> P sq ss) \<longleftrightarrow>
      (\<exists>sq ss. scope_of q = Some sq \<and> P sq ss)" for P
    using q by metis
  have maps: "js_map_of (map (\<lambda>c. (apc_stepId c, c)) (approvalContractsOf steps)) p = normalizeApprovalContract q"
    "js_map_of (map (\<lambda>c. (apc_stepId c, c)) (approvalContractsOf steps)) (ns_id s) = normalizeApprovalContract s"
    using approvals_map[OF assms] approvals_map[OF assms(1) q(1)] q(2) by simp_all
  show ?thesis
    unfolding only authorityEdgeViolations_def Let_def authority_node_map maps CompatibilityEdge.simps
    by (cases "normalizeApprovalContract q"; cases "normalizeApprovalContract s")
      (auto simp: scope_of_def list_ex_iff subset_iff)
qed

lemma validateAuthorityGraph_Nil:
  assumes "distinct (map ns_id steps)"
  shows "\<exists>vs. validateAuthorityGraph (buildAuthorityGraph (approvalContractsOf steps) steps) = Some vs \<and>
    (vs = [] \<longleftrightarrow> authority_ok steps)"
proof -
  let ?g = "buildAuthorityGraph (approvalContractsOf steps) steps"
  obtain c where c: "detectCycle (ag_edges ?g) = Some c" using detectCycle_returns by blast
  have "c = None \<longleftrightarrow> acyclic (authority_rel steps)"
    using detectCycle_None[of "ag_edges ?g"] c by (simp add: authority_edge_rel)
  moreover have "(\<forall>e \<in> set (ag_edges ?g). authorityEdgeViolations ?g e = []) \<longleftrightarrow>
      (\<forall>s \<in> set steps. \<forall>p \<in> set (authority_parents s).
         authorityEdgeViolations ?g \<lparr>ed_from = p, ed_to = ns_id s\<rparr> = [])"
    unfolding authority_edges by auto
  ultimately show ?thesis
    using authorityEdge_Nil[OF assms]
    by (auto simp: validateAuthorityGraph_def c authority_ok_def split: option.splits)
qed

lemma escalation_edges:
  "eg_edges (buildEscalationGraph steps) =
     concat (map (\<lambda>s. map (\<lambda>t. \<lparr>ed_from = ns_id s, ed_to = t\<rparr>) (escalation_targets s)) steps)"
  by (simp add: buildEscalationGraph_def escalation_targets_def)

lemma escalation_edge_rel: "edge_rel (eg_edges (buildEscalationGraph steps)) = escalation_rel steps"
  unfolding escalation_edges edge_rel_def escalation_rel_def by (force simp: image_iff)

lemma edge_sources_targets:
  "ed_from ` set edges = Domain (edge_rel edges)" "ed_to ` set edges = Range (edge_rel edges)"
  by (force simp: edge_rel_def)+

lemma escalation_nodes:
  "eg_nodes (buildEscalationGraph steps) = map (\<lambda>s. \<lparr>en_stepId = ns_id s, en_terminal = escalation_terminal s\<rparr>) steps"
  by (simp add: buildEscalationGraph_def escalation_terminal_def)

lemma escalation_domain:
  assumes "distinct (map ns_id steps)" and "s \<in> set steps"
  shows "ns_id s \<in> Domain (escalation_rel steps) \<longleftrightarrow> escalation_targets s \<noteq> []"
proof -
  have "t = s" if "t \<in> set steps" "ns_id t = ns_id s" for t
    using that assms by (auto simp: distinct_map inj_on_def)
  then have "ns_id s \<in> Domain (escalation_rel steps) \<longleftrightarrow> (\<exists>t. t \<in> set (escalation_targets s))"
    using assms(2) unfolding escalation_rel_def Domain_iff mem_Collect_eq prod.inject by metis
  then show ?thesis by (cases "escalation_targets s") auto
qed

lemma validateEscalationGraph_Nil:
  assumes "distinct (map ns_id steps)"
  shows "\<exists>vs. validateEscalationGraph (buildEscalationGraph steps) = Some vs \<and> (vs = [] \<longleftrightarrow> escalation_ok steps)"
proof -
  let ?g = "buildEscalationGraph steps"
  obtain c where c: "detectCycle (eg_edges ?g) = Some c" using detectCycle_returns by blast
  have cyc: "c = None \<longleftrightarrow> acyclic (escalation_rel steps)"
    using detectCycle_None[of "eg_edges ?g"] c by (simp add: escalation_edge_rel)
  have known: "(\<forall>e \<in> set (eg_edges ?g). ed_from e \<in> ns_id ` set steps \<and> ed_to e \<in> ns_id ` set steps) \<longleftrightarrow>
      (\<forall>s \<in> set steps. set (escalation_targets s) \<subseteq> ns_id ` set steps)"
    unfolding escalation_edges by auto
  have outbound: "ns_id s \<in> ed_from ` set (eg_edges ?g) \<longleftrightarrow> escalation_targets s \<noteq> []" if "s \<in> set steps" for s
    unfolding edge_sources_targets escalation_edge_rel using escalation_domain[OF assms that] .
  have inbound: "list_ex (\<lambda>e. ed_to e = k) (eg_edges ?g) \<longleftrightarrow> k \<in> Range (escalation_rel steps)" for k
    unfolding escalation_edge_rel[symmetric] edge_sources_targets(2)[symmetric] by (auto simp: list_ex_iff)
  have ids: "set (map en_stepId (eg_nodes ?g)) = ns_id ` set steps"
    by (simp add: escalation_nodes image_image)
  have dead: "(\<forall>node \<in> set (eg_nodes ?g). \<not> (en_stepId node \<notin> set (map ed_from (eg_edges ?g)) \<and>
        list_ex (\<lambda>e. ed_to e = en_stepId node) (eg_edges ?g) \<and> \<not> en_terminal node)) \<longleftrightarrow>
      (\<forall>s \<in> set steps. escalation_targets s = [] \<and> ns_id s \<in> Range (escalation_rel steps) \<longrightarrow> escalation_terminal s)"
    unfolding inbound escalation_nodes set_map ball_simps EscalationGraphNode.simps
    by (rule ball_cong[OF refl]) (use outbound in blast)
  have cycle: "(case c of None \<Rightarrow> [] | Some p \<Rightarrow> [f p]) = [] \<longleftrightarrow> acyclic (escalation_rel steps)"
    for f :: "string list \<Rightarrow> CompatibilityViolation" using cyc by (cases c) auto
  have edges: "(\<forall>e \<in> set (eg_edges ?g). \<not> (ed_from e \<notin> ns_id ` set steps \<or> ed_to e \<notin> ns_id ` set steps)) \<longleftrightarrow>
      (\<forall>s \<in> set steps. set (escalation_targets s) \<subseteq> ns_id ` set steps)"
    unfolding known[symmetric] by simp
  show ?thesis
    unfolding validateEscalationGraph_def c Option.bind.bind_lunit Let_def escalation_ok_def
    by (intro exI conjI, rule refl)
      (simp only: append_is_Nil_conv concat_map_Nil if_singleton_Nil dead cycle ids edges conj_left_commute)
qed

lemma rollbacks_map_unknown:
  "k \<notin> ns_id ` set steps \<Longrightarrow> js_map_of (map (\<lambda>c. (rbc_stepId c, c)) (rollbackContractsOf steps)) k = None"
proof -
  assume "k \<notin> ns_id ` set steps"
  then have "k \<notin> rbc_stepId ` set (rollbackContractsOf steps)" unfolding rollbacks_ids by blast
  then show ?thesis by (simp add: image_image)
qed

lemma validateRollbackDependency_Nil:
  assumes "distinct (map ns_id steps)"
  shows "validateRollbackDependencyCompatibility graph (rollbackContractsOf steps) = [] \<longleftrightarrow> rollback_order_ok steps graph"
proof -
  let ?m = "js_map_of (map (\<lambda>c. (rbc_stepId c, c)) (rollbackContractsOf steps))"
  have edge: "(case (?m (de_from e), ?m (de_to e)) of
        (Some a, Some b) \<Rightarrow>
          if rbc_required a \<and> rbc_required b \<and>
             \<not> num_less (js_default y (rbc_rollbackOrder b)) (js_default x (rbc_rollbackOrder a))
          then [v] else []
      | _ \<Rightarrow> []) = [] \<longleftrightarrow>
      (\<forall>i < length steps. \<forall>j < length steps. ns_id (steps ! i) = de_from e \<and> ns_id (steps ! j) = de_to e \<and>
        rollback_required (steps ! i) \<and> rollback_required (steps ! j) \<longrightarrow>
        num_less (rollback_order steps j) (rollback_order steps i))" (is "?entry = [] \<longleftrightarrow> ?rhs")
    for e x y and v :: CompatibilityViolation
  proof (cases "de_from e \<in> ns_id ` set steps \<and> de_to e \<in> ns_id ` set steps")
    case False
    then have "?m (de_from e) = None \<or> ?m (de_to e) = None"
      using rollbacks_map_unknown[of "de_from e" steps] rollbacks_map_unknown[of "de_to e" steps] by argo
    then have "?entry = []" by (cases "?m (de_from e)"; cases "?m (de_to e)") (simp_all del: js_map_of_None js_map_of_keyed_None)
    moreover have "\<not> (i < length steps \<and> ns_id (steps ! i) = de_from e \<and> j < length steps \<and> ns_id (steps ! j) = de_to e)" for i j
      using False by (metis image_eqI nth_mem)
    then have ?rhs by blast
    ultimately show ?thesis by simp
  next
    case True
    then obtain i j where ij: "i < length steps" "ns_id (steps ! i) = de_from e" "j < length steps" "ns_id (steps ! j) = de_to e"
      by (auto simp: in_set_conv_nth)
    have unique: "k = l" if "k < length steps" "l < length steps" "ns_id (steps ! k) = ns_id (steps ! l)" for k l
      using that assms nth_eq_iff_index_eq[of "map ns_id steps" k l] by simp
    have maps: "?m (de_from e) = rollbackAt steps i" "?m (de_to e) = rollbackAt steps j"
      using rollbacks_map[OF assms] ij by metis+
    have rhs: "?rhs \<longleftrightarrow> (rollback_required (steps ! i) \<and> rollback_required (steps ! j) \<longrightarrow>
        num_less (rollback_order steps j) (rollback_order steps i))" using ij unique by metis
    have none: "rollbackAt steps k = None \<Longrightarrow> \<not> rollback_required (steps ! k)" for k
      by (simp add: rollbackAt_None rollback_required_def)
    show ?thesis unfolding maps rhs
      by (cases "rollbackAt steps i"; cases "rollbackAt steps j") (auto dest!: none rollbackAt_Some)
  qed
  show ?thesis
    unfolding validateRollbackDependencyCompatibility_def Let_def concat_map_Nil rollback_order_ok_def
    by (rule ball_cong[OF refl]) (rule edge)
qed

lemma approval_required_map: "js_default False (map_option apc_required (normalizeApprovalContract s)) \<longleftrightarrow> approval_required s"
  using approval_Some[of s] approval_None[of s]
  by (cases "normalizeApprovalContract s") (auto simp: approval_required_def)

lemma validateRollbackGovernance_Nil:
  assumes "distinct (map ns_id steps)"
  shows "validateRollbackGovernance steps (rollbackContractsOf steps) (approvalContractsOf steps) = [] \<longleftrightarrow>
    (\<forall>s \<in> set steps. rollback_required s \<and>
       prop_get (compatibilityOf s ''rollback'') ''compensationRequired'' = JBool True \<longrightarrow> approval_required s)"
proof -
  have step: "(case js_map_of (map (\<lambda>c. (rbc_stepId c, c)) (rollbackContractsOf steps)) (ns_id s) of
        None \<Rightarrow> []
      | Some rollback \<Rightarrow>
          if rbc_required rollback \<and> rbc_compensationRequired rollback \<and>
             \<not> js_default False (map_option apc_required
                 (js_map_of (map (\<lambda>c. (apc_stepId c, c)) (approvalContractsOf steps)) (ns_id s)))
          then [v] else []) = [] \<longleftrightarrow>
      (rollback_required s \<and> prop_get (compatibilityOf s ''rollback'') ''compensationRequired'' = JBool True \<longrightarrow>
         approval_required s)"
    if s: "s \<in> set steps" for s and v :: CompatibilityViolation
  proof -
    obtain i where i: "i < length steps" "s = steps ! i" using s by (auto simp: in_set_conv_nth)
    show ?thesis
      unfolding i(2) rollbacks_map[OF assms i(1)] approvals_map[OF assms nth_mem[OF i(1)]] approval_required_map
      using rollbackAt_Some[of steps i] rollbackAt_None[of steps i]
      by (cases "rollbackAt steps i") (auto simp: rollback_required_def)
  qed
  show ?thesis
    unfolding validateRollbackGovernance_def Let_def concat_map_Nil by (rule ball_cong[OF refl]) (rule step)
qed

section \<open>The composition\<close>

lemma compatibilityViolations_spec:
  assumes "distinct (map ns_id (np_steps plan))"
  shows "\<exists>vs. compatibilityViolations plan graph = Some vs \<and> (vs = [] \<longleftrightarrow> compatibility_contract plan graph)"
proof -
  obtain avs where avs: "validateAuthorityGraph (buildAuthorityGraph (approvalContractsOf (np_steps plan)) (np_steps plan)) = Some avs"
    "avs = [] \<longleftrightarrow> authority_ok (np_steps plan)" using validateAuthorityGraph_Nil[OF assms] by blast
  obtain evs where evs: "validateEscalationGraph (buildEscalationGraph (np_steps plan)) = Some evs"
    "evs = [] \<longleftrightarrow> escalation_ok (np_steps plan)" using validateEscalationGraph_Nil[OF assms] by blast
  show ?thesis
    unfolding compatibilityViolations_def Let_def avs(1) evs(1) Option.bind.bind_lunit
    by (intro exI conjI, rule refl)
      (simp only: append_is_Nil_conv avs(2) evs(2) validateApprovalContracts_Nil[OF assms]
        validateRollbackContracts_Nil[OF assms] validateCompensationContracts_Nil validateScopeBoundaries_Nil
        validateRollbackDependency_Nil[OF assms] validateRollbackGovernance_Nil[OF assms]
        compatibility_contract_def step_compatible_def, blast)
qed

text \<open>Every violation blocks.\<close>

definition blocking :: "CompatibilityViolation list \<Rightarrow> bool" where
  "blocking vs \<longleftrightarrow> (\<forall>v \<in> set vs. cv_severity v = SeverityBlocking)"

lemma blocking_simps [simp]:
  "blocking []" "blocking (v # vs) \<longleftrightarrow> cv_severity v = SeverityBlocking \<and> blocking vs"
  "blocking (xs @ ys) \<longleftrightarrow> blocking xs \<and> blocking ys" "cv_severity (createCompatibilityViolation code message path) = SeverityBlocking"
  by (auto simp: blocking_def createCompatibilityViolation_def)

lemma blocking_concat: "(\<And>x. x \<in> set xs \<Longrightarrow> blocking (f x)) \<Longrightarrow> blocking (concat (map f xs))"
  by (auto simp: blocking_def)

lemma blocking_validators:
  "blocking (validateApprovalContracts steps approvals)" "blocking (validateRollbackContracts steps rollbacks)"
  "blocking (validateCompensationContracts compensations)" "blocking (validateScopeBoundaries approvals)"
  "blocking (validateRollbackDependencyCompatibility graph rollbacks)"
  "blocking (validateRollbackGovernance steps rollbacks approvals)" "blocking (authorityEdgeViolations g e)"
  unfolding validateApprovalContracts_def validateRollbackContracts_def validateCompensationContracts_def
    validateScopeBoundaries_def validateRollbackDependencyCompatibility_def validateRollbackGovernance_def
    authorityEdgeViolations_def Let_def
  by (auto intro!: blocking_concat split: option.splits)

lemma blocking_graphs:
  "validateAuthorityGraph ag = Some vs \<Longrightarrow> blocking vs" "validateEscalationGraph eg = Some vs \<Longrightarrow> blocking vs"
  unfolding validateAuthorityGraph_def validateEscalationGraph_def Let_def
  by (auto intro!: blocking_concat blocking_validators split: option.splits Option.bind_splits)

lemma blocking_violations: "compatibilityViolations plan graph = Some vs \<Longrightarrow> blocking vs"
  by (auto simp: compatibilityViolations_def Let_def blocking_validators blocking_graphs split: Option.bind_splits)

lemma blocking_Nil: "blocking vs \<Longrightarrow> list_all (\<lambda>v. cv_severity v \<noteq> SeverityBlocking) vs \<longleftrightarrow> vs = []"
  by (cases vs) auto

text \<open>A request that leaves dependency validation to the validator.\<close>

definition compatibilityRequest :: "string \<Rightarrow> NormalizedPlan \<Rightarrow> ExecutionTruthPackage \<Rightarrow> ExecutionCompatibilityInput" where
  "compatibilityRequest truthHash plan truth =
     \<lparr>ci_executionTruthHash = truthHash, ci_normalizedPlan = Some plan, ci_executionTruth = Some truth,
      ci_dependencyValidation = None, ci_dependencyGraph = None, ci_expectedCompatibilityHash = None\<rparr>"

lemma outcome_ok:
  assumes "blocking found"
  shows "(\<exists>c vs. compatibilityOutcome lc sha None bare found = CompatibilityOk c vs) \<longleftrightarrow> found = []"
  using blocking_Nil[OF assms] by (simp add: compatibilityOutcome_def Let_def)

lemma outcome_Nil:
  "compatibilityOutcome lc sha None bare [] =
     CompatibilityOk (bare\<lparr>xc_executionCompatibilityHash := hashExecutionCompatibilityContract lc sha bare,
       xc_violations := [], xc_compatible := True\<rparr>) []"
  by (simp add: compatibilityOutcome_def Let_def)

text \<open>What an accepted contract was checked for.\<close>

lemma compatible_dest:
  assumes "validateExecutionCompatibility lc sha input = Some (CompatibilityOk c vs)"
  shows "validateAuthorityGraph (xc_authorityGraph c) = Some []" and "validateEscalationGraph (xc_escalationGraph c) = Some []"
    and "vs = []" and "xc_compatible c"
proof -
  from assms obtain plan graph found bare where found: "compatibilityViolations plan graph = Some found"
    and bare: "\<exists>h f. bare = bareContract h plan f"
    and outcome: "compatibilityOutcome lc sha (ci_expectedCompatibilityHash input) bare found = CompatibilityOk c vs"
    by (fastforce simp: validateExecutionCompatibility_def split: option.splits if_splits Option.bind_splits)
  have "xc_compatible c \<and> vs = [] \<and> found = [] \<and> xc_authorityGraph c = xc_authorityGraph bare \<and>
      xc_escalationGraph c = xc_escalationGraph bare"
    using outcome blocking_violations[OF found]
    by (cases found) (auto simp: compatibilityOutcome_def Let_def split: if_splits)
  then show "xc_compatible c" "vs = []"
    and "validateAuthorityGraph (xc_authorityGraph c) = Some []" and "validateEscalationGraph (xc_escalationGraph c) = Some []"
    using found bare by (auto simp: compatibilityViolations_def bareContract_def Let_def split: Option.bind_splits)
qed

text \<open>The environments a step may act in, as the authority graph has them.\<close>

definition authority_environments :: "AuthorityGraph \<Rightarrow> string \<Rightarrow> string set option" where
  "authority_environments g k =
     map_option (\<lambda>n. set (an_environmentScope n)) (js_map_of (map (\<lambda>n. (an_stepId n, n)) (ag_nodes g)) k)"

lemma authority_edge_narrows:
  assumes "validateAuthorityGraph g = Some []" and "(a, b) \<in> edge_rel (ag_edges g)"
  shows "\<exists>ea eb. authority_environments g a = Some ea \<and> authority_environments g b = Some eb \<and> eb \<subseteq> ea"
proof -
  from assms(2) obtain e where e: "e \<in> set (ag_edges g)" "ed_from e = a" "ed_to e = b" by (auto simp: edge_rel_def)
  have "authorityEdgeViolations g e = []"
    using assms(1) e(1) by (auto simp: validateAuthorityGraph_def split: Option.bind_splits)
  then show ?thesis
    unfolding e(2,3)[symmetric]
    by (auto simp: authorityEdgeViolations_def Let_def authority_environments_def list_ex_iff
        split: option.splits if_splits simp del: js_map_of_None js_map_of_keyed_None)
qed

lemma escalation_facts:
  assumes "validateEscalationGraph g = Some []"
  shows "acyclic (edge_rel (eg_edges g))"
    and "\<And>a b. (a, b) \<in> edge_rel (eg_edges g) \<Longrightarrow> b \<in> en_stepId ` set (eg_nodes g)"
    and "\<And>n. n \<in> set (eg_nodes g) \<Longrightarrow> en_stepId n \<in> Range (edge_rel (eg_edges g)) \<Longrightarrow>
      en_stepId n \<notin> Domain (edge_rel (eg_edges g)) \<Longrightarrow> en_terminal n"
proof -
  obtain c where c: "detectCycle (eg_edges g) = Some c" using detectCycle_returns by blast
  have none: "c = None" using assms by (cases c) (auto simp: validateEscalationGraph_def c Let_def)
  with c detectCycle_None show "acyclic (edge_rel (eg_edges g))" by blast
  have all: "(\<forall>e \<in> set (eg_edges g). \<not> (ed_from e \<notin> set (map en_stepId (eg_nodes g)) \<or>
        ed_to e \<notin> set (map en_stepId (eg_nodes g)))) \<and>
      (\<forall>n \<in> set (eg_nodes g). \<not> (en_stepId n \<notin> set (map ed_from (eg_edges g)) \<and>
        list_ex (\<lambda>e. ed_to e = en_stepId n) (eg_edges g) \<and> \<not> en_terminal n))"
    using assms unfolding validateEscalationGraph_def c none Option.bind.bind_lunit Let_def option.inject option.case
      append_is_Nil_conv concat_map_Nil if_singleton_Nil by (elim conjE, intro conjI)
  show "b \<in> en_stepId ` set (eg_nodes g)" if "(a, b) \<in> edge_rel (eg_edges g)" for a b
    using that all by (auto simp: edge_rel_def)
  show "en_terminal n" if n: "n \<in> set (eg_nodes g)" "en_stepId n \<in> Range (edge_rel (eg_edges g))"
    "en_stepId n \<notin> Domain (edge_rel (eg_edges g))" for n
  proof -
    have "en_stepId n \<notin> set (map ed_from (eg_edges g))" "list_ex (\<lambda>e. ed_to e = en_stepId n) (eg_edges g)"
      using n(2,3) unfolding edge_sources_targets[symmetric] by (auto simp: list_ex_iff)
    with all n(1) show ?thesis by blast
  qed
qed

section \<open>A concrete plan\<close>

definition compatible_step :: "string \<Rightarrow> int \<Rightarrow> string \<Rightarrow> string list \<Rightarrow> js_record \<Rightarrow> NormalizedPlanStep" where
  "compatible_step i index operation dependencies metadata =
     sample_step i index operation dependencies
       (sample_inputs [(''compatibility'', JObj ((''approval'', JObj [(''required'', JBool True)]) # metadata))]) ApprovalOPTIONAL"

definition compatible_plan :: NormalizedPlan where
  "compatible_plan = sample_plan_of
     [compatible_step ''a'' 0 ''preflight_check'' [] [(''escalation'', JObj [(''targets'', JArr [JStr ''b''])])],
      compatible_step ''b'' 1 ''approval_gate'' [''a'']
        [(''authority'', JObj [(''parents'', JArr [JStr ''a''])]), (''escalation'', JObj [(''terminal'', JBool True)])]]"

lemma compatible_plan_errors: "dependencyErrors code_unit_compare compatible_plan = Some (Some [''a'', ''b''], [])"
  by code_simp

lemma compatible_plan_violations:
  "compatibilityViolations compatible_plan (buildDependencyGraph compatible_plan) = Some []"
  by code_simp

lemma compatible_plan_edges:
  "ag_edges (buildAuthorityGraph approvals (np_steps compatible_plan)) = [\<lparr>ed_from = ''a'', ed_to = ''b''\<rparr>]"
  "eg_edges (buildEscalationGraph (np_steps compatible_plan)) = [\<lparr>ed_from = ''a'', ed_to = ''b''\<rparr>]"
  by (simp_all add: buildAuthorityGraph_def buildEscalationGraph_def compatible_plan_def sample_plan_of_def
      compatible_step_def sample_step_def sample_inputs_def compatibilityOf_def readRecord_def prop_get_def obj_get_def
      readStringArray_def string_of_def List.map_filter_def)

lemma compatible_plan_contract:
  "dependency_contract compatible_plan"
  "compatibility_contract compatible_plan (buildDependencyGraph compatible_plan)"
proof -
  have "\<exists>r. validateSequentialDependencies code_unit_compare (\<lambda>t. ''h'') (PlanValue compatible_plan) = Some r \<and> sd_ok r"
    by (simp add: validate_plan_value compatible_plan_errors)
  then show contract: "dependency_contract compatible_plan" by (simp add: accepts_iff)
  then have "distinct (map ns_id (np_steps compatible_plan))" by (simp add: dependency_contract_def references_ok_def)
  from compatibilityViolations_spec[OF this, of "buildDependencyGraph compatible_plan"]
  show "compatibility_contract compatible_plan (buildDependencyGraph compatible_plan)"
    by (simp add: compatible_plan_violations)
qed

definition blank_truth :: ExecutionTruthPackage where
  "blank_truth = truthPackage code_unit_compare (\<lambda>t. ''h'') compatible_plan ''h'' (scoreRiskDeterministically [])
     \<lparr>ge_allowed = True, ge_requiredApprovals = [], ge_blockedReasons = [], ge_escalationRequired = False\<rparr>"

section \<open>Properties\<close>

lemma validate_request:
  assumes "validateSequentialDependencies lc sha (PlanValue plan) = Some dv" and "sd_ok dv" and "\<not> no_fingerprint dv"
    and "truthHash \<noteq> []" and "compatibilityViolations plan (buildDependencyGraph plan) = Some found"
  shows "validateExecutionCompatibility lc sha (compatibilityRequest truthHash plan truth) =
    Some (compatibilityOutcome lc sha None
      (bareContract truthHash plan (js_default [] (sd_dependencyGraphFingerprint dv))) found)"
  using assms fresh_validation[OF assms(1)]
  by (simp add: validateExecutionCompatibility_def compatibilityRequest_def resolveDependencyValidation_def
      resolveDependencyGraph_def)

text \<open>C23 (compatibility_end_to_end): for a digest that never gives the empty string, a request that leaves
  dependency validation to the validator is compatible exactly when it names its truth hash, the plan
  meets the dependency contract, and its metadata meets the compatibility contract: approvals for
  executable steps, rollbacks for effectful ones, compensation for irreversible ones, closed scopes,
  acyclic authority that never widens environments, acyclic escalation with terminal ends, and rollback
  orders against the dependencies.\<close>

theorem compatibility_end_to_end:
  assumes "\<forall>t. sha t \<noteq> []"
  shows "(\<exists>c vs. validateExecutionCompatibility lc sha (compatibilityRequest truthHash plan truth) = Some (CompatibilityOk c vs)) \<longleftrightarrow>
    truthHash \<noteq> [] \<and> dependency_contract plan \<and> compatibility_contract plan (buildDependencyGraph plan)"
proof (cases "truthHash \<noteq> [] \<and> dependency_contract plan")
  case True
  then obtain dv where dv: "validateSequentialDependencies lc sha (PlanValue plan) = Some dv" "sd_ok dv"
    using accepts_iff[of lc sha plan] by blast
  have "createDependencyGraphFingerprint lc sha g \<noteq> []" for g
    using assms by (simp add: createDependencyGraphFingerprint_def hashPayloadDeterministically_def)
  then have "\<not> no_fingerprint dv" using fresh_validation[OF dv(1)] dv(2) by simp
  moreover have "distinct (map ns_id (np_steps plan))" using True by (simp add: dependency_contract_def references_ok_def)
  then obtain found where found: "compatibilityViolations plan (buildDependencyGraph plan) = Some found"
    "found = [] \<longleftrightarrow> compatibility_contract plan (buildDependencyGraph plan)"
    using compatibilityViolations_spec by blast
  ultimately show ?thesis
    using validate_request[OF dv _ _ found(1)] outcome_ok[OF blocking_violations[OF found(1)]] found(2) True by simp
next
  case False
  have "sd_ok dv \<Longrightarrow> dependency_contract plan" if "validateSequentialDependencies lc sha (PlanValue plan) = Some dv" for dv
    using accepts_iff[of lc sha plan] that by blast
  with False show ?thesis
    by (auto simp: validateExecutionCompatibility_def compatibilityRequest_def resolveDependencyValidation_def
        split: Option.bind_splits if_splits)
qed

theorem compatibility_end_to_end_witness:
  "\<exists>c vs. validateExecutionCompatibility code_unit_compare (\<lambda>t. ''h'')
     (compatibilityRequest ''t'' compatible_plan blank_truth) = Some (CompatibilityOk c vs)"
  by (rule compatibility_end_to_end[THEN iffD2]) (simp_all add: compatible_plan_contract)

lemma compatible_run_any:
  assumes "\<forall>t. sha t \<noteq> []"
  obtains c vs where "validateExecutionCompatibility code_unit_compare sha
     (compatibilityRequest ''t'' compatible_plan blank_truth) = Some (CompatibilityOk c vs)"
    and "edge_rel (ag_edges (xc_authorityGraph c)) = {(''a'', ''b'')}"
    and "edge_rel (eg_edges (xc_escalationGraph c)) = {(''a'', ''b'')}"
proof -
  obtain dv where dv: "validateSequentialDependencies code_unit_compare sha (PlanValue compatible_plan) = Some dv" "sd_ok dv"
    by (simp add: validate_plan_value compatible_plan_errors)
  have "\<not> no_fingerprint dv"
    using fresh_validation[OF dv(1)] dv(2) assms
    by (simp add: createDependencyGraphFingerprint_def hashPayloadDeterministically_def)
  note run = validate_request[OF dv this _ compatible_plan_violations, of "''t''" blank_truth, unfolded outcome_Nil]
  show thesis
    by (rule that[OF run]) (simp_all add: bareContract_def Let_def compatible_plan_edges edge_rel_def)
qed

lemma compatible_run:
  obtains c vs where "validateExecutionCompatibility code_unit_compare (\<lambda>t. ''h'')
     (compatibilityRequest ''t'' compatible_plan blank_truth) = Some (CompatibilityOk c vs)"
    and "edge_rel (ag_edges (xc_authorityGraph c)) = {(''a'', ''b'')}"
    and "edge_rel (eg_edges (xc_escalationGraph c)) = {(''a'', ''b'')}"
  by (rule compatible_run_any[of "\<lambda>t. ''h''"]) (simp, rule that)

text \<open>C25 (authority_never_widens): in a compatible plan, along every chain of the authority graph the
  environments a step may act in are among those of its authority, and authority never returns to
  its source.\<close>

theorem authority_never_widens:
  assumes "validateExecutionCompatibility lc sha input = Some (CompatibilityOk c vs)"
    and "(a, b) \<in> (edge_rel (ag_edges (xc_authorityGraph c)))\<^sup>+"
  shows "a \<noteq> b \<and> (\<exists>ea eb. authority_environments (xc_authorityGraph c) a = Some ea \<and>
    authority_environments (xc_authorityGraph c) b = Some eb \<and> eb \<subseteq> ea)"
proof
  note valid = compatible_dest(1)[OF assms(1)]
  then have "detectCycle (ag_edges (xc_authorityGraph c)) = Some None"
    by (auto simp: validateAuthorityGraph_def split: Option.bind_splits option.splits)
  then show "a \<noteq> b" using assms(2) by (auto simp: detectCycle_None acyclic_def)
  from assms(2) show "\<exists>ea eb. authority_environments (xc_authorityGraph c) a = Some ea \<and>
    authority_environments (xc_authorityGraph c) b = Some eb \<and> eb \<subseteq> ea"
  proof (induction rule: trancl_induct)
    case (step u v)
    then show ?case using authority_edge_narrows[OF valid step(2)] by fastforce
  qed (rule authority_edge_narrows[OF valid])
qed

theorem authority_never_widens_witness:
  "\<exists>c vs. validateExecutionCompatibility code_unit_compare (\<lambda>t. ''h'')
     (compatibilityRequest ''t'' compatible_plan blank_truth) = Some (CompatibilityOk c vs) \<and>
     authority_environments (xc_authorityGraph c) ''b'' \<noteq> None"
proof (rule compatible_run)
  fix c vs
  assume run: "validateExecutionCompatibility code_unit_compare (\<lambda>t. ''h'')
     (compatibilityRequest ''t'' compatible_plan blank_truth) = Some (CompatibilityOk c vs)"
    and "edge_rel (ag_edges (xc_authorityGraph c)) = {(''a'', ''b'')}"
  then have "(''a'', ''b'') \<in> (edge_rel (ag_edges (xc_authorityGraph c)))\<^sup>+" by auto
  from authority_never_widens[OF run this] run show ?thesis by auto
qed

text \<open>C26 (escalation_ends): in a compatible plan every escalation can be followed to a terminal step.\<close>

theorem escalation_ends:
  assumes "validateExecutionCompatibility lc sha input = Some (CompatibilityOk c vs)"
    and "(a, b) \<in> edge_rel (eg_edges (xc_escalationGraph c))"
  shows "\<exists>n \<in> set (eg_nodes (xc_escalationGraph c)). en_terminal n \<and>
    (a, en_stepId n) \<in> (edge_rel (eg_edges (xc_escalationGraph c)))\<^sup>+"
proof -
  let ?R = "edge_rel (eg_edges (xc_escalationGraph c))" and ?S = "{v. (a, v) \<in> (edge_rel (eg_edges (xc_escalationGraph c)))\<^sup>+}"
  note facts = escalation_facts[OF compatible_dest(2)[OF assms(1)]]
  have "?S \<subseteq> Range ?R" by (auto elim: trancl.cases)
  moreover have "finite (Range ?R)" by (simp add: edge_rel_def finite_Range)
  ultimately have "finite ?S" by (rule finite_subset)
  moreover have "b \<in> ?S" using assms(2) by blast
  ultimately obtain x where x: "x \<in> ?S" "\<forall>y \<in> ?S. (x, y) \<notin> ?R"
    using finite_acyclic_maximal[of ?S ?R] facts(1) by blast
  have last: "x \<notin> Domain ?R" using x by (auto intro: trancl_into_trancl)
  from x(1) obtain u where u: "(u, x) \<in> ?R" by (auto elim: trancl.cases)
  then obtain n where "n \<in> set (eg_nodes (xc_escalationGraph c))" "en_stepId n = x" using facts(2) by blast
  with facts(3)[of n] last u x(1) show ?thesis by blast
qed

theorem escalation_ends_witness:
  "\<exists>c vs. validateExecutionCompatibility code_unit_compare (\<lambda>t. ''h'')
     (compatibilityRequest ''t'' compatible_plan blank_truth) = Some (CompatibilityOk c vs) \<and>
     (\<exists>n \<in> set (eg_nodes (xc_escalationGraph c)). en_terminal n)"
proof (rule compatible_run)
  fix c vs
  assume run: "validateExecutionCompatibility code_unit_compare (\<lambda>t. ''h'')
     (compatibilityRequest ''t'' compatible_plan blank_truth) = Some (CompatibilityOk c vs)"
    and "edge_rel (eg_edges (xc_escalationGraph c)) = {(''a'', ''b'')}"
  then have "(''a'', ''b'') \<in> edge_rel (eg_edges (xc_escalationGraph c))" by auto
  from escalation_ends[OF run this] run show ?thesis by blast
qed

text \<open>The search of the compatibility graphs, which marks a vertex as visited when
  it leaves it, finds the same cycle as the search of the dependency detector, which marks it on entry;
  it returns, and finds none exactly on acyclic edges.\<close>

lemma cycle_searches_agree:
  "detectCycle edges =
     map_option vs_cyclePath (visitAll (edge_fuel edges) (edgeAdjacency edges) (edgeSources edges) emptyCycleState) \<and>
   detectCycle edges \<noteq> None \<and> (detectCycle edges = Some None \<longleftrightarrow> acyclic (edge_rel edges))"
  by (rule detectCycle_visit[of edges]) (simp add: detectCycle_None[symmetric])

end
