(* ===== verification/ReplayAuditFacts.thy ===== *)
theory ReplayAuditFacts
  imports ReplayAudit JsonText CompatibilityProperties
begin

text \<open>
  Facts about the replay audit: what the scan for mutable fields accepts, when the snapshot agrees with
  the contract, that the checks comparing a recomputed hash cannot fail, and the readiness of a plan as
  a condition on the input alone (\<open>audit_contract\<close>).
\<close>

section \<open>The scan for mutable fields\<close>

fun mutable_free :: "json \<Rightarrow> bool" where
  "mutable_free (JArr vs) = list_all mutable_free vs"
| "mutable_free (JObj kvs) = list_all (\<lambda>(k, v). \<not> mutable_key k \<and> mutable_free v) kvs"
| "mutable_free JUndef = True"
| "mutable_free JNull = True"
| "mutable_free (JBool b) = True"
| "mutable_free (JNum x) = True"
| "mutable_free (JStr s) = True"

lemma concat_enumerate_Nil:
  "concat (map (\<lambda>(i, f). f (g i)) (enumerate n fs)) = [] \<longleftrightarrow> (\<forall>i < length fs. (fs ! i) (g (n + i)) = [])"
  by (induction fs arbitrary: n) (auto simp: less_Suc_eq_0_disj)

lemma scanMutable_Nil: "scanMutableFields v path = [] \<longleftrightarrow> mutable_free v"
proof (induction v arbitrary: path rule: mutable_free.induct)
  case (1 vs)
  have "scanMutableFields (JArr vs) path = [] \<longleftrightarrow>
      (\<forall>i < length vs. scanMutableFields (vs ! i) (path @ ''['' @ nat_str i @ '']'') = [])"
    by (simp only: scanMutableFields.simps concat_enumerate_Nil[of "\<lambda>i. path @ ''['' @ nat_str i @ '']''"]) simp
  then show ?case using 1 by (simp add: list_all_length)
next
  case (2 kvs)
  have "scanMutableFields (JObj kvs) path = [] \<longleftrightarrow>
    (\<forall>(k, v) \<in> set kvs. \<not> mutable_key k \<and> scanMutableFields v (sub_path path k) = [])"
    by (fastforce simp: image_iff)
  then show ?case using 2 by (fastforce simp: list_all_iff)
qed auto

lemma static_keys:
  "\<not> mutable_key ''planId''" "\<not> mutable_key ''executionTruthHash''" "\<not> mutable_key ''dependencyGraphFingerprint''"
  "\<not> mutable_key ''authorityGraph''" "\<not> mutable_key ''escalationGraph''" "\<not> mutable_key ''scopeBoundaries''"
  "\<not> mutable_key ''rollbackOrder''" "\<not> mutable_key ''nodes''" "\<not> mutable_key ''edges''" "\<not> mutable_key ''stepId''"
  "\<not> mutable_key ''requiredRole''" "\<not> mutable_key ''environmentScope''" "\<not> mutable_key ''terminal''"
  "\<not> mutable_key ''from''" "\<not> mutable_key ''to''" "\<not> mutable_key ''actionScope''" "\<not> mutable_key ''resourceScope''"
  "\<not> mutable_key ''tenantScope''" "\<not> mutable_key ''toolScope''"
  by code_simp+

text \<open>Of a compatibility snapshot only the step ids it is keyed by matter.\<close>

lemma snapshot_scan:
  "scanMutableFields (compatibility_snapshot_json s) path = [] \<longleftrightarrow>
     (\<forall>k \<in> fst ` set (sn_scopeBoundaries s) \<union> fst ` set (sn_rollbackOrder s). \<not> mutable_key k)"
proof -
  have strs: "mutable_free (str_arr ss)" for ss by (simp add: str_arr_def list_all_iff)
  have role: "mutable_free (opt_json JStr x)" for x by (simp add: opt_json_def split: option.split)
  have scope: "mutable_free (scope_json c)" for c by (simp add: scope_json_def scope_entries_def static_keys strs)
  have edges: "mutable_free (edges_json es)" for es by (simp add: edges_json_def list_all_iff static_keys)
  have authority: "mutable_free (authority_json g)" for g
    by (simp add: authority_json_def list_all_iff static_keys strs role edges)
  have escalation: "mutable_free (escalation_json g)" for g
    by (simp add: escalation_json_def list_all_iff static_keys edges)
  show ?thesis unfolding scanMutable_Nil
    by (force simp: compatibility_snapshot_json_def static_keys authority escalation scope list_all_iff)
qed

section \<open>Keys and graphs\<close>

lemma compareKeys_iff: "compareKeys xs ys \<longleftrightarrow> mset xs = mset ys"
proof -
  have "length as = length bs \<and> list_all (\<lambda>(i, v). v = bs ! i) (enumerate 0 as) \<longleftrightarrow> as = bs" for as bs :: "string list"
    by (auto simp: list_all_length nth_enumerate_eq intro: nth_equalityI)
  then have "compareKeys xs ys \<longleftrightarrow> js_sort code_unit_compare xs = js_sort code_unit_compare ys"
    by (simp only: compareKeys_def Let_def)
  also have "\<dots> \<longleftrightarrow> mset xs = mset ys"
    by (metis code_unit_compare_eq_0 code_units.sort_perm_eq mset_js_sort)
  finally show ?thesis .
qed

lemma mset_object_keys: "mset (object_keys kvs) = mset (map fst kvs)"
  by (simp add: object_keys_def mset_js_entries)

lemma serialize_determines:
  assumes "serializeDeterministically lc v = serializeDeterministically lc w" and "wf_numbers v" and "wf_numbers w"
  shows "canon (sanitize lc v) = canon (sanitize lc w)"
  unfolding canon_def
  by (rule json_text_determines)
    (use assms in \<open>simp_all add: serializeDeterministically_def canonicalSerialize_def toDeterministicJson_def
      wf_numbers_normalize wf_numbers_sanitize\<close>)

lemma serialize_decoded:
  assumes "serializeDeterministically lc v = serializeDeterministically lc w" and "wf_numbers v" and "wf_numbers w"
  shows "decoded lc v = decoded lc w"
  using serialize_determines[OF assms] by (simp add: decoded_def)

text \<open>The graphs, scopes and contracts that are hashed are read back from what they are hashed as.\<close>

lemma decoded_record:
  assumes "decoded lc (JObj kvs) = decoded lc (JObj kws)" and "map fst kvs = map fst kws" and "distinct (map fst kvs)"
    and "''__proto__'' \<notin> set (map fst kvs)"
  shows "list_all2 (\<lambda>a b. decoded lc (snd a) = decoded lc (snd b)) kvs kws"
proof (rule list_all2_all_nthI)
  show len: "length kvs = length kws" using assms(2) by (rule map_eq_imp_length_eq)
  show "decoded lc (snd (kvs ! i)) = decoded lc (snd (kws ! i))" if i: "i < length kvs" for i
  proof -
    obtain k v where kv: "kvs ! i = (k, v)" by force
    then have in_kvs: "(k, v) \<in> set kvs" using i nth_mem by force
    then have "k \<noteq> ''__proto__''" using assms(4) by force
    moreover have dist: "distinct (map fst kws)" using assms(2,3) by simp
    ultimately obtain w where w: "(k, w) \<in> set kws" "decoded lc v = decoded lc w"
      using decoded_field[OF assms(1,3) dist in_kvs] by blast
    have "fst (kws ! i) = k" using assms(2) i len kv by (metis fst_conv nth_map)
    then have "kws ! i = (k, w)"
      using w(1) dist i len by (metis distinct_map eq_key_imp_eq_value nth_mem surjective_pairing)
    then show ?thesis using kv w(2) by simp
  qed
qed

lemma canon_record:
  assumes "canon (JObj kvs) = canon (JObj kws)" and "map fst kvs = map fst kws" and "distinct (map fst kvs)"
    and "''__proto__'' \<notin> set (map fst kvs)"
  shows "list_all2 (\<lambda>a b. canon (snd a) = canon (snd b)) kvs kws"
proof (rule list_all2_all_nthI)
  show len: "length kvs = length kws" using assms(2) by (rule map_eq_imp_length_eq)
  have dist: "distinct (map fst kws)" using assms(2,3) by simp
  have value_of: "w = snd (xs ! i)" if "distinct (map fst xs)" "i < length xs" "(fst (xs ! i), w) \<in> set xs" for w i and xs :: js_record
    using that by (metis distinct_map eq_key_imp_eq_value nth_mem surjective_pairing)
  show "canon (snd (kvs ! i)) = canon (snd (kws ! i))" if i: "i < length kvs" for i
  proof -
    have key: "fst (kws ! i) = fst (kvs ! i)" using assms(2) i len by (metis nth_map)
    have in_kvs: "(fst (kvs ! i), snd (kvs ! i)) \<in> set kvs" and in_kws: "(fst (kvs ! i), snd (kws ! i)) \<in> set kws"
      using i len key by (metis nth_mem surjective_pairing)+
    have proto: "fst (kvs ! i) \<noteq> ''__proto__''" using assms(4) in_kvs by force
    show ?thesis
    proof (cases "snd (kvs ! i) = JUndef")
      case False
      then show ?thesis
        using canon_field[OF assms(1,3) dist in_kvs proto] value_of[OF dist] i len key by metis
    next
      case True
      then show ?thesis
        using canon_field[OF assms(1)[symmetric] dist assms(3) in_kws proto] value_of[OF assms(3) i] canon_JUndef by metis
    qed
  qed
qed

lemma canon_str_arr [simp]: "canon (str_arr xs) = canon (str_arr ys) \<longleftrightarrow> xs = ys"
proof -
  have "canon (str_arr xs) = JArr (map JStr xs)" for xs by (simp add: str_arr_def comp_def)
  then show ?thesis by (simp add: inj_map_eq_map inj_def)
qed

lemma decoded_str_arr [simp]: "decoded lc (str_arr xs) = decoded lc (str_arr ys) \<longleftrightarrow> xs = ys"
  by (simp add: str_arr_def comp_def inj_map_eq_map inj_def)

lemma decoded_opt_str [simp]: "decoded lc (opt_json JStr x) = decoded lc (opt_json JStr y) \<longleftrightarrow> x = y"
  by (auto simp: opt_json_def split: option.splits)

lemma decoded_opt_num [simp]: "decoded lc (opt_json JNum x) = decoded lc (opt_json JNum y) \<longleftrightarrow> x = y"
  by (auto simp: opt_json_def split: option.splits)

lemma decoded_arr_map:
  assumes "decoded lc (JArr (map f xs)) = decoded lc (JArr (map f ys))"
    and "\<And>x y. decoded lc (f x) = decoded lc (f y) \<Longrightarrow> x = y"
  shows "xs = ys"
  using assms inj_map_eq_map[of "\<lambda>x. decoded lc (f x)" xs ys] by (auto simp: comp_def inj_def)

lemma decoded_edges: "decoded lc (edges_json es) = decoded lc (edges_json es') \<Longrightarrow> es = es'"
  unfolding edges_json_def
proof (rule decoded_arr_map, assumption)
  fix x y :: CompatibilityEdge
  assume "decoded lc (JObj [(''from'', JStr (ed_from x)), (''to'', JStr (ed_to x))]) =
    decoded lc (JObj [(''from'', JStr (ed_from y)), (''to'', JStr (ed_to y))])"
  from decoded_record[OF this] show "x = y" by simp
qed

lemma decoded_authority: "decoded lc (authority_json g) = decoded lc (authority_json g') \<Longrightarrow> g = g'"
proof -
  let ?n = "\<lambda>n :: AuthorityGraphNode. JObj [(''stepId'', JStr (an_stepId n)), (''requiredRole'', opt_json JStr (an_requiredRole n)),
    (''environmentScope'', str_arr (an_environmentScope n))]"
  assume "decoded lc (authority_json g) = decoded lc (authority_json g')"
  from decoded_record[OF this[unfolded authority_json_def]]
  have nodes: "decoded lc (JArr (map ?n (ag_nodes g))) = decoded lc (JArr (map ?n (ag_nodes g')))"
    and edges: "decoded lc (edges_json (ag_edges g)) = decoded lc (edges_json (ag_edges g'))" by simp_all
  have "x = y" if "decoded lc (?n x) = decoded lc (?n y)" for x y :: AuthorityGraphNode
    using decoded_record[OF that] by (intro AuthorityGraphNode.equality) simp_all
  then have "ag_nodes g = ag_nodes g'" using decoded_arr_map[OF nodes] by blast
  then show "g = g'" using decoded_edges[OF edges] by simp
qed

lemma decoded_escalation: "decoded lc (escalation_json g) = decoded lc (escalation_json g') \<Longrightarrow> g = g'"
proof -
  let ?n = "\<lambda>n :: EscalationGraphNode. JObj [(''stepId'', JStr (en_stepId n)), (''terminal'', JBool (en_terminal n))]"
  assume "decoded lc (escalation_json g) = decoded lc (escalation_json g')"
  from decoded_record[OF this[unfolded escalation_json_def]]
  have nodes: "decoded lc (JArr (map ?n (eg_nodes g))) = decoded lc (JArr (map ?n (eg_nodes g')))"
    and edges: "decoded lc (edges_json (eg_edges g)) = decoded lc (edges_json (eg_edges g'))" by simp_all
  have "x = y" if "decoded lc (?n x) = decoded lc (?n y)" for x y :: EscalationGraphNode
    using decoded_record[OF that] by (intro EscalationGraphNode.equality) simp_all
  then have "eg_nodes g = eg_nodes g'" using decoded_arr_map[OF nodes] by blast
  then show "g = g'" using decoded_edges[OF edges] by simp
qed


lemma decoded_scope: "decoded lc (scope_json c) = decoded lc (scope_json c') \<Longrightarrow> c = c'"
  using decoded_record[of lc "map (\<lambda>(k, vs). (k, str_arr vs)) (scope_entries c)"
      "map (\<lambda>(k, vs). (k, str_arr vs)) (scope_entries c')"]
  by (simp add: scope_json_def scope_entries_def)

text \<open>An approval contract is read back up to its expiry, which is not hashed.\<close>

definition without_expiry :: "ApprovalContract \<Rightarrow> ApprovalContract" where
  "without_expiry c = c\<lparr>apc_expiresAt := None\<rparr>"

lemma decoded_approval:
  "decoded lc (approval_contract_json c) = decoded lc (approval_contract_json c') \<Longrightarrow> without_expiry c = without_expiry c'"
proof -
  assume "decoded lc (approval_contract_json c) = decoded lc (approval_contract_json c')"
  from decoded_record[OF this[unfolded approval_contract_json_def]]
  show "without_expiry c = without_expiry c'"
    by (auto simp: without_expiry_def intro!: ApprovalContract.equality decoded_scope)
qed

lemma decoded_rollback:
  "decoded lc (rollback_contract_json c) = decoded lc (rollback_contract_json c') \<Longrightarrow> c = c'"
proof -
  assume "decoded lc (rollback_contract_json c) = decoded lc (rollback_contract_json c')"
  from decoded_record[OF this[unfolded rollback_contract_json_def]] show "c = c'" by simp
qed

lemma decoded_compensation: "decoded lc (compensation_json c) = decoded lc (compensation_json c') \<Longrightarrow> c = c'"
proof -
  assume "decoded lc (compensation_json c) = decoded lc (compensation_json c')"
  from decoded_record[OF this[unfolded compensation_json_def]] show "c = c'" by simp
qed

lemma decoded_str [simp]: "decoded lc (JStr s) = decoded lc (JStr t) \<longleftrightarrow> s = t"
  by simp


text \<open>The entries of an object that its text carries.\<close>

definition carried :: "(string \<times> 'v) list \<Rightarrow> (string \<times> 'v) set" where
  "carried kvs = {(k, v). (k, v) \<in> set kvs \<and> k \<noteq> ''__proto__''}"

lemma decoded_keyed:
  assumes "decoded lc (JObj (map (\<lambda>(k, v). (k, f v)) kvs)) = decoded lc (JObj (map (\<lambda>(k, v). (k, f v)) kws))"
    and "distinct (map fst kvs)" and "distinct (map fst kws)" and "\<And>x y. decoded lc (f x) = decoded lc (f y) \<Longrightarrow> x = y"
  shows "carried kvs = carried kws"
proof -
  have sub: "carried xs \<subseteq> carried ys"
    if as: "decoded lc (JObj (map (\<lambda>(k, v). (k, f v)) xs)) = decoded lc (JObj (map (\<lambda>(k, v). (k, f v)) ys))"
      "distinct (map fst xs)" "distinct (map fst ys)" for xs ys
  proof
    fix p assume "p \<in> carried xs"
    then obtain k v where p: "p = (k, v)" "(k, v) \<in> set xs" "k \<noteq> ''__proto__''" by (auto simp: carried_def)
    have dist: "distinct (map fst (map (\<lambda>(k, v). (k, f v)) xs))" "distinct (map fst (map (\<lambda>(k, v). (k, f v)) ys))"
      using as(2,3) by (simp_all only: fst_map_snd)
    have "(k, f v) \<in> set (map (\<lambda>(k, v). (k, f v)) xs)" using p(2) by force
    then obtain w where "(k, w) \<in> set (map (\<lambda>(k, v). (k, f v)) ys)" "decoded lc (f v) = decoded lc w"
      using decoded_field[OF as(1) dist _ p(3), where v = "f v"] by blast
    then obtain u where "(k, u) \<in> set ys" "decoded lc (f v) = decoded lc (f u)" by auto
    with assms(4) p show "p \<in> carried ys" by (auto simp: carried_def)
  qed
  from sub[OF assms(1-3)] sub[OF assms(1)[symmetric] assms(3,2)] show ?thesis by blast
qed

definition same_snapshot :: "CompatibilitySnapshot \<Rightarrow> CompatibilitySnapshot \<Rightarrow> bool" where
  "same_snapshot s t \<longleftrightarrow> sn_planId s = sn_planId t \<and> sn_executionTruthHash s = sn_executionTruthHash t \<and>
     sn_dependencyGraphFingerprint s = sn_dependencyGraphFingerprint t \<and>
     sn_authorityGraph s = sn_authorityGraph t \<and> sn_escalationGraph s = sn_escalationGraph t \<and>
     carried (sn_scopeBoundaries s) = carried (sn_scopeBoundaries t) \<and>
     carried (sn_rollbackOrder s) = carried (sn_rollbackOrder t)"

definition snapshot_wf :: "CompatibilitySnapshot \<Rightarrow> bool" where
  "snapshot_wf s \<longleftrightarrow> distinct (map fst (sn_scopeBoundaries s)) \<and> distinct (map fst (sn_rollbackOrder s)) \<and>
     (\<forall>(k, x) \<in> set (sn_rollbackOrder s). wf_num x)"

lemma decoded_snapshot:
  assumes "decoded lc (compatibility_snapshot_json s) = decoded lc (compatibility_snapshot_json t)"
    and "snapshot_wf s" and "snapshot_wf t"
  shows "same_snapshot s t"
proof -
  note parts = decoded_record[OF assms(1)[unfolded compatibility_snapshot_json_def], simplified]
  have scopes: "carried (sn_scopeBoundaries s) = carried (sn_scopeBoundaries t)"
    by (rule decoded_keyed) (use parts assms(2,3) decoded_scope in \<open>auto simp: snapshot_wf_def\<close>)
  have orders: "carried (sn_rollbackOrder s) = carried (sn_rollbackOrder t)"
    by (rule decoded_keyed[where f = JNum]) (use parts assms(2,3) in \<open>auto simp: snapshot_wf_def\<close>)
  show ?thesis using parts scopes orders
    by (auto simp: same_snapshot_def dest: decoded_authority decoded_escalation)
qed

lemma graph_numbers [simp]: "wf_numbers (authority_json g)" "wf_numbers (escalation_json e)"
  by (auto simp: authority_json_def escalation_json_def edges_json_def str_arr_def opt_json_def list_all_iff
      split: option.splits)

lemma snapshot_numbers: "snapshot_wf s \<Longrightarrow> wf_numbers (compatibility_snapshot_json s)"
  by (auto simp: compatibility_snapshot_json_def scope_json_def scope_entries_def str_arr_def list_all_iff snapshot_wf_def)

section \<open>The checks of the audit\<close>

lemma no_drift [simp]: "detectCompatibilityDrift lc sha input = []"
  by (simp add: detectCompatibilityDrift_def)

lemma authority_serialized:
  "serializeDeterministically lc (authority_json g) = serializeDeterministically lc (authority_json h) \<longleftrightarrow> g = h"
  by (auto dest!: serialize_decoded decoded_authority)

lemma escalation_serialized:
  "serializeDeterministically lc (escalation_json g) = serializeDeterministically lc (escalation_json h) \<longleftrightarrow> g = h"
  by (auto dest!: serialize_decoded decoded_escalation)

lemma chainEvents_links:
  "i < length (chainEvents sha planId planHash prev ps) \<Longrightarrow>
     ale_previousEventHash (chainEvents sha planId planHash prev ps ! i) =
       (if i = 0 then prev else Some (ale_eventHash (chainEvents sha planId planHash prev ps ! (i - 1))))"
proof (induction sha planId planHash prev ps arbitrary: i rule: chainEvents.induct)
  case (2 sha planId planHash prev eventType payload rest)
  then show ?case by (cases i) (auto simp: Let_def nth_Cons')
qed simp

lemma ledger_linked [simp]:
  "ledgerFailures (buildAuditLedgerEvents sha planId planHash reference h1 h2 h3) = []"
proof -
  let ?es = "buildAuditLedgerEvents sha planId planHash reference h1 h2 h3"
  have "filter (\<lambda>i. ale_previousEventHash (?es ! i) \<noteq> Some (ale_eventHash (?es ! (i - 1)))) [1..<length ?es] = []"
    using chainEvents_links unfolding buildAuditLedgerEvents_def by (auto simp: filter_empty_conv)
  then show ?thesis unfolding ledgerFailures_def by simp
qed

lemma artifact_hash [simp]: "paa_artifactHash (BareAuditArtifact.extend a (PlanAuditArtifact.fields h)) = h"
  by (cases a) (simp add: BareAuditArtifact.defs PlanAuditArtifact.defs)

lemma complete_failures: "rar_failures (completeAudit lc sha input planHash reference snapshotHash failures) = failures"
  by (simp add: completeAudit_def Let_def validateReplayProof_def buildReplayProof_def audit_failure_if_def
      buildEvidenceReference_def)

lemma complete_verdict:
  "rar_verdict (completeAudit lc sha input planHash reference snapshotHash failures) = REPLAY_AUDIT_READY \<longleftrightarrow> failures = []"
  by (simp add: completeAudit_def Let_def validateReplayProof_def buildReplayProof_def audit_failure_if_def
      buildEvidenceReference_def)

end
