(* ===== verification/ReplayAuditProperties.thy ===== *)
theory ReplayAuditProperties
  imports ReplayAuditFacts
begin

text \<open>
  What the replay audit guarantees: which inputs are ready (\<open>audit_contract\<close>), that the contract of a
  compatible plan is ready, and what the hash of the evidence reference commits to.
\<close>

section \<open>The contract\<close>

definition expects :: "string option \<Rightarrow> string \<Rightarrow> bool" where
  "expects e h \<longleftrightarrow> e = None \<or> e = Some [] \<or> e = Some h"

definition audit_contract :: "ReplayAuditInput \<Rightarrow> bool" where
  "audit_contract input \<longleftrightarrow>
     (\<exists>s c. rai_compatibilitySnapshot input = Some s \<and> rai_contract input = c \<and>
       xc_executionTruthHash c \<noteq> [] \<and> xc_executionCompatibilityHash c \<noteq> [] \<and>
       expects (rai_expectedExecutionTruthHash input) (xc_executionTruthHash c) \<and>
       expects (rai_expectedExecutionCompatibilityHash input) (xc_executionCompatibilityHash c) \<and>
       tp_executionTruthHash (rai_executionTruthPackage input) = xc_executionTruthHash c \<and>
       sn_executionTruthHash s = xc_executionTruthHash c \<and> sn_planId s = np_planId (rai_normalizedPlan input) \<and>
       mset (map apc_stepId (xc_approvalContracts c)) = mset (map fst (sn_scopeBoundaries s)) \<and>
       mset (map rbc_stepId (xc_rollbackContracts c)) = mset (map fst (sn_rollbackOrder s)) \<and>
       sn_authorityGraph s = xc_authorityGraph c \<and> sn_escalationGraph s = xc_escalationGraph c \<and>
       (\<forall>k \<in> fst ` set (sn_scopeBoundaries s) \<union> fst ` set (sn_rollbackOrder s). \<not> mutable_key k))"

lemma hashReplay_nonempty: "\<forall>t. sha t \<noteq> [] \<Longrightarrow> hashReplayInputSnapshot lc sha v \<noteq> []"
  by (simp add: hashReplayInputSnapshot_def)

lemma ingestion_ok:
  "ingestionFailures c snapshot = [] \<longleftrightarrow> xc_executionTruthHash c \<noteq> [] \<and> xc_executionCompatibilityHash c \<noteq> [] \<and>
     (\<exists>s. snapshot = Some s \<and> (\<forall>k \<in> fst ` set (sn_scopeBoundaries s) \<union> fst ` set (sn_rollbackOrder s). \<not> mutable_key k))"
  by (cases snapshot) (auto simp: ingestionFailures_def snapshot_scan)

lemma truth_ok:
  "validateCompatibilityTruth lc input s h = [] \<longleftrightarrow>
     h \<noteq> [] \<and> expects (rai_expectedExecutionTruthHash input) (tp_executionTruthHash (rai_executionTruthPackage input)) \<and>
     expects (rai_expectedExecutionCompatibilityHash input) (xc_executionCompatibilityHash (rai_contract input)) \<and>
     tp_executionTruthHash (rai_executionTruthPackage input) = xc_executionTruthHash (rai_contract input) \<and>
     sn_executionTruthHash s = xc_executionTruthHash (rai_contract input) \<and> sn_planId s = np_planId (rai_normalizedPlan input) \<and>
     mset (map apc_stepId (xc_approvalContracts (rai_contract input))) = mset (map fst (sn_scopeBoundaries s)) \<and>
     mset (map rbc_stepId (xc_rollbackContracts (rai_contract input))) = mset (map fst (sn_rollbackOrder s)) \<and>
     sn_authorityGraph s = xc_authorityGraph (rai_contract input) \<and>
     sn_escalationGraph s = xc_escalationGraph (rai_contract input)"
proof -
  have expected: "\<not> (js_default [] e \<noteq> [] \<and> js_default [] e \<noteq> x) \<longleftrightarrow> expects e x" for e and x :: string
    by (cases e) (auto simp: expects_def)
  have failed: "audit_failure_if b code m p = [] \<longleftrightarrow> \<not> b" for b code m p by (simp add: audit_failure_if_def)
  show ?thesis
    unfolding validateCompatibilityTruth_def Let_def append_is_Nil_conv failed expected compareKeys_iff mset_object_keys
      authority_serialized escalation_serialized not_not
    by metis
qed

text \<open>An input is ready exactly when nothing failed before the artifacts are built.\<close>

lemma blocked_verdict [simp]: "rar_verdict (blockedAudit input planHash h fs) = REPLAY_AUDIT_BLOCKED"
  by (simp add: blockedAudit_def)

lemma audit_not_ingested:
  assumes "ingestionFailures (rai_contract input) (rai_compatibilitySnapshot input) \<noteq> []"
  shows "rar_verdict (buildReplayAuditReadiness lc sha input) = REPLAY_AUDIT_BLOCKED"
proof -
  have "ics_compatibilityReference (ingestCompatibilitySnapshot lc sha (rai_contract input) (rai_compatibilitySnapshot input)) = None"
    using assms by (cases "rai_compatibilitySnapshot input") (simp_all add: ingestCompatibilitySnapshot_def)
  then show ?thesis by (simp add: buildReplayAuditReadiness_def Let_def)
qed

lemma audit_ingested:
  assumes "rai_compatibilitySnapshot input = Some s" and "ingestionFailures (rai_contract input) (Some s) = []"
    and "h = hashReplayInputSnapshot lc sha (compatibility_snapshot_json s)"
  shows "buildReplayAuditReadiness lc sha input =
    (let planHash = derivePlanHash sha (rai_normalizedPlan input); found = validateCompatibilityTruth lc input s h in
     if h = [] \<or> found \<noteq> [] then blockedAudit input planHash (Some h) (if h = [] then [] else found)
     else completeAudit lc sha input planHash (buildCompatibilityHashReference (rai_contract input) h) h [])"
proof -
  have "ingestCompatibilitySnapshot lc sha (rai_contract input) (Some s) =
      \<lparr>ics_compatibilityReference = Some (buildCompatibilityHashReference (rai_contract input) h),
       ics_compatibilitySnapshotHash = Some h, ics_failures = []\<rparr>"
    by (simp add: ingestCompatibilitySnapshot_def assms(2,3) Let_def)
  then show ?thesis
    unfolding buildReplayAuditReadiness_def assms(1) Let_def
    by (simp only: IngestedCompatibilitySnapshot.simps js_default_simps option.case no_drift append_Nil append_Nil2)
      (cases "h = []"; cases "validateCompatibilityTruth lc input s h = []"; simp only: if_True if_False simp_thms)
qed

lemma ready_run:
  assumes "rar_verdict (buildReplayAuditReadiness lc sha input) = REPLAY_AUDIT_READY"
  obtains s h where "rai_compatibilitySnapshot input = Some s"
    and "h = hashReplayInputSnapshot lc sha (compatibility_snapshot_json s)"
    and "ingestionFailures (rai_contract input) (Some s) = []" and "validateCompatibilityTruth lc input s h = []"
    and "buildReplayAuditReadiness lc sha input =
      completeAudit lc sha input (derivePlanHash sha (rai_normalizedPlan input))
        (buildCompatibilityHashReference (rai_contract input) h) h []"
proof -
  have "ingestionFailures (rai_contract input) (rai_compatibilitySnapshot input) = []"
    using audit_not_ingested[of input lc sha] assms by auto
  then obtain s where s: "rai_compatibilitySnapshot input = Some s" "ingestionFailures (rai_contract input) (Some s) = []"
    unfolding ingestion_ok by auto
  note run = audit_ingested[OF s refl, of lc sha, unfolded Let_def]
  with assms show thesis by (intro that[OF s(1) refl s(2)]) (auto split: if_splits)
qed

lemma ready_iff:
  assumes "\<forall>t. sha t \<noteq> []"
  shows "rar_verdict (buildReplayAuditReadiness lc sha input) = REPLAY_AUDIT_READY \<longleftrightarrow> audit_contract input"
proof (cases "ingestionFailures (rai_contract input) (rai_compatibilitySnapshot input) = []")
  case True
  then obtain s where s: "rai_compatibilitySnapshot input = Some s" "ingestionFailures (rai_contract input) (Some s) = []"
    unfolding ingestion_ok by auto
  have h: "hashReplayInputSnapshot lc sha (compatibility_snapshot_json s) \<noteq> []" by (rule hashReplay_nonempty) (rule assms)
  have "rar_verdict (buildReplayAuditReadiness lc sha input) = REPLAY_AUDIT_READY \<longleftrightarrow>
      validateCompatibilityTruth lc input s (hashReplayInputSnapshot lc sha (compatibility_snapshot_json s)) = []"
    unfolding audit_ingested[OF s refl] Let_def using h by (simp add: complete_verdict)
  also have "\<dots> \<longleftrightarrow> audit_contract input"
    using h s(1) s(2)[unfolded ingestion_ok] unfolding truth_ok audit_contract_def by auto
  finally show ?thesis .
next
  case False
  then show ?thesis using audit_not_ingested[OF False, of lc sha] unfolding ingestion_ok audit_contract_def by auto
qed

section \<open>The contract of a compatible plan\<close>

lemma fromEntries_distinct: "distinct (map fst kvs) \<Longrightarrow> fromEntries kvs = kvs"
proof -
  have "foldl (\<lambda>m (k, v). AList.update k v m) m kvs = m @ kvs"
    if "distinct (map fst (m @ kvs))" for m
    using that
  proof (induction kvs arbitrary: m)
    case (Cons kv kvs)
    obtain k v where kv: "kv = (k, v)" by force
    have "AList.update k v m = m @ [(k, v)]" if "k \<notin> fst ` set m" for m :: "(string \<times> 'a) list"
      using that by (induction m) auto
    then have "AList.update k v m = m @ [(k, v)]" using Cons.prems by (simp add: kv)
    then show ?case using Cons.IH[of "m @ [(k, v)]"] Cons.prems by (simp add: kv)
  qed simp
  from this[of "[]"] show "distinct (map fst kvs) \<Longrightarrow> fromEntries kvs = kvs" by (simp add: fromEntries_def)
qed

text \<open>What the audit is asked about: a plan, its truth package and the contract, nothing expected.\<close>

definition auditInput :: "NormalizedPlan \<Rightarrow> ExecutionTruthPackage \<Rightarrow> ExecutionCompatibilityContract \<Rightarrow> ReplayAuditInput" where
  "auditInput plan truth c =
     \<lparr>rai_normalizedPlan = plan, rai_executionTruthPackage = truth, rai_contract = c,
      rai_compatibilitySnapshot = Some (xc_compatibilitySnapshot c),
      rai_expectedExecutionTruthHash = None, rai_expectedExecutionCompatibilityHash = None\<rparr>"

lemma approval_ids: "map apc_stepId (approvalContractsOf steps) = map ns_id (filter has_approval steps)"
proof (induction steps)
  case (Cons s steps)
  then show ?case using approval_None[of s] approval_Some[of s]
    by (cases "normalizeApprovalContract s") (auto simp: approvalContractsOf_def List.map_filter_def)
qed (simp add: approvalContractsOf_def List.map_filter_def)

lemma rollback_ids: "map rbc_stepId (rollbackContractsOf steps) = map ns_id (filter has_rollback steps)"
proof -
  have "map rbc_stepId (concat (map (\<lambda>(index, step).
      case normalizeRollbackContract step of None \<Rightarrow> []
      | Some c \<Rightarrow> [c\<lparr>rbc_rollbackOrder := Some (f index c)\<rparr>]) (enumerate n xs))) = map ns_id (filter has_rollback xs)" for f n xs
  proof (induction xs arbitrary: n)
    case (Cons s xs)
    then show ?case using rollback_None[of s] rollback_Some[of s]
      by (cases "normalizeRollbackContract s") auto
  qed simp
  then show ?thesis by (simp add: rollbackContractsOf_def)
qed

lemma compatible_shape:
  assumes "validateExecutionCompatibility lc sha input = Some (CompatibilityOk c vs)"
  shows "\<exists>plan f. ci_normalizedPlan input = Some plan \<and> ci_executionTruthHash input \<noteq> [] \<and>
    c = (bareContract (ci_executionTruthHash input) plan f)
      \<lparr>xc_executionCompatibilityHash := hashExecutionCompatibilityContract lc sha (bareContract (ci_executionTruthHash input) plan f),
       xc_violations := [], xc_compatible := True\<rparr>"
proof -
  from assms obtain plan graph found f where plan: "ci_normalizedPlan input = Some plan" "ci_executionTruthHash input \<noteq> []"
    and found: "compatibilityViolations plan graph = Some found"
    and outcome: "compatibilityOutcome lc sha (ci_expectedCompatibilityHash input)
      (bareContract (ci_executionTruthHash input) plan f) found = CompatibilityOk c vs"
    by (auto simp: validateExecutionCompatibility_def split: option.splits if_splits Option.bind_splits)
  have "c = (bareContract (ci_executionTruthHash input) plan f)
      \<lparr>xc_executionCompatibilityHash := hashExecutionCompatibilityContract lc sha (bareContract (ci_executionTruthHash input) plan f),
       xc_violations := [], xc_compatible := True\<rparr>"
    using outcome blocking_violations[OF found]
    by (cases found) (auto simp: compatibilityOutcome_def Let_def split: if_splits)
  with plan show ?thesis by blast
qed

lemma compatible_ready:
  assumes "\<forall>t. sha t \<noteq> []" and "validateExecutionCompatibility lc sha input = Some (CompatibilityOk c vs)"
    and "ci_normalizedPlan input = Some plan" and "distinct (map ns_id (np_steps plan))"
    and "tp_executionTruthHash truth = ci_executionTruthHash input"
  shows "rar_verdict (buildReplayAuditReadiness lc sha (auditInput plan truth c)) = REPLAY_AUDIT_READY \<longleftrightarrow>
    (\<forall>s \<in> set (np_steps plan). has_approval s \<or> has_rollback s \<longrightarrow> \<not> mutable_key (ns_id s))"
proof -
  obtain f where truth: "ci_executionTruthHash input \<noteq> []" and c: "c = (bareContract (ci_executionTruthHash input) plan f)
      \<lparr>xc_executionCompatibilityHash := hashExecutionCompatibilityContract lc sha (bareContract (ci_executionTruthHash input) plan f),
       xc_violations := [], xc_compatible := True\<rparr>"
    using compatible_shape[OF assms(2)] assms(3) by auto
  let ?steps = "np_steps plan"
  have keys: "map fst (map (\<lambda>a. (apc_stepId a, apc_scope a)) (approvalContractsOf ?steps)) = map ns_id (filter has_approval ?steps)"
    "map fst (map (\<lambda>r. (rbc_stepId r, js_default (num_of_int (- 1)) (rbc_rollbackOrder r))) (rollbackContractsOf ?steps)) =
      map ns_id (filter has_rollback ?steps)"
    by (simp_all add: comp_def flip: approval_ids rollback_ids)
  have dist: "distinct (map ns_id (filter P ?steps))" for P using assms(4) by (simp add: distinct_map_filter)
  have snapshot: "map fst (sn_scopeBoundaries (xc_compatibilitySnapshot c)) = map ns_id (filter has_approval ?steps)"
    "map fst (sn_rollbackOrder (xc_compatibilitySnapshot c)) = map ns_id (filter has_rollback ?steps)"
    unfolding c bareContract_def Let_def buildCompatibilitySnapshot_def
      ExecutionCompatibilityContract.simps ExecutionCompatibilityContract.update_convs CompatibilitySnapshot.simps
    using keys fromEntries_distinct[OF dist[of has_approval, folded keys(1)]]
      fromEntries_distinct[OF dist[of has_rollback, folded keys(2)]] by simp_all
  then have sets: "fst ` set (sn_scopeBoundaries (xc_compatibilitySnapshot c)) = ns_id ` {s \<in> set ?steps. has_approval s}"
    "fst ` set (sn_rollbackOrder (xc_compatibilitySnapshot c)) = ns_id ` {s \<in> set ?steps. has_rollback s}"
    by (metis list.set_map set_filter)+
  have hash: "hashExecutionCompatibilityContract lc sha b \<noteq> []" for b
    using assms(1) by (simp add: hashExecutionCompatibilityContract_def hashPayloadDeterministically_def)
  have fields: "xc_executionTruthHash c = ci_executionTruthHash input" "xc_executionCompatibilityHash c \<noteq> []"
    "map apc_stepId (xc_approvalContracts c) = map ns_id (filter has_approval ?steps)"
    "map rbc_stepId (xc_rollbackContracts c) = map ns_id (filter has_rollback ?steps)"
    "sn_executionTruthHash (xc_compatibilitySnapshot c) = ci_executionTruthHash input"
    "sn_planId (xc_compatibilitySnapshot c) = np_planId plan"
    "sn_authorityGraph (xc_compatibilitySnapshot c) = xc_authorityGraph c"
    "sn_escalationGraph (xc_compatibilitySnapshot c) = xc_escalationGraph c"
    by (simp_all add: c bareContract_def Let_def buildCompatibilitySnapshot_def hash approval_ids rollback_ids)
  have "audit_contract (auditInput plan truth c) \<longleftrightarrow>
      (\<forall>k \<in> fst ` set (sn_scopeBoundaries (xc_compatibilitySnapshot c)) \<union>
        fst ` set (sn_rollbackOrder (xc_compatibilitySnapshot c)). \<not> mutable_key k)"
    using truth assms(5) by (simp add: audit_contract_def auditInput_def fields snapshot expects_def del: mset_map)
  then show ?thesis unfolding ready_iff[OF assms(1)] sets by auto
qed

section \<open>What the evidence commits to\<close>

text \<open>The texts whose digests tie an audited plan to its evidence reference.\<close>

definition audited_texts ::
  "(string \<Rightarrow> string \<Rightarrow> int) \<Rightarrow> (string \<Rightarrow> string) \<Rightarrow> ReplayAuditInput \<Rightarrow> string set" where
  "audited_texts lc sha input =
     insert (payload_text (plan_identity_fields (rai_normalizedPlan input)))
       ((\<lambda>s. decoded_text lc (compatibility_snapshot_json s)) ` set_option (rai_compatibilitySnapshot input) \<union>
        (\<lambda>x. payload_text (reference_fields (raa_evidenceReference x))) `
          set_option (rar_artifacts (buildReplayAuditReadiness lc sha input)))"

lemma hash_snapshot:
  "hashReplayInputSnapshot lc sha (compatibility_snapshot_json s) = sha (decoded_text lc (compatibility_snapshot_json s))"
proof -
  obtain kvs where kvs: "compatibility_snapshot_json s = JObj kvs" by (simp add: compatibility_snapshot_json_def)
  obtain ws where ws: "reparse_serialized lc (JObj kvs) = JObj ws" using reparse_serialized_object[of lc kvs] by blast
  show ?thesis
    unfolding hashReplayInputSnapshot_def decoded_text_def kvs ws
    by (simp add: canonicalSerialize_object members_def payload_text_def)
qed

lemma ready_evidence:
  assumes "rar_verdict (buildReplayAuditReadiness lc sha input) = REPLAY_AUDIT_READY"
  obtains s x where "rai_compatibilitySnapshot input = Some s" and "rar_artifacts (buildReplayAuditReadiness lc sha input) = Some x"
    and "rar_evidenceReferenceHash (buildReplayAuditReadiness lc sha input) =
      Some (sha (payload_text (reference_fields (raa_evidenceReference x))))"
    and "per_planId (raa_evidenceReference x) = np_planId (rai_normalizedPlan input)"
    and "per_planHash (raa_evidenceReference x) = sha (payload_text (plan_identity_fields (rai_normalizedPlan input)))"
    and "per_normalizedPlanHash (raa_evidenceReference x) = np_normalizationHash (rai_normalizedPlan input)"
    and "per_executionTruthHash (raa_evidenceReference x) = xc_executionTruthHash (rai_contract input)"
    and "per_executionCompatibilityHash (raa_evidenceReference x) = xc_executionCompatibilityHash (rai_contract input)"
    and "per_compatibilitySnapshotHash (raa_evidenceReference x) = sha (decoded_text lc (compatibility_snapshot_json s))"
    and "per_ledgerEventHashes (raa_evidenceReference x) = map ale_eventHash (raa_ledgerEvents x)"
proof (rule ready_run[OF assms])
  fix s h
  assume s: "rai_compatibilitySnapshot input = Some s" "h = hashReplayInputSnapshot lc sha (compatibility_snapshot_json s)"
    and run: "buildReplayAuditReadiness lc sha input =
      completeAudit lc sha input (derivePlanHash sha (rai_normalizedPlan input))
        (buildCompatibilityHashReference (rai_contract input) h) h []"
  show thesis
    by (rule that[OF s(1), of "the (rar_artifacts (buildReplayAuditReadiness lc sha input))"], unfold run completeAudit_def Let_def buildEvidenceReference_def case_prod_conv)
      (simp_all add: hash_payload derivePlanHash_def buildCompatibilityHashReference_def s(2) hash_snapshot)
qed

lemma text_member:
  "payload_text (plan_identity_fields (rai_normalizedPlan input)) \<in> audited_texts lc sha input"
  "rai_compatibilitySnapshot input = Some s \<Longrightarrow> decoded_text lc (compatibility_snapshot_json s) \<in> audited_texts lc sha input"
  "rar_artifacts (buildReplayAuditReadiness lc sha input) = Some x \<Longrightarrow>
     payload_text (reference_fields (raa_evidenceReference x)) \<in> audited_texts lc sha input"
  by (auto simp: audited_texts_def)

lemma reference_text:
  assumes "payload_text (reference_fields r) = payload_text (reference_fields r')"
  shows "r = r'"
proof -
  have numbers: "wf_numbers (JObj (reference_fields r))" for r by (simp add: reference_fields_def str_arr_def list_all_iff)
  from canon_record[OF payload_text_determines[OF assms numbers numbers, unfolded reference_fields_def]]
  show ?thesis by simp
qed

lemma plan_identity_text:
  assumes "payload_text (plan_identity_fields p) = payload_text (plan_identity_fields q)"
  shows "np_planId p = np_planId q \<and> np_schemaVersion p = np_schemaVersion q \<and> np_goal p = np_goal q \<and>
    map (\<lambda>s. (ns_id s, ns_hash s)) (np_steps p) = map (\<lambda>s. (ns_id s, ns_hash s)) (np_steps q)"
proof -
  have numbers: "wf_numbers (JObj (plan_identity_fields r))" for r
    by (simp add: plan_identity_fields_def str_arr_def list_all_iff)
  from canon_record[OF payload_text_determines[OF assms numbers numbers, unfolded plan_identity_fields_def]]
  have parts: "np_planId p = np_planId q" "np_schemaVersion p = np_schemaVersion q" "np_goal p = np_goal q"
    "map ns_id (np_steps p) = map ns_id (np_steps q)" "map ns_hash (np_steps p) = map ns_hash (np_steps q)" by simp_all
  moreover have "map (\<lambda>s. (ns_id s, ns_hash s)) xs = zip (map ns_id xs) (map ns_hash xs)" for xs :: "NormalizedPlanStep list"
    by (induction xs) simp_all
  ultimately show ?thesis by metis
qed


section \<open>A concrete audit\<close>

definition audited_truth :: ExecutionTruthPackage where
  "audited_truth = blank_truth\<lparr>tp_executionTruthHash := ''t''\<rparr>"

lemma compatible_distinct: "distinct (map ns_id (np_steps compatible_plan))"
  using compatible_plan_contract(1) by (simp add: dependency_contract_def references_ok_def)

lemma compatible_ids: "ns_id ` set (np_steps compatible_plan) = {''a'', ''b''}"
  by (simp add: compatible_plan_def sample_plan_of_def compatible_step_def sample_step_def)

lemma no_mutable_ids: "\<not> mutable_key ''a''" "\<not> mutable_key ''b''"
  by code_simp+

lemma compatible_rollbacks: "rollbackContractsOf (np_steps compatible_plan) = []"
  by code_simp

lemma compatible_snapshot_wf:
  assumes "validateExecutionCompatibility lc sha (compatibilityRequest h compatible_plan truth) = Some (CompatibilityOk c vs)"
  shows "snapshot_wf (xc_compatibilitySnapshot c)"
proof -
  have fe: "distinct (map fst (fromEntries kvs))" for kvs :: "(string \<times> 'v) list"
  proof -
    have "distinct (map fst m) \<Longrightarrow> distinct (map fst (foldl (\<lambda>m (k, v). AList.update k v m) m kvs))" for m
      by (induction kvs arbitrary: m) (auto intro: distinct_update)
    from this[of "[]"] show ?thesis by (simp add: fromEntries_def)
  qed
  show ?thesis
    using compatible_shape[OF assms] fe
    by (auto simp: compatibilityRequest_def bareContract_def Let_def buildCompatibilitySnapshot_def snapshot_wf_def
        compatible_rollbacks fromEntries_def[of "[]"])
qed

text \<open>The audit does not look at what an approval contract says beyond its step.\<close>

definition with_expiry :: "ExecutionCompatibilityContract \<Rightarrow> ExecutionCompatibilityContract" where
  "with_expiry c = c\<lparr>xc_approvalContracts := map (\<lambda>a. a\<lparr>apc_expiresAt := Some ''2030''\<rparr>) (xc_approvalContracts c)\<rparr>"

lemma with_expiry_contract:
  "audit_contract (auditInput plan truth (with_expiry c)) \<longleftrightarrow> audit_contract (auditInput plan truth c)"
  by (simp add: audit_contract_def auditInput_def with_expiry_def multiset.map_comp comp_def)

lemma completeAudit_expiry:
  "completeAudit lc sha (auditInput plan truth (with_expiry c)) p r h fs =
   completeAudit lc sha (auditInput plan truth c) p r h fs"
proof -
  have "buildReplayInputSnapshot (auditInput plan truth (with_expiry c)) p h = buildReplayInputSnapshot (auditInput plan truth c) p h"
    "buildReplayProof (auditInput plan truth (with_expiry c)) x y = buildReplayProof (auditInput plan truth c) x y"
    "rai_normalizedPlan (auditInput plan truth (with_expiry c)) = rai_normalizedPlan (auditInput plan truth c)" for x y
    by (simp_all add: auditInput_def with_expiry_def buildReplayInputSnapshot_def buildReplayProof_def)
  then show ?thesis by (simp only: completeAudit_def)
qed

lemma audit_expiry:
  assumes "\<forall>t. sha t \<noteq> []" and "audit_contract (auditInput plan truth c)"
  shows "buildReplayAuditReadiness lc sha (auditInput plan truth (with_expiry c)) =
    buildReplayAuditReadiness lc sha (auditInput plan truth c)"
proof -
  have run: "buildReplayAuditReadiness lc sha (auditInput plan truth d) =
      (let h = hashReplayInputSnapshot lc sha (compatibility_snapshot_json (xc_compatibilitySnapshot d)) in
       completeAudit lc sha (auditInput plan truth d) (derivePlanHash sha plan) (buildCompatibilityHashReference d h) h [])"
    if "audit_contract (auditInput plan truth d)" for d
  proof (rule ready_run)
    show "rar_verdict (buildReplayAuditReadiness lc sha (auditInput plan truth d)) = REPLAY_AUDIT_READY"
      unfolding ready_iff[OF assms(1)] by (rule that)
  qed (simp add: auditInput_def Let_def)
  have "buildCompatibilityHashReference (with_expiry c) h = buildCompatibilityHashReference c h" for h
    by (simp add: buildCompatibilityHashReference_def with_expiry_def)
  moreover have "xc_compatibilitySnapshot (with_expiry c) = xc_compatibilitySnapshot c" by (simp add: with_expiry_def)
  ultimately show ?thesis using assms(2)
    by (simp only: run with_expiry_contract completeAudit_expiry Let_def)
qed

section \<open>Properties\<close>

text \<open>C16 (audit_ready_exact): for a digest that never gives the empty string, an input is ready for audit exactly when
  its contract names its hashes and carries a snapshot, the hashes agree with the truth package and with
  the ones that are expected, the snapshot is of this plan and of this truth, its keys are the steps with
  approval and rollback contracts, its graphs are those of the contract and none of its step ids contains a
  word that marks mutable data.  The later checks, which compare a hash with its own recomputation, cannot
  fail.\<close>

theorem audit_ready_exact:
  assumes "\<forall>t. sha t \<noteq> []"
  shows "rar_verdict (buildReplayAuditReadiness lc sha input) = REPLAY_AUDIT_READY \<longleftrightarrow> audit_contract input"
  by (rule ready_iff) (rule assms)

text \<open>The contract of a compatible plan with distinct step ids, audited with the truth package
  it was issued for, is ready exactly when no step with an approval or rollback contract has an id that
  contains a word for mutable data, such as result or network.\<close>

lemma compatible_plan_audit:
  assumes "\<forall>t. sha t \<noteq> []" and "validateExecutionCompatibility lc sha input = Some (CompatibilityOk c vs)"
    and "ci_normalizedPlan input = Some plan" and "distinct (map ns_id (np_steps plan))"
    and "tp_executionTruthHash truth = ci_executionTruthHash input"
  shows "rar_verdict (buildReplayAuditReadiness lc sha (auditInput plan truth c)) = REPLAY_AUDIT_READY \<longleftrightarrow>
    (\<forall>s \<in> set (np_steps plan). has_approval s \<or> has_rollback s \<longrightarrow> \<not> mutable_key (ns_id s))"
  by (rule compatible_ready) (fact assms)+

lemma compatible_audited_any:
  assumes "\<forall>t. sha t \<noteq> []"
  obtains c vs where "validateExecutionCompatibility code_unit_compare sha
     (compatibilityRequest ''t'' compatible_plan blank_truth) = Some (CompatibilityOk c vs)"
    and "rar_verdict (buildReplayAuditReadiness code_unit_compare sha (auditInput compatible_plan audited_truth c)) =
      REPLAY_AUDIT_READY"
proof (rule compatible_run_any[OF assms])
  fix c vs
  assume run: "validateExecutionCompatibility code_unit_compare sha
     (compatibilityRequest ''t'' compatible_plan blank_truth) = Some (CompatibilityOk c vs)"
  have "\<forall>s \<in> set (np_steps compatible_plan). \<not> mutable_key (ns_id s)"
    using compatible_ids no_mutable_ids by (metis imageI insertE singletonD)
  with compatible_ready[OF assms run, of compatible_plan audited_truth] compatible_distinct
  have "rar_verdict (buildReplayAuditReadiness code_unit_compare sha
      (auditInput compatible_plan audited_truth c)) = REPLAY_AUDIT_READY"
    by (simp add: compatibilityRequest_def audited_truth_def)
  with run show thesis by (rule that)
qed

lemma compatible_audited:
  obtains c vs where "validateExecutionCompatibility code_unit_compare (\<lambda>t. ''h'')
     (compatibilityRequest ''t'' compatible_plan blank_truth) = Some (CompatibilityOk c vs)"
    and "rar_verdict (buildReplayAuditReadiness code_unit_compare (\<lambda>t. ''h'')
      (auditInput compatible_plan audited_truth c)) = REPLAY_AUDIT_READY"
  by (rule compatible_audited_any[of "\<lambda>t. ''h''"]) (simp, rule that)

theorem audit_ready_exact_witness:
  "\<exists>c. audit_contract (auditInput compatible_plan audited_truth c)"
proof (rule compatible_audited)
  fix c vs
  assume "rar_verdict (buildReplayAuditReadiness code_unit_compare (\<lambda>t. ''h'')
      (auditInput compatible_plan audited_truth c)) = REPLAY_AUDIT_READY"
  then show ?thesis using audit_ready_exact[of "\<lambda>t. ''h''"] by auto
qed

text \<open>C17 (audit_evidence_commits): two ready audits with the same evidence hash are of the same plan identity (id, schema
  version, goal, step ids and step hashes), the same normalization, truth and compatibility hashes, the
  same compatibility snapshot and the same chain of events, unless the digest has a collision among the
  texts of the two audits.\<close>

theorem audit_evidence_commits:
  assumes "rar_verdict (buildReplayAuditReadiness lc sha a) = REPLAY_AUDIT_READY"
    and "rar_verdict (buildReplayAuditReadiness lc sha b) = REPLAY_AUDIT_READY"
    and "rar_evidenceReferenceHash (buildReplayAuditReadiness lc sha a) = rar_evidenceReferenceHash (buildReplayAuditReadiness lc sha b)"
    and "inj_on sha (audited_texts lc sha a \<union> audited_texts lc sha b)"
    and "rai_compatibilitySnapshot a = Some s" and "rai_compatibilitySnapshot b = Some t" and "snapshot_wf s" and "snapshot_wf t"
  shows "same_snapshot s t \<and>
    np_planId (rai_normalizedPlan a) = np_planId (rai_normalizedPlan b) \<and>
    np_schemaVersion (rai_normalizedPlan a) = np_schemaVersion (rai_normalizedPlan b) \<and>
    np_goal (rai_normalizedPlan a) = np_goal (rai_normalizedPlan b) \<and>
    map (\<lambda>s. (ns_id s, ns_hash s)) (np_steps (rai_normalizedPlan a)) =
      map (\<lambda>s. (ns_id s, ns_hash s)) (np_steps (rai_normalizedPlan b)) \<and>
    np_normalizationHash (rai_normalizedPlan a) = np_normalizationHash (rai_normalizedPlan b) \<and>
    xc_executionTruthHash (rai_contract a) = xc_executionTruthHash (rai_contract b) \<and>
    xc_executionCompatibilityHash (rai_contract a) = xc_executionCompatibilityHash (rai_contract b) \<and>
    map_option (\<lambda>x. map ale_eventHash (raa_ledgerEvents x)) (rar_artifacts (buildReplayAuditReadiness lc sha a)) =
      map_option (\<lambda>x. map ale_eventHash (raa_ledgerEvents x)) (rar_artifacts (buildReplayAuditReadiness lc sha b))"
proof -
  note same = inj_onD[OF assms(4)]
  obtain x where x: "rar_artifacts (buildReplayAuditReadiness lc sha a) = Some x"
    and ha: "rar_evidenceReferenceHash (buildReplayAuditReadiness lc sha a) = Some (sha (payload_text (reference_fields (raa_evidenceReference x))))"
    and ea: "per_planHash (raa_evidenceReference x) = sha (payload_text (plan_identity_fields (rai_normalizedPlan a)))"
      "per_normalizedPlanHash (raa_evidenceReference x) = np_normalizationHash (rai_normalizedPlan a)"
      "per_executionTruthHash (raa_evidenceReference x) = xc_executionTruthHash (rai_contract a)"
      "per_executionCompatibilityHash (raa_evidenceReference x) = xc_executionCompatibilityHash (rai_contract a)"
      "per_compatibilitySnapshotHash (raa_evidenceReference x) = sha (decoded_text lc (compatibility_snapshot_json s))"
      "per_ledgerEventHashes (raa_evidenceReference x) = map ale_eventHash (raa_ledgerEvents x)"
    using ready_evidence[OF assms(1)] assms(5) by (metis option.inject)
  obtain y where y: "rar_artifacts (buildReplayAuditReadiness lc sha b) = Some y"
    and hb: "rar_evidenceReferenceHash (buildReplayAuditReadiness lc sha b) = Some (sha (payload_text (reference_fields (raa_evidenceReference y))))"
    and eb: "per_planHash (raa_evidenceReference y) = sha (payload_text (plan_identity_fields (rai_normalizedPlan b)))"
      "per_normalizedPlanHash (raa_evidenceReference y) = np_normalizationHash (rai_normalizedPlan b)"
      "per_executionTruthHash (raa_evidenceReference y) = xc_executionTruthHash (rai_contract b)"
      "per_executionCompatibilityHash (raa_evidenceReference y) = xc_executionCompatibilityHash (rai_contract b)"
      "per_compatibilitySnapshotHash (raa_evidenceReference y) = sha (decoded_text lc (compatibility_snapshot_json t))"
      "per_ledgerEventHashes (raa_evidenceReference y) = map ale_eventHash (raa_ledgerEvents y)"
    using ready_evidence[OF assms(2)] assms(6) by (metis option.inject)
  have eq: "raa_evidenceReference x = raa_evidenceReference y"
    using same[of "payload_text (reference_fields (raa_evidenceReference x))" "payload_text (reference_fields (raa_evidenceReference y))"]
      assms(3) ha hb text_member(3)[OF x] text_member(3)[OF y] by (intro reference_text) simp
  have "payload_text (plan_identity_fields (rai_normalizedPlan a)) = payload_text (plan_identity_fields (rai_normalizedPlan b))"
    using same ea(1) eb(1) eq text_member(1) by (metis UnI1 UnI2)
  note plan = plan_identity_text[OF this]
  have "decoded_text lc (compatibility_snapshot_json s) = decoded_text lc (compatibility_snapshot_json t)"
    using same ea(5) eb(5) eq text_member(2)[OF assms(5)] text_member(2)[OF assms(6)] by (metis UnI1 UnI2)
  from decoded_text_determines[OF this[unfolded compatibility_snapshot_json_def]]
  have "decoded lc (compatibility_snapshot_json s) = decoded lc (compatibility_snapshot_json t)"
    using snapshot_numbers assms(7,8) by (simp only: compatibility_snapshot_json_def)
  from decoded_snapshot[OF this assms(7,8)] plan ea eb eq x y show ?thesis by simp
qed


theorem audit_evidence_commits_witness:
  "\<exists>c. audit_contract (auditInput compatible_plan audited_truth (with_expiry c)) \<and>
     same_snapshot (xc_compatibilitySnapshot c) (xc_compatibilitySnapshot (with_expiry c))"
proof (rule compatible_audited)
  fix c vs
  let ?sha = "\<lambda>t. CHR ''h'' # t"
  assume run: "validateExecutionCompatibility code_unit_compare (\<lambda>t. ''h'')
     (compatibilityRequest ''t'' compatible_plan blank_truth) = Some (CompatibilityOk c vs)"
    and "rar_verdict (buildReplayAuditReadiness code_unit_compare (\<lambda>t. ''h'')
      (auditInput compatible_plan audited_truth c)) = REPLAY_AUDIT_READY"
  then have ready: "audit_contract (auditInput compatible_plan audited_truth c)" using ready_iff[of "\<lambda>t. ''h''"] by simp
  note wf = compatible_snapshot_wf[OF run]
  have sha: "\<forall>t. ?sha t \<noteq> []" "inj_on ?sha T" for T by (simp_all add: inj_on_def)
  have snapshot: "xc_compatibilitySnapshot (with_expiry c) = xc_compatibilitySnapshot c" by (simp add: with_expiry_def)
  have "same_snapshot (xc_compatibilitySnapshot c) (xc_compatibilitySnapshot (with_expiry c))"
  proof (rule audit_evidence_commits[THEN conjunct1])
    show "rar_verdict (buildReplayAuditReadiness code_unit_compare ?sha (auditInput compatible_plan audited_truth c)) = REPLAY_AUDIT_READY"
      "rar_verdict (buildReplayAuditReadiness code_unit_compare ?sha (auditInput compatible_plan audited_truth (with_expiry c))) = REPLAY_AUDIT_READY"
      unfolding ready_iff[OF sha(1)] with_expiry_contract by (rule ready)+
  qed (simp_all only: audit_expiry[OF sha(1) ready] sha(2) snapshot wf, simp_all add: auditInput_def snapshot)
  with ready with_expiry_contract show ?thesis by auto
qed

end
