(* ===== verification/AuditPipeline.thy ===== *)
theory AuditPipeline
  imports Pipeline ReplayAuditProperties
begin

text \<open>
  The ids of a normalized plan are made of digits, dashes, the word step and a prefix of a digest, so the
  scan of the replay audit for mutable fields never stops a plan that comes from normalization.
\<close>

lemma contains_set: "contains pat s \<Longrightarrow> set pat \<subseteq> set s"
proof (induction s)
  case Nil
  then show ?case by (subst (asm) contains.simps) (simp add: eq_commute)
next
  case (Cons c s)
  then show ?case by (subst (asm) contains.simps) (metis in_set_takeD list.simps(5) set_subset_Cons subset_iff)
qed

text \<open>Every word the scan looks for has one of these three letters.\<close>

lemma no_mutable_letters:
  assumes "set (map lower_char s) \<inter> {CHR ''i'', CHR ''n'', CHR ''r''} = {}"
  shows "\<not> mutable_key s"
proof -
  have "\<not> contains pat (map lower_char s)" if "set pat \<inter> {CHR ''i'', CHR ''n'', CHR ''r''} \<noteq> {}" for pat
    using contains_set[of pat "map lower_char s"] assms that by blast
  moreover have "map lower_char s \<noteq> ''session''" using assms by auto
  ultimately show ?thesis by (simp add: mutable_key_def Let_def)
qed

definition hex_chars :: "char set" where
  "hex_chars = set ''0123456789abcdef''"

definition hex_digest :: "(string \<Rightarrow> string) \<Rightarrow> bool" where
  "hex_digest sha \<longleftrightarrow> (\<forall>t. sha t \<noteq> [] \<and> set (sha t) \<subseteq> hex_chars)"

lemma lower_digit: "is_digit c \<Longrightarrow> lower_char c = c"
  by (simp add: is_digit_def lower_char_def Let_def)

definition word_letters :: "char set" where
  "word_letters = {CHR ''i'', CHR ''n'', CHR ''r''}"

lemma image_avoids: "S \<subseteq> C \<Longrightarrow> \<forall>c \<in> C. f c = c \<and> c \<notin> W \<Longrightarrow> f ` S \<inter> W = {}"
  by auto

lemma canonical_id_letters:
  assumes "hex_digest sha"
  shows "\<not> mutable_key (canonicalStepId sha p i x)"
proof (rule no_mutable_letters)
  let ?h = "hashPayloadDeterministically sha [(''planId'', JStr p), (''sourceId'', JStr x)]"
  have "set ?h \<subseteq> hex_chars" using assms by (simp add: hex_digest_def hashPayloadDeterministically_def)
  then have part: "set (take 8 ?h) \<subseteq> hex_chars" by (rule subset_trans[OF set_take_subset])
  have "\<forall>c \<in> hex_chars. lower_char c = c \<and> c \<notin> word_letters"
    unfolding word_letters_def hex_chars_def by code_simp
  then have hash: "lower_char ` set (take 8 ?h) \<inter> word_letters = {}" by (rule image_avoids[OF part])
  have "all_digits (nat_str (i + 1))" using nat_str_digits by blast
  then have digits: "set (padStart3 (nat_str (i + 1))) \<subseteq> {c. is_digit c}" by (auto simp: padStart3_def all_digits_def)
  have "\<forall>c \<in> {c. is_digit c}. lower_char c = c \<and> c \<notin> word_letters"
    using lower_digit by (auto simp: word_letters_def is_digit_def)
  then have index: "lower_char ` set (padStart3 (nat_str (i + 1))) \<inter> word_letters = {}" by (rule image_avoids[OF digits])
  have static: "lower_char ` set ''step-'' \<inter> word_letters = {}" "lower_char ` set ''-'' \<inter> word_letters = {}"
    unfolding word_letters_def by code_simp+
  show "set (map lower_char (canonicalStepId sha p i x)) \<inter> {CHR ''i'', CHR ''n'', CHR ''r''} = {}"
    unfolding word_letters_def[symmetric] canonicalStepId_def set_map set_append image_Un
    by (simp only: Int_Un_distrib2 hash index static Un_empty_right)
qed

lemma ids_of_values: "map_of (ids_of sha plan) k = Some v \<Longrightarrow> v \<in> set (canonical_ids sha (cp_planId plan) 0 (cp_steps plan))"
proof -
  have "v \<in> set vs \<union> ran (map_of m)" if "map_of (foldl (\<lambda>m (k, v). AList.update k v m) m (zip ks vs)) k = Some v"
    for ks vs m
    using that
  proof (induction ks arbitrary: vs m)
    case (Cons a ks)
    show ?case
    proof (cases vs)
      case Nil
      then show ?thesis using Cons.prems by (auto intro: ranI)
    next
      case more: (Cons b bs)
      then have "v \<in> set bs \<union> ran (map_of (AList.update a b m))" using Cons by simp
      then show ?thesis using more by (auto simp: update_conv' ran_def split: if_splits)
    qed
  qed (auto intro: ranI)
  from this[of "[]"] show "map_of (ids_of sha plan) k = Some v \<Longrightarrow> v \<in> set (canonical_ids sha (cp_planId plan) 0 (cp_steps plan))"
    by (simp add: ids_of_def)
qed

lemma normalized_ids_not_mutable:
  assumes "hex_digest sha" and "s \<in> set (stepsOf sha plan)"
  shows "\<not> mutable_key (ns_id s)"
proof -
  from assms(2) obtain k where k: "k < length (cp_steps plan)" "s = stepsOf sha plan ! k" by (metis in_set_conv_nth length_stepsOf)
  then have id: "ns_id s = js_default [] (map_of (ids_of sha plan) (cs_stepId (cp_steps plan ! k)))"
    by (simp add: nth_stepsOf canonicalOf_def)
  have "\<not> mutable_key []" by code_simp
  moreover have "\<not> mutable_key v" if "v \<in> set (canonical_ids sha p 0 ss)" for v p ss
    using that canonical_id_letters[OF assms(1)] by (auto simp: in_set_conv_nth nth_canonical_ids)
  ultimately show ?thesis
    unfolding id by (cases "map_of (ids_of sha plan) (cs_stepId (cp_steps plan ! k))") (auto dest: ids_of_values)
qed

section \<open>A plan that passes both\<close>

definition gate_step :: CanonicalPlanStep where
  "gate_step = (authored_step ''a'' [])\<lparr>cs_approvalRequired := False,
     cs_action := \<lparr>sa_tool = ''tool'', sa_operation = ''preflight_check'',
       sa_parameters = sample_inputs [(''compatibility'', JObj [(''approval'', JObj [(''required'', JBool True)])])]\<rparr>\<rparr>"

definition auditable_plan :: CanonicalPlan where
  "auditable_plan = authored_plan\<lparr>cp_steps := [gate_step]\<rparr>"

definition auditable_input :: NormalizePlanInput where
  "auditable_input = authored_input
     \<lparr>ni_validatedPlan := auditable_plan,
      ni_replaySnapshot := authored_snapshot\<lparr>rs_authoredStepOrder := [''a''], rs_dependencyMap := [(''a'', [])]\<rparr>,
      ni_validationResult := (ni_validationResult authored_input)
        \<lparr>vr_evidence := authored_evidence\<lparr>ev_normalizedPlan := auditable_plan,
           ev_replaySnapshot := authored_snapshot\<lparr>rs_authoredStepOrder := [''a''], rs_dependencyMap := [(''a'', [])]\<rparr>\<rparr>\<rparr>\<rparr>"

lemma auditable_agree: "inputs_agree auditable_input"
  by (simp add: inputs_agree_def auditable_input_def authored_input_def authored_evidence_def authored_snapshot_def
      auditable_plan_def gate_step_def authored_plan_def authored_step_def sameJson_def)

lemma test_hash: "hashPayloadDeterministically test_sha kvs = ''0123456789abcdef0123''"
  by (simp add: hashPayloadDeterministically_def test_sha_def)

definition gate_normalized :: NormalizedPlan where
  "gate_normalized =
     \<lparr>np_schemaVersion = ''1.0.0'', np_normalizationVersion = ''4.2C'', np_planId = ''p'', np_goal = ''goal'',
      np_validatedGraphHash = ''gh'', np_validationHash = ''vh'', np_normalizationHash = ''0123456789abcdef0123'',
      np_replayHash = ''0123456789abcdef0123'',
      np_steps =
        [\<lparr>ns_id = ''step-001-01234567'', ns_sourceId = Some ''a'', ns_index = 0, ns_title = Some ''t'',
          ns_intent = Some ''preflight_check'', ns_type = ''analyze'', ns_action = action_json (cs_action gate_step),
          ns_inputs = sa_parameters (cs_action gate_step), ns_outputs = [], ns_dependencies = [], ns_constraints = [],
          ns_approvalMode = ApprovalOPTIONAL, ns_retryMode = RetryNEVER, ns_executionMode = ExecSERIAL,
          ns_autonomyLevel = AutonomyNONE, ns_containmentLevel = ContainSTRICT, ns_hash = ''0123456789abcdef0123''\<rparr>],
      np_metadata = \<lparr>pm_plannerVersion = ''1'', pm_generatedBy = ''planner'', pm_createdAt = ''2026-01-01T00:00:00.000Z'',
        pm_extensions = []\<rparr>,
      np_evidenceRef = ''evidence:0123456789abcdef''\<rparr>"

lemma digit_one: "digit_char (Suc 0) = CHR ''1''"
  by code_simp

lemma auditable_value: "normalizedPlanOf code_unit_compare test_sha auditable_input = gate_normalized"
  by (simp add: gate_normalized_def normalizedPlanOf_def unhashedPlan_def normalizePlanRoot_def normalizePlanMetadata_def
      normalizedHashes_def computeNormalizationHashes_def evidenceRefOf_def test_hash stepsOf_def ids_of_def
      canonicalStepId_def padStart3_def nat_str.simps digit_one numeral_2_eq_2 auditable_input_def auditable_plan_def
      gate_step_def authored_plan_def authored_step_def authored_input_def normalizedStepOf_def step_type_str.simps Let_def)

lemma gate_errors: "dependencyErrors code_unit_compare gate_normalized = Some (Some [''step-001-01234567''], [])"
  by code_simp

lemma gate_violations: "compatibilityViolations gate_normalized (buildDependencyGraph gate_normalized) = Some []"
  by code_simp

lemma compatible_contract:
  assumes "validateExecutionCompatibility lc sha (compatibilityRequest h plan truth) = Some (CompatibilityOk c vs)"
  shows "dependency_contract plan"
proof -
  have "sd_ok dv \<Longrightarrow> dependency_contract plan" if "validateSequentialDependencies lc sha (PlanValue plan) = Some dv" for dv
    using accepts_iff[of lc sha plan] that by blast
  with assms show ?thesis
    by (auto simp: validateExecutionCompatibility_def compatibilityRequest_def resolveDependencyValidation_def
        split: Option.bind_splits if_splits)
qed

lemma normalized_ready:
  assumes "orchestratePlanNormalization lc sha input = Inr s" and "hex_digest sha"
    and "validateExecutionCompatibility lc sha (compatibilityRequest (tp_executionTruthHash truth) (ps_normalizedPlan s) truth) =
      Some (CompatibilityOk c vs)"
  shows "rar_verdict (buildReplayAuditReadiness lc sha (auditInput (ps_normalizedPlan s) truth c)) = REPLAY_AUDIT_READY"
proof -
  have steps: "np_steps (ps_normalizedPlan s) = stepsOf sha (ni_validatedPlan input)"
    using orchestrate_dest(2)[OF assms(1)] by simp
  have "distinct (map ns_id (np_steps (ps_normalizedPlan s)))"
    using compatible_contract[OF assms(3)] by (simp add: dependency_contract_def references_ok_def)
  moreover have "\<forall>t. sha t \<noteq> []" using assms(2) by (simp add: hex_digest_def)
  moreover have "\<forall>step \<in> set (np_steps (ps_normalizedPlan s)). \<not> mutable_key (ns_id step)"
    unfolding steps using normalized_ids_not_mutable[OF assms(2)] by blast
  ultimately show ?thesis
    using compatible_ready[OF _ assms(3), of "ps_normalizedPlan s" truth] by (simp add: compatibilityRequest_def)
qed

lemma gate_run:
  obtains s c vs where "orchestratePlanNormalization code_unit_compare test_sha auditable_input = Inr s"
    and "validateExecutionCompatibility code_unit_compare test_sha
      (compatibilityRequest (tp_executionTruthHash audited_truth) (ps_normalizedPlan s) audited_truth) = Some (CompatibilityOk c vs)"
proof -
  obtain s where s: "orchestratePlanNormalization code_unit_compare test_sha auditable_input = Inr s"
    using orchestrate_ok[OF auditable_agree] by blast
  then have plan: "ps_normalizedPlan s = gate_normalized"
    using orchestrate_dest(2)[OF s] by (simp only: auditable_value)
  obtain dv where dv: "validateSequentialDependencies code_unit_compare test_sha (PlanValue gate_normalized) = Some dv" "sd_ok dv"
    by (simp add: validate_plan_value gate_errors)
  have "\<not> no_fingerprint dv"
    using fresh_validation[OF dv(1)] dv(2) by (simp add: createDependencyGraphFingerprint_def test_hash)
  from validate_request[OF dv this _ gate_violations, of "tp_executionTruthHash audited_truth" audited_truth, unfolded outcome_Nil]
  show thesis by (intro that[OF s]) (simp add: plan audited_truth_def)
qed

lemma test_hex: "hex_digest test_sha"
  by (auto simp: hex_digest_def hex_chars_def test_sha_def)

end
