(* ===== verification/Versioning.thy ===== *)
theory Versioning
  imports ReplayAudit
begin

text \<open>
  \<open>services/planning/versioning\<close>: an audited plan becomes a versioned artifact that is migrated along
  registered steps to a target schema version.  The content hasher with its domains, the schema registry, the
  resolution of the migration chain, the engine that applies it (\<open>migrateVersionedArtifact\<close>, for any list of
  steps), the governance assessment, the proof and events, and their composition
  (\<open>buildVersionedReplayReadiness\<close>).  An exception is the result \<open>None\<close>.
\<close>

section \<open>Types\<close>

datatype CompatibilityLevel = IDENTICAL | FORWARD_COMPATIBLE | REQUIRES_MIGRATION | INCOMPATIBLE

fun compatibility_level_str :: "CompatibilityLevel \<Rightarrow> string" where
  "compatibility_level_str IDENTICAL = ''IDENTICAL''"
| "compatibility_level_str FORWARD_COMPATIBLE = ''FORWARD_COMPATIBLE''"
| "compatibility_level_str REQUIRES_MIGRATION = ''REQUIRES_MIGRATION''"
| "compatibility_level_str INCOMPATIBLE = ''INCOMPATIBLE''"

datatype HashDomain =
    PLAN | NODE | EDGE | APPROVAL | GOVERNANCE | EXECUTION_SCOPE | REPLAY_CONTEXT | EVIDENCE_BUNDLE
  | MIGRATION_LINEAGE | TOOL_REGISTRY | REPLAY_BINDING | TOOL_CAPABILITY | TOOL_CAPABILITY_AUDIT

fun domain_str :: "HashDomain \<Rightarrow> string" where
  "domain_str PLAN = ''PLAN''"
| "domain_str NODE = ''NODE''"
| "domain_str EDGE = ''EDGE''"
| "domain_str APPROVAL = ''APPROVAL''"
| "domain_str GOVERNANCE = ''GOVERNANCE''"
| "domain_str EXECUTION_SCOPE = ''EXECUTION_SCOPE''"
| "domain_str REPLAY_CONTEXT = ''REPLAY_CONTEXT''"
| "domain_str EVIDENCE_BUNDLE = ''EVIDENCE_BUNDLE''"
| "domain_str MIGRATION_LINEAGE = ''MIGRATION_LINEAGE''"
| "domain_str TOOL_REGISTRY = ''TOOL_REGISTRY''"
| "domain_str REPLAY_BINDING = ''REPLAY_BINDING''"
| "domain_str TOOL_CAPABILITY = ''TOOL_CAPABILITY''"
| "domain_str TOOL_CAPABILITY_AUDIT = ''TOOL_CAPABILITY_AUDIT''"

datatype ApprovalImpactState = PRESERVED | REQUIRES_REVIEW | INVALIDATED | EXPIRED

fun impact_str :: "ApprovalImpactState \<Rightarrow> string" where
  "impact_str PRESERVED = ''PRESERVED''"
| "impact_str REQUIRES_REVIEW = ''REQUIRES_REVIEW''"
| "impact_str INVALIDATED = ''INVALIDATED''"
| "impact_str EXPIRED = ''EXPIRED''"

datatype VersioningFailureCode =
    VERSION_UNSUPPORTED
  | SCHEMA_REGISTRY_MISSING
  | MIGRATION_CHAIN_INVALID
  | MIGRATION_STEP_UNSUPPORTED
  | MIGRATION_OUTPUT_INVALID
  | HASH_LINEAGE_MISMATCH
  | REPLAY_COMPATIBILITY_FAILED
  | GOVERNANCE_MIGRATION_BLOCKED
  | APPROVAL_INVALIDATED
  | HASH_CANONICALIZATION_FAILED
  | HASH_SCOPE_INVALID

record SchemaRegistryEntry =
  sre_artifactType :: string
  sre_version :: string
  sre_compatibilityLevel :: CompatibilityLevel
  sre_schemaHash :: string
  sre_deprecated :: bool
  sre_migrationTargets :: "string list"

record ReplayLineageInvariant =
  rli_originalExecutionTruthHash :: string
  rli_originalExecutionCompatibilityHash :: string
  rli_replaySnapshotHash :: string
  rli_migrationLineageHashes :: "string list"

record ImmutableReplayIdentityRoot =
  irr_executionTruthHash :: string
  irr_executionCompatibilityHash :: string
  irr_initialReplaySnapshotHash :: string
  irr_canonicalOriginVersion :: string

record MigrationProof =
  mip_sourceHash :: string
  mip_targetHash :: string
  mip_migrationChain :: "string list"
  mip_replayCompatibilityResult :: string
  mip_governanceImpact :: string
  mip_proofHash :: string

record MigrationLineageEntry =
  mle_fromVersion :: string
  mle_toVersion :: string
  mle_lineageHash :: string

record VersioningAuditEvent =
  vae_eventVersion :: string
  vae_eventType :: string
  vae_planId :: string
  vae_payloadHash :: string
  vae_eventHash :: string
  vae_payload :: js_record

record VersionedReplayArtifact =
  vra_artifactType :: string
  vra_version :: string
  vra_replayAuditResult :: ReplayAuditResult
  vra_executionCompatibilityContract :: ExecutionCompatibilityContract
  vra_immutableReplayIdentityRoot :: ImmutableReplayIdentityRoot
  vra_replayLineageInvariant :: ReplayLineageInvariant
  vra_migrationLineage :: "MigrationLineageEntry list"
  vra_approvalImpact :: ApprovalImpactState
  vra_governanceImpact :: ApprovalImpactState
  vra_schemaHash :: string
  vra_contentHash :: string

record DeterministicMigrationResult =
  dmr_ok :: bool
  dmr_output :: "VersionedReplayArtifact option"
  dmr_errorCode :: "VersioningFailureCode option"
  dmr_message :: "string option"

record MigrationStep =
  mst_fromVersion :: string
  mst_toVersion :: string
  mst_migrate :: "VersionedReplayArtifact \<Rightarrow> DeterministicMigrationResult option"

record VersioningBuildInput =
  vbi_replayAuditResult :: ReplayAuditResult
  vbi_executionCompatibilityContract :: ExecutionCompatibilityContract
  vbi_targetVersion :: "string option"

record VersioningFailure =
  vef_code :: VersioningFailureCode
  vef_message :: string
  vef_path :: "string option"

record VersionedReplayReadinessResult =
  vrr_ok :: bool
  vrr_artifact :: "VersionedReplayArtifact option"
  vrr_migrationProof :: "MigrationProof option"
  vrr_auditEvents :: "VersioningAuditEvent list option"
  vrr_failures :: "VersioningFailure list"

definition createVersioningFailure :: "VersioningFailureCode \<Rightarrow> string \<Rightarrow> string option \<Rightarrow> VersioningFailure" where
  "createVersioningFailure code message path = \<lparr>vef_code = code, vef_message = message, vef_path = path\<rparr>"

definition versioning_failure_if ::
  "bool \<Rightarrow> VersioningFailureCode \<Rightarrow> string \<Rightarrow> string \<Rightarrow> VersioningFailure list" where
  "versioning_failure_if failed code message path =
     (if failed then [createVersioningFailure code message (Some path)] else [])"

section \<open>The content hasher\<close>

text \<open>
  An \<open>undefined\<close> anywhere in the value throws.  The strings of the model are made of the characters
  up to \<open>U+00FF\<close>, each of which is its own NFC form, so \<open>normalize("NFC")\<close> leaves them as they are.
\<close>

fun normalizeUnicode :: "(string \<Rightarrow> string \<Rightarrow> int) \<Rightarrow> json \<Rightarrow> json option" where
  "normalizeUnicode lc (JStr s) = Some (JStr s)"
| "normalizeUnicode lc (JArr vs) = map_option JArr (those (map (normalizeUnicode lc) vs))"
| "normalizeUnicode lc (JObj kvs) =
     map_option (\<lambda>kws. JObj (assign_entries kws))
       (those (map (\<lambda>(k, r). map_option (Pair k) r)
         (js_sort (cmp_on fst lc) (map (\<lambda>(k, v). (k, normalizeUnicode lc v)) kvs))))"
| "normalizeUnicode lc JUndef = None"
| "normalizeUnicode lc JNull = Some JNull"
| "normalizeUnicode lc (JBool b) = Some (JBool b)"
| "normalizeUnicode lc (JNum x) = Some (JNum x)"

definition hashStableContent ::
  "(string \<Rightarrow> string \<Rightarrow> int) \<Rightarrow> (string \<Rightarrow> string) \<Rightarrow> HashDomain \<Rightarrow> json \<Rightarrow> string option" where
  "hashStableContent lc sha area v =
     map_option (\<lambda>w. sha (domain_str area @ CHR 0x0A # js_default [] (serializeDeterministically lc w)))
       (normalizeUnicode lc v)"

section \<open>The schema registry\<close>

definition descriptor_json :: "string \<Rightarrow> CompatibilityLevel \<Rightarrow> bool \<Rightarrow> string list \<Rightarrow> json" where
  "descriptor_json version level deprecated targets = JObj
     [(''artifactType'', JStr ''replay-audit-result''), (''version'', JStr version),
      (''compatibilityLevel'', JStr (compatibility_level_str level)), (''deprecated'', JBool deprecated),
      (''migrationTargets'', str_arr targets)]"

text \<open>No value of a descriptor is \<open>undefined\<close>, so its hash exists (\<open>descriptor_hash\<close>).\<close>

definition createEntry ::
  "(string \<Rightarrow> string \<Rightarrow> int) \<Rightarrow> (string \<Rightarrow> string) \<Rightarrow> string \<Rightarrow> CompatibilityLevel \<Rightarrow> bool \<Rightarrow> string list
   \<Rightarrow> SchemaRegistryEntry" where
  "createEntry lc sha version level deprecated targets =
     \<lparr>sre_artifactType = ''replay-audit-result'', sre_version = version, sre_compatibilityLevel = level,
      sre_schemaHash =
        js_default [] (hashStableContent lc sha EVIDENCE_BUNDLE (descriptor_json version level deprecated targets)),
      sre_deprecated = deprecated, sre_migrationTargets = targets\<rparr>"

definition REGISTRY :: "(string \<Rightarrow> string \<Rightarrow> int) \<Rightarrow> (string \<Rightarrow> string) \<Rightarrow> SchemaRegistryEntry list" where
  "REGISTRY lc sha =
     [createEntry lc sha ''4.2H'' REQUIRES_MIGRATION False [''4.2H.1''],
      createEntry lc sha ''4.2H.1'' REQUIRES_MIGRATION False [''4.2I''],
      createEntry lc sha ''4.2I'' IDENTICAL False []]"

definition getSchemaRegistryEntry ::
  "(string \<Rightarrow> string \<Rightarrow> int) \<Rightarrow> (string \<Rightarrow> string) \<Rightarrow> string \<Rightarrow> SchemaRegistryEntry option" where
  "getSchemaRegistryEntry lc sha version = find (\<lambda>entry. sre_version entry = version) (REGISTRY lc sha)"

section \<open>Identity root and lineage\<close>

definition buildImmutableReplayIdentityRoot ::
  "ReplayAuditResult \<Rightarrow> ExecutionCompatibilityContract \<Rightarrow> ImmutableReplayIdentityRoot" where
  "buildImmutableReplayIdentityRoot audit contract =
     \<lparr>irr_executionTruthHash = xc_executionTruthHash contract,
      irr_executionCompatibilityHash = xc_executionCompatibilityHash contract,
      irr_initialReplaySnapshotHash = js_default [] (rar_replaySnapshotHash audit),
      irr_canonicalOriginVersion = js_default ''4.2H''
        (map_option (\<lambda>artifacts. ris_snapshotVersion (raa_replayInputSnapshot artifacts)) (rar_artifacts audit))\<rparr>"

definition buildReplayLineageInvariant ::
  "ImmutableReplayIdentityRoot \<Rightarrow> MigrationLineageEntry list \<Rightarrow> ReplayLineageInvariant" where
  "buildReplayLineageInvariant root migrationLineage =
     \<lparr>rli_originalExecutionTruthHash = irr_executionTruthHash root,
      rli_originalExecutionCompatibilityHash = irr_executionCompatibilityHash root,
      rli_replaySnapshotHash = irr_initialReplaySnapshotHash root,
      rli_migrationLineageHashes = map mle_lineageHash migrationLineage\<rparr>"

definition root_json :: "ImmutableReplayIdentityRoot \<Rightarrow> json" where
  "root_json r = JObj
     [(''executionTruthHash'', JStr (irr_executionTruthHash r)),
      (''executionCompatibilityHash'', JStr (irr_executionCompatibilityHash r)),
      (''initialReplaySnapshotHash'', JStr (irr_initialReplaySnapshotHash r)),
      (''canonicalOriginVersion'', JStr (irr_canonicalOriginVersion r))]"

definition lineage_invariant_json :: "ReplayLineageInvariant \<Rightarrow> json" where
  "lineage_invariant_json i = JObj
     [(''originalExecutionTruthHash'', JStr (rli_originalExecutionTruthHash i)),
      (''originalExecutionCompatibilityHash'', JStr (rli_originalExecutionCompatibilityHash i)),
      (''replaySnapshotHash'', JStr (rli_replaySnapshotHash i)),
      (''migrationLineageHashes'', str_arr (rli_migrationLineageHashes i))]"

definition lineage_json :: "MigrationLineageEntry list \<Rightarrow> json" where
  "lineage_json es = JArr (map (\<lambda>e. JObj
     [(''fromVersion'', JStr (mle_fromVersion e)), (''toVersion'', JStr (mle_toVersion e)),
      (''lineageHash'', JStr (mle_lineageHash e))]) es)"

section \<open>The registered migrations\<close>

definition success :: "VersionedReplayArtifact \<Rightarrow> DeterministicMigrationResult" where
  "success output = \<lparr>dmr_ok = True, dmr_output = Some output, dmr_errorCode = None, dmr_message = None\<rparr>"

definition bumped_json :: "VersionedReplayArtifact \<Rightarrow> json" where
  "bumped_json a = JObj
     [(''version'', JStr (vra_version a)),
      (''immutableReplayIdentityRoot'', root_json (vra_immutableReplayIdentityRoot a)),
      (''replayLineageInvariant'', lineage_invariant_json (vra_replayLineageInvariant a)),
      (''approvalImpact'', JStr (impact_str (vra_approvalImpact a))),
      (''governanceImpact'', JStr (impact_str (vra_governanceImpact a))),
      (''replayAuditAnchors'', JObj
         [(''executionTruthHash'', opt_json JStr (rar_executionTruthHash (vra_replayAuditResult a))),
          (''executionCompatibilityHash'', opt_json JStr (rar_executionCompatibilityHash (vra_replayAuditResult a))),
          (''replaySnapshotHash'', opt_json JStr (rar_replaySnapshotHash (vra_replayAuditResult a)))])]"

definition bumpVersion ::
  "(string \<Rightarrow> string \<Rightarrow> int) \<Rightarrow> (string \<Rightarrow> string) \<Rightarrow> VersionedReplayArtifact \<Rightarrow> string
   \<Rightarrow> VersionedReplayArtifact option" where
  "bumpVersion lc sha input toVersion =
     (let migrated = input\<lparr>vra_version := toVersion\<rparr> in
      map_option (\<lambda>h. migrated\<lparr>vra_contentHash := h\<rparr>) (hashStableContent lc sha PLAN (bumped_json migrated)))"

definition MIGRATIONS :: "(string \<Rightarrow> string \<Rightarrow> int) \<Rightarrow> (string \<Rightarrow> string) \<Rightarrow> MigrationStep list" where
  "MIGRATIONS lc sha =
     [\<lparr>mst_fromVersion = ''4.2H'', mst_toVersion = ''4.2H.1'',
       mst_migrate = (\<lambda>input. map_option success (bumpVersion lc sha input ''4.2H.1''))\<rparr>,
      \<lparr>mst_fromVersion = ''4.2H.1'', mst_toVersion = ''4.2I'',
       mst_migrate = (\<lambda>input. map_option success (bumpVersion lc sha input ''4.2I''))\<rparr>]"

definition getMigrationSteps :: "(string \<Rightarrow> string \<Rightarrow> int) \<Rightarrow> (string \<Rightarrow> string) \<Rightarrow> MigrationStep list" where
  "getMigrationSteps lc sha = MIGRATIONS lc sha"

section \<open>The migration engine\<close>

text \<open>The loop of \<open>resolveMigrationChain\<close>; \<open>visited\<close> is the set of the versions left.\<close>

function (sequential) walkChain ::
  "MigrationStep list \<Rightarrow> string \<Rightarrow> string \<Rightarrow> string list \<Rightarrow> MigrationStep list
   \<Rightarrow> VersioningFailure list + MigrationStep list" where
  "walkChain steps toVersion current visited chain =
     (if current = toVersion then Inr chain
      else if current \<in> set visited
      then Inl [createVersioningFailure MIGRATION_CHAIN_INVALID (''Migration loop detected at '' @ current @ ''.'')
        (Some ''migrationChain'')]
      else case find (\<lambda>step. mst_fromVersion step = current) steps of
             None \<Rightarrow> Inl [createVersioningFailure MIGRATION_STEP_UNSUPPORTED
               (''No migration step found from '' @ current @ '' to '' @ toVersion @ ''.'') (Some ''migrationChain'')]
           | Some next_step \<Rightarrow>
               walkChain steps toVersion (mst_toVersion next_step) (set_add current visited) (chain @ [next_step]))"
  by pat_completeness auto

text \<open>Every round adds a version some step starts from.\<close>

definition unvisited :: "MigrationStep list \<Rightarrow> string list \<Rightarrow> nat" where
  "unvisited steps visited = card (mst_fromVersion ` set steps - set visited)"

lemma unvisited_decreases:
  assumes "find (\<lambda>step. mst_fromVersion step = current) steps = Some step" and "current \<notin> set visited"
  shows "unvisited steps (set_add current visited) < unvisited steps visited"
  unfolding unvisited_def set_set_add
proof (rule psubset_card_mono)
  have "step \<in> set steps" "mst_fromVersion step = current" using assms(1) by (auto simp: find_Some_iff)
  then have "current \<in> mst_fromVersion ` set steps" by blast
  then show "mst_fromVersion ` set steps - insert current (set visited) \<subset> mst_fromVersion ` set steps - set visited"
    using assms(2) by blast
qed simp

termination walkChain
  by (relation "measure (\<lambda>(steps, t, c, visited, ch). unvisited steps visited)") (auto intro: unvisited_decreases)

declare walkChain.simps [simp del]

definition resolveMigrationChain ::
  "string \<Rightarrow> string \<Rightarrow> MigrationStep list \<Rightarrow> VersioningFailure list + MigrationStep list" where
  "resolveMigrationChain fromVersion toVersion steps =
     (if fromVersion = toVersion then Inr [] else walkChain steps toVersion fromVersion [] [])"

definition lineage_payload :: "MigrationStep \<Rightarrow> string \<Rightarrow> string \<Rightarrow> json" where
  "lineage_payload step sourceHash targetHash = JObj
     [(''fromVersion'', JStr (mst_fromVersion step)), (''toVersion'', JStr (mst_toVersion step)),
      (''sourceHash'', JStr sourceHash), (''targetHash'', JStr targetHash)]"

text \<open>The three hashes of the identity root that a step may not change.\<close>

definition anchors :: "VersionedReplayArtifact \<Rightarrow> string \<times> string \<times> string" where
  "anchors a = (let root = vra_immutableReplayIdentityRoot a in
     (irr_executionTruthHash root, irr_executionCompatibilityHash root, irr_initialReplaySnapshotHash root))"

fun applyMigrations ::
  "(string \<Rightarrow> string \<Rightarrow> int) \<Rightarrow> (string \<Rightarrow> string) \<Rightarrow> VersionedReplayArtifact \<Rightarrow> MigrationLineageEntry list
   \<Rightarrow> MigrationStep list \<Rightarrow> (VersioningFailure list + VersionedReplayArtifact \<times> MigrationLineageEntry list) option" where
  "applyMigrations lc sha current lineage [] = Some (Inr (current, lineage))"
| "applyMigrations lc sha current lineage (step # rest) =
     (case mst_migrate step current of
        None \<Rightarrow> None
      | Some migrated \<Rightarrow>
          case (if dmr_ok migrated then dmr_output migrated else None) of
            None \<Rightarrow> Some (Inl [createVersioningFailure (js_default MIGRATION_OUTPUT_INVALID (dmr_errorCode migrated))
              (js_default ''Migration failed.'' (dmr_message migrated)) (Some ''migration'')])
          | Some output \<Rightarrow>
              if anchors output \<noteq> anchors current
              then Some (Inl [createVersioningFailure HASH_LINEAGE_MISMATCH
                ''Migration changed immutable replay identity anchors.'' (Some ''immutableReplayIdentityRoot'')])
              else case hashStableContent lc sha MIGRATION_LINEAGE
                          (lineage_payload step (vra_contentHash current) (vra_contentHash output)) of
                     None \<Rightarrow> None
                   | Some lineageHash \<Rightarrow>
                       let entry = \<lparr>mle_fromVersion = mst_fromVersion step, mle_toVersion = mst_toVersion step,
                                    mle_lineageHash = lineageHash\<rparr>
                       in applyMigrations lc sha
                            (output\<lparr>vra_migrationLineage := vra_migrationLineage current @ [entry]\<rparr>)
                            (lineage @ [entry]) rest)"

definition registryMissing :: "VersioningFailure list" where
  "registryMissing = [createVersioningFailure SCHEMA_REGISTRY_MISSING
     ''Schema registry entry missing for source or target version.'' (Some ''schemaRegistry'')]"

definition migrateVersionedArtifact ::
  "(string \<Rightarrow> string \<Rightarrow> int) \<Rightarrow> (string \<Rightarrow> string) \<Rightarrow> VersionedReplayArtifact \<Rightarrow> string \<Rightarrow> MigrationStep list
   \<Rightarrow> (VersioningFailure list + VersionedReplayArtifact \<times> MigrationLineageEntry list) option" where
  "migrateVersionedArtifact lc sha artifact targetVersion steps =
     (if getSchemaRegistryEntry lc sha (vra_version artifact) = None \<or> getSchemaRegistryEntry lc sha targetVersion = None
      then Some (Inl registryMissing)
      else case resolveMigrationChain (vra_version artifact) targetVersion steps of
             Inl failures \<Rightarrow> Some (Inl failures)
           | Inr chain \<Rightarrow> applyMigrations lc sha artifact [] chain)"

section \<open>Governance of a migration\<close>

text \<open>An approval contract as \<open>JSON.stringify\<close> writes it, in the order of its construction.\<close>

definition approval_surface_json :: "ApprovalContract \<Rightarrow> json" where
  "approval_surface_json c = JObj
     [(''stepId'', JStr (apc_stepId c)), (''required'', JBool (apc_required c)),
      (''requiredRole'', opt_json JStr (apc_requiredRole c)), (''expiresAt'', opt_json JStr (apc_expiresAt c)),
      (''scope'', scope_json (apc_scope c))]"

definition hashApprovalSurface :: "ExecutionCompatibilityContract \<Rightarrow> string option" where
  "hashApprovalSurface contract = json_text (JArr (map approval_surface_json (xc_approvalContracts contract)))"

definition hashRollbackSurface :: "ExecutionCompatibilityContract \<Rightarrow> string option" where
  "hashRollbackSurface contract = json_text (JArr (map rollback_contract_json (xc_rollbackContracts contract)))"

definition scope_surface :: "ExecutionCompatibilityContract \<Rightarrow> string option" where
  "scope_surface contract =
     json_text (JObj (map (\<lambda>(k, v). (k, scope_json v)) (sn_scopeBoundaries (xc_compatibilitySnapshot contract))))"

definition assessGovernanceMigrationImpact ::
  "ExecutionCompatibilityContract \<Rightarrow> ExecutionCompatibilityContract
   \<Rightarrow> ApprovalImpactState \<times> ApprovalImpactState \<times> VersioningFailure list" where
  "assessGovernanceMigrationImpact source target =
     (let approvalImpact = (if hashApprovalSurface source = hashApprovalSurface target then PRESERVED else INVALIDATED);
          governanceImpact =
            (if hashRollbackSurface source = hashRollbackSurface target \<and> scope_surface source = scope_surface target
             then PRESERVED else REQUIRES_REVIEW)
      in (approvalImpact, governanceImpact,
          versioning_failure_if (approvalImpact = INVALIDATED) APPROVAL_INVALIDATED
            ''Migration changed approval semantics.'' ''approvalContracts'' @
          versioning_failure_if (governanceImpact \<noteq> PRESERVED) GOVERNANCE_MIGRATION_BLOCKED
            ''Migration introduced governance-sensitive changes.'' ''compatibilitySnapshot''))"

definition validateLineagePreservation :: "VersionedReplayArtifact \<Rightarrow> VersioningFailure list" where
  "validateLineagePreservation artifact =
     (let root = vra_immutableReplayIdentityRoot artifact; inv = vra_replayLineageInvariant artifact in
      versioning_failure_if (irr_executionTruthHash root \<noteq> rli_originalExecutionTruthHash inv) HASH_LINEAGE_MISMATCH
        ''Execution truth lineage drift detected.'' ''replayLineageInvariant.originalExecutionTruthHash'' @
      versioning_failure_if (irr_executionCompatibilityHash root \<noteq> rli_originalExecutionCompatibilityHash inv)
        HASH_LINEAGE_MISMATCH ''Execution compatibility lineage drift detected.''
        ''replayLineageInvariant.originalExecutionCompatibilityHash'' @
      versioning_failure_if (irr_initialReplaySnapshotHash root \<noteq> rli_replaySnapshotHash inv)
        REPLAY_COMPATIBILITY_FAILED ''Replay snapshot lineage drift detected.''
        ''replayLineageInvariant.replaySnapshotHash'')"

section \<open>Proof and events\<close>

definition proof_core_json :: "string \<Rightarrow> string \<Rightarrow> string list \<Rightarrow> string \<Rightarrow> string \<Rightarrow> json" where
  "proof_core_json sourceHash targetHash chain compatibility governance = JObj
     [(''sourceHash'', JStr sourceHash), (''targetHash'', JStr targetHash), (''migrationChain'', str_arr chain),
      (''replayCompatibilityResult'', JStr compatibility), (''governanceImpact'', JStr governance)]"

definition buildMigrationProof ::
  "(string \<Rightarrow> string \<Rightarrow> int) \<Rightarrow> (string \<Rightarrow> string) \<Rightarrow> VersionedReplayArtifact \<Rightarrow> VersionedReplayArtifact
   \<Rightarrow> MigrationProof option" where
  "buildMigrationProof lc sha source target =
     (let chain = map (\<lambda>e. mle_fromVersion e @ ''->'' @ mle_toVersion e) (vra_migrationLineage target);
          compatibility =
            (if irr_initialReplaySnapshotHash (vra_immutableReplayIdentityRoot source) =
                irr_initialReplaySnapshotHash (vra_immutableReplayIdentityRoot target)
             then ''PRESERVED'' else ''BROKEN'');
          governance = impact_str (vra_governanceImpact target)
      in map_option (\<lambda>h.
           \<lparr>mip_sourceHash = vra_contentHash source, mip_targetHash = vra_contentHash target, mip_migrationChain = chain,
            mip_replayCompatibilityResult = compatibility, mip_governanceImpact = governance, mip_proofHash = h\<rparr>)
         (hashStableContent lc sha MIGRATION_LINEAGE
           (proof_core_json (vra_contentHash source) (vra_contentHash target) chain compatibility governance)))"

definition VERSIONING_EVENT_TYPES :: "string list" where
  "VERSIONING_EVENT_TYPES =
     [''plan.versioning.registry.validated'', ''plan.versioning.migration.applied'', ''plan.versioning.proof.generated'']"

definition versioning_payloads :: "VersionedReplayArtifact \<Rightarrow> MigrationProof \<Rightarrow> js_record list" where
  "versioning_payloads artifact p =
     [[(''version'', JStr (vra_version artifact)), (''contentHash'', JStr (vra_contentHash artifact)),
       (''schemaHash'', JStr (vra_schemaHash artifact))],
      [(''migrationLineage'', lineage_json (vra_migrationLineage artifact)),
       (''replayLineageInvariant'', lineage_invariant_json (vra_replayLineageInvariant artifact))],
      [(''proofHash'', JStr (mip_proofHash p)), (''governanceImpact'', JStr (mip_governanceImpact p)),
       (''replayCompatibilityResult'', JStr (mip_replayCompatibilityResult p))]]"

definition versioning_event_fields :: "string \<Rightarrow> string \<Rightarrow> string \<Rightarrow> js_record \<Rightarrow> js_record" where
  "versioning_event_fields eventType planId payloadHash payload =
     [(''eventVersion'', JStr ''4.2I''), (''eventType'', JStr eventType), (''planId'', JStr planId),
      (''payloadHash'', JStr payloadHash), (''payload'', JObj payload)]"

definition versioningEvent ::
  "(string \<Rightarrow> string \<Rightarrow> int) \<Rightarrow> (string \<Rightarrow> string) \<Rightarrow> string \<Rightarrow> string \<times> js_record \<Rightarrow> VersioningAuditEvent option" where
  "versioningEvent lc sha planId = (\<lambda>(eventType, payload).
     do {
       payloadHash \<leftarrow> hashStableContent lc sha EVIDENCE_BUNDLE (JObj payload);
       eventHash \<leftarrow> hashStableContent lc sha EVIDENCE_BUNDLE
         (JObj (versioning_event_fields eventType planId payloadHash payload));
       Some \<lparr>vae_eventVersion = ''4.2I'', vae_eventType = eventType, vae_planId = planId, vae_payloadHash = payloadHash,
             vae_eventHash = eventHash, vae_payload = payload\<rparr>
     })"

definition buildMigrationAuditEvents ::
  "(string \<Rightarrow> string \<Rightarrow> int) \<Rightarrow> (string \<Rightarrow> string) \<Rightarrow> VersionedReplayArtifact \<Rightarrow> MigrationProof
   \<Rightarrow> VersioningAuditEvent list option" where
  "buildMigrationAuditEvents lc sha artifact p =
     those (map (versioningEvent lc sha (rar_planId (vra_replayAuditResult artifact)))
       (zip VERSIONING_EVENT_TYPES (versioning_payloads artifact p)))"

section \<open>The readiness of a versioned plan\<close>

definition source_content_json :: "string \<Rightarrow> ImmutableReplayIdentityRoot \<Rightarrow> ReplayAuditResult \<Rightarrow> json" where
  "source_content_json sourceVersion root audit = JObj
     [(''sourceVersion'', JStr sourceVersion), (''executionTruthHash'', JStr (irr_executionTruthHash root)),
      (''executionCompatibilityHash'', JStr (irr_executionCompatibilityHash root)),
      (''replaySnapshotHash'', JStr (irr_initialReplaySnapshotHash root)),
      (''replayProofHash'', opt_json JStr (rar_replayProofHash audit)),
      (''auditArtifactHash'', opt_json JStr (rar_auditArtifactHash audit)),
      (''evidenceReferenceHash'', opt_json JStr (rar_evidenceReferenceHash audit))]"

definition buildSourceArtifact ::
  "(string \<Rightarrow> string \<Rightarrow> int) \<Rightarrow> (string \<Rightarrow> string) \<Rightarrow> VersioningBuildInput \<Rightarrow> VersionedReplayArtifact option" where
  "buildSourceArtifact lc sha input =
     (let audit = vbi_replayAuditResult input;
          root = buildImmutableReplayIdentityRoot audit (vbi_executionCompatibilityContract input);
          sourceVersion = js_default ''4.2H''
            (map_option (\<lambda>artifacts. ris_snapshotVersion (raa_replayInputSnapshot artifacts)) (rar_artifacts audit))
      in do {
        schemaHash \<leftarrow> (case getSchemaRegistryEntry lc sha sourceVersion of
            Some entry \<Rightarrow> Some (sre_schemaHash entry)
          | None \<Rightarrow> hashStableContent lc sha GOVERNANCE (JObj
              [(''sourceVersion'', JStr sourceVersion), (''artifactType'', JStr ''replay-audit-result'')]));
        contentHash \<leftarrow> hashStableContent lc sha PLAN (source_content_json sourceVersion root audit);
        Some \<lparr>vra_artifactType = ''replay-audit-result'', vra_version = sourceVersion, vra_replayAuditResult = audit,
              vra_executionCompatibilityContract = vbi_executionCompatibilityContract input,
              vra_immutableReplayIdentityRoot = root,
              vra_replayLineageInvariant = buildReplayLineageInvariant root [], vra_migrationLineage = [],
              vra_approvalImpact = PRESERVED, vra_governanceImpact = PRESERVED, vra_schemaHash = schemaHash,
              vra_contentHash = contentHash\<rparr>
      })"

text \<open>What is compared before a ready audit (with its \<open>artifacts\<close>) is migrated.\<close>

definition sourceFailures ::
  "(string \<Rightarrow> string \<Rightarrow> int) \<Rightarrow> (string \<Rightarrow> string) \<Rightarrow> ReplayAuditResult \<Rightarrow> ExecutionCompatibilityContract \<Rightarrow> ReplayAuditArtifacts
   \<Rightarrow> VersioningFailure list" where
  "sourceFailures lc sha audit contract artifacts =
     (let reference = raa_compatibilityReference artifacts;
          replaySnapshotHash = hashReplayInputSnapshot lc sha (input_snapshot_json (raa_replayInputSnapshot artifacts))
      in
       versioning_failure_if
         (hashExecutionCompatibilityContract lc sha contract \<noteq> xc_executionCompatibilityHash contract)
         HASH_LINEAGE_MISMATCH ''Execution compatibility contract hash drift detected before migration.''
         ''executionCompatibilityContract.executionCompatibilityHash'' @
       versioning_failure_if (rar_executionCompatibilityHash audit \<noteq> Some (xc_executionCompatibilityHash contract))
         REPLAY_COMPATIBILITY_FAILED ''Replay audit result does not preserve the execution compatibility hash.''
         ''replayAuditResult.executionCompatibilityHash'' @
       versioning_failure_if (rar_executionTruthHash audit \<noteq> Some (xc_executionTruthHash contract))
         REPLAY_COMPATIBILITY_FAILED ''Replay audit result does not preserve the execution truth hash.''
         ''replayAuditResult.executionTruthHash'' @
       versioning_failure_if (rcr_executionCompatibilityHash reference \<noteq> xc_executionCompatibilityHash contract)
         HASH_LINEAGE_MISMATCH ''Compatibility reference diverged from the execution compatibility contract hash.''
         ''replayAuditResult.artifacts.compatibilityReference.executionCompatibilityHash'' @
       versioning_failure_if (rcr_executionTruthHash reference \<noteq> xc_executionTruthHash contract)
         HASH_LINEAGE_MISMATCH ''Compatibility reference diverged from the execution truth hash.''
         ''replayAuditResult.artifacts.compatibilityReference.executionTruthHash'' @
       versioning_failure_if
         (Some replaySnapshotHash \<noteq> rar_replaySnapshotHash audit \<or> replaySnapshotHash \<noteq> raa_replaySnapshotHash artifacts)
         REPLAY_COMPATIBILITY_FAILED ''Replay snapshot hash drift detected before migration.''
         ''replayAuditResult.replaySnapshotHash'')"

definition blockedReadiness :: "VersioningFailure list \<Rightarrow> VersionedReplayReadinessResult" where
  "blockedReadiness failures =
     \<lparr>vrr_ok = False, vrr_artifact = None, vrr_migrationProof = None, vrr_auditEvents = None, vrr_failures = failures\<rparr>"

text \<open>From the migrated artifact on: assessment, lineage, proof and events.\<close>

definition completeReadiness ::
  "(string \<Rightarrow> string \<Rightarrow> int) \<Rightarrow> (string \<Rightarrow> string) \<Rightarrow> VersionedReplayArtifact \<Rightarrow> VersionedReplayArtifact
   \<Rightarrow> MigrationLineageEntry list \<Rightarrow> VersionedReplayReadinessResult option" where
  "completeReadiness lc sha source migrated lineage =
     (let (approvalImpact, governanceImpact, governanceFailures) =
            assessGovernanceMigrationImpact (vra_executionCompatibilityContract source)
              (vra_executionCompatibilityContract migrated);
          artifact = migrated
            \<lparr>vra_replayLineageInvariant := buildReplayLineageInvariant (vra_immutableReplayIdentityRoot source) lineage,
             vra_approvalImpact := approvalImpact, vra_governanceImpact := governanceImpact\<rparr>;
          failures = governanceFailures @ validateLineagePreservation artifact
      in do {
        p \<leftarrow> buildMigrationProof lc sha source artifact;
        events \<leftarrow> buildMigrationAuditEvents lc sha artifact p;
        Some \<lparr>vrr_ok = (failures = []), vrr_artifact = Some artifact, vrr_migrationProof = Some p,
              vrr_auditEvents = Some events, vrr_failures = failures\<rparr>
      })"

definition buildVersionedReplayReadiness ::
  "(string \<Rightarrow> string \<Rightarrow> int) \<Rightarrow> (string \<Rightarrow> string) \<Rightarrow> VersioningBuildInput \<Rightarrow> VersionedReplayReadinessResult option" where
  "buildVersionedReplayReadiness lc sha input =
     (let audit = vbi_replayAuditResult input; contract = vbi_executionCompatibilityContract input in
      case (if rar_verdict audit = REPLAY_AUDIT_READY then rar_artifacts audit else None) of
        None \<Rightarrow> Some (blockedReadiness [createVersioningFailure REPLAY_COMPATIBILITY_FAILED
          ''Phase 4.2I requires a ready 4.2H replay/audit artifact.'' (Some ''replayAuditResult'')])
      | Some artifacts \<Rightarrow>
          let failures = sourceFailures lc sha audit contract artifacts in
          if failures \<noteq> [] then Some (blockedReadiness failures)
          else do {
            source \<leftarrow> buildSourceArtifact lc sha input;
            let targetVersion = js_default ''4.2I'' (vbi_targetVersion input);
            case (getSchemaRegistryEntry lc sha (vra_version source), getSchemaRegistryEntry lc sha targetVersion) of
              (Some sourceEntry, Some targetEntry) \<Rightarrow>
                if sre_deprecated sourceEntry \<or> sre_deprecated targetEntry
                then Some (blockedReadiness [createVersioningFailure VERSION_UNSUPPORTED
                  ''Deprecated schema versions are blocked.'' (Some ''schemaRegistry'')])
                else do {
                  migrated \<leftarrow> migrateVersionedArtifact lc sha source targetVersion (getMigrationSteps lc sha);
                  (case migrated of
                     Inl failures \<Rightarrow> Some (blockedReadiness failures)
                   | Inr (artifact, lineage) \<Rightarrow> completeReadiness lc sha source artifact lineage)
                }
            | _ \<Rightarrow> Some (blockedReadiness registryMissing)
          })"

end
