(* ===== verification/Simulation.thy ===== *)
theory Simulation
  imports Versioning
begin

text \<open>
  \<open>services/planning/simulation\<close>: what a versioned plan would do, predicted without doing it.  The adapter
  registry, the side-effect guard, the lineage check, the rollback projection, the governance bridge, the trace
  and their composition (\<open>orchestrateSimulation\<close>, \<open>buildSimulationReadiness\<close>).  An exception is the
  result \<open>None\<close>.
\<close>

section \<open>Types\<close>

datatype SimulationStatus = SimSuccess | SimBlocked | SimPartial | SimFailed

datatype SimulationFailureCode =
    SIMULATION_LINEAGE_MISSING
  | SIMULATION_LINEAGE_DIVERGENCE
  | SIMULATION_SIDE_EFFECT_DETECTED
  | SIMULATION_UNSUPPORTED_TOOL
  | SIMULATION_REPLAY_PROJECTION_INVALID
  | SIMULATION_DERIVATION_MISMATCH
  | SIMULATION_GOVERNANCE_BLOCK
  | SIMULATION_ROLLBACK_INVALID
  | SIMULATION_ENVIRONMENT_DRIFT

datatype SimulationMode = ModeDryRun | ModeSimulation

fun mode_str :: "SimulationMode \<Rightarrow> string" where
  "mode_str ModeDryRun = ''dry-run''"
| "mode_str ModeSimulation = ''simulation''"

fun risk_level_str :: "RiskLevel \<Rightarrow> string" where
  "risk_level_str R0_SAFE = ''R0_SAFE''"
| "risk_level_str R1_LOW = ''R1_LOW''"
| "risk_level_str R2_MODERATE = ''R2_MODERATE''"
| "risk_level_str R3_ELEVATED = ''R3_ELEVATED''"
| "risk_level_str R4_HIGH = ''R4_HIGH''"
| "risk_level_str R5_CRITICAL = ''R5_CRITICAL''"
| "risk_level_str R6_FORBIDDEN = ''R6_FORBIDDEN''"

record SimulationLineageContext =
  slc_executionTruthHash :: string
  slc_executionCompatibilityHash :: string
  slc_replaySnapshotHash :: string
  slc_replayIdentityRoot :: string
  slc_migrationLineage :: "string list"

text \<open>The level of a risk is a risk level by its type in the truth package; its source is a constant.\<close>

record SimulationRisk =
  srk_stepId :: string
  srk_level :: string
  srk_reasons :: "string list"
  srk_source :: string

text \<open>A category is whatever string the inputs of the step name.\<close>

record BlockedSimulationOperation =
  bso_stepId :: string
  bso_toolId :: string
  bso_category :: string
  bso_reason :: string

record SimulationFailure =
  sif_code :: SimulationFailureCode
  sif_message :: string
  sif_path :: "string option"

datatype SimulationWarningCode = SIMULATION_BLOCKED_OPERATION | SIMULATION_GOVERNANCE_WARNING

record SimulationWarning =
  siw_code :: SimulationWarningCode
  siw_message :: string

datatype StepOutcome = StepPredicted | StepBlocked

fun outcome_str :: "StepOutcome \<Rightarrow> string" where
  "outcome_str StepPredicted = ''predicted''"
| "outcome_str StepBlocked = ''blocked''"

record SimulationStepResult =
  ssr_stepId :: string
  ssr_toolId :: string
  ssr_operation :: string
  ssr_order :: int
  ssr_status :: StepOutcome
  ssr_approvalRequired :: bool
  ssr_rollbackProjected :: bool
  ssr_lineageRef :: SimulationLineageContext
  ssr_reason :: "string option"

record SimulationResult =
  smr_simulationId :: string
  smr_status :: SimulationStatus
  smr_planHash :: string
  smr_executionTruthHash :: string
  smr_executionCompatibilityHash :: string
  smr_replaySnapshotHash :: string
  smr_replayIdentityRoot :: string
  smr_derivedSimulationHash :: string
  smr_predictedSteps :: "SimulationStepResult list"
  smr_predictedRisks :: "SimulationRisk list"
  smr_blockedOperations :: "BlockedSimulationOperation list"
  smr_failures :: "SimulationFailure list"
  smr_createdAt :: string

record SimulationReadiness =
  smd_ready :: bool
  smd_failures :: "SimulationFailure list"
  smd_warnings :: "SimulationWarning list"
  smd_lineage :: SimulationLineageContext
  smd_derivedSimulationHash :: string

record SimulationAdapterContract =
  sac_toolId :: string
  sac_supportsSimulation :: bool
  sac_supportsDryRun :: bool
  sac_sideEffectFree :: bool

record SimulationAdapterRegistry =
  sar_adapters :: "(string \<times> SimulationAdapterContract) list"

record SimulationBuildInput =
  sbi_normalizedPlan :: NormalizedPlan
  sbi_executionTruthPackage :: ExecutionTruthPackage
  sbi_executionCompatibilityContract :: ExecutionCompatibilityContract
  sbi_versionedReplayArtifact :: VersionedReplayArtifact
  sbi_mode :: "SimulationMode option"
  sbi_adapterRegistry :: "SimulationAdapterRegistry option"

record RollbackProjection =
  rpj_stepId :: string
  rpj_available :: bool
  rpj_required :: bool
  rpj_reason :: "string option"

definition createSimulationFailure :: "SimulationFailureCode \<Rightarrow> string \<Rightarrow> string option \<Rightarrow> SimulationFailure" where
  "createSimulationFailure code message path = \<lparr>sif_code = code, sif_message = message, sif_path = path\<rparr>"

definition simulation_failure_if ::
  "bool \<Rightarrow> SimulationFailureCode \<Rightarrow> string \<Rightarrow> string \<Rightarrow> SimulationFailure list" where
  "simulation_failure_if failed code message path =
     (if failed then [createSimulationFailure code message (Some path)] else [])"

section \<open>Adapters and side effects\<close>

definition default_adapter :: "string \<Rightarrow> string \<times> SimulationAdapterContract" where
  "default_adapter tool = (tool,
     \<lparr>sac_toolId = tool, sac_supportsSimulation = True, sac_supportsDryRun = True, sac_sideEffectFree = True\<rparr>)"

definition DEFAULT_ADAPTERS :: "(string \<times> SimulationAdapterContract) list" where
  "DEFAULT_ADAPTERS = map default_adapter [''read_file'', ''inspect_runtime'', ''planner'']"

definition createSimulationAdapterRegistry :: "(string \<times> SimulationAdapterContract) list \<Rightarrow> SimulationAdapterRegistry" where
  "createSimulationAdapterRegistry adapters = \<lparr>sar_adapters = adapters\<rparr>"

text \<open>
  A tool named like a property that every object inherits is found as that property, which has no
  \<open>supportsSimulation\<close>; the trace treats it exactly as no adapter at all, which is what it is here.
\<close>

definition resolveSimulationAdapter :: "SimulationAdapterRegistry \<Rightarrow> string \<Rightarrow> SimulationAdapterContract option" where
  "resolveSimulationAdapter registry toolId = map_of (sar_adapters registry) toolId"

definition readSideEffectCategories :: "NormalizedPlanStep \<Rightarrow> string list" where
  "readSideEffectCategories step =
     js_default [] (readStringArray (prop_get (obj_get (ns_inputs step) ''simulation'') ''sideEffectCategories''))"

definition guardSimulationSideEffects ::
  "NormalizedPlanStep \<Rightarrow> SimulationAdapterContract \<Rightarrow> SimulationFailure list \<times> BlockedSimulationOperation list" where
  "guardSimulationSideEffects step adapter =
     (let categories = readSideEffectCategories step; tool = sac_toolId adapter; unsafe = \<not> sac_sideEffectFree adapter in
      (simulation_failure_if unsafe SIMULATION_SIDE_EFFECT_DETECTED
         (''Adapter '' @ tool @ '' is not marked side-effect-free for simulation.'')
         (''steps.'' @ ns_id step @ ''.action.tool'') @
       map (\<lambda>category. createSimulationFailure SIMULATION_SIDE_EFFECT_DETECTED
           (''Simulation blocked a side-effect category: '' @ category @ ''.'')
           (Some (''steps.'' @ ns_id step @ ''.inputs.simulation.sideEffectCategories''))) categories,
       (if unsafe
        then [\<lparr>bso_stepId = ns_id step, bso_toolId = tool, bso_category = ''execution-start'',
               bso_reason = ''Adapter '' @ tool @ '' is not side-effect-free.''\<rparr>]
        else []) @
       map (\<lambda>category. \<lparr>bso_stepId = ns_id step, bso_toolId = tool, bso_category = category,
           bso_reason = ''Blocked side-effect category '' @ category @ ''.''\<rparr>) categories))"

section \<open>Lineage\<close>

text \<open>No value of an identity root is \<open>undefined\<close>, so its hash exists.\<close>

definition buildSimulationLineageContext ::
  "(string \<Rightarrow> string \<Rightarrow> int) \<Rightarrow> (string \<Rightarrow> string) \<Rightarrow> VersionedReplayArtifact \<Rightarrow> SimulationLineageContext" where
  "buildSimulationLineageContext lc sha artifact =
     (let root = vra_immutableReplayIdentityRoot artifact in
      \<lparr>slc_executionTruthHash = irr_executionTruthHash root,
       slc_executionCompatibilityHash = irr_executionCompatibilityHash root,
       slc_replaySnapshotHash = irr_initialReplaySnapshotHash root,
       slc_replayIdentityRoot = js_default [] (hashStableContent lc sha MIGRATION_LINEAGE (root_json root)),
       slc_migrationLineage = rli_migrationLineageHashes (vra_replayLineageInvariant artifact)\<rparr>)"

definition missingLineage :: "SimulationBuildInput \<Rightarrow> SimulationFailure list" where
  "missingLineage input =
     simulation_failure_if (tp_executionTruthHash (sbi_executionTruthPackage input) = []) SIMULATION_LINEAGE_MISSING
       ''Execution truth hash is required for simulation.'' ''executionTruthPackage.executionTruthHash'' @
     simulation_failure_if (xc_executionCompatibilityHash (sbi_executionCompatibilityContract input) = [])
       SIMULATION_LINEAGE_MISSING ''Execution compatibility hash is required for simulation.''
       ''executionCompatibilityContract.executionCompatibilityHash'' @
     simulation_failure_if
       (js_default [] (rar_replaySnapshotHash (vra_replayAuditResult (sbi_versionedReplayArtifact input))) = [])
       SIMULATION_LINEAGE_MISSING ''Replay snapshot hash is required for simulation.''
       ''versionedReplayArtifact.replayAuditResult.replaySnapshotHash''"

text \<open>The root and the invariant the artifact should have, compared as their JSON texts.\<close>

definition rootDivergence :: "SimulationBuildInput \<Rightarrow> SimulationFailure list" where
  "rootDivergence input =
     (let artifact = sbi_versionedReplayArtifact input;
          expectedRoot = buildImmutableReplayIdentityRoot (vra_replayAuditResult artifact)
            (sbi_executionCompatibilityContract input);
          expectedInvariant = buildReplayLineageInvariant expectedRoot (vra_migrationLineage artifact)
      in
       simulation_failure_if (json_text (root_json expectedRoot) \<noteq> json_text (root_json (vra_immutableReplayIdentityRoot artifact)))
         SIMULATION_LINEAGE_DIVERGENCE ''Simulation detected a replay identity root mismatch.''
         ''versionedReplayArtifact.immutableReplayIdentityRoot'' @
       simulation_failure_if
         (json_text (lineage_invariant_json expectedInvariant) \<noteq>
          json_text (lineage_invariant_json (vra_replayLineageInvariant artifact)))
         SIMULATION_LINEAGE_DIVERGENCE ''Simulation detected replay lineage invariant drift.''
         ''versionedReplayArtifact.replayLineageInvariant'')"

definition anchorDivergence ::
  "(string \<Rightarrow> string \<Rightarrow> int) \<Rightarrow> (string \<Rightarrow> string) \<Rightarrow> SimulationBuildInput \<Rightarrow> SimulationFailure list" where
  "anchorDivergence lc sha input =
     (let artifact = sbi_versionedReplayArtifact input; audit = vra_replayAuditResult artifact;
          lineageContext = buildSimulationLineageContext lc sha artifact;
          truthHash = tp_executionTruthHash (sbi_executionTruthPackage input);
          compatibilityHash = xc_executionCompatibilityHash (sbi_executionCompatibilityContract input)
      in
       simulation_failure_if (slc_executionTruthHash lineageContext \<noteq> truthHash) SIMULATION_LINEAGE_DIVERGENCE
         ''Simulation execution truth hash diverged from the lineage anchor.'' ''executionTruthPackage.executionTruthHash'' @
       simulation_failure_if (slc_executionCompatibilityHash lineageContext \<noteq> compatibilityHash) SIMULATION_LINEAGE_DIVERGENCE
         ''Simulation execution compatibility hash diverged from the lineage anchor.''
         ''executionCompatibilityContract.executionCompatibilityHash'' @
       simulation_failure_if (Some (slc_replaySnapshotHash lineageContext) \<noteq> rar_replaySnapshotHash audit)
         SIMULATION_LINEAGE_DIVERGENCE ''Simulation replay snapshot hash diverged from the lineage anchor.''
         ''versionedReplayArtifact.replayAuditResult.replaySnapshotHash'' @
       simulation_failure_if
         (rar_executionTruthHash audit \<noteq> Some truthHash \<or> rar_executionCompatibilityHash audit \<noteq> Some compatibilityHash)
         SIMULATION_LINEAGE_DIVERGENCE ''Replay audit artifact does not preserve upstream truth hashes for simulation.''
         ''versionedReplayArtifact.replayAuditResult'')"

definition planDivergence :: "ReplayAuditResult \<Rightarrow> SimulationFailure list" where
  "planDivergence audit =
     (case rar_artifacts audit of
        None \<Rightarrow> []
      | Some artifacts \<Rightarrow>
          simulation_failure_if (rar_planHash audit \<noteq> ris_planHash (raa_replayInputSnapshot artifacts))
            SIMULATION_LINEAGE_DIVERGENCE ''Replay audit plan hash diverged from the replay snapshot anchor.''
            ''versionedReplayArtifact.replayAuditResult.planHash'' @
          simulation_failure_if (rar_planHash audit \<noteq> paa_planHash (raa_auditArtifact artifacts))
            SIMULATION_LINEAGE_DIVERGENCE ''Replay audit plan hash diverged from the audit artifact anchor.''
            ''versionedReplayArtifact.replayAuditResult.artifacts.auditArtifact.planHash'')"

text \<open>The migration lineage is a list by its type, so the check that it is an array never fails.\<close>

definition validateSimulationLineage ::
  "(string \<Rightarrow> string \<Rightarrow> int) \<Rightarrow> (string \<Rightarrow> string) \<Rightarrow> SimulationBuildInput \<Rightarrow> SimulationFailure list" where
  "validateSimulationLineage lc sha input =
     (let artifact = sbi_versionedReplayArtifact input in
      missingLineage input @
      map (\<lambda>failure. createSimulationFailure SIMULATION_LINEAGE_DIVERGENCE (vef_message failure) (vef_path failure))
        (validateLineagePreservation artifact) @
      rootDivergence input @ anchorDivergence lc sha input @ planDivergence (vra_replayAuditResult artifact))"

section \<open>Rollback\<close>

definition requiresRollback :: "NormalizedPlanStep \<Rightarrow> bool" where
  "requiresRollback step \<longleftrightarrow>
     js_truthy (obj_get (ns_inputs step) ''isDestructive'') \<or> js_truthy (obj_get (ns_inputs step) ''hasExternalSideEffect'')"

definition has_strategy :: "RollbackContract \<Rightarrow> bool" where
  "has_strategy contract \<longleftrightarrow> js_default [] (rbc_rollbackStrategy contract) \<noteq> []"

definition no_projection :: "RollbackContract \<Rightarrow> bool" where
  "no_projection contract \<longleftrightarrow> rbc_required contract \<and> \<not> has_strategy contract \<and> \<not> rbc_checkpointRequired contract"

text \<open>One step: its projection and its failures.\<close>

definition projectRollback ::
  "(string \<rightharpoonup> RollbackContract) \<Rightarrow> NormalizedPlanStep \<Rightarrow> RollbackProjection \<times> SimulationFailure list" where
  "projectRollback contracts step =
     (case contracts (ns_id step) of
        None \<Rightarrow>
          if requiresRollback step
          then (\<lparr>rpj_stepId = ns_id step, rpj_available = False, rpj_required = True,
                 rpj_reason = Some ''Rollback metadata missing.''\<rparr>,
                [createSimulationFailure SIMULATION_ROLLBACK_INVALID
                   (''Step '' @ ns_id step @ '' requires rollback metadata for simulation projection.'')
                   (Some (''steps.'' @ ns_id step @ ''.inputs.compatibility.rollback''))])
          else (\<lparr>rpj_stepId = ns_id step, rpj_available = False, rpj_required = False, rpj_reason = None\<rparr>, [])
      | Some contract \<Rightarrow>
          (\<lparr>rpj_stepId = ns_id step,
            rpj_available = (if rbc_required contract then has_strategy contract \<or> rbc_checkpointRequired contract else True),
            rpj_required = (requiresRollback step \<or> rbc_required contract),
            rpj_reason = (if no_projection contract
              then Some ''Rollback contract does not describe a projection strategy.'' else None)\<rparr>,
           simulation_failure_if (no_projection contract) SIMULATION_ROLLBACK_INVALID
             (''Rollback contract for '' @ ns_id step @ '' is required but lacks a deterministic rollback projection.'')
             (''rollbackContracts.'' @ ns_id step)))"

definition buildRollbackProjection ::
  "NormalizedPlan \<Rightarrow> ExecutionCompatibilityContract \<Rightarrow> RollbackProjection list \<times> SimulationFailure list" where
  "buildRollbackProjection normalizedPlan contract =
     (let contracts = js_map_of (map (\<lambda>c. (rbc_stepId c, c)) (xc_rollbackContracts contract));
          results = map (projectRollback contracts) (np_steps normalizedPlan)
      in (map fst results, concat (map snd results)))"

section \<open>Governance\<close>

definition upstream_allows :: "ExecutionTruthPackage \<Rightarrow> ExecutionCompatibilityContract \<Rightarrow> bool" where
  "upstream_allows truth contract \<longleftrightarrow> ge_allowed (tp_governanceEnvelope truth) \<and> xc_compatible contract"

definition block_text :: "ExecutionTruthPackage \<Rightarrow> ExecutionCompatibilityContract \<Rightarrow> string \<Rightarrow> string" where
  "block_text truth contract otherwise =
     (let text = js_join '' '' (ge_blockedReasons (tp_governanceEnvelope truth) @
            map cv_message (filter (\<lambda>v. cv_severity v = SeverityBlocking) (xc_violations contract)))
      in if text = [] then otherwise else text)"

definition bridge_failures :: "ExecutionTruthPackage \<Rightarrow> ExecutionCompatibilityContract \<Rightarrow> SimulationFailure list" where
  "bridge_failures truth contract =
     simulation_failure_if (\<not> upstream_allows truth contract) SIMULATION_GOVERNANCE_BLOCK
       (block_text truth contract ''Simulation blocked by upstream governance posture.'') ''governanceEnvelope''"

definition bridge_blocked :: "ExecutionTruthPackage \<Rightarrow> ExecutionCompatibilityContract \<Rightarrow> BlockedSimulationOperation list" where
  "bridge_blocked truth contract =
     (if upstream_allows truth contract then []
      else [\<lparr>bso_stepId = sn_planId (xc_compatibilitySnapshot contract), bso_toolId = ''governance'',
             bso_category = ''governance-block'',
             bso_reason = block_text truth contract ''Upstream governance blocked this plan.''\<rparr>])"

definition bridge_risks :: "ExecutionTruthPackage \<Rightarrow> SimulationRisk list" where
  "bridge_risks truth =
     map (\<lambda>signal. \<lparr>srk_stepId = sg_stepId signal, srk_level = risk_level_str (rk_overallRisk (tp_riskProfile truth)),
        srk_reasons = rk_reasons (tp_riskProfile truth), srk_source = ''execution-truth''\<rparr>)
       (rk_stepSignals (tp_riskProfile truth))"

definition bridge_warnings :: "ExecutionTruthPackage \<Rightarrow> SimulationWarning list" where
  "bridge_warnings truth =
     (let approvals = ge_requiredApprovals (tp_governanceEnvelope truth) in
      if approvals = [] then []
      else [\<lparr>siw_code = SIMULATION_GOVERNANCE_WARNING,
             siw_message = ''Simulation surfaced required approvals: '' @ js_join '', '' approvals @ ''.''\<rparr>])"

record GovernanceSimulationBridge =
  gsb_blockedOperations :: "BlockedSimulationOperation list"
  gsb_predictedRisks :: "SimulationRisk list"
  gsb_failures :: "SimulationFailure list"
  gsb_warnings :: "SimulationWarning list"

definition buildGovernanceSimulationBridge ::
  "ExecutionTruthPackage \<Rightarrow> ExecutionCompatibilityContract \<Rightarrow> GovernanceSimulationBridge" where
  "buildGovernanceSimulationBridge truth contract =
     \<lparr>gsb_blockedOperations = bridge_blocked truth contract, gsb_predictedRisks = bridge_risks truth,
      gsb_failures = bridge_failures truth contract, gsb_warnings = bridge_warnings truth\<rparr>"

section \<open>The trace\<close>

text \<open>Reading a property of \<open>null\<close> or \<open>undefined\<close> throws.\<close>

definition readable :: "json \<Rightarrow> bool" where
  "readable v \<longleftrightarrow> v \<noteq> JUndef \<and> v \<noteq> JNull"

definition name_or_unknown :: "json \<Rightarrow> string" where
  "name_or_unknown v = js_default ''unknown'' (string_of v)"

definition adapter_serves :: "SimulationMode \<Rightarrow> SimulationAdapterContract \<Rightarrow> bool" where
  "adapter_serves mode adapter \<longleftrightarrow> sac_supportsSimulation adapter \<and> (mode = ModeDryRun \<longrightarrow> sac_supportsDryRun adapter)"

record StepTrace =
  stt_result :: SimulationStepResult
  stt_failures :: "SimulationFailure list"
  stt_blocked :: "BlockedSimulationOperation list"
  stt_warnings :: "SimulationWarning list"

definition blankResult ::
  "SimulationLineageContext \<Rightarrow> (string \<rightharpoonup> RollbackProjection) \<Rightarrow> NormalizedPlanStep \<Rightarrow> SimulationStepResult" where
  "blankResult lineage projected step =
     \<lparr>ssr_stepId = ns_id step, ssr_toolId = name_or_unknown (prop_get (ns_action step) ''tool''),
      ssr_operation = name_or_unknown (prop_get (ns_action step) ''operation''), ssr_order = ns_index step,
      ssr_status = StepPredicted, ssr_approvalRequired = (ns_approvalMode step = ApprovalREQUIRED),
      ssr_rollbackProjected = (case projected (ns_id step) of None \<Rightarrow> False | Some entry \<Rightarrow> rpj_available entry),
      ssr_lineageRef = lineage, ssr_reason = None\<rparr>"

definition unsupportedStep :: "SimulationMode \<Rightarrow> SimulationStepResult \<Rightarrow> StepTrace" where
  "unsupportedStep mode result =
     (let toolId = ssr_toolId result; stepId = ssr_stepId result;
          reason = ''Tool '' @ toolId @ '' is unsupported for '' @ mode_str mode @ ''.''
      in \<lparr>stt_result = result\<lparr>ssr_status := StepBlocked, ssr_reason := Some reason\<rparr>,
          stt_failures = [createSimulationFailure SIMULATION_UNSUPPORTED_TOOL
            (''Tool '' @ toolId @ '' does not support '' @ mode_str mode @ ''.'') (Some (''steps.'' @ stepId @ ''.action.tool''))],
          stt_blocked = [\<lparr>bso_stepId = stepId, bso_toolId = toolId, bso_category = ''unsupported-tool'', bso_reason = reason\<rparr>],
          stt_warnings = []\<rparr>)"

definition guardedStep ::
  "NormalizedPlanStep \<Rightarrow> SimulationAdapterContract \<Rightarrow> SimulationStepResult \<Rightarrow> StepTrace" where
  "guardedStep step adapter result =
     (let (failures, blockedOperations) = guardSimulationSideEffects step adapter; blocked = failures \<noteq> [] in
      \<lparr>stt_result = result
         \<lparr>ssr_status := if blocked then StepBlocked else StepPredicted,
          ssr_reason := if blocked then Some (''Blocked side effects detected for '' @ ns_id step @ ''.'') else None\<rparr>,
       stt_failures = failures, stt_blocked = blockedOperations,
       stt_warnings = (if blocked
         then [\<lparr>siw_code = SIMULATION_BLOCKED_OPERATION,
                siw_message = ''Simulation blocked side effects for '' @ ns_id step @ ''.''\<rparr>]
         else [])\<rparr>)"

definition traceStep ::
  "SimulationMode \<Rightarrow> SimulationAdapterRegistry \<Rightarrow> SimulationLineageContext \<Rightarrow> (string \<rightharpoonup> RollbackProjection)
   \<Rightarrow> NormalizedPlanStep \<Rightarrow> StepTrace option" where
  "traceStep mode registry lineage projected step =
     (if \<not> readable (ns_action step) then None else
      let result = blankResult lineage projected step in
      Some (case resolveSimulationAdapter registry (ssr_toolId result) of
          None \<Rightarrow> unsupportedStep mode result
        | Some adapter \<Rightarrow>
            if adapter_serves mode adapter then guardedStep step adapter result else unsupportedStep mode result))"

record SimulationTrace =
  sit_predictedSteps :: "SimulationStepResult list"
  sit_blockedOperations :: "BlockedSimulationOperation list"
  sit_failures :: "SimulationFailure list"
  sit_warnings :: "SimulationWarning list"

definition buildSimulationTrace ::
  "NormalizedPlan \<Rightarrow> SimulationMode \<Rightarrow> SimulationLineageContext \<Rightarrow> SimulationAdapterRegistry \<Rightarrow> RollbackProjection list
   \<Rightarrow> SimulationTrace option" where
  "buildSimulationTrace normalizedPlan mode lineage registry rollbackProjection =
     (let projected = js_map_of (map (\<lambda>entry. (rpj_stepId entry, entry)) rollbackProjection) in
      map_option (\<lambda>ts.
          \<lparr>sit_predictedSteps = map stt_result ts, sit_blockedOperations = concat (map stt_blocked ts),
           sit_failures = concat (map stt_failures ts), sit_warnings = concat (map stt_warnings ts)\<rparr>)
        (those (map (traceStep mode registry lineage projected) (np_steps normalizedPlan))))"

section \<open>The orchestrator\<close>

definition determineStatus :: "nat \<Rightarrow> nat \<Rightarrow> nat \<Rightarrow> nat \<Rightarrow> nat \<Rightarrow> SimulationStatus" where
  "determineStatus lineageFailures rollbackFailures governanceFailures traceFailures blockedCount =
     (if 0 < lineageFailures \<or> 0 < governanceFailures then SimBlocked
      else if 0 < rollbackFailures \<or> 0 < traceFailures then if 0 < blockedCount then SimPartial else SimFailed
      else if 0 < blockedCount then SimPartial else SimSuccess)"

definition lineage_context_json :: "SimulationLineageContext \<Rightarrow> json" where
  "lineage_context_json l = JObj
     [(''executionTruthHash'', JStr (slc_executionTruthHash l)),
      (''executionCompatibilityHash'', JStr (slc_executionCompatibilityHash l)),
      (''replaySnapshotHash'', JStr (slc_replaySnapshotHash l)),
      (''replayIdentityRoot'', JStr (slc_replayIdentityRoot l)),
      (''migrationLineage'', str_arr (slc_migrationLineage l))]"

definition projected_step_fields :: "NormalizedPlanStep \<Rightarrow> js_record" where
  "projected_step_fields s =
     [(''id'', JStr (ns_id s)), (''sourceId'', opt_json JStr (ns_sourceId s)), (''index'', int_json (ns_index s)),
      (''type'', JStr (ns_type s)), (''action'', ns_action s), (''inputs'', JObj (ns_inputs s)),
      (''outputs'', JObj (ns_outputs s)), (''dependencies'', str_arr (ns_dependencies s)),
      (''constraints'', JArr (ns_constraints s)),
      (''approvalMode'', JStr (approval_mode_str (ns_approvalMode s))),
      (''retryMode'', JStr (retry_mode_str (ns_retryMode s))),
      (''executionMode'', JStr (execution_mode_str (ns_executionMode s))),
      (''autonomyLevel'', JStr (autonomy_level_str (ns_autonomyLevel s))),
      (''containmentLevel'', JStr (containment_level_str (ns_containmentLevel s)))]"

definition projected_step_json :: "NormalizedPlanStep \<Rightarrow> json" where
  "projected_step_json s = JObj (projected_step_fields s)"

definition predicted_step_json :: "SimulationStepResult \<Rightarrow> json" where
  "predicted_step_json r = JObj
     [(''stepId'', JStr (ssr_stepId r)), (''toolId'', JStr (ssr_toolId r)), (''operation'', JStr (ssr_operation r)),
      (''status'', JStr (outcome_str (ssr_status r))), (''approvalRequired'', JBool (ssr_approvalRequired r)),
      (''rollbackProjected'', JBool (ssr_rollbackProjected r))]"

definition predicted_risk_json :: "SimulationRisk \<Rightarrow> json" where
  "predicted_risk_json r = JObj
     [(''stepId'', JStr (srk_stepId r)), (''level'', JStr (srk_level r)), (''reasons'', str_arr (srk_reasons r)),
      (''source'', JStr (srk_source r))]"

definition blocked_operation_json :: "BlockedSimulationOperation \<Rightarrow> json" where
  "blocked_operation_json b = JObj
     [(''stepId'', JStr (bso_stepId b)), (''toolId'', JStr (bso_toolId b)), (''category'', JStr (bso_category b)),
      (''reason'', JStr (bso_reason b))]"

definition projection_entry_json :: "RollbackProjection \<Rightarrow> json" where
  "projection_entry_json e = JObj
     ([(''stepId'', JStr (rpj_stepId e)), (''available'', JBool (rpj_available e)), (''required'', JBool (rpj_required e))] @
      (case rpj_reason e of None \<Rightarrow> [] | Some reason \<Rightarrow> if reason = [] then [] else [(''reason'', JStr reason)]))"

definition simulation_content_json ::
  "NormalizedPlan \<Rightarrow> SimulationMode \<Rightarrow> SimulationLineageContext \<Rightarrow> SimulationStepResult list \<Rightarrow> SimulationRisk list
   \<Rightarrow> BlockedSimulationOperation list \<Rightarrow> RollbackProjection list \<Rightarrow> json" where
  "simulation_content_json plan mode lineage predictedSteps predictedRisks blockedOperations projection = JObj
     [(''phase'', JStr ''4.2J''), (''mode'', JStr (mode_str mode)), (''planId'', JStr (np_planId plan)),
      (''lineage'', lineage_context_json lineage),
      (''normalizedPlanProjection'', JArr (map projected_step_json (np_steps plan))),
      (''predictedSteps'', JArr (map predicted_step_json predictedSteps)),
      (''predictedRisks'', JArr (map predicted_risk_json predictedRisks)),
      (''blockedOperations'', JArr (map blocked_operation_json blockedOperations)),
      (''rollbackProjection'', JArr (map projection_entry_json projection))]"

definition mode_of :: "SimulationBuildInput \<Rightarrow> SimulationMode" where
  "mode_of input = js_default ModeSimulation (sbi_mode input)"

definition registry_of :: "SimulationBuildInput \<Rightarrow> SimulationAdapterRegistry" where
  "registry_of input = js_default (createSimulationAdapterRegistry DEFAULT_ADAPTERS) (sbi_adapterRegistry input)"

definition bridge_of :: "SimulationBuildInput \<Rightarrow> GovernanceSimulationBridge" where
  "bridge_of input = buildGovernanceSimulationBridge (sbi_executionTruthPackage input) (sbi_executionCompatibilityContract input)"

definition rollback_of :: "SimulationBuildInput \<Rightarrow> RollbackProjection list \<times> SimulationFailure list" where
  "rollback_of input = buildRollbackProjection (sbi_normalizedPlan input) (sbi_executionCompatibilityContract input)"

definition trace_of ::
  "(string \<Rightarrow> string \<Rightarrow> int) \<Rightarrow> (string \<Rightarrow> string) \<Rightarrow> SimulationBuildInput \<Rightarrow> SimulationTrace option" where
  "trace_of lc sha input =
     buildSimulationTrace (sbi_normalizedPlan input) (mode_of input)
       (buildSimulationLineageContext lc sha (sbi_versionedReplayArtifact input)) (registry_of input) (fst (rollback_of input))"

definition blocked_of :: "SimulationBuildInput \<Rightarrow> SimulationTrace \<Rightarrow> BlockedSimulationOperation list" where
  "blocked_of input trace = gsb_blockedOperations (bridge_of input) @ sit_blockedOperations trace"

definition simulated_json ::
  "(string \<Rightarrow> string \<Rightarrow> int) \<Rightarrow> (string \<Rightarrow> string) \<Rightarrow> SimulationBuildInput \<Rightarrow> SimulationTrace \<Rightarrow> json" where
  "simulated_json lc sha input trace =
     simulation_content_json (sbi_normalizedPlan input) (mode_of input)
       (buildSimulationLineageContext lc sha (sbi_versionedReplayArtifact input)) (sit_predictedSteps trace)
       (gsb_predictedRisks (bridge_of input)) (blocked_of input trace) (fst (rollback_of input))"

definition simulationResult ::
  "(string \<Rightarrow> string \<Rightarrow> int) \<Rightarrow> (string \<Rightarrow> string) \<Rightarrow> SimulationBuildInput \<Rightarrow> SimulationTrace \<Rightarrow> string \<Rightarrow> SimulationResult" where
  "simulationResult lc sha input trace derivedSimulationHash =
     (let plan = sbi_normalizedPlan input; artifact = sbi_versionedReplayArtifact input;
          lineage = buildSimulationLineageContext lc sha artifact;
          lineageFailures = validateSimulationLineage lc sha input; governanceFailures = gsb_failures (bridge_of input);
          rollbackFailures = snd (rollback_of input); traceFailures = sit_failures trace
      in \<lparr>smr_simulationId = ''sim-'' @ np_planId plan @ ''-'' @ take 12 derivedSimulationHash,
          smr_status = determineStatus (length lineageFailures) (length rollbackFailures) (length governanceFailures)
            (length traceFailures) (length (blocked_of input trace)),
          smr_planHash = rar_planHash (vra_replayAuditResult artifact),
          smr_executionTruthHash = tp_executionTruthHash (sbi_executionTruthPackage input),
          smr_executionCompatibilityHash = xc_executionCompatibilityHash (sbi_executionCompatibilityContract input),
          smr_replaySnapshotHash = slc_replaySnapshotHash lineage,
          smr_replayIdentityRoot = slc_replayIdentityRoot lineage,
          smr_derivedSimulationHash = derivedSimulationHash,
          smr_predictedSteps = sit_predictedSteps trace,
          smr_predictedRisks = gsb_predictedRisks (bridge_of input),
          smr_blockedOperations = blocked_of input trace,
          smr_failures = lineageFailures @ governanceFailures @ rollbackFailures @ traceFailures,
          smr_createdAt = pm_createdAt (np_metadata plan)\<rparr>)"

definition orchestrateSimulation ::
  "(string \<Rightarrow> string \<Rightarrow> int) \<Rightarrow> (string \<Rightarrow> string) \<Rightarrow> SimulationBuildInput
   \<Rightarrow> (SimulationResult \<times> SimulationWarning list) option" where
  "orchestrateSimulation lc sha input = do {
     trace \<leftarrow> trace_of lc sha input;
     derivedSimulationHash \<leftarrow> hashStableContent lc sha REPLAY_CONTEXT (simulated_json lc sha input trace);
     Some (simulationResult lc sha input trace derivedSimulationHash, gsb_warnings (bridge_of input) @ sit_warnings trace)
   }"

definition buildSimulationReadiness ::
  "(string \<Rightarrow> string \<Rightarrow> int) \<Rightarrow> (string \<Rightarrow> string) \<Rightarrow> SimulationBuildInput \<Rightarrow> SimulationReadiness option" where
  "buildSimulationReadiness lc sha input =
     map_option (\<lambda>(result, warnings).
        \<lparr>smd_ready = (smr_status result = SimSuccess \<or> smr_status result = SimPartial),
         smd_failures = smr_failures result, smd_warnings = warnings,
         smd_lineage = buildSimulationLineageContext lc sha (sbi_versionedReplayArtifact input),
         smd_derivedSimulationHash = smr_derivedSimulationHash result\<rparr>)
       (orchestrateSimulation lc sha input)"

end
