(* ===== verification/Admission.thy ===== *)
theory Admission
  imports Simulation
begin

text \<open>
  \<open>services/planning/admission\<close>: whether a versioned plan may be executed now.  Lineage anchors and context, the
  lineage check, the readiness of the runtime, the trust zones (a linear order), the decision, its supervision and
  revocation, and their composition (\<open>buildAdmissionReadiness\<close>).  Every hashed value is a string that is
  there, so every hash exists.
\<close>

section \<open>Types\<close>

datatype AdmissionDecision =
    APPROVED | DENIED | ESCALATED | PAUSED | QUARANTINED | SIMULATION_REQUIRED | REVALIDATION_REQUIRED | REVOKED

fun decision_str :: "AdmissionDecision \<Rightarrow> string" where
  "decision_str APPROVED = ''APPROVED''"
| "decision_str DENIED = ''DENIED''"
| "decision_str ESCALATED = ''ESCALATED''"
| "decision_str PAUSED = ''PAUSED''"
| "decision_str QUARANTINED = ''QUARANTINED''"
| "decision_str SIMULATION_REQUIRED = ''SIMULATION_REQUIRED''"
| "decision_str REVALIDATION_REQUIRED = ''REVALIDATION_REQUIRED''"
| "decision_str REVOKED = ''REVOKED''"

datatype TrustZone = ZoneSANDBOX | ZoneRESTRICTED | ZoneSTANDARD | ZoneELEVATED | ZoneCRITICAL | ZoneSTRATEGIC

fun zone_str :: "TrustZone \<Rightarrow> string" where
  "zone_str ZoneSANDBOX = ''SANDBOX''"
| "zone_str ZoneRESTRICTED = ''RESTRICTED''"
| "zone_str ZoneSTANDARD = ''STANDARD''"
| "zone_str ZoneELEVATED = ''ELEVATED''"
| "zone_str ZoneCRITICAL = ''CRITICAL''"
| "zone_str ZoneSTRATEGIC = ''STRATEGIC''"

datatype AdmissionFailureCode =
    PHASE42L_CONTEXT_MISSING
  | PHASE42L_LINEAGE_MISSING
  | PHASE42L_LINEAGE_DRIFT
  | PHASE42L_RUNTIME_DRIFT
  | PHASE42L_GOVERNANCE_CONFLICT
  | PHASE42L_APPROVAL_MISSING
  | PHASE42L_SIMULATION_REQUIRED
  | PHASE42L_TRUST_ZONE_VIOLATION
  | PHASE42L_UNSUPPORTED_DECISION_STATE
  | PHASE42L_MUTATION_ATTEMPT_BLOCKED
  | PHASE42L_ADMISSION_HASH_MISMATCH
  | PHASE42L_REVALIDATION_REQUIRED

record AdmissionLineageAnchors =
  ala_executionTruthHash :: string
  ala_executionCompatibilityHash :: string
  ala_replaySnapshotHash :: string
  ala_derivedSimulationHash :: "string option"

text \<open>\<open>Partial<AdmissionLineageAnchors>\<close>.\<close>

record ExpectedLineage =
  xpl_executionTruthHash :: "string option"
  xpl_executionCompatibilityHash :: "string option"
  xpl_replaySnapshotHash :: "string option"
  xpl_derivedSimulationHash :: "string option"

record AdmissionContext =
  adc_planHash :: string
  adc_lineage :: AdmissionLineageAnchors
  adc_governanceSnapshotHash :: string
  adc_approvalChainHash :: string
  adc_runtimeSnapshotHash :: string
  adc_trustZone :: TrustZone
  adc_requestedAt :: string

record AdmissionFailure =
  adf_code :: AdmissionFailureCode
  adf_message :: string
  adf_path :: "string option"

record AdmissionResult =
  adr_decision :: AdmissionDecision
  adr_derivedAdmissionHash :: string
  adr_reasons :: "string list"
  adr_blocks :: "string list"
  adr_warnings :: "string list"
  adr_contextHash :: string

text \<open>An optional flag is read for its truth only, so an absent one is false.\<close>

record RuntimeReadinessMetadata =
  rrm_runtimeSnapshotHash :: string
  rrm_healthy :: bool
  rrm_stale :: bool
  rrm_lockConflict :: bool
  rrm_leaseConflict :: bool
  rrm_mutationAttempted :: bool
  rrm_governanceEpoch :: "string option"
  rrm_expectedGovernanceEpoch :: "string option"

record GovernanceMetadata =
  gvm_governanceSnapshotHash :: string
  gvm_approvalChainHash :: string
  gvm_approvalsSatisfied :: bool
  gvm_conflicts :: "string list option"
  gvm_allowedTrustZones :: "TrustZone list option"
  gvm_currentTrustZone :: "TrustZone option"
  gvm_requiredSimulation :: bool

record AdmissionRuntimeReadiness =
  arr_ready :: bool
  arr_shouldPause :: bool
  arr_requiresRevalidation :: bool
  arr_failures :: "AdmissionFailure list"
  arr_warnings :: "string list"

record AdmissionLineageValidation =
  alv_ok :: bool
  alv_failures :: "AdmissionFailure list"

datatype SupervisionStatus = STABLE | PAUSE_RECOMMENDED | ESCALATION_RECOMMENDED | REVOCATION_RECOMMENDED

record GovernanceSupervision =
  gsv_status :: SupervisionStatus
  gsv_reasons :: "string list"

datatype RevocationDecision = RevocationREVOKED | RevocationUNCHANGED

record AdmissionRevocation =
  arv_decision :: RevocationDecision
  arv_reasons :: "string list"
  arv_lineage :: AdmissionLineageAnchors
  arv_derivedRevocationHash :: string

record TrustZoneEnforcement =
  tze_allowed :: bool
  tze_requiresRevalidation :: bool
  tze_failures :: "AdmissionFailure list"
  tze_warnings :: "string list"

record AdmissionBuildInput =
  abi_normalizedPlan :: NormalizedPlan
  abi_executionTruthPackage :: ExecutionTruthPackage
  abi_executionCompatibilityContract :: ExecutionCompatibilityContract
  abi_versionedReplayArtifact :: VersionedReplayArtifact
  abi_simulationReadiness :: "SimulationReadiness option"
  abi_simulationResult :: "SimulationResult option"
  abi_governanceMetadata :: GovernanceMetadata
  abi_runtimeMetadata :: RuntimeReadinessMetadata
  abi_requestedTrustZone :: "TrustZone option"
  abi_requestedAt :: "string option"
  abi_expectedLineage :: "ExpectedLineage option"

record AdmissionReadiness =
  ads_context :: AdmissionContext
  ads_lineage :: AdmissionLineageValidation
  ads_runtime :: AdmissionRuntimeReadiness
  ads_trustZone :: TrustZoneEnforcement
  ads_supervision :: GovernanceSupervision
  ads_result :: AdmissionResult

definition createAdmissionFailure :: "AdmissionFailureCode \<Rightarrow> string \<Rightarrow> string option \<Rightarrow> AdmissionFailure" where
  "createAdmissionFailure code message path = \<lparr>adf_code = code, adf_message = message, adf_path = path\<rparr>"

definition admission_failure_if ::
  "bool \<Rightarrow> AdmissionFailureCode \<Rightarrow> string \<Rightarrow> string \<Rightarrow> AdmissionFailure list" where
  "admission_failure_if failed code message path =
     (if failed then [createAdmissionFailure code message (Some path)] else [])"

text \<open>An optional string is truthy when it is there and not empty.\<close>

definition given :: "string option \<Rightarrow> bool" where
  "given x \<longleftrightarrow> js_default [] x \<noteq> []"

definition when_given :: "string option \<Rightarrow> string option" where
  "when_given x = (if given x then x else None)"

section \<open>The context\<close>

definition buildAdmissionLineageAnchors :: "AdmissionBuildInput \<Rightarrow> AdmissionLineageAnchors" where
  "buildAdmissionLineageAnchors input =
     \<lparr>ala_executionTruthHash = tp_executionTruthHash (abi_executionTruthPackage input),
      ala_executionCompatibilityHash = xc_executionCompatibilityHash (abi_executionCompatibilityContract input),
      ala_replaySnapshotHash =
        js_default [] (rar_replaySnapshotHash (vra_replayAuditResult (abi_versionedReplayArtifact input))),
      ala_derivedSimulationHash =
        when_given (map_option smd_derivedSimulationHash (abi_simulationReadiness input))\<rparr>"

definition current_zone :: "AdmissionBuildInput \<Rightarrow> TrustZone" where
  "current_zone input = js_default ZoneSTANDARD (gvm_currentTrustZone (abi_governanceMetadata input))"

definition requested_zone :: "AdmissionBuildInput \<Rightarrow> TrustZone" where
  "requested_zone input = js_default (current_zone input) (abi_requestedTrustZone input)"

definition buildAdmissionContext :: "AdmissionBuildInput \<Rightarrow> AdmissionContext" where
  "buildAdmissionContext input =
     \<lparr>adc_planHash = rar_planHash (vra_replayAuditResult (abi_versionedReplayArtifact input)),
      adc_lineage = buildAdmissionLineageAnchors input,
      adc_governanceSnapshotHash = gvm_governanceSnapshotHash (abi_governanceMetadata input),
      adc_approvalChainHash = gvm_approvalChainHash (abi_governanceMetadata input),
      adc_runtimeSnapshotHash = rrm_runtimeSnapshotHash (abi_runtimeMetadata input),
      adc_trustZone = requested_zone input,
      adc_requestedAt = js_default (pm_createdAt (np_metadata (abi_normalizedPlan input))) (abi_requestedAt input)\<rparr>"

text \<open>\<open>...(value ? { k: value } : {})\<close>, for a value that was checked when it was built.\<close>

definition optional_entry :: "string \<Rightarrow> json option \<Rightarrow> js_record" where
  "optional_entry k x = (case x of None \<Rightarrow> [] | Some v \<Rightarrow> [(k, v)])"

definition anchors_json :: "AdmissionLineageAnchors \<Rightarrow> json" where
  "anchors_json a = JObj
     ([(''executionTruthHash'', JStr (ala_executionTruthHash a)),
       (''executionCompatibilityHash'', JStr (ala_executionCompatibilityHash a)),
       (''replaySnapshotHash'', JStr (ala_replaySnapshotHash a))] @
      optional_entry ''derivedSimulationHash'' (map_option JStr (ala_derivedSimulationHash a)))"

definition admission_context_json :: "AdmissionContext \<Rightarrow> json" where
  "admission_context_json c = JObj
     [(''planHash'', JStr (adc_planHash c)), (''lineage'', anchors_json (adc_lineage c)),
      (''governanceSnapshotHash'', JStr (adc_governanceSnapshotHash c)),
      (''approvalChainHash'', JStr (adc_approvalChainHash c)),
      (''runtimeSnapshotHash'', JStr (adc_runtimeSnapshotHash c)), (''trustZone'', JStr (zone_str (adc_trustZone c))),
      (''requestedAt'', JStr (adc_requestedAt c))]"

definition hashAdmissionContext ::
  "(string \<Rightarrow> string \<Rightarrow> int) \<Rightarrow> (string \<Rightarrow> string) \<Rightarrow> AdmissionContext \<Rightarrow> string" where
  "hashAdmissionContext lc sha context = js_default [] (hashStableContent lc sha GOVERNANCE (admission_context_json context))"

section \<open>Lineage\<close>

definition missing_anchors :: "AdmissionLineageAnchors \<Rightarrow> AdmissionFailure list" where
  "missing_anchors a =
     admission_failure_if (ala_executionTruthHash a = []) PHASE42L_LINEAGE_MISSING
       ''Execution truth hash is required for admission.'' ''executionTruthHash'' @
     admission_failure_if (ala_executionCompatibilityHash a = []) PHASE42L_LINEAGE_MISSING
       ''Execution compatibility hash is required for admission.'' ''executionCompatibilityHash'' @
     admission_failure_if (ala_replaySnapshotHash a = []) PHASE42L_LINEAGE_MISSING
       ''Replay snapshot hash is required for admission.'' ''replaySnapshotHash''"

definition root_drift :: "ImmutableReplayIdentityRoot \<Rightarrow> AdmissionLineageAnchors \<Rightarrow> AdmissionFailure list" where
  "root_drift root a =
     admission_failure_if (irr_executionTruthHash root \<noteq> ala_executionTruthHash a) PHASE42L_LINEAGE_DRIFT
       ''Execution truth lineage drift detected.'' ''immutableReplayIdentityRoot.executionTruthHash'' @
     admission_failure_if (irr_executionCompatibilityHash root \<noteq> ala_executionCompatibilityHash a) PHASE42L_LINEAGE_DRIFT
       ''Execution compatibility lineage drift detected.'' ''immutableReplayIdentityRoot.executionCompatibilityHash'' @
     admission_failure_if (irr_initialReplaySnapshotHash root \<noteq> ala_replaySnapshotHash a) PHASE42L_LINEAGE_DRIFT
       ''Replay snapshot lineage drift detected.'' ''immutableReplayIdentityRoot.initialReplaySnapshotHash''"

text \<open>An expected value that is given and not the actual one.\<close>

definition differs :: "string option \<Rightarrow> string \<Rightarrow> bool" where
  "differs expected actual \<longleftrightarrow> given expected \<and> expected \<noteq> Some actual"

definition expected_drift :: "ExpectedLineage \<Rightarrow> AdmissionLineageAnchors \<Rightarrow> AdmissionFailure list" where
  "expected_drift expected a =
     admission_failure_if (differs (xpl_executionTruthHash expected) (ala_executionTruthHash a)) PHASE42L_LINEAGE_DRIFT
       ''Execution truth hash does not match expected lineage anchor.'' ''expectedLineage.executionTruthHash'' @
     admission_failure_if (differs (xpl_executionCompatibilityHash expected) (ala_executionCompatibilityHash a))
       PHASE42L_LINEAGE_DRIFT ''Execution compatibility hash does not match expected lineage anchor.''
       ''expectedLineage.executionCompatibilityHash'' @
     admission_failure_if (differs (xpl_replaySnapshotHash expected) (ala_replaySnapshotHash a)) PHASE42L_LINEAGE_DRIFT
       ''Replay snapshot hash does not match expected lineage anchor.'' ''expectedLineage.replaySnapshotHash''"

definition simulation_drift ::
  "ExpectedLineage \<Rightarrow> SimulationReadiness option \<Rightarrow> SimulationResult option \<Rightarrow> AdmissionFailure list" where
  "simulation_drift expected readiness result =
     (let ready_hash = map_option smd_derivedSimulationHash readiness; result_hash = map_option smr_derivedSimulationHash result in
      admission_failure_if
        (given ready_hash \<and> given (xpl_derivedSimulationHash expected) \<and> ready_hash \<noteq> xpl_derivedSimulationHash expected)
        PHASE42L_LINEAGE_DRIFT ''Derived simulation hash does not match the expected admission anchor.''
        ''expectedLineage.derivedSimulationHash'' @
      admission_failure_if (result_hash \<noteq> None \<and> ready_hash \<noteq> None \<and> result_hash \<noteq> ready_hash)
        PHASE42L_LINEAGE_DRIFT ''Simulation readiness and simulation result disagree on the derived simulation hash.''
        ''simulationResult.derivedSimulationHash'')"

definition no_expectation :: ExpectedLineage where
  "no_expectation = \<lparr>xpl_executionTruthHash = None, xpl_executionCompatibilityHash = None, xpl_replaySnapshotHash = None,
     xpl_derivedSimulationHash = None\<rparr>"

definition validateAdmissionLineage :: "AdmissionBuildInput \<Rightarrow> AdmissionLineageValidation" where
  "validateAdmissionLineage input =
     (let a = buildAdmissionLineageAnchors input; expected = js_default no_expectation (abi_expectedLineage input);
          failures = missing_anchors a @
            root_drift (vra_immutableReplayIdentityRoot (abi_versionedReplayArtifact input)) a @ expected_drift expected a @
            simulation_drift expected (abi_simulationReadiness input) (abi_simulationResult input)
      in \<lparr>alv_ok = (failures = []), alv_failures = failures\<rparr>)"

section \<open>The runtime\<close>

definition epoch_mismatch :: "RuntimeReadinessMetadata \<Rightarrow> bool" where
  "epoch_mismatch m \<longleftrightarrow> given (rrm_expectedGovernanceEpoch m) \<and> given (rrm_governanceEpoch m) \<and>
     rrm_expectedGovernanceEpoch m \<noteq> rrm_governanceEpoch m"

definition runtime_failures :: "RuntimeReadinessMetadata \<Rightarrow> AdmissionFailure list" where
  "runtime_failures m =
     admission_failure_if (rrm_runtimeSnapshotHash m = []) PHASE42L_CONTEXT_MISSING
       ''Runtime snapshot hash is required for admission readiness.'' ''runtimeMetadata.runtimeSnapshotHash'' @
     admission_failure_if (rrm_mutationAttempted m) PHASE42L_MUTATION_ATTEMPT_BLOCKED
       ''Runtime mutation attempt detected during admission evaluation.'' ''runtimeMetadata.mutationAttempted'' @
     admission_failure_if (rrm_stale m) PHASE42L_RUNTIME_DRIFT ''Runtime snapshot is stale.'' ''runtimeMetadata.stale'' @
     admission_failure_if (rrm_lockConflict m \<or> rrm_leaseConflict m) PHASE42L_RUNTIME_DRIFT
       ''Runtime lock or lease conflict detected.'' ''runtimeMetadata'' @
     admission_failure_if (epoch_mismatch m) PHASE42L_REVALIDATION_REQUIRED
       ''Governance epoch mismatch requires revalidation.'' ''runtimeMetadata.governanceEpoch''"

definition evaluateRuntimeReadiness :: "AdmissionBuildInput \<Rightarrow> AdmissionRuntimeReadiness" where
  "evaluateRuntimeReadiness input =
     (let m = abi_runtimeMetadata input; failures = runtime_failures m in
      \<lparr>arr_ready = (failures = [] \<and> rrm_healthy m),
       arr_shouldPause = (rrm_stale m \<or> \<not> rrm_healthy m \<or> rrm_lockConflict m \<or> rrm_leaseConflict m),
       arr_requiresRevalidation = list_ex (\<lambda>failure. adf_code failure = PHASE42L_REVALIDATION_REQUIRED) failures,
       arr_failures = failures,
       arr_warnings = (if rrm_healthy m then [] else [''Runtime metadata reports an unhealthy environment.''])\<rparr>)"

section \<open>Trust zones\<close>

definition TRUST_ZONE_ORDER :: "TrustZone list" where
  "TRUST_ZONE_ORDER = [ZoneSANDBOX, ZoneRESTRICTED, ZoneSTANDARD, ZoneELEVATED, ZoneCRITICAL, ZoneSTRATEGIC]"

text \<open>\<open>indexOf\<close>; every zone is in the list.\<close>

definition zoneRank :: "TrustZone \<Rightarrow> nat" where
  "zoneRank zone = length (takeWhile (\<lambda>z. z \<noteq> zone) TRUST_ZONE_ORDER)"

lemma zoneRank_inj: "zoneRank a = zoneRank b \<longleftrightarrow> a = b"
  by (cases a; cases b) (simp_all add: zoneRank_def TRUST_ZONE_ORDER_def)

instantiation TrustZone :: linorder
begin

definition less_eq_TrustZone :: "TrustZone \<Rightarrow> TrustZone \<Rightarrow> bool" where
  "a \<le> b \<longleftrightarrow> zoneRank a \<le> zoneRank b"

definition less_TrustZone :: "TrustZone \<Rightarrow> TrustZone \<Rightarrow> bool" where
  "a < b \<longleftrightarrow> zoneRank a < zoneRank b"

instance
  by standard (auto simp: less_eq_TrustZone_def less_TrustZone_def zoneRank_inj)

end

definition enforceTrustZone :: "AdmissionBuildInput \<Rightarrow> TrustZoneEnforcement" where
  "enforceTrustZone input =
     (let requested = requested_zone input; current = current_zone input;
          allowed = js_default [ZoneSTANDARD] (gvm_allowedTrustZones (abi_governanceMetadata input));
          failures = admission_failure_if (requested \<notin> set allowed) PHASE42L_TRUST_ZONE_VIOLATION
            (''Requested trust zone '' @ zone_str requested @ '' is not authorized by governance metadata.'') ''requestedTrustZone'';
          requiresRevalidation = (zoneRank current < zoneRank requested)
      in \<lparr>tze_allowed = (failures = []), tze_requiresRevalidation = requiresRevalidation, tze_failures = failures,
          tze_warnings = (if requiresRevalidation
            then [''Trust zone change from '' @ zone_str current @ '' to '' @ zone_str requested @ '' requires revalidation.'']
            else [])\<rparr>)"

section \<open>The decision\<close>

record AdmissionVerdict =
  adv_decision :: AdmissionDecision
  adv_reasons :: "string list"
  adv_blocks :: "string list"
  adv_warnings :: "string list"

definition decideAdmission ::
  "AdmissionBuildInput \<Rightarrow> AdmissionLineageValidation \<Rightarrow> AdmissionRuntimeReadiness \<Rightarrow> TrustZoneEnforcement \<Rightarrow> AdmissionVerdict" where
  "decideAdmission buildInput lineage runtime trustZone =
     (let governance = abi_governanceMetadata buildInput;
          verdict = (\<lambda>decision reasons blocks. \<lparr>adv_decision = decision, adv_reasons = reasons, adv_blocks = blocks,
            adv_warnings = arr_warnings runtime @ tze_warnings trustZone\<rparr>)
      in
       if \<not> alv_ok lineage then verdict DENIED [] (map adf_message (alv_failures lineage))
       else if gvm_governanceSnapshotHash governance = [] \<or> gvm_approvalChainHash governance = []
       then verdict DENIED [] [''Admission requires governance snapshot and approval chain hashes.'']
       else if \<not> tze_allowed trustZone then verdict QUARANTINED [] (map adf_message (tze_failures trustZone))
       else if arr_requiresRevalidation runtime then verdict REVALIDATION_REQUIRED (map adf_message (arr_failures runtime)) []
       else if js_default [] (gvm_conflicts governance) \<noteq> [] then verdict ESCALATED (js_default [] (gvm_conflicts governance)) []
       else if gvm_requiredSimulation governance \<and> \<not> js_default False (map_option smd_ready (abi_simulationReadiness buildInput))
       then verdict SIMULATION_REQUIRED [''Governance requires a ready simulation artifact before admission.''] []
       else if \<not> gvm_approvalsSatisfied governance
       then verdict DENIED [] [''Required approvals have not been satisfied.'']
       else if arr_shouldPause runtime then verdict PAUSED (map adf_message (arr_failures runtime)) []
       else if tze_requiresRevalidation trustZone
       then verdict REVALIDATION_REQUIRED [''Trust zone elevation requires revalidation before admission.''] []
       else verdict APPROVED [''All admission checks passed.''] [])"

definition buildGovernanceSupervision :: "AdmissionBuildInput \<Rightarrow> AdmissionDecision \<Rightarrow> GovernanceSupervision" where
  "buildGovernanceSupervision buildInput decision =
     (if decision = QUARANTINED \<or> decision = DENIED then
        \<lparr>gsv_status = REVOCATION_RECOMMENDED,
         gsv_reasons = [''Governance supervision recommends revocation-level handling for the denied admission state.'']\<rparr>
      else if decision = ESCALATED then
        \<lparr>gsv_status = ESCALATION_RECOMMENDED,
         gsv_reasons = js_default [''Governance conflict detected.''] (gvm_conflicts (abi_governanceMetadata buildInput))\<rparr>
      else if decision = PAUSED \<or> decision = REVALIDATION_REQUIRED then
        \<lparr>gsv_status = PAUSE_RECOMMENDED,
         gsv_reasons = [''Governance supervision recommends holding execution readiness pending revalidation.'']\<rparr>
      else
        \<lparr>gsv_status = STABLE,
         gsv_reasons = [''Governance supervision observed no new admission-side conflicts.'']\<rparr>)"

definition revocation_json :: "bool \<Rightarrow> string list \<Rightarrow> AdmissionLineageAnchors \<Rightarrow> json" where
  "revocation_json revoked reasons lineage = JObj
     [(''phase'', JStr ''4.2L''), (''revoked'', JBool revoked), (''reasons'', str_arr reasons), (''lineage'', anchors_json lineage)]"

definition buildAdmissionRevocation ::
  "(string \<Rightarrow> string \<Rightarrow> int) \<Rightarrow> (string \<Rightarrow> string) \<Rightarrow> AdmissionBuildInput \<Rightarrow> AdmissionDecision \<Rightarrow> string list
   \<Rightarrow> AdmissionRevocation" where
  "buildAdmissionRevocation lc sha buildInput decision reasons =
     (let lineage = buildAdmissionLineageAnchors buildInput;
          revoked = (decision = DENIED \<or> decision = QUARANTINED \<or> decision = REVOKED);
          kept = (if revoked then reasons else [])
      in \<lparr>arv_decision = (if revoked then RevocationREVOKED else RevocationUNCHANGED), arv_reasons = kept, arv_lineage = lineage,
          arv_derivedRevocationHash = js_default [] (hashStableContent lc sha GOVERNANCE (revocation_json revoked kept lineage))\<rparr>)"

definition admission_json :: "AdmissionContext \<Rightarrow> AdmissionVerdict \<Rightarrow> json" where
  "admission_json context verdict = JObj
     [(''phase'', JStr ''4.2L''), (''context'', admission_context_json context),
      (''decision'', JStr (decision_str (adv_decision verdict))), (''reasons'', str_arr (adv_reasons verdict)),
      (''blocks'', str_arr (adv_blocks verdict)), (''warnings'', str_arr (adv_warnings verdict))]"

definition deriveAdmissionHash ::
  "(string \<Rightarrow> string \<Rightarrow> int) \<Rightarrow> (string \<Rightarrow> string) \<Rightarrow> AdmissionContext \<Rightarrow> AdmissionVerdict \<Rightarrow> string" where
  "deriveAdmissionHash lc sha context verdict =
     js_default [] (hashStableContent lc sha GOVERNANCE (admission_json context verdict))"

definition buildAdmissionReadiness ::
  "(string \<Rightarrow> string \<Rightarrow> int) \<Rightarrow> (string \<Rightarrow> string) \<Rightarrow> AdmissionBuildInput \<Rightarrow> AdmissionReadiness" where
  "buildAdmissionReadiness lc sha input =
     (let context = buildAdmissionContext input; lineage = validateAdmissionLineage input;
          runtime = evaluateRuntimeReadiness input; trustZone = enforceTrustZone input;
          verdict = decideAdmission input lineage runtime trustZone
      in \<lparr>ads_context = context, ads_lineage = lineage, ads_runtime = runtime, ads_trustZone = trustZone,
          ads_supervision = buildGovernanceSupervision input (adv_decision verdict),
          ads_result =
            \<lparr>adr_decision = adv_decision verdict, adr_derivedAdmissionHash = deriveAdmissionHash lc sha context verdict,
             adr_reasons = adv_reasons verdict, adr_blocks = adv_blocks verdict, adr_warnings = adv_warnings verdict,
             adr_contextHash = hashAdmissionContext lc sha context\<rparr>\<rparr>)"

end
