(* ===== verification/VersioningFacts.thy ===== *)
theory VersioningFacts
  imports Versioning ReplayAuditFacts
begin

text \<open>
  Facts on the parts of versioning.  The content hasher throws exactly on values with an \<open>undefined\<close> and
  otherwise hashes the planning serializer's text behind the name of its domain; the migration chain
  is the walk along the first matching steps; and the engine, for steps that keep a contract (the locale
  \<open>migration_steps\<close>), runs every chain to its end.
\<close>

section \<open>The content hasher\<close>

fun fully_defined :: "json \<Rightarrow> bool" where
  "fully_defined JUndef = False"
| "fully_defined (JArr vs) = list_all fully_defined vs"
| "fully_defined (JObj kvs) = list_all (\<lambda>(k, v). fully_defined v) kvs"
| "fully_defined JNull = True"
| "fully_defined (JBool b) = True"
| "fully_defined (JNum x) = True"
| "fully_defined (JStr s) = True"

lemma those_Some: "those xs = Some ys \<longleftrightarrow> xs = map Some ys"
proof (induction xs arbitrary: ys)
  case (Cons x xs)
  then show ?case by (cases x; cases ys) auto
qed auto

lemma those_None: "those xs = None \<longleftrightarrow> None \<in> set xs"
proof (induction xs)
  case (Cons x xs)
  then show ?case by (cases x) auto
qed simp

lemma normalizeUnicode_defined:
  "normalizeUnicode lc v = (if fully_defined v then Some (sanitize lc v) else None)"
proof (induction lc v rule: normalizeUnicode.induct)
  case (2 lc vs)
  show ?case
  proof (cases "list_all fully_defined vs")
    case True
    then have "map (normalizeUnicode lc) vs = map Some (map (sanitize lc) vs)" using 2 by (simp add: list_all_iff)
    from those_Some[THEN iffD2, OF this] show ?thesis using True by simp
  next
    case False
    then obtain v where "v \<in> set vs" "\<not> fully_defined v" by (auto simp: list_all_iff)
    then have "None \<in> set (map (normalizeUnicode lc) vs)" using 2 by force
    then show ?thesis using False by (simp add: those_None)
  qed
next
  case (3 lc kvs)
  let ?f = "\<lambda>(k, r). map_option (Pair k) r"
  show ?case
  proof (cases "list_all (\<lambda>(k, v). fully_defined v) kvs")
    case True
    then have mapped: "map (\<lambda>(k, v). (k, normalizeUnicode lc v)) kvs =
        map (\<lambda>(k, w). (k, Some w)) (map (\<lambda>(k, v). (k, sanitize lc v)) kvs)"
      using 3 by (auto simp: list_all_iff)
    have sorted: "js_sort (cmp_on fst lc) (map (\<lambda>(k, w). (k, Some w)) kws) =
        map (\<lambda>(k, w). (k, Some w)) (js_sort (cmp_on fst lc) kws)" for kws :: js_record
      by (rule js_sort_map) (auto simp: cmp_on_def)
    have inner: "those (map ?f (map (\<lambda>(k, w). (k, Some w)) kws)) = Some kws" for kws :: js_record
      unfolding those_Some by auto
    show ?thesis using True
      by (simp only: normalizeUnicode.simps mapped sorted inner fully_defined.simps sanitize.simps option.map if_True)
  next
    case False
    then obtain k v where "(k, v) \<in> set kvs" "\<not> fully_defined v" by (auto simp: list_all_iff)
    then have "(k, None) \<in> set (map (\<lambda>(k, v). (k, normalizeUnicode lc v)) kvs)" using 3 by force
    then have "None \<in> set (map ?f (js_sort (cmp_on fst lc) (map (\<lambda>(k, v). (k, normalizeUnicode lc v)) kvs)))" by force
    then show ?thesis using False by (simp add: those_None del: set_map)
  qed
qed simp_all

text \<open>Serializing a value whose \<open>undefined\<close> are \<open>null\<close> already gives the same text.\<close>

lemma normalize_sanitize_idem: "wf_json v \<Longrightarrow> normalize (sanitize lc (sanitize lc v)) = normalize (sanitize lc v)"
proof (induction v rule: wf_json.induct)
  case (2 kvs)
  let ?m = "map (\<lambda>(k, v). (k, sanitize lc v))"
  let ?s = "\<lambda>kvs. assign_entries (js_sort (cmp_on fst lc) (?m kvs))"
  have dist: "distinct (map fst (?s kvs))" if "distinct (map fst kvs)" for kvs
  proof -
    have "distinct (map fst (js_sort (cmp_on fst lc) (?m kvs)))"
      using distinct_fst_perm[of "js_sort (cmp_on fst lc) (?m kvs)" "?m kvs"] that by (simp only: mset_js_sort fst_map_snd)
    then show ?thesis by (rule distinct_assign)
  qed
  have perm: "mset (normalize_members (?s kvs)) = mset (assign_entries (normalize_members (?m kvs)))" for kvs
    unfolding normalize_members_assign by (intro mset_assign_entries mset_normalize_members) simp
  have IH: "normalize (sanitize lc (sanitize lc v)) = normalize (sanitize lc v)" if "(k, v) \<in> set kvs" for k v
    using 2 that by (auto simp: list_all_iff)
  have "assign_entries (normalize_members (?m (?s kvs))) = assign_entries (normalize_members (?s kvs))"
    using IH by (auto simp: normalize_members_def set_assign_entries intro!: arg_cong[where f = assign_entries])
  then have "mset (normalize_members (?s (?s kvs))) = mset (assign_entries (normalize_members (?s kvs)))"
    using perm[of "?s kvs"] by simp
  also have "\<dots> = mset (normalize_members (?s kvs))"
    by (simp add: normalize_members_def assign_entries_def case_prod_unfold filter_map comp_def)
  finally have "js_sort (cmp_on fst code_unit_compare) (normalize_members (?s (?s kvs))) =
      js_sort (cmp_on fst code_unit_compare) (normalize_members (?s kvs))"
    by (rule sort_keys_perm) (use dist[OF dist] 2(2) in simp)
  then show ?case by (simp only: sanitize.simps normalize_obj)
qed (auto simp: list_all_iff)

definition stable_text :: "(string \<Rightarrow> string \<Rightarrow> int) \<Rightarrow> HashDomain \<Rightarrow> json \<Rightarrow> string" where
  "stable_text lc area v = domain_str area @ CHR 0x0A # js_default [] (serializeDeterministically lc v)"

lemma hash_stable:
  assumes "wf_json v"
  shows "hashStableContent lc sha area v = (if fully_defined v then Some (sha (stable_text lc area v)) else None)"
  using normalize_sanitize_idem[OF assms, of lc]
  by (simp add: hashStableContent_def normalizeUnicode_defined stable_text_def serializeDeterministically_def
      canonicalSerialize_def toDeterministicJson_def)

lemma hash_defined: "hashStableContent lc sha area v = None \<longleftrightarrow> \<not> fully_defined v"
  by (simp add: hashStableContent_def normalizeUnicode_defined)

lemma domain_str_inj: "domain_str a = domain_str b \<longleftrightarrow> a = b"
  by (cases a; cases b) simp_all

lemma domain_str_line: "CHR 0x0A \<notin> set (domain_str a)"
  by (cases a) simp_all

lemma stable_text_determines:
  assumes "stable_text lc a v = stable_text lc b w" and "wf_numbers v" and "wf_numbers w"
  shows "a = b \<and> decoded lc v = decoded lc w"
proof -
  have split: "takeWhile (\<lambda>c. c \<noteq> CHR 0x0A) (domain_str d @ CHR 0x0A # s) = domain_str d" for d and s :: string
    using domain_str_line[of d] by (subst takeWhile_append2) auto
  have "domain_str a = domain_str b" using split assms(1) unfolding stable_text_def by metis
  then have eq: "a = b" "js_default [] (serializeDeterministically lc v) = js_default [] (serializeDeterministically lc w)"
    using assms(1) by (simp_all add: domain_str_inj stable_text_def)
  have "\<exists>t. serializeDeterministically lc v = Some t" for v
    using json_text_None[of "normalize (sanitize lc v)"]
    by (auto simp: serializeDeterministically_def canonicalSerialize_def toDeterministicJson_def)
  then have "serializeDeterministically lc v = serializeDeterministically lc w" using eq(2) by (metis js_default_simps(2))
  from serialize_decoded[OF this assms(2,3)] eq(1) show ?thesis by simp
qed

section \<open>The migration chain\<close>

text \<open>
  What the chain from one version to another is: the first step that starts at the version, then the chain from
  where it leads; and the version at which the walk has no step to take.
\<close>

definition first_step :: "MigrationStep list \<Rightarrow> string \<Rightarrow> MigrationStep option" where
  "first_step steps v = find (\<lambda>step. mst_fromVersion step = v) steps"

inductive follows :: "MigrationStep list \<Rightarrow> string \<Rightarrow> string \<Rightarrow> MigrationStep list \<Rightarrow> bool" for steps where
  arrived: "follows steps v v []"
| onward: "v \<noteq> t \<Longrightarrow> first_step steps v = Some step \<Longrightarrow> follows steps (mst_toVersion step) t chain \<Longrightarrow>
     follows steps v t (step # chain)"

inductive strays :: "MigrationStep list \<Rightarrow> string \<Rightarrow> string \<Rightarrow> string \<Rightarrow> bool" for steps where
  stuck: "v \<noteq> t \<Longrightarrow> first_step steps v = None \<Longrightarrow> strays steps v t v"
| further: "v \<noteq> t \<Longrightarrow> first_step steps v = Some step \<Longrightarrow> strays steps (mst_toVersion step) t w \<Longrightarrow> strays steps v t w"

inductive_cases follows_end: "follows steps v v chain"

inductive_simps follows_Nil: "follows steps v t []"
inductive_simps follows_Cons: "follows steps v t (step # chain)"

lemma follows_unique: "follows steps v t chain \<Longrightarrow> follows steps v t chain' \<Longrightarrow> chain = chain'"
proof (induction arbitrary: chain' rule: follows.induct)
  case (arrived v)
  then show ?case by (rule follows_end) simp_all
next
  case (onward v t step chain)
  note IH = onward.IH and step = onward.hyps(1,2)
  from onward.prems show ?case
  proof (cases rule: follows.cases)
    case arrived
    then show ?thesis using step by simp
  next
    case (onward step' chain2)
    then have "step' = step" using step by simp
    then show ?thesis using onward IH by blast
  qed
qed

lemma follows_steps: "follows steps v t chain \<Longrightarrow> set chain \<subseteq> set steps"
  by (induction rule: follows.induct) (auto simp: first_step_def find_Some_iff)

definition loop_failure :: "string \<Rightarrow> VersioningFailure" where
  "loop_failure v = createVersioningFailure MIGRATION_CHAIN_INVALID (''Migration loop detected at '' @ v @ ''.'')
     (Some ''migrationChain'')"

definition unsupported_failure :: "string \<Rightarrow> string \<Rightarrow> VersioningFailure" where
  "unsupported_failure v t = createVersioningFailure MIGRATION_STEP_UNSUPPORTED
     (''No migration step found from '' @ v @ '' to '' @ t @ ''.'') (Some ''migrationChain'')"

lemma walkChain_eq:
  "walkChain steps t v visited chain =
     (if v = t then Inr chain
      else if v \<in> set visited then Inl [loop_failure v]
      else case first_step steps v of None \<Rightarrow> Inl [unsupported_failure v t]
        | Some step \<Rightarrow> walkChain steps t (mst_toVersion step) (set_add v visited) (chain @ [step]))"
  unfolding first_step_def loop_failure_def unsupported_failure_def by (rule walkChain.simps)

text \<open>
  Every visited version lies before the current one, so as long as the walk arrives or gets stuck it meets no
  version twice: the loop error is given only when it does neither.
\<close>

lemma walkChain_follows:
  assumes "follows steps v t chain" and "\<forall>u \<in> set visited. \<forall>c. follows steps u t c \<longrightarrow> length chain < length c"
  shows "walkChain steps t v visited acc = Inr (acc @ chain)"
  using assms
proof (induction arbitrary: visited acc rule: follows.induct)
  case (arrived v)
  then show ?case by (subst walkChain_eq) simp
next
  case (onward v t step chain)
  have here: "follows steps v t (step # chain)" by (rule follows.onward) (fact onward.hyps)+
  then have "v \<notin> set visited" using onward.prems less_irrefl by metis
  moreover have "length chain < length c" if "u \<in> insert v (set visited)" and at: "follows steps u t c" for u c
    using that(1)
  proof
    assume "u = v"
    then show ?thesis using follows_unique[OF here] at by force
  next
    assume "u \<in> set visited"
    then show ?thesis using onward.prems at Suc_lessD length_Cons by metis
  qed
  then have "\<forall>u \<in> set (set_add v visited). \<forall>c. follows steps u t c \<longrightarrow> length chain < length c" by simp
  ultimately show ?case using onward.hyps onward.IH by (subst walkChain_eq) simp
qed

text \<open>The number of steps to the place where the walk gets stuck.\<close>

inductive strays_in :: "MigrationStep list \<Rightarrow> string \<Rightarrow> string \<Rightarrow> string \<Rightarrow> nat \<Rightarrow> bool" for steps where
  stuck_in: "v \<noteq> t \<Longrightarrow> first_step steps v = None \<Longrightarrow> strays_in steps v t v 0"
| further_in: "v \<noteq> t \<Longrightarrow> first_step steps v = Some step \<Longrightarrow> strays_in steps (mst_toVersion step) t w n \<Longrightarrow>
    strays_in steps v t w (Suc n)"

lemma strays_in_unique: "strays_in steps v t w n \<Longrightarrow> strays_in steps v t w' m \<Longrightarrow> n = m"
proof (induction arbitrary: w' m rule: strays_in.induct)
  case (stuck_in v t)
  from stuck_in.prems show ?case by cases (use stuck_in.hyps in simp_all)
next
  case (further_in v t step w n)
  note IH = further_in.IH and step = further_in.hyps(1,2)
  from further_in.prems show ?case
  proof (cases rule: strays_in.cases)
    case stuck_in
    then show ?thesis using step by simp
  next
    case (further_in step' k)
    then have "step' = step" using step by simp
    then show ?thesis using further_in IH by blast
  qed
qed

lemma strays_ex: "strays steps v t w \<Longrightarrow> \<exists>n. strays_in steps v t w n"
  by (induction rule: strays.induct) (blast intro: strays_in.intros)+

lemma walkChain_strays:
  assumes "strays_in steps v t w n" and "\<forall>u \<in> set visited. \<forall>w' m. strays_in steps u t w' m \<longrightarrow> n < m"
  shows "walkChain steps t v visited acc = Inl [unsupported_failure w t]"
  using assms
proof (induction arbitrary: visited acc rule: strays_in.induct)
  case (stuck_in v t)
  then have "v \<notin> set visited" using strays_in.stuck_in less_irrefl by metis
  then show ?case using stuck_in by (subst walkChain_eq) simp
next
  case (further_in v t step w n)
  have here: "strays_in steps v t w (Suc n)" by (rule strays_in.further_in) (fact further_in.hyps)+
  then have "v \<notin> set visited" using further_in.prems less_irrefl by metis
  moreover have "n < m" if "u \<in> insert v (set visited)" and at: "strays_in steps u t w' m" for u w' m
    using that(1)
  proof
    assume "u = v"
    then show ?thesis using strays_in_unique[OF here] at by force
  next
    assume "u \<in> set visited"
    then show ?thesis using further_in.prems at Suc_lessD by blast
  qed
  then have "\<forall>u \<in> set (set_add v visited). \<forall>w' m. strays_in steps u t w' m \<longrightarrow> n < m" by simp
  ultimately show ?case using further_in.hyps further_in.IH by (subst walkChain_eq) simp
qed

lemma walkChain_cases:
  "(\<exists>chain. walkChain steps t v visited acc = Inr (acc @ chain) \<and> follows steps v t chain) \<or>
   (\<exists>w. walkChain steps t v visited acc = Inl [unsupported_failure w t] \<and> strays steps v t w) \<or>
   (\<exists>w. walkChain steps t v visited acc = Inl [loop_failure w])"
proof (induction steps t v visited acc rule: walkChain.induct)
  case (1 steps t v visited acc)
  note IH = 1[folded first_step_def]
  show ?case
  proof (cases "v = t \<or> v \<in> set visited")
    case True
    then show ?thesis by (subst (1 2 3) walkChain_eq) (auto intro: follows.intros)
  next
    case False
    show ?thesis
    proof (cases "first_step steps v")
      case None
      then show ?thesis using False by (subst (1 2 3) walkChain_eq) (auto intro: strays.intros)
    next
      case (Some step)
      then have run: "walkChain steps t v visited acc =
          walkChain steps t (mst_toVersion step) (set_add v visited) (acc @ [step])"
        using False by (subst walkChain_eq) simp
      show ?thesis unfolding run
        using IH[OF _ _ Some] False follows.onward[OF _ Some, of t] strays.further[OF _ Some, of t] by fastforce
    qed
  qed
qed

lemma resolve_exact:
  "(resolveMigrationChain v t steps = Inr chain \<longleftrightarrow> follows steps v t chain) \<and>
   (resolveMigrationChain v t steps = Inl [unsupported_failure w t] \<longleftrightarrow> strays steps v t w) \<and>
   ((\<exists>u. resolveMigrationChain v t steps = Inl [loop_failure u]) \<longleftrightarrow>
     \<not> (\<exists>c. follows steps v t c) \<and> \<not> (\<exists>u. strays steps v t u))"
proof -
  have resolve: "resolveMigrationChain v t steps = walkChain steps t v [] []"
    by (cases "v = t") (simp_all add: resolveMigrationChain_def walkChain_eq)
  have codes: "loop_failure u \<noteq> unsupported_failure u' t" for u u'
    by (simp add: loop_failure_def unsupported_failure_def createVersioningFailure_def)
  have arrive: "resolveMigrationChain v t steps = Inr c" if "follows steps v t c" for c
    using walkChain_follows[OF that, of "[]" "[]"] by (simp add: resolve)
  have stray: "resolveMigrationChain v t steps = Inl [unsupported_failure u t]" if "strays steps v t u" for u
    using strays_ex[OF that] walkChain_strays[of steps v t u _ "[]" "[]"] by (auto simp: resolve)
  have same: "u = u'" if "unsupported_failure u t = unsupported_failure u' t" for u u'
    using that by (simp add: unsupported_failure_def createVersioningFailure_def)
  note cases = walkChain_cases[of steps t v "[]" "[]", folded resolve, simplified]
  show ?thesis using cases arrive stray codes same by (metis Inl_inject Inr_inject list.inject sum.distinct(1))
qed

section \<open>The engine\<close>

definition ends_of :: "MigrationStep \<Rightarrow> string \<times> string" where
  "ends_of step = (mst_fromVersion step, mst_toVersion step)"

definition entry_ends :: "MigrationLineageEntry \<Rightarrow> string \<times> string" where
  "entry_ends e = (mle_fromVersion e, mle_toVersion e)"

lemma anchors_lineage [simp]: "anchors (a\<lparr>vra_migrationLineage := l\<rparr>) = anchors a"
  by (simp add: anchors_def)

lemma lineage_hash_defined: "\<exists>h. hashStableContent lc sha MIGRATION_LINEAGE (lineage_payload step s t) = Some h"
  using hash_defined[of lc sha MIGRATION_LINEAGE "lineage_payload step s t"]
  by (cases "hashStableContent lc sha MIGRATION_LINEAGE (lineage_payload step s t)") (simp_all add: lineage_payload_def)

lemma applyMigrations_guard:
  assumes "applyMigrations lc sha a l chain = Some (Inr (b, l'))"
  shows "anchors b = anchors a \<and> (\<exists>es. l' = l @ es \<and> vra_migrationLineage b = vra_migrationLineage a @ es \<and>
    map entry_ends es = map ends_of chain)"
  using assms
proof (induction chain arbitrary: a l)
  case (Cons step chain)
  then obtain migrated out h where out: "mst_migrate step a = Some migrated" "anchors out = anchors a"
    and run: "applyMigrations lc sha (out\<lparr>vra_migrationLineage := vra_migrationLineage a @
      [\<lparr>mle_fromVersion = mst_fromVersion step, mle_toVersion = mst_toVersion step, mle_lineageHash = h\<rparr>]\<rparr>)
      (l @ [\<lparr>mle_fromVersion = mst_fromVersion step, mle_toVersion = mst_toVersion step, mle_lineageHash = h\<rparr>]) chain =
      Some (Inr (b, l'))"
    by (auto simp: Let_def split: option.splits if_splits)
  from Cons.IH[OF run] out(2) show ?case by (auto simp: ends_of_def entry_ends_def)
qed simp

text \<open>
  The contract of a list of steps: on a usable artifact every step succeeds, leads to the version it names, keeps the
  anchors and the \<open>frame\<close> and seals what it returns.  Recording the lineage disturbs none of it.
\<close>

locale migration_steps =
  fixes steps :: "MigrationStep list" and usable sealed :: "VersionedReplayArtifact \<Rightarrow> bool"
    and frame :: "VersionedReplayArtifact \<Rightarrow> 'f"
  assumes step_runs: "step \<in> set steps \<Longrightarrow> usable a \<Longrightarrow>
      \<exists>b. mst_migrate step a = Some (success b) \<and> usable b \<and> sealed b \<and> anchors b = anchors a \<and> frame b = frame a \<and>
        vra_version b = mst_toVersion step"
    and lineage_free: "usable (a\<lparr>vra_migrationLineage := l\<rparr>) = usable a"
      "sealed (a\<lparr>vra_migrationLineage := l\<rparr>) = sealed a" "frame (a\<lparr>vra_migrationLineage := l\<rparr>) = frame a"
begin

lemma chain_runs:
  assumes "set chain \<subseteq> set steps" and "usable a"
  shows "\<exists>b es. applyMigrations lc sha a l chain = Some (Inr (b, l @ es)) \<and> frame b = frame a \<and>
    vra_migrationLineage b = vra_migrationLineage a @ es \<and> map entry_ends es = map ends_of chain \<and>
    (chain = [] \<and> b = a \<or> chain \<noteq> [] \<and> sealed b \<and> vra_version b = mst_toVersion (last chain))"
  using assms
proof (induction chain arbitrary: a l)
  case (Cons step chain)
  then obtain out where out: "mst_migrate step a = Some (success out)" "usable out" "sealed out" "anchors out = anchors a"
    "frame out = frame a" "vra_version out = mst_toVersion step" using step_runs[of step a] by auto
  obtain h where h: "hashStableContent lc sha MIGRATION_LINEAGE
      (lineage_payload step (vra_contentHash a) (vra_contentHash out)) = Some h" using lineage_hash_defined by blast
  let ?e = "\<lparr>mle_fromVersion = mst_fromVersion step, mle_toVersion = mst_toVersion step, mle_lineageHash = h\<rparr>"
  let ?out = "out\<lparr>vra_migrationLineage := vra_migrationLineage a @ [?e]\<rparr>"
  have run: "applyMigrations lc sha a l (step # chain) = applyMigrations lc sha ?out (l @ [?e]) chain"
    using out(1,4) h by (simp add: success_def Let_def)
  obtain b es where b: "applyMigrations lc sha ?out (l @ [?e]) chain = Some (Inr (b, (l @ [?e]) @ es))"
    "frame b = frame ?out" "vra_migrationLineage b = vra_migrationLineage ?out @ es" "map entry_ends es = map ends_of chain"
    "chain = [] \<and> b = ?out \<or> chain \<noteq> [] \<and> sealed b \<and> vra_version b = mst_toVersion (last chain)"
    using Cons.IH[of ?out "l @ [?e]"] Cons.prems(1) out(2) lineage_free(1) by auto
  have "entry_ends ?e = ends_of step" by (simp add: entry_ends_def ends_of_def)
  then show ?case unfolding run
    by (intro exI[of _ b] exI[of _ "?e # es"]) (use b out(3,5,6) lineage_free in auto)
qed simp

end

section \<open>The registered steps\<close>

text \<open>An artifact can be migrated when its audit carries the three hashes the content hash is taken of.\<close>

definition anchored :: "VersionedReplayArtifact \<Rightarrow> bool" where
  "anchored a \<longleftrightarrow> rar_executionTruthHash (vra_replayAuditResult a) \<noteq> None \<and>
     rar_executionCompatibilityHash (vra_replayAuditResult a) \<noteq> None \<and>
     rar_replaySnapshotHash (vra_replayAuditResult a) \<noteq> None"

definition sealed_by :: "(string \<Rightarrow> string \<Rightarrow> int) \<Rightarrow> (string \<Rightarrow> string) \<Rightarrow> VersionedReplayArtifact \<Rightarrow> bool" where
  "sealed_by lc sha a \<longleftrightarrow> hashStableContent lc sha PLAN (bumped_json a) = Some (vra_contentHash a)"

text \<open>All of an artifact but its version, content hash and lineage.\<close>

definition frame_of :: "VersionedReplayArtifact \<Rightarrow> VersionedReplayArtifact" where
  "frame_of a = a\<lparr>vra_version := [], vra_contentHash := [], vra_migrationLineage := []\<rparr>"

lemma bumped_hash: "hashStableContent lc sha PLAN (bumped_json a) = None \<longleftrightarrow> \<not> anchored a"
  by (auto simp: hash_defined bumped_json_def root_json_def lineage_invariant_json_def str_arr_def opt_json_def anchored_def
      list_all_iff split: option.splits)

lemma bump_runs:
  assumes "anchored a"
  shows "\<exists>b. bumpVersion lc sha a v = Some b \<and> anchored b \<and> sealed_by lc sha b \<and> anchors b = anchors a \<and>
    frame_of b = frame_of a \<and> vra_version b = v"
proof -
  have "anchored (a\<lparr>vra_version := v\<rparr>)" using assms by (simp add: anchored_def)
  then obtain h where h: "hashStableContent lc sha PLAN (bumped_json (a\<lparr>vra_version := v\<rparr>)) = Some h"
    using bumped_hash[of lc sha "a\<lparr>vra_version := v\<rparr>"] by blast
  then have "bumpVersion lc sha a v = Some (a\<lparr>vra_version := v, vra_contentHash := h\<rparr>)" by (simp add: bumpVersion_def)
  moreover have "sealed_by lc sha (a\<lparr>vra_version := v, vra_contentHash := h\<rparr>)"
    using h by (simp add: sealed_by_def bumped_json_def)
  ultimately show ?thesis using assms by (simp add: anchored_def anchors_def frame_of_def)
qed

interpretation registered: migration_steps "MIGRATIONS lc sha" anchored "sealed_by lc sha" frame_of for lc sha
proof
  fix step a
  assume "step \<in> set (MIGRATIONS lc sha)" and "anchored a"
  then show "\<exists>b. mst_migrate step a = Some (success b) \<and> anchored b \<and> sealed_by lc sha b \<and> anchors b = anchors a \<and>
      frame_of b = frame_of a \<and> vra_version b = mst_toVersion step"
    using bump_runs[of a lc sha "''4.2H.1''"] bump_runs[of a lc sha "''4.2I''"] by (auto simp: MIGRATIONS_def)
qed (simp_all add: anchored_def sealed_by_def bumped_json_def frame_of_def)

definition supported_versions :: "string list" where
  "supported_versions = [''4.2H'', ''4.2H.1'', ''4.2I'']"

definition upgrades :: "string \<Rightarrow> string \<Rightarrow> (string \<times> string) list option" where
  "upgrades s t =
     (if s = t then Some []
      else if s = ''4.2H'' \<and> t = ''4.2H.1'' then Some [(''4.2H'', ''4.2H.1'')]
      else if s = ''4.2H'' \<and> t = ''4.2I'' then Some [(''4.2H'', ''4.2H.1''), (''4.2H.1'', ''4.2I'')]
      else if s = ''4.2H.1'' \<and> t = ''4.2I'' then Some [(''4.2H.1'', ''4.2I'')]
      else None)"

lemma registry_entry:
  "getSchemaRegistryEntry lc sha v = None \<longleftrightarrow> v \<notin> set supported_versions"
  "getSchemaRegistryEntry lc sha v = Some e \<Longrightarrow> \<not> sre_deprecated e"
  by (auto simp: getSchemaRegistryEntry_def REGISTRY_def createEntry_def supported_versions_def split: if_splits)

lemma resolve_registered:
  assumes "s \<in> set supported_versions" and "t \<in> set supported_versions"
  shows "case upgrades s t of
      Some ps \<Rightarrow> \<exists>chain. resolveMigrationChain s t (MIGRATIONS lc sha) = Inr chain \<and> map ends_of chain = ps \<and>
        set chain \<subseteq> set (MIGRATIONS lc sha)
    | None \<Rightarrow> \<exists>f. resolveMigrationChain s t (MIGRATIONS lc sha) = Inl [f]"
  using assms
  by (auto simp: supported_versions_def upgrades_def resolveMigrationChain_def walkChain_eq first_step_def MIGRATIONS_def
      ends_of_def)

end
