(* ===== verification/VersioningRuns.thy ===== *)
theory VersioningRuns
  imports VersioningFacts ReplayAuditProperties
begin

text \<open>
  Runs of \<open>buildVersionedReplayReadiness\<close>: the contract under which an audited plan becomes ready, the parts of a run
  that never fail, what a ready run consists of, and that a ready audit of a compatible plan meets the contract.
\<close>

section \<open>The contract\<close>

definition source_agrees ::
  "(string \<Rightarrow> string \<Rightarrow> int) \<Rightarrow> (string \<Rightarrow> string) \<Rightarrow> ReplayAuditResult \<Rightarrow> ExecutionCompatibilityContract \<Rightarrow> ReplayAuditArtifacts
   \<Rightarrow> bool" where
  "source_agrees lc sha audit contract x \<longleftrightarrow>
     hashExecutionCompatibilityContract lc sha contract = xc_executionCompatibilityHash contract \<and>
     rar_executionCompatibilityHash audit = Some (xc_executionCompatibilityHash contract) \<and>
     rar_executionTruthHash audit = Some (xc_executionTruthHash contract) \<and>
     rcr_executionCompatibilityHash (raa_compatibilityReference x) = xc_executionCompatibilityHash contract \<and>
     rcr_executionTruthHash (raa_compatibilityReference x) = xc_executionTruthHash contract \<and>
     rar_replaySnapshotHash audit = Some (raa_replaySnapshotHash x) \<and>
     raa_replaySnapshotHash x = hashReplayInputSnapshot lc sha (input_snapshot_json (raa_replayInputSnapshot x))"

definition hashes_complete :: "ReplayAuditResult \<Rightarrow> bool" where
  "hashes_complete audit \<longleftrightarrow> rar_replayProofHash audit \<noteq> None \<and> rar_auditArtifactHash audit \<noteq> None \<and>
     rar_evidenceReferenceHash audit \<noteq> None"

definition ready_source ::
  "(string \<Rightarrow> string \<Rightarrow> int) \<Rightarrow> (string \<Rightarrow> string) \<Rightarrow> VersioningBuildInput \<Rightarrow> ReplayAuditArtifacts \<Rightarrow> bool" where
  "ready_source lc sha input x \<longleftrightarrow> rar_verdict (vbi_replayAuditResult input) = REPLAY_AUDIT_READY \<and>
     rar_artifacts (vbi_replayAuditResult input) = Some x \<and>
     source_agrees lc sha (vbi_replayAuditResult input) (vbi_executionCompatibilityContract input) x"

definition target_of :: "VersioningBuildInput \<Rightarrow> string" where
  "target_of input = js_default ''4.2I'' (vbi_targetVersion input)"

definition versioning_contract ::
  "(string \<Rightarrow> string \<Rightarrow> int) \<Rightarrow> (string \<Rightarrow> string) \<Rightarrow> VersioningBuildInput \<Rightarrow> bool" where
  "versioning_contract lc sha input \<longleftrightarrow>
     (\<exists>x. ready_source lc sha input x \<and> hashes_complete (vbi_replayAuditResult input) \<and>
       ris_snapshotVersion (raa_replayInputSnapshot x) \<in> set supported_versions \<and>
       target_of input \<in> set supported_versions \<and>
       upgrades (ris_snapshotVersion (raa_replayInputSnapshot x)) (target_of input) \<noteq> None)"

lemma hash_runs: "fully_defined v \<Longrightarrow> \<exists>h. hashStableContent lc sha area v = Some h"
  using hash_defined[of lc sha area v] by auto

lemma frame_field: "frame_of b = frame_of a \<Longrightarrow> (\<And>x. f (frame_of x) = f x) \<Longrightarrow> f b = f a"
  by metis

lemma frame_fields:
  assumes "frame_of b = frame_of a"
  shows "vra_executionCompatibilityContract b = vra_executionCompatibilityContract a"
    and "vra_replayAuditResult b = vra_replayAuditResult a"
    and "vra_immutableReplayIdentityRoot b = vra_immutableReplayIdentityRoot a"
    and "vra_replayLineageInvariant b = vra_replayLineageInvariant a"
    and "vra_approvalImpact b = vra_approvalImpact a" and "vra_governanceImpact b = vra_governanceImpact a"
  by (rule frame_field[OF assms], simp add: frame_of_def)+

lemma versioning_failure_Nil: "versioning_failure_if b code m p = [] \<longleftrightarrow> \<not> b"
  by (simp add: versioning_failure_if_def)

lemma sourceFailures_Nil: "sourceFailures lc sha audit contract x = [] \<longleftrightarrow> source_agrees lc sha audit contract x"
  unfolding sourceFailures_def source_agrees_def Let_def append_is_Nil_conv versioning_failure_Nil by auto

section \<open>The parts that never fail\<close>

definition source_root :: "VersioningBuildInput \<Rightarrow> ImmutableReplayIdentityRoot" where
  "source_root input =
     buildImmutableReplayIdentityRoot (vbi_replayAuditResult input) (vbi_executionCompatibilityContract input)"

lemma source_content_defined:
  "hashStableContent lc sha area (source_content_json v root audit) = None \<longleftrightarrow> \<not> hashes_complete audit"
  by (auto simp: hash_defined source_content_json_def opt_json_def hashes_complete_def split: option.splits)

lemma schema_hash_defined: "hashStableContent lc sha area (JObj [(k, JStr s), (k', JStr s')]) \<noteq> None"
  by (simp add: hash_defined)

lemma source_artifact_None:
  "buildSourceArtifact lc sha input = None \<longleftrightarrow> \<not> hashes_complete (vbi_replayAuditResult input)"
proof -
  have "\<exists>h. (case getSchemaRegistryEntry lc sha v of Some entry \<Rightarrow> Some (sre_schemaHash entry)
      | None \<Rightarrow> hashStableContent lc sha GOVERNANCE (JObj
          [(''sourceVersion'', JStr v), (''artifactType'', JStr ''replay-audit-result'')])) = Some h" for v
    using schema_hash_defined by (cases "getSchemaRegistryEntry lc sha v") (simp_all flip: not_None_eq)
  then obtain h where h: "\<And>v. (case getSchemaRegistryEntry lc sha v of Some entry \<Rightarrow> Some (sre_schemaHash entry)
      | None \<Rightarrow> hashStableContent lc sha GOVERNANCE (JObj
          [(''sourceVersion'', JStr v), (''artifactType'', JStr ''replay-audit-result'')])) = Some (h v)" by metis
  show ?thesis
    unfolding buildSourceArtifact_def Let_def h Option.bind.bind_lunit
    by (simp add: bind_eq_None_conv source_content_defined)
qed

lemma source_artifact_Some:
  assumes "buildSourceArtifact lc sha input = Some a" and "rar_artifacts (vbi_replayAuditResult input) = Some x"
  shows "vra_version a = ris_snapshotVersion (raa_replayInputSnapshot x)"
    and "vra_replayAuditResult a = vbi_replayAuditResult input"
    and "vra_executionCompatibilityContract a = vbi_executionCompatibilityContract input"
    and "vra_immutableReplayIdentityRoot a = source_root input" and "vra_migrationLineage a = []"
    and "vra_replayLineageInvariant a = buildReplayLineageInvariant (source_root input) []"
    and "vra_approvalImpact a = PRESERVED" and "vra_governanceImpact a = PRESERVED"
    and "hashStableContent lc sha PLAN (source_content_json (vra_version a) (source_root input) (vbi_replayAuditResult input)) =
      Some (vra_contentHash a)"
  using assms by (auto simp: buildSourceArtifact_def Let_def source_root_def split: Option.bind_splits option.splits)

lemma proof_defined: "\<exists>p. buildMigrationProof lc sha a b = Some p"
proof -
  have "\<exists>h. hashStableContent lc sha MIGRATION_LINEAGE (proof_core_json s t chain c g) = Some h" for s t chain c g
    by (rule hash_runs) (simp add: proof_core_json_def str_arr_def list_all_iff)
  then show ?thesis by (simp add: buildMigrationProof_def Let_def)
qed

lemma event_defined: "fully_defined (JObj payload) \<Longrightarrow> \<exists>e. versioningEvent lc sha planId (t, payload) = Some e"
  by (auto simp: versioningEvent_def bind_eq_None_conv hash_defined versioning_event_fields_def simp flip: not_None_eq)

lemma payloads_defined: "payload \<in> set (versioning_payloads a p) \<Longrightarrow> fully_defined (JObj payload)"
  by (auto simp: versioning_payloads_def lineage_json_def lineage_invariant_json_def str_arr_def list_all_iff)

lemma events_defined: "\<exists>es. buildMigrationAuditEvents lc sha a p = Some es"
proof -
  have "versioningEvent lc sha planId tp \<noteq> None" if "tp \<in> set (zip VERSIONING_EVENT_TYPES (versioning_payloads a p))" for planId tp
  proof -
    have "snd tp \<in> set (versioning_payloads a p)" using that by (metis set_zip_rightD surjective_pairing)
    from event_defined[OF payloads_defined[OF this], of lc sha planId "fst tp"] show ?thesis by auto
  qed
  then have "buildMigrationAuditEvents lc sha a p \<noteq> None" 
    unfolding buildMigrationAuditEvents_def those_None set_map image_iff by metis
  then show ?thesis by blast
qed

text \<open>The artifact a run ends with: the migrated one with its lineage written into the invariant.\<close>

definition with_lineage :: "VersionedReplayArtifact \<Rightarrow> VersionedReplayArtifact" where
  "with_lineage b = b\<lparr>vra_replayLineageInvariant :=
     buildReplayLineageInvariant (vra_immutableReplayIdentityRoot b) (vra_migrationLineage b)\<rparr>"

lemma complete_runs:
  assumes "frame_of b = frame_of a" and "vra_migrationLineage b = lineage"
    and "vra_approvalImpact a = PRESERVED" and "vra_governanceImpact a = PRESERVED"
  obtains p events where "completeReadiness lc sha a b lineage = Some \<lparr>vrr_ok = True, vrr_artifact = Some (with_lineage b),
      vrr_migrationProof = Some p, vrr_auditEvents = Some events, vrr_failures = []\<rparr>"
    and "buildMigrationProof lc sha a (with_lineage b) = Some p"
proof -
  have kept: "vra_executionCompatibilityContract b = vra_executionCompatibilityContract a"
    "vra_immutableReplayIdentityRoot b = vra_immutableReplayIdentityRoot a"
    "vra_approvalImpact b = PRESERVED" "vra_governanceImpact b = PRESERVED"
    using frame_fields[OF assms(1)] assms(3,4) by simp_all
  obtain p where p: "buildMigrationProof lc sha a (with_lineage b) = Some p" using proof_defined by blast
  obtain events where events: "buildMigrationAuditEvents lc sha (with_lineage b) p = Some events" using events_defined by blast
  have artifact: "b\<lparr>vra_replayLineageInvariant := buildReplayLineageInvariant (vra_immutableReplayIdentityRoot a) lineage,
      vra_approvalImpact := PRESERVED, vra_governanceImpact := PRESERVED\<rparr> = with_lineage b"
    using kept assms(2) by (simp add: with_lineage_def)
  have assessed: "assessGovernanceMigrationImpact c c = (PRESERVED, PRESERVED, [])" for c
    by (simp add: assessGovernanceMigrationImpact_def versioning_failure_if_def)
  have "validateLineagePreservation (with_lineage b) = []"
    by (simp add: validateLineagePreservation_def with_lineage_def buildReplayLineageInvariant_def versioning_failure_if_def)
  then have "completeReadiness lc sha a b lineage = Some \<lparr>vrr_ok = True, vrr_artifact = Some (with_lineage b),
      vrr_migrationProof = Some p, vrr_auditEvents = Some events, vrr_failures = []\<rparr>"
    using p events by (simp add: completeReadiness_def kept(1) assessed artifact)
  with p show thesis by (rule that[rotated])
qed

section \<open>Runs\<close>

definition origin_of :: "ReplayAuditArtifacts \<Rightarrow> string" where
  "origin_of x = ris_snapshotVersion (raa_replayInputSnapshot x)"

lemma not_ready:
  assumes "\<not> (\<exists>x. ready_source lc sha input x)"
  shows "\<exists>r. buildVersionedReplayReadiness lc sha input = Some r \<and> \<not> vrr_ok r"
  using assms
  by (cases "rar_verdict (vbi_replayAuditResult input)"; cases "rar_artifacts (vbi_replayAuditResult input)")
    (auto simp: buildVersionedReplayReadiness_def Let_def ready_source_def sourceFailures_Nil blockedReadiness_def)

lemma ready_source_run:
  assumes "ready_source lc sha input x"
  shows "buildVersionedReplayReadiness lc sha input = do {
      a \<leftarrow> buildSourceArtifact lc sha input;
      (if origin_of x \<notin> set supported_versions \<or> target_of input \<notin> set supported_versions
       then Some (blockedReadiness registryMissing)
       else do {
         migrated \<leftarrow> migrateVersionedArtifact lc sha a (target_of input) (getMigrationSteps lc sha);
         (case migrated of Inl failures \<Rightarrow> Some (blockedReadiness failures)
          | Inr (b, lineage) \<Rightarrow> completeReadiness lc sha a b lineage)
       })}"
proof (cases "buildSourceArtifact lc sha input")
  case None
  then show ?thesis
    using assms by (simp add: buildVersionedReplayReadiness_def Let_def ready_source_def sourceFailures_Nil)
next
  case (Some a)
  have version: "vra_version a = origin_of x"
    using source_artifact_Some(1)[OF Some] assms by (simp add: ready_source_def origin_of_def)
  have "buildVersionedReplayReadiness lc sha input =
     (case (getSchemaRegistryEntry lc sha (origin_of x), getSchemaRegistryEntry lc sha (target_of input)) of
        (Some sourceEntry, Some targetEntry) \<Rightarrow>
          if sre_deprecated sourceEntry \<or> sre_deprecated targetEntry
          then Some (blockedReadiness [createVersioningFailure VERSION_UNSUPPORTED
            ''Deprecated schema versions are blocked.'' (Some ''schemaRegistry'')])
          else do {
            migrated \<leftarrow> migrateVersionedArtifact lc sha a (target_of input) (getMigrationSteps lc sha);
            (case migrated of Inl failures \<Rightarrow> Some (blockedReadiness failures)
             | Inr (b, lineage) \<Rightarrow> completeReadiness lc sha a b lineage)
          }
      | _ \<Rightarrow> Some (blockedReadiness registryMissing))"
    using assms Some version
    by (simp add: buildVersionedReplayReadiness_def Let_def ready_source_def sourceFailures_Nil flip: target_of_def)
  also have "\<dots> = (if origin_of x \<notin> set supported_versions \<or> target_of input \<notin> set supported_versions
       then Some (blockedReadiness registryMissing)
       else do {
         migrated \<leftarrow> migrateVersionedArtifact lc sha a (target_of input) (getMigrationSteps lc sha);
         (case migrated of Inl failures \<Rightarrow> Some (blockedReadiness failures)
          | Inr (b, lineage) \<Rightarrow> completeReadiness lc sha a b lineage)
       })"
    using registry_entry(1)[of lc sha "origin_of x"] registry_entry(1)[of lc sha "target_of input"]
      registry_entry(2)[of lc sha "origin_of x"] registry_entry(2)[of lc sha "target_of input"]
    by (cases "getSchemaRegistryEntry lc sha (origin_of x)"; cases "getSchemaRegistryEntry lc sha (target_of input)") simp_all
  finally show ?thesis by (simp add: Some)
qed

lemma migrate_resolved:
  assumes "vra_version a \<in> set supported_versions" and "t \<in> set supported_versions"
  shows "migrateVersionedArtifact lc sha a t steps =
    (case resolveMigrationChain (vra_version a) t steps of Inl failures \<Rightarrow> Some (Inl failures)
     | Inr chain \<Rightarrow> applyMigrations lc sha a [] chain)"
  using assms registry_entry(1) by (simp add: migrateVersionedArtifact_def)

lemma upgrades_end: "upgrades s t = Some ps \<Longrightarrow> ps \<noteq> [] \<Longrightarrow> snd (last ps) = t"
  by (auto simp: upgrades_def split: if_splits)

text \<open>What a ready run consists of.\<close>

definition migrated_to ::
  "(string \<Rightarrow> string \<Rightarrow> int) \<Rightarrow> (string \<Rightarrow> string) \<Rightarrow> VersionedReplayArtifact \<Rightarrow> string \<Rightarrow> VersionedReplayArtifact \<Rightarrow> bool" where
  "migrated_to lc sha a t b \<longleftrightarrow> frame_of b = frame_of a \<and> vra_version b = t \<and>
     upgrades (vra_version a) t = Some (map entry_ends (vra_migrationLineage b)) \<and>
     (vra_migrationLineage b = [] \<and> b = a \<or> vra_migrationLineage b \<noteq> [] \<and> sealed_by lc sha b)"

lemma upgrade_runs:
  assumes "anchored a" and "vra_migrationLineage a = []" and "vra_version a \<in> set supported_versions"
    and "t \<in> set supported_versions" and "upgrades (vra_version a) t = Some ps"
  obtains b where "migrateVersionedArtifact lc sha a t (getMigrationSteps lc sha) = Some (Inr (b, vra_migrationLineage b))"
    and "migrated_to lc sha a t b"
proof -
  obtain chain where chain: "resolveMigrationChain (vra_version a) t (MIGRATIONS lc sha) = Inr chain"
    "map ends_of chain = ps" "set chain \<subseteq> set (MIGRATIONS lc sha)"
    using resolve_registered[OF assms(3,4), of lc sha] assms(5) by auto
  obtain b es where b: "applyMigrations lc sha a [] chain = Some (Inr (b, es))" "frame_of b = frame_of a"
    "vra_migrationLineage b = es" "map entry_ends es = ps"
    "chain = [] \<and> b = a \<or> chain \<noteq> [] \<and> sealed_by lc sha b \<and> vra_version b = mst_toVersion (last chain)"
    using registered.chain_runs[OF chain(3) assms(1), of lc sha "[]"] assms(2) chain(2) by auto
  have "vra_version b = t"
  proof (cases "chain = []")
    case True
    then show ?thesis using b(5) chain(2) assms(5) by (auto simp: upgrades_def split: if_splits)
  next
    case False
    then have "snd (last ps) = mst_toVersion (last chain)" using chain(2) by (auto simp: last_map ends_of_def)
    then show ?thesis using b(5) False upgrades_end[OF assms(5)] chain(2) by auto
  qed
  moreover have "es = [] \<longleftrightarrow> chain = []" using b(4) chain(2) by auto
  ultimately show thesis
    using b chain(1) assms(5)
    by (intro that[of b]) (auto simp: migrate_resolved[OF assms(3,4)] getMigrationSteps_def migrated_to_def)
qed

lemma ready_anchored:
  assumes "ready_source lc sha input x" and "buildSourceArtifact lc sha input = Some a"
  shows "anchored a"
  using assms source_artifact_Some(2)[OF assms(2), of x]
  by (auto simp: anchored_def ready_source_def source_agrees_def)

lemma supported_run:
  assumes "ready_source lc sha input x" and "buildSourceArtifact lc sha input = Some a"
    and "origin_of x \<in> set supported_versions" and "target_of input \<in> set supported_versions"
    and "upgrades (origin_of x) (target_of input) = Some ps"
  obtains b p events where "buildVersionedReplayReadiness lc sha input =
      Some \<lparr>vrr_ok = True, vrr_artifact = Some (with_lineage b), vrr_migrationProof = Some p,
            vrr_auditEvents = Some events, vrr_failures = []\<rparr>"
    and "migrated_to lc sha a (target_of input) b" and "buildMigrationProof lc sha a (with_lineage b) = Some p"
proof -
  have x: "rar_artifacts (vbi_replayAuditResult input) = Some x" using assms(1) by (simp add: ready_source_def)
  note source = source_artifact_Some[OF assms(2) x, folded origin_of_def]
  obtain b where b: "migrateVersionedArtifact lc sha a (target_of input) (getMigrationSteps lc sha) =
      Some (Inr (b, vra_migrationLineage b))" "migrated_to lc sha a (target_of input) b"
    using upgrade_runs[OF ready_anchored[OF assms(1,2)] source(5)] assms(3-5) unfolding source(1) by blast
  from complete_runs[of b a "vra_migrationLineage b" lc sha] b(2) source(7,8)
  obtain p events where "completeReadiness lc sha a b (vra_migrationLineage b) =
      Some \<lparr>vrr_ok = True, vrr_artifact = Some (with_lineage b), vrr_migrationProof = Some p,
            vrr_auditEvents = Some events, vrr_failures = []\<rparr>"
    "buildMigrationProof lc sha a (with_lineage b) = Some p" unfolding migrated_to_def by metis
  with b assms(2-4) show thesis by (intro that) (simp_all add: ready_source_run[OF assms(1)])
qed

lemma unsupported_run:
  assumes "ready_source lc sha input x" and "buildSourceArtifact lc sha input = Some a"
    and "\<not> (origin_of x \<in> set supported_versions \<and> target_of input \<in> set supported_versions \<and>
      upgrades (origin_of x) (target_of input) \<noteq> None)"
  shows "\<exists>r. buildVersionedReplayReadiness lc sha input = Some r \<and> \<not> vrr_ok r"
proof (cases "origin_of x \<in> set supported_versions \<and> target_of input \<in> set supported_versions")
  case True
  then have none: "upgrades (origin_of x) (target_of input) = None" using assms(3) by simp
  have version: "vra_version a = origin_of x"
    using source_artifact_Some(1)[OF assms(2)] assms(1) by (simp add: ready_source_def origin_of_def)
  obtain f where "resolveMigrationChain (origin_of x) (target_of input) (MIGRATIONS lc sha) = Inl [f]"
    using resolve_registered[of "origin_of x" "target_of input" lc sha] True none by auto
  then have "migrateVersionedArtifact lc sha a (target_of input) (getMigrationSteps lc sha) = Some (Inl [f])"
    using True version by (simp add: migrate_resolved getMigrationSteps_def)
  then show ?thesis using True by (simp add: ready_source_run[OF assms(1)] assms(2) blockedReadiness_def)
next
  case False
  then show ?thesis by (auto simp: ready_source_run[OF assms(1)] assms(2) blockedReadiness_def)
qed

section \<open>Audited plans\<close>

definition versioningInput ::
  "ReplayAuditResult \<Rightarrow> ExecutionCompatibilityContract \<Rightarrow> string option \<Rightarrow> VersioningBuildInput" where
  "versioningInput audit contract target =
     \<lparr>vbi_replayAuditResult = audit, vbi_executionCompatibilityContract = contract, vbi_targetVersion = target\<rparr>"

text \<open>The result of the audit of a compatible plan can be versioned.\<close>

lemma contract_hash_kept:
  assumes "validateExecutionCompatibility lc sha ci = Some (CompatibilityOk c vs)"
  shows "hashExecutionCompatibilityContract lc sha c = xc_executionCompatibilityHash c"
  using compatible_shape[OF assms] by (auto simp: hashExecutionCompatibilityContract_def compatibility_payload_def)

lemma ready_audit_source:
  assumes "rar_verdict (buildReplayAuditReadiness lc sha input) = REPLAY_AUDIT_READY"
    and "hashExecutionCompatibilityContract lc sha (rai_contract input) = xc_executionCompatibilityHash (rai_contract input)"
  obtains x where "ready_source lc sha (versioningInput (buildReplayAuditReadiness lc sha input) (rai_contract input) target) x"
    and "origin_of x = ''4.2H''" and "hashes_complete (buildReplayAuditReadiness lc sha input)"
proof (rule ready_run[OF assms(1)])
  fix s h
  assume run: "buildReplayAuditReadiness lc sha input = completeAudit lc sha input (derivePlanHash sha (rai_normalizedPlan input))
      (buildCompatibilityHashReference (rai_contract input) h) h []"
  let ?r = "completeAudit lc sha input (derivePlanHash sha (rai_normalizedPlan input))
      (buildCompatibilityHashReference (rai_contract input) h) h []"
  have fields: "rar_artifacts ?r = Some (the (rar_artifacts ?r))"
    "raa_replayInputSnapshot (the (rar_artifacts ?r)) = buildReplayInputSnapshot input (derivePlanHash sha (rai_normalizedPlan input)) h"
    "raa_compatibilityReference (the (rar_artifacts ?r)) = buildCompatibilityHashReference (rai_contract input) h"
    "raa_replaySnapshotHash (the (rar_artifacts ?r)) = hashReplayInputSnapshot lc sha
      (input_snapshot_json (buildReplayInputSnapshot input (derivePlanHash sha (rai_normalizedPlan input)) h))"
    "rar_replaySnapshotHash ?r = Some (raa_replaySnapshotHash (the (rar_artifacts ?r)))"
    "rar_executionTruthHash ?r = Some (xc_executionTruthHash (rai_contract input))"
    "rar_executionCompatibilityHash ?r = Some (xc_executionCompatibilityHash (rai_contract input))"
    "hashes_complete ?r"
    by (simp_all add: completeAudit_def Let_def buildEvidenceReference_def buildCompatibilityHashReference_def hashes_complete_def)
  show thesis
  proof (rule that)
    show "ready_source lc sha (versioningInput (buildReplayAuditReadiness lc sha input) (rai_contract input) target) (the (rar_artifacts ?r))"
      using assms fields unfolding ready_source_def versioningInput_def source_agrees_def run
      by (simp add: buildCompatibilityHashReference_def)
    show "origin_of (the (rar_artifacts ?r)) = ''4.2H''" by (simp add: origin_of_def fields(2) buildReplayInputSnapshot_def)
    show "hashes_complete (buildReplayAuditReadiness lc sha input)" unfolding run by (rule fields(8))
  qed
qed

lemma audited_versioning_contract:
  assumes "rar_verdict (buildReplayAuditReadiness lc sha input) = REPLAY_AUDIT_READY"
    and "hashExecutionCompatibilityContract lc sha (rai_contract input) = xc_executionCompatibilityHash (rai_contract input)"
    and "js_default ''4.2I'' target \<in> set supported_versions"
  shows "versioning_contract lc sha (versioningInput (buildReplayAuditReadiness lc sha input) (rai_contract input) target)"
proof (rule ready_audit_source[OF assms(1,2), of target])
  fix x
  assume x: "ready_source lc sha (versioningInput (buildReplayAuditReadiness lc sha input) (rai_contract input) target) x"
    "origin_of x = ''4.2H''" "hashes_complete (buildReplayAuditReadiness lc sha input)"
  have "\<exists>ps. upgrades ''4.2H'' t = Some ps" if "t \<in> set supported_versions" for t
    using that by (auto simp: supported_versions_def upgrades_def)
  with x assms(3) show ?thesis
    unfolding versioning_contract_def target_of_def origin_of_def[symmetric]
    by (intro exI[of _ x]) (auto simp: versioningInput_def supported_versions_def)
qed

lemma contract_run:
  assumes "versioning_contract lc sha input"
  obtains a b p events where "buildSourceArtifact lc sha input = Some a"
    and "buildVersionedReplayReadiness lc sha input =
      Some \<lparr>vrr_ok = True, vrr_artifact = Some (with_lineage b), vrr_migrationProof = Some p,
            vrr_auditEvents = Some events, vrr_failures = []\<rparr>"
    and "migrated_to lc sha a (target_of input) b" and "buildMigrationProof lc sha a (with_lineage b) = Some p"
    and "vra_version a = irr_canonicalOriginVersion (source_root input)"
    and "vra_replayAuditResult a = vbi_replayAuditResult input"
    and "vra_executionCompatibilityContract a = vbi_executionCompatibilityContract input"
    and "vra_immutableReplayIdentityRoot a = source_root input"
    and "vra_replayLineageInvariant a = buildReplayLineageInvariant (source_root input) []"
    and "vra_approvalImpact a = PRESERVED" and "vra_governanceImpact a = PRESERVED"
    and "hashStableContent lc sha PLAN (source_content_json (irr_canonicalOriginVersion (source_root input)) (source_root input)
        (vbi_replayAuditResult input)) = Some (vra_contentHash a)"
proof -
  obtain x ps where x: "ready_source lc sha input x" "hashes_complete (vbi_replayAuditResult input)"
    "origin_of x \<in> set supported_versions" "target_of input \<in> set supported_versions"
    "upgrades (origin_of x) (target_of input) = Some ps"
    using assms by (auto simp: versioning_contract_def origin_of_def)
  obtain a where a: "buildSourceArtifact lc sha input = Some a" using source_artifact_None[of lc sha input] x(2) by auto
  have artifacts: "rar_artifacts (vbi_replayAuditResult input) = Some x" using x(1) by (simp add: ready_source_def)
  note source = source_artifact_Some[OF a artifacts]
  have "irr_canonicalOriginVersion (source_root input) = vra_version a"
    using artifacts source(1) by (simp add: source_root_def buildImmutableReplayIdentityRoot_def)
  then show thesis
    using that[OF a] supported_run[OF x(1) a x(3-5)] source by metis
qed

lemma contract_exact:
  "((\<exists>r. buildVersionedReplayReadiness lc sha input = Some r \<and> vrr_ok r) \<longleftrightarrow> versioning_contract lc sha input) \<and>
   (buildVersionedReplayReadiness lc sha input = None \<longleftrightarrow>
     (\<exists>x. ready_source lc sha input x) \<and> \<not> hashes_complete (vbi_replayAuditResult input))"
proof (cases "\<exists>x. ready_source lc sha input x")
  case False
  then show ?thesis using not_ready[OF False] by (auto simp: versioning_contract_def)
next
  case True
  then obtain x where x: "ready_source lc sha input x" by blast
  have unique: "y = x" if "ready_source lc sha input y" for y using that x by (simp add: ready_source_def)
  show ?thesis
  proof (cases "buildSourceArtifact lc sha input")
    case None
    then show ?thesis using x source_artifact_None[of lc sha input]
      by (auto simp: ready_source_run[OF x] versioning_contract_def)
  next
    case (Some a)
    then have complete: "hashes_complete (vbi_replayAuditResult input)" using source_artifact_None[of lc sha input] by simp
    show ?thesis
    proof (cases "versioning_contract lc sha input")
      case True
      then show ?thesis using contract_run[OF True] complete by (metis VersionedReplayReadinessResult.select_convs(1) option.distinct(1))
    next
      case False
      then have "\<not> (origin_of x \<in> set supported_versions \<and> target_of input \<in> set supported_versions \<and>
          upgrades (origin_of x) (target_of input) \<noteq> None)"
        using x complete by (auto simp: versioning_contract_def origin_of_def)
      with unsupported_run[OF x Some] False complete show ?thesis by auto
    qed
  qed
qed

end
