(* ===== verification/VersioningProperties.thy ===== *)
theory VersioningProperties
  imports VersioningRuns
begin

text \<open>
  What versioning guarantees: when an audited plan becomes ready (\<open>versioning_contract\<close>), what the migrated artifact
  keeps, which versions a chain is found between, what the migration proof commits to, and what the content
  hash leaves out.
\<close>

section \<open>What the hashes cover\<close>

lemma json_facts [simp]:
  "wf_json (source_content_json v root audit)" "wf_numbers (source_content_json v root audit)"
  "wf_json (bumped_json a)" "wf_numbers (bumped_json a)"
  "wf_json (proof_core_json s t chain c g)" "wf_numbers (proof_core_json s t chain c g)"
  by (auto simp: source_content_json_def bumped_json_def proof_core_json_def root_json_def lineage_invariant_json_def str_arr_def
      opt_json_def list_all_iff split: option.splits)

lemma stable_hash: "hashStableContent lc sha area v = Some h \<Longrightarrow> wf_json v \<Longrightarrow> h = sha (stable_text lc area v)"
  by (simp add: hash_stable split: if_splits)

lemma decoded_bumped:
  assumes "decoded lc (bumped_json a) = decoded lc (bumped_json b)"
  shows "rli_migrationLineageHashes (vra_replayLineageInvariant a) = rli_migrationLineageHashes (vra_replayLineageInvariant b)"
proof -
  from decoded_record[OF assms[unfolded bumped_json_def]]
  have "decoded lc (lineage_invariant_json (vra_replayLineageInvariant a)) = decoded lc (lineage_invariant_json (vra_replayLineageInvariant b))"
    by simp
  from decoded_record[OF this[unfolded lineage_invariant_json_def]] show ?thesis by simp
qed

lemma decoded_source:
  assumes "decoded lc (source_content_json v r audit) = decoded lc (source_content_json w r' audit')"
  shows "v = w \<and> irr_executionTruthHash r = irr_executionTruthHash r' \<and>
    irr_executionCompatibilityHash r = irr_executionCompatibilityHash r' \<and>
    irr_initialReplaySnapshotHash r = irr_initialReplaySnapshotHash r' \<and>
    rar_replayProofHash audit = rar_replayProofHash audit' \<and> rar_auditArtifactHash audit = rar_auditArtifactHash audit' \<and>
    rar_evidenceReferenceHash audit = rar_evidenceReferenceHash audit'"
  using decoded_record[OF assms[unfolded source_content_json_def]] by simp

lemma decoded_proof:
  assumes "decoded lc (proof_core_json s t chain c g) = decoded lc (proof_core_json s' t' chain' c' g')"
  shows "s = s' \<and> t = t' \<and> chain = chain' \<and> c = c' \<and> g = g'"
  using decoded_record[OF assms[unfolded proof_core_json_def]] by simp

lemma proof_fields_of:
  assumes "buildMigrationProof lc sha a b = Some p"
  shows "mip_sourceHash p = vra_contentHash a" and "mip_targetHash p = vra_contentHash b"
    and "mip_migrationChain p = map (\<lambda>(f, t). f @ ''->'' @ t) (map entry_ends (vra_migrationLineage b))"
    and "vra_immutableReplayIdentityRoot b = vra_immutableReplayIdentityRoot a \<Longrightarrow> mip_replayCompatibilityResult p = ''PRESERVED''"
    and "mip_proofHash p = sha (stable_text lc MIGRATION_LINEAGE (proof_core_json (mip_sourceHash p) (mip_targetHash p)
      (mip_migrationChain p) (mip_replayCompatibilityResult p) (mip_governanceImpact p)))"
  using assms stable_hash[of lc sha MIGRATION_LINEAGE]
  by (auto simp: buildMigrationProof_def Let_def entry_ends_def comp_def)

lemma artifact_faithful:
  assumes "buildVersionedReplayReadiness lc sha input = Some r" and "vrr_ok r"
  shows "\<exists>a p. vrr_artifact r = Some a \<and> vrr_migrationProof r = Some p \<and> vrr_failures r = [] \<and>
    vra_version a = target_of input \<and> vra_replayAuditResult a = vbi_replayAuditResult input \<and>
    vra_executionCompatibilityContract a = vbi_executionCompatibilityContract input \<and>
    vra_immutableReplayIdentityRoot a = source_root input \<and>
    vra_approvalImpact a = PRESERVED \<and> vra_governanceImpact a = PRESERVED \<and>
    vra_replayLineageInvariant a = buildReplayLineageInvariant (source_root input) (vra_migrationLineage a) \<and>
    upgrades (irr_canonicalOriginVersion (source_root input)) (target_of input) =
      Some (map entry_ends (vra_migrationLineage a)) \<and>
    mip_targetHash p = vra_contentHash a \<and> mip_replayCompatibilityResult p = ''PRESERVED''"
proof -
  have "versioning_contract lc sha input" using contract_exact assms by blast
  then show ?thesis
  proof (rule contract_run)
    fix a b p events
    assume run: "buildVersionedReplayReadiness lc sha input =
        Some \<lparr>vrr_ok = True, vrr_artifact = Some (with_lineage b), vrr_migrationProof = Some p,
              vrr_auditEvents = Some events, vrr_failures = []\<rparr>"
      and to: "migrated_to lc sha a (target_of input) b" and p: "buildMigrationProof lc sha a (with_lineage b) = Some p"
      and a: "vra_version a = irr_canonicalOriginVersion (source_root input)"
        "vra_replayAuditResult a = vbi_replayAuditResult input"
        "vra_executionCompatibilityContract a = vbi_executionCompatibilityContract input"
        "vra_immutableReplayIdentityRoot a = source_root input"
        "vra_approvalImpact a = PRESERVED" "vra_governanceImpact a = PRESERVED"
    have b: "frame_of b = frame_of a" "vra_version b = target_of input"
      "upgrades (vra_version a) (target_of input) = Some (map entry_ends (vra_migrationLineage b))"
      using to by (simp_all add: migrated_to_def)
    note kept = frame_fields[OF b(1)]
    have r: "r = \<lparr>vrr_ok = True, vrr_artifact = Some (with_lineage b), vrr_migrationProof = Some p,
        vrr_auditEvents = Some events, vrr_failures = []\<rparr>" using run assms(1) by simp
    show ?thesis unfolding r
      by (intro exI[of _ "with_lineage b"] exI[of _ p] conjI)
        (simp_all add: with_lineage_def b(2) b(3)[unfolded a(1)] kept a proof_fields_of(2,4)[OF p])
  qed
qed

section \<open>Properties\<close>

text \<open>C18 (versioned_readiness_exact): a versioned plan is ready exactly when the audit is ready with its artifacts, the
  contract hashes to the hash it carries, audit, reference and snapshot agree with it, the three audit hashes are there and
  both versions are registered with an upgrade between them.  The service throws exactly when an audit that agrees
  lacks one of those three hashes; on every other input it returns.\<close>

theorem versioned_readiness_exact:
  "((\<exists>r. buildVersionedReplayReadiness lc sha input = Some r \<and> vrr_ok r) \<longleftrightarrow> versioning_contract lc sha input) \<and>
   (buildVersionedReplayReadiness lc sha input = None \<longleftrightarrow>
     (\<exists>x. ready_source lc sha input x) \<and> \<not> hashes_complete (vbi_replayAuditResult input))"
  by (rule contract_exact)

text \<open>C19 (versioned_artifact_faithful): the artifact of a ready result is at the target version, still carries the audit, the
  contract and the identity root it started from with its approvals preserved, its lineage is the chain of
  registered upgrades from the origin and its invariant names the lineage hashes; the proof is about this
  artifact.\<close>

theorem versioned_artifact_faithful:
  assumes "buildVersionedReplayReadiness lc sha input = Some r" and "vrr_ok r"
  shows "\<exists>a p. vrr_artifact r = Some a \<and> vrr_migrationProof r = Some p \<and> vrr_failures r = [] \<and>
    vra_version a = target_of input \<and> vra_replayAuditResult a = vbi_replayAuditResult input \<and>
    vra_executionCompatibilityContract a = vbi_executionCompatibilityContract input \<and>
    vra_immutableReplayIdentityRoot a = source_root input \<and>
    vra_approvalImpact a = PRESERVED \<and> vra_governanceImpact a = PRESERVED \<and>
    vra_replayLineageInvariant a = buildReplayLineageInvariant (source_root input) (vra_migrationLineage a) \<and>
    upgrades (irr_canonicalOriginVersion (source_root input)) (target_of input) =
      Some (map entry_ends (vra_migrationLineage a)) \<and>
    mip_targetHash p = vra_contentHash a \<and> mip_replayCompatibilityResult p = ''PRESERVED''"
  by (rule artifact_faithful) (fact assms)+

text \<open>The content hash of an artifact that was migrated is not the hash of that artifact:
  it was taken before the lineage hashes were written into the invariant and is not taken again, so it
  does not cover them (unless the digest has a collision on the two texts).\<close>

lemma content_hash_omits_lineage:
  assumes "buildVersionedReplayReadiness lc sha input = Some r" and "vrr_ok r" and "vrr_artifact r = Some a"
    and "vra_migrationLineage a \<noteq> []"
    and "inj_on sha {stable_text lc PLAN (bumped_json a), stable_text lc PLAN (bumped_json
      (a\<lparr>vra_replayLineageInvariant := buildReplayLineageInvariant (source_root input) []\<rparr>))}"
  shows "hashStableContent lc sha PLAN (bumped_json a) \<noteq> Some (vra_contentHash a)"
proof
  assume hash: "hashStableContent lc sha PLAN (bumped_json a) = Some (vra_contentHash a)"
  have "versioning_contract lc sha input" using contract_exact assms(1,2) by blast
  then show False
  proof (rule contract_run)
    fix source b p events
    assume run: "buildVersionedReplayReadiness lc sha input =
        Some \<lparr>vrr_ok = True, vrr_artifact = Some (with_lineage b), vrr_migrationProof = Some p,
              vrr_auditEvents = Some events, vrr_failures = []\<rparr>"
      and to: "migrated_to lc sha source (target_of input) b"
      and inv: "vra_replayLineageInvariant source = buildReplayLineageInvariant (source_root input) []"
    have a: "a = with_lineage b" using run assms(1,3) by simp
    let ?old = "a\<lparr>vra_replayLineageInvariant := buildReplayLineageInvariant (source_root input) []\<rparr>"
    have "vra_replayLineageInvariant b = buildReplayLineageInvariant (source_root input) []"
      using frame_fields(4)[of b source] to inv by (simp add: migrated_to_def)
    then have "bumped_json ?old = bumped_json b" by (simp add: a with_lineage_def bumped_json_def)
    moreover have "sealed_by lc sha b" using to assms(4) by (auto simp: migrated_to_def a with_lineage_def)
    ultimately have "hashStableContent lc sha PLAN (bumped_json ?old) = Some (vra_contentHash a)"
      by (simp add: sealed_by_def a with_lineage_def)
    then have "sha (stable_text lc PLAN (bumped_json a)) = sha (stable_text lc PLAN (bumped_json ?old))"
      using stable_hash[OF hash] stable_hash[of lc sha PLAN "bumped_json ?old"] by simp
    then have "stable_text lc PLAN (bumped_json a) = stable_text lc PLAN (bumped_json ?old)"
      by (rule inj_onD[OF assms(5)]) simp_all
    from stable_text_determines[OF this] have "decoded lc (bumped_json a) = decoded lc (bumped_json ?old)" by simp
    from decoded_bumped[OF this] have "rli_migrationLineageHashes (vra_replayLineageInvariant a) = []"
      by (simp add: buildReplayLineageInvariant_def)
    then show False using assms(4) by (simp add: a with_lineage_def buildReplayLineageInvariant_def)
  qed
qed

text \<open>The texts whose digests tie a migration proof to the audit it started from.\<close>

definition versioned_texts :: "(string \<Rightarrow> string \<Rightarrow> int) \<Rightarrow> (string \<Rightarrow> string) \<Rightarrow> VersioningBuildInput \<Rightarrow> string set" where
  "versioned_texts lc sha input =
     insert (stable_text lc PLAN (source_content_json (irr_canonicalOriginVersion (source_root input)) (source_root input)
         (vbi_replayAuditResult input)))
       {stable_text lc MIGRATION_LINEAGE (proof_core_json (mip_sourceHash p) (mip_targetHash p) (mip_migrationChain p)
          (mip_replayCompatibilityResult p) (mip_governanceImpact p)) | r p.
        buildVersionedReplayReadiness lc sha input = Some r \<and> vrr_migrationProof r = Some p}"

lemma upgrades_length:
  "upgrades s t = Some ps \<Longrightarrow> upgrades s u = Some qs \<Longrightarrow> length ps = length qs \<Longrightarrow> t = u"
  by (auto simp: upgrades_def split: if_splits)

lemma proof_run:
  assumes "buildVersionedReplayReadiness lc sha input = Some r" and "vrr_ok r" and "vrr_migrationProof r = Some p"
  shows "mip_sourceHash p = sha (stable_text lc PLAN (source_content_json (irr_canonicalOriginVersion (source_root input))
      (source_root input) (vbi_replayAuditResult input)))"
    and "mip_proofHash p = sha (stable_text lc MIGRATION_LINEAGE (proof_core_json (mip_sourceHash p) (mip_targetHash p)
      (mip_migrationChain p) (mip_replayCompatibilityResult p) (mip_governanceImpact p)))"
    and "\<exists>ps. upgrades (irr_canonicalOriginVersion (source_root input)) (target_of input) = Some ps \<and>
      length ps = length (mip_migrationChain p)"
proof -
  have "versioning_contract lc sha input" using contract_exact assms(1,2) by blast
  then obtain a b where p: "buildMigrationProof lc sha a (with_lineage b) = Some p"
    and to: "migrated_to lc sha a (target_of input) b" and version: "vra_version a = irr_canonicalOriginVersion (source_root input)"
    and hash: "hashStableContent lc sha PLAN (source_content_json (irr_canonicalOriginVersion (source_root input)) (source_root input)
        (vbi_replayAuditResult input)) = Some (vra_contentHash a)"
    by (rule contract_run) (use assms(1,3) in simp)
  show "mip_sourceHash p = sha (stable_text lc PLAN (source_content_json (irr_canonicalOriginVersion (source_root input))
      (source_root input) (vbi_replayAuditResult input)))"
    using stable_hash[OF hash] proof_fields_of(1)[OF p] by simp
  show "mip_proofHash p = sha (stable_text lc MIGRATION_LINEAGE (proof_core_json (mip_sourceHash p) (mip_targetHash p)
      (mip_migrationChain p) (mip_replayCompatibilityResult p) (mip_governanceImpact p)))" by (rule proof_fields_of(5)[OF p])
  show "\<exists>ps. upgrades (irr_canonicalOriginVersion (source_root input)) (target_of input) = Some ps \<and>
      length ps = length (mip_migrationChain p)"
    using to unfolding migrated_to_def version by (simp add: proof_fields_of(3)[OF p] with_lineage_def)
qed

text \<open>C20 (migration_proof_commits): two ready results with the same proof hash started from audits with the same identity
  root, replay proof, audit artifact and evidence hash, went to the same target version and ended with the same
  content hash, unless the digest has a collision among the texts of the two runs.\<close>

theorem migration_proof_commits:
  assumes "buildVersionedReplayReadiness lc sha a = Some r" and "vrr_ok r" and "vrr_migrationProof r = Some p"
    and "buildVersionedReplayReadiness lc sha b = Some s" and "vrr_ok s" and "vrr_migrationProof s = Some q"
    and "mip_proofHash p = mip_proofHash q" and "inj_on sha (versioned_texts lc sha a \<union> versioned_texts lc sha b)"
  shows "source_root a = source_root b \<and> target_of a = target_of b \<and> mip_targetHash p = mip_targetHash q \<and>
    rar_replayProofHash (vbi_replayAuditResult a) = rar_replayProofHash (vbi_replayAuditResult b) \<and>
    rar_auditArtifactHash (vbi_replayAuditResult a) = rar_auditArtifactHash (vbi_replayAuditResult b) \<and>
    rar_evidenceReferenceHash (vbi_replayAuditResult a) = rar_evidenceReferenceHash (vbi_replayAuditResult b)"
proof -
  let ?core = "\<lambda>p. proof_core_json (mip_sourceHash p) (mip_targetHash p) (mip_migrationChain p)
      (mip_replayCompatibilityResult p) (mip_governanceImpact p)"
  let ?source = "\<lambda>i. source_content_json (irr_canonicalOriginVersion (source_root i)) (source_root i) (vbi_replayAuditResult i)"
  note pa = proof_run[OF assms(1-3)] and pb = proof_run[OF assms(4-6)]
  have "sha (stable_text lc MIGRATION_LINEAGE (?core p)) = sha (stable_text lc MIGRATION_LINEAGE (?core q))"
    using assms(7) pa(2) pb(2) by simp
  then have "stable_text lc MIGRATION_LINEAGE (?core p) = stable_text lc MIGRATION_LINEAGE (?core q)"
    by (rule inj_onD[OF assms(8)]) (use assms(1,3,4,6) in \<open>auto simp: versioned_texts_def\<close>)
  then have "decoded lc (?core p) = decoded lc (?core q)" by (rule stable_text_determines[THEN conjunct2]) simp_all
  note core = decoded_proof[OF this]
  then have "sha (stable_text lc PLAN (?source a)) = sha (stable_text lc PLAN (?source b))" using pa(1) pb(1) by simp
  then have "stable_text lc PLAN (?source a) = stable_text lc PLAN (?source b)"
    by (rule inj_onD[OF assms(8)]) (simp_all add: versioned_texts_def)
  then have "decoded lc (?source a) = decoded lc (?source b)" by (rule stable_text_determines[THEN conjunct2]) simp_all
  note source = decoded_source[OF this]
  then have "source_root a = source_root b" by (intro ImmutableReplayIdentityRoot.equality) simp_all
  moreover have "target_of a = target_of b" using pa(3) pb(3) core source upgrades_length by metis
  ultimately show ?thesis using core source by simp
qed

text \<open>C21 (migration_chain_exact): the chain that is found is the walk along the first matching steps from the source to the
  target; the unsupported-step error names the version at which that walk has no step; and the loop error is
  given exactly when the walk does neither.  The search always returns.\<close>

theorem migration_chain_exact:
  "(resolveMigrationChain v t steps = Inr chain \<longleftrightarrow> follows steps v t chain) \<and>
   (resolveMigrationChain v t steps = Inl [unsupported_failure w t] \<longleftrightarrow> strays steps v t w) \<and>
   ((\<exists>u. resolveMigrationChain v t steps = Inl [loop_failure u]) \<longleftrightarrow>
     \<not> (\<exists>c. follows steps v t c) \<and> \<not> (\<exists>u. strays steps v t u))"
  by (rule resolve_exact)

text \<open>C22 (migration_engine_guards): whatever the steps do, an artifact that the engine returns has the identity anchors
  of the one it was given, both versions are registered, the steps that ran are the chain between them and the
  lineage is the old one extended by exactly one entry per step.\<close>

theorem migration_engine_guards:
  assumes "migrateVersionedArtifact lc sha a t steps = Some (Inr (b, lineage))"
  shows "anchors b = anchors a \<and> vra_migrationLineage b = vra_migrationLineage a @ lineage \<and>
    vra_version a \<in> set supported_versions \<and> t \<in> set supported_versions \<and>
    (\<exists>chain. follows steps (vra_version a) t chain \<and> map entry_ends lineage = map ends_of chain)"
proof -
  obtain chain where chain: "resolveMigrationChain (vra_version a) t steps = Inr chain"
    and run: "applyMigrations lc sha a [] chain = Some (Inr (b, lineage))"
    and versions: "vra_version a \<in> set supported_versions" "t \<in> set supported_versions"
    using assms registry_entry(1) by (auto simp: migrateVersionedArtifact_def split: if_splits sum.splits)
  from applyMigrations_guard[OF run] chain versions resolve_exact show ?thesis by fastforce
qed

section \<open>A concrete run\<close>

text \<open>A digest without collisions: its text behind a mark.\<close>

definition marked :: "string \<Rightarrow> string" where
  "marked t = CHR ''h'' # t"

lemma marked_facts: "\<forall>t. marked t \<noteq> []" "inj_on marked T"
  by (simp_all add: marked_def inj_on_def)

definition versioned_sample :: "VersioningBuildInput \<Rightarrow> bool" where
  "versioned_sample input \<longleftrightarrow> versioning_contract code_unit_compare marked input \<and> vbi_targetVersion input = None \<and>
     irr_canonicalOriginVersion (source_root input) = ''4.2H''"

lemma sample_versioned: "\<exists>input. versioned_sample input"
proof (rule compatible_audited_any[OF marked_facts(1)])
  fix c vs
  assume run: "validateExecutionCompatibility code_unit_compare marked
      (compatibilityRequest ''t'' compatible_plan blank_truth) = Some (CompatibilityOk c vs)"
    and ready: "rar_verdict (buildReplayAuditReadiness code_unit_compare marked
      (auditInput compatible_plan audited_truth c)) = REPLAY_AUDIT_READY"
  have contract: "rai_contract (auditInput compatible_plan audited_truth c) = c" by (simp add: auditInput_def)
  let ?input = "versioningInput (buildReplayAuditReadiness code_unit_compare marked
    (auditInput compatible_plan audited_truth c)) c None"
  have ok: "versioning_contract code_unit_compare marked ?input"
    using audited_versioning_contract[OF ready, unfolded contract, OF contract_hash_kept[OF run], of None]
    by (simp add: supported_versions_def)
  obtain x where "ready_source code_unit_compare marked ?input x" "origin_of x = ''4.2H''"
    using ready_audit_source[OF ready, unfolded contract, OF contract_hash_kept[OF run]] .
  then have "irr_canonicalOriginVersion (source_root ?input) = ''4.2H''"
    by (simp add: source_root_def buildImmutableReplayIdentityRoot_def ready_source_def origin_of_def)
  with ok show ?thesis by (intro exI[of _ ?input]) (simp add: versioned_sample_def versioningInput_def)
qed

lemma sample_run:
  obtains input r where "versioned_sample input"
    and "buildVersionedReplayReadiness code_unit_compare marked input = Some r" and "vrr_ok r"
  using sample_versioned contract_exact unfolding versioned_sample_def by metis

theorem versioned_artifact_faithful_witness:
  "\<exists>input r a. buildVersionedReplayReadiness code_unit_compare marked input = Some r \<and> vrr_ok r \<and>
     vrr_artifact r = Some a \<and> vra_version a = ''4.2I''"
proof (rule sample_run)
  fix input r
  assume input: "versioned_sample input"
    and r: "buildVersionedReplayReadiness code_unit_compare marked input = Some r" "vrr_ok r"
  from versioned_artifact_faithful[OF r] r input show ?thesis by (auto simp: target_of_def versioned_sample_def)
qed

text \<open>The sample is migrated by two steps.\<close>

lemma sample_artifact:
  obtains input r a p where "versioned_sample input"
    and "buildVersionedReplayReadiness code_unit_compare marked input = Some r" and "vrr_ok r"
    and "vrr_artifact r = Some a" and "vrr_migrationProof r = Some p" and "length (vra_migrationLineage a) = 2"
proof (rule sample_run)
  fix input r
  assume input: "versioned_sample input"
    and r: "buildVersionedReplayReadiness code_unit_compare marked input = Some r" "vrr_ok r"
  then have "versioning_contract code_unit_compare marked input" by (simp add: versioned_sample_def)
  then obtain b p events source where run: "buildVersionedReplayReadiness code_unit_compare marked input =
      Some \<lparr>vrr_ok = True, vrr_artifact = Some (with_lineage b), vrr_migrationProof = Some p,
            vrr_auditEvents = Some events, vrr_failures = []\<rparr>"
    and to: "migrated_to code_unit_compare marked source (target_of input) b"
    and version: "vra_version source = irr_canonicalOriginVersion (source_root input)" by (rule contract_run)
  have "upgrades ''4.2H'' ''4.2I'' = Some (map entry_ends (vra_migrationLineage b))"
    using to version input by (simp add: migrated_to_def versioned_sample_def target_of_def)
  then have "length (map entry_ends (vra_migrationLineage b)) = 2" by (auto simp: upgrades_def)
  with run r show thesis by (intro that[OF input r, of "with_lineage b" p]) (simp_all add: with_lineage_def)
qed

text \<open>The default target named or not: two inputs with one result.\<close>

lemma default_target:
  assumes "vbi_targetVersion input = None"
  shows "buildVersionedReplayReadiness lc sha (input\<lparr>vbi_targetVersion := Some ''4.2I''\<rparr>) =
    buildVersionedReplayReadiness lc sha input"
proof -
  have source: "buildSourceArtifact lc sha
      \<lparr>vbi_replayAuditResult = x, vbi_executionCompatibilityContract = c, vbi_targetVersion = Some t\<rparr> =
    buildSourceArtifact lc sha \<lparr>vbi_replayAuditResult = x, vbi_executionCompatibilityContract = c, vbi_targetVersion = None\<rparr>"
    for x c t by (simp add: buildSourceArtifact_def)
  show ?thesis using assms
    by (cases input)
      (simp only: buildVersionedReplayReadiness_def VersioningBuildInput.simps VersioningBuildInput.update_convs source js_default_simps)
qed

theorem migration_proof_commits_witness:
  "\<exists>a b. a \<noteq> b \<and> buildVersionedReplayReadiness code_unit_compare marked a = buildVersionedReplayReadiness code_unit_compare marked b \<and>
     source_root a = source_root b \<and> target_of a = target_of b"
proof (rule sample_artifact)
  fix input :: VersioningBuildInput and r a p
  let ?other = "input\<lparr>vbi_targetVersion := Some ''4.2I''\<rparr>"
  assume input: "versioned_sample input"
    and r: "buildVersionedReplayReadiness code_unit_compare marked input = Some r" "vrr_ok r" "vrr_migrationProof r = Some p"
  then have "vbi_targetVersion input = None" by (simp add: versioned_sample_def)
  then have same: "buildVersionedReplayReadiness code_unit_compare marked ?other = buildVersionedReplayReadiness code_unit_compare marked input"
    and diff: "?other \<noteq> input" by (simp_all only: default_target) (auto dest: arg_cong[where f = vbi_targetVersion])
  from same r(1) have "buildVersionedReplayReadiness code_unit_compare marked ?other = Some r" by simp
  from migration_proof_commits[OF this r(2,3) r refl marked_facts(2)] same diff show ?thesis by blast
qed

theorem migration_engine_guards_witness:
  "\<exists>a b lineage. migrateVersionedArtifact code_unit_compare marked a ''4.2I'' (getMigrationSteps code_unit_compare marked) =
     Some (Inr (b, lineage)) \<and> anchors b = anchors a"
proof -
  obtain input x where input: "versioned_sample input" and x: "ready_source code_unit_compare marked input x"
    and complete: "hashes_complete (vbi_replayAuditResult input)"
    using sample_versioned by (auto simp: versioned_sample_def versioning_contract_def)
  then obtain a where a: "buildSourceArtifact code_unit_compare marked input = Some a"
    using source_artifact_None[of code_unit_compare marked input] by auto
  have x': "rar_artifacts (vbi_replayAuditResult input) = Some x" using x by (simp add: ready_source_def)
  have "vra_version a = ''4.2H''"
    using source_artifact_Some(1)[OF a x'] input x'
    by (simp add: versioned_sample_def source_root_def buildImmutableReplayIdentityRoot_def)
  then have path: "upgrades (vra_version a) ''4.2I'' = Some [(''4.2H'', ''4.2H.1''), (''4.2H.1'', ''4.2I'')]"
    and versions: "vra_version a \<in> set supported_versions" "''4.2I'' \<in> set supported_versions"
    by (simp_all add: upgrades_def supported_versions_def)
  obtain b where "migrateVersionedArtifact code_unit_compare marked a ''4.2I'' (getMigrationSteps code_unit_compare marked) =
      Some (Inr (b, vra_migrationLineage b))"
    using upgrade_runs[OF ready_anchored[OF x a] source_artifact_Some(5)[OF a x'] versions path] .
  with migration_engine_guards[OF this] show ?thesis by blast
qed

end
