(* ===== verification/HashedContent.thy ===== *)
theory HashedContent
  imports VersioningProperties
begin

text \<open>
  What a hash made by \<open>hashStableContent\<close> commits to.  The contract of a hashed value (the locale
  \<open>hashed_content\<close>): the JSON it is hashed as is well-formed, and what is read back from that JSON fixes a
  \<open>surface\<close> of the value.  Then equal hashes give equal surfaces for a digest without a collision on the two texts.
\<close>

locale hashed_content =
  fixes lc :: "string \<Rightarrow> string \<Rightarrow> int"
    and area :: HashDomain
    and content :: "'a \<Rightarrow> json"
    and surface :: "'a \<Rightarrow> 'b"
    and proper :: "'a \<Rightarrow> bool"
  assumes well_formed: "proper x \<Longrightarrow> wf_json (content x) \<and> wf_numbers (content x)"
    and read_back: "decoded lc (content x) = decoded lc (content y) \<Longrightarrow> surface x = surface y"
begin

lemma hash_of_text:
  assumes "hashStableContent lc sha area (content x) = Some h" and "proper x"
  shows "h = sha (stable_text lc area (content x))"
  by (rule stable_hash[OF assms(1)]) (use well_formed[OF assms(2)] in simp)

lemma commits:
  assumes "hashStableContent lc sha area (content x) = Some h" and "hashStableContent lc sha area (content y) = Some h"
    and "proper x" and "proper y" and "inj_on sha {stable_text lc area (content x), stable_text lc area (content y)}"
  shows "surface x = surface y"
proof -
  have "sha (stable_text lc area (content x)) = sha (stable_text lc area (content y))"
    using hash_of_text[OF assms(1,3)] hash_of_text[OF assms(2,4)] by simp
  then have "stable_text lc area (content x) = stable_text lc area (content y)" by (rule inj_onD[OF assms(5)]) simp_all
  from stable_text_determines[OF this] well_formed[OF assms(3)] well_formed[OF assms(4)]
  have "decoded lc (content x) = decoded lc (content y)" by simp
  then show ?thesis by (rule read_back)
qed

end

text \<open>A value without an \<open>undefined\<close> always has a hash.\<close>

lemma hash_of_defined: "fully_defined v \<Longrightarrow> hashStableContent lc sha area v = Some (js_default [] (hashStableContent lc sha area v))"
  using hash_runs[of v lc sha area] by auto

end
