(* ===== verification/AdmissionFacts.thy ===== *)
theory AdmissionFacts
  imports Admission HashedContent
begin

text \<open>
  Facts on the parts of admission: what the checks of lineage, runtime and trust zone accept, as conditions on the
  input; and what the text behind the admission hash determines.
\<close>

section \<open>Reading back optional fields\<close>

text \<open>An object with one optional field between two fixed groups of fields.\<close>

lemma optional_entry_simps [simp]: "optional_entry k None = []" "optional_entry k (Some v) = [(k, v)]"
  by (simp_all add: optional_entry_def)

lemma decoded_optional:
  assumes eq: "decoded lc (JObj (as @ optional_entry k x @ bs)) = decoded lc (JObj (as' @ optional_entry k y @ bs'))"
    and keys: "map fst as' = map fst as" "map fst bs' = map fst bs" "distinct (k # map fst as @ map fst bs)"
      "''__proto__'' \<notin> set (k # map fst as @ map fst bs)"
  shows "list_all2 (\<lambda>a b. decoded lc (snd a) = decoded lc (snd b)) (as @ bs) (as' @ bs') \<and>
    rel_option (\<lambda>v w. decoded lc v = decoded lc w) x y"
proof -
  let ?agree = "list_all2 (\<lambda>a b. decoded lc (snd a) = decoded lc (snd b))"
  have len: "length as' = length as" "length bs' = length bs"
    using map_eq_imp_length_eq[OF keys(1)] map_eq_imp_length_eq[OF keys(2)] by simp_all
  have dist: "distinct (map fst (as @ optional_entry k z @ bs))" for z
    using keys(3) by (cases z) auto
  have dist': "distinct (map fst (as' @ optional_entry k z @ bs'))" for z
    using keys(1-3) by (cases z) auto
  have fields: "x = None \<longleftrightarrow> y = None"
  proof -
    have "\<exists>w. (k, w) \<in> set (as' @ optional_entry k y @ bs')" if "x = Some v" for v
      using decoded_field[OF eq dist dist', of k v] keys(4) that by auto
    moreover have "\<exists>w. (k, w) \<in> set (as @ optional_entry k x @ bs)" if "y = Some v" for v
      using decoded_field[OF eq[symmetric] dist' dist, of k v] keys(4) that by auto
    moreover have "k \<notin> fst ` set as" "k \<notin> fst ` set bs" "k \<notin> fst ` set as'" "k \<notin> fst ` set bs'"
      using keys(1-3) by (auto simp flip: set_map)
    ultimately show ?thesis by (cases x; cases y) (force simp: image_iff)+
  qed
  have "map fst (as @ optional_entry k x @ bs) = map fst (as' @ optional_entry k y @ bs')"
    using keys(1,2) fields by (cases x; cases y) simp_all
  then have all: "?agree (as @ optional_entry k x @ bs) (as' @ optional_entry k y @ bs')"
    by (rule decoded_record[OF eq _ dist]) (use keys(4) in \<open>cases x; auto\<close>)
  show ?thesis
  proof (cases x)
    case None
    then show ?thesis using all fields by simp
  next
    case (Some v)
    then obtain w where "y = Some w" using fields by (cases y) auto
    then show ?thesis using all Some len by (simp add: list_all2_append)
  qed
qed

lemma decoded_optional_str:
  "rel_option (\<lambda>v w. decoded lc v = decoded lc w) (map_option JStr x) (map_option JStr y) \<longleftrightarrow> x = y"
  by (cases x; cases y) simp_all

lemma decoded_anchors: "decoded lc (anchors_json a) = decoded lc (anchors_json b) \<Longrightarrow> a = b"
proof -
  assume "decoded lc (anchors_json a) = decoded lc (anchors_json b)"
  then have "list_all2 (\<lambda>a b. decoded lc (snd a) = decoded lc (snd b))
      ([(''executionTruthHash'', JStr (ala_executionTruthHash a)),
       (''executionCompatibilityHash'', JStr (ala_executionCompatibilityHash a)),
       (''replaySnapshotHash'', JStr (ala_replaySnapshotHash a))] @ [])
      ([(''executionTruthHash'', JStr (ala_executionTruthHash b)),
       (''executionCompatibilityHash'', JStr (ala_executionCompatibilityHash b)),
       (''replaySnapshotHash'', JStr (ala_replaySnapshotHash b))] @ []) \<and>
      rel_option (\<lambda>v w. decoded lc v = decoded lc w) (map_option JStr (ala_derivedSimulationHash a))
        (map_option JStr (ala_derivedSimulationHash b))"
    unfolding anchors_json_def by (intro decoded_optional[where k = "''derivedSimulationHash''"]) simp_all
  then show "a = b" by (simp add: decoded_optional_str)
qed


lemma zone_str_inj: "zone_str a = zone_str b \<longleftrightarrow> a = b"
  by (cases a; cases b) simp_all

lemma decision_str_inj: "decision_str a = decision_str b \<longleftrightarrow> a = b"
  by (cases a; cases b) simp_all

lemma decoded_admission_context:
  "decoded lc (admission_context_json a) = decoded lc (admission_context_json b) \<Longrightarrow> a = b"
proof -
  assume "decoded lc (admission_context_json a) = decoded lc (admission_context_json b)"
  from decoded_record[OF this[unfolded admission_context_json_def]] show "a = b"
    by (auto simp: zone_str_inj intro!: AdmissionContext.equality decoded_anchors)
qed

definition admission_content :: "AdmissionContext \<times> AdmissionVerdict \<Rightarrow> json" where
  "admission_content = (\<lambda>(context, verdict). admission_json context verdict)"

lemma decoded_admission: "decoded lc (admission_content x) = decoded lc (admission_content y) \<Longrightarrow> x = y"
proof -
  assume "decoded lc (admission_content x) = decoded lc (admission_content y)"
  then have "decoded lc (admission_json (fst x) (snd x)) = decoded lc (admission_json (fst y) (snd y))"
    by (simp add: admission_content_def case_prod_unfold)
  from decoded_record[OF this[unfolded admission_json_def]]
  have "decoded lc (admission_context_json (fst x)) = decoded lc (admission_context_json (fst y))" and "snd x = snd y"
    by (simp_all add: decision_str_inj)
  with decoded_admission_context show "x = y" by (metis prod.collapse)
qed

lemma anchors_json_facts:
  "wf_json (anchors_json a)" "wf_numbers (anchors_json a)" "fully_defined (anchors_json a)"
  by (simp_all add: anchors_json_def optional_entry_def split: option.splits)

lemma admission_context_facts:
  "wf_json (admission_context_json c)" "wf_numbers (admission_context_json c)" "fully_defined (admission_context_json c)"
  by (simp_all add: admission_context_json_def anchors_json_facts)

lemma admission_json_facts:
  "wf_json (admission_json c v)" "wf_numbers (admission_json c v)" "fully_defined (admission_json c v)"
  by (simp_all add: admission_json_def admission_context_facts str_arr_def list_all_iff)

interpretation admitted: hashed_content lc GOVERNANCE admission_content "\<lambda>x. x" "\<lambda>x. True" for lc
  by unfold_locales (simp_all add: admission_content_def case_prod_unfold admission_json_facts decoded_admission[unfolded admission_content_def case_prod_unfold])

lemma admission_hash: "hashStableContent lc sha GOVERNANCE (admission_content (c, v)) = Some (deriveAdmissionHash lc sha c v)"
  using hash_of_defined[OF admission_json_facts(3)] by (simp add: admission_content_def deriveAdmissionHash_def)

section \<open>What the checks accept\<close>

lemma admission_failure_Nil [simp]: "admission_failure_if b code m p = [] \<longleftrightarrow> \<not> b"
  by (simp add: admission_failure_if_def)

lemma given_simps [simp]: "\<not> given None" "given (Some s) \<longleftrightarrow> s \<noteq> []"
  by (simp_all add: given_def)

definition lineage_admissible :: "AdmissionBuildInput \<Rightarrow> bool" where
  "lineage_admissible input \<longleftrightarrow>
     (let a = buildAdmissionLineageAnchors input; root = vra_immutableReplayIdentityRoot (abi_versionedReplayArtifact input);
          expected = js_default no_expectation (abi_expectedLineage input);
          ready_hash = map_option smd_derivedSimulationHash (abi_simulationReadiness input);
          result_hash = map_option smr_derivedSimulationHash (abi_simulationResult input)
      in [] \<notin> {ala_executionTruthHash a, ala_executionCompatibilityHash a, ala_replaySnapshotHash a} \<and>
         irr_executionTruthHash root = ala_executionTruthHash a \<and>
         irr_executionCompatibilityHash root = ala_executionCompatibilityHash a \<and>
         irr_initialReplaySnapshotHash root = ala_replaySnapshotHash a \<and>
         xpl_executionTruthHash expected \<in> {None, Some [], Some (ala_executionTruthHash a)} \<and>
         xpl_executionCompatibilityHash expected \<in> {None, Some [], Some (ala_executionCompatibilityHash a)} \<and>
         xpl_replaySnapshotHash expected \<in> {None, Some [], Some (ala_replaySnapshotHash a)} \<and>
         (ready_hash \<in> {None, Some []} \<or> xpl_derivedSimulationHash expected \<in> {None, Some [], ready_hash}) \<and>
         (result_hash = None \<or> ready_hash = None \<or> result_hash = ready_hash))"

lemma differs_iff: "differs e v \<longleftrightarrow> e \<notin> {None, Some [], Some v}"
  by (cases e) (auto simp: differs_def)

lemma not_given_iff: "\<not> given x \<longleftrightarrow> x \<in> {None, Some []}"
  by (cases x) auto

lemma lineage_ok: "alv_ok (validateAdmissionLineage input) \<longleftrightarrow> lineage_admissible input"
proof -
  have drift: "simulation_drift e r q = [] \<longleftrightarrow>
      (map_option smd_derivedSimulationHash r \<in> {None, Some []} \<or>
         xpl_derivedSimulationHash e \<in> {None, Some [], map_option smd_derivedSimulationHash r}) \<and>
      (map_option smr_derivedSimulationHash q = None \<or> map_option smd_derivedSimulationHash r = None \<or>
         map_option smr_derivedSimulationHash q = map_option smd_derivedSimulationHash r)" for e r q
    unfolding simulation_drift_def Let_def append_is_Nil_conv admission_failure_Nil
    using not_given_iff[of "map_option smd_derivedSimulationHash r"] not_given_iff[of "xpl_derivedSimulationHash e"] by auto
  have nonempty: "[] \<notin> {a, b, c} \<longleftrightarrow> a \<noteq> [] \<and> b \<noteq> [] \<and> c \<noteq> []" for a b c :: string by auto
  show ?thesis
    unfolding validateAdmissionLineage_def lineage_admissible_def Let_def AdmissionLineageValidation.simps append_is_Nil_conv
      missing_anchors_def root_drift_def expected_drift_def admission_failure_Nil drift differs_iff nonempty
    by (simp only: not_not conj_assoc)
qed

definition zone_authorized :: "AdmissionBuildInput \<Rightarrow> bool" where
  "zone_authorized input \<longleftrightarrow>
     requested_zone input \<in> set (js_default [ZoneSTANDARD] (gvm_allowedTrustZones (abi_governanceMetadata input)))"

lemma zone_fields:
  "tze_allowed (enforceTrustZone input) \<longleftrightarrow> zone_authorized input"
  "tze_requiresRevalidation (enforceTrustZone input) \<longleftrightarrow> current_zone input < requested_zone input"
  "tze_failures (enforceTrustZone input) = [] \<longleftrightarrow> zone_authorized input"
  by (simp_all add: enforceTrustZone_def Let_def zone_authorized_def less_TrustZone_def)

definition runtime_unsettled :: "RuntimeReadinessMetadata \<Rightarrow> bool" where
  "runtime_unsettled m \<longleftrightarrow> rrm_stale m \<or> \<not> rrm_healthy m \<or> rrm_lockConflict m \<or> rrm_leaseConflict m"

lemma failure_codes: "f \<in> set (admission_failure_if b code m p) \<longleftrightarrow> b \<and> f = createAdmissionFailure code m (Some p)"
  by (auto simp: admission_failure_if_def)

lemma runtime_fields:
  "arr_requiresRevalidation (evaluateRuntimeReadiness input) \<longleftrightarrow> epoch_mismatch (abi_runtimeMetadata input)"
  "arr_shouldPause (evaluateRuntimeReadiness input) \<longleftrightarrow> runtime_unsettled (abi_runtimeMetadata input)"
  "arr_failures (evaluateRuntimeReadiness input) = runtime_failures (abi_runtimeMetadata input)"
proof -
  show "arr_requiresRevalidation (evaluateRuntimeReadiness input) \<longleftrightarrow> epoch_mismatch (abi_runtimeMetadata input)"
    by (simp add: evaluateRuntimeReadiness_def Let_def runtime_failures_def admission_failure_if_def createAdmissionFailure_def)
qed (simp_all add: evaluateRuntimeReadiness_def Let_def runtime_unsettled_def)

section \<open>The rules\<close>

text \<open>What refuses an admission, in the order in which it is looked at, and the decision it gives.\<close>

definition admission_rules :: "AdmissionBuildInput \<Rightarrow> (bool \<times> AdmissionDecision) list" where
  "admission_rules input =
     (let governance = abi_governanceMetadata input; runtime = abi_runtimeMetadata input in
      [(\<not> lineage_admissible input, DENIED),
       (gvm_governanceSnapshotHash governance = [] \<or> gvm_approvalChainHash governance = [], DENIED),
       (\<not> zone_authorized input, QUARANTINED),
       (epoch_mismatch runtime, REVALIDATION_REQUIRED),
       (gvm_conflicts governance \<notin> {None, Some []}, ESCALATED),
       (gvm_requiredSimulation governance \<and> \<not> (\<exists>s. abi_simulationReadiness input = Some s \<and> smd_ready s), SIMULATION_REQUIRED),
       (\<not> gvm_approvalsSatisfied governance, DENIED),
       (runtime_unsettled runtime, PAUSED),
       (current_zone input < requested_zone input, REVALIDATION_REQUIRED)])"

definition first_refusal :: "(bool \<times> AdmissionDecision) list \<Rightarrow> AdmissionDecision" where
  "first_refusal rules = (case find fst rules of None \<Rightarrow> APPROVED | Some (b, d) \<Rightarrow> d)"

lemma first_refusal_simps [simp]:
  "first_refusal [] = APPROVED" "first_refusal ((b, d) # rules) = (if b then d else first_refusal rules)"
  by (simp_all add: first_refusal_def)

abbreviation verdict_of :: "AdmissionBuildInput \<Rightarrow> AdmissionVerdict" where
  "verdict_of input \<equiv> decideAdmission input (validateAdmissionLineage input) (evaluateRuntimeReadiness input) (enforceTrustZone input)"

lemma admission_result:
  "adr_decision (ads_result (buildAdmissionReadiness lc sha input)) = adv_decision (verdict_of input)"
  "adr_reasons (ads_result (buildAdmissionReadiness lc sha input)) = adv_reasons (verdict_of input)"
  "adr_blocks (ads_result (buildAdmissionReadiness lc sha input)) = adv_blocks (verdict_of input)"
  "adr_warnings (ads_result (buildAdmissionReadiness lc sha input)) = adv_warnings (verdict_of input)"
  "adr_derivedAdmissionHash (ads_result (buildAdmissionReadiness lc sha input)) =
     deriveAdmissionHash lc sha (buildAdmissionContext input) (verdict_of input)"
  "ads_context (buildAdmissionReadiness lc sha input) = buildAdmissionContext input"
  by (simp_all add: buildAdmissionReadiness_def Let_def)

lemma conflicts_iff: "js_default [] c \<noteq> [] \<longleftrightarrow> c \<notin> {None, Some []}"
  by (cases c) auto

lemma simulation_iff: "js_default False (map_option smd_ready r) \<longleftrightarrow> (\<exists>s. r = Some s \<and> smd_ready s)"
  by (cases r) auto

lemma decision_first: "adv_decision (verdict_of input) = first_refusal (admission_rules input)"
  unfolding decideAdmission_def admission_rules_def Let_def lineage_ok zone_fields runtime_fields conflicts_iff simulation_iff
    first_refusal_simps
  by (simp only: if_distrib[of adv_decision] AdmissionVerdict.simps)

end
