(* ===== verification/AdmissionProperties.thy ===== *)
theory AdmissionProperties
  imports AdmissionFacts
begin

text \<open>
  What admission promises: the decision is that of the first rule that refuses, an approval needs every rule to be
  silent, a refusal names its cause, and the admission hash commits to context and verdict.
\<close>

section \<open>Properties\<close>

text \<open>C7 (admission_decision_exact): the decision is the one of the first rule that refuses, in the order lineage, governance
  hashes, trust zone, governance epoch, conflicts, simulation, approvals, runtime, zone elevation; it is an approval
  exactly when no rule refuses, and it is never a revocation.\<close>

theorem admission_decision_exact:
  "adr_decision (ads_result (buildAdmissionReadiness lc sha input)) = first_refusal (admission_rules input) \<and>
   (adr_decision (ads_result (buildAdmissionReadiness lc sha input)) = APPROVED \<longleftrightarrow> \<not> list_ex fst (admission_rules input)) \<and>
   adr_decision (ads_result (buildAdmissionReadiness lc sha input)) \<noteq> REVOKED"
proof -
  have approved: "first_refusal rules = APPROVED \<longleftrightarrow> \<not> list_ex fst rules" and unrevoked: "first_refusal rules \<noteq> REVOKED"
    if "APPROVED \<notin> snd ` set rules" "REVOKED \<notin> snd ` set rules" for rules
    using that by (induction rules) (auto split: if_splits)
  have "APPROVED \<notin> snd ` set (admission_rules input)" "REVOKED \<notin> snd ` set (admission_rules input)"
    by (simp_all add: admission_rules_def Let_def)
  from approved[OF this] unrevoked[OF this] show ?thesis unfolding admission_result decision_first by blast
qed

text \<open>An attempted mutation and a missing runtime snapshot are listed as failures of the
  runtime, but no rule of the decision reads them: the decision is the same whatever they are.\<close>

lemma admission_ignores_mutation:
  "adr_decision (ads_result (buildAdmissionReadiness lc sha
     (input\<lparr>abi_runtimeMetadata := (abi_runtimeMetadata input)\<lparr>rrm_mutationAttempted := b, rrm_runtimeSnapshotHash := h\<rparr>\<rparr>))) =
   adr_decision (ads_result (buildAdmissionReadiness lc sha input))"
proof -
  let ?other = "input\<lparr>abi_runtimeMetadata := (abi_runtimeMetadata input)\<lparr>rrm_mutationAttempted := b, rrm_runtimeSnapshotHash := h\<rparr>\<rparr>"
  have "lineage_admissible ?other = lineage_admissible input"
    by (simp add: lineage_admissible_def buildAdmissionLineageAnchors_def)
  moreover have "requested_zone ?other = requested_zone input" "current_zone ?other = current_zone input"
    by (simp_all add: requested_zone_def current_zone_def)
  ultimately have "admission_rules ?other = admission_rules input"
    by (simp add: admission_rules_def Let_def zone_authorized_def epoch_mismatch_def runtime_unsettled_def)
  then show ?thesis by (simp only: admission_result decision_first)
qed

text \<open>A decision without reasons and without blocks is a pause, and one whose runtime has no
  failure: what is unhealthy is only warned of.\<close>

lemma admission_explained:
  "adr_reasons (ads_result (buildAdmissionReadiness lc sha input)) = [] \<and>
     adr_blocks (ads_result (buildAdmissionReadiness lc sha input)) = [] \<longleftrightarrow>
   adr_decision (ads_result (buildAdmissionReadiness lc sha input)) = PAUSED \<and>
     runtime_failures (abi_runtimeMetadata input) = []"
proof -
  have lineage: "alv_failures (validateAdmissionLineage input) = [] \<longleftrightarrow> alv_ok (validateAdmissionLineage input)"
    by (simp add: validateAdmissionLineage_def Let_def)
  have zone: "tze_failures (enforceTrustZone input) = [] \<longleftrightarrow> tze_allowed (enforceTrustZone input)"
    by (simp add: zone_fields)
  have epoch: "arr_requiresRevalidation (evaluateRuntimeReadiness input) \<Longrightarrow> runtime_failures (abi_runtimeMetadata input) \<noteq> []"
    by (simp add: runtime_fields runtime_failures_def)
  show ?thesis
    unfolding admission_result decideAdmission_def Let_def
    using lineage zone epoch by (simp add: runtime_fields(3))
qed

text \<open>The text behind an admission hash.\<close>

definition admission_text :: "(string \<Rightarrow> string \<Rightarrow> int) \<Rightarrow> AdmissionBuildInput \<Rightarrow> string" where
  "admission_text lc input = stable_text lc GOVERNANCE (admission_content (buildAdmissionContext input, verdict_of input))"

text \<open>Two admissions with the same derived hash have the same context, decision, reasons,
  blocks and warnings, unless the digest has a collision between the two texts.\<close>

lemma admission_hash_commits:
  assumes "adr_derivedAdmissionHash (ads_result (buildAdmissionReadiness lc sha a)) =
      adr_derivedAdmissionHash (ads_result (buildAdmissionReadiness lc sha b))"
    and "inj_on sha {admission_text lc a, admission_text lc b}"
  shows "ads_context (buildAdmissionReadiness lc sha a) = ads_context (buildAdmissionReadiness lc sha b) \<and>
    adr_decision (ads_result (buildAdmissionReadiness lc sha a)) = adr_decision (ads_result (buildAdmissionReadiness lc sha b)) \<and>
    adr_reasons (ads_result (buildAdmissionReadiness lc sha a)) = adr_reasons (ads_result (buildAdmissionReadiness lc sha b)) \<and>
    adr_blocks (ads_result (buildAdmissionReadiness lc sha a)) = adr_blocks (ads_result (buildAdmissionReadiness lc sha b)) \<and>
    adr_warnings (ads_result (buildAdmissionReadiness lc sha a)) = adr_warnings (ads_result (buildAdmissionReadiness lc sha b))"
proof -
  have "hashStableContent lc sha GOVERNANCE (admission_content (buildAdmissionContext b, verdict_of b)) =
      Some (deriveAdmissionHash lc sha (buildAdmissionContext a) (verdict_of a))"
    using assms(1) by (simp only: admission_hash admission_result)
  from admitted.commits[OF admission_hash this TrueI TrueI] assms(2)
  have "buildAdmissionContext a = buildAdmissionContext b \<and> verdict_of a = verdict_of b"
    by (simp add: admission_text_def)
  then show ?thesis by (simp add: admission_result)
qed

section \<open>A concrete admission\<close>

definition admissionRequest ::
  "NormalizedPlan \<Rightarrow> ExecutionTruthPackage \<Rightarrow> ExecutionCompatibilityContract \<Rightarrow> VersionedReplayArtifact
   \<Rightarrow> SimulationReadiness option \<Rightarrow> GovernanceMetadata \<Rightarrow> RuntimeReadinessMetadata \<Rightarrow> AdmissionBuildInput" where
  "admissionRequest plan truth contract artifact simulation governance runtime =
     \<lparr>abi_normalizedPlan = plan, abi_executionTruthPackage = truth, abi_executionCompatibilityContract = contract,
      abi_versionedReplayArtifact = artifact, abi_simulationReadiness = simulation, abi_simulationResult = None,
      abi_governanceMetadata = governance, abi_runtimeMetadata = runtime, abi_requestedTrustZone = None,
      abi_requestedAt = None, abi_expectedLineage = None\<rparr>"

text \<open>Governance without objection, and a runtime at rest.\<close>

definition open_governance :: GovernanceMetadata where
  "open_governance = \<lparr>gvm_governanceSnapshotHash = ''g'', gvm_approvalChainHash = ''c'', gvm_approvalsSatisfied = True,
     gvm_conflicts = None, gvm_allowedTrustZones = None, gvm_currentTrustZone = None, gvm_requiredSimulation = False\<rparr>"

definition calm_runtime :: RuntimeReadinessMetadata where
  "calm_runtime = \<lparr>rrm_runtimeSnapshotHash = ''s'', rrm_healthy = True, rrm_stale = False, rrm_lockConflict = False,
     rrm_leaseConflict = False, rrm_mutationAttempted = False, rrm_governanceEpoch = None, rrm_expectedGovernanceEpoch = None\<rparr>"

end
