(* ===== verification/SimulationFacts.thy ===== *)
theory SimulationFacts
  imports Simulation HashedContent
begin

text \<open>
  Facts on the parts of the simulation: the lineage check is an equation between the artifact and the hashes it was
  built from (\<open>lineage_exact\<close>), a traced step is blocked exactly when it is not predictable
  (\<open>traceStep_traces\<close>), a run throws exactly on an \<open>undefined\<close> (\<open>orchestrate_None\<close>), and what the text
  behind the derived hash determines (\<open>decoded_content\<close>).
\<close>

section \<open>Lineage\<close>

lemma simulation_failure_Nil [simp]: "simulation_failure_if b code m p = [] \<longleftrightarrow> \<not> b"
  by (simp add: simulation_failure_if_def)

lemma root_text: "json_text (root_json a) = json_text (root_json b) \<longleftrightarrow> a = b"
proof
  assume "json_text (root_json a) = json_text (root_json b)"
  then have "reparse (root_json a) = reparse (root_json b)"
    by (rule json_text_determines) (simp_all add: root_json_def)
  then show "a = b" by (simp add: root_json_def js_entries_def is_index_key_def is_digit_def)
qed simp

lemma invariant_text: "json_text (lineage_invariant_json a) = json_text (lineage_invariant_json b) \<longleftrightarrow> a = b"
proof
  assume "json_text (lineage_invariant_json a) = json_text (lineage_invariant_json b)"
  then have "reparse (lineage_invariant_json a) = reparse (lineage_invariant_json b)"
    by (rule json_text_determines) (simp_all add: lineage_invariant_json_def str_arr_def list_all_iff)
  then show "a = b"
    by (simp add: lineage_invariant_json_def str_arr_def comp_def inj_map_eq_map inj_def js_entries_def is_index_key_def is_digit_def)
qed simp

definition lineage_intact :: "SimulationBuildInput \<Rightarrow> bool" where
  "lineage_intact input \<longleftrightarrow>
     (let artifact = sbi_versionedReplayArtifact input; audit = vra_replayAuditResult artifact;
          contract = sbi_executionCompatibilityContract input;
          truthHash = tp_executionTruthHash (sbi_executionTruthPackage input)
      in truthHash \<noteq> [] \<and> xc_executionCompatibilityHash contract \<noteq> [] \<and>
         rar_replaySnapshotHash audit \<noteq> None \<and> rar_replaySnapshotHash audit \<noteq> Some [] \<and>
         vra_immutableReplayIdentityRoot artifact = buildImmutableReplayIdentityRoot audit contract \<and>
         vra_replayLineageInvariant artifact =
           buildReplayLineageInvariant (vra_immutableReplayIdentityRoot artifact) (vra_migrationLineage artifact) \<and>
         xc_executionTruthHash contract = truthHash \<and>
         rar_executionTruthHash audit = Some truthHash \<and>
         rar_executionCompatibilityHash audit = Some (xc_executionCompatibilityHash contract) \<and>
         (\<forall>x. rar_artifacts audit = Some x \<longrightarrow> ris_planHash (raa_replayInputSnapshot x) = rar_planHash audit \<and>
            paa_planHash (raa_auditArtifact x) = rar_planHash audit))"

lemma preservation_Nil:
  "validateLineagePreservation a = [] \<longleftrightarrow>
     irr_executionTruthHash (vra_immutableReplayIdentityRoot a) = rli_originalExecutionTruthHash (vra_replayLineageInvariant a) \<and>
     irr_executionCompatibilityHash (vra_immutableReplayIdentityRoot a) =
       rli_originalExecutionCompatibilityHash (vra_replayLineageInvariant a) \<and>
     irr_initialReplaySnapshotHash (vra_immutableReplayIdentityRoot a) = rli_replaySnapshotHash (vra_replayLineageInvariant a)"
  by (simp add: validateLineagePreservation_def Let_def versioning_failure_Nil)

lemma lineage_exact: "validateSimulationLineage lc sha input = [] \<longleftrightarrow> lineage_intact input"
proof -
  let ?a = "sbi_versionedReplayArtifact input"
  let ?audit = "vra_replayAuditResult ?a"
  have plan: "planDivergence ?audit = [] \<longleftrightarrow> (\<forall>x. rar_artifacts ?audit = Some x \<longrightarrow>
      ris_planHash (raa_replayInputSnapshot x) = rar_planHash ?audit \<and> paa_planHash (raa_auditArtifact x) = rar_planHash ?audit)"
    by (auto simp: planDivergence_def split: option.splits)
  have root: "rootDivergence input = [] \<longleftrightarrow>
      vra_immutableReplayIdentityRoot ?a = buildImmutableReplayIdentityRoot ?audit (sbi_executionCompatibilityContract input) \<and>
      vra_replayLineageInvariant ?a =
        buildReplayLineageInvariant (vra_immutableReplayIdentityRoot ?a) (vra_migrationLineage ?a)"
    by (auto simp: rootDivergence_def Let_def root_text invariant_text)
  have missing: "missingLineage input = [] \<longleftrightarrow> tp_executionTruthHash (sbi_executionTruthPackage input) \<noteq> [] \<and>
      xc_executionCompatibilityHash (sbi_executionCompatibilityContract input) \<noteq> [] \<and>
      rar_replaySnapshotHash ?audit \<noteq> None \<and> rar_replaySnapshotHash ?audit \<noteq> Some []"
    by (cases "rar_replaySnapshotHash ?audit") (simp_all add: missingLineage_def)
  show ?thesis
  proof (cases "rootDivergence input = []")
    case True
    note is_root = True[unfolded root]
    have preserved: "validateLineagePreservation ?a = []"
      using is_root by (simp add: preservation_Nil buildReplayLineageInvariant_def)
    have anchored: "anchorDivergence lc sha input = [] \<longleftrightarrow>
        xc_executionTruthHash (sbi_executionCompatibilityContract input) = tp_executionTruthHash (sbi_executionTruthPackage input) \<and>
        Some (js_default [] (rar_replaySnapshotHash ?audit)) = rar_replaySnapshotHash ?audit \<and>
        rar_executionTruthHash ?audit = Some (tp_executionTruthHash (sbi_executionTruthPackage input)) \<and>
        rar_executionCompatibilityHash ?audit = Some (xc_executionCompatibilityHash (sbi_executionCompatibilityContract input))"
      using is_root by (simp add: anchorDivergence_def Let_def buildSimulationLineageContext_def buildImmutableReplayIdentityRoot_def)
    have given: "Some (js_default [] x) = x \<longleftrightarrow> x \<noteq> None" for x :: "string option" by (cases x) simp_all
    show ?thesis
      unfolding validateSimulationLineage_def lineage_intact_def Let_def append_is_Nil_conv map_is_Nil_conv plan missing
        anchored given
      using is_root True preserved by argo
  next
    case False
    then show ?thesis unfolding root validateSimulationLineage_def lineage_intact_def Let_def append_is_Nil_conv root by blast
  qed
qed

section \<open>Steps\<close>

definition step_tool :: "NormalizedPlanStep \<Rightarrow> string" where
  "step_tool step = name_or_unknown (prop_get (ns_action step) ''tool'')"

definition predictable :: "SimulationMode \<Rightarrow> SimulationAdapterRegistry \<Rightarrow> NormalizedPlanStep \<Rightarrow> bool" where
  "predictable mode registry step \<longleftrightarrow>
     (case resolveSimulationAdapter registry (step_tool step) of
        None \<Rightarrow> False
      | Some adapter \<Rightarrow> adapter_serves mode adapter \<and> sac_sideEffectFree adapter \<and> readSideEffectCategories step = [])"

definition all_predictable :: "SimulationBuildInput \<Rightarrow> bool" where
  "all_predictable input \<longleftrightarrow> list_all (predictable (mode_of input) (registry_of input)) (np_steps (sbi_normalizedPlan input))"

lemma guard_Nil:
  "fst (guardSimulationSideEffects step adapter) = [] \<longleftrightarrow> sac_sideEffectFree adapter \<and> readSideEffectCategories step = []"
  "snd (guardSimulationSideEffects step adapter) = [] \<longleftrightarrow> sac_sideEffectFree adapter \<and> readSideEffectCategories step = []"
  by (simp_all add: guardSimulationSideEffects_def Let_def)

text \<open>What a traced step says: its identity, and blocked exactly when it is not predictable.\<close>

definition traces :: "SimulationMode \<Rightarrow> SimulationAdapterRegistry \<Rightarrow> NormalizedPlanStep \<Rightarrow> StepTrace \<Rightarrow> bool" where
  "traces mode registry step t \<longleftrightarrow>
     ssr_stepId (stt_result t) = ns_id step \<and> ssr_toolId (stt_result t) = step_tool step \<and>
     ssr_order (stt_result t) = ns_index step \<and>
     (ssr_status (stt_result t) = StepPredicted \<longleftrightarrow> predictable mode registry step) \<and>
     (stt_failures t = [] \<longleftrightarrow> predictable mode registry step) \<and> (stt_blocked t = [] \<longleftrightarrow> predictable mode registry step) \<and>
     (\<forall>b \<in> set (stt_blocked t). bso_stepId b = ns_id step)"

lemma guard_ids: "b \<in> set (snd (guardSimulationSideEffects step adapter)) \<Longrightarrow> bso_stepId b = ns_id step"
  by (auto simp: guardSimulationSideEffects_def Let_def split: if_splits)

lemma guarded_traces:
  assumes "resolveSimulationAdapter registry (step_tool step) = Some adapter" and "adapter_serves mode adapter"
    and "ssr_stepId result = ns_id step" "ssr_toolId result = step_tool step" "ssr_order result = ns_index step"
  shows "traces mode registry step (guardedStep step adapter result)"
  using assms guard_Nil[of step adapter] guard_ids[of _ step adapter]
  by (cases "guardSimulationSideEffects step adapter")
    (auto simp: traces_def guardedStep_def predictable_def Let_def)

lemma unsupported_traces:
  assumes "\<not> predictable mode registry step"
    and "ssr_stepId result = ns_id step" "ssr_toolId result = step_tool step" "ssr_order result = ns_index step"
  shows "traces mode registry step (unsupportedStep mode result)"
  using assms by (simp add: traces_def unsupportedStep_def Let_def)

lemma blank_fields:
  "ssr_stepId (blankResult l p step) = ns_id step" "ssr_toolId (blankResult l p step) = step_tool step"
  "ssr_order (blankResult l p step) = ns_index step"
  by (simp_all add: blankResult_def step_tool_def)

lemma traceStep_None: "traceStep mode registry lineage projected step = None \<longleftrightarrow> \<not> readable (ns_action step)"
  by (simp add: traceStep_def Let_def)

lemma traceStep_traces:
  assumes "traceStep mode registry lineage projected step = Some t"
  shows "traces mode registry step t"
proof (cases "resolveSimulationAdapter registry (step_tool step)")
  case None
  then have "\<not> predictable mode registry step" by (simp add: predictable_def)
  with assms None show ?thesis
    by (auto simp: traceStep_def Let_def blank_fields intro!: unsupported_traces split: if_splits)
next
  case (Some adapter)
  show ?thesis
  proof (cases "adapter_serves mode adapter")
    case True
    with assms Some show ?thesis
      by (auto simp: traceStep_def Let_def blank_fields intro!: guarded_traces split: if_splits)
  next
    case False
    then have "\<not> predictable mode registry step" using Some by (simp add: predictable_def)
    with assms Some False show ?thesis
      by (auto simp: traceStep_def Let_def blank_fields intro!: unsupported_traces split: if_splits)
  qed
qed

lemma trace_None:
  "buildSimulationTrace plan mode lineage registry projection = None \<longleftrightarrow>
     \<not> list_all (\<lambda>step. readable (ns_action step)) (np_steps plan)"
proof -
  have "None \<in> (traceStep mode registry lineage p) ` set (np_steps plan) \<longleftrightarrow>
      \<not> list_all (\<lambda>step. readable (ns_action step)) (np_steps plan)" for p
    using traceStep_None[of mode registry lineage p] by (auto simp: list_all_iff image_iff eq_commute)
  then show ?thesis by (simp add: buildSimulationTrace_def Let_def those_None)
qed

lemma trace_steps:
  assumes "buildSimulationTrace plan mode lineage registry projection = Some t"
  obtains ts where "list_all2 (traces mode registry) (np_steps plan) ts" and "sit_predictedSteps t = map stt_result ts"
    and "sit_blockedOperations t = concat (map stt_blocked ts)" and "sit_failures t = concat (map stt_failures ts)"
proof -
  from assms obtain p ts where ts: "map (traceStep mode registry lineage p) (np_steps plan) = map Some ts"
    and t: "sit_predictedSteps t = map stt_result ts" "sit_blockedOperations t = concat (map stt_blocked ts)"
      "sit_failures t = concat (map stt_failures ts)"
    by (auto simp: buildSimulationTrace_def Let_def those_Some)
  have len: "length ts = length (np_steps plan)" using ts by (metis length_map)
  have "traces mode registry (np_steps plan ! i) (ts ! i)" if "i < length ts" for i
    using arg_cong[OF ts, of "\<lambda>xs. xs ! i"] that len by (intro traceStep_traces) simp
  then have "list_all2 (traces mode registry) (np_steps plan) ts" using len by (simp add: list_all2_conv_all_nth)
  from that[OF this t] show thesis .
qed

lemma traces_Nil:
  assumes "list_all2 (traces mode registry) steps ts"
  shows "concat (map stt_blocked ts) = [] \<longleftrightarrow> list_all (predictable mode registry) steps"
    and "concat (map stt_failures ts) = [] \<longleftrightarrow> list_all (predictable mode registry) steps"
  using assms by (induction rule: list_all2_induct) (simp_all add: traces_def)

section \<open>Rollback and governance\<close>

definition rollbacks_planned :: "NormalizedPlan \<Rightarrow> ExecutionCompatibilityContract \<Rightarrow> bool" where
  "rollbacks_planned plan contract \<longleftrightarrow>
     (let contracts = js_map_of (map (\<lambda>c. (rbc_stepId c, c)) (xc_rollbackContracts contract)) in
      list_all (\<lambda>step. case contracts (ns_id step) of
           None \<Rightarrow> \<not> requiresRollback step
         | Some c \<Rightarrow> rbc_required c \<longrightarrow> has_strategy c \<or> rbc_checkpointRequired c)
        (np_steps plan))"

definition rollback_planned :: "SimulationBuildInput \<Rightarrow> bool" where
  "rollback_planned input \<longleftrightarrow> rollbacks_planned (sbi_normalizedPlan input) (sbi_executionCompatibilityContract input)"

lemma rollback_Nil:
  "snd (buildRollbackProjection (sbi_normalizedPlan input) (sbi_executionCompatibilityContract input)) = [] \<longleftrightarrow>
     rollback_planned input"
  by (auto simp: buildRollbackProjection_def rollback_planned_def rollbacks_planned_def Let_def list_all_iff projectRollback_def
      no_projection_def split: option.splits)

definition upstream_ok :: "SimulationBuildInput \<Rightarrow> bool" where
  "upstream_ok input \<longleftrightarrow> upstream_allows (sbi_executionTruthPackage input) (sbi_executionCompatibilityContract input)"

lemma bridge_Nil:
  "gsb_failures (buildGovernanceSimulationBridge truth contract) = [] \<longleftrightarrow> upstream_allows truth contract"
  "gsb_blockedOperations (buildGovernanceSimulationBridge truth contract) = [] \<longleftrightarrow> upstream_allows truth contract"
  by (simp_all add: buildGovernanceSimulationBridge_def bridge_failures_def bridge_blocked_def)

section \<open>Runs\<close>

text \<open>The steps for which nothing throws: an object to read, and no \<open>undefined\<close> among the hashed values.\<close>

definition simulable :: "NormalizedPlanStep \<Rightarrow> bool" where
  "simulable step \<longleftrightarrow> ns_sourceId step \<noteq> None \<and> ns_action step \<noteq> JNull \<and> fully_defined (ns_action step) \<and>
     fully_defined (JObj (ns_inputs step)) \<and> fully_defined (JObj (ns_outputs step)) \<and> fully_defined (JArr (ns_constraints step))"

definition all_simulable :: "SimulationBuildInput \<Rightarrow> bool" where
  "all_simulable input \<longleftrightarrow> list_all simulable (np_steps (sbi_normalizedPlan input))"

lemma projected_defined:
  "fully_defined (projected_step_json s) \<and> readable (ns_action s) \<longleftrightarrow> simulable s"
  by (auto simp: projected_step_json_def projected_step_fields_def simulable_def readable_def opt_json_def str_arr_def int_json_def list_all_iff
      split: option.splits)

lemma parts_defined:
  "fully_defined (lineage_context_json l)" "fully_defined (predicted_step_json r)" "fully_defined (predicted_risk_json k)"
  "fully_defined (blocked_operation_json b)" "fully_defined (projection_entry_json e)"
  by (auto simp: lineage_context_json_def predicted_step_json_def predicted_risk_json_def blocked_operation_json_def
      projection_entry_json_def str_arr_def list_all_iff split: option.splits)

lemma content_defined:
  "fully_defined (simulation_content_json plan mode l rs ks bs es) \<longleftrightarrow>
     list_all (\<lambda>s. fully_defined (projected_step_json s)) (np_steps plan)"
  by (simp add: simulation_content_json_def list_all_iff parts_defined)

text \<open>The status a run gives, and when it is ready.\<close>

definition simulation_status :: "SimulationBuildInput \<Rightarrow> SimulationStatus" where
  "simulation_status input =
     (if \<not> lineage_intact input \<or> \<not> upstream_ok input then SimBlocked
      else if \<not> all_predictable input then SimPartial
      else if rollback_planned input then SimSuccess else SimFailed)"

definition simulation_ready :: "SimulationBuildInput \<Rightarrow> bool" where
  "simulation_ready input \<longleftrightarrow> lineage_intact input \<and> upstream_ok input \<and> (all_predictable input \<longrightarrow> rollback_planned input)"

lemma trace_of_None: "trace_of lc sha input = None \<longleftrightarrow> \<not> list_all (\<lambda>s. readable (ns_action s)) (np_steps (sbi_normalizedPlan input))"
  by (simp add: trace_of_def trace_None)

lemma orchestrate_None: "orchestrateSimulation lc sha input = None \<longleftrightarrow> \<not> all_simulable input"
proof -
  have "all_simulable input \<longleftrightarrow> list_all (\<lambda>s. readable (ns_action s)) (np_steps (sbi_normalizedPlan input)) \<and>
      list_all (\<lambda>s. fully_defined (projected_step_json s)) (np_steps (sbi_normalizedPlan input))"
    unfolding all_simulable_def list_all_iff using projected_defined by blast
  then show ?thesis using trace_of_None[of lc sha input]
    by (cases "trace_of lc sha input") (simp_all add: orchestrateSimulation_def bind_eq_None_conv hash_defined simulated_json_def content_defined)
qed

lemma orchestrate_Some:
  assumes "orchestrateSimulation lc sha input = Some (r, ws)"
  obtains trace h ts where "trace_of lc sha input = Some trace"
    and "hashStableContent lc sha REPLAY_CONTEXT (simulated_json lc sha input trace) = Some h"
    and "r = simulationResult lc sha input trace h"
    and "list_all2 (traces (mode_of input) (registry_of input)) (np_steps (sbi_normalizedPlan input)) ts"
    and "sit_predictedSteps trace = map stt_result ts" and "sit_blockedOperations trace = concat (map stt_blocked ts)"
    and "sit_failures trace = concat (map stt_failures ts)"
proof -
  from assms obtain trace h where t: "trace_of lc sha input = Some trace"
    and h: "hashStableContent lc sha REPLAY_CONTEXT (simulated_json lc sha input trace) = Some h"
      "r = simulationResult lc sha input trace h"
    by (auto simp: orchestrateSimulation_def split: Option.bind_splits)
  show thesis by (rule trace_steps[OF t[unfolded trace_of_def]]) (rule that[OF t h])
qed

lemma run_status:
  assumes "orchestrateSimulation lc sha input = Some (r, ws)"
  shows "smr_status r = simulation_status input"
proof (rule orchestrate_Some[OF assms])
  fix trace h ts
  assume r: "r = simulationResult lc sha input trace h"
    and ts: "list_all2 (traces (mode_of input) (registry_of input)) (np_steps (sbi_normalizedPlan input)) ts"
    and fields: "sit_blockedOperations trace = concat (map stt_blocked ts)" "sit_failures trace = concat (map stt_failures ts)"
  note none = traces_Nil[OF ts, folded all_predictable_def]
  have bridge: "gsb_failures (bridge_of input) = [] \<longleftrightarrow> upstream_ok input"
    "gsb_blockedOperations (bridge_of input) = [] \<longleftrightarrow> upstream_ok input"
    by (simp_all only: bridge_of_def bridge_Nil upstream_ok_def)
  have "smr_status r = determineStatus (length (validateSimulationLineage lc sha input)) (length (snd (rollback_of input)))
      (length (gsb_failures (bridge_of input))) (length (sit_failures trace)) (length (blocked_of input trace))"
    by (simp add: r simulationResult_def Let_def)
  then show ?thesis
    unfolding determineStatus_def length_greater_0_conv blocked_of_def append_is_Nil_conv lineage_exact fields none bridge
      rollback_of_def rollback_Nil simulation_status_def
    by (simp only: de_Morgan_conj not_not if_distrib) (simp split: if_splits)
qed

section \<open>What the derived hash covers\<close>

lemma num_strip_wf: "s \<noteq> 0 \<Longrightarrow> wf_num (num_strip s e)"
proof (induction s e rule: num_strip.induct)
  case (1 s e)
  then show ?case by (subst num_strip.simps) (auto simp: wf_num_def)
qed

lemma int_json_numbers: "wf_numbers (int_json i)"
proof (cases "i = 0")
  case True
  then show ?thesis by (simp add: int_json_def num_of_int_def num_strip.simps wf_num_def)
next
  case False
  then show ?thesis by (simp add: int_json_def num_of_int_def num_strip_wf)
qed

text \<open>The values of a step that come from the plan document.\<close>

definition step_values :: "NormalizedPlanStep \<Rightarrow> json list" where
  "step_values s = [ns_action s, JObj (ns_inputs s), JObj (ns_outputs s), JArr (ns_constraints s)]"

definition plan_values_wf :: "NormalizedPlan \<Rightarrow> bool" where
  "plan_values_wf plan \<longleftrightarrow> list_all (\<lambda>s. list_all (\<lambda>v. wf_json v \<and> wf_numbers v) (step_values s)) (np_steps plan)"

lemma projected_wf:
  "list_all (\<lambda>v. wf_json v \<and> wf_numbers v) (step_values s) \<Longrightarrow> wf_json (projected_step_json s) \<and> wf_numbers (projected_step_json s)"
  by (auto simp: step_values_def projected_step_json_def projected_step_fields_def str_arr_def opt_json_def list_all_iff int_json_numbers
      split: option.splits) (simp_all add: int_json_def)

lemma parts_wf:
  "wf_json (lineage_context_json l)" "wf_json (predicted_step_json r)" "wf_json (predicted_risk_json k)"
  "wf_json (blocked_operation_json b)" "wf_json (projection_entry_json e)"
  "wf_numbers (lineage_context_json l)" "wf_numbers (predicted_step_json r)" "wf_numbers (predicted_risk_json k)"
  "wf_numbers (blocked_operation_json b)" "wf_numbers (projection_entry_json e)"
  by (auto simp: lineage_context_json_def predicted_step_json_def predicted_risk_json_def blocked_operation_json_def
      projection_entry_json_def str_arr_def list_all_iff split: option.splits)

lemma content_wf:
  assumes "plan_values_wf plan"
  shows "wf_json (simulation_content_json plan mode l rs ks bs es)" and "wf_numbers (simulation_content_json plan mode l rs ks bs es)"
  using assms projected_wf by (auto simp: simulation_content_json_def plan_values_wf_def list_all_iff parts_wf)

text \<open>What is read back of a step, of its prediction and of its rollback.\<close>

definition step_surface :: "(string \<Rightarrow> string \<Rightarrow> int) \<Rightarrow> NormalizedPlanStep
    \<Rightarrow> string \<times> string option \<times> string \<times> json \<times> json \<times> string list" where
  "step_surface lc s = (ns_id s, ns_sourceId s, ns_type s, decoded lc (ns_action s), decoded lc (JObj (ns_inputs s)),
     ns_dependencies s)"

definition step_verdict :: "SimulationStepResult \<Rightarrow> string \<times> string \<times> string \<times> StepOutcome \<times> bool \<times> bool" where
  "step_verdict r = (ssr_stepId r, ssr_toolId r, ssr_operation r, ssr_status r, ssr_approvalRequired r, ssr_rollbackProjected r)"

lemma decoded_map:
  assumes "decoded lc (JArr (map f xs)) = decoded lc (JArr (map f ys))"
    and "\<And>x y. decoded lc (f x) = decoded lc (f y) \<Longrightarrow> g x = g y"
  shows "map g xs = map g ys"
proof (rule nth_equalityI)
  have eq: "map (\<lambda>x. decoded lc (f x)) xs = map (\<lambda>x. decoded lc (f x)) ys" using assms(1) by (simp add: comp_def)
  then have len: "length xs = length ys" by (rule map_eq_imp_length_eq)
  then show "length (map g xs) = length (map g ys)" by simp
  fix i assume i: "i < length (map g xs)"
  have "decoded lc (f (xs ! i)) = decoded lc (f (ys ! i))" using arg_cong[OF eq, of "\<lambda>zs. zs ! i"] i len by simp
  from assms(2)[OF this] show "map g xs ! i = map g ys ! i" using i len by simp
qed

definition projected_keys :: "string list" where
  "projected_keys = [''id'', ''sourceId'', ''index'', ''type'', ''action'', ''inputs'', ''outputs'', ''dependencies'',
     ''constraints'', ''approvalMode'', ''retryMode'', ''executionMode'', ''autonomyLevel'', ''containmentLevel'']"

lemma projected_keys: "map fst (projected_step_fields s) = projected_keys" "distinct projected_keys"
  "''__proto__'' \<notin> set projected_keys"
  by (simp add: projected_step_fields_def projected_keys_def) code_simp+

lemma decoded_projected: "decoded lc (projected_step_json s) = decoded lc (projected_step_json t) \<Longrightarrow> step_surface lc s = step_surface lc t"
proof -
  assume "decoded lc (projected_step_json s) = decoded lc (projected_step_json t)"
  then have "list_all2 (\<lambda>a b. decoded lc (snd a) = decoded lc (snd b)) (projected_step_fields s) (projected_step_fields t)"
    unfolding projected_step_json_def by (rule decoded_record) (simp_all only: projected_keys not_False_eq_True)
  then show ?thesis
    unfolding projected_step_fields_def list_all2_Cons list_all2_Nil snd_conv step_surface_def
    by (simp only: decoded_simps(5) json.inject decoded_str_arr decoded_opt_str)
qed

lemma outcome_str_inj: "outcome_str a = outcome_str b \<longleftrightarrow> a = b"
  by (cases a; cases b) simp_all

lemma decoded_predicted: "decoded lc (predicted_step_json r) = decoded lc (predicted_step_json q) \<Longrightarrow> step_verdict r = step_verdict q"
proof -
  assume "decoded lc (predicted_step_json r) = decoded lc (predicted_step_json q)"
  from decoded_record[OF this[unfolded predicted_step_json_def]] show ?thesis
    by (simp add: step_verdict_def outcome_str_inj)
qed

lemma decoded_risk: "decoded lc (predicted_risk_json r) = decoded lc (predicted_risk_json q) \<Longrightarrow> r = q"
proof -
  assume "decoded lc (predicted_risk_json r) = decoded lc (predicted_risk_json q)"
  from decoded_record[OF this[unfolded predicted_risk_json_def]] show ?thesis by simp
qed

lemma decoded_blocked: "decoded lc (blocked_operation_json r) = decoded lc (blocked_operation_json q) \<Longrightarrow> r = q"
proof -
  assume "decoded lc (blocked_operation_json r) = decoded lc (blocked_operation_json q)"
  from decoded_record[OF this[unfolded blocked_operation_json_def]] show ?thesis by simp
qed

lemma decoded_context: "decoded lc (lineage_context_json r) = decoded lc (lineage_context_json q) \<Longrightarrow> r = q"
proof -
  assume "decoded lc (lineage_context_json r) = decoded lc (lineage_context_json q)"
  from decoded_record[OF this[unfolded lineage_context_json_def]] show ?thesis by simp
qed

lemma mode_str_inj: "mode_str a = mode_str b \<longleftrightarrow> a = b"
  by (cases a; cases b) simp_all

lemma decoded_content:
  assumes "decoded lc (simulation_content_json p m l rs ks bs es) = decoded lc (simulation_content_json p' m' l' rs' ks' bs' es')"
  shows "np_planId p = np_planId p' \<and> m = m' \<and> l = l' \<and> map (step_surface lc) (np_steps p) = map (step_surface lc) (np_steps p') \<and>
    map step_verdict rs = map step_verdict rs' \<and> ks = ks' \<and> bs = bs'"
proof -
  from decoded_record[OF assms[unfolded simulation_content_json_def]]
  have fields: "m = m'" "np_planId p = np_planId p'"
    and lineage: "decoded lc (lineage_context_json l) = decoded lc (lineage_context_json l')"
    and lists: "decoded lc (JArr (map projected_step_json (np_steps p))) = decoded lc (JArr (map projected_step_json (np_steps p')))"
      "decoded lc (JArr (map predicted_step_json rs)) = decoded lc (JArr (map predicted_step_json rs'))"
      "decoded lc (JArr (map predicted_risk_json ks)) = decoded lc (JArr (map predicted_risk_json ks'))"
      "decoded lc (JArr (map blocked_operation_json bs)) = decoded lc (JArr (map blocked_operation_json bs'))"
    by (simp_all add: mode_str_inj)
  show ?thesis
    using fields decoded_context[OF lineage] decoded_map[OF lists(1) decoded_projected] decoded_map[OF lists(2) decoded_predicted]
      decoded_arr_map[OF lists(3) decoded_risk] decoded_arr_map[OF lists(4) decoded_blocked] by simp
qed

type_synonym simulation_parts =
  "NormalizedPlan \<times> SimulationMode \<times> SimulationLineageContext \<times> SimulationStepResult list \<times> SimulationRisk list \<times>
   BlockedSimulationOperation list \<times> RollbackProjection list"

definition simulation_content :: "simulation_parts \<Rightarrow> json" where
  "simulation_content = (\<lambda>(p, m, l, rs, ks, bs, es). simulation_content_json p m l rs ks bs es)"

definition simulation_surface :: "(string \<Rightarrow> string \<Rightarrow> int) \<Rightarrow> simulation_parts
    \<Rightarrow> string \<times> SimulationMode \<times> SimulationLineageContext \<times> (string \<times> string option \<times> string \<times> json \<times> json \<times> string list) list \<times>
      (string \<times> string \<times> string \<times> StepOutcome \<times> bool \<times> bool) list \<times> SimulationRisk list \<times> BlockedSimulationOperation list" where
  "simulation_surface lc = (\<lambda>(p, m, l, rs, ks, bs, es).
     (np_planId p, m, l, map (step_surface lc) (np_steps p), map step_verdict rs, ks, bs))"

interpretation simulated: hashed_content lc REPLAY_CONTEXT simulation_content "simulation_surface lc"
  "\<lambda>x. plan_values_wf (fst x)" for lc
proof
  fix x y :: simulation_parts
  assume "plan_values_wf (fst x)"
  then show "wf_json (simulation_content x) \<and> wf_numbers (simulation_content x)"
    by (cases x) (simp add: simulation_content_def content_wf)
next
  fix x y :: simulation_parts
  assume eq: "decoded lc (simulation_content x) = decoded lc (simulation_content y)"
  obtain p m l rs ks bs es where x: "x = (p, m, l, rs, ks, bs, es)" by (cases x)
  obtain p' m' l' rs' ks' bs' es' where y: "y = (p', m', l', rs', ks', bs', es')" by (cases y)
  from decoded_content[OF eq[unfolded simulation_content_def x y prod.case]]
  show "simulation_surface lc x = simulation_surface lc y" by (simp add: simulation_surface_def x y)
qed

text \<open>What the hash of a run is made of.\<close>

definition simulated_parts ::
  "(string \<Rightarrow> string \<Rightarrow> int) \<Rightarrow> (string \<Rightarrow> string) \<Rightarrow> SimulationBuildInput \<Rightarrow> SimulationTrace \<Rightarrow> simulation_parts" where
  "simulated_parts lc sha input trace =
     (sbi_normalizedPlan input, mode_of input, buildSimulationLineageContext lc sha (sbi_versionedReplayArtifact input),
      sit_predictedSteps trace, gsb_predictedRisks (bridge_of input), blocked_of input trace, fst (rollback_of input))"

lemma simulated_content: "simulated_json lc sha input trace = simulation_content (simulated_parts lc sha input trace)"
  by (simp add: simulated_json_def simulation_content_def simulated_parts_def)

definition simulated_texts :: "(string \<Rightarrow> string \<Rightarrow> int) \<Rightarrow> (string \<Rightarrow> string) \<Rightarrow> SimulationBuildInput \<Rightarrow> string set" where
  "simulated_texts lc sha input =
     {stable_text lc REPLAY_CONTEXT (simulated_json lc sha input trace) | trace. trace_of lc sha input = Some trace}"

end
