(* ===== verification/ReplayBinding.thy ===== *)
theory ReplayBinding
  imports Admission
begin

text \<open>
  \<open>services/planning/replay-binding\<close>: the last stage before execution.  An admitted plan is bound to its lineage
  hashes and to the fingerprint of a runtime, and the binding is certified for replay or revoked.  Every hashed value
  is there, so every hash exists.
\<close>

section \<open>Types\<close>

datatype ReplayBindingFailureCode =
    IMMUTABLE_LINEAGE_VIOLATION
  | REPLAY_BINDING_DRIFT
  | REPLAY_CERTIFICATION_REVOKED
  | TRUST_ZONE_REPLAY_MISMATCH
  | RUNTIME_BINDING_DIVERGENCE
  | FORENSIC_REPLAY_INCOMPLETE
  | REPLAY_EVIDENCE_CORRUPTED
  | DERIVED_EVIDENCE_MISMATCH
  | REPLAY_RECONSTRUCTION_UNSTABLE

record ReplayBindingFailure =
  rbf_code :: ReplayBindingFailureCode
  rbf_message :: string
  rbf_path :: "string option"

record ReplayBindingContext =
  rbx_planHash :: string
  rbx_executionTruthHash :: string
  rbx_executionCompatibilityHash :: string
  rbx_replaySnapshotHash :: string
  rbx_derivedSimulationHash :: "string option"
  rbx_governanceHash :: string
  rbx_dependencyHash :: string
  rbx_runtimeFingerprintHash :: string
  rbx_trustZoneId :: string
  rbx_admissionDecision :: AdmissionDecision
  rbx_requestedAt :: string

record ImmutableReplayBinding =
  irb_bindingId :: string
  irb_executionTruthHash :: string
  irb_executionCompatibilityHash :: string
  irb_replaySnapshotHash :: string
  irb_derivedSimulationHash :: "string option"
  irb_governanceHash :: string
  irb_dependencyHash :: string
  irb_runtimeFingerprintHash :: string
  irb_trustZoneId :: string
  irb_createdAt :: string

datatype CertificationStatus = CertCERTIFIED | CertREVOKED | CertQUARANTINED | CertFAILED

fun certification_str :: "CertificationStatus \<Rightarrow> string" where
  "certification_str CertCERTIFIED = ''CERTIFIED''"
| "certification_str CertREVOKED = ''REVOKED''"
| "certification_str CertQUARANTINED = ''QUARANTINED''"
| "certification_str CertFAILED = ''FAILED''"

record ReplayCertification =
  rct_certificationId :: string
  rct_replayDeterministic :: bool
  rct_replayComplete :: bool
  rct_replayReconstructable :: bool
  rct_runtimeBindingValid :: bool
  rct_trustZoneValidated :: bool
  rct_certificationStatus :: CertificationStatus
  rct_createdAt :: string

datatype RevocationCause =
    ADMISSION_REVOKED | LINEAGE_DRIFT | TRUST_ZONE_VIOLATION | RUNTIME_DIVERGENCE | REPLAY_CORRUPTION

fun cause_str :: "RevocationCause \<Rightarrow> string" where
  "cause_str ADMISSION_REVOKED = ''ADMISSION_REVOKED''"
| "cause_str LINEAGE_DRIFT = ''LINEAGE_DRIFT''"
| "cause_str TRUST_ZONE_VIOLATION = ''TRUST_ZONE_VIOLATION''"
| "cause_str RUNTIME_DIVERGENCE = ''RUNTIME_DIVERGENCE''"
| "cause_str REPLAY_CORRUPTION = ''REPLAY_CORRUPTION''"

record ReplayRevocation =
  rrv_replayId :: string
  rrv_revokedBecause :: RevocationCause
  rrv_escalationRequired :: bool

record RuntimeDriftObservation =
  rdo_valid :: bool
  rdo_failures :: "ReplayBindingFailure list"

record TrustZoneReplayValidation =
  tzv_valid :: bool
  tzv_failures :: "ReplayBindingFailure list"

record ReplayBindingReadiness =
  rbd_context :: ReplayBindingContext
  rbd_contextHash :: string
  rbd_binding :: ImmutableReplayBinding
  rbd_certification :: ReplayCertification
  rbd_revocation :: "ReplayRevocation option"
  rbd_replayBindingHash :: string
  rbd_failures :: "ReplayBindingFailure list"

record ReplayBindingBuildInput =
  bbi_admissionInput :: AdmissionBuildInput
  bbi_admissionReadiness :: AdmissionReadiness
  bbi_runtimeFingerprintHash :: string
  bbi_trustZoneId :: "string option"
  bbi_expectedRuntimeFingerprintHash :: "string option"
  bbi_expectedDerivedSimulationHash :: "string option"
  bbi_expectedReplayBindingHash :: "string option"

definition createReplayBindingFailure ::
  "ReplayBindingFailureCode \<Rightarrow> string \<Rightarrow> string option \<Rightarrow> ReplayBindingFailure" where
  "createReplayBindingFailure code message path = \<lparr>rbf_code = code, rbf_message = message, rbf_path = path\<rparr>"

definition binding_failure_if ::
  "bool \<Rightarrow> ReplayBindingFailureCode \<Rightarrow> string \<Rightarrow> string \<Rightarrow> ReplayBindingFailure list" where
  "binding_failure_if failed code message path =
     (if failed then [createReplayBindingFailure code message (Some path)] else [])"

section \<open>Context and binding\<close>

definition admitted_lineage :: "ReplayBindingBuildInput \<Rightarrow> AdmissionLineageAnchors" where
  "admitted_lineage input = adc_lineage (ads_context (bbi_admissionReadiness input))"

definition admitted_decision :: "ReplayBindingBuildInput \<Rightarrow> AdmissionDecision" where
  "admitted_decision input = adr_decision (ads_result (bbi_admissionReadiness input))"

definition admitted_zone :: "ReplayBindingBuildInput \<Rightarrow> string" where
  "admitted_zone input = zone_str (adc_trustZone (ads_context (bbi_admissionReadiness input)))"

definition binding_zone :: "ReplayBindingBuildInput \<Rightarrow> string" where
  "binding_zone input = js_default (admitted_zone input) (bbi_trustZoneId input)"

definition buildReplayBindingContext :: "ReplayBindingBuildInput \<Rightarrow> ReplayBindingContext" where
  "buildReplayBindingContext input =
     (let context = ads_context (bbi_admissionReadiness input); lineage = adc_lineage context in
      \<lparr>rbx_planHash = adc_planHash context, rbx_executionTruthHash = ala_executionTruthHash lineage,
       rbx_executionCompatibilityHash = ala_executionCompatibilityHash lineage,
       rbx_replaySnapshotHash = ala_replaySnapshotHash lineage,
       rbx_derivedSimulationHash = when_given (ala_derivedSimulationHash lineage),
       rbx_governanceHash = adc_governanceSnapshotHash context,
       rbx_dependencyHash = sn_dependencyGraphFingerprint
         (xc_compatibilitySnapshot (abi_executionCompatibilityContract (bbi_admissionInput input))),
       rbx_runtimeFingerprintHash = bbi_runtimeFingerprintHash input, rbx_trustZoneId = binding_zone input,
       rbx_admissionDecision = admitted_decision input, rbx_requestedAt = adc_requestedAt context\<rparr>)"

definition bindingId :: "ReplayBindingBuildInput \<Rightarrow> string" where
  "bindingId input = ''rb-'' @ np_planId (abi_normalizedPlan (bbi_admissionInput input))"

definition buildImmutableReplayBinding :: "ReplayBindingBuildInput \<Rightarrow> ImmutableReplayBinding" where
  "buildImmutableReplayBinding input =
     (let context = buildReplayBindingContext input in
      \<lparr>irb_bindingId = bindingId input, irb_executionTruthHash = rbx_executionTruthHash context,
       irb_executionCompatibilityHash = rbx_executionCompatibilityHash context,
       irb_replaySnapshotHash = rbx_replaySnapshotHash context,
       irb_derivedSimulationHash = when_given (rbx_derivedSimulationHash context),
       irb_governanceHash = rbx_governanceHash context, irb_dependencyHash = rbx_dependencyHash context,
       irb_runtimeFingerprintHash = rbx_runtimeFingerprintHash context, irb_trustZoneId = rbx_trustZoneId context,
       irb_createdAt = rbx_requestedAt context\<rparr>)"

definition binding_context_json :: "ReplayBindingContext \<Rightarrow> json" where
  "binding_context_json c = JObj
     ([(''planHash'', JStr (rbx_planHash c)), (''executionTruthHash'', JStr (rbx_executionTruthHash c)),
       (''executionCompatibilityHash'', JStr (rbx_executionCompatibilityHash c)),
       (''replaySnapshotHash'', JStr (rbx_replaySnapshotHash c))] @
      optional_entry ''derivedSimulationHash'' (map_option JStr (rbx_derivedSimulationHash c)) @
      [(''governanceHash'', JStr (rbx_governanceHash c)), (''dependencyHash'', JStr (rbx_dependencyHash c)),
       (''runtimeFingerprintHash'', JStr (rbx_runtimeFingerprintHash c)), (''trustZoneId'', JStr (rbx_trustZoneId c)),
       (''admissionDecision'', JStr (decision_str (rbx_admissionDecision c))), (''requestedAt'', JStr (rbx_requestedAt c))])"

definition binding_json :: "ImmutableReplayBinding \<Rightarrow> json" where
  "binding_json b = JObj
     ([(''bindingId'', JStr (irb_bindingId b)), (''executionTruthHash'', JStr (irb_executionTruthHash b)),
       (''executionCompatibilityHash'', JStr (irb_executionCompatibilityHash b)),
       (''replaySnapshotHash'', JStr (irb_replaySnapshotHash b))] @
      optional_entry ''derivedSimulationHash'' (map_option JStr (irb_derivedSimulationHash b)) @
      [(''governanceHash'', JStr (irb_governanceHash b)), (''dependencyHash'', JStr (irb_dependencyHash b)),
       (''runtimeFingerprintHash'', JStr (irb_runtimeFingerprintHash b)), (''trustZoneId'', JStr (irb_trustZoneId b)),
       (''createdAt'', JStr (irb_createdAt b))])"

definition hashReplayBindingContext ::
  "(string \<Rightarrow> string \<Rightarrow> int) \<Rightarrow> (string \<Rightarrow> string) \<Rightarrow> ReplayBindingContext \<Rightarrow> string" where
  "hashReplayBindingContext lc sha context =
     js_default [] (hashStableContent lc sha REPLAY_CONTEXT (binding_context_json context))"

section \<open>Runtime and trust zone\<close>

definition observeRuntimeDrift :: "ReplayBindingBuildInput \<Rightarrow> RuntimeDriftObservation" where
  "observeRuntimeDrift input =
     (let runtime = abi_runtimeMetadata (bbi_admissionInput input);
          failures =
            binding_failure_if (bbi_runtimeFingerprintHash input = []) RUNTIME_BINDING_DIVERGENCE
              ''Runtime fingerprint hash is required for replay binding.'' ''runtimeFingerprintHash'' @
            binding_failure_if (differs (bbi_expectedRuntimeFingerprintHash input) (bbi_runtimeFingerprintHash input))
              RUNTIME_BINDING_DIVERGENCE ''Runtime fingerprint drift detected during replay binding.''
              ''expectedRuntimeFingerprintHash'' @
            binding_failure_if (rrm_runtimeSnapshotHash runtime = []) FORENSIC_REPLAY_INCOMPLETE
              ''Admission runtime snapshot hash is missing.'' ''admissionInput.runtimeMetadata.runtimeSnapshotHash'' @
            binding_failure_if (rrm_mutationAttempted runtime) RUNTIME_BINDING_DIVERGENCE
              ''Replay binding observed a runtime mutation attempt.'' ''admissionInput.runtimeMetadata.mutationAttempted''
      in \<lparr>rdo_valid = (failures = []), rdo_failures = failures\<rparr>)"

definition validateTrustZoneReplay :: "ReplayBindingBuildInput \<Rightarrow> TrustZoneReplayValidation" where
  "validateTrustZoneReplay input =
     (let failures =
            binding_failure_if (binding_zone input \<noteq> admitted_zone input) TRUST_ZONE_REPLAY_MISMATCH
              (''Replay binding trust zone '' @ binding_zone input @ '' does not match admitted trust zone '' @
               admitted_zone input @ ''.'') ''trustZoneId'' @
            binding_failure_if (admitted_decision input = QUARANTINED \<or> admitted_decision input = DENIED)
              REPLAY_CERTIFICATION_REVOKED
              ''Replay certification cannot proceed from a quarantined or denied admission state.''
              ''admissionReadiness.result.decision''
      in \<lparr>tzv_valid = (failures = []), tzv_failures = failures\<rparr>)"

section \<open>Certification\<close>

text \<open>The checks of an audit that is ready with its artifacts.\<close>

definition artifactFailures :: "ReplayBindingBuildInput \<Rightarrow> ReplayAuditResult \<Rightarrow> ReplayAuditArtifacts \<Rightarrow> ReplayBindingFailure list" where
  "artifactFailures input audit artifacts =
     (let lineage = admitted_lineage input; simulation = ala_derivedSimulationHash lineage in
      binding_failure_if
        (\<not> given (rar_replayProofHash audit) \<or> \<not> given (rar_auditArtifactHash audit) \<or> \<not> given (rar_evidenceReferenceHash audit))
        FORENSIC_REPLAY_INCOMPLETE ''Replay proof, audit artifact, and evidence reference hashes are required.''
        ''versionedReplayArtifact.replayAuditResult'' @
      binding_failure_if
        (rpf_verdict (raa_replayProof artifacts) \<noteq> REPLAY_COMPATIBLE \<or> \<not> rpf_structuralEquality (raa_replayProof artifacts))
        REPLAY_RECONSTRUCTION_UNSTABLE ''Replay proof does not certify deterministic reconstruction.''
        ''versionedReplayArtifact.replayAuditResult.artifacts.replayProof'' @
      binding_failure_if
        (rar_executionTruthHash audit \<noteq> Some (ala_executionTruthHash lineage) \<or>
         rar_executionCompatibilityHash audit \<noteq> Some (ala_executionCompatibilityHash lineage) \<or>
         rar_replaySnapshotHash audit \<noteq> Some (ala_replaySnapshotHash lineage))
        IMMUTABLE_LINEAGE_VIOLATION ''Replay audit hashes do not match admitted lineage anchors.''
        ''versionedReplayArtifact.replayAuditResult'' @
      binding_failure_if
        (given (bbi_expectedDerivedSimulationHash input) \<and> given simulation \<and> bbi_expectedDerivedSimulationHash input \<noteq> simulation)
        DERIVED_EVIDENCE_MISMATCH ''Derived simulation hash does not match expected replay binding evidence.''
        ''expectedDerivedSimulationHash'')"

definition admitted_audit :: "ReplayBindingBuildInput \<Rightarrow> ReplayAuditResult" where
  "admitted_audit input = vra_replayAuditResult (abi_versionedReplayArtifact (bbi_admissionInput input))"

definition collectEvidenceFailures :: "ReplayBindingBuildInput \<Rightarrow> ReplayBindingFailure list" where
  "collectEvidenceFailures input =
     (let audit = admitted_audit input in
      case (if rar_verdict audit = REPLAY_AUDIT_READY then rar_artifacts audit else None) of
        None \<Rightarrow> [createReplayBindingFailure FORENSIC_REPLAY_INCOMPLETE
          ''Replay audit artifacts are required for replay certification.'' (Some ''versionedReplayArtifact.replayAuditResult'')]
      | Some artifacts \<Rightarrow> artifactFailures input audit artifacts)"

definition some_code :: "ReplayBindingFailureCode set \<Rightarrow> ReplayBindingFailure list \<Rightarrow> bool" where
  "some_code codes failures = list_ex (\<lambda>failure. rbf_code failure \<in> codes) failures"

definition admission_withdrawn :: "AdmissionDecision \<Rightarrow> bool" where
  "admission_withdrawn decision \<longleftrightarrow> decision = REVOKED \<or> decision = DENIED \<or> decision = QUARANTINED"

definition certifyReplayReadiness ::
  "ReplayBindingBuildInput \<Rightarrow> ImmutableReplayBinding \<Rightarrow> bool \<Rightarrow> bool \<Rightarrow> ReplayBindingFailure list
   \<Rightarrow> ReplayCertification \<times> ReplayBindingFailure list" where
  "certifyReplayReadiness buildInput binding runtimeValid trustZoneValid preexistingFailures =
     (let evidenceFailures = collectEvidenceFailures buildInput; failures = preexistingFailures @ evidenceFailures;
          decision = admitted_decision buildInput;
          quarantined = (decision = QUARANTINED \<or> some_code {TRUST_ZONE_REPLAY_MISMATCH} failures)
      in (\<lparr>rct_certificationId = ''rc-'' @ irb_bindingId binding,
           rct_replayDeterministic = (\<not> some_code {REPLAY_RECONSTRUCTION_UNSTABLE} evidenceFailures),
           rct_replayComplete = (\<not> some_code {FORENSIC_REPLAY_INCOMPLETE} evidenceFailures),
           rct_replayReconstructable =
             (\<not> some_code {REPLAY_EVIDENCE_CORRUPTED, REPLAY_RECONSTRUCTION_UNSTABLE} evidenceFailures),
           rct_runtimeBindingValid = runtimeValid, rct_trustZoneValidated = trustZoneValid,
           rct_certificationStatus =
             (if admission_withdrawn decision then CertREVOKED
              else if quarantined then CertQUARANTINED
              else if failures \<noteq> [] \<or> \<not> runtimeValid \<or> \<not> trustZoneValid then CertFAILED
              else CertCERTIFIED),
           rct_createdAt = irb_createdAt binding\<rparr>,
          failures))"

definition coordinateReplayRevocation ::
  "ReplayBindingBuildInput \<Rightarrow> ReplayBindingFailure list \<Rightarrow> ReplayRevocation option" where
  "coordinateReplayRevocation buildInput failures =
     (let decision = admitted_decision buildInput;
          revocation = (\<lambda>cause escalation. Some
            \<lparr>rrv_replayId = bindingId buildInput, rrv_revokedBecause = cause, rrv_escalationRequired = escalation\<rparr>)
      in
       if admission_withdrawn decision then revocation ADMISSION_REVOKED (decision = QUARANTINED)
       else if some_code {IMMUTABLE_LINEAGE_VIOLATION, REPLAY_BINDING_DRIFT} failures then revocation LINEAGE_DRIFT True
       else if some_code {TRUST_ZONE_REPLAY_MISMATCH} failures then revocation TRUST_ZONE_VIOLATION True
       else if some_code {RUNTIME_BINDING_DIVERGENCE} failures then revocation RUNTIME_DIVERGENCE True
       else if some_code {REPLAY_EVIDENCE_CORRUPTED, REPLAY_RECONSTRUCTION_UNSTABLE} failures
       then revocation REPLAY_CORRUPTION True
       else None)"

definition certification_json :: "ReplayCertification \<Rightarrow> json" where
  "certification_json c = JObj
     [(''certificationId'', JStr (rct_certificationId c)), (''replayDeterministic'', JBool (rct_replayDeterministic c)),
      (''replayComplete'', JBool (rct_replayComplete c)), (''replayReconstructable'', JBool (rct_replayReconstructable c)),
      (''runtimeBindingValid'', JBool (rct_runtimeBindingValid c)), (''trustZoneValidated'', JBool (rct_trustZoneValidated c)),
      (''certificationStatus'', JStr (certification_str (rct_certificationStatus c))), (''createdAt'', JStr (rct_createdAt c))]"

definition replay_revocation_json :: "ReplayRevocation \<Rightarrow> json" where
  "replay_revocation_json r = JObj
     [(''replayId'', JStr (rrv_replayId r)), (''revokedBecause'', JStr (cause_str (rrv_revokedBecause r))),
      (''escalationRequired'', JBool (rrv_escalationRequired r))]"

definition bound_json ::
  "ReplayBindingContext \<Rightarrow> ImmutableReplayBinding \<Rightarrow> ReplayCertification \<Rightarrow> ReplayRevocation option \<Rightarrow> json" where
  "bound_json context binding certification revocation = JObj
     ([(''phase'', JStr ''4.2M''), (''context'', binding_context_json context), (''binding'', binding_json binding),
       (''certification'', certification_json certification)] @
      optional_entry ''revocation'' (map_option replay_revocation_json revocation))"

definition deriveReplayBindingHash ::
  "(string \<Rightarrow> string \<Rightarrow> int) \<Rightarrow> (string \<Rightarrow> string) \<Rightarrow> ReplayBindingContext \<Rightarrow> ImmutableReplayBinding \<Rightarrow> ReplayCertification
   \<Rightarrow> ReplayRevocation option \<Rightarrow> string" where
  "deriveReplayBindingHash lc sha context binding certification revocation =
     js_default [] (hashStableContent lc sha REPLAY_CONTEXT (bound_json context binding certification revocation))"

definition buildReplayBindingReadiness ::
  "(string \<Rightarrow> string \<Rightarrow> int) \<Rightarrow> (string \<Rightarrow> string) \<Rightarrow> ReplayBindingBuildInput \<Rightarrow> ReplayBindingReadiness" where
  "buildReplayBindingReadiness lc sha input =
     (let context = buildReplayBindingContext input; binding = buildImmutableReplayBinding input;
          runtime = observeRuntimeDrift input; trustZone = validateTrustZoneReplay input;
          (certification, certificationFailures) = certifyReplayReadiness input binding (rdo_valid runtime) (tzv_valid trustZone)
            (rdo_failures runtime @ tzv_failures trustZone);
          revocation = coordinateReplayRevocation input certificationFailures;
          replayBindingHash = deriveReplayBindingHash lc sha context binding certification revocation
      in \<lparr>rbd_context = context, rbd_contextHash = hashReplayBindingContext lc sha context, rbd_binding = binding,
          rbd_certification = certification, rbd_revocation = revocation, rbd_replayBindingHash = replayBindingHash,
          rbd_failures = certificationFailures @
            binding_failure_if (differs (bbi_expectedReplayBindingHash input) replayBindingHash) REPLAY_BINDING_DRIFT
              ''Derived replay binding hash does not match expected value.'' ''expectedReplayBindingHash''\<rparr>)"

end
