(* ===== verification/ReplayBindingFacts.thy ===== *)
theory ReplayBindingFacts
  imports ReplayBinding AdmissionFacts
begin

text \<open>
  Facts on the parts of replay binding: what its checks accept, as conditions on the input; which codes they
  give; and what the text behind the binding hash determines.
\<close>

section \<open>The checks\<close>

lemma binding_failure_Nil [simp]: "binding_failure_if b code m p = [] \<longleftrightarrow> \<not> b"
  by (simp add: binding_failure_if_def)

lemma some_code_simps [simp]:
  "\<not> some_code codes []" "some_code codes (xs @ ys) \<longleftrightarrow> some_code codes xs \<or> some_code codes ys"
  "some_code codes (binding_failure_if b code m p) \<longleftrightarrow> b \<and> code \<in> codes"
  "some_code codes [createReplayBindingFailure code m q] \<longleftrightarrow> code \<in> codes"
  by (simp_all add: some_code_def binding_failure_if_def createReplayBindingFailure_def)

text \<open>The audit a binding rests on: ready, with its artifacts.\<close>

definition bound_artifacts :: "ReplayBindingBuildInput \<Rightarrow> ReplayAuditArtifacts option" where
  "bound_artifacts input =
     (if rar_verdict (admitted_audit input) = REPLAY_AUDIT_READY then rar_artifacts (admitted_audit input) else None)"

definition proof_stable :: "ReplayAuditArtifacts \<Rightarrow> bool" where
  "proof_stable x \<longleftrightarrow> rpf_verdict (raa_replayProof x) = REPLAY_COMPATIBLE \<and> rpf_structuralEquality (raa_replayProof x)"

definition lineage_kept :: "ReplayBindingBuildInput \<Rightarrow> bool" where
  "lineage_kept input \<longleftrightarrow>
     rar_executionTruthHash (admitted_audit input) = Some (ala_executionTruthHash (admitted_lineage input)) \<and>
     rar_executionCompatibilityHash (admitted_audit input) = Some (ala_executionCompatibilityHash (admitted_lineage input)) \<and>
     rar_replaySnapshotHash (admitted_audit input) = Some (ala_replaySnapshotHash (admitted_lineage input))"

definition proofs_given :: "ReplayAuditResult \<Rightarrow> bool" where
  "proofs_given audit \<longleftrightarrow> given (rar_replayProofHash audit) \<and> given (rar_auditArtifactHash audit) \<and>
     given (rar_evidenceReferenceHash audit)"

definition simulation_expected :: "ReplayBindingBuildInput \<Rightarrow> bool" where
  "simulation_expected input \<longleftrightarrow>
     bbi_expectedDerivedSimulationHash input \<in> {None, Some []} \<or>
     ala_derivedSimulationHash (admitted_lineage input) \<in> {None, Some [], bbi_expectedDerivedSimulationHash input}"

definition evidence_complete :: "ReplayBindingBuildInput \<Rightarrow> bool" where
  "evidence_complete input \<longleftrightarrow>
     (\<exists>x. bound_artifacts input = Some x \<and> proof_stable x) \<and> proofs_given (admitted_audit input) \<and> lineage_kept input \<and>
     simulation_expected input"

lemma evidence_None: "bound_artifacts input = None \<Longrightarrow> collectEvidenceFailures input =
    [createReplayBindingFailure FORENSIC_REPLAY_INCOMPLETE
      ''Replay audit artifacts are required for replay certification.'' (Some ''versionedReplayArtifact.replayAuditResult'')]"
  by (simp add: collectEvidenceFailures_def bound_artifacts_def Let_def)

lemma evidence_Some:
  "bound_artifacts input = Some x \<Longrightarrow> collectEvidenceFailures input = artifactFailures input (admitted_audit input) x"
  by (simp add: collectEvidenceFailures_def bound_artifacts_def Let_def split: if_splits)

lemma simulation_expected_iff:
  "given (bbi_expectedDerivedSimulationHash input) \<and> given (ala_derivedSimulationHash (admitted_lineage input)) \<and>
     bbi_expectedDerivedSimulationHash input \<noteq> ala_derivedSimulationHash (admitted_lineage input) \<longleftrightarrow> \<not> simulation_expected input"
  using not_given_iff[of "bbi_expectedDerivedSimulationHash input"] not_given_iff[of "ala_derivedSimulationHash (admitted_lineage input)"]
  by (auto simp: simulation_expected_def)

lemma artifact_checks:
  "artifactFailures input (admitted_audit input) x = [] \<longleftrightarrow>
     proofs_given (admitted_audit input) \<and> proof_stable x \<and> lineage_kept input \<and> simulation_expected input"
  "some_code codes (artifactFailures input (admitted_audit input) x) \<longleftrightarrow>
     \<not> proofs_given (admitted_audit input) \<and> FORENSIC_REPLAY_INCOMPLETE \<in> codes \<or>
     \<not> proof_stable x \<and> REPLAY_RECONSTRUCTION_UNSTABLE \<in> codes \<or>
     \<not> lineage_kept input \<and> IMMUTABLE_LINEAGE_VIOLATION \<in> codes \<or>
     \<not> simulation_expected input \<and> DERIVED_EVIDENCE_MISMATCH \<in> codes"
  unfolding artifactFailures_def Let_def append_is_Nil_conv binding_failure_Nil some_code_simps simulation_expected_iff
  by (auto simp: proofs_given_def proof_stable_def lineage_kept_def)

lemma evidence_Nil: "collectEvidenceFailures input = [] \<longleftrightarrow> evidence_complete input"
  by (cases "bound_artifacts input") (auto simp: evidence_None evidence_Some artifact_checks evidence_complete_def)

definition runtime_bound :: "ReplayBindingBuildInput \<Rightarrow> bool" where
  "runtime_bound input \<longleftrightarrow> bbi_runtimeFingerprintHash input \<noteq> [] \<and>
     bbi_expectedRuntimeFingerprintHash input \<in> {None, Some [], Some (bbi_runtimeFingerprintHash input)} \<and>
     \<not> rrm_mutationAttempted (abi_runtimeMetadata (bbi_admissionInput input))"

definition snapshot_taken :: "ReplayBindingBuildInput \<Rightarrow> bool" where
  "snapshot_taken input \<longleftrightarrow> rrm_runtimeSnapshotHash (abi_runtimeMetadata (bbi_admissionInput input)) \<noteq> []"

lemma runtime_checks:
  "rdo_failures (observeRuntimeDrift input) = [] \<longleftrightarrow> runtime_bound input \<and> snapshot_taken input"
  "rdo_valid (observeRuntimeDrift input) \<longleftrightarrow> runtime_bound input \<and> snapshot_taken input"
  "some_code codes (rdo_failures (observeRuntimeDrift input)) \<longleftrightarrow>
     \<not> runtime_bound input \<and> RUNTIME_BINDING_DIVERGENCE \<in> codes \<or> \<not> snapshot_taken input \<and> FORENSIC_REPLAY_INCOMPLETE \<in> codes"
  by (auto simp: observeRuntimeDrift_def Let_def differs_iff runtime_bound_def snapshot_taken_def)

definition zone_kept :: "ReplayBindingBuildInput \<Rightarrow> bool" where
  "zone_kept input \<longleftrightarrow> binding_zone input = admitted_zone input"

lemma zone_checks:
  "tzv_failures (validateTrustZoneReplay input) = [] \<longleftrightarrow>
     zone_kept input \<and> admitted_decision input \<noteq> QUARANTINED \<and> admitted_decision input \<noteq> DENIED"
  "tzv_valid (validateTrustZoneReplay input) \<longleftrightarrow>
     zone_kept input \<and> admitted_decision input \<noteq> QUARANTINED \<and> admitted_decision input \<noteq> DENIED"
  "some_code codes (tzv_failures (validateTrustZoneReplay input)) \<longleftrightarrow>
     \<not> zone_kept input \<and> TRUST_ZONE_REPLAY_MISMATCH \<in> codes \<or>
     (admitted_decision input = QUARANTINED \<or> admitted_decision input = DENIED) \<and> REPLAY_CERTIFICATION_REVOKED \<in> codes"
  by (auto simp: validateTrustZoneReplay_def Let_def zone_kept_def)

section \<open>The readiness, part by part\<close>

definition certification_failures :: "ReplayBindingBuildInput \<Rightarrow> ReplayBindingFailure list" where
  "certification_failures input =
     (rdo_failures (observeRuntimeDrift input) @ tzv_failures (validateTrustZoneReplay input)) @ collectEvidenceFailures input"

abbreviation certification_of :: "ReplayBindingBuildInput \<Rightarrow> ReplayCertification" where
  "certification_of input \<equiv> fst (certifyReplayReadiness input (buildImmutableReplayBinding input)
     (rdo_valid (observeRuntimeDrift input)) (tzv_valid (validateTrustZoneReplay input))
     (rdo_failures (observeRuntimeDrift input) @ tzv_failures (validateTrustZoneReplay input)))"

abbreviation revocation_of :: "ReplayBindingBuildInput \<Rightarrow> ReplayRevocation option" where
  "revocation_of input \<equiv> coordinateReplayRevocation input (certification_failures input)"

lemma binding_result:
  "rbd_context (buildReplayBindingReadiness lc sha input) = buildReplayBindingContext input"
  "rbd_binding (buildReplayBindingReadiness lc sha input) = buildImmutableReplayBinding input"
  "rbd_certification (buildReplayBindingReadiness lc sha input) = certification_of input"
  "rbd_revocation (buildReplayBindingReadiness lc sha input) = revocation_of input"
  "rbd_replayBindingHash (buildReplayBindingReadiness lc sha input) =
     deriveReplayBindingHash lc sha (buildReplayBindingContext input) (buildImmutableReplayBinding input)
       (certification_of input) (revocation_of input)"
  "rbd_failures (buildReplayBindingReadiness lc sha input) = certification_failures input @
     binding_failure_if (differs (bbi_expectedReplayBindingHash input)
       (rbd_replayBindingHash (buildReplayBindingReadiness lc sha input))) REPLAY_BINDING_DRIFT
       ''Derived replay binding hash does not match expected value.'' ''expectedReplayBindingHash''"
  by (simp_all add: buildReplayBindingReadiness_def certifyReplayReadiness_def certification_failures_def Let_def)

lemma certification_failures_Nil:
  "certification_failures input = [] \<longleftrightarrow> runtime_bound input \<and> snapshot_taken input \<and> zone_kept input \<and>
     admitted_decision input \<noteq> QUARANTINED \<and> admitted_decision input \<noteq> DENIED \<and> evidence_complete input"
  by (auto simp: certification_failures_def runtime_checks zone_checks evidence_Nil)

lemma evidence_zone: "\<not> some_code {TRUST_ZONE_REPLAY_MISMATCH} (collectEvidenceFailures input)"
  by (cases "bound_artifacts input") (simp_all add: evidence_None evidence_Some artifact_checks)

lemma status_of:
  "rct_certificationStatus (certification_of input) =
     (if admission_withdrawn (admitted_decision input) then CertREVOKED
      else if \<not> zone_kept input then CertQUARANTINED
      else if runtime_bound input \<and> snapshot_taken input \<and> evidence_complete input then CertCERTIFIED
      else CertFAILED)"
  by (auto simp: certifyReplayReadiness_def Let_def admission_withdrawn_def runtime_checks zone_checks evidence_zone evidence_Nil)

end
