(* ===== verification/AdmissionPipeline.thy ===== *)
theory AdmissionPipeline
  imports AuditPipeline AdmissionProperties SimulationFacts ReplayBindingFacts
begin

text \<open>
  The last three stages in sequence: what a ready audit and a faithful artifact bring with them (\<open>audit_brings\<close>,
  \<open>artifact_brings\<close>) is what simulation, admission and replay binding ask for.
\<close>

section \<open>What a ready audit brings\<close>

lemma audit_brings:
  assumes "rar_verdict (buildReplayAuditReadiness lc sha input) = REPLAY_AUDIT_READY" and "\<forall>t. sha t \<noteq> []"
  obtains x h where "rar_artifacts (buildReplayAuditReadiness lc sha input) = Some x" and "proof_stable x"
    and "proofs_given (buildReplayAuditReadiness lc sha input)"
    and "rar_replaySnapshotHash (buildReplayAuditReadiness lc sha input) = Some h" and "h \<noteq> []"
    and "rar_executionTruthHash (buildReplayAuditReadiness lc sha input) = Some (xc_executionTruthHash (rai_contract input))"
    and "rar_executionCompatibilityHash (buildReplayAuditReadiness lc sha input) =
      Some (xc_executionCompatibilityHash (rai_contract input))"
    and "xc_executionTruthHash (rai_contract input) \<noteq> []" and "xc_executionCompatibilityHash (rai_contract input) \<noteq> []"
    and "tp_executionTruthHash (rai_executionTruthPackage input) = xc_executionTruthHash (rai_contract input)"
    and "ris_planHash (raa_replayInputSnapshot x) = rar_planHash (buildReplayAuditReadiness lc sha input)"
    and "paa_planHash (raa_auditArtifact x) = rar_planHash (buildReplayAuditReadiness lc sha input)"
proof (rule ready_run[OF assms(1)])
  fix s h
  let ?planHash = "derivePlanHash sha (rai_normalizedPlan input)"
  let ?r = "completeAudit lc sha input ?planHash (buildCompatibilityHashReference (rai_contract input) h) h []"
  assume run: "buildReplayAuditReadiness lc sha input = ?r"
    and ingested: "ingestionFailures (rai_contract input) (Some s) = []" and truth: "validateCompatibilityTruth lc input s h = []"
  let ?x = "the (rar_artifacts ?r)"
  have fields: "rar_artifacts ?r = Some ?x" "rar_executionTruthHash ?r = Some (xc_executionTruthHash (rai_contract input))"
    "rar_executionCompatibilityHash ?r = Some (xc_executionCompatibilityHash (rai_contract input))"
    "rar_replaySnapshotHash ?r = Some (raa_replaySnapshotHash ?x)"
    "raa_replaySnapshotHash ?x = hashReplayInputSnapshot lc sha (input_snapshot_json (buildReplayInputSnapshot input ?planHash h))"
    "ris_planHash (raa_replayInputSnapshot ?x) = rar_planHash ?r" "paa_planHash (raa_auditArtifact ?x) = rar_planHash ?r"
    "rar_verdict ?r = REPLAY_AUDIT_READY \<Longrightarrow> validateReplayProof (raa_replayProof ?x) = []"
    by (simp_all add: completeAudit_def Let_def buildEvidenceReference_def buildCompatibilityHashReference_def
        buildReplayInputSnapshot_def buildAuditArtifact_def BareAuditArtifact.defs PlanAuditArtifact.defs split: if_splits)
  have stable: "proof_stable ?x"
    using fields(8) assms(1) unfolding run by (auto simp: validateReplayProof_def proof_stable_def audit_failure_if_def split: if_splits)
  have given: "proofs_given ?r"
    using assms(2) by (simp add: completeAudit_def Let_def buildEvidenceReference_def proofs_given_def hashReplayProof_def
        hashAuditArtifact_def hashPayloadDeterministically_def)
  show thesis
    using that[of ?x "raa_replaySnapshotHash ?x"] fields stable given ingested[unfolded ingestion_ok] truth[unfolded truth_ok]
      hashReplay_nonempty[OF assms(2)] unfolding run by metis
qed

section \<open>What a versioned artifact brings\<close>

text \<open>The artifact of a ready versioning of a ready audit of the plan.\<close>

definition artifact_of ::
  "(string \<Rightarrow> string \<Rightarrow> int) \<Rightarrow> (string \<Rightarrow> string) \<Rightarrow> NormalizedPlan \<Rightarrow> ExecutionTruthPackage \<Rightarrow> ExecutionCompatibilityContract
   \<Rightarrow> VersionedReplayArtifact \<Rightarrow> bool" where
  "artifact_of lc sha plan truth c a \<longleftrightarrow>
     (let audit = buildReplayAuditReadiness lc sha (auditInput plan truth c) in
      rar_verdict audit = REPLAY_AUDIT_READY \<and> vra_replayAuditResult a = audit \<and>
      vra_immutableReplayIdentityRoot a = buildImmutableReplayIdentityRoot audit c \<and>
      vra_replayLineageInvariant a =
        buildReplayLineageInvariant (vra_immutableReplayIdentityRoot a) (vra_migrationLineage a))"

definition simulationRequest ::
  "NormalizedPlan \<Rightarrow> ExecutionTruthPackage \<Rightarrow> ExecutionCompatibilityContract \<Rightarrow> VersionedReplayArtifact \<Rightarrow> SimulationBuildInput" where
  "simulationRequest plan truth c a =
     \<lparr>sbi_normalizedPlan = plan, sbi_executionTruthPackage = truth, sbi_executionCompatibilityContract = c,
      sbi_versionedReplayArtifact = a, sbi_mode = None, sbi_adapterRegistry = None\<rparr>"

definition bindingRequest :: "AdmissionBuildInput \<Rightarrow> AdmissionReadiness \<Rightarrow> string \<Rightarrow> ReplayBindingBuildInput" where
  "bindingRequest admission readiness fingerprint =
     \<lparr>bbi_admissionInput = admission, bbi_admissionReadiness = readiness, bbi_runtimeFingerprintHash = fingerprint,
      bbi_trustZoneId = None, bbi_expectedRuntimeFingerprintHash = None, bbi_expectedDerivedSimulationHash = None,
      bbi_expectedReplayBindingHash = None\<rparr>"

lemma audit_input_fields: "rai_contract (auditInput plan truth c) = c" "rai_executionTruthPackage (auditInput plan truth c) = truth"
  by (simp_all add: auditInput_def)

lemma artifact_brings:
  assumes "artifact_of lc sha plan truth c a" and "\<forall>t. sha t \<noteq> []"
  shows "lineage_intact (simulationRequest plan truth c a)"
    and "lineage_admissible (admissionRequest plan truth c a sim g m)"
    and "evidence_complete (bindingRequest (admissionRequest plan truth c a sim g m)
      (buildAdmissionReadiness lc sha (admissionRequest plan truth c a sim g m)) fp)"
proof -
  let ?audit = "buildReplayAuditReadiness lc sha (auditInput plan truth c)"
  have a: "rar_verdict ?audit = REPLAY_AUDIT_READY" "vra_replayAuditResult a = ?audit"
    "vra_immutableReplayIdentityRoot a = buildImmutableReplayIdentityRoot ?audit c"
    "vra_replayLineageInvariant a = buildReplayLineageInvariant (vra_immutableReplayIdentityRoot a) (vra_migrationLineage a)"
    using assms(1) by (simp_all add: artifact_of_def Let_def)
  obtain x h where x: "rar_artifacts ?audit = Some x" "proof_stable x" "proofs_given ?audit"
    "rar_replaySnapshotHash ?audit = Some h" "h \<noteq> []" "rar_executionTruthHash ?audit = Some (xc_executionTruthHash c)"
    "rar_executionCompatibilityHash ?audit = Some (xc_executionCompatibilityHash c)"
    "xc_executionTruthHash c \<noteq> []" "xc_executionCompatibilityHash c \<noteq> []" "tp_executionTruthHash truth = xc_executionTruthHash c"
    "ris_planHash (raa_replayInputSnapshot x) = rar_planHash ?audit" "paa_planHash (raa_auditArtifact x) = rar_planHash ?audit"
    by (rule audit_brings[OF a(1) assms(2), unfolded audit_input_fields])
  show "lineage_intact (simulationRequest plan truth c a)"
    by (simp add: lineage_intact_def simulationRequest_def Let_def a(2,4) a(3) x)
  show "lineage_admissible (admissionRequest plan truth c a sim g m)"
    by (simp add: lineage_admissible_def admissionRequest_def Let_def buildAdmissionLineageAnchors_def no_expectation_def a(2,3)
        buildImmutableReplayIdentityRoot_def x x(5,8,9)[symmetric])
  have anchors: "adc_lineage (buildAdmissionContext (admissionRequest plan truth c a sim g m)) =
      \<lparr>ala_executionTruthHash = xc_executionTruthHash c, ala_executionCompatibilityHash = xc_executionCompatibilityHash c,
       ala_replaySnapshotHash = h, ala_derivedSimulationHash = when_given (map_option smd_derivedSimulationHash sim)\<rparr>"
    by (simp add: buildAdmissionContext_def buildAdmissionLineageAnchors_def admissionRequest_def a(2) x)
  show "evidence_complete (bindingRequest (admissionRequest plan truth c a sim g m)
      (buildAdmissionReadiness lc sha (admissionRequest plan truth c a sim g m)) fp)"
    unfolding evidence_complete_def bound_artifacts_def lineage_kept_def simulation_expected_def admitted_lineage_def
      admitted_audit_def bindingRequest_def ReplayBindingBuildInput.simps admission_result anchors
    by (simp add: admissionRequest_def a x)
qed

section \<open>Consent\<close>

text \<open>Governance metadata that object to nothing, and a runtime at rest whose snapshot was taken.\<close>

definition consents :: "GovernanceMetadata \<Rightarrow> bool" where
  "consents g \<longleftrightarrow> gvm_governanceSnapshotHash g \<noteq> [] \<and> gvm_approvalChainHash g \<noteq> [] \<and> gvm_approvalsSatisfied g \<and>
     gvm_conflicts g \<in> {None, Some []} \<and>
     js_default ZoneSTANDARD (gvm_currentTrustZone g) \<in> set (js_default [ZoneSTANDARD] (gvm_allowedTrustZones g))"

definition at_rest :: "RuntimeReadinessMetadata \<Rightarrow> bool" where
  "at_rest m \<longleftrightarrow> rrm_runtimeSnapshotHash m \<noteq> [] \<and> \<not> rrm_mutationAttempted m \<and> \<not> runtime_unsettled m \<and> \<not> epoch_mismatch m"

lemma request_approved:
  assumes "lineage_admissible (admissionRequest plan truth c a sim g m)" and "consents g" and "at_rest m"
    and "gvm_requiredSimulation g \<Longrightarrow> \<exists>d. sim = Some d \<and> smd_ready d"
  shows "adr_decision (ads_result (buildAdmissionReadiness lc sha (admissionRequest plan truth c a sim g m))) = APPROVED"
proof -
  let ?input = "admissionRequest plan truth c a sim g m"
  have parts: "abi_governanceMetadata ?input = g" "abi_runtimeMetadata ?input = m" "abi_simulationReadiness ?input = sim"
    "requested_zone ?input = current_zone ?input" "current_zone ?input = js_default ZoneSTANDARD (gvm_currentTrustZone g)"
    by (simp_all add: admissionRequest_def requested_zone_def current_zone_def)
  have "zone_authorized ?input" using assms(2) by (simp add: zone_authorized_def parts consents_def)
  then show ?thesis
    using assms unfolding admission_result decision_first admission_rules_def Let_def parts
    by (auto simp: consents_def at_rest_def)
qed

lemma request_certified:
  assumes "adr_decision (ads_result adm) = APPROVED" and "evidence_complete (bindingRequest (admissionRequest plan truth c a sim g m) adm fp)"
    and "at_rest m" and "fp \<noteq> []"
  shows "certification_failures (bindingRequest (admissionRequest plan truth c a sim g m) adm fp) = []"
    and "rct_certificationStatus (certification_of (bindingRequest (admissionRequest plan truth c a sim g m) adm fp)) = CertCERTIFIED"
    and "revocation_of (bindingRequest (admissionRequest plan truth c a sim g m) adm fp) = None"
proof -
  let ?input = "bindingRequest (admissionRequest plan truth c a sim g m) adm fp"
  have parts: "admitted_decision ?input = APPROVED" "zone_kept ?input"
    "bbi_runtimeFingerprintHash ?input = fp" "bbi_expectedRuntimeFingerprintHash ?input = None"
    "abi_runtimeMetadata (bbi_admissionInput ?input) = m"
    using assms(1) by (simp_all add: admitted_decision_def zone_kept_def binding_zone_def bindingRequest_def admissionRequest_def)
  have runtime: "runtime_bound ?input" "snapshot_taken ?input"
    using assms(3,4) by (simp_all add: runtime_bound_def snapshot_taken_def parts at_rest_def)
  show none: "certification_failures ?input = []"
    unfolding certification_failures_Nil using runtime parts(1,2) assms(2) by simp
  show "rct_certificationStatus (certification_of ?input) = CertCERTIFIED"
    unfolding status_of using runtime parts(1,2) assms(2) by (simp add: admission_withdrawn_def)
  show "revocation_of ?input = None"
    unfolding none coordinateReplayRevocation_def parts(1) by (simp add: admission_withdrawn_def)
qed

section \<open>From a plan to a certificate\<close>

text \<open>A simulation that only refuses what it cannot predict is ready.\<close>

lemma request_simulated:
  assumes "lineage_intact (simulationRequest plan truth c a)" and "upstream_allows truth c"
    and "list_all simulable (np_steps plan)" and "rollbacks_planned plan c"
  obtains d where "buildSimulationReadiness lc sha (simulationRequest plan truth c a) = Some d" and "smd_ready d"
proof -
  let ?input = "simulationRequest plan truth c a"
  have parts: "sbi_normalizedPlan ?input = plan" "sbi_executionTruthPackage ?input = truth"
    "sbi_executionCompatibilityContract ?input = c" by (simp_all add: simulationRequest_def)
  have "orchestrateSimulation lc sha ?input \<noteq> None"
    using assms(3) by (simp only: orchestrate_None all_simulable_def parts) simp
  then obtain r ws where run: "orchestrateSimulation lc sha ?input = Some (r, ws)" by auto
  have "simulation_ready ?input"
    using assms(1,2,4) by (simp add: simulation_ready_def upstream_ok_def rollback_planned_def parts)
  then have "smr_status r = SimSuccess \<or> smr_status r = SimPartial"
    using run_status[OF run] by (auto simp: simulation_status_def simulation_ready_def)
  then show thesis using that by (simp add: buildSimulationReadiness_def run)
qed

lemma faithful_artifact_of:
  assumes "rar_verdict (buildReplayAuditReadiness lc sha (auditInput plan truth c)) = REPLAY_AUDIT_READY"
    and "buildVersionedReplayReadiness lc sha
      (versioningInput (buildReplayAuditReadiness lc sha (auditInput plan truth c)) c target) = Some r"
    and "vrr_ok r"
  obtains a where "vrr_artifact r = Some a" and "artifact_of lc sha plan truth c a"
    and "vra_version a = js_default ''4.2I'' target"
proof -
  from artifact_faithful[OF assms(2,3)] obtain a where "vrr_artifact r = Some a"
    and "vra_version a = js_default ''4.2I'' target"
    and "vra_replayAuditResult a = buildReplayAuditReadiness lc sha (auditInput plan truth c)"
    and "vra_immutableReplayIdentityRoot a =
      buildImmutableReplayIdentityRoot (buildReplayAuditReadiness lc sha (auditInput plan truth c)) c"
    and "vra_replayLineageInvariant a = buildReplayLineageInvariant
      (buildImmutableReplayIdentityRoot (buildReplayAuditReadiness lc sha (auditInput plan truth c)) c) (vra_migrationLineage a)"
    by (auto simp: target_of_def versioningInput_def source_root_def)
  with assms(1) that[of a] show thesis by (simp add: artifact_of_def Let_def)
qed

lemma compatible_flag: "validateExecutionCompatibility lc sha input = Some (CompatibilityOk c vs) \<Longrightarrow> xc_compatible c"
  using compatible_shape by fastforce

section \<open>The sample plan\<close>

lemma gate_steps:
  "list_all simulable (np_steps gate_normalized)" "list_all (\<lambda>s. \<not> requiresRollback s) (np_steps gate_normalized)"
  "rollbackContractsOf (np_steps gate_normalized) = []"
  by code_simp+

lemma gate_plan:
  assumes "orchestratePlanNormalization code_unit_compare test_sha auditable_input = Inr s"
  shows "list_all simulable (np_steps (ps_normalizedPlan s))"
    and "validateExecutionCompatibility lc sha (compatibilityRequest h (ps_normalizedPlan s) truth) = Some (CompatibilityOk c vs) \<Longrightarrow>
      rollbacks_planned (ps_normalizedPlan s) c"
proof -
  have plan: "ps_normalizedPlan s = gate_normalized"
    using orchestrate_dest(2)[OF assms] by (simp only: auditable_value)
  show "list_all simulable (np_steps (ps_normalizedPlan s))" unfolding plan by (rule gate_steps)
  assume "validateExecutionCompatibility lc sha (compatibilityRequest h (ps_normalizedPlan s) truth) = Some (CompatibilityOk c vs)"
  then obtain f where "c = (bareContract h gate_normalized f)
      \<lparr>xc_executionCompatibilityHash := hashExecutionCompatibilityContract lc sha (bareContract h gate_normalized f),
       xc_violations := [], xc_compatible := True\<rparr>"
    using compatible_shape by (fastforce simp: compatibilityRequest_def plan)
  then have "xc_rollbackContracts c = []" by (simp add: bareContract_def Let_def gate_steps(3))
  then show "rollbacks_planned (ps_normalizedPlan s) c"
    using gate_steps(2) by (simp add: rollbacks_planned_def plan js_map_of_def)
qed

end
