(* ===== verification/PlanEligibility.thy ===== *)
theory PlanEligibility
  imports AuditLedger PlanStructure
begin

text \<open>
  The part of \<open>services/validation\<close> that the plan store rests on: the result and the snapshot of a plan validation
  (\<open>validationContracts.ts\<close>, \<open>validationSnapshot.ts\<close>), the hash of a plan draft (\<open>validationHashing.ts\<close>) and the gate
  a plan passes before it is queued or executed (\<open>executionEligibilityGate.ts\<close>).  A time is an integer.
\<close>

section \<open>Contracts\<close>

datatype GovernanceDecision =
    DecisionALLOW | DecisionWARN | DecisionREQUIRE_APPROVAL | DecisionDENY | DecisionFREEZE | DecisionDISPUTED | DecisionBLOCKED

datatype PlanValidationState =
    ValidationVALID | ValidationINVALID | ValidationBLOCKED | ValidationREQUIRES_APPROVAL | ValidationDISPUTED | ValidationFROZEN

text \<open>The errors, warnings and resolved tools of a result and its partial verdicts are not read here.\<close>

record PlanValidationResult =
  pvr_validationId :: string
  pvr_planId :: string
  pvr_valid :: bool
  pvr_validationState :: PlanValidationState
  pvr_approvalRequired :: bool
  pvr_riskLevel :: StepRiskLevel
  pvr_blockedReasons :: "string list"
  pvr_validatedAt :: int
  pvr_planHash :: string
  pvr_governanceDecisionHash :: string
  pvr_governanceDecision :: GovernanceDecision
  pvr_validatorVersion :: string
  pvr_registryVersion :: string
  pvr_governanceVersion :: string
  pvr_executionEligible :: bool
  pvr_frozen :: bool
  pvr_freezeReasons :: "string list"
  pvr_immutableAuditId :: string

record ValidationSnapshot =
  pvs_snapshotId :: string
  pvs_validationId :: string
  pvs_planId :: string
  pvs_planHash :: string
  pvs_governanceDecisionHash :: string
  pvs_schemaVersion :: string
  pvs_validatorVersion :: string
  pvs_registryVersion :: string
  pvs_governanceVersion :: string
  pvs_validationState :: PlanValidationState
  pvs_riskLevel :: StepRiskLevel
  pvs_approvalRequired :: bool
  pvs_executionEligible :: bool
  pvs_frozen :: bool
  pvs_freezeReasons :: "string list"
  pvs_createdAt :: int
  pvs_immutableAuditId :: string

record ExecutionEligibilityResult =
  eer_eligible :: bool
  eer_blocked :: bool
  eer_frozen :: bool
  eer_planId :: string
  eer_validationId :: string
  eer_snapshotId :: "string option"
  eer_reasons :: "string list"
  eer_requiredApproval :: bool
  eer_governanceDecision :: GovernanceDecision
  eer_checkedAt :: int

section \<open>Snapshot and draft hash\<close>

definition createValidationSnapshot ::
  "(string \<Rightarrow> string \<Rightarrow> int) \<Rightarrow> (string \<Rightarrow> string) \<Rightarrow> PlanValidationResult \<Rightarrow> string \<Rightarrow> bool option \<Rightarrow> ValidationSnapshot" where
  "createValidationSnapshot lc sha result schemaVersion executionEligible =
     \<lparr>pvs_snapshotId = ''validation-snapshot:'' @ take 16 (hashEvidence lc sha
        [(''validationId'', JStr (pvr_validationId result)), (''planHash'', JStr (pvr_planHash result)),
         (''governanceDecisionHash'', JStr (pvr_governanceDecisionHash result))]),
      pvs_validationId = pvr_validationId result, pvs_planId = pvr_planId result, pvs_planHash = pvr_planHash result,
      pvs_governanceDecisionHash = pvr_governanceDecisionHash result, pvs_schemaVersion = schemaVersion,
      pvs_validatorVersion = pvr_validatorVersion result, pvs_registryVersion = pvr_registryVersion result,
      pvs_governanceVersion = pvr_governanceVersion result, pvs_validationState = pvr_validationState result,
      pvs_riskLevel = pvr_riskLevel result, pvs_approvalRequired = pvr_approvalRequired result,
      pvs_executionEligible = js_default (pvr_executionEligible result) executionEligible, pvs_frozen = pvr_frozen result,
      pvs_freezeReasons = pvr_freezeReasons result, pvs_createdAt = pvr_validatedAt result,
      pvs_immutableAuditId = pvr_immutableAuditId result\<rparr>"

text \<open>A draft whose parts are all there.\<close>

definition hashPlanDraft ::
  "(string \<Rightarrow> string \<Rightarrow> int) \<Rightarrow> (string \<Rightarrow> string) \<Rightarrow> string \<Rightarrow> string \<Rightarrow> json \<Rightarrow> string \<Rightarrow> json list \<Rightarrow> string" where
  "hashPlanDraft lc sha planId intent metadata schemaVersion steps =
     hashEvidence lc sha
       [(''planId'', JStr planId), (''intent'', JStr intent), (''metadata'', metadata),
        (''schemaVersion'', JStr schemaVersion), (''steps'', JArr steps)]"

section \<open>The gate\<close>

datatype EligibilityCode =
    VALIDATION_SNAPSHOT_MISSING
  | VALIDATION_AUDIT_LINEAGE_MISSING
  | VALIDATION_EXECUTION_NOT_ELIGIBLE
  | APPROVAL_REQUIRED
  | VALIDATION_PLAN_HASH_MISMATCH
  | VALIDATION_GOVERNANCE_HASH_MISMATCH
  | VALIDATION_VERSION_MISMATCH
  | VALIDATION_FREEZE_PROPAGATED

fun eligibility_str :: "EligibilityCode \<Rightarrow> string" where
  "eligibility_str VALIDATION_SNAPSHOT_MISSING = ''VALIDATION_SNAPSHOT_MISSING''"
| "eligibility_str VALIDATION_AUDIT_LINEAGE_MISSING = ''VALIDATION_AUDIT_LINEAGE_MISSING''"
| "eligibility_str VALIDATION_EXECUTION_NOT_ELIGIBLE = ''VALIDATION_EXECUTION_NOT_ELIGIBLE''"
| "eligibility_str APPROVAL_REQUIRED = ''APPROVAL_REQUIRED''"
| "eligibility_str VALIDATION_PLAN_HASH_MISMATCH = ''VALIDATION_PLAN_HASH_MISMATCH''"
| "eligibility_str VALIDATION_GOVERNANCE_HASH_MISMATCH = ''VALIDATION_GOVERNANCE_HASH_MISMATCH''"
| "eligibility_str VALIDATION_VERSION_MISMATCH = ''VALIDATION_VERSION_MISMATCH''"
| "eligibility_str VALIDATION_FREEZE_PROPAGATED = ''VALIDATION_FREEZE_PROPAGATED''"

definition VALIDATOR_VERSION :: string where "VALIDATOR_VERSION = ''4.0C''"

definition PLANNER_REGISTRY_VERSION :: string where "PLANNER_REGISTRY_VERSION = ''planner-registry-1.0.0''"

text \<open>\<open>Array.from(new Set(values))\<close>.\<close>

definition js_unique :: "'a list \<Rightarrow> 'a list" where
  "js_unique xs = foldl (\<lambda>acc x. set_add x acc) [] xs"

definition dedupeReasons :: "string list \<Rightarrow> string list" where
  "dedupeReasons reasons = js_sort code_unit_compare (js_unique (filter (\<lambda>r. r \<noteq> []) reasons))"

record EligibilityInput =
  egi_result :: PlanValidationResult
  egi_snapshot :: "ValidationSnapshot option"
  egi_approvalGranted :: bool
  egi_currentPlanHash :: string
  egi_currentGovernanceDecisionHash :: string
  egi_currentSchemaVersion :: "string option"
  egi_validatorVersion :: "string option"
  egi_registryVersion :: "string option"
  egi_governanceVersion :: "string option"
  egi_freezePropagationActive :: bool

definition code_when :: "bool \<Rightarrow> EligibilityCode \<Rightarrow> EligibilityCode list" where
  "code_when failed code = (if failed then [code] else [])"

definition snapshot_mismatches :: "EligibilityInput \<Rightarrow> ValidationSnapshot \<Rightarrow> EligibilityCode list" where
  "snapshot_mismatches input snapshot =
     code_when (pvs_planHash snapshot \<noteq> egi_currentPlanHash input) VALIDATION_PLAN_HASH_MISMATCH @
     code_when (pvs_governanceDecisionHash snapshot \<noteq> egi_currentGovernanceDecisionHash input)
       VALIDATION_GOVERNANCE_HASH_MISMATCH @
     code_when (pvs_validatorVersion snapshot \<noteq> js_default VALIDATOR_VERSION (egi_validatorVersion input))
       VALIDATION_VERSION_MISMATCH @
     code_when (pvs_registryVersion snapshot \<noteq> js_default PLANNER_REGISTRY_VERSION (egi_registryVersion input))
       VALIDATION_VERSION_MISMATCH @
     code_when (pvs_governanceVersion snapshot \<noteq> js_default (pvr_governanceVersion (egi_result input)) (egi_governanceVersion input))
       VALIDATION_VERSION_MISMATCH @
     code_when (pvs_schemaVersion snapshot \<noteq> js_default (pvs_schemaVersion snapshot) (egi_currentSchemaVersion input))
       VALIDATION_VERSION_MISMATCH"

definition eligibility_codes :: "EligibilityInput \<Rightarrow> EligibilityCode list" where
  "eligibility_codes input =
     (let result = egi_result input in
      code_when (egi_snapshot input = None) VALIDATION_SNAPSHOT_MISSING @
      code_when (pvr_immutableAuditId result = []) VALIDATION_AUDIT_LINEAGE_MISSING @
      code_when (pvr_validationState result \<in> {ValidationINVALID, ValidationBLOCKED, ValidationDISPUTED, ValidationFROZEN})
        VALIDATION_EXECUTION_NOT_ELIGIBLE @
      code_when (pvr_approvalRequired result \<and> \<not> egi_approvalGranted input) APPROVAL_REQUIRED @
      (case egi_snapshot input of None \<Rightarrow> [] | Some snapshot \<Rightarrow> snapshot_mismatches input snapshot) @
      code_when (egi_freezePropagationActive input) VALIDATION_FREEZE_PROPAGATED)"

definition evaluateExecutionEligibility :: "EligibilityInput \<Rightarrow> ExecutionEligibilityResult" where
  "evaluateExecutionEligibility input =
     (let result = egi_result input; reasons = dedupeReasons (map eligibility_str (eligibility_codes input));
          frozen = (pvr_frozen result \<or> egi_freezePropagationActive input); blocked = (reasons \<noteq> [])
      in \<lparr>eer_eligible = (\<not> blocked \<and> \<not> frozen), eer_blocked = blocked, eer_frozen = frozen,
          eer_planId = pvr_planId result, eer_validationId = pvr_validationId result,
          eer_snapshotId = map_option pvs_snapshotId (egi_snapshot input), eer_reasons = reasons,
          eer_requiredApproval = pvr_approvalRequired result,
          eer_governanceDecision = (if frozen then DecisionFREEZE else if blocked then DecisionBLOCKED
            else pvr_governanceDecision result),
          eer_checkedAt = pvr_validatedAt result\<rparr>)"

section \<open>Facts\<close>

lemma set_unique [simp]: "set (js_unique xs) = set xs"
proof -
  have "set (foldl (\<lambda>acc x. set_add x acc) acc xs) = set acc \<union> set xs" for acc by (induction xs arbitrary: acc) auto
  then show ?thesis by (simp add: js_unique_def)
qed

lemma eligibility_str_inj [simp]: "eligibility_str a = eligibility_str b \<longleftrightarrow> a = b"
  by (cases a; cases b) simp_all

lemma eligibility_str_given [simp]: "eligibility_str a \<noteq> []"
  by (cases a) simp_all

lemma set_dedupe: "set (dedupeReasons reasons) = set reasons - {[]}"
  by (auto simp: dedupeReasons_def)

lemma reason_iff: "eligibility_str c \<in> set (dedupeReasons (map eligibility_str cs)) \<longleftrightarrow> c \<in> set cs"
  by (auto simp: set_dedupe)

lemma no_reason_iff: "dedupeReasons (map eligibility_str cs) = [] \<longleftrightarrow> cs = []"
proof -
  have "set (dedupeReasons (map eligibility_str cs)) = {} \<longleftrightarrow> cs = []" by (cases cs) (auto simp: set_dedupe)
  then show ?thesis by simp
qed

lemma code_when_simps [simp]: "code_when b c = [] \<longleftrightarrow> \<not> b" "x \<in> set (code_when b c) \<longleftrightarrow> b \<and> x = c"
  by (auto simp: code_when_def)

end
