(* ===== verification/PlanStore.thy ===== *)
theory PlanStore
  imports PlanEligibility
begin

text \<open>
  \<open>services/plans\<close>, the persisted plan and its store: \<open>planContracts.ts\<close>, \<open>planStore.ts\<close>, \<open>planAudit.ts\<close>,
  \<open>planPersistence.ts\<close> and \<open>planValidationSnapshot.ts\<close>.  An operation takes the store and returns its result, or
  the code of the error it throws, with the store it leaves; an error after an audit entry keeps the entry.  The copies the
  code makes with \<open>JSON.parse(JSON.stringify(..))\<close> drop what is \<open>undefined\<close> and change nothing else of a typed value:
  they are written out where that matters (the fields of an update, the input of a step, the metadata of an event).
\<close>

section \<open>Contracts\<close>

datatype PersistedPlanState =
    PlanDRAFT | PlanVALIDATING | PlanVALIDATED | PlanAWAITING_APPROVAL | PlanAPPROVED | PlanREJECTED | PlanQUEUED
  | PlanEXECUTING | PlanPAUSED | PlanCOMPLETED | PlanFAILED | PlanCANCELLED | PlanFROZEN | PlanDISPUTED

fun plan_state_str :: "PersistedPlanState \<Rightarrow> string" where
  "plan_state_str PlanDRAFT = ''DRAFT''"
| "plan_state_str PlanVALIDATING = ''VALIDATING''"
| "plan_state_str PlanVALIDATED = ''VALIDATED''"
| "plan_state_str PlanAWAITING_APPROVAL = ''AWAITING_APPROVAL''"
| "plan_state_str PlanAPPROVED = ''APPROVED''"
| "plan_state_str PlanREJECTED = ''REJECTED''"
| "plan_state_str PlanQUEUED = ''QUEUED''"
| "plan_state_str PlanEXECUTING = ''EXECUTING''"
| "plan_state_str PlanPAUSED = ''PAUSED''"
| "plan_state_str PlanCOMPLETED = ''COMPLETED''"
| "plan_state_str PlanFAILED = ''FAILED''"
| "plan_state_str PlanCANCELLED = ''CANCELLED''"
| "plan_state_str PlanFROZEN = ''FROZEN''"
| "plan_state_str PlanDISPUTED = ''DISPUTED''"

datatype PlanActor = ActorSystem | ActorUser | ActorOperator

fun actor_str :: "PlanActor \<Rightarrow> string" where
  "actor_str ActorSystem = ''system''"
| "actor_str ActorUser = ''user''"
| "actor_str ActorOperator = ''operator''"

datatype PersistedStepType = PersistedTool | PersistedSystem

fun persisted_type_str :: "PersistedStepType \<Rightarrow> string" where
  "persisted_type_str PersistedTool = ''tool''"
| "persisted_type_str PersistedSystem = ''system''"

datatype PlanSource = SourceAi | SourceUser

fun source_str :: "PlanSource \<Rightarrow> string" where
  "source_str SourceAi = ''ai''"
| "source_str SourceUser = ''user''"

datatype PlanApprovalState = ApprovalNONE | ApprovalPENDING | ApprovalAPPROVED | ApprovalDENIED

record PersistedPlanStep =
  pps_stepId :: string
  pps_planId :: string
  pps_order :: int
  pps_type :: PersistedStepType
  pps_tool :: "string option"
  pps_input :: json
  pps_riskLevel :: StepRiskLevel
  pps_requiresApproval :: bool
  pps_createdAt :: int

record PersistedValidation =
  ppv_validationSnapshotId :: string
  ppv_validationHash :: string
  ppv_governanceHash :: string
  ppv_validatorVersion :: string
  ppv_registryVersion :: string
  ppv_governanceVersion :: string
  ppv_valid :: bool
  ppv_executionEligible :: bool
  ppv_validatedAt :: int

record PersistedApprovals =
  ppa_approvalRequired :: bool
  ppa_approved :: bool
  ppa_approvedBy :: "string option"
  ppa_approvedAt :: "int option"

record PersistedMetadata =
  ppm_createdAt :: int
  ppm_updatedAt :: int
  ppm_plannerVersion :: string
  ppm_source :: PlanSource

record PersistedLineage =
  ppl_parentPlanId :: "string option"
  ppl_replayOf :: "string option"
  ppl_derivedFrom :: "string option"

record PersistedIntegrity =
  ppi_immutableHash :: string
  ppi_replayHash :: string
  ppi_lifecycleHash :: string

record PersistedPlan =
  psp_planId :: string
  psp_schemaVersion :: string
  psp_intent :: string
  psp_lifecycleState :: PersistedPlanState
  psp_steps :: "PersistedPlanStep list"
  psp_validation :: PersistedValidation
  psp_approvals :: PersistedApprovals
  psp_metadata :: PersistedMetadata
  psp_lineage :: PersistedLineage
  psp_integrity :: PersistedIntegrity
  psp_source :: PlanSource
  psp_state :: PersistedPlanState
  psp_createdAt :: int
  psp_updatedAt :: int
  psp_createdBy :: string
  psp_validationPassed :: bool
  psp_validationSnapshotId :: "string option"
  psp_planHash :: "string option"
  psp_governanceDecisionHash :: "string option"
  psp_approvalRequired :: bool
  psp_approvalState :: PlanApprovalState
  psp_riskLevel :: StepRiskLevel
  psp_executionBlocked :: bool
  psp_cancellationRequested :: bool
  psp_frozenReason :: "string option"
  psp_disputedReason :: "string option"
  psp_validatorVersion :: "string option"
  psp_registryVersion :: "string option"
  psp_governanceVersion :: "string option"

record PlanLifecycleEvent =
  ple_eventId :: string
  ple_planId :: string
  ple_eventType :: string
  ple_previousState :: "string option"
  ple_nextState :: string
  ple_actor :: PlanActor
  ple_timestamp :: int
  ple_reason :: "string option"
  ple_metadata :: "json option"
  ple_createdAt :: int

text \<open>The governance input kept with a binding is only handed back to the validator: its JSON value.\<close>

record PlanValidationBinding =
  pvb_snapshot :: ValidationSnapshot
  pvb_validationResult :: PlanValidationResult
  pvb_eligibility :: ExecutionEligibilityResult
  pvb_governance :: "json option"

datatype PlanErrorCode =
    PLAN_NOT_FOUND
  | PLAN_ALREADY_EXISTS
  | PLAN_PERSISTENCE_FAILURE
  | PLAN_STATE_INVALID
  | PLAN_TRANSITION_DENIED
  | INVALID_PLAN_STATE_TRANSITION
  | PLAN_STATE_MISMATCH
  | PLAN_EXECUTION_BLOCKED
  | PLAN_APPROVAL_REQUIRED
  | PLAN_CANCELLED
  | PLAN_FROZEN_BY_GOVERNANCE
  | PLAN_DISPUTED
  | PLAN_VALIDATION_SNAPSHOT_MISSING
  | PLAN_VALIDATION_HASH_DRIFT
  | PLAN_GOVERNANCE_HASH_DRIFT
  | PLAN_VERSION_DRIFT
  | PLAN_REPLAY_CONFLICT
  | PLAN_REPLAY_FAILED
  | PLAN_LINEAGE_CORRUPTED
  | PLAN_AUDIT_CORRUPTED
  | PLAN_VALIDATION_DRIFT
  | PLAN_GOVERNANCE_DRIFT
  | PLAN_REPLAY_MISMATCH
  | PLAN_IMMUTABLE_MUTATION
  | PLAN_INTEGRITY_FAILURE
  | PLAN_RECOVERY_FAILED
  | PLAN_AUDIT_FAILURE
  | PLAN_CANCELLATION_NOT_ALLOWED

section \<open>The store\<close>

record PlanStoreState =
  pst_plans :: "string \<rightharpoonup> PersistedPlan"
  pst_steps :: "string \<Rightarrow> PersistedPlanStep list"
  pst_lifecycleEvents :: "string \<Rightarrow> PlanLifecycleEvent list"
  pst_validationBindings :: "string \<rightharpoonup> PlanValidationBinding"
  pst_snapshots :: "string \<rightharpoonup> ValidationSnapshot"
  pst_auditEntries :: "string \<Rightarrow> ImmutableAuditLedgerEntry list"

text \<open>A list that is not in its map is read as the empty one (\<open>?? []\<close>).\<close>

definition resetPlanStore :: PlanStoreState where
  "resetPlanStore = \<lparr>pst_plans = Map.empty, pst_steps = \<lambda>_. [], pst_lifecycleEvents = \<lambda>_. [], pst_validationBindings = Map.empty,
     pst_snapshots = Map.empty, pst_auditEntries = \<lambda>_. []\<rparr>"

definition cloneStep :: "PersistedPlanStep \<Rightarrow> PersistedPlanStep" where
  "cloneStep step = step\<lparr>pps_input := reparse (pps_input step)\<rparr>"

definition clonePlan :: "PersistedPlan \<Rightarrow> PersistedPlan" where
  "clonePlan plan = plan\<lparr>psp_steps := map cloneStep (psp_steps plan)\<rparr>"

definition cloneEvent :: "PlanLifecycleEvent \<Rightarrow> PlanLifecycleEvent" where
  "cloneEvent event = event\<lparr>ple_metadata := map_option reparse (ple_metadata event)\<rparr>"

definition readPlan :: "PlanStoreState \<Rightarrow> string \<Rightarrow> PersistedPlan option" where
  "readPlan store planId = map_option clonePlan (pst_plans store planId)"

definition writePlan :: "PersistedPlan \<Rightarrow> PlanStoreState \<Rightarrow> PlanStoreState" where
  "writePlan plan store = store\<lparr>pst_plans := (pst_plans store)(psp_planId plan \<mapsto> clonePlan plan)\<rparr>"

definition readPlanSteps :: "PlanStoreState \<Rightarrow> string \<Rightarrow> PersistedPlanStep list" where
  "readPlanSteps store planId = map cloneStep (pst_steps store planId)"

definition appendStoredPlanStep :: "PersistedPlanStep \<Rightarrow> PlanStoreState \<Rightarrow> PlanStoreState" where
  "appendStoredPlanStep step store =
     store\<lparr>pst_steps := (pst_steps store)(pps_planId step := pst_steps store (pps_planId step) @ [cloneStep step])\<rparr>"

definition readLifecycleEvents :: "PlanStoreState \<Rightarrow> string \<Rightarrow> PlanLifecycleEvent list" where
  "readLifecycleEvents store planId = map cloneEvent (pst_lifecycleEvents store planId)"

definition appendStoredLifecycleEvent :: "PlanLifecycleEvent \<Rightarrow> PlanStoreState \<Rightarrow> PlanStoreState" where
  "appendStoredLifecycleEvent event store =
     store\<lparr>pst_lifecycleEvents := (pst_lifecycleEvents store)
       (ple_planId event := pst_lifecycleEvents store (ple_planId event) @ [cloneEvent event])\<rparr>"

definition writeValidationBinding :: "string \<Rightarrow> PlanValidationBinding \<Rightarrow> PlanStoreState \<Rightarrow> PlanStoreState" where
  "writeValidationBinding planId binding store =
     store\<lparr>pst_validationBindings := (pst_validationBindings store)(planId \<mapsto> binding),
       pst_snapshots := (pst_snapshots store)(pvs_snapshotId (pvb_snapshot binding) \<mapsto> pvb_snapshot binding)\<rparr>"

definition readValidationBinding :: "PlanStoreState \<Rightarrow> string \<Rightarrow> PlanValidationBinding option" where
  "readValidationBinding store planId = pst_validationBindings store planId"

definition readValidationSnapshot :: "PlanStoreState \<Rightarrow> string \<Rightarrow> ValidationSnapshot option" where
  "readValidationSnapshot store snapshotId = pst_snapshots store snapshotId"

definition appendPlanAuditEntry :: "string \<Rightarrow> ImmutableAuditLedgerEntry \<Rightarrow> PlanStoreState \<Rightarrow> PlanStoreState" where
  "appendPlanAuditEntry planId entry store =
     store\<lparr>pst_auditEntries := (pst_auditEntries store)(planId := pst_auditEntries store planId @ [entry])\<rparr>"

definition readPlanAuditEntries :: "PlanStoreState \<Rightarrow> string \<Rightarrow> ImmutableAuditLedgerEntry list" where
  "readPlanAuditEntries store planId = pst_auditEntries store planId"

section \<open>Audit\<close>

definition audit_payload ::
  "(string \<Rightarrow> string \<Rightarrow> int) \<Rightarrow> (string \<Rightarrow> string) \<Rightarrow> string \<Rightarrow> string \<Rightarrow> js_record \<Rightarrow> json" where
  "audit_payload lc sha planId eventType details = JObj
     [(''auditId'', JStr (''plan-audit:'' @ take 16 (hashEvidence lc sha
        [(''planId'', JStr planId), (''eventType'', JStr eventType), (''details'', JObj details)]))),
      (''planId'', JStr planId), (''eventType'', JStr eventType), (''details'', reparse (JObj details))]"

definition appendPlanAudit ::
  "(string \<Rightarrow> string \<Rightarrow> int) \<Rightarrow> (string \<Rightarrow> string) \<Rightarrow> string \<Rightarrow> string \<Rightarrow> js_record \<Rightarrow> PlanStoreState \<Rightarrow> PlanStoreState" where
  "appendPlanAudit lc sha planId eventType details store =
     appendPlanAuditEntry planId
       (appendImmutableLedgerEntry lc sha ''plan-lifecycle'' (audit_payload lc sha planId eventType details)
         (chain_head (readPlanAuditEntries store planId))) store"

section \<open>Integrity hashes\<close>

definition persisted_step_json :: "PersistedPlanStep \<Rightarrow> json" where
  "persisted_step_json s = JObj
     ([(''stepId'', JStr (pps_stepId s)), (''planId'', JStr (pps_planId s)), (''order'', int_json (pps_order s)),
       (''type'', JStr (persisted_type_str (pps_type s)))] @
      (case pps_tool s of None \<Rightarrow> [] | Some tool \<Rightarrow> [(''tool'', JStr tool)]) @
      [(''input'', pps_input s), (''riskLevel'', JStr (step_risk_str (pps_riskLevel s))),
       (''requiresApproval'', JBool (pps_requiresApproval s)), (''createdAt'', int_json (pps_createdAt s))])"

text \<open>A stored event has lost its undefined properties but the metadata, which the copy sets again.\<close>

definition lifecycle_event_json :: "PlanLifecycleEvent \<Rightarrow> json" where
  "lifecycle_event_json e = JObj
     ([(''eventId'', JStr (ple_eventId e)), (''planId'', JStr (ple_planId e)), (''eventType'', JStr (ple_eventType e))] @
      (case ple_previousState e of None \<Rightarrow> [] | Some s \<Rightarrow> [(''previousState'', JStr s)]) @
      [(''nextState'', JStr (ple_nextState e)), (''actor'', JStr (actor_str (ple_actor e))),
       (''timestamp'', int_json (ple_timestamp e))] @
      (case ple_reason e of None \<Rightarrow> [] | Some r \<Rightarrow> [(''reason'', JStr r)]) @
      [(''metadata'', js_default JUndef (ple_metadata e)), (''createdAt'', int_json (ple_createdAt e))])"

definition buildIntegrity ::
  "(string \<Rightarrow> string \<Rightarrow> int) \<Rightarrow> (string \<Rightarrow> string) \<Rightarrow> string \<Rightarrow> PersistedPlanState \<Rightarrow> PersistedPlanStep list \<Rightarrow> string option
   \<Rightarrow> string option \<Rightarrow> PlanLifecycleEvent list \<Rightarrow> PersistedIntegrity" where
  "buildIntegrity lc sha planId lifecycleState steps planHash governanceDecisionHash lifecycleEvents =
     \<lparr>ppi_immutableHash = hashEvidence lc sha
        [(''planId'', JStr planId), (''lifecycleState'', JStr (plan_state_str lifecycleState)),
         (''steps'', JArr (map persisted_step_json steps)), (''planHash'', nullish_json JStr planHash),
         (''governanceDecisionHash'', nullish_json JStr governanceDecisionHash)],
      ppi_replayHash = hashEvidence lc sha
        [(''planId'', JStr planId), (''lifecycleState'', JStr (plan_state_str lifecycleState)),
         (''stepCount'', int_json (int (length steps))), (''planHash'', nullish_json JStr planHash)],
      ppi_lifecycleHash = hashEvidence lc sha
        [(''planId'', JStr planId), (''lifecycleEvents'', JArr (map lifecycle_event_json lifecycleEvents))]\<rparr>"

section \<open>Creating a plan\<close>

record CreatePlanInput =
  cpl_planId :: string
  cpl_schemaVersion :: string
  cpl_intent :: string
  cpl_source :: PlanSource
  cpl_createdBy :: string
  cpl_createdAt :: "int option"
  cpl_updatedAt :: "int option"
  cpl_lifecycleState :: "PersistedPlanState option"
  cpl_state :: "PersistedPlanState option"
  cpl_steps :: "PersistedPlanStep list option"
  cpl_validation :: "PersistedValidation option"
  cpl_approvals :: "PersistedApprovals option"
  cpl_metadata :: "PersistedMetadata option"
  cpl_lineage :: "PersistedLineage option"
  cpl_validationPassed :: "bool option"
  cpl_validationSnapshotId :: "string option"
  cpl_planHash :: "string option"
  cpl_governanceDecisionHash :: "string option"
  cpl_approvalRequired :: "bool option"
  cpl_approvalState :: "PlanApprovalState option"
  cpl_riskLevel :: "StepRiskLevel option"
  cpl_executionBlocked :: "bool option"
  cpl_cancellationRequested :: "bool option"
  cpl_frozenReason :: "string option"
  cpl_disputedReason :: "string option"
  cpl_validatorVersion :: "string option"
  cpl_registryVersion :: "string option"
  cpl_governanceVersion :: "string option"

text \<open>\<open>a ?? b\<close> of two values that may both be missing.\<close>

definition or_else :: "'a option \<Rightarrow> 'a option \<Rightarrow> 'a option" where
  "or_else a b = (case a of None \<Rightarrow> b | Some _ \<Rightarrow> a)"

definition normalizePlan ::
  "(string \<Rightarrow> string \<Rightarrow> int) \<Rightarrow> (string \<Rightarrow> string) \<Rightarrow> CreatePlanInput \<Rightarrow> PersistedPlan" where
  "normalizePlan lc sha i =
     (let createdAt = js_default 0 (cpl_createdAt i);
          updatedAt = js_default createdAt (cpl_updatedAt i);
          lifecycleState = js_default PlanDRAFT (or_else (cpl_lifecycleState i) (cpl_state i));
          steps = map cloneStep (js_default [] (cpl_steps i));
          v = cpl_validation i; a = cpl_approvals i;
          approvalRequired = js_default False (or_else (map_option ppa_approvalRequired a) (cpl_approvalRequired i));
          approvalApproved = js_default (cpl_approvalState i = Some ApprovalAPPROVED) (map_option ppa_approved a);
          approvalState = js_default (if approvalRequired then if approvalApproved then ApprovalAPPROVED else ApprovalPENDING
            else ApprovalNONE) (cpl_approvalState i);
          planHash = or_else (cpl_planHash i) (map_option ppv_validationHash v);
          governanceDecisionHash = or_else (cpl_governanceDecisionHash i) (map_option ppv_governanceHash v);
          validatorVersion = js_default ''validator-unversioned''
            (or_else (cpl_validatorVersion i) (map_option ppv_validatorVersion v));
          registryVersion = js_default ''registry-unversioned''
            (or_else (cpl_registryVersion i) (map_option ppv_registryVersion v));
          governanceVersion = js_default ''governance-unversioned''
            (or_else (cpl_governanceVersion i) (map_option ppv_governanceVersion v));
          validationSnapshotId = or_else (cpl_validationSnapshotId i) (map_option ppv_validationSnapshotId v);
          validationPassed = js_default False (or_else (cpl_validationPassed i) (map_option ppv_valid v));
          executionBlocked = js_default (\<not> js_default False (map_option ppv_executionEligible v)) (cpl_executionBlocked i);
          integrity = buildIntegrity lc sha (cpl_planId i) lifecycleState steps planHash governanceDecisionHash []
      in \<lparr>psp_planId = cpl_planId i, psp_schemaVersion = cpl_schemaVersion i, psp_intent = cpl_intent i,
          psp_lifecycleState = lifecycleState, psp_steps = steps,
          psp_validation =
            \<lparr>ppv_validationSnapshotId = js_default [] validationSnapshotId, ppv_validationHash = js_default [] planHash,
             ppv_governanceHash = js_default [] governanceDecisionHash, ppv_validatorVersion = validatorVersion,
             ppv_registryVersion = registryVersion, ppv_governanceVersion = governanceVersion, ppv_valid = validationPassed,
             ppv_executionEligible = (\<not> executionBlocked), ppv_validatedAt = js_default 0 (map_option ppv_validatedAt v)\<rparr>,
          psp_approvals =
            \<lparr>ppa_approvalRequired = approvalRequired, ppa_approved = approvalApproved,
             ppa_approvedBy = Option.bind a ppa_approvedBy, ppa_approvedAt = Option.bind a ppa_approvedAt\<rparr>,
          psp_metadata =
            \<lparr>ppm_createdAt = createdAt, ppm_updatedAt = updatedAt,
             ppm_plannerVersion = js_default ''planner-unversioned'' (map_option ppm_plannerVersion (cpl_metadata i)),
             ppm_source = js_default (cpl_source i) (map_option ppm_source (cpl_metadata i))\<rparr>,
          psp_lineage =
            \<lparr>ppl_parentPlanId = Option.bind (cpl_lineage i) ppl_parentPlanId,
             ppl_replayOf = Option.bind (cpl_lineage i) ppl_replayOf,
             ppl_derivedFrom = Option.bind (cpl_lineage i) ppl_derivedFrom\<rparr>,
          psp_integrity = integrity, psp_source = cpl_source i, psp_state = lifecycleState, psp_createdAt = createdAt,
          psp_updatedAt = updatedAt, psp_createdBy = cpl_createdBy i, psp_validationPassed = validationPassed,
          psp_validationSnapshotId = validationSnapshotId, psp_planHash = planHash,
          psp_governanceDecisionHash = governanceDecisionHash, psp_approvalRequired = approvalRequired,
          psp_approvalState = approvalState, psp_riskLevel = js_default RiskLow (cpl_riskLevel i),
          psp_executionBlocked = executionBlocked, psp_cancellationRequested = js_default False (cpl_cancellationRequested i),
          psp_frozenReason = cpl_frozenReason i, psp_disputedReason = cpl_disputedReason i,
          psp_validatorVersion = Some validatorVersion, psp_registryVersion = Some registryVersion,
          psp_governanceVersion = Some governanceVersion\<rparr>)"

definition createPlan ::
  "(string \<Rightarrow> string \<Rightarrow> int) \<Rightarrow> (string \<Rightarrow> string) \<Rightarrow> CreatePlanInput \<Rightarrow> PlanStoreState
   \<Rightarrow> (PlanErrorCode + PersistedPlan) \<times> PlanStoreState" where
  "createPlan lc sha planInput store =
     (if readPlan store (cpl_planId planInput) \<noteq> None then (Inl PLAN_ALREADY_EXISTS, store) else
      let plan = normalizePlan lc sha planInput in
      (Inr plan, appendPlanAudit lc sha (psp_planId plan) ''plan.created''
         [(''state'', JStr (plan_state_str (psp_lifecycleState plan))), (''source'', JStr (source_str (psp_source plan))),
          (''createdBy'', JStr (psp_createdBy plan))]
         (writePlan plan store)))"

definition getPlan :: "PlanStoreState \<Rightarrow> string \<Rightarrow> PlanErrorCode + PersistedPlan" where
  "getPlan store planId = (case readPlan store planId of None \<Rightarrow> Inl PLAN_NOT_FOUND | Some plan \<Rightarrow> Inr plan)"

definition listPlanSteps :: "PlanStoreState \<Rightarrow> string \<Rightarrow> PlanErrorCode + PersistedPlanStep list" where
  "listPlanSteps store planId = (case getPlan store planId of Inl e \<Rightarrow> Inl e | Inr _ \<Rightarrow> Inr (readPlanSteps store planId))"

end
