(* ===== verification/PlanLifecycle.thy ===== *)
theory PlanLifecycle
  imports PlanStore
begin

text \<open>
  \<open>services/plans\<close>, the operations that change a stored plan: updates, steps, events and validation bindings
  (\<open>planPersistence.ts\<close>), the transition matrix and the transition (\<open>planTransitionMatrix.ts\<close>, \<open>planLifecycle.ts\<close>,
  \<open>planLifecycleManager.ts\<close>), cancellation (\<open>planCancellation.ts\<close>) and freezing (\<open>planFreeze.ts\<close>).
\<close>

section \<open>Operations in sequence\<close>

type_synonym 'a plan_op = "PlanStoreState \<Rightarrow> (PlanErrorCode + 'a) \<times> PlanStoreState"

definition returns :: "'a \<Rightarrow> 'a plan_op" where
  "returns x store = (Inr x, store)"

definition throws :: "PlanErrorCode \<Rightarrow> 'a plan_op" where
  "throws code store = (Inl code, store)"

definition and_then :: "'a plan_op \<Rightarrow> ('a \<Rightarrow> 'b plan_op) \<Rightarrow> 'b plan_op" where
  "and_then operation rest store =
     (case operation store of (Inl code, store') \<Rightarrow> (Inl code, store') | (Inr x, store') \<Rightarrow> rest x store')"

definition does :: "(PlanStoreState \<Rightarrow> PlanStoreState) \<Rightarrow> 'a plan_op \<Rightarrow> 'a plan_op" where
  "does change rest store = rest (change store)"

definition with_plan :: "string \<Rightarrow> (PersistedPlan \<Rightarrow> 'a plan_op) \<Rightarrow> 'a plan_op" where
  "with_plan planId rest store = (case getPlan store planId of Inl code \<Rightarrow> (Inl code, store) | Inr plan \<Rightarrow> rest plan store)"

section \<open>Updates\<close>

text \<open>
  The properties of \<open>Partial<PersistedPlan>\<close> that the update reads or its callers give.  \<open>clone(fields)\<close> drops an
  \<open>undefined\<close> property before it is spread over the plan, so \<open>None\<close> keeps what the plan has.
\<close>

record PlanUpdate =
  pup_lifecycleState :: "PersistedPlanState option"
  pup_steps :: "PersistedPlanStep list option"
  pup_validation :: "PersistedValidation option"
  pup_approvals :: "PersistedApprovals option"
  pup_metadata :: "PersistedMetadata option"
  pup_validationPassed :: "bool option"
  pup_validationSnapshotId :: "string option"
  pup_planHash :: "string option"
  pup_governanceDecisionHash :: "string option"
  pup_approvalRequired :: "bool option"
  pup_approvalState :: "PlanApprovalState option"
  pup_riskLevel :: "StepRiskLevel option"
  pup_executionBlocked :: "bool option"
  pup_cancellationRequested :: "bool option"
  pup_frozenReason :: "string option"
  pup_disputedReason :: "string option"
  pup_validatorVersion :: "string option"
  pup_registryVersion :: "string option"
  pup_governanceVersion :: "string option"

definition no_fields :: PlanUpdate where
  "no_fields = \<lparr>pup_lifecycleState = None, pup_steps = None, pup_validation = None, pup_approvals = None, pup_metadata = None,
     pup_validationPassed = None, pup_validationSnapshotId = None, pup_planHash = None, pup_governanceDecisionHash = None,
     pup_approvalRequired = None, pup_approvalState = None, pup_riskLevel = None, pup_executionBlocked = None,
     pup_cancellationRequested = None, pup_frozenReason = None, pup_disputedReason = None, pup_validatorVersion = None,
     pup_registryVersion = None, pup_governanceVersion = None\<rparr>"

definition merge_approvals :: "PersistedApprovals \<Rightarrow> PersistedApprovals option \<Rightarrow> PersistedApprovals" where
  "merge_approvals old changes =
     (case changes of None \<Rightarrow> old
      | Some new \<Rightarrow>
          \<lparr>ppa_approvalRequired = ppa_approvalRequired new, ppa_approved = ppa_approved new,
           ppa_approvedBy = or_else (ppa_approvedBy new) (ppa_approvedBy old),
           ppa_approvedAt = or_else (ppa_approvedAt new) (ppa_approvedAt old)\<rparr>)"

definition updatedPlan ::
  "(string \<Rightarrow> string \<Rightarrow> int) \<Rightarrow> (string \<Rightarrow> string) \<Rightarrow> string \<Rightarrow> PersistedPlan \<Rightarrow> PlanLifecycleEvent list \<Rightarrow> PersistedPlanState \<Rightarrow> int
   \<Rightarrow> PlanUpdate \<Rightarrow> PersistedPlan" where
  "updatedPlan lc sha planId plan lifecycleEvents state updatedAt changes =
     (let nextState = js_default state (pup_lifecycleState changes);
          steps = map cloneStep (js_default (psp_steps plan) (pup_steps changes));
          v = pup_validation changes; old = psp_validation plan;
          validationHash = js_default (ppv_validationHash old) (or_else (map_option ppv_validationHash v) (pup_planHash changes));
          governanceHash = js_default (ppv_governanceHash old)
            (or_else (map_option ppv_governanceHash v) (pup_governanceDecisionHash changes))
      in plan
       \<lparr>psp_lifecycleState := nextState, psp_steps := steps,
        psp_validation := (js_default old v)\<lparr>ppv_validationHash := validationHash, ppv_governanceHash := governanceHash\<rparr>,
        psp_approvals := merge_approvals (psp_approvals plan) (pup_approvals changes),
        psp_metadata := (js_default (psp_metadata plan) (pup_metadata changes))\<lparr>ppm_updatedAt := updatedAt\<rparr>,
        psp_integrity := buildIntegrity lc sha planId nextState steps (Some validationHash) (Some governanceHash)
          lifecycleEvents,
        psp_state := nextState, psp_createdAt := ppm_createdAt (psp_metadata plan), psp_updatedAt := updatedAt,
        psp_validationPassed := js_default (psp_validationPassed plan)
          (or_else (map_option ppv_valid v) (pup_validationPassed changes)),
        psp_validationSnapshotId := or_else (pup_validationSnapshotId changes) (psp_validationSnapshotId plan),
        psp_planHash := Some validationHash, psp_governanceDecisionHash := Some governanceHash,
        psp_approvalRequired := js_default (psp_approvalRequired plan)
          (or_else (map_option ppa_approvalRequired (pup_approvals changes)) (pup_approvalRequired changes)),
        psp_approvalState := js_default (psp_approvalState plan) (pup_approvalState changes),
        psp_riskLevel := js_default (psp_riskLevel plan) (pup_riskLevel changes),
        psp_executionBlocked := js_default
          (case v of None \<Rightarrow> psp_executionBlocked plan | Some new \<Rightarrow> \<not> ppv_executionEligible new) (pup_executionBlocked changes),
        psp_cancellationRequested := js_default (psp_cancellationRequested plan) (pup_cancellationRequested changes),
        psp_frozenReason := or_else (pup_frozenReason changes) (psp_frozenReason plan),
        psp_disputedReason := or_else (pup_disputedReason changes) (psp_disputedReason plan),
        psp_validatorVersion := or_else (map_option ppv_validatorVersion v)
          (or_else (pup_validatorVersion changes) (psp_validatorVersion plan)),
        psp_registryVersion := or_else (map_option ppv_registryVersion v)
          (or_else (pup_registryVersion changes) (psp_registryVersion plan)),
        psp_governanceVersion := or_else (map_option ppv_governanceVersion v)
          (or_else (pup_governanceVersion changes) (psp_governanceVersion plan))\<rparr>)"

definition updatePlanState ::
  "(string \<Rightarrow> string \<Rightarrow> int) \<Rightarrow> (string \<Rightarrow> string) \<Rightarrow> string \<Rightarrow> PersistedPlanState \<Rightarrow> int \<Rightarrow> PlanUpdate \<Rightarrow> PersistedPlan plan_op" where
  "updatePlanState lc sha planId state updatedAt changes = with_plan planId (\<lambda>plan store.
     let updated = updatedPlan lc sha planId plan (readLifecycleEvents store planId) state updatedAt changes
     in (Inr updated, writePlan updated store))"

definition appendPlanStep ::
  "(string \<Rightarrow> string \<Rightarrow> int) \<Rightarrow> (string \<Rightarrow> string) \<Rightarrow> PersistedPlanStep \<Rightarrow> PersistedPlanStep plan_op" where
  "appendPlanStep lc sha step = with_plan (pps_planId step) (\<lambda>plan.
     let stored = cloneStep (cloneStep step) in
     does (appendStoredPlanStep (cloneStep step)) (and_then
       (updatePlanState lc sha (pps_planId step) (psp_lifecycleState plan) (psp_updatedAt plan)
         (no_fields\<lparr>pup_steps := Some (psp_steps plan @ [stored])\<rparr>)) (\<lambda>_.
     does (appendPlanAudit lc sha (pps_planId step) ''plan.step_appended''
       [(''stepId'', JStr (pps_stepId step)), (''order'', int_json (pps_order step)),
        (''type'', JStr (persisted_type_str (pps_type step))), (''tool'', nullish_json JStr (pps_tool step))])
     (returns stored))))"

definition appendLifecycleEvent ::
  "(string \<Rightarrow> string \<Rightarrow> int) \<Rightarrow> (string \<Rightarrow> string) \<Rightarrow> PlanLifecycleEvent \<Rightarrow> PlanLifecycleEvent plan_op" where
  "appendLifecycleEvent lc sha event = with_plan (ple_planId event) (\<lambda>_.
     let stored = (cloneEvent event)\<lparr>ple_createdAt := ple_timestamp event\<rparr> in
     does (appendStoredLifecycleEvent stored) (with_plan (ple_planId event) (\<lambda>plan.
     and_then (updatePlanState lc sha (ple_planId event) (psp_lifecycleState plan) (ple_timestamp event) no_fields) (\<lambda>_.
     does (appendPlanAudit lc sha (ple_planId event) ''plan.lifecycle_event''
       [(''eventType'', JStr (ple_eventType event)), (''previousState'', nullish_json JStr (ple_previousState event)),
        (''nextState'', JStr (ple_nextState event)), (''actor'', JStr (actor_str (ple_actor event))),
        (''reason'', nullish_json JStr (ple_reason event))])
     (returns (cloneEvent stored))))))"

section \<open>Binding a validation\<close>

definition bound_eligibility :: "string \<Rightarrow> PlanValidationResult \<Rightarrow> ValidationSnapshot \<Rightarrow> ExecutionEligibilityResult" where
  "bound_eligibility planId result snapshot =
     \<lparr>eer_eligible = pvr_executionEligible result, eer_blocked = (\<not> pvr_executionEligible result),
      eer_frozen = pvr_frozen result, eer_planId = planId, eer_validationId = pvr_validationId result,
      eer_snapshotId = Some (pvs_snapshotId snapshot), eer_reasons = pvr_blockedReasons result @ pvr_freezeReasons result,
      eer_requiredApproval = pvr_approvalRequired result, eer_governanceDecision = pvr_governanceDecision result,
      eer_checkedAt = pvr_validatedAt result\<rparr>"

definition binding_fields :: "PlanValidationResult \<Rightarrow> ValidationSnapshot \<Rightarrow> PlanUpdate" where
  "binding_fields result snapshot =
     \<lparr>pup_lifecycleState = None, pup_steps = None,
      pup_validation = Some
        \<lparr>ppv_validationSnapshotId = pvs_snapshotId snapshot, ppv_validationHash = pvr_planHash result,
         ppv_governanceHash = pvr_governanceDecisionHash result, ppv_validatorVersion = pvr_validatorVersion result,
         ppv_registryVersion = pvr_registryVersion result, ppv_governanceVersion = pvr_governanceVersion result,
         ppv_valid = pvr_valid result, ppv_executionEligible = pvr_executionEligible result,
         ppv_validatedAt = pvr_validatedAt result\<rparr>,
      pup_approvals = Some
        \<lparr>ppa_approvalRequired = pvr_approvalRequired result, ppa_approved = False, ppa_approvedBy = None, ppa_approvedAt = None\<rparr>,
      pup_metadata = None, pup_validationPassed = None, pup_validationSnapshotId = Some (pvs_snapshotId snapshot),
      pup_planHash = Some (pvr_planHash result), pup_governanceDecisionHash = Some (pvr_governanceDecisionHash result),
      pup_approvalRequired = Some (pvr_approvalRequired result),
      pup_approvalState = Some (if pvr_approvalRequired result then ApprovalPENDING else ApprovalNONE),
      pup_riskLevel = Some (pvr_riskLevel result), pup_executionBlocked = Some (\<not> pvr_executionEligible result),
      pup_cancellationRequested = None,
      pup_frozenReason = (case pvr_freezeReasons result of [] \<Rightarrow> None | reason # _ \<Rightarrow> Some reason), pup_disputedReason = None,
      pup_validatorVersion = Some (pvr_validatorVersion result), pup_registryVersion = Some (pvr_registryVersion result),
      pup_governanceVersion = Some (pvr_governanceVersion result)\<rparr>"

definition capturePlanValidationSnapshot ::
  "(string \<Rightarrow> string \<Rightarrow> int) \<Rightarrow> (string \<Rightarrow> string) \<Rightarrow> PlanValidationResult \<Rightarrow> string \<Rightarrow> ValidationSnapshot" where
  "capturePlanValidationSnapshot lc sha result schemaVersion =
     createValidationSnapshot lc sha result schemaVersion (Some (pvr_executionEligible result))"

definition bindValidationSnapshot ::
  "(string \<Rightarrow> string \<Rightarrow> int) \<Rightarrow> (string \<Rightarrow> string) \<Rightarrow> string \<Rightarrow> PlanValidationResult \<Rightarrow> json option
   \<Rightarrow> (PersistedPlan \<times> PlanValidationBinding) plan_op" where
  "bindValidationSnapshot lc sha planId result governance = with_plan planId (\<lambda>plan.
     let snapshot = capturePlanValidationSnapshot lc sha result (psp_schemaVersion plan);
         binding = \<lparr>pvb_snapshot = snapshot, pvb_validationResult = result,
           pvb_eligibility = bound_eligibility planId result snapshot, pvb_governance = governance\<rparr>
     in does (writeValidationBinding planId binding) (and_then
       (updatePlanState lc sha planId (psp_state plan) (psp_updatedAt plan) (binding_fields result snapshot)) (\<lambda>updated.
     does (appendPlanAudit lc sha planId ''plan.validation_snapshot_bound''
       [(''snapshotId'', JStr (pvs_snapshotId snapshot)), (''validationId'', JStr (pvr_validationId result)),
        (''executionEligible'', JBool (pvr_executionEligible result)), (''frozen'', JBool (pvr_frozen result))])
     (returns (updated, binding)))))"

section \<open>Transitions\<close>

fun PLAN_TRANSITION_MATRIX :: "PersistedPlanState \<Rightarrow> PersistedPlanState list" where
  "PLAN_TRANSITION_MATRIX PlanDRAFT = [PlanVALIDATING, PlanFROZEN]"
| "PLAN_TRANSITION_MATRIX PlanVALIDATING = [PlanVALIDATED, PlanFAILED, PlanFROZEN]"
| "PLAN_TRANSITION_MATRIX PlanVALIDATED = [PlanAWAITING_APPROVAL, PlanQUEUED, PlanFROZEN]"
| "PLAN_TRANSITION_MATRIX PlanAWAITING_APPROVAL = [PlanAPPROVED, PlanREJECTED, PlanFROZEN]"
| "PLAN_TRANSITION_MATRIX PlanAPPROVED = [PlanQUEUED, PlanFROZEN]"
| "PLAN_TRANSITION_MATRIX PlanREJECTED = [PlanFROZEN]"
| "PLAN_TRANSITION_MATRIX PlanQUEUED = [PlanEXECUTING, PlanCANCELLED, PlanFROZEN]"
| "PLAN_TRANSITION_MATRIX PlanEXECUTING = [PlanCOMPLETED, PlanFAILED, PlanPAUSED, PlanCANCELLED, PlanFROZEN]"
| "PLAN_TRANSITION_MATRIX PlanPAUSED = [PlanQUEUED, PlanCANCELLED, PlanFROZEN]"
| "PLAN_TRANSITION_MATRIX PlanCOMPLETED = [PlanFROZEN]"
| "PLAN_TRANSITION_MATRIX PlanFAILED = [PlanDISPUTED, PlanFROZEN]"
| "PLAN_TRANSITION_MATRIX PlanCANCELLED = [PlanFROZEN]"
| "PLAN_TRANSITION_MATRIX PlanFROZEN = [PlanDISPUTED, PlanFROZEN]"
| "PLAN_TRANSITION_MATRIX PlanDISPUTED = [PlanVALIDATING, PlanFROZEN]"

definition isAllowedPlanTransition :: "PersistedPlanState \<Rightarrow> PersistedPlanState \<Rightarrow> bool" where
  "isAllowedPlanTransition fromState toState \<longleftrightarrow> toState \<in> set (PLAN_TRANSITION_MATRIX fromState)"

record TransitionInput =
  tri_planId :: string
  tri_fromState :: PersistedPlanState
  tri_toState :: PersistedPlanState
  tri_actor :: PlanActor
  tri_reason :: "string option"
  tri_metadata :: "json option"
  tri_createdAt :: "int option"

definition buildEventId :: "string \<Rightarrow> string \<Rightarrow> string \<Rightarrow> string \<Rightarrow> int \<Rightarrow> string" where
  "buildEventId planId fromState toState actor createdAt =
     ''plan-event:'' @ planId @ '':'' @ fromState @ '':'' @ toState @ '':'' @ actor @ '':'' @ int_str createdAt"

definition eligibility_input :: "PersistedPlan \<Rightarrow> PlanValidationBinding \<Rightarrow> EligibilityInput" where
  "eligibility_input plan binding =
     \<lparr>egi_result = pvb_validationResult binding, egi_snapshot = Some (pvb_snapshot binding),
      egi_approvalGranted = (psp_approvalState plan = ApprovalAPPROVED \<or> \<not> psp_approvalRequired plan),
      egi_currentPlanHash = js_default [] (psp_planHash plan),
      egi_currentGovernanceDecisionHash = js_default [] (psp_governanceDecisionHash plan),
      egi_currentSchemaVersion = Some (psp_schemaVersion plan), egi_validatorVersion = psp_validatorVersion plan,
      egi_registryVersion = psp_registryVersion plan, egi_governanceVersion = psp_governanceVersion plan,
      egi_freezePropagationActive = (psp_lifecycleState plan = PlanFROZEN \<or> psp_lifecycleState plan = PlanDISPUTED \<or>
        psp_executionBlocked plan)\<rparr>"

text \<open>The error the gate throws, if any.\<close>

definition gate_error :: "PersistedPlan \<Rightarrow> PlanValidationBinding option \<Rightarrow> PlanErrorCode option" where
  "gate_error plan validationBinding =
     (case validationBinding of
        None \<Rightarrow> Some PLAN_VALIDATION_SNAPSHOT_MISSING
      | Some binding \<Rightarrow>
          let eligibility = evaluateExecutionEligibility (eligibility_input plan binding);
              reported = (\<lambda>code. eligibility_str code \<in> set (eer_reasons eligibility)) in
          if psp_approvalRequired plan \<and> psp_approvalState plan \<noteq> ApprovalAPPROVED then Some PLAN_APPROVAL_REQUIRED
          else if eer_eligible eligibility then None
          else if reported VALIDATION_PLAN_HASH_MISMATCH then Some PLAN_VALIDATION_HASH_DRIFT
          else if reported VALIDATION_GOVERNANCE_HASH_MISMATCH then Some PLAN_GOVERNANCE_HASH_DRIFT
          else if reported VALIDATION_VERSION_MISMATCH then Some PLAN_VERSION_DRIFT
          else if eer_frozen eligibility then Some PLAN_FROZEN_BY_GOVERNANCE
          else Some PLAN_EXECUTION_BLOCKED)"

definition transition_fields :: "PersistedPlan \<Rightarrow> TransitionInput \<Rightarrow> int \<Rightarrow> PlanUpdate" where
  "transition_fields plan input createdAt =
     (let to = tri_toState input; approvals = psp_approvals plan in no_fields
      \<lparr>pup_executionBlocked := Some (if to = PlanFROZEN \<or> to = PlanDISPUTED then True else psp_executionBlocked plan),
       pup_frozenReason := (if to = PlanFROZEN then or_else (tri_reason input) (psp_frozenReason plan) else None),
       pup_disputedReason := (if to = PlanDISPUTED then or_else (tri_reason input) (psp_disputedReason plan) else None),
       pup_approvalState := Some (if to = PlanAPPROVED then ApprovalAPPROVED else if to = PlanREJECTED then ApprovalDENIED
         else psp_approvalState plan),
       pup_approvals := Some
         (if to = PlanAPPROVED
          then approvals\<lparr>ppa_approvalRequired := psp_approvalRequired plan, ppa_approved := True,
            ppa_approvedBy := Some (actor_str (tri_actor input)), ppa_approvedAt := Some createdAt\<rparr>
          else if to = PlanREJECTED
          then approvals\<lparr>ppa_approvalRequired := psp_approvalRequired plan, ppa_approved := False\<rparr>
          else approvals)\<rparr>)"

definition transition_event :: "TransitionInput \<Rightarrow> int \<Rightarrow> PlanLifecycleEvent" where
  "transition_event input createdAt =
     (let from = plan_state_str (tri_fromState input); to = plan_state_str (tri_toState input) in
      \<lparr>ple_eventId = buildEventId (tri_planId input) from to (actor_str (tri_actor input)) createdAt,
       ple_planId = tri_planId input,
       ple_eventType = ''plan.transition.'' @ map lower_char from @ ''_to_'' @ map lower_char to,
       ple_previousState = Some from, ple_nextState = to, ple_actor = tri_actor input, ple_timestamp = createdAt,
       ple_reason = tri_reason input, ple_metadata = map_option reparse (tri_metadata input), ple_createdAt = createdAt\<rparr>)"

definition applyTransition ::
  "(string \<Rightarrow> string \<Rightarrow> int) \<Rightarrow> (string \<Rightarrow> string) \<Rightarrow> TransitionInput \<Rightarrow> PersistedPlan \<Rightarrow> (PersistedPlan \<times> PlanLifecycleEvent) plan_op" where
  "applyTransition lc sha input plan =
     (let createdAt = js_default 0 (tri_createdAt input); event = transition_event input createdAt in
      and_then (updatePlanState lc sha (tri_planId input) (tri_toState input) createdAt (transition_fields plan input createdAt))
        (\<lambda>nextPlan. and_then (appendLifecycleEvent lc sha event) (\<lambda>_.
      does (appendPlanAudit lc sha (tri_planId input) ''plan.transition_applied''
        [(''previousState'', JStr (plan_state_str (tri_fromState input))),
         (''nextState'', JStr (plan_state_str (tri_toState input))), (''actor'', JStr (actor_str (tri_actor input))),
         (''reason'', nullish_json JStr (tri_reason input))])
      (returns (nextPlan, event)))))"

definition transition ::
  "(string \<Rightarrow> string \<Rightarrow> int) \<Rightarrow> (string \<Rightarrow> string) \<Rightarrow> TransitionInput \<Rightarrow> (PersistedPlan \<times> PlanLifecycleEvent) plan_op" where
  "transition lc sha input = with_plan (tri_planId input) (\<lambda>plan store.
     let to = tri_toState input; state = psp_lifecycleState plan in
     if state \<noteq> tri_fromState input then
       does (appendPlanAudit lc sha (tri_planId input) ''plan.transition_rejected''
         [(''code'', JStr ''PLAN_STATE_MISMATCH''), (''expected'', JStr (plan_state_str (tri_fromState input))),
          (''actual'', JStr (plan_state_str state)), (''attempted'', JStr (plan_state_str to))])
         (throws PLAN_STATE_MISMATCH) store
     else if \<not> isAllowedPlanTransition (tri_fromState input) to then
       does (appendPlanAudit lc sha (tri_planId input) ''plan.transition_rejected''
         [(''code'', JStr ''PLAN_TRANSITION_DENIED''), (''fromState'', JStr (plan_state_str (tri_fromState input))),
          (''toState'', JStr (plan_state_str to))])
         (throws INVALID_PLAN_STATE_TRANSITION) store
     else if state = PlanFROZEN \<and> to \<noteq> PlanDISPUTED then throws PLAN_FROZEN_BY_GOVERNANCE store
     else if state = PlanDISPUTED \<and> to \<noteq> PlanVALIDATING \<and> to \<noteq> PlanFROZEN then throws PLAN_DISPUTED store
     else case (if to = PlanQUEUED \<or> to = PlanEXECUTING then gate_error plan (readValidationBinding store (tri_planId input)) else None) of
         Some code \<Rightarrow> throws code store
       | None \<Rightarrow> applyTransition lc sha input plan store)"

definition transitionPlanLifecycle ::
  "(string \<Rightarrow> string \<Rightarrow> int) \<Rightarrow> (string \<Rightarrow> string) \<Rightarrow> TransitionInput \<Rightarrow> (PersistedPlan \<times> PlanLifecycleEvent) plan_op" where
  "transitionPlanLifecycle lc sha input = transition lc sha input"

section \<open>Cancellation\<close>

definition buildCancellationEvent ::
  "string \<Rightarrow> PlanActor \<Rightarrow> string \<Rightarrow> string \<Rightarrow> int \<Rightarrow> string option \<Rightarrow> PlanLifecycleEvent" where
  "buildCancellationEvent planId actor eventType nextState createdAt reason =
     \<lparr>ple_eventId = ''plan-cancel:'' @ planId @ '':'' @ eventType @ '':'' @ actor_str actor @ '':'' @ int_str createdAt,
      ple_planId = planId, ple_eventType = eventType, ple_previousState = None, ple_nextState = nextState, ple_actor = actor,
      ple_timestamp = createdAt, ple_reason = reason, ple_metadata = None, ple_createdAt = createdAt\<rparr>"

definition requestCancellation ::
  "(string \<Rightarrow> string \<Rightarrow> int) \<Rightarrow> (string \<Rightarrow> string) \<Rightarrow> string \<Rightarrow> PlanActor \<Rightarrow> string option \<Rightarrow> int
   \<Rightarrow> (PersistedPlan \<times> PlanLifecycleEvent) plan_op" where
  "requestCancellation lc sha planId actor reason createdAt = with_plan planId (\<lambda>plan.
     let state = psp_lifecycleState plan;
         event = buildCancellationEvent planId actor ''plan.cancellation_requested'' (plan_state_str state) createdAt reason in
     if state = PlanCOMPLETED then throws PLAN_CANCELLATION_NOT_ALLOWED else
     and_then (updatePlanState lc sha planId state createdAt (no_fields\<lparr>pup_cancellationRequested := Some True\<rparr>)) (\<lambda>updated.
     and_then (appendLifecycleEvent lc sha event) (\<lambda>_.
     does (appendPlanAudit lc sha planId ''plan.cancellation_requested''
       [(''actor'', JStr (actor_str actor)), (''reason'', nullish_json JStr reason), (''state'', JStr (plan_state_str state))])
     (returns (updated, event)))))"

definition confirmCancellation ::
  "(string \<Rightarrow> string \<Rightarrow> int) \<Rightarrow> (string \<Rightarrow> string) \<Rightarrow> string \<Rightarrow> PlanActor \<Rightarrow> string option \<Rightarrow> int
   \<Rightarrow> (PersistedPlan \<times> PlanLifecycleEvent) plan_op" where
  "confirmCancellation lc sha planId actor reason createdAt = with_plan planId (\<lambda>plan.
     let state = psp_lifecycleState plan;
         event = buildCancellationEvent planId actor ''plan.cancellation_confirmed'' ''CANCELLED'' createdAt reason in
     if state = PlanCOMPLETED then throws PLAN_CANCELLATION_NOT_ALLOWED
     else if state \<notin> {PlanQUEUED, PlanEXECUTING, PlanPAUSED} then throws INVALID_PLAN_STATE_TRANSITION else
     and_then (updatePlanState lc sha planId PlanCANCELLED createdAt
       (no_fields\<lparr>pup_cancellationRequested := Some True, pup_executionBlocked := Some True\<rparr>)) (\<lambda>updated.
     and_then (appendLifecycleEvent lc sha event) (\<lambda>_.
     does (appendPlanAudit lc sha planId ''plan.cancellation_confirmed''
       [(''actor'', JStr (actor_str actor)), (''reason'', nullish_json JStr reason),
        (''previousState'', JStr (plan_state_str state))])
     (returns (updated, event)))))"

section \<open>Freezing\<close>

definition freezePlan ::
  "(string \<Rightarrow> string \<Rightarrow> int) \<Rightarrow> (string \<Rightarrow> string) \<Rightarrow> string \<Rightarrow> string \<Rightarrow> PlanActor \<Rightarrow> PersistedPlan plan_op" where
  "freezePlan lc sha planId reason actor = with_plan planId (\<lambda>plan.
     if psp_lifecycleState plan = PlanFROZEN then returns plan else
     and_then (transitionPlanLifecycle lc sha
       \<lparr>tri_planId = planId, tri_fromState = psp_lifecycleState plan, tri_toState = PlanFROZEN, tri_actor = actor,
        tri_reason = Some reason, tri_metadata = None, tri_createdAt = None\<rparr>) (\<lambda>(nextPlan, _). returns nextPlan))"

definition isPlanFrozen :: "string \<Rightarrow> bool plan_op" where
  "isPlanFrozen planId = with_plan planId (\<lambda>plan. returns (psp_lifecycleState plan = PlanFROZEN))"

definition enforceFreezeProtection :: "string \<Rightarrow> unit plan_op" where
  "enforceFreezeProtection planId = with_plan planId (\<lambda>plan.
     if psp_lifecycleState plan = PlanFROZEN then throws PLAN_FROZEN_BY_GOVERNANCE else returns ())"

end
