(* ===== verification/PlanInspection.thy ===== *)
theory PlanInspection
  imports PlanLifecycle
begin

text \<open>
  \<open>services/plans\<close>, what is read back from a stored plan: its history (\<open>planPersistence.ts\<close>), the rebuilt state and hash
  (\<open>planStateRebuilder.ts\<close>), the replays of lifecycle and evidence, which leave an audit entry (\<open>planReplay.ts\<close>,
  \<open>planReplayInspector.ts\<close>), lineage (\<open>planLineage.ts\<close>), integrity (\<open>planIntegrity.ts\<close>), recovery
  (\<open>planRecovery.ts\<close>) and retention (\<open>planRetention.ts\<close>).
\<close>

fun plan_error_str :: "PlanErrorCode \<Rightarrow> string" where
  "plan_error_str PLAN_NOT_FOUND = ''PLAN_NOT_FOUND''"
| "plan_error_str PLAN_ALREADY_EXISTS = ''PLAN_ALREADY_EXISTS''"
| "plan_error_str PLAN_PERSISTENCE_FAILURE = ''PLAN_PERSISTENCE_FAILURE''"
| "plan_error_str PLAN_STATE_INVALID = ''PLAN_STATE_INVALID''"
| "plan_error_str PLAN_TRANSITION_DENIED = ''PLAN_TRANSITION_DENIED''"
| "plan_error_str INVALID_PLAN_STATE_TRANSITION = ''INVALID_PLAN_STATE_TRANSITION''"
| "plan_error_str PLAN_STATE_MISMATCH = ''PLAN_STATE_MISMATCH''"
| "plan_error_str PLAN_EXECUTION_BLOCKED = ''PLAN_EXECUTION_BLOCKED''"
| "plan_error_str PLAN_APPROVAL_REQUIRED = ''PLAN_APPROVAL_REQUIRED''"
| "plan_error_str PLAN_CANCELLED = ''PLAN_CANCELLED''"
| "plan_error_str PLAN_FROZEN_BY_GOVERNANCE = ''PLAN_FROZEN_BY_GOVERNANCE''"
| "plan_error_str PLAN_DISPUTED = ''PLAN_DISPUTED''"
| "plan_error_str PLAN_VALIDATION_SNAPSHOT_MISSING = ''PLAN_VALIDATION_SNAPSHOT_MISSING''"
| "plan_error_str PLAN_VALIDATION_HASH_DRIFT = ''PLAN_VALIDATION_HASH_DRIFT''"
| "plan_error_str PLAN_GOVERNANCE_HASH_DRIFT = ''PLAN_GOVERNANCE_HASH_DRIFT''"
| "plan_error_str PLAN_VERSION_DRIFT = ''PLAN_VERSION_DRIFT''"
| "plan_error_str PLAN_REPLAY_CONFLICT = ''PLAN_REPLAY_CONFLICT''"
| "plan_error_str PLAN_REPLAY_FAILED = ''PLAN_REPLAY_FAILED''"
| "plan_error_str PLAN_LINEAGE_CORRUPTED = ''PLAN_LINEAGE_CORRUPTED''"
| "plan_error_str PLAN_AUDIT_CORRUPTED = ''PLAN_AUDIT_CORRUPTED''"
| "plan_error_str PLAN_VALIDATION_DRIFT = ''PLAN_VALIDATION_DRIFT''"
| "plan_error_str PLAN_GOVERNANCE_DRIFT = ''PLAN_GOVERNANCE_DRIFT''"
| "plan_error_str PLAN_REPLAY_MISMATCH = ''PLAN_REPLAY_MISMATCH''"
| "plan_error_str PLAN_IMMUTABLE_MUTATION = ''PLAN_IMMUTABLE_MUTATION''"
| "plan_error_str PLAN_INTEGRITY_FAILURE = ''PLAN_INTEGRITY_FAILURE''"
| "plan_error_str PLAN_RECOVERY_FAILED = ''PLAN_RECOVERY_FAILED''"
| "plan_error_str PLAN_AUDIT_FAILURE = ''PLAN_AUDIT_FAILURE''"
| "plan_error_str PLAN_CANCELLATION_NOT_ALLOWED = ''PLAN_CANCELLATION_NOT_ALLOWED''"

section \<open>History\<close>

record PlanHistory =
  phi_plan :: PersistedPlan
  phi_steps :: "PersistedPlanStep list"
  phi_lifecycleEvents :: "PlanLifecycleEvent list"
  phi_validationBinding :: "PlanValidationBinding option"

definition with_history :: "string \<Rightarrow> (PlanHistory \<Rightarrow> 'a plan_op) \<Rightarrow> 'a plan_op" where
  "with_history planId rest = with_plan planId (\<lambda>plan store.
     rest \<lparr>phi_plan = plan, phi_steps = readPlanSteps store planId, phi_lifecycleEvents = readLifecycleEvents store planId,
       phi_validationBinding = readValidationBinding store planId\<rparr> store)"

definition getPlanHistory :: "string \<Rightarrow> PlanHistory plan_op" where
  "getPlanHistory planId = with_history planId returns"

definition reason_when :: "bool \<Rightarrow> PlanErrorCode \<Rightarrow> PlanErrorCode list" where
  "reason_when failed code = (if failed then [code] else [])"

section \<open>Rebuilt state\<close>

definition reconstructState :: "PlanLifecycleEvent list \<Rightarrow> string" where
  "reconstructState events = (if events = [] then ''MISSING'' else ple_nextState (last events))"

definition reconstructPlanState :: "string \<Rightarrow> string plan_op" where
  "reconstructPlanState planId = with_history planId (\<lambda>history. returns (reconstructState (phi_lifecycleEvents history)))"

definition rebuilt_event_json :: "PlanLifecycleEvent \<Rightarrow> json" where
  "rebuilt_event_json e = JObj
     [(''eventId'', JStr (ple_eventId e)), (''previousState'', nullish_json JStr (ple_previousState e)),
      (''nextState'', JStr (ple_nextState e)), (''actor'', JStr (actor_str (ple_actor e))),
      (''timestamp'', int_json (ple_timestamp e)), (''reason'', nullish_json JStr (ple_reason e))]"

definition rebuildLifecycleHash :: "(string \<Rightarrow> string \<Rightarrow> int) \<Rightarrow> (string \<Rightarrow> string) \<Rightarrow> string \<Rightarrow> string plan_op" where
  "rebuildLifecycleHash lc sha planId = with_history planId (\<lambda>history. returns (hashEvidence lc sha
     [(''planId'', JStr planId), (''lifecycleEvents'', JArr (map rebuilt_event_json (phi_lifecycleEvents history)))]))"

record RebuiltLifecycle =
  rbl_planId :: string
  rbl_reconstructedState :: string
  rbl_lifecycleHash :: string
  rbl_eventCount :: nat

definition rebuildPlanLifecycle :: "(string \<Rightarrow> string \<Rightarrow> int) \<Rightarrow> (string \<Rightarrow> string) \<Rightarrow> string \<Rightarrow> RebuiltLifecycle plan_op" where
  "rebuildPlanLifecycle lc sha planId = with_history planId (\<lambda>history.
     and_then (reconstructPlanState planId) (\<lambda>reconstructedState.
     and_then (rebuildLifecycleHash lc sha planId) (\<lambda>lifecycleHash.
     returns \<lparr>rbl_planId = planId, rbl_reconstructedState = reconstructedState, rbl_lifecycleHash = lifecycleHash,
       rbl_eventCount = length (phi_lifecycleEvents history)\<rparr>)))"

section \<open>Replay\<close>

record PlanReplayResult =
  prr_planId :: string
  prr_deterministic :: bool
  prr_driftDetected :: bool
  prr_driftReasons :: "PlanErrorCode list"
  prr_reconstructedState :: string
  prr_storedState :: PersistedPlanState
  prr_replayedAt :: int

definition reasons_json :: "PlanErrorCode list \<Rightarrow> json" where
  "reasons_json reasons = str_arr (map plan_error_str reasons)"

definition reconstructPlanLifecycle ::
  "(string \<Rightarrow> string \<Rightarrow> int) \<Rightarrow> (string \<Rightarrow> string) \<Rightarrow> string \<Rightarrow> int \<Rightarrow> PlanReplayResult plan_op" where
  "reconstructPlanLifecycle lc sha planId replayedAt = with_history planId (\<lambda>history.
     let events = phi_lifecycleEvents history; stored = psp_lifecycleState (phi_plan history);
         reconstructed = reconstructState events;
         driftReasons = reason_when (events = []) PLAN_REPLAY_CONFLICT @
           reason_when (reconstructed \<noteq> plan_state_str stored) PLAN_REPLAY_CONFLICT
     in does (appendPlanAudit lc sha planId ''plan.replay_lifecycle''
       [(''planId'', JStr planId), (''deterministic'', JBool (driftReasons = [])), (''driftDetected'', JBool (driftReasons \<noteq> [])),
        (''driftReasons'', reasons_json driftReasons), (''reconstructedState'', JStr reconstructed),
        (''storedState'', JStr (plan_state_str stored)), (''replayedAt'', int_json replayedAt)])
     (returns \<lparr>prr_planId = planId, prr_deterministic = (driftReasons = []), prr_driftDetected = (driftReasons \<noteq> []),
       prr_driftReasons = driftReasons, prr_reconstructedState = reconstructed, prr_storedState = stored,
       prr_replayedAt = replayedAt\<rparr>))"

definition draft_step_json :: "PersistedPlanStep \<Rightarrow> json" where
  "draft_step_json s = JObj
     [(''id'', JStr (pps_stepId s)), (''type'', JStr (persisted_type_str (pps_type s))),
      (''tool'', JStr (js_default [] (pps_tool s))), (''input'', pps_input s),
      (''safety'', JObj [(''riskLevel'', JStr (step_risk_str (pps_riskLevel s))),
        (''requiresApproval'', JBool (pps_requiresApproval s))])]"

definition draft_hash ::
  "(string \<Rightarrow> string \<Rightarrow> int) \<Rightarrow> (string \<Rightarrow> string) \<Rightarrow> PersistedPlan \<Rightarrow> PersistedPlanStep list \<Rightarrow> string" where
  "draft_hash lc sha plan steps =
     hashPlanDraft lc sha (psp_planId plan) (psp_intent plan)
       (JObj [(''createdBy'', JStr (psp_createdBy plan)), (''source'', JStr (source_str (psp_source plan)))])
       (psp_schemaVersion plan) (map draft_step_json steps)"

record PlanEvidenceRebuildResult =
  peb_planId :: string
  peb_deterministic :: bool
  peb_driftDetected :: bool
  peb_driftReasons :: "PlanErrorCode list"
  peb_rebuiltPlanHash :: string
  peb_storedPlanHash :: "string option"
  peb_storedGovernanceDecisionHash :: "string option"
  peb_snapshotGovernanceDecisionHash :: "string option"
  peb_replayedAt :: int

definition evidence_reasons :: "string \<Rightarrow> PlanHistory \<Rightarrow> PlanErrorCode list" where
  "evidence_reasons rebuiltPlanHash history =
     (let plan = phi_plan history; binding = phi_validationBinding history; planHash = js_default [] (psp_planHash plan) in
      reason_when (binding = None) PLAN_VALIDATION_SNAPSHOT_MISSING @
      reason_when (planHash \<noteq> [] \<and> rebuiltPlanHash \<noteq> planHash) PLAN_VALIDATION_HASH_DRIFT @
      (case binding of
         None \<Rightarrow> []
       | Some b \<Rightarrow>
           reason_when (psp_governanceDecisionHash plan \<noteq> Some (pvs_governanceDecisionHash (pvb_snapshot b)))
             PLAN_GOVERNANCE_HASH_DRIFT @
           reason_when (psp_validatorVersion plan \<noteq> Some (pvs_validatorVersion (pvb_snapshot b))) PLAN_VERSION_DRIFT @
           reason_when (psp_registryVersion plan \<noteq> Some (pvs_registryVersion (pvb_snapshot b))) PLAN_VERSION_DRIFT @
           reason_when (psp_governanceVersion plan \<noteq> Some (pvs_governanceVersion (pvb_snapshot b))) PLAN_VERSION_DRIFT))"

definition rebuildPlanEvidence ::
  "(string \<Rightarrow> string \<Rightarrow> int) \<Rightarrow> (string \<Rightarrow> string) \<Rightarrow> string \<Rightarrow> int \<Rightarrow> PlanEvidenceRebuildResult plan_op" where
  "rebuildPlanEvidence lc sha planId replayedAt = with_history planId (\<lambda>history.
     let plan = phi_plan history; rebuiltPlanHash = draft_hash lc sha plan (phi_steps history);
         driftReasons = evidence_reasons rebuiltPlanHash history;
         snapshotHash = map_option (\<lambda>b. pvs_governanceDecisionHash (pvb_snapshot b)) (phi_validationBinding history)
     in does (appendPlanAudit lc sha planId ''plan.replay_evidence''
       [(''planId'', JStr planId), (''deterministic'', JBool (driftReasons = [])), (''driftDetected'', JBool (driftReasons \<noteq> [])),
        (''driftReasons'', reasons_json driftReasons), (''rebuiltPlanHash'', JStr rebuiltPlanHash),
        (''storedPlanHash'', opt_json JStr (psp_planHash plan)),
        (''storedGovernanceDecisionHash'', opt_json JStr (psp_governanceDecisionHash plan)),
        (''snapshotGovernanceDecisionHash'', opt_json JStr snapshotHash), (''replayedAt'', int_json replayedAt)])
     (returns \<lparr>peb_planId = planId, peb_deterministic = (driftReasons = []), peb_driftDetected = (driftReasons \<noteq> []),
       peb_driftReasons = driftReasons, peb_rebuiltPlanHash = rebuiltPlanHash, peb_storedPlanHash = psp_planHash plan,
       peb_storedGovernanceDecisionHash = psp_governanceDecisionHash plan, peb_snapshotGovernanceDecisionHash = snapshotHash,
       peb_replayedAt = replayedAt\<rparr>))"

section \<open>Drift\<close>

record PlanDrift =
  pdr_planId :: string
  pdr_driftDetected :: bool
  pdr_reasons :: "PlanErrorCode list"

definition detectLifecycleDrift :: "(string \<Rightarrow> string \<Rightarrow> int) \<Rightarrow> (string \<Rightarrow> string) \<Rightarrow> string \<Rightarrow> PlanDrift plan_op" where
  "detectLifecycleDrift lc sha planId = and_then (reconstructPlanLifecycle lc sha planId 0) (\<lambda>lifecycle.
     returns \<lparr>pdr_planId = planId, pdr_driftDetected = prr_driftDetected lifecycle, pdr_reasons = prr_driftReasons lifecycle\<rparr>)"

definition detectGovernanceDrift :: "(string \<Rightarrow> string \<Rightarrow> int) \<Rightarrow> (string \<Rightarrow> string) \<Rightarrow> string \<Rightarrow> PlanDrift plan_op" where
  "detectGovernanceDrift lc sha planId = and_then (rebuildPlanEvidence lc sha planId 0) (\<lambda>rebuilt.
     returns \<lparr>pdr_planId = planId, pdr_driftDetected = (PLAN_GOVERNANCE_HASH_DRIFT \<in> set (peb_driftReasons rebuilt)),
       pdr_reasons = filter (\<lambda>reason. reason = PLAN_GOVERNANCE_HASH_DRIFT \<or> reason = PLAN_VERSION_DRIFT)
         (peb_driftReasons rebuilt)\<rparr>)"

record ReplayIntegrity =
  rpi_planId :: string
  rpi_deterministic :: bool
  rpi_driftDetected :: bool
  rpi_reasons :: "PlanErrorCode list"
  rpi_lifecycleHash :: string

definition verifyReplayIntegrity :: "(string \<Rightarrow> string \<Rightarrow> int) \<Rightarrow> (string \<Rightarrow> string) \<Rightarrow> string \<Rightarrow> ReplayIntegrity plan_op" where
  "verifyReplayIntegrity lc sha planId =
     and_then (reconstructPlanLifecycle lc sha planId 0) (\<lambda>lifecycle.
     and_then (rebuildPlanEvidence lc sha planId 0) (\<lambda>evidence.
     and_then (reconstructPlanState planId) (\<lambda>state.
     and_then (rebuildLifecycleHash lc sha planId) (\<lambda>lifecycleHash.
     let reasons = prr_driftReasons lifecycle @ peb_driftReasons evidence @ reason_when (state = ''MISSING'') PLAN_REPLAY_FAILED in
     returns \<lparr>rpi_planId = planId, rpi_deterministic = (reasons = []), rpi_driftDetected = (reasons \<noteq> []),
       rpi_reasons = js_unique reasons, rpi_lifecycleHash = lifecycleHash\<rparr>))))"

section \<open>Lineage, integrity, recovery, retention\<close>

record RebuiltLineage =
  rln_planId :: string
  rln_lineage :: PersistedLineage
  rln_valid :: bool
  rln_issues :: "PlanErrorCode list"

definition rebuildPlanLineage :: "string \<Rightarrow> RebuiltLineage plan_op" where
  "rebuildPlanLineage planId = with_history planId (\<lambda>history.
     let lineage = psp_lineage (phi_plan history);
         issues = reason_when (ppl_parentPlanId lineage = Some planId) PLAN_LINEAGE_CORRUPTED @
           reason_when (ppl_replayOf lineage = Some planId) PLAN_LINEAGE_CORRUPTED @
           reason_when (ppl_derivedFrom lineage = Some planId) PLAN_LINEAGE_CORRUPTED
     in returns \<lparr>rln_planId = planId, rln_lineage = lineage, rln_valid = (issues = []), rln_issues = issues\<rparr>)"

text \<open>The first event stands before the creation, or another one before its predecessor.\<close>

definition timestampCorruption :: "int \<Rightarrow> PlanLifecycleEvent list \<Rightarrow> bool" where
  "timestampCorruption createdAt events =
     list_ex (\<lambda>(index, event). ple_timestamp event < (if index = 0 then createdAt else ple_timestamp (events ! (index - 1))))
       (enumerate 0 events)"

definition transition_key :: "PlanLifecycleEvent \<Rightarrow> string" where
  "transition_key event = js_default ''NONE'' (ple_previousState event) @ '':'' @ ple_nextState event @ '':'' @ int_str (ple_timestamp event)"

definition hasDuplicateTransition :: "PlanLifecycleEvent list \<Rightarrow> bool" where
  "hasDuplicateTransition events \<longleftrightarrow> \<not> distinct (map transition_key events)"

record PlanIntegrity =
  pig_planId :: string
  pig_valid :: bool
  pig_reasons :: "PlanErrorCode list"
  pig_orphaned :: bool
  pig_duplicateTransitions :: bool
  pig_timestampCorruption :: bool

definition integrity_reasons ::
  "PlanHistory \<Rightarrow> ImmutableAuditLedgerEntry list \<Rightarrow> RebuiltLineage \<Rightarrow> ReplayIntegrity \<Rightarrow> PlanErrorCode list" where
  "integrity_reasons history auditEntries lineage replay =
     (let events = phi_lifecycleEvents history; plan = phi_plan history in
      reason_when (events = []) PLAN_AUDIT_CORRUPTED @
      reason_when (\<not> verifyImmutableLedgerChain auditEntries) PLAN_AUDIT_CORRUPTED @
      (if rln_valid lineage then [] else rln_issues lineage) @
      (if rpi_driftDetected replay then rpi_reasons replay else []) @
      reason_when (timestampCorruption (ppm_createdAt (psp_metadata plan)) events) PLAN_INTEGRITY_FAILURE @
      reason_when (hasDuplicateTransition events) PLAN_INTEGRITY_FAILURE @
      reason_when (ppi_immutableHash (psp_integrity plan) = []) PLAN_IMMUTABLE_MUTATION)"

definition verifyPlanIntegrity :: "(string \<Rightarrow> string \<Rightarrow> int) \<Rightarrow> (string \<Rightarrow> string) \<Rightarrow> string \<Rightarrow> PlanIntegrity plan_op" where
  "verifyPlanIntegrity lc sha planId = with_history planId (\<lambda>history store.
     and_then (rebuildPlanLineage planId) (\<lambda>lineage.
     and_then (verifyReplayIntegrity lc sha planId) (\<lambda>replay.
     let events = phi_lifecycleEvents history;
         reasons = integrity_reasons history (readPlanAuditEntries store planId) lineage replay in
     returns \<lparr>pig_planId = planId, pig_valid = (reasons = []), pig_reasons = js_unique reasons,
       pig_orphaned = (psp_steps (phi_plan history) \<noteq> [] \<and> events = []),
       pig_duplicateTransitions = hasDuplicateTransition events,
       pig_timestampCorruption = timestampCorruption (ppm_createdAt (psp_metadata (phi_plan history))) events\<rparr>)) store)"

record PlanRecovery =
  prc_planId :: string
  prc_recoverable :: bool
  prc_requiresOperatorReview :: bool
  prc_reasons :: "PlanErrorCode list"

definition preparePlanRecovery :: "(string \<Rightarrow> string \<Rightarrow> int) \<Rightarrow> (string \<Rightarrow> string) \<Rightarrow> string \<Rightarrow> PlanRecovery plan_op" where
  "preparePlanRecovery lc sha planId = with_plan planId (\<lambda>plan. and_then (verifyPlanIntegrity lc sha planId) (\<lambda>integrity.
     let state = psp_lifecycleState plan;
         recoverable = (pig_valid integrity \<and> state \<in> {PlanFAILED, PlanDISPUTED, PlanFROZEN})
     in returns \<lparr>prc_planId = planId, prc_recoverable = recoverable,
       prc_requiresOperatorReview = (\<not> recoverable \<or> state = PlanFROZEN),
       prc_reasons = (if recoverable then [] else js_unique (pig_reasons integrity @ [PLAN_RECOVERY_FAILED]))\<rparr>))"

record PlanRetention =
  prt_planId :: string
  prt_retain :: bool
  prt_lifecycleEventCount :: nat
  prt_auditRequired :: bool
  prt_destructiveDeletionAllowed :: bool

definition inspectPlanRetention :: "string \<Rightarrow> PlanRetention plan_op" where
  "inspectPlanRetention planId = with_history planId (\<lambda>history.
     returns \<lparr>prt_planId = planId, prt_retain = True, prt_lifecycleEventCount = length (phi_lifecycleEvents history),
       prt_auditRequired = True, prt_destructiveDeletionAllowed = False\<rparr>)"

end
