(* ===== verification/PlanStoreFacts.thy ===== *)
theory PlanStoreFacts
  imports PlanInspection
begin

text \<open>
  How the operations on the plan store run.  What each primitive change does to each map of the store, what an update
  keeps, and the runs of the operations on a stored plan in terms of both.
\<close>

section \<open>Primitive changes\<close>

named_theorems store_simps \<open>maps of the store after a change\<close>

lemma audit_changes [store_simps]:
  "pst_plans (appendPlanAudit lc sha p t d st) = pst_plans st"
  "pst_steps (appendPlanAudit lc sha p t d st) = pst_steps st"
  "pst_lifecycleEvents (appendPlanAudit lc sha p t d st) = pst_lifecycleEvents st"
  "pst_validationBindings (appendPlanAudit lc sha p t d st) = pst_validationBindings st"
  by (simp_all add: appendPlanAudit_def appendPlanAuditEntry_def)

lemma write_changes [store_simps]:
  "pst_plans (writePlan u st) = (pst_plans st)(psp_planId u \<mapsto> clonePlan u)"
  "pst_steps (writePlan u st) = pst_steps st"
  "pst_lifecycleEvents (writePlan u st) = pst_lifecycleEvents st"
  "pst_validationBindings (writePlan u st) = pst_validationBindings st"
  "pst_auditEntries (writePlan u st) = pst_auditEntries st"
  by (simp_all add: writePlan_def)

lemma step_changes [store_simps]:
  "pst_plans (appendStoredPlanStep s st) = pst_plans st"
  "pst_steps (appendStoredPlanStep s st) = (pst_steps st)(pps_planId s := pst_steps st (pps_planId s) @ [cloneStep s])"
  "pst_lifecycleEvents (appendStoredPlanStep s st) = pst_lifecycleEvents st"
  "pst_validationBindings (appendStoredPlanStep s st) = pst_validationBindings st"
  "pst_auditEntries (appendStoredPlanStep s st) = pst_auditEntries st"
  by (simp_all add: appendStoredPlanStep_def)

lemma event_changes [store_simps]:
  "pst_plans (appendStoredLifecycleEvent e st) = pst_plans st"
  "pst_steps (appendStoredLifecycleEvent e st) = pst_steps st"
  "pst_lifecycleEvents (appendStoredLifecycleEvent e st) =
     (pst_lifecycleEvents st)(ple_planId e := pst_lifecycleEvents st (ple_planId e) @ [cloneEvent e])"
  "pst_validationBindings (appendStoredLifecycleEvent e st) = pst_validationBindings st"
  "pst_auditEntries (appendStoredLifecycleEvent e st) = pst_auditEntries st"
  by (simp_all add: appendStoredLifecycleEvent_def)

lemma binding_changes [store_simps]:
  "pst_plans (writeValidationBinding p b st) = pst_plans st"
  "pst_steps (writeValidationBinding p b st) = pst_steps st"
  "pst_lifecycleEvents (writeValidationBinding p b st) = pst_lifecycleEvents st"
  "pst_validationBindings (writeValidationBinding p b st) = (pst_validationBindings st)(p \<mapsto> b)"
  "pst_auditEntries (writeValidationBinding p b st) = pst_auditEntries st"
  by (simp_all add: writeValidationBinding_def)

text \<open>An audit entry extends the chain of its plan.\<close>

lemma audit_extends:
  "pst_auditEntries (appendPlanAudit lc sha p t d st) q = pst_auditEntries st q \<or>
   (q = p \<and> (\<exists>e. pst_auditEntries (appendPlanAudit lc sha p t d st) q = pst_auditEntries st q @ [e] \<and>
      al_previousHash e = chain_head (pst_auditEntries st q)))"
  by (simp add: appendPlanAudit_def appendPlanAuditEntry_def readPlanAuditEntries_def appendImmutableLedgerEntry_def Let_def)

lemma audit_chain:
  "verifyImmutableLedgerChain (pst_auditEntries st q) \<Longrightarrow>
   verifyImmutableLedgerChain (pst_auditEntries (appendPlanAudit lc sha p t d st) q)"
  using audit_extends[of lc sha p t d st q] by (auto simp: verify_snoc)

lemma audit_nonempty:
  "pst_auditEntries (appendPlanAudit lc sha p t d st) p \<noteq> []"
  "q \<noteq> p \<Longrightarrow> pst_auditEntries (appendPlanAudit lc sha p t d st) q = pst_auditEntries st q"
  by (simp_all add: appendPlanAudit_def appendPlanAuditEntry_def)

section \<open>Copies\<close>

lemma clone_step_fields [simp]: "pps_planId (cloneStep s) = pps_planId s"
  by (simp add: cloneStep_def)

lemma clone_event_fields [simp]:
  "ple_planId (cloneEvent e) = ple_planId e" "ple_nextState (cloneEvent e) = ple_nextState e"
  "ple_timestamp (cloneEvent e) = ple_timestamp e" "ple_previousState (cloneEvent e) = ple_previousState e"
  by (simp_all add: cloneEvent_def)

lemma clone_plan_fields [simp]:
  "psp_planId (clonePlan x) = psp_planId x" "psp_schemaVersion (clonePlan x) = psp_schemaVersion x"
  "psp_lifecycleState (clonePlan x) = psp_lifecycleState x" "psp_validation (clonePlan x) = psp_validation x"
  "psp_approvals (clonePlan x) = psp_approvals x" "psp_metadata (clonePlan x) = psp_metadata x"
  "psp_state (clonePlan x) = psp_state x" "psp_createdAt (clonePlan x) = psp_createdAt x"
  "psp_updatedAt (clonePlan x) = psp_updatedAt x" "psp_planHash (clonePlan x) = psp_planHash x"
  "psp_governanceDecisionHash (clonePlan x) = psp_governanceDecisionHash x"
  "psp_approvalRequired (clonePlan x) = psp_approvalRequired x" "psp_approvalState (clonePlan x) = psp_approvalState x"
  "psp_executionBlocked (clonePlan x) = psp_executionBlocked x" "psp_frozenReason (clonePlan x) = psp_frozenReason x"
  "psp_disputedReason (clonePlan x) = psp_disputedReason x" "psp_validatorVersion (clonePlan x) = psp_validatorVersion x"
  "psp_registryVersion (clonePlan x) = psp_registryVersion x" "psp_governanceVersion (clonePlan x) = psp_governanceVersion x"
  "psp_integrity (clonePlan x) = psp_integrity x" "psp_lineage (clonePlan x) = psp_lineage x"
  by (simp_all add: clonePlan_def)

lemma plan_state_str_inj [simp]: "plan_state_str a = plan_state_str b \<longleftrightarrow> a = b"
  by (cases a; cases b) simp_all

section \<open>Runs\<close>

lemma get_plan: "getPlan st p = (case pst_plans st p of None \<Rightarrow> Inl PLAN_NOT_FOUND | Some x \<Rightarrow> Inr (clonePlan x))"
  by (simp add: getPlan_def readPlan_def split: option.split)

lemma with_plan_run:
  "with_plan p rest st = (case pst_plans st p of None \<Rightarrow> (Inl PLAN_NOT_FOUND, st) | Some x \<Rightarrow> rest (clonePlan x) st)"
  by (simp add: with_plan_def get_plan split: option.split)

lemmas op_simps = returns_def throws_def and_then_def does_def

lemma update_run:
  assumes "pst_plans st p = Some x"
  shows "updatePlanState lc sha p s t ch st =
    (let u = updatedPlan lc sha p (clonePlan x) (readLifecycleEvents st p) s t ch in (Inr u, writePlan u st))"
  by (simp add: updatePlanState_def with_plan_run assms)

lemma updated_fields [simp]:
  "psp_planId (updatedPlan lc sha p x es s t ch) = psp_planId x"
  "psp_schemaVersion (updatedPlan lc sha p x es s t ch) = psp_schemaVersion x"
  "psp_lineage (updatedPlan lc sha p x es s t ch) = psp_lineage x"
  "psp_lifecycleState (updatedPlan lc sha p x es s t ch) = js_default s (pup_lifecycleState ch)"
  "psp_state (updatedPlan lc sha p x es s t ch) = js_default s (pup_lifecycleState ch)"
  "psp_createdAt (updatedPlan lc sha p x es s t ch) = ppm_createdAt (psp_metadata x)"
  "psp_updatedAt (updatedPlan lc sha p x es s t ch) = t"
  "ppm_updatedAt (psp_metadata (updatedPlan lc sha p x es s t ch)) = t"
  "psp_approvalState (updatedPlan lc sha p x es s t ch) = js_default (psp_approvalState x) (pup_approvalState ch)"
  "psp_frozenReason (updatedPlan lc sha p x es s t ch) = or_else (pup_frozenReason ch) (psp_frozenReason x)"
  "psp_disputedReason (updatedPlan lc sha p x es s t ch) = or_else (pup_disputedReason ch) (psp_disputedReason x)"
  by (simp_all add: updatedPlan_def Let_def)

text \<open>An update that leaves the validation of the plan alone.\<close>

definition neutral :: "PlanUpdate \<Rightarrow> bool" where
  "neutral ch \<longleftrightarrow> pup_lifecycleState ch = None \<and> pup_validation ch = None \<and> pup_metadata ch = None \<and> pup_planHash ch = None \<and>
     pup_governanceDecisionHash ch = None \<and> pup_validatorVersion ch = None \<and> pup_registryVersion ch = None \<and>
     pup_governanceVersion ch = None"

lemma neutral_fields:
  assumes "neutral ch"
  shows "psp_validation (updatedPlan lc sha p x es s t ch) = psp_validation x"
    and "psp_planHash (updatedPlan lc sha p x es s t ch) = Some (ppv_validationHash (psp_validation x))"
    and "psp_governanceDecisionHash (updatedPlan lc sha p x es s t ch) = Some (ppv_governanceHash (psp_validation x))"
    and "psp_validatorVersion (updatedPlan lc sha p x es s t ch) = psp_validatorVersion x"
    and "psp_registryVersion (updatedPlan lc sha p x es s t ch) = psp_registryVersion x"
    and "psp_governanceVersion (updatedPlan lc sha p x es s t ch) = psp_governanceVersion x"
    and "ppm_createdAt (psp_metadata (updatedPlan lc sha p x es s t ch)) = ppm_createdAt (psp_metadata x)"
    and "psp_executionBlocked (updatedPlan lc sha p x es s t ch) = js_default (psp_executionBlocked x) (pup_executionBlocked ch)"
    and "psp_lifecycleState (updatedPlan lc sha p x es s t ch) = s"
  using assms by (simp_all add: neutral_def updatedPlan_def Let_def or_else_def)

lemma no_fields_simps [simp]:
  "pup_executionBlocked no_fields = None" "pup_approvalState no_fields = None" "pup_frozenReason no_fields = None"
  "pup_disputedReason no_fields = None" "pup_lifecycleState no_fields = None"
  by (simp_all add: no_fields_def)

lemma neutral_updates [simp]:
  "neutral no_fields" "neutral (no_fields\<lparr>pup_steps := ss\<rparr>)" "neutral (transition_fields plan input t)"
  "neutral (no_fields\<lparr>pup_cancellationRequested := c\<rparr>)"
  "neutral (no_fields\<lparr>pup_cancellationRequested := c, pup_executionBlocked := b\<rparr>)"
  by (simp_all add: neutral_def no_fields_def transition_fields_def Let_def)

section \<open>A sound store\<close>

text \<open>The binding is the validation the plan was bound to last.\<close>

definition binding_agrees :: "PersistedPlan \<Rightarrow> PlanValidationBinding \<Rightarrow> bool" where
  "binding_agrees x b \<longleftrightarrow>
     (let s = pvb_snapshot b in
      psp_planHash x = Some (pvs_planHash s) \<and> ppv_validationHash (psp_validation x) = pvs_planHash s \<and>
      psp_governanceDecisionHash x = Some (pvs_governanceDecisionHash s) \<and>
      ppv_governanceHash (psp_validation x) = pvs_governanceDecisionHash s \<and>
      psp_validatorVersion x = Some (pvs_validatorVersion s) \<and> psp_registryVersion x = Some (pvs_registryVersion s) \<and>
      psp_governanceVersion x = Some (pvs_governanceVersion s) \<and> psp_schemaVersion x = pvs_schemaVersion s)"

definition plan_ok :: "PlanStoreState \<Rightarrow> string \<Rightarrow> PersistedPlan \<Rightarrow> bool" where
  "plan_ok st p x \<longleftrightarrow> psp_planId x = p \<and> psp_state x = psp_lifecycleState x \<and>
     psp_createdAt x = ppm_createdAt (psp_metadata x) \<and> psp_updatedAt x = ppm_updatedAt (psp_metadata x) \<and>
     (\<forall>b. pst_validationBindings st p = Some b \<longrightarrow> binding_agrees x b) \<and> pst_auditEntries st p \<noteq> []"

definition nothing_stored :: "PlanStoreState \<Rightarrow> string \<Rightarrow> bool" where
  "nothing_stored st p \<longleftrightarrow> pst_steps st p = [] \<and> pst_lifecycleEvents st p = [] \<and> pst_validationBindings st p = None \<and>
     pst_auditEntries st p = []"

definition store_ok :: "PlanStoreState \<Rightarrow> bool" where
  "store_ok st \<longleftrightarrow> (\<forall>p. verifyImmutableLedgerChain (pst_auditEntries st p) \<and>
     (pst_plans st p = None \<longrightarrow> nothing_stored st p) \<and> (\<forall>x. pst_plans st p = Some x \<longrightarrow> plan_ok st p x))"

lemma store_ok_plan: "store_ok st \<Longrightarrow> pst_plans st p = Some x \<Longrightarrow> plan_ok st p x"
  by (simp add: store_ok_def)

lemma store_ok_none: "store_ok st \<Longrightarrow> pst_plans st p = None \<Longrightarrow> nothing_stored st p"
  by (simp add: store_ok_def)

lemma store_ok_id: "store_ok st \<Longrightarrow> pst_plans st p = Some x \<Longrightarrow> psp_planId x = p"
  by (drule (1) store_ok_plan) (simp add: plan_ok_def)

lemma store_okI:
  assumes "\<And>p. verifyImmutableLedgerChain (pst_auditEntries st p)"
    and "\<And>p. pst_plans st p = None \<Longrightarrow> nothing_stored st p" and "\<And>p x. pst_plans st p = Some x \<Longrightarrow> plan_ok st p x"
  shows "store_ok st"
  using assms by (simp add: store_ok_def)

lemma store_ok_audit:
  assumes "store_ok st" and "pst_plans st p \<noteq> None"
  shows "store_ok (appendPlanAudit lc sha p t d st)"
proof (rule store_okI)
  fix q show "verifyImmutableLedgerChain (pst_auditEntries (appendPlanAudit lc sha p t d st) q)"
    by (rule audit_chain) (use assms(1) in \<open>simp add: store_ok_def\<close>)
next
  fix q assume "pst_plans (appendPlanAudit lc sha p t d st) q = None"
  then have q: "pst_plans st q = None" "q \<noteq> p" using assms(2) by (auto simp: store_simps)
  then show "nothing_stored (appendPlanAudit lc sha p t d st) q"
    using store_ok_none[OF assms(1)] by (simp add: nothing_stored_def store_simps audit_nonempty)
next
  fix q x assume "pst_plans (appendPlanAudit lc sha p t d st) q = Some x"
  then have "plan_ok st q x" by (intro store_ok_plan[OF assms(1)]) (simp add: store_simps)
  then show "plan_ok (appendPlanAudit lc sha p t d st) q x"
    using audit_extends[of lc sha p t d st q] by (auto simp: plan_ok_def store_simps)
qed

text \<open>A change of the store that touches one plan.\<close>

lemma store_ok_change:
  assumes "store_ok st" and "pst_plans st' = (pst_plans st)(p \<mapsto> y)" and "pst_plans st p = Some x"
    and "pst_auditEntries st' = pst_auditEntries st" and "plan_ok st' p y"
    and "\<And>q. q \<noteq> p \<Longrightarrow> pst_steps st' q = pst_steps st q \<and> pst_lifecycleEvents st' q = pst_lifecycleEvents st q \<and>
      pst_validationBindings st' q = pst_validationBindings st q"
  shows "store_ok st'"
proof (rule store_okI)
  fix q show "verifyImmutableLedgerChain (pst_auditEntries st' q)" using assms(1,4) by (simp add: store_ok_def)
next
  fix q assume "pst_plans st' q = None"
  then have q: "q \<noteq> p" "pst_plans st q = None" using assms(2) by (auto split: if_splits)
  from store_ok_none[OF assms(1) q(2)] show "nothing_stored st' q" using assms(4) assms(6)[OF q(1)] by (simp add: nothing_stored_def)
next
  fix q z assume z: "pst_plans st' q = Some z"
  show "plan_ok st' q z"
  proof (cases "q = p")
    case True then show ?thesis using z assms(2,5) by simp
  next
    case False
    then have "plan_ok st q z" using z assms(2) by (intro store_ok_plan[OF assms(1)]) simp
    then show ?thesis using assms(4) assms(6)[OF False] by (simp add: plan_ok_def)
  qed
qed

lemma store_ok_same:
  assumes "store_ok st" and "pst_plans st' = pst_plans st" and "pst_plans st p = Some x"
    and "pst_auditEntries st' = pst_auditEntries st" and "pst_validationBindings st' = pst_validationBindings st"
    and "\<And>q. q \<noteq> p \<Longrightarrow> pst_steps st' q = pst_steps st q \<and> pst_lifecycleEvents st' q = pst_lifecycleEvents st q"
  shows "store_ok st'"
  by (rule store_ok_change[OF assms(1) _ assms(3,4), of x]) (use assms store_ok_plan[OF assms(1,3)] in \<open>auto simp: plan_ok_def\<close>)

lemma neutral_binding_agrees:
  assumes "neutral ch" and "binding_agrees x b"
  shows "binding_agrees (updatedPlan lc sha p x es s t ch) b"
  using assms(2) by (simp add: binding_agrees_def Let_def neutral_fields[OF assms(1)])

lemma agrees_clone [simp]: "binding_agrees (clonePlan x) b = binding_agrees x b"
  by (simp add: binding_agrees_def Let_def)

lemma plan_ok_clone [simp]: "plan_ok st p (clonePlan x) = plan_ok st p x"
  by (simp add: plan_ok_def)

lemma plan_ok_updated:
  assumes "plan_ok st p x" and "neutral ch"
  shows "plan_ok st p (updatedPlan lc sha p x es s t ch)"
  using assms(1) neutral_binding_agrees[OF assms(2), of x]
  by (simp add: plan_ok_def neutral_fields[OF assms(2)])

lemma store_ok_update:
  assumes "store_ok st" and "pst_plans st p = Some x" and "neutral ch"
  shows "store_ok (writePlan (updatedPlan lc sha p (clonePlan x) es s t ch) st)"
proof -
  let ?u = "updatedPlan lc sha p (clonePlan x) es s t ch"
  have x: "plan_ok st p x" by (rule store_ok_plan[OF assms(1,2)])
  then have u: "plan_ok st p ?u" by (intro plan_ok_updated assms(3)) simp
  have id: "psp_planId ?u = p" using x by (simp add: plan_ok_def)
  show ?thesis
    by (rule store_ok_change[OF assms(1) _ assms(2), of _ "clonePlan ?u"]) (use u id in \<open>simp_all add: store_simps plan_ok_def\<close>)
qed

lemma store_ok_bind:
  assumes "store_ok st" and "pst_plans st p = Some x"
    and "b = \<lparr>pvb_snapshot = capturePlanValidationSnapshot lc sha r (psp_schemaVersion x), pvb_validationResult = r,
      pvb_eligibility = e, pvb_governance = g\<rparr>"
  shows "store_ok (writePlan (updatedPlan lc sha p (clonePlan x) es s t (binding_fields r (pvb_snapshot b)))
    (writeValidationBinding p b st))"
proof -
  let ?u = "updatedPlan lc sha p (clonePlan x) es s t (binding_fields r (pvb_snapshot b))"
  have x: "plan_ok st p x" by (rule store_ok_plan[OF assms(1,2)])
  have "binding_agrees ?u b"
    by (simp add: binding_agrees_def Let_def updatedPlan_def binding_fields_def or_else_def assms(3) capturePlanValidationSnapshot_def
        createValidationSnapshot_def)
  moreover have "psp_state ?u = psp_lifecycleState ?u" "psp_createdAt ?u = ppm_createdAt (psp_metadata ?u)"
    "psp_updatedAt ?u = ppm_updatedAt (psp_metadata ?u)" "psp_planId ?u = p"
    using x by (simp_all add: updatedPlan_def Let_def binding_fields_def plan_ok_def)
  ultimately show ?thesis
    by (intro store_ok_change[OF assms(1) _ assms(2), of _ "clonePlan ?u"]) (use x in \<open>simp_all add: store_simps plan_ok_def\<close>)
qed

lemma store_ok_event:
  assumes "store_ok st" and "pst_plans st (ple_planId e) \<noteq> None"
  shows "store_ok (appendStoredLifecycleEvent e st)"
proof -
  obtain x where "pst_plans st (ple_planId e) = Some x" using assms(2) by blast
  then show ?thesis by (intro store_ok_same[OF assms(1)]) (simp_all add: store_simps)
qed

lemma store_ok_step:
  assumes "store_ok st" and "pst_plans st (pps_planId s) \<noteq> None"
  shows "store_ok (appendStoredPlanStep s st)"
proof -
  obtain x where "pst_plans st (pps_planId s) = Some x" using assms(2) by blast
  then show ?thesis by (intro store_ok_same[OF assms(1)]) (simp_all add: store_simps)
qed

section \<open>Recording a change\<close>

text \<open>
  An update, its event and its audit entry, as transition and cancellation write them: what becomes of the plan.
\<close>

definition recorded ::
  "(string \<Rightarrow> string \<Rightarrow> int) \<Rightarrow> (string \<Rightarrow> string) \<Rightarrow> string \<Rightarrow> PersistedPlanState \<Rightarrow> int \<Rightarrow> PlanUpdate \<Rightarrow> PlanLifecycleEvent \<Rightarrow> string
   \<Rightarrow> js_record \<Rightarrow> (PersistedPlan \<times> PlanLifecycleEvent) plan_op" where
  "recorded lc sha p s t ch e ty d =
     and_then (updatePlanState lc sha p s t ch) (\<lambda>u. and_then (appendLifecycleEvent lc sha e) (\<lambda>_.
       does (appendPlanAudit lc sha p ty d) (returns (u, e))))"

lemma recorded_run:
  assumes "pst_plans st p = Some x" and "psp_planId x = p" and "neutral ch" and "ple_planId e = p"
  obtains u y w where "recorded lc sha p s t ch e ty d st = (Inr (u, e), w)"
    and "pst_plans w = (pst_plans st)(p \<mapsto> y)"
    and "psp_lifecycleState y = s" and "psp_executionBlocked y = js_default (psp_executionBlocked x) (pup_executionBlocked ch)"
    and "psp_lifecycleState u = s" and "psp_executionBlocked u = psp_executionBlocked y"
    and "psp_frozenReason y = or_else (pup_frozenReason ch) (psp_frozenReason x)"
    and "psp_approvalState y = js_default (psp_approvalState x) (pup_approvalState ch)"
    and "ppm_createdAt (psp_metadata y) = ppm_createdAt (psp_metadata x)"
    and "\<exists>e'. ple_nextState e' = ple_nextState e \<and> ple_timestamp e' = ple_timestamp e \<and>
      pst_lifecycleEvents w = (pst_lifecycleEvents st)(p := pst_lifecycleEvents st p @ [e'])"
    and "pst_validationBindings w = pst_validationBindings st" and "store_ok st \<Longrightarrow> store_ok w"
proof -
  let ?u = "updatedPlan lc sha p (clonePlan x) (readLifecycleEvents st p) s t ch"
  let ?st1 = "writePlan ?u st"
  let ?e = "(cloneEvent e)\<lparr>ple_createdAt := ple_timestamp e\<rparr>"
  let ?st2 = "appendStoredLifecycleEvent ?e ?st1"
  let ?x2 = "clonePlan ?u"
  let ?v = "updatedPlan lc sha p (clonePlan ?x2) (readLifecycleEvents ?st2 p) (psp_lifecycleState (clonePlan ?x2))
    (ple_timestamp e) no_fields"
  let ?w = "appendPlanAudit lc sha p ty d (appendPlanAudit lc sha p ''plan.lifecycle_event''
     [(''eventType'', JStr (ple_eventType e)), (''previousState'', nullish_json JStr (ple_previousState e)),
      (''nextState'', JStr (ple_nextState e)), (''actor'', JStr (actor_str (ple_actor e))),
      (''reason'', nullish_json JStr (ple_reason e))] (writePlan ?v ?st2))"
  have u: "psp_planId ?u = p" and v: "psp_planId ?v = p" using assms(2) by simp_all
  have st1: "pst_plans ?st1 p = Some ?x2" using u by (simp add: store_simps)
  have st2: "pst_plans ?st2 p = Some ?x2" using u by (simp add: store_simps)
  have run: "recorded lc sha p s t ch e ty d st = (Inr (?u, e), ?w)"
    unfolding recorded_def and_then_def update_run[OF assms(1)] Let_def prod.case sum.case appendLifecycleEvent_def with_plan_run
      assms(4) st1 option.case does_def st2 update_run[OF st2] returns_def ..
  show thesis
  proof (rule that[OF run])
    show "pst_plans ?w = (pst_plans st)(p \<mapsto> clonePlan ?v)" using u v by (simp add: store_simps)
    show "\<exists>e'. ple_nextState e' = ple_nextState e \<and> ple_timestamp e' = ple_timestamp e \<and>
      pst_lifecycleEvents ?w = (pst_lifecycleEvents st)(p := pst_lifecycleEvents st p @ [e'])"
      by (rule exI[of _ "cloneEvent ?e"]) (simp add: store_simps assms(4))
    show "store_ok ?w" if "store_ok st"
    proof -
      have 1: "store_ok ?st1" by (rule store_ok_update[OF that assms(1,3)])
      have 2: "store_ok ?st2" by (rule store_ok_event[OF 1]) (use st1 assms(4) in simp)
      have "store_ok (writePlan ?v ?st2)" by (rule store_ok_update[OF 2 st2]) simp
      then show ?thesis by (intro store_ok_audit) (use v in \<open>simp_all add: store_simps\<close>)
    qed
  qed (use assms(3) in \<open>simp_all add: neutral_fields store_simps no_fields_def neutral_def or_else_def updatedPlan_def Let_def\<close>)
qed

end
