(* ===== verification/PlanStoreRuns.thy ===== *)
theory PlanStoreRuns
  imports PlanStoreFacts
begin

text \<open>
  The plan service as a state machine: its commands, the stores they reach from the empty one, and what a command does
  to a stored plan (\<open>evolves\<close>).
\<close>

section \<open>Commands\<close>

datatype PlanCommand =
    CmdCreate CreatePlanInput
  | CmdAppendStep PersistedPlanStep
  | CmdBind string PlanValidationResult "json option"
  | CmdTransition TransitionInput
  | CmdRequestCancellation string PlanActor "string option" int
  | CmdConfirmCancellation string PlanActor "string option" int
  | CmdFreeze string string PlanActor
  | CmdReplayLifecycle string int
  | CmdReplayEvidence string int
  | CmdVerify string
  | CmdRecover string

fun perform :: "(string \<Rightarrow> string \<Rightarrow> int) \<Rightarrow> (string \<Rightarrow> string) \<Rightarrow> PlanCommand \<Rightarrow> PlanStoreState \<Rightarrow> PlanStoreState" where
  "perform lc sha (CmdCreate i) st = snd (createPlan lc sha i st)"
| "perform lc sha (CmdAppendStep s) st = snd (appendPlanStep lc sha s st)"
| "perform lc sha (CmdBind p r g) st = snd (bindValidationSnapshot lc sha p r g st)"
| "perform lc sha (CmdTransition i) st = snd (transition lc sha i st)"
| "perform lc sha (CmdRequestCancellation p a r t) st = snd (requestCancellation lc sha p a r t st)"
| "perform lc sha (CmdConfirmCancellation p a r t) st = snd (confirmCancellation lc sha p a r t st)"
| "perform lc sha (CmdFreeze p r a) st = snd (freezePlan lc sha p r a st)"
| "perform lc sha (CmdReplayLifecycle p t) st = snd (reconstructPlanLifecycle lc sha p t st)"
| "perform lc sha (CmdReplayEvidence p t) st = snd (rebuildPlanEvidence lc sha p t st)"
| "perform lc sha (CmdVerify p) st = snd (verifyPlanIntegrity lc sha p st)"
| "perform lc sha (CmdRecover p) st = snd (preparePlanRecovery lc sha p st)"

fun binds :: "string \<Rightarrow> PlanCommand \<Rightarrow> bool" where
  "binds p (CmdBind q r g) \<longleftrightarrow> q = p"
| "binds p _ \<longleftrightarrow> False"

inductive plan_reachable :: "(string \<Rightarrow> string \<Rightarrow> int) \<Rightarrow> (string \<Rightarrow> string) \<Rightarrow> PlanStoreState \<Rightarrow> bool" for lc sha where
  reachable_empty: "plan_reachable lc sha resetPlanStore"
| reachable_command: "plan_reachable lc sha st \<Longrightarrow> plan_reachable lc sha (perform lc sha cmd st)"

section \<open>What a command does to a plan\<close>

definition active :: "PersistedPlan \<Rightarrow> bool" where
  "active x \<longleftrightarrow> psp_lifecycleState x = PlanQUEUED \<or> psp_lifecycleState x = PlanEXECUTING"

definition moves :: "PersistedPlan \<Rightarrow> PersistedPlan \<Rightarrow> bool" where
  "moves x y \<longleftrightarrow> psp_lifecycleState y = psp_lifecycleState x \<or> isAllowedPlanTransition (psp_lifecycleState x) (psp_lifecycleState y)"

text \<open>The events of a plan grow; the last one names the state it is in.\<close>

definition tells :: "PlanLifecycleEvent list \<Rightarrow> PersistedPlan \<Rightarrow> PersistedPlan \<Rightarrow> bool" where
  "tells es x y \<longleftrightarrow>
     (if es = [] then psp_lifecycleState y = psp_lifecycleState x else ple_nextState (last es) = plan_state_str (psp_lifecycleState y))"

definition stays_blocked :: "PersistedPlan \<Rightarrow> PersistedPlan \<Rightarrow> bool" where
  "stays_blocked x y \<longleftrightarrow> psp_executionBlocked x \<longrightarrow>
     psp_executionBlocked y \<and> (active y \<longrightarrow> psp_lifecycleState y = psp_lifecycleState x)"

text \<open>\<open>rebound\<close> holds of the plans whose validation is bound anew.\<close>

definition evolves :: "(string \<Rightarrow> bool) \<Rightarrow> PlanStoreState \<Rightarrow> PlanStoreState \<Rightarrow> bool" where
  "evolves rebound st st' \<longleftrightarrow> (\<forall>p x. pst_plans st p = Some x \<longrightarrow>
     (\<exists>y es. pst_plans st' p = Some y \<and> pst_lifecycleEvents st' p = pst_lifecycleEvents st p @ es \<and> tells es x y \<and> moves x y \<and>
        ppm_createdAt (psp_metadata y) = ppm_createdAt (psp_metadata x) \<and> (rebound p \<or> stays_blocked x y))) \<and>
     (\<forall>p. pst_plans st p = None \<longrightarrow> pst_lifecycleEvents st' p = pst_lifecycleEvents st p)"

lemma evolvesE:
  assumes "evolves rebound st st'" and "pst_plans st p = Some x"
  obtains y es where "pst_plans st' p = Some y" and "pst_lifecycleEvents st' p = pst_lifecycleEvents st p @ es" and "tells es x y"
    and "moves x y" and "ppm_createdAt (psp_metadata y) = ppm_createdAt (psp_metadata x)" and "rebound p \<or> stays_blocked x y"
proof -
  note assms(1)[unfolded evolves_def, THEN conjunct1, rule_format, OF assms(2)]
  then show thesis by (elim exE conjE) (rule that)
qed

definition quiet :: "PlanStoreState \<Rightarrow> PlanStoreState \<Rightarrow> bool" where
  "quiet st st' \<longleftrightarrow> pst_plans st' = pst_plans st \<and> pst_lifecycleEvents st' = pst_lifecycleEvents st"

lemma quiet_evolves: "quiet st st' \<Longrightarrow> evolves rebound st st'"
  by (auto simp: evolves_def quiet_def tells_def moves_def stays_blocked_def)

lemma quiet_refl [simp]: "quiet st st"
  by (simp add: quiet_def)

lemma quiet_audit [simp]: "quiet st (appendPlanAudit lc sha p t d st') = quiet st st'"
  by (simp add: quiet_def store_simps)

lemma evolves_audit [simp]: "evolves rebound st (appendPlanAudit lc sha p t d st') = evolves rebound st st'"
  by (simp add: evolves_def store_simps)

text \<open>A command that touches one plan.\<close>

lemma evolves_one:
  assumes "pst_plans st p = Some x" and "pst_plans st' = (pst_plans st)(p \<mapsto> y)"
    and "\<And>q. q \<noteq> p \<Longrightarrow> pst_lifecycleEvents st' q = pst_lifecycleEvents st q"
    and "pst_lifecycleEvents st' p = pst_lifecycleEvents st p @ es" and "tells es x y" and "moves x y"
    and "ppm_createdAt (psp_metadata y) = ppm_createdAt (psp_metadata x)" and "rebound p \<or> stays_blocked x y"
  shows "evolves rebound st st'"
  unfolding evolves_def
proof (intro conjI allI impI)
  fix q assume "pst_plans st q = None"
  then show "pst_lifecycleEvents st' q = pst_lifecycleEvents st q" using assms(1) by (intro assms(3)) auto
next
  fix q z assume z: "pst_plans st q = Some z"
  show "\<exists>y es. pst_plans st' q = Some y \<and> pst_lifecycleEvents st' q = pst_lifecycleEvents st q @ es \<and> tells es z y \<and> moves z y \<and>
      ppm_createdAt (psp_metadata y) = ppm_createdAt (psp_metadata z) \<and> (rebound q \<or> stays_blocked z y)"
  proof (cases "q = p")
    case True
    then have "z = x" using z assms(1) by simp
    then show ?thesis using True assms(2,4-8) by (intro exI[of _ y] exI[of _ es]) simp
  next
    case False
    then show ?thesis using z assms(2,3) by (intro exI[of _ z] exI[of _ "[]"]) (simp add: tells_def moves_def stays_blocked_def)
  qed
qed

section \<open>The gate\<close>

definition refused_state :: "PlanValidationState \<Rightarrow> bool" where
  "refused_state s \<longleftrightarrow> s \<in> {ValidationINVALID, ValidationBLOCKED, ValidationDISPUTED, ValidationFROZEN}"

definition frozen_now :: "PersistedPlan \<Rightarrow> bool" where
  "frozen_now x \<longleftrightarrow> psp_lifecycleState x = PlanFROZEN \<or> psp_lifecycleState x = PlanDISPUTED \<or> psp_executionBlocked x"

text \<open>The gate with its hash and version checks left out, which a sound store never fails.\<close>

definition gate_decision :: "PersistedPlan \<Rightarrow> PlanValidationBinding option \<Rightarrow> PlanErrorCode option" where
  "gate_decision x binding =
     (case binding of
        None \<Rightarrow> Some PLAN_VALIDATION_SNAPSHOT_MISSING
      | Some b \<Rightarrow>
          let result = pvb_validationResult b in
          if psp_approvalRequired x \<and> psp_approvalState x \<noteq> ApprovalAPPROVED then Some PLAN_APPROVAL_REQUIRED
          else if pvr_frozen result \<or> frozen_now x then Some PLAN_FROZEN_BY_GOVERNANCE
          else if pvr_immutableAuditId result = [] \<or> refused_state (pvr_validationState result)
          then Some PLAN_EXECUTION_BLOCKED
          else None)"

lemma gate_decided:
  assumes "binding = None \<or> (\<exists>b. binding = Some b \<and> binding_agrees x b)"
  shows "gate_error x binding = gate_decision x binding"
proof (cases binding)
  case None
  then show ?thesis by (simp add: gate_error_def gate_decision_def)
next
  case (Some b)
  then have agrees: "binding_agrees x b" using assms by simp
  let ?i = "eligibility_input x b"
  have mismatches: "snapshot_mismatches ?i (pvb_snapshot b) = []"
    using agrees by (simp add: snapshot_mismatches_def eligibility_input_def binding_agrees_def Let_def)
  have codes: "eligibility_codes ?i =
      code_when (pvr_immutableAuditId (pvb_validationResult b) = []) VALIDATION_AUDIT_LINEAGE_MISSING @
      code_when (refused_state (pvr_validationState (pvb_validationResult b))) VALIDATION_EXECUTION_NOT_ELIGIBLE @
      code_when (pvr_approvalRequired (pvb_validationResult b) \<and>
        \<not> (psp_approvalState x = ApprovalAPPROVED \<or> \<not> psp_approvalRequired x)) APPROVAL_REQUIRED @
      code_when (frozen_now x) VALIDATION_FREEZE_PROPAGATED"
    using mismatches unfolding eligibility_codes_def Let_def
    by (simp add: eligibility_input_def refused_state_def frozen_now_def code_when_def)
  let ?e = "evaluateExecutionEligibility ?i"
  have e: "eer_reasons ?e = dedupeReasons (map eligibility_str (eligibility_codes ?i))"
    "eer_frozen ?e = (pvr_frozen (pvb_validationResult b) \<or> frozen_now x)"
    "eer_eligible ?e \<longleftrightarrow> eligibility_codes ?i = [] \<and> \<not> (pvr_frozen (pvb_validationResult b) \<or> frozen_now x)"
    by (simp_all add: evaluateExecutionEligibility_def Let_def no_reason_iff, simp_all add: eligibility_input_def frozen_now_def)
  show ?thesis
    unfolding gate_error_def gate_decision_def Some option.case Let_def e reason_iff codes by auto
qed

lemma gate_decision_blocked: "psp_executionBlocked x \<Longrightarrow> gate_decision x binding \<noteq> None"
  by (cases binding) (simp_all add: gate_decision_def frozen_now_def Let_def)

lemma gate_decision_clone [simp]: "gate_decision (clonePlan x) binding = gate_decision x binding"
proof -
  have "frozen_now (clonePlan x) = frozen_now x" by (simp add: frozen_now_def)
  then show ?thesis unfolding gate_decision_def clone_plan_fields by (simp only:)
qed

section \<open>Runs of the operations\<close>

lemma recorded_evolves:
  assumes "store_ok st" and "pst_plans st p = Some x" and "neutral ch" and "ple_planId e = p"
    and "ple_nextState e = plan_state_str s" and "psp_lifecycleState x = s \<or> isAllowedPlanTransition (psp_lifecycleState x) s"
    and "pup_executionBlocked ch \<noteq> Some False \<or> \<not> psp_executionBlocked x"
    and "psp_executionBlocked x \<Longrightarrow> s = PlanQUEUED \<or> s = PlanEXECUTING \<Longrightarrow> s = psp_lifecycleState x"
  shows "evolves rebound st (snd (recorded lc sha p s t ch e ty d st)) \<and> store_ok (snd (recorded lc sha p s t ch e ty d st))"
proof (rule recorded_run[OF assms(2) store_ok_id[OF assms(1,2)] assms(3,4)])
  fix u y w
  assume w: "recorded lc sha p s t ch e ty d st = (Inr (u, e), w)" "pst_plans w = (pst_plans st)(p \<mapsto> y)"
      "psp_lifecycleState y = s" "psp_executionBlocked y = js_default (psp_executionBlocked x) (pup_executionBlocked ch)"
      "ppm_createdAt (psp_metadata y) = ppm_createdAt (psp_metadata x)"
    and events: "\<exists>e'. ple_nextState e' = ple_nextState e \<and> ple_timestamp e' = ple_timestamp e \<and>
      pst_lifecycleEvents w = (pst_lifecycleEvents st)(p := pst_lifecycleEvents st p @ [e'])"
    and ok: "store_ok st \<Longrightarrow> store_ok w"
  obtain e' where e': "ple_nextState e' = plan_state_str s"
    "pst_lifecycleEvents w = (pst_lifecycleEvents st)(p := pst_lifecycleEvents st p @ [e'])" using events assms(5) by auto
  have "stays_blocked x y"
    using assms(7,8) w(3,4) by (cases "pup_executionBlocked ch") (auto simp: stays_blocked_def active_def)
  then have "evolves rebound st w"
    by (intro evolves_one[OF assms(2) w(2) _ _ _ _ w(5)]) (use e' assms(6) w(3) in \<open>auto simp: tells_def moves_def\<close>)
  then show ?thesis using ok[OF assms(1)] by (simp add: w(1))
qed

lemma recorded_returns:
  assumes "store_ok st" and "pst_plans st p = Some x" and "neutral ch" and "ple_planId e = p"
  shows "(case fst (recorded lc sha p s t ch e ty d st) of Inl c \<Rightarrow> Some c | Inr _ \<Rightarrow> None) = None"
  by (rule recorded_run[OF assms(2) store_ok_id[OF assms(1,2)] assms(3,4), of lc sha s t ty d]) simp

text \<open>Why a transition is refused.\<close>

definition transition_error :: "PersistedPlan \<Rightarrow> PlanValidationBinding option \<Rightarrow> TransitionInput \<Rightarrow> PlanErrorCode option" where
  "transition_error x binding i =
     (let from = tri_fromState i; to = tri_toState i in
      if psp_lifecycleState x \<noteq> from then Some PLAN_STATE_MISMATCH
      else if \<not> isAllowedPlanTransition from to then Some INVALID_PLAN_STATE_TRANSITION
      else if from = PlanFROZEN \<and> to = PlanFROZEN then Some PLAN_FROZEN_BY_GOVERNANCE
      else if to = PlanQUEUED \<or> to = PlanEXECUTING then gate_decision x binding
      else None)"

lemma binding_sound:
  assumes "store_ok st" and "pst_plans st p = Some x"
  shows "readValidationBinding st p = None \<or> (\<exists>b. readValidationBinding st p = Some b \<and> binding_agrees (clonePlan x) b)"
  using store_ok_plan[OF assms] by (cases "pst_validationBindings st p") (simp_all add: readValidationBinding_def plan_ok_def)

lemma applied_transition:
  "applyTransition lc sha i plan =
     recorded lc sha (tri_planId i) (tri_toState i) (js_default 0 (tri_createdAt i))
       (transition_fields plan i (js_default 0 (tri_createdAt i))) (transition_event i (js_default 0 (tri_createdAt i)))
       ''plan.transition_applied''
       [(''previousState'', JStr (plan_state_str (tri_fromState i))), (''nextState'', JStr (plan_state_str (tri_toState i))),
        (''actor'', JStr (actor_str (tri_actor i))), (''reason'', nullish_json JStr (tri_reason i))]"
  by (simp add: applyTransition_def recorded_def Let_def)

lemma matrix_leaves:
  "isAllowedPlanTransition PlanFROZEN to \<longleftrightarrow> to = PlanDISPUTED \<or> to = PlanFROZEN"
  "isAllowedPlanTransition PlanDISPUTED to \<longleftrightarrow> to = PlanVALIDATING \<or> to = PlanFROZEN"
  "isAllowedPlanTransition s PlanFROZEN"
  by (auto simp: isAllowedPlanTransition_def) (cases s, simp_all add: isAllowedPlanTransition_def)

lemma transition_run:
  assumes "store_ok st" and "pst_plans st (tri_planId i) = Some x"
  shows "transition_error x (readValidationBinding st (tri_planId i)) i = None \<Longrightarrow>
      transition lc sha i st = applyTransition lc sha i (clonePlan x) st"
    and "transition_error x (readValidationBinding st (tri_planId i)) i = Some c \<Longrightarrow>
      \<exists>w. transition lc sha i st = (Inl c, w) \<and> quiet st w \<and> store_ok w"
proof -
  let ?p = "tri_planId i" and ?b = "readValidationBinding st (tri_planId i)"
  note gate = gate_decided[OF binding_sound[OF assms]]
  have audited: "quiet st (appendPlanAudit lc sha ?p t d st)" "store_ok (appendPlanAudit lc sha ?p t d st)" for t d
    using assms by (simp_all add: store_ok_audit)
  show "transition lc sha i st = applyTransition lc sha i (clonePlan x) st" if "transition_error x ?b i = None"
    using that unfolding transition_def with_plan_run assms(2) option.case Let_def gate
    by (auto simp: transition_error_def Let_def matrix_leaves split: if_splits option.splits)
  show "\<exists>w. transition lc sha i st = (Inl c, w) \<and> quiet st w \<and> store_ok w" if "transition_error x ?b i = Some c"
    using that assms(1) audited unfolding transition_def with_plan_run assms(2) option.case Let_def gate op_simps
    by (auto simp: transition_error_def Let_def matrix_leaves split: if_splits option.splits)
qed

section \<open>Inspections\<close>

text \<open>An operation that leaves no trace but audit entries.\<close>

definition inspects :: "'a plan_op \<Rightarrow> bool" where
  "inspects operation \<longleftrightarrow> (\<forall>st. quiet st (snd (operation st)) \<and> (store_ok st \<longrightarrow> store_ok (snd (operation st))))"

lemma inspects_returns [simp]: "inspects (returns x)"
  by (simp add: inspects_def returns_def)

lemma inspects_and_then:
  assumes "inspects operation" and "\<And>x. inspects (rest x)"
  shows "inspects (and_then operation rest)"
  unfolding inspects_def
proof
  fix st
  obtain r w where w: "operation st = (r, w)" by (cases "operation st")
  have 1: "quiet st w" "store_ok st \<Longrightarrow> store_ok w" using assms(1) w by (auto simp: inspects_def dest: spec[of _ st])
  show "quiet st (snd (and_then operation rest st)) \<and> (store_ok st \<longrightarrow> store_ok (snd (and_then operation rest st)))"
  proof (cases r)
    case (Inl c)
    then show ?thesis using 1 w by (simp add: and_then_def)
  next
    case (Inr x)
    have "quiet w (snd (rest x w))" "store_ok w \<Longrightarrow> store_ok (snd (rest x w))" using assms(2) by (auto simp: inspects_def)
    then show ?thesis using 1 w Inr by (auto simp: and_then_def quiet_def)
  qed
qed

lemma inspects_with_plan:
  assumes "\<And>x st. pst_plans st p \<noteq> None \<Longrightarrow> quiet st (snd (rest x st)) \<and> (store_ok st \<longrightarrow> store_ok (snd (rest x st)))"
  shows "inspects (with_plan p rest)"
  using assms by (auto simp: inspects_def with_plan_run split: option.split)

lemma inspects_with_history:
  assumes "\<And>h st. pst_plans st p \<noteq> None \<Longrightarrow> quiet st (snd (rest h st)) \<and> (store_ok st \<longrightarrow> store_ok (snd (rest h st)))"
  shows "inspects (with_history p rest)"
  unfolding with_history_def by (rule inspects_with_plan) (rule assms)

lemma inspectsD: "inspects operation \<Longrightarrow> quiet st (snd (operation st)) \<and> (store_ok st \<longrightarrow> store_ok (snd (operation st)))"
  by (simp add: inspects_def)

lemma inspections:
  "inspects (reconstructPlanState p)" "inspects (rebuildLifecycleHash lc sha p)" "inspects (rebuildPlanLineage p)"
  "inspects (reconstructPlanLifecycle lc sha p t)" "inspects (rebuildPlanEvidence lc sha p t)"
  unfolding reconstructPlanState_def rebuildLifecycleHash_def rebuildPlanLineage_def reconstructPlanLifecycle_def
    rebuildPlanEvidence_def Let_def
  by (rule inspects_with_history, simp add: op_simps store_ok_audit)+

lemma inspects_replay_integrity: "inspects (verifyReplayIntegrity lc sha p)"
  unfolding verifyReplayIntegrity_def Let_def by (intro inspects_and_then inspections inspects_returns)

lemma inspects_verify: "inspects (verifyPlanIntegrity lc sha p)"
  unfolding verifyPlanIntegrity_def Let_def
  by (intro inspects_with_history inspectsD inspects_and_then inspections inspects_replay_integrity inspects_returns)

lemma inspects_recovery: "inspects (preparePlanRecovery lc sha p)"
  unfolding preparePlanRecovery_def Let_def
  by (intro inspects_with_plan inspectsD inspects_and_then inspects_verify inspects_returns)

section \<open>Commands\<close>

definition good_run :: "(string \<Rightarrow> bool) \<Rightarrow> PlanStoreState \<Rightarrow> PlanStoreState \<Rightarrow> bool" where
  "good_run rebound st st' \<longleftrightarrow> evolves rebound st st' \<and> store_ok st'"

lemma good_quiet: "quiet st st' \<Longrightarrow> store_ok st' \<Longrightarrow> good_run rebound st st'"
  by (simp add: good_run_def quiet_evolves)

lemma good_same [simp]: "store_ok st \<Longrightarrow> good_run rebound st st"
  by (simp add: good_quiet)

lemma good_inspection: "inspects operation \<Longrightarrow> store_ok st \<Longrightarrow> good_run rebound st (snd (operation st))"
  using inspectsD[of operation st] by (simp add: good_quiet)

lemma create_run:
  assumes "store_ok st"
  shows "good_run rebound st (snd (createPlan lc sha i st))"
proof (cases "pst_plans st (cpl_planId i)")
  case (Some x)
  then show ?thesis using assms by (simp add: createPlan_def readPlan_def)
next
  case None
  let ?y = "normalizePlan lc sha i"
  have y: "psp_planId ?y = cpl_planId i" "psp_state ?y = psp_lifecycleState ?y"
    "psp_createdAt ?y = ppm_createdAt (psp_metadata ?y)" "psp_updatedAt ?y = ppm_updatedAt (psp_metadata ?y)"
    by (simp_all add: normalizePlan_def Let_def)
  obtain t d where run: "snd (createPlan lc sha i st) = appendPlanAudit lc sha (cpl_planId i) t d (writePlan ?y st)"
    using None by (simp add: createPlan_def readPlan_def Let_def y(1))
  have empty: "nothing_stored st (cpl_planId i)" by (rule store_ok_none[OF assms None])
  have chain: "verifyImmutableLedgerChain (pst_auditEntries st q)" for q using assms by (simp add: store_ok_def)
  have "store_ok (appendPlanAudit lc sha (cpl_planId i) t d (writePlan ?y st))"
  proof (rule store_okI)
    fix q show "verifyImmutableLedgerChain (pst_auditEntries (appendPlanAudit lc sha (cpl_planId i) t d (writePlan ?y st)) q)"
      by (rule audit_chain) (simp add: store_simps chain)
  next
    fix q assume "pst_plans (appendPlanAudit lc sha (cpl_planId i) t d (writePlan ?y st)) q = None"
    then have q: "q \<noteq> cpl_planId i" "pst_plans st q = None" by (auto simp: store_simps y(1) split: if_splits)
    from store_ok_none[OF assms q(2)] q(1) show "nothing_stored (appendPlanAudit lc sha (cpl_planId i) t d (writePlan ?y st)) q"
      by (simp add: nothing_stored_def store_simps audit_nonempty)
  next
    fix q z assume z: "pst_plans (appendPlanAudit lc sha (cpl_planId i) t d (writePlan ?y st)) q = Some z"
    show "plan_ok (appendPlanAudit lc sha (cpl_planId i) t d (writePlan ?y st)) q z"
    proof (cases "q = cpl_planId i")
      case True
      then show ?thesis using z empty by (auto simp: plan_ok_def store_simps y nothing_stored_def audit_nonempty)
    next
      case False
      then have "plan_ok st q z" using z by (intro store_ok_plan[OF assms]) (simp add: store_simps y(1))
      then show ?thesis using False by (simp add: plan_ok_def store_simps audit_nonempty)
    qed
  qed
  moreover have "evolves rebound st (writePlan ?y st)"
    unfolding evolves_def
  proof (intro conjI allI impI)
    fix q show "pst_lifecycleEvents (writePlan ?y st) q = pst_lifecycleEvents st q" by (simp add: store_simps)
  next
    fix q z assume z: "pst_plans st q = Some z"
    then have "q \<noteq> cpl_planId i" using None by auto
    then show "\<exists>y es. pst_plans (writePlan ?y st) q = Some y \<and>
        pst_lifecycleEvents (writePlan ?y st) q = pst_lifecycleEvents st q @ es \<and> tells es z y \<and> moves z y \<and>
        ppm_createdAt (psp_metadata y) = ppm_createdAt (psp_metadata z) \<and> (rebound q \<or> stays_blocked z y)"
      using z by (intro exI[of _ z] exI[of _ "[]"]) (simp add: store_simps y(1) tells_def moves_def stays_blocked_def)
  qed
  ultimately show ?thesis by (simp add: good_run_def run)
qed

lemma step_run:
  assumes "store_ok st"
  shows "good_run rebound st (snd (appendPlanStep lc sha s st))"
proof (cases "pst_plans st (pps_planId s)")
  case None
  then show ?thesis using assms by (simp add: appendPlanStep_def with_plan_run)
next
  case (Some x)
  let ?p = "pps_planId s" and ?ch = "no_fields\<lparr>pup_steps := Some (psp_steps (clonePlan x) @ [cloneStep (cloneStep s)])\<rparr>"
  let ?st1 = "appendStoredPlanStep (cloneStep s) st"
  let ?u = "updatedPlan lc sha ?p (clonePlan x) (readLifecycleEvents ?st1 ?p) (psp_lifecycleState (clonePlan x))
    (psp_updatedAt (clonePlan x)) ?ch"
  have st1: "pst_plans ?st1 ?p = Some x" "store_ok ?st1"
    using Some assms by (simp_all add: store_simps store_ok_step)
  obtain t d where run: "snd (appendPlanStep lc sha s st) = appendPlanAudit lc sha ?p t d (writePlan ?u ?st1)"
    by (simp add: appendPlanStep_def with_plan_run Some Let_def does_def and_then_def update_run[OF st1(1)] returns_def)
  note xid = store_ok_id[OF assms Some]
  have blocked: "psp_executionBlocked ?u = psp_executionBlocked x" by (simp add: neutral_fields)
  have "evolves rebound st (writePlan ?u ?st1)"
    by (rule evolves_one[OF Some, of _ "clonePlan ?u" "[]"])
      (simp_all add: store_simps xid tells_def moves_def stays_blocked_def active_def neutral_fields blocked)
  moreover have "store_ok (writePlan ?u ?st1)" by (rule store_ok_update[OF st1(2,1)]) simp
  ultimately show ?thesis using xid by (simp add: good_run_def run store_ok_audit store_simps)
qed

lemma bind_run:
  assumes "store_ok st" and "rebound p"
  shows "good_run rebound st (snd (bindValidationSnapshot lc sha p r g st))"
proof (cases "pst_plans st p")
  case None
  then show ?thesis using assms by (simp add: bindValidationSnapshot_def with_plan_run)
next
  case (Some x)
  let ?snap = "capturePlanValidationSnapshot lc sha r (psp_schemaVersion x)"
  let ?b = "\<lparr>pvb_snapshot = ?snap, pvb_validationResult = r, pvb_eligibility = bound_eligibility p r ?snap, pvb_governance = g\<rparr>"
  let ?st1 = "writeValidationBinding p ?b st"
  let ?u = "updatedPlan lc sha p (clonePlan x) (readLifecycleEvents ?st1 p) (psp_state x) (psp_updatedAt x)
    (binding_fields r (pvb_snapshot ?b))"
  have st1: "pst_plans ?st1 p = Some x" using Some by (simp add: store_simps)
  obtain t d where run: "snd (bindValidationSnapshot lc sha p r g st) = appendPlanAudit lc sha p t d (writePlan ?u ?st1)"
    by (simp add: bindValidationSnapshot_def with_plan_run Some Let_def does_def and_then_def update_run[OF st1] returns_def)
  have x: "plan_ok st p x" by (rule store_ok_plan[OF assms(1) Some])
  then have fields: "psp_planId x = p" "psp_state x = psp_lifecycleState x" "pup_lifecycleState (binding_fields r s) = None" for s
    by (simp_all add: plan_ok_def binding_fields_def)
  have created: "ppm_createdAt (psp_metadata (updatedPlan lc sha p z es s t (binding_fields r n))) = ppm_createdAt (psp_metadata z)"
    for z es s t n by (simp add: updatedPlan_def Let_def binding_fields_def)
  have "evolves rebound st (writePlan ?u ?st1)"
    by (rule evolves_one[OF Some, of _ "clonePlan ?u" "[]"])
      (simp_all add: store_simps fields tells_def moves_def created assms(2))
  moreover have "store_ok (writePlan ?u ?st1)" by (rule store_ok_bind[OF assms(1) Some refl])
  ultimately show ?thesis by (simp add: good_run_def run store_ok_audit store_simps fields)
qed

lemma transition_good:
  assumes "store_ok st"
  shows "good_run rebound st (snd (transition lc sha i st))"
proof (cases "pst_plans st (tri_planId i)")
  case None
  then show ?thesis using assms by (simp add: transition_def with_plan_run)
next
  case (Some x)
  let ?b = "readValidationBinding st (tri_planId i)"
  show ?thesis
  proof (cases "transition_error x ?b i")
    case None
    let ?t = "js_default 0 (tri_createdAt i)"
    have allowed: "isAllowedPlanTransition (psp_lifecycleState x) (tri_toState i)"
      using None by (simp add: transition_error_def Let_def split: if_splits)
    have gate: "psp_executionBlocked x \<Longrightarrow> tri_toState i \<noteq> PlanQUEUED \<and> tri_toState i \<noteq> PlanEXECUTING"
      using None gate_decision_blocked[of x ?b] by (auto simp: transition_error_def Let_def split: if_splits)
    have kept: "pup_executionBlocked (transition_fields (clonePlan x) i ?t) \<noteq> Some False \<or> \<not> psp_executionBlocked x"
      by (simp add: transition_fields_def Let_def)
    have event: "ple_planId (transition_event i ?t) = tri_planId i"
      "ple_nextState (transition_event i ?t) = plan_state_str (tri_toState i)"
      by (simp_all add: transition_event_def Let_def)
    show ?thesis
      unfolding transition_run(1)[OF assms Some None] applied_transition good_run_def
      by (rule recorded_evolves[OF assms Some _ event disjI2[OF allowed] kept]) (use gate in auto)
  next
    case (Some c)
    from transition_run(2)[OF assms \<open>pst_plans st (tri_planId i) = Some x\<close> this, where lc = lc and sha = sha]
    show ?thesis by (auto intro: good_quiet)
  qed
qed

lemma request_recorded:
  "requestCancellation lc sha p a r t = with_plan p (\<lambda>x.
     if psp_lifecycleState x = PlanCOMPLETED then throws PLAN_CANCELLATION_NOT_ALLOWED
     else recorded lc sha p (psp_lifecycleState x) t (no_fields\<lparr>pup_cancellationRequested := Some True\<rparr>)
       (buildCancellationEvent p a ''plan.cancellation_requested'' (plan_state_str (psp_lifecycleState x)) t r)
       ''plan.cancellation_requested''
       [(''actor'', JStr (actor_str a)), (''reason'', nullish_json JStr r), (''state'', JStr (plan_state_str (psp_lifecycleState x)))])"
  unfolding requestCancellation_def recorded_def Let_def ..

lemma confirm_recorded:
  "confirmCancellation lc sha p a r t = with_plan p (\<lambda>x.
     if psp_lifecycleState x = PlanCOMPLETED then throws PLAN_CANCELLATION_NOT_ALLOWED
     else if psp_lifecycleState x \<notin> {PlanQUEUED, PlanEXECUTING, PlanPAUSED} then throws INVALID_PLAN_STATE_TRANSITION
     else recorded lc sha p PlanCANCELLED t (no_fields\<lparr>pup_cancellationRequested := Some True, pup_executionBlocked := Some True\<rparr>)
       (buildCancellationEvent p a ''plan.cancellation_confirmed'' ''CANCELLED'' t r) ''plan.cancellation_confirmed''
       [(''actor'', JStr (actor_str a)), (''reason'', nullish_json JStr r),
        (''previousState'', JStr (plan_state_str (psp_lifecycleState x)))])"
  unfolding confirmCancellation_def recorded_def Let_def ..

lemma cancellation_event [simp]:
  "ple_planId (buildCancellationEvent p a ty s t r) = p" "ple_nextState (buildCancellationEvent p a ty s t r) = s"
  by (simp_all add: buildCancellationEvent_def)

lemma request_good:
  assumes "store_ok st"
  shows "good_run rebound st (snd (requestCancellation lc sha p a r t st))"
proof (cases "pst_plans st p")
  case None
  then show ?thesis using assms by (simp add: request_recorded with_plan_run)
next
  case (Some x)
  have "good_run rebound st (snd (recorded lc sha p (psp_lifecycleState x) t (no_fields\<lparr>pup_cancellationRequested := Some True\<rparr>)
      (buildCancellationEvent p a ''plan.cancellation_requested'' (plan_state_str (psp_lifecycleState x)) t r) ty d st))" for ty d
    unfolding good_run_def by (rule recorded_evolves[OF assms Some]) simp_all
  then show ?thesis using assms by (simp add: request_recorded with_plan_run Some throws_def)
qed

lemma confirm_good:
  assumes "store_ok st"
  shows "good_run rebound st (snd (confirmCancellation lc sha p a r t st))"
proof (cases "pst_plans st p")
  case None
  then show ?thesis using assms by (simp add: confirm_recorded with_plan_run)
next
  case (Some x)
  have "good_run rebound st (snd (recorded lc sha p PlanCANCELLED t
      (no_fields\<lparr>pup_cancellationRequested := Some True, pup_executionBlocked := Some True\<rparr>)
      (buildCancellationEvent p a ''plan.cancellation_confirmed'' ''CANCELLED'' t r) ty d st))"
    if "psp_lifecycleState x \<in> {PlanQUEUED, PlanEXECUTING, PlanPAUSED}" for ty d
    unfolding good_run_def
    by (rule recorded_evolves[OF assms Some]) (use that in \<open>auto simp: isAllowedPlanTransition_def\<close>)
  then show ?thesis using assms by (simp add: confirm_recorded with_plan_run Some throws_def)
qed

text \<open>Freezing is a transition, or nothing.\<close>

definition freeze_input :: "string \<Rightarrow> string \<Rightarrow> PlanActor \<Rightarrow> PersistedPlan \<Rightarrow> TransitionInput" where
  "freeze_input p reason actor x =
     \<lparr>tri_planId = p, tri_fromState = psp_lifecycleState x, tri_toState = PlanFROZEN, tri_actor = actor,
      tri_reason = Some reason, tri_metadata = None, tri_createdAt = None\<rparr>"

lemma freeze_run:
  assumes "pst_plans st p = Some x"
  shows "snd (freezePlan lc sha p reason actor st) =
    (if psp_lifecycleState x = PlanFROZEN then st else snd (transition lc sha (freeze_input p reason actor x) st))"
  by (simp add: freezePlan_def with_plan_run assms op_simps transitionPlanLifecycle_def freeze_input_def split: prod.split sum.split)

lemma freeze_good:
  assumes "store_ok st"
  shows "good_run rebound st (snd (freezePlan lc sha p reason actor st))"
proof (cases "pst_plans st p")
  case None
  then show ?thesis using assms by (simp add: freezePlan_def with_plan_run)
next
  case (Some x)
  then show ?thesis using assms by (simp add: freeze_run transition_good)
qed

lemma perform_good:
  assumes "store_ok st"
  shows "good_run (\<lambda>p. binds p cmd) st (perform lc sha cmd st)"
  by (cases cmd) (simp_all add: assms create_run step_run bind_run transition_good request_good confirm_good freeze_good
      good_inspection inspections inspects_verify inspects_recovery)

end
