(* ===== verification/PlanStoreWrites.thy ===== *)
theory PlanStoreWrites
  imports PlanStoreRuns
begin

text \<open>
  The plan service with its raw writes: \<open>updatePlanState\<close>, \<open>appendLifecycleEvent\<close> and \<open>appendPlanAudit\<close> are exported
  next to the commands and ask nothing of the caller.  A weaker invariant (\<open>sane\<close>) holds whatever is written; what a
  command or a write does to the state of a plan.
\<close>

section \<open>Commands and raw writes\<close>

text \<open>An update is given the properties of \<open>PlanUpdate\<close>; it replaces neither the id nor the draft of a plan.\<close>

datatype StoreWrite =
    WriteCommand PlanCommand
  | WriteUpdate string PersistedPlanState int PlanUpdate
  | WriteEvent PlanLifecycleEvent
  | WriteAudit string string js_record

fun perform_write ::
  "(string \<Rightarrow> string \<Rightarrow> int) \<Rightarrow> (string \<Rightarrow> string) \<Rightarrow> StoreWrite \<Rightarrow> PlanStoreState \<Rightarrow> PlanStoreState" where
  "perform_write lc sha (WriteCommand cmd) st = perform lc sha cmd st"
| "perform_write lc sha (WriteUpdate p s t ch) st = snd (updatePlanState lc sha p s t ch st)"
| "perform_write lc sha (WriteEvent e) st = snd (appendLifecycleEvent lc sha e st)"
| "perform_write lc sha (WriteAudit p ty d) st = appendPlanAudit lc sha p ty d st"

inductive write_reachable :: "(string \<Rightarrow> string \<Rightarrow> int) \<Rightarrow> (string \<Rightarrow> string) \<Rightarrow> PlanStoreState \<Rightarrow> bool" for lc sha where
  written_empty: "write_reachable lc sha resetPlanStore"
| written_next: "write_reachable lc sha st \<Longrightarrow> write_reachable lc sha (perform_write lc sha w st)"

lemma commands_are_writes: "plan_reachable lc sha st \<Longrightarrow> write_reachable lc sha st"
proof (induction rule: plan_reachable.induct)
  case reachable_empty
  show ?case by (rule written_empty)
next
  case (reachable_command st cmd)
  then show ?case using written_next[of lc sha st "WriteCommand cmd"] by simp
qed

section \<open>What every write keeps\<close>

definition sane :: "PlanStoreState \<Rightarrow> bool" where
  "sane st \<longleftrightarrow> (\<forall>p. verifyImmutableLedgerChain (pst_auditEntries st p) \<and>
     (\<forall>x. pst_plans st p = Some x \<longrightarrow> psp_planId x = p \<and> psp_state x = psp_lifecycleState x))"

lemma sane_plan: "sane st \<Longrightarrow> pst_plans st p = Some x \<Longrightarrow> psp_planId x = p \<and> psp_state x = psp_lifecycleState x"
  by (simp add: sane_def)

lemma sane_empty: "sane resetPlanStore"
  by (simp add: sane_def resetPlanStore_def verifyImmutableLedgerChain_def)

lemma sane_changes [simp]:
  "sane st \<Longrightarrow> sane (appendPlanAudit lc sha p ty d st)"
  "sane (appendStoredPlanStep s st) = sane st"
  "sane (appendStoredLifecycleEvent e st) = sane st"
  "sane (writeValidationBinding p b st) = sane st"
  by (simp_all add: sane_def store_simps audit_chain)

lemma sane_write: "sane st \<Longrightarrow> psp_state u = psp_lifecycleState u \<Longrightarrow> sane (writePlan u st)"
  by (auto simp: sane_def store_simps)

definition keeps :: "'a plan_op \<Rightarrow> bool" where
  "keeps operation \<longleftrightarrow> (\<forall>st. sane st \<longrightarrow> sane (snd (operation st)))"

lemma keepsD: "keeps operation \<Longrightarrow> sane st \<Longrightarrow> sane (snd (operation st))"
  by (simp add: keeps_def)

lemma keeps_basic: "keeps (returns r)" "keeps (throws c)"
  by (simp_all add: keeps_def op_simps)

lemma keeps_does: "(\<And>st. sane st \<Longrightarrow> sane (change st)) \<Longrightarrow> keeps operation \<Longrightarrow> keeps (does change operation)"
  by (simp add: keeps_def does_def)

lemma keeps_audit: "keeps operation \<Longrightarrow> keeps (does (appendPlanAudit lc sha p ty d) operation)"
  by (rule keeps_does) simp

lemma keeps_and_then:
  assumes "keeps operation" and "\<And>r. keeps (rest r)"
  shows "keeps (and_then operation rest)"
  unfolding keeps_def
proof (intro allI impI)
  fix st :: PlanStoreState assume st: "sane st"
  obtain r w where w: "operation st = (r, w)" by (cases "operation st")
  then have "sane w" using keepsD[OF assms(1) st] by simp
  then show "sane (snd (and_then operation rest st))"
    using keepsD[OF assms(2)] w by (cases r) (simp_all add: and_then_def)
qed

lemma keeps_with_plan: "(\<And>x. keeps (rest x)) \<Longrightarrow> keeps (with_plan p rest)"
  by (auto simp: keeps_def with_plan_run split: option.split)

lemma keeps_with_history: "(\<And>h. keeps (rest h)) \<Longrightarrow> keeps (with_history p rest)"
  by (auto simp: keeps_def with_history_def with_plan_run split: option.split)

lemma keeps_if: "(b \<Longrightarrow> keeps f) \<Longrightarrow> (\<not> b \<Longrightarrow> keeps g) \<Longrightarrow> keeps (if b then f else g)"
  by simp

lemma keeps_update: "keeps (updatePlanState lc sha p s t ch)"
  by (simp add: keeps_def updatePlanState_def with_plan_run sane_write Let_def split: option.split)

lemmas keeps_rules = keeps_with_plan keeps_with_history keeps_if keeps_audit keeps_and_then keeps_update keeps_basic

lemma keeps_event: "keeps (appendLifecycleEvent lc sha e)"
  unfolding appendLifecycleEvent_def Let_def by (intro keeps_rules keeps_does) simp

lemma keeps_recorded: "keeps (recorded lc sha p s t ch e ty d)"
  unfolding recorded_def by (intro keeps_rules keeps_event)

lemma keeps_step: "keeps (appendPlanStep lc sha s)"
  unfolding appendPlanStep_def Let_def by (intro keeps_rules keeps_does) simp

lemma keeps_bind: "keeps (bindValidationSnapshot lc sha p r g)"
  unfolding bindValidationSnapshot_def Let_def by (intro keeps_rules keeps_does) simp

lemma keeps_transition: "keeps (transition lc sha i)"
proof -
  have "keeps (applyTransition lc sha i x)" for x unfolding applied_transition by (rule keeps_recorded)
  then have "sane st \<Longrightarrow> sane (snd (applyTransition lc sha i x st))" for x st by (rule keepsD)
  then show ?thesis
    by (auto simp: keeps_def transition_def with_plan_run op_simps Let_def split: option.split)
qed

lemma keeps_cancellation:
  "keeps (requestCancellation lc sha p a r t)" "keeps (confirmCancellation lc sha p a r t)"
  unfolding request_recorded confirm_recorded by (intro keeps_rules keeps_recorded)+

lemma keeps_freeze: "keeps (freezePlan lc sha p reason actor)"
  unfolding freezePlan_def transitionPlanLifecycle_def
  by (intro keeps_rules keeps_transition) (simp add: keeps_basic split: prod.split)

lemma keeps_inspections:
  "keeps (reconstructPlanState p)" "keeps (rebuildLifecycleHash lc sha p)" "keeps (rebuildPlanLineage p)"
  "keeps (reconstructPlanLifecycle lc sha p t)" "keeps (rebuildPlanEvidence lc sha p t)"
  unfolding reconstructPlanState_def rebuildLifecycleHash_def rebuildPlanLineage_def reconstructPlanLifecycle_def
    rebuildPlanEvidence_def Let_def
  by (intro keeps_rules)+

lemma keeps_replay_integrity: "keeps (verifyReplayIntegrity lc sha p)"
  unfolding verifyReplayIntegrity_def Let_def by (intro keeps_rules keeps_inspections)

lemma keeps_verify: "keeps (verifyPlanIntegrity lc sha p)"
proof -
  have "keeps (and_then (rebuildPlanLineage p) (\<lambda>g. and_then (verifyReplayIntegrity lc sha p) (\<lambda>r. returns (f g r))))" for f
    by (intro keeps_rules keeps_inspections keeps_replay_integrity)
  note run = keepsD[OF this]
  show ?thesis
    unfolding verifyPlanIntegrity_def Let_def by (intro keeps_with_history, unfold keeps_def, intro allI impI) (rule run)
qed

lemma keeps_recovery: "keeps (preparePlanRecovery lc sha p)"
  unfolding preparePlanRecovery_def Let_def by (intro keeps_rules keeps_verify)

lemma keeps_create: "keeps (createPlan lc sha i)"
proof -
  have "psp_state (normalizePlan lc sha i) = psp_lifecycleState (normalizePlan lc sha i)" by (simp add: normalizePlan_def Let_def)
  then show ?thesis by (simp add: keeps_def createPlan_def Let_def sane_write)
qed

lemma sane_perform: "sane st \<Longrightarrow> sane (perform lc sha cmd st)"
  by (cases cmd) (simp_all add: keepsD keeps_create keeps_step keeps_bind keeps_transition keeps_cancellation keeps_freeze
      keeps_inspections keeps_verify keeps_recovery)

lemma sane_perform_write: "sane st \<Longrightarrow> sane (perform_write lc sha w st)"
  by (cases w) (simp_all add: sane_perform keepsD keeps_update keeps_event)

lemma written_sane: "write_reachable lc sha st \<Longrightarrow> sane st"
  by (induction rule: write_reachable.induct) (simp_all add: sane_empty sane_perform_write)

section \<open>What a command does to the state of a plan\<close>

definition shifts :: "PlanStoreState \<Rightarrow> PlanStoreState \<Rightarrow> bool" where
  "shifts st st' \<longleftrightarrow> (\<forall>p x. pst_plans st p = Some x \<longrightarrow> (\<exists>y. pst_plans st' p = Some y \<and> moves x y))"

lemma shifts_same: "pst_plans st' = pst_plans st \<Longrightarrow> shifts st st'"
  by (simp add: shifts_def moves_def)

lemma shifts_one: "pst_plans st' = (pst_plans st)(p \<mapsto> y) \<Longrightarrow> (\<And>x. pst_plans st p = Some x \<Longrightarrow> moves x y) \<Longrightarrow> shifts st st'"
  by (simp add: shifts_def moves_def)

lemma shifts_inspection: "inspects operation \<Longrightarrow> shifts st (snd (operation st))"
  by (rule shifts_same) (simp add: inspectsD[of operation st, THEN conjunct1, unfolded quiet_def])

lemma recorded_shifts:
  assumes "sane st" and "pst_plans st p = Some x" and "neutral ch" and "ple_planId e = p"
    and "psp_lifecycleState x = s \<or> isAllowedPlanTransition (psp_lifecycleState x) s"
  shows "shifts st (snd (recorded lc sha p s t ch e ty d st))"
proof (rule recorded_run[OF assms(2) conjunct1[OF sane_plan[OF assms(1,2)]] assms(3,4)])
  fix u y w
  assume "recorded lc sha p s t ch e ty d st = (Inr (u, e), w)" "pst_plans w = (pst_plans st)(p \<mapsto> y)" "psp_lifecycleState y = s"
  then show ?thesis using assms(2,5) by (auto intro!: shifts_one[of _ _ p y] simp: moves_def)
qed

lemma create_shifts: "shifts st (snd (createPlan lc sha i st))"
proof (cases "pst_plans st (cpl_planId i)")
  case None
  have "psp_planId (normalizePlan lc sha i) = cpl_planId i" by (simp add: normalizePlan_def Let_def)
  then show ?thesis
    using None by (auto simp: createPlan_def readPlan_def Let_def store_simps intro!: shifts_one[of _ _ "cpl_planId i"])
next
  case (Some x)
  then show ?thesis by (intro shifts_same) (simp add: createPlan_def readPlan_def)
qed

text \<open>An update of a plan, of whatever fields, changes that plan only.\<close>

lemma update_plans:
  assumes "sane st" and "pst_plans st p = Some x"
  obtains u where "updatePlanState lc sha p s t ch st = (Inr u, writePlan u st)"
    and "pst_plans (writePlan u st) = (pst_plans st)(p \<mapsto> clonePlan u)" and "psp_lifecycleState u = js_default s (pup_lifecycleState ch)"
  by (rule that[of "updatedPlan lc sha p (clonePlan x) (readLifecycleEvents st p) s t ch"])
    (use sane_plan[OF assms] in \<open>simp_all add: update_run[OF assms(2)] Let_def store_simps\<close>)

lemma event_plans:
  assumes "sane st" and "pst_plans st (ple_planId e) = Some x"
  obtains y where "pst_plans (snd (appendLifecycleEvent lc sha e st)) = (pst_plans st)(ple_planId e \<mapsto> y)"
    and "psp_lifecycleState y = psp_lifecycleState x"
proof -
  let ?st1 = "appendStoredLifecycleEvent ((cloneEvent e)\<lparr>ple_createdAt := ple_timestamp e\<rparr>) st"
  have st1: "sane ?st1" "pst_plans ?st1 (ple_planId e) = Some x" using assms by (simp_all add: store_simps)
  obtain u where u: "updatePlanState lc sha (ple_planId e) (psp_lifecycleState x) (ple_timestamp e) no_fields ?st1 =
      (Inr u, writePlan u ?st1)" "pst_plans (writePlan u ?st1) = (pst_plans ?st1)(ple_planId e \<mapsto> clonePlan u)"
      "psp_lifecycleState u = psp_lifecycleState x"
    by (rule update_plans[OF st1, of lc sha "psp_lifecycleState x" "ple_timestamp e" no_fields]) simp
  show thesis
    by (rule that[of "clonePlan u"])
      (use u(2,3) in \<open>simp_all add: appendLifecycleEvent_def with_plan_run assms(2) st1(2) u(1) Let_def op_simps store_simps\<close>)
qed

lemma step_shifts:
  assumes "sane st"
  shows "shifts st (snd (appendPlanStep lc sha s st))"
proof (cases "pst_plans st (pps_planId s)")
  case None
  then show ?thesis by (intro shifts_same) (simp add: appendPlanStep_def with_plan_run)
next
  case (Some x)
  let ?st1 = "appendStoredPlanStep (cloneStep s) st"
  let ?ch = "no_fields\<lparr>pup_steps := Some (psp_steps (clonePlan x) @ [cloneStep (cloneStep s)])\<rparr>"
  have st1: "sane ?st1" "pst_plans ?st1 (pps_planId s) = Some x" using assms Some by (simp_all add: store_simps)
  obtain u where u: "updatePlanState lc sha (pps_planId s) (psp_lifecycleState x) (psp_updatedAt x) ?ch ?st1 = (Inr u, writePlan u ?st1)"
      "pst_plans (writePlan u ?st1) = (pst_plans ?st1)(pps_planId s \<mapsto> clonePlan u)" "psp_lifecycleState u = psp_lifecycleState x"
    by (rule update_plans[OF st1, of lc sha "psp_lifecycleState x" "psp_updatedAt x" ?ch]) simp
  show ?thesis
    by (rule shifts_one[of _ _ "pps_planId s" "clonePlan u"])
      (use u(2,3) Some in \<open>simp_all add: appendPlanStep_def with_plan_run u(1) Let_def op_simps store_simps moves_def\<close>)
qed

lemma bind_shifts:
  assumes "sane st"
  shows "shifts st (snd (bindValidationSnapshot lc sha p r g st))"
proof (cases "pst_plans st p")
  case None
  then show ?thesis by (intro shifts_same) (simp add: bindValidationSnapshot_def with_plan_run)
next
  case (Some x)
  let ?snap = "capturePlanValidationSnapshot lc sha r (psp_schemaVersion x)"
  let ?st1 = "writeValidationBinding p \<lparr>pvb_snapshot = ?snap, pvb_validationResult = r,
    pvb_eligibility = bound_eligibility p r ?snap, pvb_governance = g\<rparr> st"
  have st1: "sane ?st1" "pst_plans ?st1 p = Some x" using assms Some by (simp_all add: store_simps)
  have x: "psp_state x = psp_lifecycleState x" using sane_plan[OF assms Some] by simp
  obtain u where u: "updatePlanState lc sha p (psp_lifecycleState x) (psp_updatedAt x) (binding_fields r ?snap) ?st1 = (Inr u, writePlan u ?st1)"
      "pst_plans (writePlan u ?st1) = (pst_plans ?st1)(p \<mapsto> clonePlan u)" "psp_lifecycleState u = psp_lifecycleState x"
    by (rule update_plans[OF st1, of lc sha "psp_lifecycleState x" "psp_updatedAt x" "binding_fields r ?snap"])
      (simp add: binding_fields_def)
  show ?thesis
    by (rule shifts_one[of _ _ p "clonePlan u"])
      (use u(2,3) Some in \<open>simp_all add: bindValidationSnapshot_def with_plan_run u(1) x Let_def op_simps store_simps moves_def\<close>)
qed

lemma transition_shifts:
  assumes "sane st"
  shows "shifts st (snd (transition lc sha i st))"
proof (cases "pst_plans st (tri_planId i)")
  case None
  then show ?thesis by (intro shifts_same) (simp add: transition_def with_plan_run)
next
  case (Some x)
  have applied: "shifts st (snd (applyTransition lc sha i (clonePlan x) st))" if "isAllowedPlanTransition (psp_lifecycleState x) (tri_toState i)"
    unfolding applied_transition
    by (rule recorded_shifts[OF assms Some]) (use that in \<open>simp_all add: transition_event_def Let_def\<close>)
  have kept: "shifts st st" "shifts st (appendPlanAudit lc sha p ty d st)" for p ty d
    by (simp_all add: shifts_same store_simps)
  show ?thesis
    using applied kept unfolding transition_def with_plan_run Some option.case Let_def op_simps by (simp split: option.split)
qed

lemma cancellation_shifts:
  assumes "sane st"
  shows "shifts st (snd (requestCancellation lc sha p a r t st))" and "shifts st (snd (confirmCancellation lc sha p a r t st))"
proof -
  have "shifts st (snd (recorded lc sha p (psp_lifecycleState x) t (no_fields\<lparr>pup_cancellationRequested := Some True\<rparr>)
      (buildCancellationEvent p a ''plan.cancellation_requested'' (plan_state_str (psp_lifecycleState x)) t r) ty d st))"
    if "pst_plans st p = Some x" for x ty d
    by (rule recorded_shifts[OF assms that]) simp_all
  then show "shifts st (snd (requestCancellation lc sha p a r t st))"
    by (auto simp: request_recorded with_plan_run throws_def shifts_same split: option.split)
  have "shifts st (snd (recorded lc sha p PlanCANCELLED t (no_fields\<lparr>pup_cancellationRequested := Some True, pup_executionBlocked := Some True\<rparr>)
      (buildCancellationEvent p a ''plan.cancellation_confirmed'' ''CANCELLED'' t r) ty d st))"
    if "pst_plans st p = Some x" "psp_lifecycleState x \<in> {PlanQUEUED, PlanEXECUTING, PlanPAUSED}" for x ty d
    by (rule recorded_shifts[OF assms that(1)]) (use that(2) in \<open>auto simp: isAllowedPlanTransition_def\<close>)
  then show "shifts st (snd (confirmCancellation lc sha p a r t st))"
    by (auto simp: confirm_recorded with_plan_run throws_def shifts_same split: option.split)
qed

lemma freeze_shifts:
  assumes "sane st"
  shows "shifts st (snd (freezePlan lc sha p reason actor st))"
proof (cases "pst_plans st p")
  case None
  then show ?thesis by (intro shifts_same) (simp add: freezePlan_def with_plan_run)
next
  case (Some x)
  then show ?thesis by (simp add: freeze_run transition_shifts[OF assms] shifts_same)
qed

lemma perform_shifts: "sane st \<Longrightarrow> shifts st (perform lc sha cmd st)"
  by (cases cmd) (simp_all add: create_shifts step_shifts bind_shifts transition_shifts cancellation_shifts freeze_shifts
      shifts_inspection inspections inspects_verify inspects_recovery)

section \<open>What a raw write does to the state of a plan\<close>

lemma update_effect:
  assumes "sane st" and "pst_plans st p = Some x"
  shows "\<exists>y. pst_plans (snd (updatePlanState lc sha q s t ch st)) p = Some y \<and>
    psp_lifecycleState y = (if q = p then js_default s (pup_lifecycleState ch) else psp_lifecycleState x)"
proof (cases "pst_plans st q")
  case None
  then show ?thesis using assms(2) by (auto simp: updatePlanState_def with_plan_run)
next
  case (Some z)
  show ?thesis
    by (rule update_plans[OF assms(1) Some, of lc sha s t ch]) (use assms(2) in auto)
qed

lemma event_effect:
  assumes "sane st" and "pst_plans st p = Some x"
  shows "\<exists>y. pst_plans (snd (appendLifecycleEvent lc sha e st)) p = Some y \<and> psp_lifecycleState y = psp_lifecycleState x"
proof (cases "pst_plans st (ple_planId e)")
  case None
  then show ?thesis using assms(2) by (simp add: appendLifecycleEvent_def with_plan_run)
next
  case (Some z)
  show ?thesis
    by (rule event_plans[OF assms(1) Some, of lc sha]) (use assms(2) Some in \<open>cases "ple_planId e = p"; simp\<close>)
qed

end
