(* ===== verification/PlanStoreProperties.thy ===== *)
theory PlanStoreProperties
  imports PlanStoreWrites
begin

text \<open>
  The properties of the plan service: over the stores its commands reach (\<open>plan_reachable\<close>), and, where they hold
  whatever is written, over the stores that commands and raw writes reach (\<open>write_reachable\<close>).
\<close>

section \<open>Reachable stores\<close>

definition events_agree :: "PlanStoreState \<Rightarrow> bool" where
  "events_agree st \<longleftrightarrow> (\<forall>p x. pst_plans st p = Some x \<longrightarrow> pst_lifecycleEvents st p = [] \<or>
     ple_nextState (last (pst_lifecycleEvents st p)) = plan_state_str (psp_lifecycleState x))"

lemma events_agree_run:
  assumes "store_ok st" and "events_agree st" and "good_run rebound st st'"
    and "\<And>p. pst_plans st p = None \<Longrightarrow> pst_lifecycleEvents st p = []"
  shows "events_agree st'"
  unfolding events_agree_def
proof (intro allI impI)
  fix p z assume z: "pst_plans st' p = Some z"
  show "pst_lifecycleEvents st' p = [] \<or> ple_nextState (last (pst_lifecycleEvents st' p)) = plan_state_str (psp_lifecycleState z)"
  proof (cases "pst_plans st p")
    case None
    then show ?thesis using assms(3,4) by (simp add: good_run_def evolves_def)
  next
    case (Some x)
    obtain y es where "pst_plans st' p = Some y" "pst_lifecycleEvents st' p = pst_lifecycleEvents st p @ es" "tells es x y"
      by (rule evolvesE[OF conjunct1[OF assms(3)[unfolded good_run_def]] Some])
    then show ?thesis using z assms(2) Some by (auto simp: tells_def events_agree_def split: if_splits)
  qed
qed

lemma reachable_ok:
  assumes "plan_reachable lc sha st"
  shows "store_ok st \<and> events_agree st"
  using assms
proof induction
  case reachable_empty
  show ?case
    by (simp add: store_ok_def events_agree_def resetPlanStore_def nothing_stored_def verifyImmutableLedgerChain_def)
next
  case (reachable_command st cmd)
  then have ok: "store_ok st" "events_agree st" by simp_all
  have run: "good_run (\<lambda>p. binds p cmd) st (perform lc sha cmd st)" by (rule perform_good[OF ok(1)])
  have "pst_lifecycleEvents st p = []" if "pst_plans st p = None" for p
    using store_ok_none[OF ok(1) that] by (simp add: nothing_stored_def)
  from events_agree_run[OF ok run this] run show ?case by (simp add: good_run_def)
qed

lemma reachable_perform:
  assumes "plan_reachable lc sha st" and "pst_plans st p = Some x"
  obtains y es where "pst_plans (perform lc sha cmd st) p = Some y" and "moves x y" and "binds p cmd \<or> stays_blocked x y"
proof -
  have "evolves (\<lambda>p. binds p cmd) st (perform lc sha cmd st)"
    using perform_good[of st cmd lc sha] reachable_ok[OF assms(1)] by (simp add: good_run_def)
  from this assms(2) show thesis by (rule evolvesE) (rule that)
qed

lemma reachable_performs: "plan_reachable lc sha st \<Longrightarrow> plan_reachable lc sha (fold (perform lc sha) cmds st)"
  by (induction cmds arbitrary: st) (simp_all add: reachable_command)

section \<open>Freezing\<close>

lemma freeze_applies:
  assumes "pst_plans st p = Some x" and "psp_lifecycleState x \<noteq> PlanFROZEN"
  shows "transition lc sha (freeze_input p reason actor x) st = applyTransition lc sha (freeze_input p reason actor x) (clonePlan x) st"
  using assms by (simp add: transition_def with_plan_run freeze_input_def Let_def matrix_leaves)

lemma frozen_store:
  assumes "sane st" and "pst_plans st p = Some x" and "psp_lifecycleState x \<noteq> PlanFROZEN"
  obtains u w y e' where "freezePlan lc sha p reason actor st = (Inr u, w)" and "pst_plans w p = Some y"
    and "psp_lifecycleState y = PlanFROZEN" and "psp_executionBlocked y" and "psp_frozenReason y = Some reason"
    and "psp_lifecycleState u = PlanFROZEN" and "ple_timestamp e' = 0"
    and "pst_lifecycleEvents w p = pst_lifecycleEvents st p @ [e']"
    and "ppm_createdAt (psp_metadata y) = ppm_createdAt (psp_metadata x)"
proof -
  let ?i = "freeze_input p reason actor x"
  let ?t = "js_default 0 (tri_createdAt ?i)" and ?ch = "transition_fields (clonePlan x) (freeze_input p reason actor x)"
  have i: "tri_planId ?i = p" "tri_toState ?i = PlanFROZEN" by (simp_all add: freeze_input_def)
  have e: "ple_planId (transition_event ?i ?t) = p" "ple_timestamp (transition_event ?i ?t) = 0"
    by (simp_all add: transition_event_def Let_def freeze_input_def)
  have ch: "pup_executionBlocked (?ch t) = Some True" "pup_frozenReason (?ch t) = Some reason" for t
    by (simp_all add: transition_fields_def Let_def freeze_input_def or_else_def)
  have run: "freezePlan lc sha p reason actor st =
      (case transition lc sha ?i st of (Inl c, w) \<Rightarrow> (Inl c, w) | (Inr (u, _), w) \<Rightarrow> (Inr u, w))"
    using assms(3)
    by (simp add: freezePlan_def with_plan_run assms(2) op_simps transitionPlanLifecycle_def freeze_input_def split: prod.split sum.split)
  show thesis
  proof (rule recorded_run[OF assms(2) conjunct1[OF sane_plan[OF assms(1,2)]] neutral_updates(3) e(1), of lc sha PlanFROZEN ?t "clonePlan x" ?i ?t
        "''plan.transition_applied''" "[(''previousState'', JStr (plan_state_str (tri_fromState ?i))),
          (''nextState'', JStr (plan_state_str (tri_toState ?i))),
          (''actor'', JStr (actor_str (tri_actor ?i))), (''reason'', nullish_json JStr (tri_reason ?i))]"])
    fix u y w
    assume w: "recorded lc sha p PlanFROZEN ?t (?ch ?t) (transition_event ?i ?t) ''plan.transition_applied''
        [(''previousState'', JStr (plan_state_str (tri_fromState ?i))), (''nextState'', JStr (plan_state_str (tri_toState ?i))),
          (''actor'', JStr (actor_str (tri_actor ?i))), (''reason'', nullish_json JStr (tri_reason ?i))] st =
        (Inr (u, transition_event ?i ?t), w)" "pst_plans w = (pst_plans st)(p \<mapsto> y)" "psp_lifecycleState y = PlanFROZEN"
        "psp_executionBlocked y = js_default (psp_executionBlocked x) (pup_executionBlocked (?ch ?t))"
        "psp_lifecycleState u = PlanFROZEN" "psp_frozenReason y = or_else (pup_frozenReason (?ch ?t)) (psp_frozenReason x)"
        "ppm_createdAt (psp_metadata y) = ppm_createdAt (psp_metadata x)"
      and events: "\<exists>e'. ple_nextState e' = ple_nextState (transition_event ?i ?t) \<and> ple_timestamp e' = ple_timestamp (transition_event ?i ?t) \<and>
        pst_lifecycleEvents w = (pst_lifecycleEvents st)(p := pst_lifecycleEvents st p @ [e'])"
    obtain e' where e': "ple_timestamp e' = 0" "pst_lifecycleEvents w p = pst_lifecycleEvents st p @ [e']"
      using events e(2) by auto
    have "freezePlan lc sha p reason actor st = (Inr u, w)"
      by (simp only: run freeze_applies[OF assms(2,3)] applied_transition i w(1)[unfolded i] prod.case sum.case)
    then show thesis by (rule that[of u w y e']) (use w(2-7) e' ch in \<open>simp_all add: or_else_def\<close>)
  qed
qed

section \<open>Inspections return\<close>

lemma with_history_run:
  "with_history p rest st = (case pst_plans st p of None \<Rightarrow> (Inl PLAN_NOT_FOUND, st) | Some x \<Rightarrow>
     rest \<lparr>phi_plan = clonePlan x, phi_steps = readPlanSteps st p, phi_lifecycleEvents = readLifecycleEvents st p,
       phi_validationBinding = readValidationBinding st p\<rparr> st)"
  by (simp add: with_history_def with_plan_run)

definition answers :: "string \<Rightarrow> 'a plan_op \<Rightarrow> bool" where
  "answers p operation \<longleftrightarrow> (\<forall>st x. pst_plans st p = Some x \<longrightarrow>
     (\<exists>r w. operation st = (Inr r, w) \<and> pst_plans w = pst_plans st))"

lemma answersE:
  fixes st :: PlanStoreState
  assumes "answers p operation" and "pst_plans st p = Some x"
  obtains r w where "operation st = (Inr r, w)" and "pst_plans w = pst_plans st"
  using assms unfolding answers_def by blast

lemma answers_returns: "answers p (returns r)"
  by (simp add: answers_def returns_def)

lemma answers_and_then:
  assumes "answers p operation" and "\<And>r. answers p (rest r)"
  shows "answers p (and_then operation rest)"
  unfolding answers_def
proof (intro allI impI)
  fix st :: PlanStoreState and x assume x: "pst_plans st p = Some x"
  obtain r w where w: "operation st = (Inr r, w)" "pst_plans w = pst_plans st" by (rule answersE[OF assms(1) x])
  obtain q v where "rest r w = (Inr q, v)" "pst_plans v = pst_plans w"
    by (rule answersE[OF assms(2), of w x]) (use w(2) x in simp)
  then show "\<exists>r w. and_then operation rest st = (Inr r, w) \<and> pst_plans w = pst_plans st"
    using w by (simp add: and_then_def)
qed

lemma answers_replays:
  "answers p (reconstructPlanState p)" "answers p (rebuildLifecycleHash lc sha p)" "answers p (rebuildPlanLineage p)"
  "answers p (reconstructPlanLifecycle lc sha p t)" "answers p (rebuildPlanEvidence lc sha p t)"
  unfolding answers_def reconstructPlanState_def rebuildLifecycleHash_def rebuildPlanLineage_def reconstructPlanLifecycle_def
    rebuildPlanEvidence_def with_history_run Let_def
  by (simp_all add: op_simps store_simps)

lemma answers_replay_integrity: "answers p (verifyReplayIntegrity lc sha p)"
  unfolding verifyReplayIntegrity_def Let_def by (intro answers_and_then answers_replays answers_returns)

text \<open>An event at time 0 corrupts the times of a plan created later.\<close>

lemma times_rise:
  assumes "\<not> timestampCorruption c es" and "i < length es"
  shows "c \<le> ple_timestamp (es ! i)"
  using assms(2)
proof (induction i)
  case 0
  then have "(0, es ! 0) \<in> set (enumerate 0 es)" by (simp add: in_set_enumerate_eq)
  with assms(1) show ?case by (auto simp: timestampCorruption_def list_ex_iff)
next
  case (Suc i)
  then have "(Suc i, es ! Suc i) \<in> set (enumerate 0 es)" by (simp add: in_set_enumerate_eq)
  with assms(1) have "\<not> ple_timestamp (es ! Suc i) < ple_timestamp (es ! i)" by (auto simp: timestampCorruption_def list_ex_iff)
  with Suc show ?case by simp
qed

lemma early_event_corrupts:
  assumes "ple_timestamp e < c"
  shows "timestampCorruption c (es @ [e])"
proof (rule ccontr)
  assume "\<not> timestampCorruption c (es @ [e])"
  from times_rise[OF this, of "length es"] assms show False by simp
qed

lemma corrupted_never_recoverable:
  assumes "pst_plans st p = Some x"
    and "timestampCorruption (ppm_createdAt (psp_metadata x)) (readLifecycleEvents st p)"
  obtains r w where "preparePlanRecovery lc sha p st = (Inr r, w)" and "\<not> prc_recoverable r" and "prc_requiresOperatorReview r"
proof -
  obtain g w1 where g: "rebuildPlanLineage p st = (Inr g, w1)" "pst_plans w1 = pst_plans st"
    by (rule answersE[OF answers_replays(3) assms(1)])
  obtain r w2 where r: "verifyReplayIntegrity lc sha p w1 = (Inr r, w2)"
    by (rule answersE[OF answers_replay_integrity, of w1 p x]) (use g(2) assms(1) in simp_all)
  have "\<exists>i. verifyPlanIntegrity lc sha p st = (Inr i, w2) \<and> \<not> pig_valid i"
    using assms(2)
    by (simp add: verifyPlanIntegrity_def with_history_run assms(1) and_then_def g(1) r Let_def returns_def integrity_reasons_def
        reason_when_def)
  then obtain i where "verifyPlanIntegrity lc sha p st = (Inr i, w2)" "\<not> pig_valid i" by blast
  then have "\<exists>r w. preparePlanRecovery lc sha p st = (Inr r, w) \<and> \<not> prc_recoverable r \<and> prc_requiresOperatorReview r"
    by (simp add: preparePlanRecovery_def with_plan_run assms(1) and_then_def Let_def returns_def)
  then show thesis using that by blast
qed

section \<open>Properties\<close>

text \<open>C35 (reachable_store_sound): whatever commands and raw writes (\<open>updatePlanState\<close>, \<open>appendLifecycleEvent\<close>,
  \<open>appendPlanAudit\<close>) led to a store, every audit trail is a verified chain, and a stored plan has the id it is stored
  under and mirrors its lifecycle state.  When there was no raw write, its last lifecycle event names the state it is in,
  its creation time is mirrored, and its plan and governance hashes are those of the validation it was bound to last.\<close>

theorem reachable_store_sound:
  assumes "write_reachable lc sha st"
  shows "verifyImmutableLedgerChain (readPlanAuditEntries st p) \<and>
    (pst_plans st p = Some x \<longrightarrow>
       psp_planId x = p \<and> psp_state x = psp_lifecycleState x \<and>
       (plan_reachable lc sha st \<longrightarrow>
          psp_createdAt x = ppm_createdAt (psp_metadata x) \<and>
          (pst_lifecycleEvents st p = [] \<or>
             ple_nextState (last (pst_lifecycleEvents st p)) = plan_state_str (psp_lifecycleState x)) \<and>
          (\<forall>b. readValidationBinding st p = Some b \<longrightarrow> psp_planHash x = Some (pvs_planHash (pvb_snapshot b)) \<and>
             psp_governanceDecisionHash x = Some (pvs_governanceDecisionHash (pvb_snapshot b)))))"
proof -
  have "sane st" by (rule written_sane[OF assms])
  moreover have "psp_createdAt x = ppm_createdAt (psp_metadata x) \<and>
      (pst_lifecycleEvents st p = [] \<or> ple_nextState (last (pst_lifecycleEvents st p)) = plan_state_str (psp_lifecycleState x)) \<and>
      (\<forall>b. readValidationBinding st p = Some b \<longrightarrow> psp_planHash x = Some (pvs_planHash (pvb_snapshot b)) \<and>
         psp_governanceDecisionHash x = Some (pvs_governanceDecisionHash (pvb_snapshot b)))"
    if "plan_reachable lc sha st" "pst_plans st p = Some x"
    using store_ok_plan[OF conjunct1[OF reachable_ok[OF that(1)]] that(2)] conjunct2[OF reachable_ok[OF that(1)]] that(2)
    by (simp add: plan_ok_def events_agree_def readValidationBinding_def binding_agrees_def Let_def)
  ultimately show ?thesis by (simp add: sane_def readPlanAuditEntries_def)
qed

text \<open>C37 (lifecycle_follows_matrix): in a store that commands and raw writes led to, the next one loses no stored plan.  A command
  (creation, step, binding, transition, cancellation, freeze or inspection) leaves the state of a plan as it is or moves it
  along the transition matrix.  A raw update puts the plan it names into the state it is given, whatever the matrix
  says, and leaves the state of the others; a raw event and a raw audit entry change no state.\<close>

theorem lifecycle_follows_matrix:
  assumes "write_reachable lc sha st" and "pst_plans st p = Some x"
  shows "\<exists>y. pst_plans (perform_write lc sha w st) p = Some y \<and>
    (case w of
       WriteCommand cmd \<Rightarrow>
         psp_lifecycleState y = psp_lifecycleState x \<or> isAllowedPlanTransition (psp_lifecycleState x) (psp_lifecycleState y)
     | WriteUpdate q s t ch \<Rightarrow>
         psp_lifecycleState y = (if q = p then js_default s (pup_lifecycleState ch) else psp_lifecycleState x)
     | WriteEvent e \<Rightarrow> psp_lifecycleState y = psp_lifecycleState x
     | WriteAudit q ty d \<Rightarrow> y = x)"
proof (cases w)
  case (WriteCommand cmd)
  show ?thesis using perform_shifts[OF written_sane[OF assms(1)]] assms(2) by (simp add: WriteCommand shifts_def moves_def)
next
  case (WriteUpdate q s t ch)
  show ?thesis using update_effect[OF written_sane[OF assms(1)] assms(2)] by (simp add: WriteUpdate)
next
  case (WriteEvent e)
  show ?thesis using event_effect[OF written_sane[OF assms(1)] assms(2)] by (simp add: WriteEvent)
next
  case (WriteAudit q ty d)
  show ?thesis using assms(2) by (simp add: WriteAudit store_simps)
qed

text \<open>C36 (transition_decided): the error of a transition, in the order of its checks.  Its hash and version checks are
  not among them: in a reachable store they cannot fail.  The store is one that commands led to, without raw writes.\<close>

theorem transition_decided:
  assumes "plan_reachable lc sha st" and "pst_plans st (tri_planId i) = Some x"
  shows "(case fst (transition lc sha i st) of Inl c \<Rightarrow> Some c | Inr _ \<Rightarrow> None) =
     (if psp_lifecycleState x \<noteq> tri_fromState i then Some PLAN_STATE_MISMATCH
      else if \<not> isAllowedPlanTransition (tri_fromState i) (tri_toState i) then Some INVALID_PLAN_STATE_TRANSITION
      else if tri_fromState i = PlanFROZEN \<and> tri_toState i = PlanFROZEN then Some PLAN_FROZEN_BY_GOVERNANCE
      else if tri_toState i = PlanQUEUED \<or> tri_toState i = PlanEXECUTING
      then gate_decision x (readValidationBinding st (tri_planId i))
      else None)"
proof -
  have ok: "store_ok st" using reachable_ok[OF assms(1)] by simp
  let ?e = "transition_error x (readValidationBinding st (tri_planId i)) i"
  have "(case fst (transition lc sha i st) of Inl c \<Rightarrow> Some c | Inr _ \<Rightarrow> None) = ?e"
  proof (cases ?e)
    case None
    have event: "ple_planId (transition_event i t) = tri_planId i" for t by (simp add: transition_event_def Let_def)
    show ?thesis
      unfolding transition_run(1)[OF ok assms(2) None] applied_transition None
      by (rule recorded_returns[OF ok assms(2) neutral_updates(3) event])
  next
    case (Some c)
    from transition_run(2)[OF ok assms(2) this, where lc = lc and sha = sha] Some show ?thesis by auto
  qed
  then show ?thesis by (simp add: transition_error_def Let_def)
qed

text \<open>C38 (blocked_until_rebound): a plan whose execution is blocked and that is neither queued nor executing (as a frozen plan is) stays so
  under every sequence of commands that does not bind a new validation to it.  The commands do not
  include the raw writes.\<close>

theorem blocked_until_rebound:
  assumes "plan_reachable lc sha st" and "pst_plans st p = Some x" and "psp_executionBlocked x" and "\<not> active x"
    and "list_all (\<lambda>cmd. \<not> binds p cmd) cmds"
  shows "\<exists>y. pst_plans (fold (perform lc sha) cmds st) p = Some y \<and> psp_executionBlocked y \<and> \<not> active y"
  using assms
proof (induction cmds arbitrary: st x)
  case Nil
  then show ?case by simp
next
  case (Cons cmd cmds)
  obtain y where y: "pst_plans (perform lc sha cmd st) p = Some y" "binds p cmd \<or> stays_blocked x y"
    by (rule reachable_perform[OF Cons.prems(1,2), of cmd])
  then have "psp_executionBlocked y" "\<not> active y" using Cons.prems(3-5) by (auto simp: stays_blocked_def active_def)
  from Cons.IH[OF reachable_command[OF Cons.prems(1)] y(1) this] Cons.prems(5) show ?case by simp
qed

text \<open>C39 (freeze_always_possible): in a store that commands and raw writes led to, freezing a stored plan succeeds and the plan is then
  frozen.  When it was not frozen before, its execution is blocked and the reason is the one given; when it was, the
  freeze changes nothing and returns the plan with the reason and the block it has.\<close>

theorem freeze_always_possible:
  assumes "write_reachable lc sha st" and "pst_plans st p = Some x"
  shows "\<exists>u y w. freezePlan lc sha p reason actor st = (Inr u, w) \<and> pst_plans w p = Some y \<and> psp_lifecycleState y = PlanFROZEN \<and>
    (if psp_lifecycleState x = PlanFROZEN then w = st \<and> u = clonePlan x
     else psp_executionBlocked y \<and> psp_frozenReason y = Some reason)"
proof (cases "psp_lifecycleState x = PlanFROZEN")
  case True
  then show ?thesis by (simp add: freezePlan_def with_plan_run assms(2) returns_def)
next
  case False
  show ?thesis
  proof (rule frozen_store[OF written_sane[OF assms(1)] assms(2) False, of lc sha reason actor])
    fix u w y
    assume "freezePlan lc sha p reason actor st = (Inr u, w)" "pst_plans w p = Some y" "psp_lifecycleState y = PlanFROZEN"
      "psp_executionBlocked y" "psp_frozenReason y = Some reason"
    then show ?thesis using False by auto
  qed
qed

text \<open>C40 (frozen_never_recoverable): a plan created after time 0 that is frozen by \<open>freezePlan\<close> is never recoverable, although FROZEN
  is a state to recover from: the freeze is recorded at time 0, and the integrity check reads that as corrupted times.\<close>

theorem frozen_never_recoverable:
  assumes "plan_reachable lc sha st" and "pst_plans st p = Some x" and "psp_lifecycleState x \<noteq> PlanFROZEN"
    and "0 < ppm_createdAt (psp_metadata x)"
  shows "\<exists>r w. preparePlanRecovery lc sha p (perform lc sha (CmdFreeze p reason actor) st) = (Inr r, w) \<and>
    \<not> prc_recoverable r \<and> prc_requiresOperatorReview r"
proof (rule frozen_store[OF written_sane[OF commands_are_writes[OF assms(1)]] assms(2,3), of lc sha reason actor])
  fix u w y e'
  assume w: "freezePlan lc sha p reason actor st = (Inr u, w)" "pst_plans w p = Some y" "ple_timestamp e' = 0"
    "pst_lifecycleEvents w p = pst_lifecycleEvents st p @ [e']" "ppm_createdAt (psp_metadata y) = ppm_createdAt (psp_metadata x)"
  have "timestampCorruption (ppm_createdAt (psp_metadata y)) (readLifecycleEvents w p)"
    unfolding readLifecycleEvents_def w(4) map_append list.map
    by (rule early_event_corrupts) (use w(3,5) assms(4) in simp)
  from corrupted_never_recoverable[OF w(2) this, of lc sha] show ?thesis using w(1) by (metis perform.simps(7) snd_conv)
qed

text \<open>The replay of the lifecycle of a stored plan returns, and reports a drift exactly when the plan has no
  lifecycle event at all.\<close>

lemma lifecycle_replay_agrees:
  assumes "plan_reachable lc sha st" and "pst_plans st p = Some x"
  shows "\<exists>r w. reconstructPlanLifecycle lc sha p t st = (Inr r, w) \<and> prr_storedState r = psp_lifecycleState x \<and>
    (prr_driftDetected r \<longleftrightarrow> pst_lifecycleEvents st p = [])"
proof -
  have "pst_lifecycleEvents st p = [] \<or> ple_nextState (last (pst_lifecycleEvents st p)) = plan_state_str (psp_lifecycleState x)"
    using reachable_ok[OF assms(1)] assms(2) by (simp add: events_agree_def)
  then show ?thesis
    by (auto simp: reconstructPlanLifecycle_def with_history_run assms(2) Let_def op_simps reason_when_def readLifecycleEvents_def
        reconstructState_def last_map)
qed

section \<open>Witnesses\<close>

definition draft_input :: CreatePlanInput where
  "draft_input =
     \<lparr>cpl_planId = ''plan-1'', cpl_schemaVersion = ''1.0.0'', cpl_intent = ''list files'', cpl_source = SourceUser,
      cpl_createdBy = ''operator'', cpl_createdAt = Some 5, cpl_updatedAt = None, cpl_lifecycleState = None, cpl_state = None,
      cpl_steps = None, cpl_validation = None, cpl_approvals = None, cpl_metadata = None, cpl_lineage = None,
      cpl_validationPassed = None, cpl_validationSnapshotId = None, cpl_planHash = None, cpl_governanceDecisionHash = None,
      cpl_approvalRequired = None, cpl_approvalState = None, cpl_riskLevel = None, cpl_executionBlocked = None,
      cpl_cancellationRequested = None, cpl_frozenReason = None, cpl_disputedReason = None, cpl_validatorVersion = None,
      cpl_registryVersion = None, cpl_governanceVersion = None\<rparr>"

definition draft_plan :: PersistedPlan where
  "draft_plan = clonePlan (normalizePlan code_unit_compare id draft_input)"

definition draft_store :: PlanStoreState where
  "draft_store = perform code_unit_compare id (CmdCreate draft_input) resetPlanStore"

lemma draft_reachable: "plan_reachable code_unit_compare id draft_store"
  unfolding draft_store_def by (intro reachable_command reachable_empty)

lemma draft_is_stored: "pst_plans draft_store ''plan-1'' = Some draft_plan"
  by (simp add: draft_store_def createPlan_def readPlan_def resetPlanStore_def Let_def store_simps draft_plan_def draft_input_def
      normalizePlan_def)

lemma draft_plan_fields:
  "psp_lifecycleState draft_plan = PlanDRAFT" "psp_executionBlocked draft_plan"
  "ppm_createdAt (psp_metadata draft_plan) = 5"
  by (simp_all add: draft_plan_def draft_input_def normalizePlan_def Let_def or_else_def)

theorem reachable_store_sound_witness:
  "\<exists>x. pst_plans draft_store ''plan-1'' = Some x \<and> psp_state x = psp_lifecycleState x \<and>
    verifyImmutableLedgerChain (readPlanAuditEntries draft_store ''plan-1'') \<and> psp_createdAt x = 5"
  using reachable_store_sound[OF commands_are_writes[OF draft_reachable], of "''plan-1''" draft_plan] draft_is_stored
    draft_reachable draft_plan_fields(3) by simp

text \<open>A raw update takes the draft to COMPLETED, which the matrix does not allow.\<close>

theorem lifecycle_follows_matrix_witness:
  "\<exists>y. pst_plans (perform_write code_unit_compare id (WriteUpdate ''plan-1'' PlanCOMPLETED 6 no_fields) draft_store) ''plan-1'' = Some y \<and>
    psp_lifecycleState y = PlanCOMPLETED \<and> \<not> isAllowedPlanTransition (psp_lifecycleState draft_plan) PlanCOMPLETED"
  using lifecycle_follows_matrix[OF commands_are_writes[OF draft_reachable] draft_is_stored, of "WriteUpdate ''plan-1'' PlanCOMPLETED 6 no_fields"]
  by (simp add: draft_plan_fields isAllowedPlanTransition_def)

theorem transition_decided_witness:
  "\<exists>i. tri_planId i = ''plan-1'' \<and>
    (case fst (transition code_unit_compare id i draft_store) of Inl c \<Rightarrow> Some c | Inr _ \<Rightarrow> None) = Some INVALID_PLAN_STATE_TRANSITION"
proof -
  let ?i = "\<lparr>tri_planId = ''plan-1'', tri_fromState = PlanDRAFT, tri_toState = PlanEXECUTING, tri_actor = ActorSystem,
    tri_reason = None, tri_metadata = None, tri_createdAt = Some 6\<rparr>"
  have stored: "pst_plans draft_store (tri_planId ?i) = Some draft_plan" by (simp add: draft_is_stored)
  have "(case fst (transition code_unit_compare id ?i draft_store) of Inl c \<Rightarrow> Some c | Inr _ \<Rightarrow> None) =
      Some INVALID_PLAN_STATE_TRANSITION"
    unfolding transition_decided[OF draft_reachable stored] by (simp add: draft_plan_fields isAllowedPlanTransition_def)
  then show ?thesis by (intro exI[of _ ?i] conjI) simp_all
qed

theorem blocked_until_rebound_witness:
  "\<exists>y. pst_plans (fold (perform code_unit_compare id) [CmdFreeze ''plan-1'' ''hold'' ActorOperator, CmdVerify ''plan-1''] draft_store)
    ''plan-1'' = Some y \<and> psp_executionBlocked y \<and> \<not> active y"
  by (rule blocked_until_rebound[OF draft_reachable draft_is_stored]) (simp_all add: draft_plan_fields active_def)

theorem freeze_always_possible_witness:
  "\<exists>u y w. freezePlan code_unit_compare id ''plan-1'' ''hold'' ActorOperator draft_store = (Inr u, w) \<and>
    pst_plans w ''plan-1'' = Some y \<and> psp_lifecycleState y = PlanFROZEN \<and> psp_executionBlocked y \<and>
    psp_frozenReason y = Some ''hold''"
  using freeze_always_possible[OF commands_are_writes[OF draft_reachable] draft_is_stored, of "''hold''" ActorOperator]
  by (simp add: draft_plan_fields)

theorem frozen_never_recoverable_witness:
  "\<exists>r w. preparePlanRecovery code_unit_compare id ''plan-1''
      (perform code_unit_compare id (CmdFreeze ''plan-1'' ''hold'' ActorOperator) draft_store) = (Inr r, w) \<and>
    \<not> prc_recoverable r \<and> prc_requiresOperatorReview r"
  by (rule frozen_never_recoverable[OF draft_reachable draft_is_stored]) (simp_all add: draft_plan_fields)

end
