(* ===== verification/ReplayBindingProperties.thy ===== *)
theory ReplayBindingProperties
  imports ReplayBindingFacts AdmissionProperties
begin

text \<open>
  What replay binding promises: when a binding is certified and when it is revoked, what the binding hash commits to,
  and that a hash that is not the expected one changes neither certification nor revocation.
\<close>

section \<open>What the binding hash covers\<close>

lemma decoded_binding_context: "decoded lc (binding_context_json a) = decoded lc (binding_context_json b) \<Longrightarrow> a = b"
proof -
  assume eq: "decoded lc (binding_context_json a) = decoded lc (binding_context_json b)"
  note parts = decoded_optional[OF eq[unfolded binding_context_json_def], unfolded decoded_optional_str]
  show "a = b"
    by (rule ReplayBindingContext.equality) (use parts in \<open>simp_all add: decision_str_inj\<close>)
qed

lemma decoded_binding: "decoded lc (binding_json a) = decoded lc (binding_json b) \<Longrightarrow> a = b"
proof -
  assume eq: "decoded lc (binding_json a) = decoded lc (binding_json b)"
  note parts = decoded_optional[OF eq[unfolded binding_json_def], unfolded decoded_optional_str]
  show "a = b" by (rule ImmutableReplayBinding.equality) (use parts in simp_all)
qed

lemma certification_str_inj: "certification_str a = certification_str b \<longleftrightarrow> a = b"
  by (cases a; cases b) simp_all

lemma cause_str_inj: "cause_str a = cause_str b \<longleftrightarrow> a = b"
  by (cases a; cases b) simp_all

lemma decoded_certification: "decoded lc (certification_json a) = decoded lc (certification_json b) \<Longrightarrow> a = b"
proof -
  assume "decoded lc (certification_json a) = decoded lc (certification_json b)"
  from decoded_record[OF this[unfolded certification_json_def]] show "a = b" by (simp add: certification_str_inj)
qed

lemma decoded_replay_revocation: "decoded lc (replay_revocation_json a) = decoded lc (replay_revocation_json b) \<Longrightarrow> a = b"
proof -
  assume "decoded lc (replay_revocation_json a) = decoded lc (replay_revocation_json b)"
  from decoded_record[OF this[unfolded replay_revocation_json_def]] show "a = b" by (simp add: cause_str_inj)
qed

definition bound_content ::
  "ReplayBindingContext \<times> ImmutableReplayBinding \<times> ReplayCertification \<times> ReplayRevocation option \<Rightarrow> json" where
  "bound_content = (\<lambda>(context, binding, certification, revocation). bound_json context binding certification revocation)"

lemma decoded_bound:
  assumes "decoded lc (bound_json c b z r) = decoded lc (bound_json c' b' z' r')"
  shows "c = c' \<and> b = b' \<and> z = z' \<and> r = r'"
proof -
  have "list_all2 (\<lambda>a b. decoded lc (snd a) = decoded lc (snd b))
      ([(''phase'', JStr ''4.2M''), (''context'', binding_context_json c), (''binding'', binding_json b),
        (''certification'', certification_json z)] @ [])
      ([(''phase'', JStr ''4.2M''), (''context'', binding_context_json c'), (''binding'', binding_json b'),
        (''certification'', certification_json z')] @ []) \<and>
    rel_option (\<lambda>v w. decoded lc v = decoded lc w) (map_option replay_revocation_json r) (map_option replay_revocation_json r')"
    using assms[unfolded bound_json_def] by (intro decoded_optional[where k = "''revocation''"]) simp_all
  then have parts: "decoded lc (binding_context_json c) = decoded lc (binding_context_json c')"
    "decoded lc (binding_json b) = decoded lc (binding_json b')"
    "decoded lc (certification_json z) = decoded lc (certification_json z')"
    and rev: "rel_option (\<lambda>v w. decoded lc v = decoded lc w) (map_option replay_revocation_json r) (map_option replay_revocation_json r')"
    by simp_all
  have "r = r'" using rev decoded_replay_revocation by (cases r; cases r') auto
  with parts show ?thesis using decoded_binding_context decoded_binding decoded_certification by blast
qed

lemma bound_json_facts:
  "wf_json (bound_json c b z r)" "wf_numbers (bound_json c b z r)" "fully_defined (bound_json c b z r)"
proof -
  have ctx: "wf_json (binding_context_json c)" "wf_numbers (binding_context_json c)" "fully_defined (binding_context_json c)"
    by (cases "rbx_derivedSimulationHash c"; simp add: binding_context_json_def)+
  have binding: "wf_json (binding_json b)" "wf_numbers (binding_json b)" "fully_defined (binding_json b)"
    by (cases "irb_derivedSimulationHash b"; simp add: binding_json_def)+
  show "wf_json (bound_json c b z r)" "wf_numbers (bound_json c b z r)" "fully_defined (bound_json c b z r)"
    by (cases r; simp add: bound_json_def ctx binding certification_json_def replay_revocation_json_def)+
qed

interpretation bound: hashed_content lc REPLAY_CONTEXT bound_content "\<lambda>x. x" "\<lambda>x. True" for lc
proof
  fix x y
  show "wf_json (bound_content x) \<and> wf_numbers (bound_content x)"
    by (cases x) (simp add: bound_content_def bound_json_facts)
  assume "decoded lc (bound_content x) = decoded lc (bound_content y)"
  then show "x = y" by (cases x; cases y) (simp add: bound_content_def decoded_bound)
qed

text \<open>What a binding hash is made of.\<close>

definition bound_parts ::
  "ReplayBindingBuildInput \<Rightarrow> ReplayBindingContext \<times> ImmutableReplayBinding \<times> ReplayCertification \<times> ReplayRevocation option" where
  "bound_parts input =
     (buildReplayBindingContext input, buildImmutableReplayBinding input, certification_of input, revocation_of input)"

lemma binding_hash:
  "hashStableContent lc sha REPLAY_CONTEXT (bound_content (bound_parts input)) =
     Some (rbd_replayBindingHash (buildReplayBindingReadiness lc sha input))"
  unfolding binding_result(5) bound_parts_def bound_content_def deriveReplayBindingHash_def prod.case
  by (rule hash_of_defined) (rule bound_json_facts)

text \<open>Whatever binding hash is expected, certification, revocation and hash are the same: a hash that differs from
  the one expected is only added to the failures.\<close>

lemma expected_hash_frame:
  "buildReplayBindingReadiness lc sha (input\<lparr>bbi_expectedReplayBindingHash := e\<rparr>) =
     (buildReplayBindingReadiness lc sha input)\<lparr>rbd_failures :=
        certification_failures input @
        binding_failure_if (differs e (rbd_replayBindingHash (buildReplayBindingReadiness lc sha input))) REPLAY_BINDING_DRIFT
          ''Derived replay binding hash does not match expected value.'' ''expectedReplayBindingHash''\<rparr>"
proof -
  let ?other = "input\<lparr>bbi_expectedReplayBindingHash := e\<rparr>"
  have fields: "admitted_lineage ?other = admitted_lineage input" "admitted_decision ?other = admitted_decision input"
    "admitted_zone ?other = admitted_zone input" "binding_zone ?other = binding_zone input"
    "bindingId ?other = bindingId input" "admitted_audit ?other = admitted_audit input"
    by (simp_all add: admitted_lineage_def admitted_decision_def admitted_zone_def binding_zone_def bindingId_def admitted_audit_def)
  have ctx: "buildReplayBindingContext ?other = buildReplayBindingContext input"
    by (simp add: buildReplayBindingContext_def fields)
  have binding: "buildImmutableReplayBinding ?other = buildImmutableReplayBinding input"
    by (simp add: buildImmutableReplayBinding_def fields ctx)
  have runtime: "observeRuntimeDrift ?other = observeRuntimeDrift input"
    and zone: "validateTrustZoneReplay ?other = validateTrustZoneReplay input"
    by (simp_all add: observeRuntimeDrift_def validateTrustZoneReplay_def fields)
  have checks: "artifactFailures ?other = artifactFailures input" by (intro ext) (simp add: artifactFailures_def fields)
  have evidence: "collectEvidenceFailures ?other = collectEvidenceFailures input"
    unfolding collectEvidenceFailures_def fields checks ..
  have parts: "certifyReplayReadiness ?other b v w fs = certifyReplayReadiness input b v w fs"
    "coordinateReplayRevocation ?other fs = coordinateReplayRevocation input fs"
    "certification_failures ?other = certification_failures input" for b v w fs
    by (simp_all only: certifyReplayReadiness_def coordinateReplayRevocation_def certification_failures_def evidence fields runtime zone)
  have hash: "rbd_replayBindingHash (buildReplayBindingReadiness lc sha ?other) =
      rbd_replayBindingHash (buildReplayBindingReadiness lc sha input)"
    unfolding binding_result ctx binding runtime zone parts ..
  show ?thesis
    by (rule ReplayBindingReadiness.equality)
      (simp_all add: binding_result(1-4,6) hash ctx binding runtime zone parts,
       simp add: buildReplayBindingReadiness_def Let_def case_prod_unfold ctx)
qed

section \<open>Properties\<close>

text \<open>C8 (certification_exact): a binding is revoked when the admission was withdrawn, else quarantined when its trust zone is
  not the admitted one, else certified exactly when the runtime is bound without mutation, its snapshot was taken and the
  evidence of the audit is complete, and failed otherwise; a certified binding has no revocation.\<close>

theorem certification_exact:
  "rct_certificationStatus (rbd_certification (buildReplayBindingReadiness lc sha input)) =
     (if admission_withdrawn (admitted_decision input) then CertREVOKED
      else if \<not> zone_kept input then CertQUARANTINED
      else if runtime_bound input \<and> snapshot_taken input \<and> evidence_complete input then CertCERTIFIED
      else CertFAILED) \<and>
   \<not> (rct_certificationStatus (rbd_certification (buildReplayBindingReadiness lc sha input)) = CertCERTIFIED \<and>
      rbd_revocation (buildReplayBindingReadiness lc sha input) \<noteq> None)"
proof -
  have "revocation_of input = None" if "rct_certificationStatus (certification_of input) = CertCERTIFIED"
  proof -
    have "\<not> admission_withdrawn (admitted_decision input)" "certification_failures input = []"
      using that unfolding status_of certification_failures_Nil by (auto simp: admission_withdrawn_def split: if_splits)
    then show ?thesis by (simp add: coordinateReplayRevocation_def)
  qed
  then have none: "\<not> (rct_certificationStatus (certification_of input) = CertCERTIFIED \<and> revocation_of input \<noteq> None)"
    by (intro notI) (elim conjE notE)
  show ?thesis unfolding binding_result by (intro conjI status_of none)
qed

text \<open>C12 (revocation_exact): a revocation names the first of these causes that is there, and there is none otherwise: the
  admission was withdrawn, the audit's hashes are not the admitted lineage, the trust zone changed, the runtime
  diverged, or the replay proof is not stable.  What only leaves the evidence incomplete revokes nothing.\<close>

theorem revocation_exact:
  "map_option rrv_revokedBecause (rbd_revocation (buildReplayBindingReadiness lc sha input)) =
     (let x = bound_artifacts input in
      if admission_withdrawn (admitted_decision input) then Some ADMISSION_REVOKED
      else if x \<noteq> None \<and> \<not> lineage_kept input then Some LINEAGE_DRIFT
      else if \<not> zone_kept input then Some TRUST_ZONE_VIOLATION
      else if \<not> runtime_bound input then Some RUNTIME_DIVERGENCE
      else if (\<exists>y. x = Some y \<and> \<not> proof_stable y) then Some REPLAY_CORRUPTION
      else None)"
proof -
  have codes: "some_code S (certification_failures input) \<longleftrightarrow>
      \<not> runtime_bound input \<and> RUNTIME_BINDING_DIVERGENCE \<in> S \<or> \<not> snapshot_taken input \<and> FORENSIC_REPLAY_INCOMPLETE \<in> S \<or>
      \<not> zone_kept input \<and> TRUST_ZONE_REPLAY_MISMATCH \<in> S \<or>
      (admitted_decision input = QUARANTINED \<or> admitted_decision input = DENIED) \<and> REPLAY_CERTIFICATION_REVOKED \<in> S \<or>
      some_code S (collectEvidenceFailures input)" for S
    by (auto simp: certification_failures_def runtime_checks zone_checks)
  show ?thesis
  proof (cases "bound_artifacts input")
    case None
    then show ?thesis
      by (simp add: binding_result coordinateReplayRevocation_def Let_def codes evidence_None)
  next
    case (Some x)
    then show ?thesis
      by (simp add: binding_result coordinateReplayRevocation_def Let_def codes evidence_Some artifact_checks)
  qed
qed

text \<open>C13 (binding_hash_commits): two bindings with the same hash have the same context (so the same plan, lineage, decision,
  runtime and zone), binding, certification and revocation, unless the digest has a collision between the two
  texts.\<close>

theorem binding_hash_commits:
  assumes "rbd_replayBindingHash (buildReplayBindingReadiness lc sha a) = rbd_replayBindingHash (buildReplayBindingReadiness lc sha b)"
    and "inj_on sha {stable_text lc REPLAY_CONTEXT (bound_content (bound_parts a)),
      stable_text lc REPLAY_CONTEXT (bound_content (bound_parts b))}"
  shows "rbd_context (buildReplayBindingReadiness lc sha a) = rbd_context (buildReplayBindingReadiness lc sha b) \<and>
    rbd_binding (buildReplayBindingReadiness lc sha a) = rbd_binding (buildReplayBindingReadiness lc sha b) \<and>
    rbd_certification (buildReplayBindingReadiness lc sha a) = rbd_certification (buildReplayBindingReadiness lc sha b) \<and>
    rbd_revocation (buildReplayBindingReadiness lc sha a) = rbd_revocation (buildReplayBindingReadiness lc sha b)"
proof -
  have "bound_parts a = bound_parts b"
    by (rule bound.commits[OF binding_hash _ TrueI TrueI assms(2)]) (simp only: binding_hash assms(1))
  then show ?thesis unfolding bound_parts_def prod.inject binding_result .
qed

section \<open>A concrete binding\<close>

definition sample_binding :: "ExecutionCompatibilityContract \<Rightarrow> VersionedReplayArtifact \<Rightarrow> ReplayBindingBuildInput" where
  "sample_binding c a =
     (let admission = admissionRequest compatible_plan audited_truth c a None open_governance calm_runtime in
      \<lparr>bbi_admissionInput = admission, bbi_admissionReadiness = buildAdmissionReadiness code_unit_compare marked admission,
       bbi_runtimeFingerprintHash = ''f'', bbi_trustZoneId = None, bbi_expectedRuntimeFingerprintHash = None,
       bbi_expectedDerivedSimulationHash = None, bbi_expectedReplayBindingHash = None\<rparr>)"

theorem binding_hash_commits_witness:
  "\<exists>a b. a \<noteq> b \<and>
     rbd_replayBindingHash (buildReplayBindingReadiness code_unit_compare marked a) =
       rbd_replayBindingHash (buildReplayBindingReadiness code_unit_compare marked b) \<and>
     rbd_context (buildReplayBindingReadiness code_unit_compare marked a) = rbd_context (buildReplayBindingReadiness code_unit_compare marked b)"
proof (rule sample_artifact)
  fix input and r :: VersionedReplayReadinessResult and artifact p
  let ?a = "sample_binding (vbi_executionCompatibilityContract input) artifact"
  let ?b = "?a\<lparr>bbi_expectedReplayBindingHash := Some ''x''\<rparr>"
  have hash: "rbd_replayBindingHash (buildReplayBindingReadiness code_unit_compare marked ?a) =
      rbd_replayBindingHash (buildReplayBindingReadiness code_unit_compare marked ?b)"
    unfolding expected_hash_frame by simp
  have "?a \<noteq> ?b" by (simp add: sample_binding_def Let_def)
  with hash binding_hash_commits[OF hash marked_facts(2)] show ?thesis by blast
qed

end
