(* ===== verification/ExecutionSafety.thy ===== *)
theory ExecutionSafety
  imports TruthValidator
begin

text \<open>
  \<open>services/planning/execution-safety\<close>: the contract types (\<open>execution-safety-types.ts\<close>), the policy
  locks (\<open>execution-policy-registry.ts\<close>), the governance, rollback, approval and autonomy engines, the
  escalation level and freeze reasons, the contract builder, its hash, the replay check, the state
  machine and the validator that composes them.  \<open>deepFreeze\<close> returns its argument.
\<close>

section \<open>Types\<close>

datatype ExecutionSafetyState =
    SAFE | RESTRICTED | APPROVAL_REQUIRED | ROLLBACK_REQUIRED | FROZEN | DISPUTED | BLOCKED

datatype ContainmentZone =
    LOCAL_ONLY | SANDBOX | READ_ONLY | NON_PRODUCTION | PRODUCTION_RESTRICTED | CROSS_TENANT_FORBIDDEN

datatype ExecutionFreezeReason =
    GOVERNANCE_BLOCKED | ROLLBACK_MISSING | REPLAY_DIVERGENCE | POLICY_LOCK_MISSING | DISPUTED_STATE
  | CONTAINMENT_VIOLATION

datatype ExecutionEscalationLevel = NONE | LOW | MEDIUM | HIGH | CRITICAL

datatype EnforcementMode = Advisory | Enforced

record PolicyLockSnapshot =
  pl_policyId :: string
  pl_policyVersion :: string
  pl_policyHash :: string
  pl_enforcementMode :: EnforcementMode

datatype RollbackInvariantCode =
    ROLLBACK_CAPABILITY_REQUIRED | ROLLBACK_GOVERNANCE_INHERITED | ROLLBACK_CONTAINMENT_PRESERVED
  | ROLLBACK_AUTONOMY_NOT_ELEVATED

record RollbackInvariant =
  ri_code :: RollbackInvariantCode
  ri_satisfied :: bool
  ri_reason :: string

record GovernanceSafetyContract =
  gs_allowed :: bool
  gs_requiredApprovals :: "string list"
  gs_blockedReasons :: "string list"
  gs_escalationRequired :: bool
  gs_policyLocks :: "PolicyLockSnapshot list"
  gs_containmentZone :: ContainmentZone

record ApprovalSafetyRequirement =
  ar_required :: bool
  ar_approvalTypes :: "string list"
  ar_reason :: string

record AutonomySafetyBoundary =
  as_maxAutonomyLevel :: MaxAutonomyLevel
  as_downgradeReasons :: "string list"
  as_selfElevationBlocked :: bool

record RollbackSafetyContract =
  rb_required :: bool
  rb_rollbackCapability :: RollbackCapability
  rb_invariants :: "RollbackInvariant list"
  rb_governanceInherited :: bool

record ExecutionSafetyContract =
  xs_planId :: string
  xs_executionTruthHash :: string
  xs_dependencyGraphFingerprint :: string
  xs_executionSafetyState :: ExecutionSafetyState
  xs_governance :: GovernanceSafetyContract
  xs_rollback :: RollbackSafetyContract
  xs_approvals :: "ApprovalSafetyRequirement list"
  xs_autonomy :: AutonomySafetyBoundary
  xs_freezeReasons :: "ExecutionFreezeReason list"
  xs_escalationLevel :: ExecutionEscalationLevel
  xs_containmentZone :: ContainmentZone
  xs_policyLocks :: "PolicyLockSnapshot list"
  xs_replaySourceHash :: string
  xs_executionSafetyHash :: "string option"

datatype ExecutionSafetyViolationCode =
    EXECUTION_SAFETY_INPUT_INVALID
  | EXECUTION_TRUTH_REQUIRED
  | EXECUTION_TRUTH_HASH_MISSING
  | EXECUTION_GOVERNANCE_MISSING
  | EXECUTION_ROLLBACK_MISSING
  | EXECUTION_APPROVAL_REQUIRED
  | EXECUTION_AUTONOMY_BOUNDARY_VIOLATION
  | EXECUTION_POLICY_LOCK_MISSING
  | EXECUTION_POLICY_HASH_MISMATCH
  | EXECUTION_ROLLBACK_GOVERNANCE_WEAKENED
  | EXECUTION_ROLLBACK_INVARIANT_MISSING
  | EXECUTION_CONTAINMENT_VIOLATION
  | EXECUTION_FREEZE_REQUIRED
  | EXECUTION_SAFETY_HASH_MISMATCH
  | EXECUTION_SAFETY_REPLAY_DIVERGENCE
  | EXECUTION_SAFETY_STATE_TRANSITION_INVALID

record ExecutionSafetyViolation =
  xv_code :: ExecutionSafetyViolationCode
  xv_message :: string
  xv_path :: "string list option"

definition createExecutionSafetyViolation ::
  "ExecutionSafetyViolationCode \<Rightarrow> string \<Rightarrow> string list option \<Rightarrow> ExecutionSafetyViolation" where
  "createExecutionSafetyViolation code message path = \<lparr>xv_code = code, xv_message = message, xv_path = path\<rparr>"

text \<open>The contract, the hash, the violations and the state of a result.\<close>

datatype ExecutionSafetyValidationResult =
    SafetyOk ExecutionSafetyContract string "ExecutionSafetyViolation list" ExecutionSafetyState
  | SafetyFailed "ExecutionSafetyContract option" "string option" "ExecutionSafetyViolation list" ExecutionSafetyState

text \<open>
  A truth package as a caller may supply it: the builder checks for the envelopes and the profile before
  it uses them, so each may be absent here.
\<close>

record TruthArtifact =
  ta_planId :: string
  ta_dependencyGraphFingerprint :: string
  ta_riskProfile :: "DeterministicRiskProfile option"
  ta_governanceEnvelope :: "GovernanceEnvelope option"
  ta_autonomyEnvelope :: "AutonomyEnvelope option"
  ta_replayEnvelope :: ReplayEnvelope
  ta_executionTruthHash :: string
  ta_authorized :: bool

definition artifactOf :: "ExecutionTruthPackage \<Rightarrow> TruthArtifact" where
  "artifactOf pkg =
     \<lparr>ta_planId = tp_planId pkg, ta_dependencyGraphFingerprint = tp_dependencyGraphFingerprint pkg,
      ta_riskProfile = Some (tp_riskProfile pkg), ta_governanceEnvelope = Some (tp_governanceEnvelope pkg),
      ta_autonomyEnvelope = Some (tp_autonomyEnvelope pkg), ta_replayEnvelope = tp_replayEnvelope pkg,
      ta_executionTruthHash = tp_executionTruthHash pkg, ta_authorized = tp_authorized pkg\<rparr>"

record ExecutionSafetyBuildInput =
  bi_normalizedPlan :: NormalizedPlan
  bi_executionTruthPackage :: "TruthArtifact option"

section \<open>Policy locks\<close>

fun enforcement_str :: "EnforcementMode \<Rightarrow> string" where
  "enforcement_str Advisory = ''advisory''"
| "enforcement_str Enforced = ''enforced''"

record StaticPolicy =
  sp_policyId :: string
  sp_policyVersion :: string
  sp_enforcementMode :: EnforcementMode

definition createStaticExecutionPolicyRegistry :: "StaticPolicy list" where
  "createStaticExecutionPolicyRegistry =
     [\<lparr>sp_policyId = ''execution-governance'', sp_policyVersion = ''4.2F'', sp_enforcementMode = Enforced\<rparr>,
      \<lparr>sp_policyId = ''rollback-safety'', sp_policyVersion = ''4.2F'', sp_enforcementMode = Enforced\<rparr>,
      \<lparr>sp_policyId = ''autonomy-boundary'', sp_policyVersion = ''4.2F'', sp_enforcementMode = Enforced\<rparr>]"

definition policy_json :: "StaticPolicy \<Rightarrow> js_record" where
  "policy_json p =
     [(''policyId'', JStr (sp_policyId p)), (''policyVersion'', JStr (sp_policyVersion p)),
      (''enforcementMode'', JStr (enforcement_str (sp_enforcementMode p)))]"

definition resolvePolicyLocks :: "(string \<Rightarrow> string) \<Rightarrow> string list option \<Rightarrow> PolicyLockSnapshot list" where
  "resolvePolicyLocks sha policyIds =
     (let selected =
        (case policyIds of
           Some (i # is) \<Rightarrow> filter (\<lambda>p. sp_policyId p \<in> set (i # is)) createStaticExecutionPolicyRegistry
         | _ \<Rightarrow> createStaticExecutionPolicyRegistry)
      in map (\<lambda>p. \<lparr>pl_policyId = sp_policyId p, pl_policyVersion = sp_policyVersion p,
            pl_policyHash = hashPayloadDeterministically sha (policy_json p),
            pl_enforcementMode = sp_enforcementMode p\<rparr>) selected)"

section \<open>Governance\<close>

definition resolveContainmentZone :: "ExecutionTruthPackage \<Rightarrow> ContainmentZone" where
  "resolveContainmentZone pkg =
     (let signals = rk_stepSignals (tp_riskProfile pkg) in
      if list_ex (\<lambda>s. sg_targetEnvironment s = EnvProduction) signals then PRODUCTION_RESTRICTED
      else if list_ex sg_externalSideEffect signals then NON_PRODUCTION
      else READ_ONLY)"

definition enforceGovernanceSafety ::
  "(string \<Rightarrow> string) \<Rightarrow> ExecutionTruthPackage \<Rightarrow> GovernanceSafetyContract" where
  "enforceGovernanceSafety sha pkg =
     (let envelope = tp_governanceEnvelope pkg;
          blockedReasons = ge_blockedReasons envelope @
            (if tp_executionTruthHash pkg = [] then [''Execution truth hash missing.''] else [])
      in \<lparr>gs_allowed = (ge_allowed envelope \<and> blockedReasons = []),
          gs_requiredApprovals = ge_requiredApprovals envelope,
          gs_blockedReasons = blockedReasons,
          gs_escalationRequired = ge_escalationRequired envelope,
          gs_policyLocks = resolvePolicyLocks sha None,
          gs_containmentZone = resolveContainmentZone pkg\<rparr>)"

section \<open>Autonomy\<close>

definition buildSafetyAutonomyEnvelope :: "ExecutionTruthPackage \<Rightarrow> AutonomySafetyBoundary" where
  "buildSafetyAutonomyEnvelope pkg =
     (let envelope = tp_autonomyEnvelope pkg in
      \<lparr>as_maxAutonomyLevel = ae_maxAutonomyLevel envelope,
       as_downgradeReasons = ae_downgradeReasons envelope,
       as_selfElevationBlocked = (ae_maxAutonomyLevel envelope \<noteq> MaxBoundedAutonomous)\<rparr>)"

definition enforceAutonomyBoundary :: "ExecutionTruthPackage \<Rightarrow> AutonomySafetyBoundary" where
  "enforceAutonomyBoundary pkg =
     (let boundary = buildSafetyAutonomyEnvelope pkg in
      if list_ex (\<lambda>s. sg_autonomySensitivity s = SensitivityCritical) (rk_stepSignals (tp_riskProfile pkg)) then
        \<lparr>as_maxAutonomyLevel =
           (if as_maxAutonomyLevel boundary = MaxBoundedAutonomous then MaxApprovalRequired
            else as_maxAutonomyLevel boundary),
         as_downgradeReasons =
           as_downgradeReasons boundary @ [''Critical autonomy sensitivity prevents self-elevation.''],
         as_selfElevationBlocked = True\<rparr>
      else boundary)"

section \<open>Rollback\<close>

definition createStaticRollbackCapabilityRegistry :: "RollbackCapability list" where
  "createStaticRollbackCapabilityRegistry = [RollbackFull, RollbackPartial, RollbackNone, RollbackUnknown]"

definition validateRollbackCapability :: "RollbackCapability \<Rightarrow> bool" where
  "validateRollbackCapability v \<longleftrightarrow> v \<in> set createStaticRollbackCapabilityRegistry"

fun containmentOrder :: "ContainmentZone \<Rightarrow> nat" where
  "containmentOrder LOCAL_ONLY = 0"
| "containmentOrder SANDBOX = 1"
| "containmentOrder READ_ONLY = 2"
| "containmentOrder NON_PRODUCTION = 3"
| "containmentOrder PRODUCTION_RESTRICTED = 4"
| "containmentOrder CROSS_TENANT_FORBIDDEN = 5"

fun autonomyOrder :: "MaxAutonomyLevel \<Rightarrow> nat" where
  "autonomyOrder MaxNone = 0"
| "autonomyOrder MaxManualOnly = 1"
| "autonomyOrder MaxApprovalRequired = 2"
| "autonomyOrder MaxSupervised = 3"
| "autonomyOrder MaxBoundedAutonomous = 4"

text \<open>Whether governance is inherited, and the invariants checked.\<close>

definition validateRollbackGovernanceInheritance ::
  "GovernanceSafetyContract \<Rightarrow> GovernanceSafetyContract \<Rightarrow> AutonomySafetyBoundary \<Rightarrow> AutonomySafetyBoundary
   \<Rightarrow> bool \<times> RollbackInvariant list" where
  "validateRollbackGovernanceInheritance forwardGovernance rollbackGovernance forwardAutonomy rollbackAutonomy =
     (let invariants =
        [\<lparr>ri_code = ROLLBACK_GOVERNANCE_INHERITED,
          ri_satisfied = (length (gs_requiredApprovals rollbackGovernance) \<ge> length (gs_requiredApprovals forwardGovernance)),
          ri_reason = ''Rollback approvals must be equal to or stronger than forward approvals.''\<rparr>,
         \<lparr>ri_code = ROLLBACK_CONTAINMENT_PRESERVED,
          ri_satisfied = (containmentOrder (gs_containmentZone rollbackGovernance) \<ge>
            containmentOrder (gs_containmentZone forwardGovernance)),
          ri_reason = ''Rollback containment zone must be equal to or stricter than forward containment.''\<rparr>,
         \<lparr>ri_code = ROLLBACK_AUTONOMY_NOT_ELEVATED,
          ri_satisfied = (autonomyOrder (as_maxAutonomyLevel rollbackAutonomy) \<le>
            autonomyOrder (as_maxAutonomyLevel forwardAutonomy)),
          ri_reason = ''Rollback autonomy cannot exceed forward autonomy permissions.''\<rparr>]
      in (list_all ri_satisfied invariants, invariants))"

definition mergeCapability :: "RollbackCapability \<Rightarrow> ExecutionRiskSignals \<Rightarrow> RollbackCapability" where
  "mergeCapability current s =
     (if sg_rollbackCapability s = RollbackNone \<or> sg_rollbackCapability s = RollbackUnknown
      then sg_rollbackCapability s
      else if current = RollbackFull \<and> sg_rollbackCapability s = RollbackPartial then RollbackPartial
      else current)"

definition enforceRollbackSafety :: "(string \<Rightarrow> string) \<Rightarrow> ExecutionTruthPackage \<Rightarrow> RollbackSafetyContract" where
  "enforceRollbackSafety sha pkg =
     (let signals = rk_stepSignals (tp_riskProfile pkg);
          required = list_ex (\<lambda>s. sg_destructive s \<or> sg_externalSideEffect s) signals;
          rollbackCapability = foldl mergeCapability RollbackFull signals;
          fallbackInvariant =
            \<lparr>ri_code = ROLLBACK_CAPABILITY_REQUIRED,
             ri_satisfied = (\<not> required \<or> validateRollbackCapability rollbackCapability \<and>
               rollbackCapability \<noteq> RollbackNone \<and> rollbackCapability \<noteq> RollbackUnknown),
             ri_reason = ''Destructive or side-effecting plans require deterministic rollback capability.''\<rparr>;
          forwardGovernance = enforceGovernanceSafety sha pkg;
          rollbackGovernance = forwardGovernance;
          forwardAutonomy = buildSafetyAutonomyEnvelope pkg;
          rollbackAutonomy = forwardAutonomy\<lparr>as_maxAutonomyLevel :=
            (if as_maxAutonomyLevel forwardAutonomy = MaxBoundedAutonomous then MaxSupervised
             else as_maxAutonomyLevel forwardAutonomy)\<rparr>;
          (governanceInherited, invariants) =
            validateRollbackGovernanceInheritance forwardGovernance rollbackGovernance forwardAutonomy rollbackAutonomy
      in \<lparr>rb_required = required, rb_rollbackCapability = rollbackCapability,
          rb_invariants = fallbackInvariant # invariants, rb_governanceInherited = governanceInherited\<rparr>)"

section \<open>Approvals, escalation and freezing\<close>

definition enforceApprovalSafety :: "ExecutionTruthPackage \<Rightarrow> ApprovalSafetyRequirement list" where
  "enforceApprovalSafety pkg =
     (let requirements = map (\<lambda>approval. \<lparr>ar_required = True, ar_approvalTypes = [approval],
            ar_reason = ''Approval required for '' @ approval @ ''.''\<rparr>)
            (ge_requiredApprovals (tp_governanceEnvelope pkg))
      in if requirements = [] \<and> rk_overallRisk (tp_riskProfile pkg) = R4_HIGH
         then [\<lparr>ar_required = True, ar_approvalTypes = [''high_risk''],
                ar_reason = ''High-risk plans require explicit approval.''\<rparr>]
         else requirements)"

definition determineExecutionEscalationLevel ::
  "ExecutionTruthPackage \<Rightarrow> RollbackSafetyContract \<Rightarrow> ExecutionEscalationLevel" where
  "determineExecutionEscalationLevel pkg rollbackSafety =
     (let risk = rk_overallRisk (tp_riskProfile pkg) in
      if risk = R6_FORBIDDEN then CRITICAL
      else if risk = R5_CRITICAL \<or> rb_rollbackCapability rollbackSafety = RollbackNone then HIGH
      else if risk = R4_HIGH \<or> rb_rollbackCapability rollbackSafety = RollbackUnknown then MEDIUM
      else if ge_escalationRequired (tp_governanceEnvelope pkg) then LOW
      else NONE)"

definition rollback_missing :: "RollbackSafetyContract \<Rightarrow> bool" where
  "rollback_missing rollback \<longleftrightarrow> rb_required rollback \<and>
     (rb_rollbackCapability rollback = RollbackNone \<or> rb_rollbackCapability rollback = RollbackUnknown)"

definition determineExecutionFreezeReasons :: "ExecutionSafetyContract \<Rightarrow> ExecutionFreezeReason list" where
  "determineExecutionFreezeReasons contract =
     (if gs_blockedReasons (xs_governance contract) \<noteq> [] then [GOVERNANCE_BLOCKED] else []) @
     (if rollback_missing (xs_rollback contract) then [ROLLBACK_MISSING] else []) @
     (if xs_policyLocks contract = [] then [POLICY_LOCK_MISSING] else []) @
     (if xs_containmentZone contract = CROSS_TENANT_FORBIDDEN then [CONTAINMENT_VIOLATION] else [])"

section \<open>Building the contract\<close>

definition classifyState :: "ExecutionSafetyContract \<Rightarrow> ExecutionSafetyState" where
  "classifyState contract =
     (if xs_freezeReasons contract \<noteq> [] then FROZEN
      else if gs_blockedReasons (xs_governance contract) \<noteq> [] then BLOCKED
      else if rollback_missing (xs_rollback contract) then ROLLBACK_REQUIRED
      else if list_ex ar_required (xs_approvals contract) then APPROVAL_REQUIRED
      else if as_selfElevationBlocked (xs_autonomy contract) then RESTRICTED
      else SAFE)"

definition provisionalContract :: "(string \<Rightarrow> string) \<Rightarrow> ExecutionTruthPackage \<Rightarrow> ExecutionSafetyContract" where
  "provisionalContract sha pkg =
     (let governance = enforceGovernanceSafety sha pkg;
          rollback = enforceRollbackSafety sha pkg
      in \<lparr>xs_planId = tp_planId pkg, xs_executionTruthHash = tp_executionTruthHash pkg,
          xs_dependencyGraphFingerprint = tp_dependencyGraphFingerprint pkg,
          xs_executionSafetyState = SAFE, xs_governance = governance, xs_rollback = rollback,
          xs_approvals = enforceApprovalSafety pkg, xs_autonomy = enforceAutonomyBoundary pkg,
          xs_freezeReasons = [], xs_escalationLevel = determineExecutionEscalationLevel pkg rollback,
          xs_containmentZone = gs_containmentZone governance, xs_policyLocks = resolvePolicyLocks sha None,
          xs_replaySourceHash = re_replayHash (tp_replayEnvelope pkg), xs_executionSafetyHash = None\<rparr>)"

definition contractOf :: "(string \<Rightarrow> string) \<Rightarrow> ExecutionTruthPackage \<Rightarrow> ExecutionSafetyContract" where
  "contractOf sha pkg =
     (let contract = provisionalContract sha pkg;
          frozen = contract\<lparr>xs_freezeReasons := determineExecutionFreezeReasons contract\<rparr>
      in frozen\<lparr>xs_executionSafetyState := classifyState frozen\<rparr>)"

text \<open>The package given or, when there is none, the one computed from the plan, if it is authorized.\<close>

definition truthOfInput ::
  "(string \<Rightarrow> string \<Rightarrow> int) \<Rightarrow> (string \<Rightarrow> string) \<Rightarrow> ExecutionSafetyBuildInput \<Rightarrow> TruthArtifact option option" where
  "truthOfInput lc sha input =
     (case bi_executionTruthPackage input of
        Some artifact \<Rightarrow> Some (Some artifact)
      | None \<Rightarrow> do {
          truth \<leftarrow> validateExecutionTruth lc sha (BuildInput (Some (bi_normalizedPlan input)) None);
          Some (case truth of TruthOk _ pkg \<Rightarrow> Some (artifactOf pkg) | TruthFailed _ _ \<Rightarrow> None)
        })"

text \<open>The guards on a package, in their order; the first that fails gives the violation.\<close>

definition packageOf :: "TruthArtifact \<Rightarrow> ExecutionSafetyViolation + ExecutionTruthPackage" where
  "packageOf a =
     (if ta_executionTruthHash a = [] then
        Inl (createExecutionSafetyViolation EXECUTION_TRUTH_HASH_MISSING
          ''Execution truth hash is required for execution safety.'' None)
      else case ta_governanceEnvelope a of
        None \<Rightarrow> Inl (createExecutionSafetyViolation EXECUTION_GOVERNANCE_MISSING
          ''Execution truth governance envelope is required.'' None)
      | Some governance \<Rightarrow> (case ta_riskProfile a of
          None \<Rightarrow> Inl (createExecutionSafetyViolation EXECUTION_SAFETY_INPUT_INVALID
            ''Execution truth risk profile is required.'' None)
        | Some profile \<Rightarrow> (case ta_autonomyEnvelope a of
            None \<Rightarrow> Inl (createExecutionSafetyViolation EXECUTION_AUTONOMY_BOUNDARY_VIOLATION
              ''Execution truth autonomy envelope is required.'' None)
          | Some autonomy \<Rightarrow> Inr
              \<lparr>tp_planId = ta_planId a, tp_dependencyGraphFingerprint = ta_dependencyGraphFingerprint a,
               tp_riskProfile = profile, tp_governanceEnvelope = governance, tp_autonomyEnvelope = autonomy,
               tp_replayEnvelope = ta_replayEnvelope a, tp_executionTruthHash = ta_executionTruthHash a,
               tp_authorized = ta_authorized a\<rparr>)))"

definition buildExecutionSafetyContract ::
  "(string \<Rightarrow> string \<Rightarrow> int) \<Rightarrow> (string \<Rightarrow> string) \<Rightarrow> ExecutionSafetyBuildInput
   \<Rightarrow> (ExecutionSafetyViolation list + ExecutionSafetyContract) option" where
  "buildExecutionSafetyContract lc sha input = do {
     truth \<leftarrow> truthOfInput lc sha input;
     Some (case truth of
       None \<Rightarrow> Inl [createExecutionSafetyViolation EXECUTION_TRUTH_REQUIRED
         ''Execution truth artifact is required before building execution safety.'' None]
     | Some artifact \<Rightarrow> (case packageOf artifact of
         Inl violation \<Rightarrow> Inl [violation]
       | Inr pkg \<Rightarrow> Inr (contractOf sha pkg)))
   }"

section \<open>The hash\<close>

fun safety_state_str :: "ExecutionSafetyState \<Rightarrow> string" where
  "safety_state_str SAFE = ''SAFE''"
| "safety_state_str RESTRICTED = ''RESTRICTED''"
| "safety_state_str APPROVAL_REQUIRED = ''APPROVAL_REQUIRED''"
| "safety_state_str ROLLBACK_REQUIRED = ''ROLLBACK_REQUIRED''"
| "safety_state_str FROZEN = ''FROZEN''"
| "safety_state_str DISPUTED = ''DISPUTED''"
| "safety_state_str BLOCKED = ''BLOCKED''"

fun zone_str :: "ContainmentZone \<Rightarrow> string" where
  "zone_str LOCAL_ONLY = ''LOCAL_ONLY''"
| "zone_str SANDBOX = ''SANDBOX''"
| "zone_str READ_ONLY = ''READ_ONLY''"
| "zone_str NON_PRODUCTION = ''NON_PRODUCTION''"
| "zone_str PRODUCTION_RESTRICTED = ''PRODUCTION_RESTRICTED''"
| "zone_str CROSS_TENANT_FORBIDDEN = ''CROSS_TENANT_FORBIDDEN''"

fun freeze_str :: "ExecutionFreezeReason \<Rightarrow> string" where
  "freeze_str GOVERNANCE_BLOCKED = ''GOVERNANCE_BLOCKED''"
| "freeze_str ROLLBACK_MISSING = ''ROLLBACK_MISSING''"
| "freeze_str REPLAY_DIVERGENCE = ''REPLAY_DIVERGENCE''"
| "freeze_str POLICY_LOCK_MISSING = ''POLICY_LOCK_MISSING''"
| "freeze_str DISPUTED_STATE = ''DISPUTED_STATE''"
| "freeze_str CONTAINMENT_VIOLATION = ''CONTAINMENT_VIOLATION''"

fun escalation_str :: "ExecutionEscalationLevel \<Rightarrow> string" where
  "escalation_str NONE = ''NONE''"
| "escalation_str LOW = ''LOW''"
| "escalation_str MEDIUM = ''MEDIUM''"
| "escalation_str HIGH = ''HIGH''"
| "escalation_str CRITICAL = ''CRITICAL''"

fun invariant_str :: "RollbackInvariantCode \<Rightarrow> string" where
  "invariant_str ROLLBACK_CAPABILITY_REQUIRED = ''ROLLBACK_CAPABILITY_REQUIRED''"
| "invariant_str ROLLBACK_GOVERNANCE_INHERITED = ''ROLLBACK_GOVERNANCE_INHERITED''"
| "invariant_str ROLLBACK_CONTAINMENT_PRESERVED = ''ROLLBACK_CONTAINMENT_PRESERVED''"
| "invariant_str ROLLBACK_AUTONOMY_NOT_ELEVATED = ''ROLLBACK_AUTONOMY_NOT_ELEVATED''"

definition lock_json :: "PolicyLockSnapshot \<Rightarrow> json" where
  "lock_json l = JObj
     [(''policyId'', JStr (pl_policyId l)), (''policyVersion'', JStr (pl_policyVersion l)),
      (''policyHash'', JStr (pl_policyHash l)),
      (''enforcementMode'', JStr (enforcement_str (pl_enforcementMode l)))]"

definition invariant_json :: "RollbackInvariant \<Rightarrow> json" where
  "invariant_json i = JObj
     [(''code'', JStr (invariant_str (ri_code i))), (''satisfied'', JBool (ri_satisfied i)),
      (''reason'', JStr (ri_reason i))]"

definition governance_safety_json :: "GovernanceSafetyContract \<Rightarrow> json" where
  "governance_safety_json g = JObj
     [(''allowed'', JBool (gs_allowed g)), (''requiredApprovals'', str_arr (gs_requiredApprovals g)),
      (''blockedReasons'', str_arr (gs_blockedReasons g)), (''escalationRequired'', JBool (gs_escalationRequired g)),
      (''policyLocks'', JArr (map lock_json (gs_policyLocks g))),
      (''containmentZone'', JStr (zone_str (gs_containmentZone g)))]"

definition rollback_safety_json :: "RollbackSafetyContract \<Rightarrow> json" where
  "rollback_safety_json r = JObj
     [(''required'', JBool (rb_required r)),
      (''rollbackCapability'', JStr (rollback_str (rb_rollbackCapability r))),
      (''invariants'', JArr (map invariant_json (rb_invariants r))),
      (''governanceInherited'', JBool (rb_governanceInherited r))]"

definition approval_json :: "ApprovalSafetyRequirement \<Rightarrow> json" where
  "approval_json a = JObj
     [(''required'', JBool (ar_required a)), (''approvalTypes'', str_arr (ar_approvalTypes a)),
      (''reason'', JStr (ar_reason a))]"

definition boundary_json :: "AutonomySafetyBoundary \<Rightarrow> json" where
  "boundary_json b = JObj
     [(''maxAutonomyLevel'', JStr (max_autonomy_str (as_maxAutonomyLevel b))),
      (''downgradeReasons'', str_arr (as_downgradeReasons b)),
      (''selfElevationBlocked'', JBool (as_selfElevationBlocked b))]"

definition contract_payload :: "ExecutionSafetyContract \<Rightarrow> json" where
  "contract_payload c = JObj
     [(''planId'', JStr (xs_planId c)), (''executionTruthHash'', JStr (xs_executionTruthHash c)),
      (''dependencyGraphFingerprint'', JStr (xs_dependencyGraphFingerprint c)),
      (''executionSafetyState'', JStr (safety_state_str (xs_executionSafetyState c))),
      (''governance'', governance_safety_json (xs_governance c)),
      (''rollback'', rollback_safety_json (xs_rollback c)),
      (''approvals'', JArr (map approval_json (xs_approvals c))),
      (''autonomy'', boundary_json (xs_autonomy c)),
      (''freezeReasons'', str_arr (map freeze_str (xs_freezeReasons c))),
      (''escalationLevel'', JStr (escalation_str (xs_escalationLevel c))),
      (''containmentZone'', JStr (zone_str (xs_containmentZone c))),
      (''policyLocks'', JArr (map lock_json (xs_policyLocks c))),
      (''replaySourceHash'', JStr (xs_replaySourceHash c))]"

definition hashExecutionSafetyContract ::
  "(string \<Rightarrow> string \<Rightarrow> int) \<Rightarrow> (string \<Rightarrow> string) \<Rightarrow> ExecutionSafetyContract \<Rightarrow> string" where
  "hashExecutionSafetyContract lc sha c =
     hashPayloadDeterministically sha (members (reparse_serialized lc (contract_payload c)))"

section \<open>The replay check\<close>

definition replayValidateExecutionSafety ::
  "(string \<Rightarrow> string \<Rightarrow> int) \<Rightarrow> (string \<Rightarrow> string) \<Rightarrow> NormalizedPlan \<Rightarrow> TruthArtifact \<Rightarrow> ExecutionSafetyContract
   \<Rightarrow> ExecutionSafetyValidationResult option" where
  "replayValidateExecutionSafety lc sha plan artifact contract = do {
     rebuilt \<leftarrow> buildExecutionSafetyContract lc sha
       \<lparr>bi_normalizedPlan = plan, bi_executionTruthPackage = Some artifact\<rparr>;
     Some (case rebuilt of
       Inl _ \<Rightarrow> SafetyFailed None None
         [createExecutionSafetyViolation EXECUTION_SAFETY_REPLAY_DIVERGENCE ''Execution safety replay rebuild failed.'' None]
         BLOCKED
     | Inr fresh \<Rightarrow>
         let replayHash = hashExecutionSafetyContract lc sha fresh in
         if Some replayHash \<noteq> xs_executionSafetyHash contract then
           SafetyFailed (Some contract) (xs_executionSafetyHash contract)
             [createExecutionSafetyViolation EXECUTION_SAFETY_HASH_MISMATCH ''Execution safety replay hash diverged.'' None]
             BLOCKED
         else SafetyOk contract replayHash [] (xs_executionSafetyState contract))
   }"

section \<open>The state machine\<close>

record TransitionContext =
  tc_governanceCleared :: "bool option"
  tc_replayValidated :: "bool option"
  tc_approvalCleared :: "bool option"

definition transition_violation :: "string \<Rightarrow> ExecutionSafetyViolation" where
  "transition_violation message =
     createExecutionSafetyViolation EXECUTION_SAFETY_STATE_TRANSITION_INVALID message None"

text \<open>The violation of a refused transition.\<close>

definition validateExecutionSafetyTransition ::
  "ExecutionSafetyState \<Rightarrow> ExecutionSafetyState \<Rightarrow> TransitionContext \<Rightarrow> ExecutionSafetyViolation option" where
  "validateExecutionSafetyTransition from_state to context =
     (if from_state = to then None
      else if from_state = BLOCKED \<and> to = SAFE then
        Some (transition_violation ''Blocked state cannot become SAFE inside 4.2F.'')
      else if from_state = APPROVAL_REQUIRED \<and> to = SAFE \<and> \<not> js_default False (tc_approvalCleared context) then
        Some (transition_violation ''Approval-required state cannot become SAFE without approval clearance.'')
      else if from_state = FROZEN \<and> to = SAFE \<and> \<not> js_default False (tc_governanceCleared context) then
        Some (transition_violation ''Frozen state cannot become SAFE without governance clearance.'')
      else if from_state = DISPUTED \<and> to = SAFE \<and>
          (\<not> js_default False (tc_governanceCleared context) \<or> \<not> js_default False (tc_replayValidated context)) then
        Some (transition_violation
          ''Disputed state cannot become SAFE without governance clearance and replay validation.'')
      else None)"

text \<open>One accepted transition.\<close>

inductive safety_step :: "TransitionContext \<Rightarrow> ExecutionSafetyState \<Rightarrow> ExecutionSafetyState \<Rightarrow> bool" where
  accepted: "validateExecutionSafetyTransition s t context = None \<Longrightarrow> safety_step context s t"

inductive_simps safety_step_iff: "safety_step context s t"

section \<open>The validator\<close>

definition violation_if :: "bool \<Rightarrow> ExecutionSafetyViolationCode \<Rightarrow> string \<Rightarrow> ExecutionSafetyViolation list" where
  "violation_if condition code message = (if condition then [createExecutionSafetyViolation code message None] else [])"

text \<open>The violations of a built contract, in the order of the checks.\<close>

definition contractViolations :: "ExecutionSafetyContract \<Rightarrow> ExecutionSafetyViolation list" where
  "contractViolations c =
     violation_if (xs_executionTruthHash c = []) EXECUTION_TRUTH_HASH_MISSING
       ''Execution truth hash is required.'' @
     violation_if (gs_policyLocks (xs_governance c) = []) EXECUTION_POLICY_LOCK_MISSING
       ''Execution policy locks are required.'' @
     violation_if (gs_blockedReasons (xs_governance c) \<noteq> []) EXECUTION_GOVERNANCE_MISSING
       ''Governance blocked execution safety contract.'' @
     violation_if (rb_required (xs_rollback c) \<and> list_ex (\<lambda>i. \<not> ri_satisfied i) (rb_invariants (xs_rollback c)))
       EXECUTION_ROLLBACK_INVARIANT_MISSING ''Rollback invariants are incomplete or weakened.'' @
     violation_if (list_ex ar_required (xs_approvals c)) EXECUTION_APPROVAL_REQUIRED
       ''Execution safety requires explicit approval.'' @
     violation_if (as_selfElevationBlocked (xs_autonomy c) \<and>
         as_maxAutonomyLevel (xs_autonomy c) = MaxBoundedAutonomous) EXECUTION_AUTONOMY_BOUNDARY_VIOLATION
       ''Autonomy boundary self-elevation was detected.'' @
     violation_if (xs_containmentZone c = CROSS_TENANT_FORBIDDEN) EXECUTION_CONTAINMENT_VIOLATION
       ''Containment zone is cross-tenant forbidden.'' @
     violation_if (xs_freezeReasons c \<noteq> []) EXECUTION_FREEZE_REQUIRED
       ''Execution safety contract requires freeze handling.''"

definition validateExecutionSafety ::
  "(string \<Rightarrow> string \<Rightarrow> int) \<Rightarrow> (string \<Rightarrow> string) \<Rightarrow> ExecutionSafetyBuildInput
   \<Rightarrow> ExecutionSafetyValidationResult option" where
  "validateExecutionSafety lc sha input = do {
     truth \<leftarrow> truthOfInput lc sha input;
     case truth of
       None \<Rightarrow> Some (SafetyFailed None None
         [createExecutionSafetyViolation EXECUTION_TRUTH_REQUIRED
            ''Execution truth is required before execution safety validation.'' None] BLOCKED)
     | Some artifact \<Rightarrow> do {
         built \<leftarrow> buildExecutionSafetyContract lc sha (input\<lparr>bi_executionTruthPackage := Some artifact\<rparr>);
         case built of
           Inl violations \<Rightarrow> Some (SafetyFailed None None violations BLOCKED)
         | Inr contract \<Rightarrow> do {
             let hash = hashExecutionSafetyContract lc sha contract;
             let hashedContract = contract\<lparr>xs_executionSafetyHash := Some hash\<rparr>;
             let transition = validateExecutionSafetyTransition SAFE (xs_executionSafetyState hashedContract)
               \<lparr>tc_governanceCleared = Some False, tc_replayValidated = Some True, tc_approvalCleared = Some False\<rparr>;
             replay \<leftarrow> replayValidateExecutionSafety lc sha (bi_normalizedPlan input) artifact hashedContract;
             let violations = contractViolations contract @
               (case transition of None \<Rightarrow> [] | Some violation \<Rightarrow> [violation]) @
               (case replay of SafetyFailed _ _ vs _ \<Rightarrow> vs | SafetyOk _ _ _ _ \<Rightarrow> []);
             Some (if violations \<noteq> []
               then SafetyFailed (Some hashedContract) (Some hash) violations (xs_executionSafetyState hashedContract)
               else SafetyOk hashedContract hash [] (xs_executionSafetyState hashedContract))
           }
       }
   }"

end
