(* ===== verification/SafetyProperties.thy ===== *)
theory SafetyProperties
  imports ExecutionSafety TruthProperties
begin

text \<open>
  What execution safety guarantees: the exact verdict on a supplied package and on a plan, the state a
  contract is put in, the rollback capability of a plan, what the replay check compares and what the
  state machine refuses.
\<close>

section \<open>Facts about the engines\<close>

definition unrecoverable :: "ExecutionRiskSignals \<Rightarrow> bool" where
  "unrecoverable s \<longleftrightarrow> sg_rollbackCapability s = RollbackNone \<or> sg_rollbackCapability s = RollbackUnknown"

lemma mergeCapability_unrecoverable:
  "mergeCapability current s =
     (if unrecoverable s then sg_rollbackCapability s
      else if current = RollbackFull \<and> sg_rollbackCapability s = RollbackPartial then RollbackPartial else current)"
  by (simp add: mergeCapability_def unrecoverable_def)

lemma last_unrecoverable:
  assumes "filter unrecoverable signals = bad # bads"
  shows "unrecoverable (last (bad # bads))"
proof -
  have "last (bad # bads) \<in> set (filter unrecoverable signals)" unfolding assms by simp
  then show ?thesis by simp
qed

lemma foldl_mergeCapability:
  "foldl mergeCapability RollbackFull signals =
     (case filter unrecoverable signals of
        [] \<Rightarrow> if list_ex (\<lambda>s. sg_rollbackCapability s = RollbackPartial) signals then RollbackPartial else RollbackFull
      | bad # bads \<Rightarrow> sg_rollbackCapability (last (bad # bads)))"
proof (induction signals rule: rev_induct)
  case (snoc s signals)
  show ?case
  proof (cases "filter unrecoverable signals")
    case Nil
    then have fold: "foldl mergeCapability RollbackFull signals =
        (if list_ex (\<lambda>s. sg_rollbackCapability s = RollbackPartial) signals then RollbackPartial else RollbackFull)"
      using snoc by simp
    show ?thesis
      by (cases "unrecoverable s") (auto simp: fold Nil mergeCapability_unrecoverable[of _ s])
  next
    case (Cons bad bads)
    then have "unrecoverable (last (bad # bads))" by (rule last_unrecoverable)
    then have "sg_rollbackCapability (last (bad # bads)) \<noteq> RollbackFull" by (auto simp: unrecoverable_def)
    then show ?thesis using snoc Cons by (auto simp: mergeCapability_unrecoverable[of _ s])
  qed
qed simp

lemma capability_bad_iff:
  "foldl mergeCapability RollbackFull signals \<in> {RollbackNone, RollbackUnknown} \<longleftrightarrow> list_ex unrecoverable signals"
proof (cases "filter unrecoverable signals")
  case Nil
  then show ?thesis unfolding foldl_mergeCapability by (auto simp: filter_empty_conv list_ex_iff)
next
  case (Cons bad bads)
  then have "unrecoverable (last (bad # bads))" by (rule last_unrecoverable)
  moreover have "bad \<in> set (filter unrecoverable signals)" by (simp add: Cons)
  then have "list_ex unrecoverable signals" by (auto simp: list_ex_iff)
  ultimately show ?thesis unfolding foldl_mergeCapability Cons by (auto simp: unrecoverable_def)
qed

lemma rollback_simps [simp]:
  "rb_required (enforceRollbackSafety sha pkg) \<longleftrightarrow>
     list_ex (\<lambda>s. sg_destructive s \<or> sg_externalSideEffect s) (rk_stepSignals (tp_riskProfile pkg))"
  "rb_rollbackCapability (enforceRollbackSafety sha pkg) =
     foldl mergeCapability RollbackFull (rk_stepSignals (tp_riskProfile pkg))"
  by (simp_all add: enforceRollbackSafety_def Let_def case_prod_beta)

text \<open>The rollback of a plan is governed, contained and capped like its forward execution.\<close>

lemma rollback_inherits:
  "rb_governanceInherited (enforceRollbackSafety sha pkg)"
  "\<forall>i \<in> set (tl (rb_invariants (enforceRollbackSafety sha pkg))). ri_satisfied i"
  by (simp_all add: enforceRollbackSafety_def validateRollbackGovernanceInheritance_def Let_def)

lemma rollback_missing_iff:
  "rollback_missing (enforceRollbackSafety sha pkg) \<longleftrightarrow>
     list_ex (\<lambda>s. sg_destructive s \<or> sg_externalSideEffect s) (rk_stepSignals (tp_riskProfile pkg)) \<and>
     list_ex unrecoverable (rk_stepSignals (tp_riskProfile pkg))"
  using capability_bad_iff[of "rk_stepSignals (tp_riskProfile pkg)"] by (auto simp: rollback_missing_def)

lemma rollback_invariant_broken:
  "rb_required (enforceRollbackSafety sha pkg) \<and>
     list_ex (\<lambda>i. \<not> ri_satisfied i) (rb_invariants (enforceRollbackSafety sha pkg)) \<longleftrightarrow>
   rollback_missing (enforceRollbackSafety sha pkg)"
proof -
  have "validateRollbackCapability c" for c
    by (cases c) (simp_all add: validateRollbackCapability_def createStaticRollbackCapabilityRegistry_def)
  then show ?thesis
    by (auto simp: rollback_missing_def enforceRollbackSafety_def validateRollbackGovernanceInheritance_def Let_def)
qed

lemma policy_locks_present [simp]: "resolvePolicyLocks sha None \<noteq> []"
  by (simp add: resolvePolicyLocks_def createStaticExecutionPolicyRegistry_def)

lemma zone_not_cross_tenant [simp]: "resolveContainmentZone pkg \<noteq> CROSS_TENANT_FORBIDDEN"
  by (simp add: resolveContainmentZone_def Let_def)

lemma boundary_consistent:
  "as_selfElevationBlocked (enforceAutonomyBoundary pkg) \<longleftrightarrow>
     as_maxAutonomyLevel (enforceAutonomyBoundary pkg) \<noteq> MaxBoundedAutonomous"
  by (simp add: enforceAutonomyBoundary_def buildSafetyAutonomyEnvelope_def Let_def)

lemma approvals_required:
  "list_ex ar_required (enforceApprovalSafety pkg) \<longleftrightarrow>
     ge_requiredApprovals (tp_governanceEnvelope pkg) \<noteq> [] \<or> rk_overallRisk (tp_riskProfile pkg) = R4_HIGH"
  by (cases "ge_requiredApprovals (tp_governanceEnvelope pkg)")
    (auto simp: enforceApprovalSafety_def list_ex_iff)

section \<open>The contract\<close>

lemma contractOf_simps [simp]:
  "xs_executionTruthHash (contractOf sha pkg) = tp_executionTruthHash pkg"
  "xs_governance (contractOf sha pkg) = enforceGovernanceSafety sha pkg"
  "xs_rollback (contractOf sha pkg) = enforceRollbackSafety sha pkg"
  "xs_approvals (contractOf sha pkg) = enforceApprovalSafety pkg"
  "xs_autonomy (contractOf sha pkg) = enforceAutonomyBoundary pkg"
  "xs_containmentZone (contractOf sha pkg) = resolveContainmentZone pkg"
  "xs_policyLocks (contractOf sha pkg) = resolvePolicyLocks sha None"
  by (simp_all add: contractOf_def provisionalContract_def enforceGovernanceSafety_def Let_def)

lemma governance_simps [simp]:
  "gs_policyLocks (enforceGovernanceSafety sha pkg) = resolvePolicyLocks sha None"
  "gs_blockedReasons (enforceGovernanceSafety sha pkg) = [] \<longleftrightarrow>
     ge_blockedReasons (tp_governanceEnvelope pkg) = [] \<and> tp_executionTruthHash pkg \<noteq> []"
  by (simp_all add: enforceGovernanceSafety_def Let_def)

definition governance_blocks :: "ExecutionTruthPackage \<Rightarrow> bool" where
  "governance_blocks pkg \<longleftrightarrow> ge_blockedReasons (tp_governanceEnvelope pkg) \<noteq> [] \<or> tp_executionTruthHash pkg = []"

definition effect_unrecoverable :: "ExecutionTruthPackage \<Rightarrow> bool" where
  "effect_unrecoverable pkg \<longleftrightarrow>
     list_ex (\<lambda>s. sg_destructive s \<or> sg_externalSideEffect s) (rk_stepSignals (tp_riskProfile pkg)) \<and>
     list_ex unrecoverable (rk_stepSignals (tp_riskProfile pkg))"

definition approval_needed :: "ExecutionTruthPackage \<Rightarrow> bool" where
  "approval_needed pkg \<longleftrightarrow>
     ge_requiredApprovals (tp_governanceEnvelope pkg) \<noteq> [] \<or> rk_overallRisk (tp_riskProfile pkg) = R4_HIGH"

definition autonomy_capped :: "ExecutionTruthPackage \<Rightarrow> bool" where
  "autonomy_capped pkg \<longleftrightarrow> ae_maxAutonomyLevel (tp_autonomyEnvelope pkg) \<noteq> MaxBoundedAutonomous \<or>
     list_ex (\<lambda>s. sg_autonomySensitivity s = SensitivityCritical) (rk_stepSignals (tp_riskProfile pkg))"

lemma freeze_reasons:
  "xs_freezeReasons (contractOf sha pkg) \<noteq> [] \<longleftrightarrow> governance_blocks pkg \<or> effect_unrecoverable pkg"
  by (simp add: contractOf_def provisionalContract_def determineExecutionFreezeReasons_def Let_def
      governance_blocks_def effect_unrecoverable_def rollback_missing_iff enforceGovernanceSafety_def)

lemma self_elevation: "as_selfElevationBlocked (enforceAutonomyBoundary pkg) \<longleftrightarrow> autonomy_capped pkg"
  by (simp add: enforceAutonomyBoundary_def buildSafetyAutonomyEnvelope_def Let_def autonomy_capped_def)

lemma contract_state:
  "xs_executionSafetyState (contractOf sha pkg) =
     (if governance_blocks pkg \<or> effect_unrecoverable pkg then FROZEN
      else if approval_needed pkg then APPROVAL_REQUIRED
      else if autonomy_capped pkg then RESTRICTED
      else SAFE)"
proof -
  have "xs_executionSafetyState (contractOf sha pkg) = classifyState (contractOf sha pkg)"
    by (simp add: contractOf_def classifyState_def Let_def)
  then show ?thesis
    unfolding classifyState_def freeze_reasons contractOf_simps governance_simps(2) rollback_missing_iff
      approvals_required self_elevation
    by (auto simp: governance_blocks_def effect_unrecoverable_def approval_needed_def)
qed

lemma violations_Nil:
  "contractViolations (contractOf sha pkg) = [] \<longleftrightarrow>
     \<not> governance_blocks pkg \<and> \<not> effect_unrecoverable pkg \<and> \<not> approval_needed pkg"
  unfolding contractViolations_def contractOf_simps rollback_invariant_broken governance_simps rollback_missing_iff
    approvals_required freeze_reasons boundary_consistent violation_if_def
  by (auto simp: governance_blocks_def effect_unrecoverable_def approval_needed_def)

section \<open>The validator and the replay check\<close>

lemma transition_from_safe [simp]: "validateExecutionSafetyTransition SAFE t context = None"
  by (simp add: validateExecutionSafetyTransition_def)

lemma build_supplied:
  "buildExecutionSafetyContract lc sha \<lparr>bi_normalizedPlan = plan, bi_executionTruthPackage = Some artifact\<rparr> =
     Some (case packageOf artifact of Inl v \<Rightarrow> Inl [v] | Inr pkg \<Rightarrow> Inr (contractOf sha pkg))"
  by (simp add: buildExecutionSafetyContract_def truthOfInput_def)

lemma replay_supplied:
  "replayValidateExecutionSafety lc sha plan artifact contract =
     Some (case packageOf artifact of
       Inl v \<Rightarrow> SafetyFailed None None
         [createExecutionSafetyViolation EXECUTION_SAFETY_REPLAY_DIVERGENCE ''Execution safety replay rebuild failed.'' None]
         BLOCKED
     | Inr pkg \<Rightarrow>
         if Some (hashExecutionSafetyContract lc sha (contractOf sha pkg)) \<noteq> xs_executionSafetyHash contract then
           SafetyFailed (Some contract) (xs_executionSafetyHash contract)
             [createExecutionSafetyViolation EXECUTION_SAFETY_HASH_MISMATCH ''Execution safety replay hash diverged.'' None]
             BLOCKED
         else SafetyOk contract (hashExecutionSafetyContract lc sha (contractOf sha pkg)) []
           (xs_executionSafetyState contract))"
  by (simp add: replayValidateExecutionSafety_def build_supplied Let_def split: sum.split)

text \<open>The contract of a package with its hash, and the verdict on it.\<close>

definition sealedContract ::
  "(string \<Rightarrow> string \<Rightarrow> int) \<Rightarrow> (string \<Rightarrow> string) \<Rightarrow> ExecutionTruthPackage \<Rightarrow> ExecutionSafetyContract" where
  "sealedContract lc sha pkg =
     (contractOf sha pkg)\<lparr>xs_executionSafetyHash := Some (hashExecutionSafetyContract lc sha (contractOf sha pkg))\<rparr>"

lemma sealed_simps [simp]:
  "xs_executionSafetyHash (sealedContract lc sha pkg) = Some (hashExecutionSafetyContract lc sha (contractOf sha pkg))"
  "xs_executionSafetyState (sealedContract lc sha pkg) = xs_executionSafetyState (contractOf sha pkg)"
  by (simp_all add: sealedContract_def)

lemma validate_artifact:
  assumes "truthOfInput lc sha input = Some (Some artifact)"
  shows "validateExecutionSafety lc sha input =
     Some (case packageOf artifact of
       Inl v \<Rightarrow> SafetyFailed None None [v] BLOCKED
     | Inr pkg \<Rightarrow>
         if contractViolations (contractOf sha pkg) \<noteq> [] then
           SafetyFailed (Some (sealedContract lc sha pkg)) (Some (hashExecutionSafetyContract lc sha (contractOf sha pkg)))
             (contractViolations (contractOf sha pkg)) (xs_executionSafetyState (contractOf sha pkg))
         else SafetyOk (sealedContract lc sha pkg) (hashExecutionSafetyContract lc sha (contractOf sha pkg)) []
           (xs_executionSafetyState (contractOf sha pkg)))"
proof -
  have supplied: "input\<lparr>bi_executionTruthPackage := Some artifact\<rparr> =
      \<lparr>bi_normalizedPlan = bi_normalizedPlan input, bi_executionTruthPackage = Some artifact\<rparr>"
    by (cases input) simp
  show ?thesis
    unfolding validateExecutionSafety_def assms Option.bind.bind_lunit option.case supplied build_supplied
    by (cases "packageOf artifact") (simp_all add: Let_def replay_supplied sealedContract_def)
qed

lemma packageOf_artifactOf [simp]: "tp_executionTruthHash pkg \<noteq> [] \<Longrightarrow> packageOf (artifactOf pkg) = Inr pkg"
  by (simp add: packageOf_def artifactOf_def)

section \<open>The approvals of an authorized package\<close>

definition asks_approval :: "ExecutionRiskSignals \<Rightarrow> bool" where
  "asks_approval s \<longleftrightarrow> sg_targetEnvironment s = EnvProduction \<or> unrecoverable s \<or>
     sg_autonomySensitivity s = SensitivityCritical"

lemma signalApprovals_Nil: "signalApprovals approvals s = [] \<longleftrightarrow> approvals = [] \<and> \<not> asks_approval s"
  by (auto simp: signalApprovals_def Let_def asks_approval_def unrecoverable_def set_add_def)

lemma foldl_signalApprovals_Nil:
  "foldl signalApprovals approvals signals = [] \<longleftrightarrow> approvals = [] \<and> (\<forall>s \<in> set signals. \<not> asks_approval s)"
  by (induction signals arbitrary: approvals) (auto simp: signalApprovals_Nil)

lemma js_sort_Nil: "js_sort lc xs = [] \<longleftrightarrow> xs = []"
  by (metis length_js_sort length_0_conv)

lemma set_add_not_Nil [simp]: "set_add x xs \<noteq> []"
  by (auto simp: set_add_def)

lemma requiredApprovals_Nil:
  "ge_requiredApprovals (buildGovernanceEnvelope lc profile dv) = [] \<longleftrightarrow>
     (\<forall>s \<in> set (rk_stepSignals profile). \<not> asks_approval s) \<and> rk_overallRisk profile \<notin> {R4_HIGH, R5_CRITICAL}"
  by (auto simp: buildGovernanceEnvelope_def Let_def js_sort_Nil foldl_signalApprovals_Nil)

lemma truth_package_fields:
  assumes "validateExecutionTruth lc sha input = Some (TruthOk dv pkg)" and "\<forall>t. sha t \<noteq> []"
  obtains plan where "planOfInput input = Some plan"
    and "rk_stepSignals (tp_riskProfile pkg) = map signalOf (np_steps plan)" and "\<not> governance_blocks pkg"
    and "ge_requiredApprovals (tp_governanceEnvelope pkg) = [] \<longleftrightarrow>
      (\<forall>step \<in> set (np_steps plan). \<not> asks_approval (signalOf step)) \<and>
      rk_overallRisk (tp_riskProfile pkg) \<notin> {R4_HIGH, R5_CRITICAL}"
    and "tp_executionTruthHash pkg \<noteq> []"
proof -
  obtain plan where plan: "planOfInput input = Some plan" "truthOfValidated lc sha plan dv = TruthOk dv pkg"
    using truth_ok_dest[OF assms(1)] by blast
  note facts = truthOfValidated_Ok(3,4)[OF plan(2)]
  have pkg: "tp_riskProfile pkg = riskProfileOf (map signalOf (np_steps plan)) dv"
    "tp_governanceEnvelope pkg = buildGovernanceEnvelope lc (tp_riskProfile pkg) dv"
    and hash: "tp_executionTruthHash pkg \<noteq> []"
    using assms(2) unfolding facts(1)
    by (simp_all add: truthPackage_def Let_def hashExecutionTruth_def hashPayloadDeterministically_def)
  have "ge_blockedReasons (tp_governanceEnvelope pkg) = []"
    using facts(2) unfolding pkg(2) by (simp add: buildGovernanceEnvelope_def Let_def)
  with hash have "\<not> governance_blocks pkg" by (simp add: governance_blocks_def)
  moreover have "rk_stepSignals (tp_riskProfile pkg) = map signalOf (np_steps plan)" by (simp add: pkg(1))
  ultimately show thesis using that[OF plan(1)] hash requiredApprovals_Nil[of lc "tp_riskProfile pkg" dv]
    unfolding pkg(2)[symmetric] by simp
qed

lemma truth_package_unforbidden:
  "validateExecutionTruth lc sha input = Some (TruthOk dv pkg) \<Longrightarrow> rk_overallRisk (tp_riskProfile pkg) \<noteq> R6_FORBIDDEN"
  by (erule truth_ok_dest, frule truthOfValidated_Ok(2), drule truthOfValidated_Ok(3))
    (auto simp: truthPackage_def Let_def riskProfile_forbidden truth_outcome_None list_ex_iff)

lemma validate_fresh:
  assumes "\<forall>t. sha t \<noteq> []"
  shows "(\<exists>c h vs st. validateExecutionSafety lc sha \<lparr>bi_normalizedPlan = plan, bi_executionTruthPackage = None\<rparr> =
      Some (SafetyOk c h vs st)) \<longleftrightarrow>
    (\<exists>dv pkg. validateExecutionTruth lc sha (PlanInput plan) = Some (TruthOk dv pkg) \<and>
       contractViolations (contractOf sha pkg) = [])"
proof -
  let ?input = "\<lparr>bi_normalizedPlan = plan, bi_executionTruthPackage = None\<rparr>"
  have same: "validateExecutionTruth lc sha (BuildInput (Some plan) None) = validateExecutionTruth lc sha (PlanInput plan)"
    by (simp add: validateExecutionTruth_def)
  show ?thesis
  proof (cases "validateExecutionTruth lc sha (PlanInput plan)")
    case None
    then show ?thesis by (simp add: validateExecutionSafety_def truthOfInput_def same)
  next
    case (Some r)
    show ?thesis
    proof (cases r)
      case (TruthFailed e dv)
      with Some show ?thesis by (simp add: validateExecutionSafety_def truthOfInput_def same)
    next
      case (TruthOk dv pkg)
      with Some have run: "validateExecutionTruth lc sha (PlanInput plan) = Some (TruthOk dv pkg)" by simp
      then have truth: "truthOfInput lc sha ?input = Some (Some (artifactOf pkg))"
        by (simp add: truthOfInput_def same)
      have "tp_executionTruthHash pkg \<noteq> []" by (rule truth_package_fields[OF run assms])
      then show ?thesis unfolding validate_artifact[OF truth] run by simp
    qed
  qed
qed

section \<open>A concrete plan\<close>

definition safe_plan :: NormalizedPlan where
  "safe_plan = sample_plan_of
     [sample_step ''a'' 0 ''preflight_check'' [] (sample_inputs []) ApprovalOPTIONAL,
      sample_step ''b'' 1 ''approval_gate'' [''a''] (sample_inputs []) ApprovalOPTIONAL]"

lemma safe_plan_errors: "dependencyErrors code_unit_compare safe_plan = Some (Some [''a'', ''b''], [])"
  by code_simp

lemma safe_plan_signals:
  "list_all (\<lambda>s. \<not> forbiddenSignal s \<and> \<not> unknown_signal s \<and> \<not> unsafe_effect s \<and> \<not> asks_approval s)
     (map signalOf (np_steps safe_plan))"
  by code_simp

definition safe_dv :: SequentialDependencyValidationResult where
  "safe_dv = \<lparr>sd_ok = True, sd_planId = ''p'', sd_graph = Some (buildDependencyGraph safe_plan),
     sd_orderedStepIds = Some [''a'', ''b''], sd_dependencyGraphFingerprint = Some ''h'', sd_errors = [],
     sd_warnings = []\<rparr>"

lemma safe_plan_validated:
  "validateSequentialDependencies code_unit_compare (\<lambda>t. ''h'') (PlanValue safe_plan) = Some safe_dv"
  by (simp add: validate_plan_value safe_plan_errors safe_dv_def createDependencyGraphFingerprint_def
      hashPayloadDeterministically_def) (simp add: safe_plan_def sample_plan_of_def)

lemma safe_plan_risk: "rk_overallRisk (riskProfileOf (map signalOf (np_steps safe_plan)) safe_dv) = R0_SAFE"
  by code_simp

lemma safe_plan_truth:
  obtains pkg where "validateExecutionTruth code_unit_compare (\<lambda>t. ''h'') (PlanInput safe_plan) = Some (TruthOk safe_dv pkg)"
    and "rk_overallRisk (tp_riskProfile pkg) = R0_SAFE"
proof -
  have "truth_outcome (map signalOf (np_steps safe_plan)) safe_dv = None"
    using safe_plan_signals by (simp add: truth_outcome_None no_fingerprint_def safe_dv_def list_all_iff)
  then obtain pkg where pkg: "truthOfValidated code_unit_compare (\<lambda>t. ''h'') safe_plan safe_dv = TruthOk safe_dv pkg"
    using truthOfValidated_accepts[where lc = code_unit_compare and sha = "\<lambda>t. ''h''" and plan = safe_plan and dv = safe_dv]
    by blast
  show thesis
  proof (rule that)
    show "validateExecutionTruth code_unit_compare (\<lambda>t. ''h'') (PlanInput safe_plan) = Some (TruthOk safe_dv pkg)"
      by (simp add: validateExecutionTruth_def safe_plan_validated pkg)
    show "rk_overallRisk (tp_riskProfile pkg) = R0_SAFE"
      unfolding truthOfValidated_Ok(3)[OF pkg] truthPackage_def Let_def using safe_plan_risk by simp
  qed
qed

section \<open>Properties\<close>

text \<open>C24 (safe_plan_end_to_end): for a digest that never gives the empty string, execution safety lets a
  plan through without a supplied package exactly when execution truth authorizes it below high risk and
  no step runs in production, lacks a known rollback capability or is critically sensitive.\<close>

theorem safe_plan_end_to_end:
  assumes "\<forall>t. sha t \<noteq> []"
  shows "(\<exists>c h vs st. validateExecutionSafety lc sha \<lparr>bi_normalizedPlan = plan, bi_executionTruthPackage = None\<rparr> =
      Some (SafetyOk c h vs st)) \<longleftrightarrow>
    (\<exists>dv pkg. validateExecutionTruth lc sha (PlanInput plan) = Some (TruthOk dv pkg) \<and>
       rk_overallRisk (tp_riskProfile pkg) < R4_HIGH) \<and>
    (\<forall>step \<in> set (np_steps plan). \<not> asks_approval (signalOf step))"
proof -
  have "contractViolations (contractOf sha pkg) = [] \<longleftrightarrow>
      rk_overallRisk (tp_riskProfile pkg) < R4_HIGH \<and> (\<forall>step \<in> set (np_steps plan). \<not> asks_approval (signalOf step))"
    if run: "validateExecutionTruth lc sha (PlanInput plan) = Some (TruthOk dv pkg)" for dv pkg
  proof (rule truth_package_fields[OF run assms])
    fix p
    assume p: "planOfInput (PlanInput plan) = Some p" "rk_stepSignals (tp_riskProfile pkg) = map signalOf (np_steps p)"
      "\<not> governance_blocks pkg" "ge_requiredApprovals (tp_governanceEnvelope pkg) = [] \<longleftrightarrow>
      (\<forall>step \<in> set (np_steps p). \<not> asks_approval (signalOf step)) \<and>
      rk_overallRisk (tp_riskProfile pkg) \<notin> {R4_HIGH, R5_CRITICAL}"
    have "rk_overallRisk (tp_riskProfile pkg) \<noteq> R6_FORBIDDEN"
      using truth_package_unforbidden[OF run] by simp
    then have "rk_overallRisk (tp_riskProfile pkg) < R4_HIGH \<longleftrightarrow> rk_overallRisk (tp_riskProfile pkg) \<notin> {R4_HIGH, R5_CRITICAL}"
      by (cases "rk_overallRisk (tp_riskProfile pkg)") (simp_all add: less_RiskLevel_def)
    moreover have "effect_unrecoverable pkg \<Longrightarrow> \<exists>step \<in> set (np_steps p). asks_approval (signalOf step)"
      by (auto simp: effect_unrecoverable_def p(2) list_ex_iff asks_approval_def)
    ultimately show ?thesis using p(1,3,4) by (auto simp: violations_Nil approval_needed_def)
  qed
  then show ?thesis unfolding validate_fresh[OF assms] by blast
qed

theorem safe_plan_end_to_end_witness:
  "\<exists>c h vs st. validateExecutionSafety code_unit_compare (\<lambda>t. ''h'')
     \<lparr>bi_normalizedPlan = safe_plan, bi_executionTruthPackage = None\<rparr> = Some (SafetyOk c h vs st)"
proof (rule safe_plan_end_to_end[THEN iffD2])
  obtain pkg where "validateExecutionTruth code_unit_compare (\<lambda>t. ''h'') (PlanInput safe_plan) = Some (TruthOk safe_dv pkg)"
    "rk_overallRisk (tp_riskProfile pkg) = R0_SAFE" by (rule safe_plan_truth)
  then show "(\<exists>dv pkg. validateExecutionTruth code_unit_compare (\<lambda>t. ''h'') (PlanInput safe_plan) = Some (TruthOk dv pkg) \<and>
       rk_overallRisk (tp_riskProfile pkg) < R4_HIGH) \<and>
    (\<forall>step \<in> set (np_steps safe_plan). \<not> asks_approval (signalOf step))"
    using safe_plan_signals by (auto simp: less_RiskLevel_def list_all_iff)
qed simp

text \<open>On a supplied package the validator always returns; it gives the violation
  of the first guard that fails, and otherwise accepts exactly when governance does not block, no
  approval is needed and no effectful plan has a step without known rollback, and then seals the contract
  with its hash.\<close>

lemma safety_verdict_exact:
  "\<exists>r. validateExecutionSafety lc sha \<lparr>bi_normalizedPlan = plan, bi_executionTruthPackage = Some artifact\<rparr> = Some r \<and>
     (case packageOf artifact of
        Inl violation \<Rightarrow> r = SafetyFailed None None [violation] BLOCKED
      | Inr pkg \<Rightarrow>
          (if governance_blocks pkg \<or> effect_unrecoverable pkg \<or> approval_needed pkg
           then \<exists>v vs. r = SafetyFailed (Some (sealedContract lc sha pkg))
             (Some (hashExecutionSafetyContract lc sha (contractOf sha pkg))) (v # vs)
             (if governance_blocks pkg \<or> effect_unrecoverable pkg then FROZEN else APPROVAL_REQUIRED)
           else r = SafetyOk (sealedContract lc sha pkg) (hashExecutionSafetyContract lc sha (contractOf sha pkg)) []
             (if autonomy_capped pkg then RESTRICTED else SAFE)))"
proof -
  have truth: "truthOfInput lc sha \<lparr>bi_normalizedPlan = plan, bi_executionTruthPackage = Some artifact\<rparr> = Some (Some artifact)"
    by (simp add: truthOfInput_def)
  show ?thesis
  proof (cases "packageOf artifact")
    case (Inr pkg)
    then show ?thesis unfolding validate_artifact[OF truth] contract_state
      using violations_Nil[of sha pkg] by (auto simp: neq_Nil_conv)
  qed (simp add: validate_artifact[OF truth])
qed

text \<open>The state a contract is put in, in order of severity; blocked and
  rollback-required contracts are always reported as frozen, so these two states never arise.\<close>

lemma safety_state_exact:
  "xs_executionSafetyState (contractOf sha pkg) =
     (if governance_blocks pkg \<or> effect_unrecoverable pkg then FROZEN
      else if approval_needed pkg then APPROVAL_REQUIRED
      else if autonomy_capped pkg then RESTRICTED
      else SAFE) \<and>
   xs_executionSafetyState (contractOf sha pkg) \<notin> {BLOCKED, ROLLBACK_REQUIRED, DISPUTED}"
  by (simp add: contract_state)

text \<open>The rollback capability of a plan is that of its last step
  without known rollback, and otherwise partial as soon as one step is partial; the rollback always
  inherits the approvals, containment and autonomy of forward execution.\<close>

lemma rollback_capability_last_wins:
  "rb_rollbackCapability (enforceRollbackSafety sha pkg) =
     (case filter unrecoverable (rk_stepSignals (tp_riskProfile pkg)) of
        [] \<Rightarrow> if list_ex (\<lambda>s. sg_rollbackCapability s = RollbackPartial) (rk_stepSignals (tp_riskProfile pkg))
              then RollbackPartial else RollbackFull
      | bad # bads \<Rightarrow> sg_rollbackCapability (last (bad # bads))) \<and>
   rb_governanceInherited (enforceRollbackSafety sha pkg)"
  by (simp add: foldl_mergeCapability rollback_inherits(1))

text \<open>The replay check accepts a contract exactly when the hash stored in it
  is that of the contract rebuilt from the package; it returns the contract as given, so its other
  fields, the state included, are not compared.\<close>

lemma replay_trusts_stored_hash:
  "(replayValidateExecutionSafety lc sha plan artifact contract = Some (SafetyOk accepted h vs st)) \<longleftrightarrow>
     (\<exists>pkg. packageOf artifact = Inr pkg \<and> h = hashExecutionSafetyContract lc sha (contractOf sha pkg)) \<and>
     xs_executionSafetyHash contract = Some h \<and> accepted = contract \<and> vs = [] \<and>
     st = xs_executionSafetyState contract"
  unfolding replay_supplied by (cases "packageOf artifact") auto

text \<open>C27 (transition_guards_bypassed): a direct transition to the safe state is refused exactly from the
  blocked state and, without their clearances, from the approval-required, frozen and disputed states;
  but two accepted transitions lead from every state to the safe one in every context.\<close>

theorem transition_guards_bypassed:
  "(safety_step context s SAFE \<longleftrightarrow>
      (case s of
         BLOCKED \<Rightarrow> False
       | APPROVAL_REQUIRED \<Rightarrow> js_default False (tc_approvalCleared context)
       | FROZEN \<Rightarrow> js_default False (tc_governanceCleared context)
       | DISPUTED \<Rightarrow> js_default False (tc_governanceCleared context) \<and> js_default False (tc_replayValidated context)
       | _ \<Rightarrow> True)) \<and>
   (\<exists>t. safety_step context s t \<and> safety_step context t SAFE)"
proof
  have "safety_step context s RESTRICTED" "safety_step context RESTRICTED SAFE"
    by (simp_all add: safety_step_iff validateExecutionSafetyTransition_def)
  then show "\<exists>t. safety_step context s t \<and> safety_step context t SAFE" by blast
qed (cases s; simp add: safety_step_iff validateExecutionSafetyTransition_def)

end
