(* ===== verification/SimulationProperties.thy ===== *)
theory SimulationProperties
  imports SimulationFacts
begin

text \<open>
  What the simulation promises: when it is ready, that a predicted step has no side effects, and what its derived
  hash commits to.
\<close>

section \<open>Properties\<close>

text \<open>C10 (simulation_readiness_exact): the simulation returns exactly when every step can be read and hashed; it is blocked when
  the lineage is not intact or an upstream stage refused the plan, partial when some step is not predictable,
  and else succeeds exactly when every rollback is planned.  It is ready when lineage and upstream agree and a plan whose
  steps are all predictable has its rollbacks planned; so a missing rollback stops a plan only
  while no step is blocked.\<close>

theorem simulation_readiness_exact:
  "map_option (\<lambda>(r, ws). smr_status r) (orchestrateSimulation lc sha input) =
     (if all_simulable input then Some (simulation_status input) else None) \<and>
   map_option smd_ready (buildSimulationReadiness lc sha input) =
     (if all_simulable input then Some (simulation_ready input) else None)"
proof (cases "orchestrateSimulation lc sha input")
  case None
  then show ?thesis using orchestrate_None[of lc sha input] by (simp add: buildSimulationReadiness_def)
next
  case (Some p)
  obtain r ws where p: "p = (r, ws)" by (cases p)
  have "all_simulable input" using Some orchestrate_None[of lc sha input] by simp
  moreover have "smr_status r = simulation_status input" by (rule run_status[OF Some[unfolded p]])
  moreover have "simulation_status input = SimSuccess \<or> simulation_status input = SimPartial \<longleftrightarrow> simulation_ready input"
    by (auto simp: simulation_status_def simulation_ready_def)
  ultimately show ?thesis by (simp add: Some p buildSimulationReadiness_def)
qed

text \<open>C9 (predictions_free_of_effects): the result has one entry per step, in the order of the plan, which is predicted only when
  the adapter of its tool serves the mode, is side-effect free and the inputs of the step name no side effect; every
  blocked operation belongs to a step that is not predicted, or to the governance block.\<close>

theorem predictions_free_of_effects:
  assumes "orchestrateSimulation lc sha input = Some (r, ws)"
  shows "list_all2 (\<lambda>step res. ssr_stepId res = ns_id step \<and> ssr_toolId res = step_tool step \<and>
       (ssr_status res = StepPredicted \<longleftrightarrow> predictable (mode_of input) (registry_of input) step))
     (np_steps (sbi_normalizedPlan input)) (smr_predictedSteps r) \<and>
   (\<forall>b \<in> set (smr_blockedOperations r).
     (bso_category b = ''governance-block'' \<and> \<not> upstream_ok input) \<or>
     (\<exists>step \<in> set (np_steps (sbi_normalizedPlan input)). bso_stepId b = ns_id step \<and>
        \<not> predictable (mode_of input) (registry_of input) step))"
proof (rule orchestrate_Some[OF assms], intro conjI ballI)
  fix trace h ts
  let ?steps = "np_steps (sbi_normalizedPlan input)"
  assume r: "r = simulationResult lc sha input trace h"
    and ts: "list_all2 (traces (mode_of input) (registry_of input)) ?steps ts"
    and fields: "sit_predictedSteps trace = map stt_result ts" "sit_blockedOperations trace = concat (map stt_blocked ts)"
  have steps: "smr_predictedSteps r = map stt_result ts" by (simp add: r simulationResult_def Let_def fields)
  show "list_all2 (\<lambda>step res. ssr_stepId res = ns_id step \<and> ssr_toolId res = step_tool step \<and>
       (ssr_status res = StepPredicted \<longleftrightarrow> predictable (mode_of input) (registry_of input) step)) ?steps (smr_predictedSteps r)"
    unfolding steps list_all2_map2 by (rule list_all2_mono[OF ts]) (simp add: traces_def)
  fix b
  assume "b \<in> set (smr_blockedOperations r)"
  then have "b \<in> set (gsb_blockedOperations (bridge_of input)) \<or> (\<exists>t \<in> set ts. b \<in> set (stt_blocked t))"
    by (simp add: r simulationResult_def Let_def blocked_of_def fields)
  then show "(bso_category b = ''governance-block'' \<and> \<not> upstream_ok input) \<or>
     (\<exists>step \<in> set ?steps. bso_stepId b = ns_id step \<and> \<not> predictable (mode_of input) (registry_of input) step)"
  proof
    assume "b \<in> set (gsb_blockedOperations (bridge_of input))"
    then show ?thesis
      by (simp add: bridge_of_def buildGovernanceSimulationBridge_def bridge_blocked_def upstream_ok_def split: if_splits)
  next
    assume "\<exists>t \<in> set ts. b \<in> set (stt_blocked t)"
    then obtain t where t: "t \<in> set ts" "b \<in> set (stt_blocked t)" by blast
    then obtain step where step: "step \<in> set ?steps" "traces (mode_of input) (registry_of input) step t"
      using ts by (metis in_set_conv_nth list_all2_conv_all_nth)
    have "stt_blocked t \<noteq> []" using t(2) by auto
    then have "bso_stepId b = ns_id step \<and> \<not> predictable (mode_of input) (registry_of input) step"
      using step(2) t(2) by (simp add: traces_def)
    with step(1) show ?thesis by blast
  qed
qed


section \<open>A concrete simulation\<close>

text \<open>A step the planner adapter serves, and one whose tool has no adapter.\<close>

definition simulated_step :: "string \<Rightarrow> int \<Rightarrow> string \<Rightarrow> NormalizedPlanStep" where
  "simulated_step i idx tool = (sample_step i idx ''preview'' [] [] ApprovalOPTIONAL)
     \<lparr>ns_sourceId := Some i, ns_action := JObj [(''tool'', JStr tool), (''operation'', JStr ''preview'')]\<rparr>"

definition simulated_plan :: NormalizedPlan where
  "simulated_plan = sample_plan_of [simulated_step ''a'' 0 ''planner'', simulated_step ''b'' 1 ''deploy'']"

lemma simulated_plan_facts:
  "list_all simulable (np_steps simulated_plan)" "plan_values_wf simulated_plan"
  "map (predictable ModeSimulation (createSimulationAdapterRegistry DEFAULT_ADAPTERS)) (np_steps simulated_plan) = [True, False]"
  "map ns_id (np_steps simulated_plan) = [''a'', ''b'']"
  by code_simp+

definition simulation_sample :: "VersionedReplayArtifact \<Rightarrow> ExecutionCompatibilityContract \<Rightarrow> SimulationBuildInput" where
  "simulation_sample artifact contract =
     \<lparr>sbi_normalizedPlan = simulated_plan, sbi_executionTruthPackage = audited_truth,
      sbi_executionCompatibilityContract = contract, sbi_versionedReplayArtifact = artifact,
      sbi_mode = None, sbi_adapterRegistry = None\<rparr>"

lemma simulation_sample_runs: "\<exists>r ws. orchestrateSimulation lc sha (simulation_sample a c) = Some (r, ws)"
proof -
  have "orchestrateSimulation lc sha (simulation_sample a c) \<noteq> None"
    using simulated_plan_facts(1) by (simp only: orchestrate_None) (simp add: all_simulable_def simulation_sample_def)
  then show ?thesis by (cases "orchestrateSimulation lc sha (simulation_sample a c)") auto
qed

theorem predictions_free_of_effects_witness:
  "\<exists>a c r ws. orchestrateSimulation code_unit_compare marked (simulation_sample a c) = Some (r, ws) \<and>
     map (\<lambda>res. (ssr_stepId res, ssr_status res)) (smr_predictedSteps r) = [(''a'', StepPredicted), (''b'', StepBlocked)]"
proof (rule sample_artifact)
  fix input and r :: VersionedReplayReadinessResult and a p
  let ?sample = "simulation_sample a (vbi_executionCompatibilityContract input)"
  obtain q ws where run: "orchestrateSimulation code_unit_compare marked ?sample = Some (q, ws)"
    using simulation_sample_runs by blast
  have steps: "np_steps (sbi_normalizedPlan ?sample) = [simulated_step ''a'' 0 ''planner'', simulated_step ''b'' 1 ''deploy'']"
    by (simp add: simulation_sample_def simulated_plan_def sample_plan_of_def)
  have outcome: "s = StepBlocked" if "s \<noteq> StepPredicted" for s using that by (cases s) auto
  have "map (\<lambda>res. (ssr_stepId res, ssr_status res)) (smr_predictedSteps q) = [(''a'', StepPredicted), (''b'', StepBlocked)]"
    using predictions_free_of_effects[OF run, THEN conjunct1] simulated_plan_facts(3,4) outcome
    unfolding steps
    by (auto simp: list_all2_Cons1 simulated_plan_def sample_plan_of_def simulation_sample_def mode_of_def registry_of_def)
  with run show ?thesis by (intro exI conjI)
qed



end
