(* ===== verification/Spec2Isabelle.thy ===== *)
theory Spec2Isabelle
  imports AdmissionPipeline PlanStoreProperties ReplayBindingProperties SafetyProperties SimulationProperties VersioningProperties
begin

text \<open>
  \<^bold>\<open>The planning services of the console.\<close>  A plan proposed to the console passes through a chain of
  services under \<open>src/services/planning\<close> before anything is executed.  This development models the
  chain and proves what each stage promises and how the stages fit together.

  \<^bold>\<open>The stages, in the order the code runs them.\<close>
  \<^item> Structural validation (\<open>validation/validation-orchestrator.ts\<close>, \<open>validation/passes\<close>,
    \<open>validation/structural\<close>, \<open>schema\<close>): a proposed document is parsed, normalized to the canonical plan
    schema and put through ten passes.  Its result holds the validated plan, evidence and hashes.
  \<^item> Normalization (\<open>normalization/normalization-orchestrator.ts\<close>): a validated plan gets canonical step
    ids, default and enum values, hashes and a frozen copy.
  \<^item> Dependency validation (\<open>dependencies/sequential-dependency-validator.ts\<close>): the dependency graph of
    the normalized plan, its cycles, a stable order, gates, branches and policies.
  \<^item> Execution truth (\<open>execution-truth\<close>): risk signals and scores, governance and autonomy envelopes, the
    package an authorized plan gets, and the check that replays it.
  \<^item> Execution compatibility (\<open>execution-compatibility\<close>): approval, rollback and compensation contracts,
    authority and escalation graphs, the compatibility hash.
  \<^item> Execution safety (\<open>execution-safety\<close>): policy, governance, autonomy, rollback, approval, escalation and
    freeze engines, the safety contract, its replay and its state machine.
  \<^item> Replay audit (\<open>replay-audit\<close>): the snapshot of a compatible plan is checked for mutable fields and against
    contract and truth package; replay snapshot, proof, audit artifact, event chain and evidence reference are
    hashed into one another.
  \<^item> Versioning (\<open>versioning\<close>): an audited plan becomes a versioned artifact that is migrated along registered
    steps to a target schema version, with lineage, migration proof and events.
  \<^item> Simulation (\<open>simulation\<close>): lineage, governance posture and rollbacks of the versioned plan are checked and
    each step is predicted by an adapter that has no side effects, or blocked; status and hash of the run.
  \<^item> Admission (\<open>admission\<close>): governance metadata, runtime, trust zone and simulation decide whether the plan may
    be executed now; the decision with its reasons, supervision, revocation and hash.
  \<^item> Replay binding (\<open>replay-binding\<close>): the admitted plan is bound to the runtime it was admitted on; the binding is
    certified or not, and revoked for one of five causes.
  \<^item> Plan store (\<open>services/plans\<close>, with the execution gate and the snapshot of \<open>services/validation\<close>): plans are
    persisted with their steps, lifecycle events, validation bindings and audit trails; a plan moves along a transition
    matrix, passes a gate before it is queued or executed, can be cancelled and frozen, and is replayed, checked for
    integrity and prepared for recovery.  It stands beside the chain: its plans carry the result of a validation.
  \<^item> Everything above is hashed with \<open>services/contracts\<close> (deterministic JSON) and recorded with
    \<open>services/audit\<close> (evidence hash, append-only ledger).

  \<^bold>\<open>Which theory models what.\<close>
  \<^item> \<open>JsPrelude\<close>: the JSON-shaped values, \<open>Map\<close>, \<open>Set\<close>, \<open>sort\<close> and number rendering of the language.
  \<^item> \<open>CanonicalJson\<close>: \<open>deterministicJson.ts\<close>, \<open>canonicalSerializer.ts\<close>, \<open>payloadHasher.ts\<close>,
    \<open>deterministic-serializer.ts\<close>; \<open>AuditLedger\<close>: \<open>evidenceHashing.ts\<close>, \<open>immutableAuditLedger.ts\<close>.
  \<^item> \<open>PlanTypes\<close>: \<open>contracts/plan-types.ts\<close>, \<open>step-types.ts\<close>, \<open>validation-types.ts\<close> and the
    normalization types.
  \<^item> \<open>Digraph\<close>: finite graphs and reachability; \<open>DfsScan\<close>, \<open>CycleWalk\<close>: the depth-first searches the code
    writes four times.
  \<^item> \<open>DependencyGraph\<close>, \<open>DependencyCycles\<close>, \<open>DependencyOrder\<close>, \<open>DependencyGates\<close>,
    \<open>DependencyValidator\<close>: the files of \<open>dependencies\<close>.  \<open>DependencyContract\<close> states what they promise,
    \<open>DependencyProperties\<close> holds the properties and \<open>DependencySample\<close> the plans their witnesses run on.
  \<^item> \<open>PlanSchema\<close>: the files of \<open>schema\<close>; \<open>PlanStructure\<close>: \<open>validation/structural\<close> and \<open>validation/passes\<close>;
    \<open>PlanStructureFacts\<close>: traversal, depth and pass lemmas; \<open>PlanValidation\<close>: the orchestrator;
    \<open>PlanContract\<close>: the structural contract; \<open>ValidationProperties\<close>: the properties.
  \<^item> \<open>PlanNormalization\<close>, \<open>NormalizationProperties\<close>: the files of \<open>normalization\<close>.
  \<^item> \<open>TruthRisk\<close>, \<open>TruthValidator\<close>, \<open>TruthProperties\<close>: the files of \<open>execution-truth\<close>.
  \<^item> \<open>ExecutionCompatibility\<close>, \<open>CompatibilityProperties\<close>: the files of \<open>execution-compatibility\<close>.
  \<^item> \<open>ExecutionSafety\<close>, \<open>SafetyProperties\<close>: the files of \<open>execution-safety\<close>.
  \<^item> \<open>ReplayAudit\<close>: the files of \<open>replay-audit\<close>; \<open>ReplayAuditFacts\<close>: its checks and what each hashed text
    determines; \<open>ReplayAuditProperties\<close>: the audit contract and the properties.
  \<^item> \<open>Versioning\<close>: the files of \<open>versioning\<close>; \<open>VersioningFacts\<close>: hasher, chain and engine; \<open>VersioningRuns\<close>: the
    versioning contract and the runs; \<open>VersioningProperties\<close>: the properties.
  \<^item> \<open>Simulation\<close>: the files of \<open>simulation\<close>; \<open>SimulationFacts\<close>: what a run promises step by step and what its
    hashed text determines; \<open>SimulationProperties\<close>: the properties.
  \<^item> \<open>Admission\<close>: the files of \<open>admission\<close>; \<open>AdmissionFacts\<close>: its rules as an ordered list and the decision the first
    broken one gives; \<open>AdmissionProperties\<close>: the properties.
  \<^item> \<open>ReplayBinding\<close>: the files of \<open>replay-binding\<close>; \<open>ReplayBindingFacts\<close>: the failures by rule, certification and
    revocation; \<open>ReplayBindingProperties\<close>: the properties.  \<open>HashedContent\<close>: the interface of hashed contents.
  \<^item> \<open>PlanEligibility\<close>: the gate and the snapshot of \<open>services/validation\<close>; \<open>PlanStore\<close>, \<open>PlanLifecycle\<close>,
    \<open>PlanInspection\<close>: the files of \<open>services/plans\<close> (store and creation; updates, transitions, cancellation and
    freezing; replay, integrity and recovery); \<open>PlanStoreFacts\<close>: the store invariant and how the operations run;
    \<open>PlanStoreRuns\<close>: the commands, the stores they reach and what a command does to a plan; \<open>PlanStoreWrites\<close>: the
    exported raw writes next to the commands and what holds whatever is written;
    \<open>PlanStoreProperties\<close>: the properties.
  \<^item> \<open>JsonText\<close>: a reader for canonical texts that inverts \<open>JSON.stringify\<close>, so that equal texts (and, without a
    collision, equal digests) give equal values; every statement about what a hash commits to rests on it.
  \<^item> \<open>Pipeline\<close>, \<open>AuditPipeline\<close>, \<open>AdmissionPipeline\<close> and this theory: the stages in sequence.

  \<^bold>\<open>How the code is read.\<close>  An interface or object type is a record, a string union a datatype, an optional
  field an option, and a result union a datatype of its own.  A thrown error is a left value or a
  \<open>None\<close>; \<open>None\<close> also stands for a call that does not return, which happens in one place, the ancestor
  recursion of the dependency gates on a cyclic plan.  A string is the list of its code units below
  256.  \<open>deepFreeze\<close> is the identity on values and is not modelled.  A migration step is a
  function of the artifact it is given: one that changes its argument in place is outside the model, as is a step id
  \<open>__proto__\<close>.  An optional flag that is only read for its truth
  is a boolean.

  \<^bold>\<open>Parameters.\<close>  \<open>sha\<close> is SHA-256 in hexadecimal; \<open>lc\<close> is \<open>localeCompare\<close>, about which properties
  assume at most that it is a comparator that separates different strings (locale \<open>collation\<close>);
  \<open>parse\<close> and \<open>inspected\<close> are the zod parser and the schema inspection, third-party code whose
  documented guarantee is \<open>schema_conforms\<close>; the tool registry is read from files and is a list.

  \<^bold>\<open>Interfaces.\<close>  The locale \<open>comparator\<close> states what \<open>sort\<close> asks of a comparator (interpreted on the default
  order of code units), \<open>collation\<close> extends it by antisymmetry, \<open>finite_digraph\<close> states that an adjacency
  function stays in a finite vertex set and proves termination and reachability of the searches once;
  it is interpreted on the dependency graph and its reverse, the step graph of the schema validator,
  both directions of the graph index, and the edge lists of the compatibility graphs.  \<open>migration_steps\<close> is the
  contract the migration engine relies on (a step succeeds, leads where it says, keeps the anchors and the rest of
  the artifact); it is interpreted on the registered migrations, and a chain that runs to its end is proved in it.
  \<open>hashed_content\<close> states that a content is rendered so that its text determines it, and proves once that equal
  hashes mean equal contents up to a collision; it is interpreted on the contents of simulation, admission and replay
  binding.  Trust zones are an instance of \<open>linorder\<close>, in the order of \<open>TRUST_ZONE_ORDER\<close>.

  \<^bold>\<open>Fuel.\<close>  Searches over a map that may be cyclic carry fuel, always a number of calls that the vertex
  set bounds (\<open>graph_fuel\<close>, \<open>index_fuel\<close>, \<open>plan_fuel\<close>, \<open>edge_fuel\<close>).  Lemmas show that it is enough
  (\<open>validation_always_returns\<close>, \<open>cycle_searches_agree\<close>) or exactly when it is not
  (\<open>validator_returns_iff_acyclic\<close>), so that no theorem rests on running out of it.

  \<^bold>\<open>Groups of properties.\<close>  For every stage there is a declarative contract and a theorem that the code accepts
  exactly the inputs that meet it, a safety theorem about what an accepted input guarantees, the exact
  error of the others, and the invariants, bounds and termination facts its parts need.  Composition is
  stated below by \<open>validated_plans_normalize\<close> and by \<open>normalized_plans_are_certified\<close> (audit, versioning, simulation,
  admission and replay binding in one run, over \<open>normalized_plans_are_versioned\<close>) and by the end-to-end theorems of truth, compatibility and safety, which start at a normalized plan and run
  dependency validation themselves.  The theorems on evidence, migration proofs, simulations, admissions and bindings say
  what a hash commits to, for a digest that has no collision among the texts of the runs compared.  The plan store is a
  state machine: its properties hold in every store that commands reach from the empty one (\<open>plan_reachable\<close>), by
  rule induction over an invariant that every operation keeps.  The service also exports \<open>updatePlanState\<close>,
  \<open>appendLifecycleEvent\<close> and \<open>appendPlanAudit\<close>, which check nothing (a test takes a queued plan to FAILED that way):
  \<open>reachable_store_sound\<close>, \<open>lifecycle_follows_matrix\<close> and \<open>freeze_always_possible\<close> hold over stores reached by commands and
  these raw writes (\<open>write_reachable\<close>) and say what a raw write changes; \<open>transition_decided\<close>,
  \<open>blocked_until_rebound\<close> and \<open>frozen_never_recoverable\<close> are about stores reached by commands alone.  The accessors of \<open>planStore.ts\<close> below them
  (\<open>writePlan\<close> and the like) are only called through these operations, and a raw update is given no new id or draft.

  \<^bold>\<open>Not modelled.\<close>  The zod schemas (\<open>schema/canonical-plan.ts\<close>, \<open>canonical-step.ts\<close>) are declarations for a
  library.  \<open>detectValidationDrift\<close> runs the plan draft validator of \<open>services/validation\<close>, which is not
  modelled: the store takes its results as inputs.  The server, the user interface, the JavaScript console services and the other rule engines of
  the repository are outside the planning chain.
\<close>

text \<open>C1 (validated_plans_normalize): the phases fit together.  A plan that structural validation
  accepted, none of whose authored ids has the form of one of its canonical ids, is normalized without
  error; the dependency graph of the normalized plan is acyclic, dependency validation returns on it and
  orders the steps as they were authored.\<close>

theorem validated_plans_normalize:
  assumes "validatePlanStructure lc sha inspected parse tools input context = Some r" and "vr_ok r"
    and "collation lc" and "\<And>data. parse input = Inr data \<Longrightarrow> schema_conforms data"
    and "cs_stepId ` set (cp_steps (ev_normalizedPlan (vr_evidence r))) \<inter>
      set (canonical_ids sha (cp_planId (ev_normalizedPlan (vr_evidence r))) 0 (cp_steps (ev_normalizedPlan (vr_evidence r)))) = {}"
  shows "\<exists>s dv. orchestratePlanNormalization lc sha (normalizationInput r version) = Inr s \<and>
    acyclic (dep_rel (buildDependencyGraph (ps_normalizedPlan s))) \<and>
    validateSequentialDependencies lc sha (PlanValue (ps_normalizedPlan s)) = Some dv \<and>
    sd_orderedStepIds dv = Some (map ns_id (np_steps (ps_normalizedPlan s)))"
proof -
  let ?plan = "ev_normalizedPlan (vr_evidence r)"
  note facts = accepted_result[OF assms(1-4)] and ids = accepted_ids_ok[OF assms]
  obtain s where s: "orchestratePlanNormalization lc sha (normalizationInput r version) = Inr s"
    using orchestrate_ok[OF accepted_inputs_agree[OF assms(1-4)]] by blast
  have steps: "np_steps (ps_normalizedPlan s) = stepsOf sha ?plan"
    using orchestrate_dest(2)[OF s] by (simp add: normalizationInput_def)
  have ac: "acyclic (plan_rel ?plan)" using facts(1) by (simp add: step_graph_ok_def plan_wf_def)
  have before: "stands_before ?plan a b" if "(a, b) \<in> plan_rel ?plan" for a b
    using that facts(3) by (auto simp: structure_contract_def step_rules_def plan_rel_def)
  have "comparator lc" using assms(3) by (simp add: collation_def)
  with normalized_order[OF ids steps _ ac before] normalized_acyclic[OF ids ac steps] s show ?thesis by blast
qed

theorem validated_plans_normalize_witness:
  "\<exists>r s dv. validatePlanStructure code_unit_compare test_sha JNull (\<lambda>_. Inr valid_plan) [''tool''] valid_input None = Some r \<and>
     orchestratePlanNormalization code_unit_compare test_sha (normalizationInput r ''4.2.0'') = Inr s \<and>
     validateSequentialDependencies code_unit_compare test_sha (PlanValue (ps_normalizedPlan s)) = Some dv"
proof -
  obtain r where r: "validatePlanStructure code_unit_compare test_sha JNull (\<lambda>_. Inr valid_plan) [''tool''] valid_input None = Some r"
    "vr_ok r" "ev_normalizedPlan (vr_evidence r) = valid_plan" using valid_run by blast
  have "canonical_ids test_sha (cp_planId valid_plan) 0 (cp_steps valid_plan) =
      [''step-001-01234567'', ''step-002-01234567'']" by code_simp
  moreover have "cs_stepId ` set (cp_steps valid_plan) = {''a'', ''b''}"
    by (simp add: valid_plan_def authored_plan_def authored_step_def)
  ultimately have "cs_stepId ` set (cp_steps (ev_normalizedPlan (vr_evidence r))) \<inter>
      set (canonical_ids test_sha (cp_planId (ev_normalizedPlan (vr_evidence r))) 0 (cp_steps (ev_normalizedPlan (vr_evidence r)))) = {}"
    unfolding r(3) by simp
  from validated_plans_normalize[OF r(1,2) code_unit_collation.collation_axioms _ this, of "''4.2.0''"]
    valid_conforms r(1) show ?thesis by auto
qed

text \<open>The contract of a compatible plan that came out of normalization always passes
  the replay audit, whatever the steps were called when they were authored, because its ids are canonical.  The digest
  gives hexadecimal text.\<close>

lemma normalized_plans_are_auditable:
  assumes "orchestratePlanNormalization lc sha input = Inr s" and "hex_digest sha"
    and "validateExecutionCompatibility lc sha (compatibilityRequest (tp_executionTruthHash truth) (ps_normalizedPlan s) truth) =
      Some (CompatibilityOk c vs)"
  shows "rar_verdict (buildReplayAuditReadiness lc sha (auditInput (ps_normalizedPlan s) truth c)) = REPLAY_AUDIT_READY"
  by (rule normalized_ready) (fact assms)+

text \<open>A plan that came out of normalization and is compatible goes through the audit and
  the versioning: for every registered target version the result is ready, at that version, and its identity
  root names the truth package and the contract the plan was found compatible with.  The digest gives hexadecimal
  text.\<close>

lemma normalized_plans_are_versioned:
  assumes "orchestratePlanNormalization lc sha input = Inr s" and "hex_digest sha"
    and "validateExecutionCompatibility lc sha (compatibilityRequest (tp_executionTruthHash truth) (ps_normalizedPlan s) truth) =
      Some (CompatibilityOk c vs)"
    and "t \<in> set supported_versions"
  shows "\<exists>r a. buildVersionedReplayReadiness lc sha (versioningInput
      (buildReplayAuditReadiness lc sha (auditInput (ps_normalizedPlan s) truth c)) c (Some t)) = Some r \<and>
    vrr_ok r \<and> vrr_artifact r = Some a \<and> vra_version a = t \<and>
    irr_executionTruthHash (vra_immutableReplayIdentityRoot a) = xc_executionTruthHash c \<and>
    irr_executionCompatibilityHash (vra_immutableReplayIdentityRoot a) = xc_executionCompatibilityHash c"
proof -
  let ?input = "auditInput (ps_normalizedPlan s) truth c"
  let ?v = "versioningInput (buildReplayAuditReadiness lc sha ?input) c (Some t)"
  have contract: "rai_contract ?input = c" by (simp add: auditInput_def)
  have ready: "rar_verdict (buildReplayAuditReadiness lc sha ?input) = REPLAY_AUDIT_READY"
    by (rule normalized_ready[OF assms(1-3)])
  have "versioning_contract lc sha ?v"
    using audited_versioning_contract[OF ready, unfolded contract, OF contract_hash_kept[OF assms(3)], of "Some t"] assms(4)
    by simp
  then obtain r where r: "buildVersionedReplayReadiness lc sha ?v = Some r" "vrr_ok r" using contract_exact by blast
  from artifact_faithful[OF r] r show ?thesis
    by (auto simp: target_of_def versioningInput_def source_root_def buildImmutableReplayIdentityRoot_def)
qed

text \<open>C2 (normalized_plans_are_certified): the last stages fit together.  A plan that came out of normalization, is allowed and
  compatible, can be simulated and has its rollbacks planned goes through audit, versioning (to any registered
  version), simulation, admission and replay binding: the simulation is ready, and under governance that consents and a runtime
  at rest the plan is approved and its binding certified, without a failure and without a revocation.  The digest gives
  hexadecimal text.\<close>

theorem normalized_plans_are_certified:
  assumes "orchestratePlanNormalization lc sha input = Inr s" and "hex_digest sha"
    and "validateExecutionCompatibility lc sha (compatibilityRequest (tp_executionTruthHash truth) (ps_normalizedPlan s) truth) =
      Some (CompatibilityOk c vs)"
    and "ge_allowed (tp_governanceEnvelope truth)" and "t \<in> set supported_versions"
    and "list_all simulable (np_steps (ps_normalizedPlan s))" and "rollbacks_planned (ps_normalizedPlan s) c"
    and "consents g" and "at_rest m" and "fp \<noteq> []"
  shows "\<exists>r a d. buildVersionedReplayReadiness lc sha (versioningInput
      (buildReplayAuditReadiness lc sha (auditInput (ps_normalizedPlan s) truth c)) c (Some t)) = Some r \<and>
    vrr_artifact r = Some a \<and> vra_version a = t \<and>
    buildSimulationReadiness lc sha (simulationRequest (ps_normalizedPlan s) truth c a) = Some d \<and> smd_ready d \<and>
    (let admission = admissionRequest (ps_normalizedPlan s) truth c a (Some d) g m;
         admitted = buildAdmissionReadiness lc sha admission;
         bound = buildReplayBindingReadiness lc sha (bindingRequest admission admitted fp)
     in adr_decision (ads_result admitted) = APPROVED \<and>
        rct_certificationStatus (rbd_certification bound) = CertCERTIFIED \<and>
        rbd_revocation bound = None \<and> rbd_failures bound = [])"
proof -
  let ?plan = "ps_normalizedPlan s"
  let ?audit = "buildReplayAuditReadiness lc sha (auditInput ?plan truth c)"
  let ?v = "versioningInput ?audit c (Some t)"
  have sha: "\<forall>t. sha t \<noteq> []" using assms(2) by (simp add: hex_digest_def)
  have ready: "rar_verdict ?audit = REPLAY_AUDIT_READY" by (rule normalized_ready[OF assms(1-3)])
  have "versioning_contract lc sha ?v"
    using audited_versioning_contract[OF ready, unfolded audit_input_fields, OF contract_hash_kept[OF assms(3)], of "Some t"] assms(5)
    by simp
  then obtain r where r: "buildVersionedReplayReadiness lc sha ?v = Some r" "vrr_ok r" using contract_exact by blast
  obtain a where a: "vrr_artifact r = Some a" "artifact_of lc sha ?plan truth c a" "vra_version a = t"
    by (rule faithful_artifact_of[OF ready r]) simp
  have "upstream_allows truth c" using assms(4) compatible_flag[OF assms(3)] by (simp add: upstream_allows_def)
  then obtain d where d: "buildSimulationReadiness lc sha (simulationRequest ?plan truth c a) = Some d" "smd_ready d"
    by (rule request_simulated[OF artifact_brings(1)[OF a(2) sha] _ assms(6,7)])
  let ?admission = "admissionRequest ?plan truth c a (Some d) g m"
  have approved: "adr_decision (ads_result (buildAdmissionReadiness lc sha ?admission)) = APPROVED"
    by (rule request_approved[OF artifact_brings(2)[OF a(2) sha] assms(8,9)]) (use d(2) in simp)
  note certified = request_certified[OF approved artifact_brings(3)[OF a(2) sha] assms(9,10)]
  have "differs (bbi_expectedReplayBindingHash (bindingRequest admission adm fp)) h = False" for admission adm h
    by (simp add: bindingRequest_def differs_def)
  then show ?thesis
    by (intro exI[of _ r] exI[of _ a] exI[of _ d] conjI)
      (simp_all only: r a d Let_def binding_result approved certified certified(3)[unfolded certified(1)] binding_failure_if_def if_False append_Nil simp_thms)
qed

theorem normalized_plans_are_certified_witness:
  "\<exists>s c a d. orchestratePlanNormalization code_unit_compare test_sha auditable_input = Inr s \<and>
     rct_certificationStatus (rbd_certification (buildReplayBindingReadiness code_unit_compare test_sha
       (bindingRequest (admissionRequest (ps_normalizedPlan s) audited_truth c a (Some d) open_governance calm_runtime)
         (buildAdmissionReadiness code_unit_compare test_sha
           (admissionRequest (ps_normalizedPlan s) audited_truth c a (Some d) open_governance calm_runtime)) ''f''))) = CertCERTIFIED"
proof (rule gate_run)
  fix s c vs
  assume s: "orchestratePlanNormalization code_unit_compare test_sha auditable_input = Inr s"
    and run: "validateExecutionCompatibility code_unit_compare test_sha
      (compatibilityRequest (tp_executionTruthHash audited_truth) (ps_normalizedPlan s) audited_truth) = Some (CompatibilityOk c vs)"
  have version: "''4.2I'' \<in> set supported_versions" by (simp add: supported_versions_def)
  have allowed: "ge_allowed (tp_governanceEnvelope audited_truth)"
    by (simp add: audited_truth_def blank_truth_def truthPackage_def Let_def)
  have consent: "consents open_governance" "at_rest calm_runtime"
    by (simp_all add: consents_def open_governance_def at_rest_def calm_runtime_def runtime_unsettled_def epoch_mismatch_def)
  from normalized_plans_are_certified[OF s test_hex run allowed version gate_plan(1)[OF s] gate_plan(2)[OF s run] consent, of "''f''"] s
  show ?thesis unfolding Let_def by blast
qed

end
